(* ===== verification/Float64.thy ===== *)
theory Float64
  imports Complex_Main "HOL-Library.Log_Nat"
begin

text \<open>
  IEEE 754 binary64, the arithmetic of Go's \<open>float64\<close>, as an executable model.
  A finite double is the rational it denotes; every operation computes the exact rational
  result and rounds it to the nearest double, ties to even, with gradual underflow below
  \<open>2^-1022\<close> and overflow to an infinity at \<open>2^1024\<close>.  The two zeros are one value here
  (\<open>Fin 0\<close>): the modelled code compares doubles and stores them, and no comparison of Go
  tells the zeros apart.

  \<open>rnd\<close> is the rounding, proved monotone, odd, idempotent and within \<open>2^-53\<close> (relative)
  of its argument; \<open>f64\<close> is the type with the two infinities and NaN, instantiated in
  the library's syntactic classes so that the components read like the Go expressions they
  translate.  The comparison operators are Go's: false whenever an operand is NaN.
\<close>

section \<open>Rounding a rational to binary64\<close>

definition round_even :: "rat \<Rightarrow> int" where
  "round_even x =
     (let f = \<lfloor>x\<rfloor>; d = x - of_int f in
      if d < 1 / 2 then f else if 1 / 2 < d then f + 1 else if even f then f else f + 1)"

definition ilog2 :: "rat \<Rightarrow> int" where
  "ilog2 r = (if 1 \<le> r then int (floorlog 2 (nat \<lfloor>r\<rfloor>)) - 1
              else - int (floorlog 2 (nat (\<lceil>1 / r\<rceil> - 1))))"

definition quantum :: "rat \<Rightarrow> int" where
  "quantum r = max (ilog2 \<bar>r\<bar> - 52) (- 1074)"

definition rnd :: "rat \<Rightarrow> rat" where
  "rnd r = (if r = 0 then 0 else
     let u = 2 powi (quantum r) in of_int (round_even (r / u)) * u)"

lemma round_even_of_int [simp]: "round_even (of_int n) = n"
  by (simp add: round_even_def)

lemma round_even_0 [simp]: "round_even 0 = 0"
  by (simp add: round_even_def)

lemma round_even_cases:
  "round_even x = \<lfloor>x\<rfloor> \<and> x - of_int \<lfloor>x\<rfloor> \<le> 1/2 \<or> round_even x = \<lfloor>x\<rfloor> + 1 \<and> 1/2 \<le> x - of_int \<lfloor>x\<rfloor>"
  by (auto simp: round_even_def Let_def)

lemma round_even_dist: "\<bar>of_int (round_even x) - x\<bar> \<le> 1 / 2"
  using round_even_cases [of x] floor_correct [of x] by auto

lemma round_even_mono:
  assumes "x \<le> y" shows "round_even x \<le> round_even y"
proof (cases "\<lfloor>x\<rfloor> = \<lfloor>y\<rfloor>")
  case True
  then show ?thesis using assms by (auto simp: round_even_def Let_def)
next
  case False
  then have lt: "\<lfloor>x\<rfloor> + 1 \<le> \<lfloor>y\<rfloor>" using floor_mono [OF assms] by linarith
  have "round_even x \<le> \<lfloor>x\<rfloor> + 1" by (auto simp: round_even_def Let_def)
  moreover have "\<lfloor>y\<rfloor> \<le> round_even y" by (auto simp: round_even_def Let_def)
  ultimately show ?thesis using lt by linarith
qed

lemma round_even_minus: "round_even (- x) = - round_even x"
proof (cases "x = of_int \<lfloor>x\<rfloor>")
  case True
  then show ?thesis by (metis of_int_minus round_even_of_int)
next
  case False
  then have "of_int \<lfloor>x\<rfloor> < x" using floor_correct [of x] by (metis order_le_imp_less_or_eq)
  then have fl: "\<lfloor>- x\<rfloor> = - \<lfloor>x\<rfloor> - 1"
    using floor_correct [of x] by (intro floor_unique) auto
  show ?thesis
    by (auto simp: round_even_def Let_def fl)
qed

lemma floorlog2_bounds:
  assumes "0 < n"
  shows "2 ^ (floorlog 2 n - 1) \<le> n" "n < 2 ^ floorlog 2 n" "0 < floorlog 2 n"
  using floorlog_bounds [of n 2] floorlog_eq_zero_iff [of 2 n] assms by auto

lemma ilog2_bounds:
  assumes "0 < r"
  shows "2 powi (ilog2 r) \<le> r" "r < 2 powi (ilog2 r + 1)"
proof -
  have "2 powi (ilog2 r) \<le> r \<and> r < 2 powi (ilog2 r + 1)"
  proof (cases "1 \<le> r")
    case True
    define n where "n = nat \<lfloor>r\<rfloor>"
    define k where "k = floorlog 2 n"
    have n0: "0 < n" using True by (simp add: n_def)
    have nr: "of_nat n \<le> r" "r < of_nat n + 1"
      using True floor_correct [of r] by (auto simp: n_def)
    note b = floorlog2_bounds [OF n0, folded k_def]
    have "of_nat (2 ^ (k - 1)) \<le> (of_nat n :: rat)" using b(1) by (simp only: of_nat_le_iff)
    then have "2 ^ (k - 1) \<le> r" using nr(1) by (simp only: of_nat_power of_nat_numeral)
    moreover have "of_nat (n + 1) \<le> (of_nat (2 ^ k) :: rat)" using b(2) by (simp only: of_nat_le_iff)
    then have "r < 2 ^ k" using nr(2) by simp
    moreover have "ilog2 r = int (k - 1)" using True b(3) by (simp add: ilog2_def n_def k_def)
    moreover have "int (k - 1) + 1 = int k" using b(3) by simp
    ultimately show ?thesis by (simp only: power_int_of_nat)
  next
    case False
    define m where "m = nat (\<lceil>1 / r\<rceil> - 1)"
    define k where "k = floorlog 2 m"
    have q1: "1 < 1 / r" using False assms by simp
    have c1: "1 < \<lceil>1 / r\<rceil>" by (subst less_ceiling_iff) (use q1 in \<open>simp only: of_int_1\<close>)
    then have m0: "0 < m" and mi: "int m = \<lceil>1 / r\<rceil> - 1" unfolding m_def by linarith+
    have "(of_nat m :: rat) = of_int (\<lceil>1 / r\<rceil> - 1)" by (simp flip: mi)
    then have mr: "of_nat m < 1 / r" "1 / r \<le> of_nat m + 1"
      using ceiling_correct [of "1 / r"] by simp_all
    note b = floorlog2_bounds [OF m0, folded k_def]
    have "(of_nat (2 ^ (k - 1)) :: rat) \<le> of_nat m" using b(1) by (simp only: of_nat_le_iff)
    then have l: "2 ^ (k - 1) < 1 / r" using mr(1) by (simp only: of_nat_power of_nat_numeral)
    have "(of_nat (m + 1) :: rat) \<le> of_nat (2 ^ k)" using b(2) by (simp only: of_nat_le_iff)
    then have u: "1 / r \<le> 2 ^ k" using mr(2) by simp
    have e: "ilog2 r = - int k" using False by (simp add: ilog2_def m_def k_def)
    have "1 / 2 ^ k \<le> r" using u assms by (simp add: field_simps)
    moreover have "r < 1 / 2 ^ (k - 1)" using l assms by (simp add: field_simps)
    moreover have e1: "ilog2 r + 1 = - int (k - 1)" using e b(3) by simp
    moreover have "2 powi (ilog2 r) = (1 / 2 ^ k :: rat)"
      by (simp only: e power_int_minus power_int_of_nat inverse_eq_divide)
    moreover have "2 powi (ilog2 r + 1) = (1 / 2 ^ (k - 1) :: rat)"
      by (simp only: e1 power_int_minus power_int_of_nat inverse_eq_divide)
    ultimately show ?thesis by (simp only:)
  qed
  then show "2 powi (ilog2 r) \<le> r" "r < 2 powi (ilog2 r + 1)" by auto
qed

lemma powi2_less_iff [simp]: "(2 :: rat) powi a < 2 powi b \<longleftrightarrow> a < b"
  by (metis linorder_not_less one_less_numeral_iff power_int_increasing power_int_strict_increasing semiring_norm(76) order_less_imp_le)

lemma powi2_le_iff [simp]: "(2 :: rat) powi a \<le> 2 powi b \<longleftrightarrow> a \<le> b"
  using powi2_less_iff [of b a] by (simp only: not_less [symmetric])

lemma powi2_pos [simp]: "0 < (2 :: rat) powi a" "0 \<le> (2 :: rat) powi a" "(2 :: rat) powi a \<noteq> 0"
  by (simp_all add: zero_less_power_int)

lemma powi2_le_floor:
  assumes "2 powi a \<le> x" "x < (2 :: rat) powi b" shows "a < b"
  using le_less_trans [OF assms] by simp

lemma ilog2_eqI:
  assumes "2 powi e \<le> r" "r < 2 powi (e + 1)" shows "ilog2 r = e"
proof -
  have r: "0 < r" using assms(1) by (rule less_le_trans [OF powi2_pos(1)])
  have "e < ilog2 r + 1" "ilog2 r < e + 1"
    using powi2_le_floor [OF assms(1) ilog2_bounds(2) [OF r]]
      powi2_le_floor [OF ilog2_bounds(1) [OF r] assms(2)] by auto
  then show ?thesis by simp
qed

lemma ilog2_mono:
  assumes "0 < x" "x \<le> y" shows "ilog2 x \<le> ilog2 y"
  using powi2_le_floor [OF ilog2_bounds(1) [OF assms(1)] le_less_trans [OF assms(2) ilog2_bounds(2)]] assms
  by simp

lemma ilog2_powi [simp]: "ilog2 (2 powi e) = e"
  by (rule ilog2_eqI) simp_all

lemma quantum_mono: "0 < x \<Longrightarrow> x \<le> y \<Longrightarrow> quantum x \<le> quantum y"
  using ilog2_mono [of x y] by (auto simp: quantum_def)

lemma quantum_minus [simp]: "quantum (- x) = quantum x"
  by (simp add: quantum_def)

lemma rnd_0 [simp]: "rnd 0 = 0"
  by (simp add: rnd_def)

lemma rnd_minus: "rnd (- x) = - rnd x"
  by (simp add: rnd_def Let_def round_even_minus)

lemma rnd_eq: "rnd x = of_int (round_even (x / 2 powi (quantum x))) * 2 powi (quantum x)"
  by (simp add: rnd_def Let_def)

lemma rnd_le_grid: "x \<le> of_int m * 2 powi (quantum x) \<Longrightarrow> rnd x \<le> of_int m * 2 powi (quantum x)"
  using round_even_mono [of "x / 2 powi (quantum x)" "of_int m"]
  by (simp add: rnd_eq [of x] divide_le_eq)

lemma rnd_ge_grid: "of_int m * 2 powi (quantum x) \<le> x \<Longrightarrow> of_int m * 2 powi (quantum x) \<le> rnd x"
  using round_even_mono [of "of_int m" "x / 2 powi (quantum x)"]
  by (simp add: rnd_eq [of x] le_divide_eq)

lemma powi2_grid:
  assumes "q \<le> k" shows "(2 :: rat) powi k = of_int (2 ^ nat (k - q)) * 2 powi q"
proof -
  have "(2 :: rat) ^ nat (k - q) = 2 powi (k - q)" using assms by (simp add: power_int_def)
  then show ?thesis by (simp flip: power_int_add)
qed

lemma rnd_le_powi: "x \<le> 2 powi k \<Longrightarrow> quantum x \<le> k \<Longrightarrow> rnd x \<le> 2 powi k"
  using rnd_le_grid [of x "2 ^ nat (k - quantum x)"] by (simp only: powi2_grid [symmetric])

lemma rnd_ge_powi: "2 powi k \<le> x \<Longrightarrow> quantum x \<le> k \<Longrightarrow> 2 powi k \<le> rnd x"
  using rnd_ge_grid [of "2 ^ nat (k - quantum x)" x] by (simp only: powi2_grid [symmetric])

lemma rnd_nonneg: "0 \<le> x \<Longrightarrow> 0 \<le> rnd x"
  using rnd_ge_grid [of 0 x] by simp

lemma rnd_mono_pos:
  assumes "0 < x" "x \<le> y" shows "rnd x \<le> rnd y"
proof (cases "quantum x = quantum y")
  case True
  then show ?thesis
    using round_even_mono [of "x / 2 powi quantum y" "y / 2 powi quantum y"] assms
    by (simp add: rnd_eq divide_right_mono)
next
  case False
  with quantum_mono [OF assms] have lt: "quantum x < quantum y" by simp
  then have q: "quantum y = ilog2 y - 52" "ilog2 x < ilog2 y"
    using assms by (auto simp: quantum_def max_def split: if_splits)
  have "x \<le> 2 powi (ilog2 x + 1)" using ilog2_bounds(2) [OF assms(1)] by simp
  also have "\<dots> \<le> 2 powi (ilog2 y)" using q(2) by simp
  finally have "rnd x \<le> 2 powi (ilog2 y)" using lt q by (intro rnd_le_powi) auto
  also have "\<dots> \<le> rnd y" using assms q(1) by (intro rnd_ge_powi ilog2_bounds) auto
  finally show ?thesis .
qed

lemma rnd_mono:
  assumes "x \<le> y" shows "rnd x \<le> rnd y"
proof -
  consider "0 < x" | "x \<le> 0" "0 \<le> y" | "y < 0" by linarith
  then show ?thesis
  proof cases
    case 1
    then show ?thesis using assms by (rule rnd_mono_pos)
  next
    case 2
    then show ?thesis using rnd_nonneg [of "- x"] rnd_nonneg [of y] by (simp add: rnd_minus)
  next
    case 3
    then have "rnd (- y) \<le> rnd (- x)" using assms by (intro rnd_mono_pos) auto
    then show ?thesis by (simp add: rnd_minus)
  qed
qed

lemma rnd_err: "\<bar>rnd x - x\<bar> \<le> 2 powi (quantum x) / 2"
proof -
  define u :: rat where "u = 2 powi (quantum x)"
  have u: "0 < u" by (simp add: u_def)
  have "rnd x - x = (of_int (round_even (x / u)) - x / u) * u"
    using u by (simp add: rnd_eq u_def [symmetric] field_simps)
  then have "\<bar>rnd x - x\<bar> = \<bar>of_int (round_even (x / u)) - x / u\<bar> * u"
    using u by (simp add: abs_mult)
  also have "\<dots> \<le> 1 / 2 * u" using u by (intro mult_right_mono round_even_dist) auto
  finally show ?thesis by (simp add: u_def)
qed

lemma powi2_quantum_le:
  assumes "x \<noteq> 0" shows "2 powi (quantum x) \<le> \<bar>x\<bar> / 2 ^ 52 + 2 powi (- 1074)"
proof (cases "ilog2 \<bar>x\<bar> - 52 \<le> - 1074")
  case True
  then have "quantum x = - 1074" by (simp add: quantum_def)
  then show ?thesis by simp
next
  case False
  then have q: "quantum x = ilog2 \<bar>x\<bar> - 52" "0 < \<bar>x\<bar>" using assms by (auto simp: quantum_def)
  have "(2 :: rat) powi (ilog2 \<bar>x\<bar> - 52) = 2 powi (ilog2 \<bar>x\<bar>) / 2 ^ 52"
    by (simp add: power_int_diff)
  also have "\<dots> \<le> \<bar>x\<bar> / 2 ^ 52" using ilog2_bounds(1) [OF q(2)] by (intro divide_right_mono) auto
  finally show ?thesis using q by (simp add: add_increasing2)
qed

lemma rnd_err_rel: "\<bar>rnd x - x\<bar> \<le> \<bar>x\<bar> / 2 ^ 53 + 2 powi (- 1075)"
proof (cases "x = 0")
  case False
  have "(2 :: rat) powi (- 1075) = 2 powi (- 1074) / 2"
    using power_int_add [of "2 :: rat" "- 1075" 1] by simp
  then show ?thesis using rnd_err [of x] powi2_quantum_le [OF False] by simp
qed simp

lemma rnd_grid:
  assumes "x = of_int m * 2 powi q" "quantum x \<le> q" shows "rnd x = x"
proof -
  have e: "x = of_int (m * 2 ^ nat (q - quantum x)) * 2 powi (quantum x)"
    using powi2_grid [OF assms(2)] assms(1) by simp
  then have "x / 2 powi (quantum x) = of_int (m * 2 ^ nat (q - quantum x))"
    by (metis nonzero_mult_div_cancel_right powi2_pos(3))
  then show ?thesis using e by (simp only: rnd_eq [of x] round_even_of_int)
qed

lemma rnd_idem_pos:
  assumes "0 < x" shows "rnd (rnd x) = rnd x"
proof -
  define K where "K = max (ilog2 x + 1) (- 1074)"
  define m where "m = round_even (x / 2 powi (quantum x))"
  have s: "rnd x = of_int m * 2 powi (quantum x)" by (simp add: rnd_eq m_def)
  have q: "quantum x = max (ilog2 x - 52) (- 1074)" using assms by (simp add: quantum_def)
  have "x \<le> 2 powi (ilog2 x + 1)" using ilog2_bounds(2) [OF assms] by simp
  also have "\<dots> \<le> 2 powi K" by (simp add: K_def)
  finally have le: "rnd x \<le> 2 powi K" by (intro rnd_le_powi) (auto simp: q K_def)
  consider "rnd x = 0" | "rnd x = 2 powi K" | "0 < rnd x" "rnd x < 2 powi K"
    using le rnd_nonneg [of x] assms by fastforce
  then show ?thesis
  proof cases
    case 1
    then show ?thesis by simp
  next
    case 2
    have "quantum (2 powi K) \<le> K" by (simp add: quantum_def K_def)
    then show ?thesis using rnd_grid [of "2 powi K" 1 K] 2 by simp
  next
    case 3
    then have "ilog2 (rnd x) < K" using powi2_le_floor [OF ilog2_bounds(1) 3(2)] by simp
    then have "quantum (rnd x) \<le> quantum x" using 3 by (simp add: quantum_def [of "rnd x"] q K_def)
    then show ?thesis using rnd_grid [OF s] by blast
  qed
qed

lemma rnd_idem [simp]: "rnd (rnd x) = rnd x"
proof -
  consider "0 < x" | "x = 0" | "0 < - x" by linarith
  then show ?thesis
  proof cases
    case 3
    then show ?thesis using rnd_idem_pos [of "- x"] by (simp add: rnd_minus)
  qed (simp_all add: rnd_idem_pos)
qed

lemma rnd_of_int:
  assumes "\<bar>n\<bar> \<le> 2 ^ 53" shows "rnd (of_int n) = of_int n"
proof (cases "\<bar>n\<bar> = 2 ^ 53 \<or> n = 0")
  case True
  have "rnd (2 powi 53) = 2 powi 53" 
  proof (rule rnd_grid)
    show "2 powi 53 = of_int 1 * (2 :: rat) powi 53" by simp
    show "quantum (2 powi 53) \<le> 53"
      by (simp only: quantum_def ilog2_powi abs_of_pos [OF powi2_pos(1)])
  qed
  then have p: "rnd (2 ^ 53) = 2 ^ 53" by simp
  from True consider "n = 0" | "n = 2 ^ 53" | "n = - (2 ^ 53)" by linarith
  then show ?thesis by cases (use p in \<open>simp_all add: rnd_minus\<close>)
next
  case False
  then have "\<bar>n\<bar> < 2 ^ 53" using assms by simp
  then have "of_int \<bar>n\<bar> < (of_int (2 ^ 53) :: rat)" by (simp only: of_int_less_iff)
  then have "\<bar>of_int n :: rat\<bar> < 2 powi 53" by simp
  moreover have "0 < \<bar>of_int n :: rat\<bar>" using False by simp
  ultimately have "ilog2 \<bar>of_int n\<bar> < 53" using powi2_le_floor [OF ilog2_bounds(1)] by blast
  then have "quantum (of_int n) \<le> 0" by (simp add: quantum_def)
  then show ?thesis using rnd_grid [of "of_int n" n 0] by simp
qed

section \<open>The type of doubles\<close>

datatype f64 = NaN | PInf | NInf | Fin rat

definition fl :: "rat \<Rightarrow> f64" where
  "fl r = (let s = rnd r in if 2 ^ 1024 \<le> s then PInf else if s \<le> - (2 ^ 1024) then NInf else Fin s)"

abbreviation of_go_int :: "int \<Rightarrow> f64" where
  "of_go_int n \<equiv> fl (of_int n)"

instantiation f64 :: "{zero, one, uminus, plus, minus, times, inverse, abs, ord}"
begin

definition zero_f64 :: f64 where
  "0 = Fin 0"

definition one_f64 :: f64 where
  "1 = Fin 1"

fun uminus_f64 :: "f64 \<Rightarrow> f64" where
  "- NaN = NaN"
| "- PInf = NInf"
| "- NInf = PInf"
| "- (Fin a) = Fin (- a)"

fun plus_f64 :: "f64 \<Rightarrow> f64 \<Rightarrow> f64" where
  "Fin a + Fin b = fl (a + b)"
| "NaN + _ = NaN"
| "_ + NaN = NaN"
| "PInf + NInf = NaN"
| "NInf + PInf = NaN"
| "PInf + _ = PInf"
| "_ + PInf = PInf"
| "NInf + _ = NInf"
| "_ + NInf = NInf"

definition minus_f64 :: "f64 \<Rightarrow> f64 \<Rightarrow> f64" where
  "a - b = a + (- b :: f64)"

fun f64_inf :: "rat \<Rightarrow> f64" where
  "f64_inf s = (if s = 0 then NaN else if 0 < s then PInf else NInf)"

fun times_f64 :: "f64 \<Rightarrow> f64 \<Rightarrow> f64" where
  "Fin a * Fin b = fl (a * b)"
| "NaN * _ = NaN"
| "_ * NaN = NaN"
| "PInf * Fin b = f64_inf b"
| "NInf * Fin b = f64_inf (- b)"
| "Fin a * PInf = f64_inf a"
| "Fin a * NInf = f64_inf (- a)"
| "PInf * PInf = PInf"
| "PInf * NInf = NInf"
| "NInf * PInf = NInf"
| "NInf * NInf = PInf"

fun divide_f64 :: "f64 \<Rightarrow> f64 \<Rightarrow> f64" where
  "divide (Fin a) (Fin b) = (if b = 0 then f64_inf a else fl (a / b))"
| "divide NaN _ = NaN"
| "divide _ NaN = NaN"
| "divide (Fin a) _ = Fin 0"
| "divide PInf (Fin b) = (if b < 0 then NInf else PInf)"
| "divide NInf (Fin b) = (if b < 0 then PInf else NInf)"
| "divide _ _ = NaN"

definition inverse_f64 :: "f64 \<Rightarrow> f64" where
  "inverse a = divide 1 (a :: f64)"

fun abs_f64 :: "f64 \<Rightarrow> f64" where
  "abs NaN = NaN"
| "abs PInf = PInf"
| "abs NInf = PInf"
| "abs (Fin a) = Fin \<bar>a\<bar>"

fun less_eq_f64 :: "f64 \<Rightarrow> f64 \<Rightarrow> bool" where
  "Fin a \<le> Fin b \<longleftrightarrow> a \<le> b"
| "NaN \<le> (_ :: f64) \<longleftrightarrow> False"
| "(_ :: f64) \<le> NaN \<longleftrightarrow> False"
| "NInf \<le> (_ :: f64) \<longleftrightarrow> True"
| "(_ :: f64) \<le> PInf \<longleftrightarrow> True"
| "PInf \<le> (_ :: f64) \<longleftrightarrow> False"
| "(_ :: f64) \<le> NInf \<longleftrightarrow> False"

fun less_f64 :: "f64 \<Rightarrow> f64 \<Rightarrow> bool" where
  "Fin a < Fin b \<longleftrightarrow> a < b"
| "NaN < (_ :: f64) \<longleftrightarrow> False"
| "(_ :: f64) < NaN \<longleftrightarrow> False"
| "PInf < (_ :: f64) \<longleftrightarrow> False"
| "(_ :: f64) < NInf \<longleftrightarrow> False"
| "NInf < (_ :: f64) \<longleftrightarrow> True"
| "(_ :: f64) < PInf \<longleftrightarrow> True"

instance ..

end

text \<open>Go's \<open>==\<close> on doubles, and \<open>math.Round\<close> (half away from zero).\<close>

definition feq :: "f64 \<Rightarrow> f64 \<Rightarrow> bool" where
  "feq a b \<longleftrightarrow> a \<noteq> NaN \<and> a = b"

fun fround :: "f64 \<Rightarrow> f64" where
  "fround (Fin a) = Fin (if 0 \<le> a then of_int \<lfloor>a + 1 / 2\<rfloor> else - of_int \<lfloor>- a + 1 / 2\<rfloor>)"
| "fround x = x"

text \<open>A value a Go program can hold: a finite one is its own rounding and in range.\<close>

definition is64 :: "f64 \<Rightarrow> bool" where
  "is64 x = (case x of Fin r \<Rightarrow> rnd r = r \<and> \<bar>r\<bar> < 2 ^ 1024 | _ \<Rightarrow> True)"

definition finite64 :: "f64 \<Rightarrow> bool" where
  "finite64 x = (case x of Fin r \<Rightarrow> True | _ \<Rightarrow> False)"

text \<open>The rational a finite double denotes.\<close>

fun val :: "f64 \<Rightarrow> rat" where
  "val (Fin r) = r"
| "val _ = 0"

subsection \<open>Order\<close>

lemma f64_le_iff: "(x :: f64) \<le> y \<longleftrightarrow> x < y \<or> feq x y"
  by (cases x; cases y) (auto simp: feq_def)

lemma f64_less_imp_le: "(x :: f64) < y \<Longrightarrow> x \<le> y"
  by (simp add: f64_le_iff)

lemma f64_le_trans: "(x :: f64) \<le> y \<Longrightarrow> y \<le> z \<Longrightarrow> x \<le> z"
  by (cases x; cases y; cases z) auto

lemma f64_less_le_trans: "(x :: f64) < y \<Longrightarrow> y \<le> z \<Longrightarrow> x < z"
  by (cases x; cases y; cases z) auto

lemma f64_le_less_trans: "(x :: f64) \<le> y \<Longrightarrow> y < z \<Longrightarrow> x < z"
  by (cases x; cases y; cases z) auto

lemma f64_not_less: "\<not> (x :: f64) < y \<longleftrightarrow> y \<le> x \<or> x = NaN \<or> y = NaN"
  by (cases x; cases y) auto

lemma f64_not_le: "\<not> (x :: f64) \<le> y \<longleftrightarrow> y < x \<or> x = NaN \<or> y = NaN"
  by (cases x; cases y) auto

lemma f64_less_not_le: "(x :: f64) < y \<Longrightarrow> \<not> y \<le> x"
  by (cases x; cases y) auto

lemma f64_irrefl [simp]: "\<not> (x :: f64) < x"
  by (cases x) auto

lemma f64_pos_cases: "0 < (x :: f64) \<longleftrightarrow> x = PInf \<or> (\<exists>r. x = Fin r \<and> 0 < r)"
  by (cases x) (auto simp: zero_f64_def)

lemma f64_le0_cases: "(x :: f64) \<le> 0 \<longleftrightarrow> x = NInf \<or> (\<exists>r. x = Fin r \<and> r \<le> 0)"
  by (cases x) (auto simp: zero_f64_def)

subsection \<open>Rounded results\<close>

lemma fl_cases: "fl r = PInf \<and> 2 ^ 1024 \<le> rnd r \<or> fl r = NInf \<and> rnd r \<le> - (2 ^ 1024) \<or> fl r = Fin (rnd r) \<and> \<bar>rnd r\<bar> < 2 ^ 1024"
  by (auto simp: fl_def Let_def abs_less_iff)

lemma fl_not_NaN [simp]: "fl r \<noteq> NaN" "NaN \<noteq> fl r"
  by (auto simp: fl_def Let_def)

lemma is64_fl [simp]: "is64 (fl r)"
  using fl_cases [of r] by (auto simp: is64_def)

lemma fl_exact: "is64 (Fin r) \<Longrightarrow> fl r = Fin r"
  by (auto simp: is64_def fl_def Let_def abs_less_iff)

lemma fl_small: "\<bar>r\<bar> \<le> 2 ^ 1023 \<Longrightarrow> fl r = Fin (rnd r)"
proof -
  assume a: "\<bar>r\<bar> \<le> 2 ^ 1023"
  have q: "quantum (2 powi 1023) \<le> 1023"
    by (simp only: quantum_def ilog2_powi abs_of_pos [OF powi2_pos(1)])
  have p: "rnd (2 powi 1023) = 2 powi 1023"
    by (rule rnd_grid [of _ 1 1023]) (use q in auto)
  have "r \<le> 2 powi 1023" "- r \<le> 2 powi 1023" using a by auto
  then have "rnd r \<le> 2 powi 1023" "rnd (- r) \<le> 2 powi 1023"
    using rnd_mono p by metis+
  moreover have "(2 :: rat) powi 1023 < 2 powi 1024" by (simp only: powi2_less_iff)
  ultimately have "rnd r < 2 powi 1024" "rnd (- r) < 2 powi 1024" by linarith+
  then show ?thesis using fl_cases [of r] by (auto simp: rnd_minus)
qed

lemma fl_moderate: "\<bar>r\<bar> \<le> 2 ^ 60 \<Longrightarrow> fl r = Fin (rnd r)"
proof (rule fl_small)
  assume "\<bar>r\<bar> \<le> 2 ^ 60"
  also have "(2 :: rat) ^ 60 \<le> 2 ^ 1023" by (rule power_increasing) auto
  finally show "\<bar>r\<bar> \<le> 2 ^ 1023" .
qed

lemma rnd_err_moderate: "\<bar>rnd x - x\<bar> \<le> \<bar>x\<bar> / 2 ^ 53 + 1 / 2 ^ 70"
proof -
  have "(2 :: rat) powi (- 1075) \<le> 2 powi (- 70)" by (simp only: powi2_le_iff)
  also have "\<dots> = 1 / 2 ^ 70"
    by (simp only: power_int_minus power_int_numeral divide_inverse mult_1_left)
  finally show ?thesis by (rule order_trans [OF rnd_err_rel add_left_mono])
qed

lemma fl_mono: "r \<le> s \<Longrightarrow> fl r \<le> fl s"
  using rnd_mono [of r s] by (auto simp: fl_def Let_def)

lemma fl_of_int: "\<bar>n\<bar> \<le> 2 ^ 53 \<Longrightarrow> fl (of_int n) = Fin (of_int n)"
proof -
  assume a: "\<bar>n\<bar> \<le> 2 ^ 53"
  also have "(2 :: int) ^ 53 \<le> 2 ^ 1023" by (rule power_increasing) auto
  finally have "of_int \<bar>n\<bar> \<le> (of_int (2 ^ 1023) :: rat)" by (simp only: of_int_le_iff)
  then show ?thesis using fl_small [of "of_int n"] rnd_of_int [OF a] by simp
qed

lemma fl_0 [simp]: "fl 0 = 0"
  by (simp add: fl_def zero_f64_def)

lemma fl_1 [simp]: "fl 1 = 1"
  using fl_of_int [of 1] by (simp add: one_f64_def)

lemma fl_nonneg: "0 \<le> r \<Longrightarrow> 0 \<le> fl r"
  using fl_mono [of 0 r] by simp

lemma is64_0 [simp]: "is64 0" and is64_1 [simp]: "is64 1"
  using is64_fl [of 0] is64_fl [of 1] by auto

lemma is64_Fin_0 [simp]: "is64 (Fin 0)"
  by (simp add: is64_def)

lemma is64_special [simp]: "is64 NaN" "is64 PInf" "is64 NInf"
  by (simp_all add: is64_def)

lemma is64_uminus: "is64 x \<Longrightarrow> is64 (- x)"
  by (cases x) (auto simp: is64_def rnd_minus)

lemma f64_inf_not_Fin: "is64 (f64_inf s)"
  by simp

lemma is64_plus [simp]: "is64 (a + b)"
  by (cases a; cases b) auto

lemma is64_minus [simp]: "is64 (a - b)"
  by (simp add: minus_f64_def)

lemma is64_times [simp]: "is64 (a * b)"
  by (cases a; cases b) auto

lemma is64_divide [simp]: "is64 (a / b)"
  using is64_0 by (cases a; cases b) (auto simp: zero_f64_def)

lemma val_bound: "is64 x \<Longrightarrow> \<bar>val x\<bar> < 2 ^ 1024"
  by (cases x) (auto simp: is64_def)

subsection \<open>Evaluation\<close>

text \<open>
  The overflow test by exponent instead of by the 1024-bit number, and the floor of a closed
  fraction by integer division: with \<open>f64_eval\<close> the simplifier evaluates closed doubles.
\<close>

lemma floor_rat_numeral [simp]:
  "\<lfloor>numeral a / numeral b :: rat\<rfloor> = numeral a div numeral b"
  "\<lfloor>- (numeral a / numeral b) :: rat\<rfloor> = (- numeral a) div numeral b"
  "\<lfloor>1 / numeral b :: rat\<rfloor> = 1 div numeral b"
  "\<lfloor>- (1 / numeral b) :: rat\<rfloor> = (- 1) div numeral b"
  using floor_divide_of_int_eq [of "numeral a" "numeral b", where 'a = rat]
    floor_divide_of_int_eq [of "- numeral a" "numeral b", where 'a = rat]
    floor_divide_of_int_eq [of "1" "numeral b", where 'a = rat]
    floor_divide_of_int_eq [of "- 1" "numeral b", where 'a = rat]
  by simp_all

lemma fl_code [code]:
  "fl r = (let s = rnd r in
     if s \<noteq> 0 \<and> 1024 \<le> ilog2 \<bar>s\<bar> then (if 0 < s then PInf else NInf) else Fin s)"
proof -
  have iff: "1024 \<le> ilog2 x \<longleftrightarrow> 2 ^ 1024 \<le> x" if "0 < x" for x
  proof
    assume "1024 \<le> ilog2 x"
    then have "(2 :: rat) powi 1024 \<le> 2 powi (ilog2 x)" by (simp only: powi2_le_iff)
    then show "2 ^ 1024 \<le> x" using ilog2_bounds(1) [OF that] by simp
  next
    assume "2 ^ 1024 \<le> x"
    then have "2 powi 1024 \<le> x" by simp
    then have "(2 :: rat) powi 1024 < 2 powi (ilog2 x + 1)"
      using ilog2_bounds(2) [OF that] by (rule le_less_trans)
    then show "1024 \<le> ilog2 x" by (simp only: powi2_less_iff)
  qed
  have big: "(0 :: rat) < 2 ^ 1024" by (rule zero_less_power) simp
  consider "rnd r = 0" | "0 < rnd r" | "rnd r < 0" by linarith
  then show ?thesis
  proof cases
    case 1
    then show ?thesis using big by (simp only: fl_def Let_def) auto
  next
    case 2
    then show ?thesis using iff [of "rnd r"] big
      by (simp only: fl_def Let_def abs_of_pos) (auto simp del: power_numeral)
  next
    case 3
    then have "\<not> 2 ^ 1024 \<le> rnd r" using big by (meson less_trans not_less)
    then show ?thesis using 3 iff [of "- rnd r"] big
      by (simp only: fl_def Let_def abs_of_neg) (auto simp del: power_numeral)
  qed
qed

lemmas f64_eval = fl_code rnd_def quantum_def ilog2_def compute_floorlog round_even_def
  ceiling_def zero_f64_def one_f64_def minus_f64_def feq_def

lemma fl_5_percent: "fl (5 / 100) = Fin (3602879701896397 / 72057594037927936)"
  by (simp add: f64_eval)

subsection \<open>Signs and monotonicity of the operations\<close>

lemma f64_times_nonneg: "0 \<le> a \<Longrightarrow> 0 \<le> b \<Longrightarrow> finite64 a \<Longrightarrow> finite64 b \<Longrightarrow> 0 \<le> a * (b :: f64)"
  using fl_nonneg by (cases a; cases b) (auto simp: zero_f64_def finite64_def)

lemma f64_plus_nonneg: "0 \<le> a \<Longrightarrow> 0 \<le> b \<Longrightarrow> 0 \<le> a + (b :: f64)"
  using fl_nonneg by (cases a; cases b) (auto simp: zero_f64_def)

lemma f64_plus_mono:
  "a \<le> a' \<Longrightarrow> b \<le> b' \<Longrightarrow> finite64 a \<Longrightarrow> finite64 a' \<Longrightarrow> finite64 b \<Longrightarrow> finite64 b' \<Longrightarrow> a + b \<le> a' + (b' :: f64)"
  by (cases a; cases a'; cases b; cases b') (auto simp: finite64_def intro!: fl_mono add_mono)

lemma f64_le_plus:
  assumes "is64 a" "0 \<le> a" "0 \<le> b" shows "a \<le> a + (b :: f64)"
proof (cases "\<exists>r s. a = Fin r \<and> b = Fin s")
  case True
  then obtain r s where rs: "a = Fin r" "b = Fin s" by auto
  then have "fl r \<le> fl (r + s)" using assms by (intro fl_mono) (auto simp: zero_f64_def)
  then show ?thesis using rs assms fl_exact by auto
next
  case False
  then show ?thesis using assms by (cases a; cases b) (auto simp: zero_f64_def)
qed

lemma f64_plus_mono_nonneg:
  assumes "0 \<le> a" "a \<le> a'" "0 \<le> b" "b \<le> b'" shows "a + b \<le> a' + (b' :: f64)"
proof (cases "\<exists>r r' s s'. a = Fin r \<and> a' = Fin r' \<and> b = Fin s \<and> b' = Fin s'")
  case True
  then show ?thesis using assms by (auto intro!: fl_mono add_mono)
next
  case False
  have "a + b \<noteq> NaN" "a' + b' = PInf"
    using assms False by (cases a; cases b; cases a'; cases b'; auto simp: zero_f64_def)+
  then show ?thesis by (cases "a + b") auto
qed

lemma f64_not_NaN: "x \<le> y \<Longrightarrow> x \<noteq> NaN \<and> y \<noteq> NaN" "x < y \<Longrightarrow> x \<noteq> NaN \<and> y \<noteq> NaN" for x y :: f64
  by (cases x; cases y; auto)+

lemma f64_plus_not_NaN: "0 \<le> a \<Longrightarrow> 0 \<le> b \<Longrightarrow> a + b \<noteq> (NaN :: f64)"
  by (cases a; cases b) (auto simp: zero_f64_def)

lemma f64_refl: "x \<noteq> NaN \<Longrightarrow> x \<le> (x :: f64)"
  by (cases x) auto

lemma finite64_0 [simp]: "finite64 0" and finite64_1 [simp]: "finite64 1"
  by (simp_all add: finite64_def zero_f64_def one_f64_def)

lemma f64_01_not_NaN [simp]: "0 \<noteq> NaN" "NaN \<noteq> 0" "1 \<noteq> NaN" "NaN \<noteq> 1"
  by (simp_all add: zero_f64_def one_f64_def)

lemma f64_le_self_01 [simp]: "0 \<le> (0 :: f64)" "1 \<le> (1 :: f64)" "0 \<le> (1 :: f64)" "0 < (1 :: f64)"
  "\<not> 1 \<le> (0 :: f64)" "\<not> 1 < (0 :: f64)"
  by (simp_all add: zero_f64_def one_f64_def)

lemma f64_NaN_cmp [simp]: "\<not> x < NaN" "\<not> NaN < x" "\<not> x \<le> NaN" "\<not> NaN \<le> x" for x :: f64
  by (cases x; simp)+

lemma f64_NaN_arith [simp]:
  "x + NaN = NaN" "NaN + x = NaN" "x - NaN = NaN" "NaN - x = NaN" "x * NaN = NaN" "NaN * x = NaN"
  "x / NaN = NaN" "NaN / x = NaN" for x :: f64
  by (cases x; simp add: minus_f64_def)+

lemma f64_minus_le:
  assumes "is64 x" "x \<noteq> NaN" "0 \<le> y" "x - y \<noteq> NaN" shows "x - y \<le> (x :: f64)"
proof (cases "\<exists>r s. x = Fin r \<and> y = Fin s")
  case True
  then obtain r s where rs: "x = Fin r" "y = Fin s" by auto
  then have "fl (r + - s) \<le> fl r" using assms by (intro fl_mono) (auto simp: zero_f64_def)
  then show ?thesis using rs assms fl_exact by (auto simp: minus_f64_def)
next
  case False
  then show ?thesis using assms by (cases x; cases y) (auto simp: zero_f64_def minus_f64_def)
qed

end
