(* ===== verification/Prelude.thy ===== *)
theory Prelude
  imports Float64 "HOL-Library.AList" "HOL-Library.Multiset"
begin

text \<open>
  What every component shares: Go strings (byte lists) with the functions of package
  \<open>strings\<close> the code calls, Go maps as association lists with distinct keys, the order
  in which a \<open>range\<close> loop visits a map, and results that carry an error.

  Case mapping and trimming act on ASCII bytes and leave other bytes alone; the Go functions
  agree on ASCII strings, which is what sides, statuses, slugs and symbols are.

  Go leaves the order of a \<open>range\<close> over a map unspecified.  The model passes the order
  as a function \<open>rng\<close> on the map's entries; \<open>range_order rng\<close> says that it visits every
  entry exactly once.
\<close>

section \<open>Strings\<close>

type_synonym gostring = string

definition char_upper :: "char \<Rightarrow> char" where
  "char_upper c = (let n = of_char c :: nat in if 97 \<le> n \<and> n \<le> 122 then char_of (n - 32) else c)"

definition char_lower :: "char \<Rightarrow> char" where
  "char_lower c = (let n = of_char c :: nat in if 65 \<le> n \<and> n \<le> 90 then char_of (n + 32) else c)"

definition is_space :: "char \<Rightarrow> bool" where
  "is_space c = (let n = of_char c :: nat in n = 32 \<or> (9 \<le> n \<and> n \<le> 13))"

definition to_upper :: "gostring \<Rightarrow> gostring" where
  "to_upper = map char_upper"

definition to_lower :: "gostring \<Rightarrow> gostring" where
  "to_lower = map char_lower"

definition trim_by :: "(char \<Rightarrow> bool) \<Rightarrow> gostring \<Rightarrow> gostring" where
  "trim_by p s = rev (dropWhile p (rev (dropWhile p s)))"

definition trim_space :: "gostring \<Rightarrow> gostring" where
  "trim_space = trim_by is_space"

definition has_prefix :: "gostring \<Rightarrow> gostring \<Rightarrow> bool" where
  "has_prefix s p \<longleftrightarrow> take (length p) s = p"

definition has_suffix :: "gostring \<Rightarrow> gostring \<Rightarrow> bool" where
  "has_suffix s p \<longleftrightarrow> length p \<le> length s \<and> drop (length s - length p) s = p"

definition trim_prefix :: "gostring \<Rightarrow> gostring \<Rightarrow> gostring" where
  "trim_prefix s p = (if has_prefix s p then drop (length p) s else s)"

fun contains :: "gostring \<Rightarrow> gostring \<Rightarrow> bool" where
  "contains [] p \<longleftrightarrow> p = []"
| "contains (c # s) p \<longleftrightarrow> has_prefix (c # s) p \<or> contains s p"

definition equal_fold :: "gostring \<Rightarrow> gostring \<Rightarrow> bool" where
  "equal_fold a b \<longleftrightarrow> to_lower a = to_lower b"

lemma has_prefix_append [simp]: "has_prefix (p @ s) p"
  by (simp add: has_prefix_def)

lemma has_prefix_iff: "has_prefix s p \<longleftrightarrow> (\<exists>t. s = p @ t)"
  by (metis append_eq_conv_conj append_take_drop_id has_prefix_def)

lemma contains_iff: "contains s p \<longleftrightarrow> (\<exists>a b. s = a @ p @ b)"
proof (induction s)
  case (Cons c s)
  show ?case
  proof
    assume "contains (c # s) p"
    then consider "has_prefix (c # s) p" | "contains s p" by auto
    then show "\<exists>a b. c # s = a @ p @ b"
    proof cases
      case 1
      then show ?thesis by (metis append_Nil has_prefix_iff)
    next
      case 2
      then show ?thesis using Cons.IH by (metis append_Cons)
    qed
  next
    assume "\<exists>a b. c # s = a @ p @ b"
    then obtain a b where ab: "c # s = a @ p @ b" by blast
    show "contains (c # s) p"
    proof (cases a)
      case Nil
      then have "has_prefix (c # s) p" using ab by (auto simp: has_prefix_iff)
      then show ?thesis by simp
    next
      case (Cons x xs)
      then have "s = xs @ p @ b" using ab by simp
      then show ?thesis using Cons.IH by auto
    qed
  qed
qed auto

lemma trim_space_ends: "trim_space s = [] \<or> \<not> is_space (hd (trim_space s)) \<and> \<not> is_space (last (trim_space s))"
proof -
  let ?d = "dropWhile is_space s"
  have t: "trim_space s = rev (dropWhile is_space (rev ?d))" by (simp add: trim_space_def trim_by_def)
  show ?thesis
  proof (cases "trim_space s = []")
    case False
    then have ne: "dropWhile is_space (rev ?d) \<noteq> []" using t by simp
    then have "\<not> is_space (hd (dropWhile is_space (rev ?d)))" by (rule hd_dropWhile)
    then have l: "\<not> is_space (last (trim_space s))" using t ne by (simp add: last_rev)
    obtain ws where "rev ?d = ws @ dropWhile is_space (rev ?d)" by (metis takeWhile_dropWhile_id)
    then have "?d = trim_space s @ rev ws" using t by (metis rev_append rev_rev_ident)
    then have "hd (trim_space s) = hd ?d" "?d \<noteq> []" using False by auto
    then show ?thesis using l hd_dropWhile [of is_space s] by simp
  qed simp
qed

lemma dropWhile_hd: "s = [] \<or> \<not> p (hd s) \<Longrightarrow> dropWhile p s = s"
  by (cases s) auto

lemma trim_space_id: "s = [] \<or> \<not> is_space (hd s) \<and> \<not> is_space (last s) \<Longrightarrow> trim_space s = s"
  unfolding trim_space_def trim_by_def by (subst (1 2) dropWhile_hd) (auto simp: dropWhile_hd hd_rev)

lemma trim_space_idem [simp]: "trim_space (trim_space s) = trim_space s"
  using trim_space_ends trim_space_id by blast

section \<open>Maps\<close>

type_synonym ('k, 'v) gomap = "('k \<times> 'v) list"

definition mget :: "'v \<Rightarrow> ('k, 'v) gomap \<Rightarrow> 'k \<Rightarrow> 'v" where
  "mget z m k = (case map_of m k of None \<Rightarrow> z | Some v \<Rightarrow> v)"

definition mhas :: "('k, 'v) gomap \<Rightarrow> 'k \<Rightarrow> bool" where
  "mhas m k \<longleftrightarrow> map_of m k \<noteq> None"

definition mput :: "'k \<Rightarrow> 'v \<Rightarrow> ('k, 'v) gomap \<Rightarrow> ('k, 'v) gomap" where
  "mput = AList.update"

definition mdel :: "'k \<Rightarrow> ('k, 'v) gomap \<Rightarrow> ('k, 'v) gomap" where
  "mdel = AList.delete"

definition wf_map :: "('k, 'v) gomap \<Rightarrow> bool" where
  "wf_map m \<longleftrightarrow> distinct (map fst m)"

definition range_order :: "(('k \<times> 'v) list \<Rightarrow> ('k \<times> 'v) list) \<Rightarrow> bool" where
  "range_order rng \<longleftrightarrow> (\<forall>m. mset (rng m) = mset m)"

lemma wf_map_empty [simp]: "wf_map []"
  by (simp add: wf_map_def)

lemma wf_map_mput [simp]: "wf_map m \<Longrightarrow> wf_map (mput k v m)"
  by (simp add: wf_map_def mput_def distinct_update)

lemma wf_map_mdel [simp]: "wf_map m \<Longrightarrow> wf_map (mdel k m)"
  by (simp add: wf_map_def mdel_def distinct_delete)

lemma map_of_mput [simp]: "map_of (mput k v m) = (map_of m)(k \<mapsto> v)"
  by (simp add: mput_def update_conv')

lemma map_of_mdel [simp]: "map_of (mdel k m) = (map_of m)(k := None)"
  by (simp add: mdel_def delete_conv')

lemma mget_mput: "mget z (mput k v m) k' = (if k' = k then v else mget z m k')"
  by (simp add: mget_def)

lemma mget_mdel: "mget z (mdel k m) k' = (if k' = k then z else mget z m k')"
  by (simp add: mget_def)

lemma mhas_mput: "mhas (mput k v m) k' \<longleftrightarrow> k' = k \<or> mhas m k'"
  by (simp add: mhas_def)

lemma mhas_mdel: "mhas (mdel k m) k' \<longleftrightarrow> k' \<noteq> k \<and> mhas m k'"
  by (simp add: mhas_def)

lemma mhas_iff: "mhas m k \<longleftrightarrow> k \<in> fst ` set m"
  by (force simp: mhas_def map_of_eq_None_iff)

lemma dom_mput: "fst ` set (mput k v m) = insert k (fst ` set m)"
  by (simp add: mput_def dom_update)

lemma dom_mdel: "fst ` set (mdel k m) = fst ` set m - {k}"
  by (simp add: mdel_def delete_keys flip: set_map)

lemma length_wf_map: "wf_map m \<Longrightarrow> length m = card (fst ` set m)"
  by (metis distinct_card length_map list.set_map wf_map_def)

lemma wf_map_in_set: "wf_map m \<Longrightarrow> (k, v) \<in> set m \<longleftrightarrow> map_of m k = Some v"
  by (metis map_of_SomeD map_of_is_SomeI wf_map_def)

lemma set_mput: "wf_map m \<Longrightarrow> set (mput k v m) = insert (k, v) {e \<in> set m. fst e \<noteq> k}"
proof -
  assume wf: "wf_map m"
  have "e \<in> set (mput k v m) \<longleftrightarrow> e \<in> insert (k, v) {e \<in> set m. fst e \<noteq> k}" for e
    using wf wf_map_in_set [OF wf_map_mput [OF wf], of "fst e" "snd e" k v]
      wf_map_in_set [OF wf, of "fst e" "snd e"] by (cases e) auto
  then show ?thesis by blast
qed

lemma set_mdel: "wf_map m \<Longrightarrow> set (mdel k m) = {e \<in> set m. fst e \<noteq> k}"
  by (auto simp: mdel_def AList.delete_eq)

lemma mdel_mput_new: "map_of m k = None \<Longrightarrow> mdel k (mput k v m) = m"
  unfolding mput_def mdel_def by (induction m) (auto split: if_split_asm)

lemma length_mput_le: "length (mput k v m) \<le> Suc (length m)"
  unfolding mput_def by (induction m) auto

lemma range_order_id: "range_order id" and range_order_rev: "range_order rev"
  by (simp_all add: range_order_def)

lemma set_range_order: "range_order rng \<Longrightarrow> set (rng m) = set m"
  by (metis range_order_def set_mset_mset)

lemma length_range_order: "range_order rng \<Longrightarrow> length (rng m) = length m"
  by (metis range_order_def size_mset)

section \<open>Results that carry an error\<close>

text \<open>
  A Go function that returns \<open>(T, error)\<close> is a sum: \<open>Inl\<close> the error, \<open>Inr\<close> the value.
  A function that returns only \<open>error\<close> is \<open>None\<close> for nil.  \<open>first_err\<close> is the
  idiom \<open>if err := f(); err != nil \<open>{ return err }\<close>\<close> over a list of checks in order.
\<close>

fun first_err :: "'e option list \<Rightarrow> 'e option" where
  "first_err [] = None"
| "first_err (None # cs) = first_err cs"
| "first_err (Some e # cs) = Some e"

lemma first_err_None: "first_err cs = None \<longleftrightarrow> (\<forall>c \<in> set cs. c = None)"
  by (induction cs rule: first_err.induct) auto

definition ok_or :: "'a \<Rightarrow> 'e + 'a \<Rightarrow> 'a" where
  "ok_or z r = (case r of Inl _ \<Rightarrow> z | Inr v \<Rightarrow> v)"

section \<open>Decimal numbers\<close>

text \<open>\<open>%d\<close> of \<open>fmt.Sprintf\<close> and \<open>strconv.Itoa\<close>.\<close>

definition digit_char :: "nat \<Rightarrow> char" where
  "digit_char d = char_of (48 + d)"

fun nat_digits :: "nat \<Rightarrow> gostring" where
  "nat_digits n = (if n < 10 then [digit_char n] else nat_digits (n div 10) @ [digit_char (n mod 10)])"

declare nat_digits.simps [simp del]

definition itoa :: "int \<Rightarrow> gostring" where
  "itoa i = (if i < 0 then CHR ''-'' # nat_digits (nat (- i)) else nat_digits (nat i))"

definition digit_val :: "char \<Rightarrow> nat option" where
  "digit_val c = (let n = of_char c :: nat in if 48 \<le> n \<and> n \<le> 57 then Some (n - 48) else None)"

fun dec_acc :: "nat \<Rightarrow> gostring \<Rightarrow> nat option" where
  "dec_acc acc [] = Some acc"
| "dec_acc acc (c # cs) = (case digit_val c of None \<Rightarrow> None | Some d \<Rightarrow> dec_acc (10 * acc + d) cs)"

lemma digit_val_char [simp]: "d < 10 \<Longrightarrow> digit_val (digit_char d) = Some d"
  by (simp add: digit_val_def digit_char_def Let_def of_char_of)

lemma dec_acc_append: "dec_acc acc (xs @ ys) = Option.bind (dec_acc acc xs) (\<lambda>a. dec_acc a ys)"
  by (induction xs arbitrary: acc) (auto split: option.splits)

lemma dec_acc_digits: "dec_acc 0 (nat_digits n) = Some n"
proof (induction n rule: nat_digits.induct)
  case (1 n)
  then show ?case by (subst nat_digits.simps) (auto simp: dec_acc_append)
qed

lemma nat_digits_inject [simp]: "nat_digits m = nat_digits n \<longleftrightarrow> m = n"
  by (metis dec_acc_digits option.inject)

lemma nat_digits_not_Nil [simp]: "nat_digits n \<noteq> []" "[] \<noteq> nat_digits n"
  by (subst nat_digits.simps; simp)+

lemma itoa_inject: "0 \<le> i \<Longrightarrow> 0 \<le> j \<Longrightarrow> itoa i = itoa j \<longleftrightarrow> i = j"
  by (auto simp: itoa_def)

section \<open>Contracts of stateful components\<close>

text \<open>
  A component that keeps a map and whose operations each name the key they work on: an operation
  leaves every other key alone, so a run that never names a key leaves it alone.
\<close>

locale keyed_ops =
  fixes look :: "'s \<Rightarrow> 'k \<Rightarrow> 'v option"
    and step :: "'s \<Rightarrow> 'o \<Rightarrow> 's"
    and key :: "'o \<Rightarrow> 'k"
  assumes step_frame: "k \<noteq> key op \<Longrightarrow> look (step s op) k = look s k"
begin

lemma run_frame: "k \<notin> key ` set ops \<Longrightarrow> look (foldl step s ops) k = look s k"
  by (induction ops arbitrary: s) (auto simp: step_frame)

lemma run_changes: "look (foldl step s ops) k \<noteq> look s k \<Longrightarrow> k \<in> key ` set ops"
  using run_frame by metis

end

text \<open>A component whose operations keep an invariant, when their arguments are admissible.\<close>

locale guarded_ops =
  fixes step :: "'s \<Rightarrow> 'o \<Rightarrow> 's" and inv :: "'s \<Rightarrow> bool" and admissible :: "'o \<Rightarrow> bool"
  assumes step_inv: "inv s \<Longrightarrow> admissible op \<Longrightarrow> inv (step s op)"
begin

lemma run_inv: "inv s \<Longrightarrow> list_all admissible ops \<Longrightarrow> inv (foldl step s ops)"
  by (induction ops arbitrary: s) (auto intro: step_inv)

lemma run_prefix_inv:
  "inv s \<Longrightarrow> list_all admissible ops \<Longrightarrow> inv (foldl step s (take n ops))"
  by (rule run_inv) (auto simp: list_all_iff dest: in_set_takeD)

end

end
