(* ===== verification/Pred_Types.thy ===== *)
theory Pred_Types
  imports Prelude
begin

text \<open>
  The data of \<open>prediction/types\<close>: decisions and their outcomes, markets, positions, books,
  orders and redemptions, with the two methods of \<open>Market\<close> that read the resolution of a
  market, and the error values of the whole prediction subsystem.

  A Go \<open>time.Time\<close> is its Unix time in nanoseconds, the zero time is \<open>None\<close>.  An error is
  a constructor that carries the values its message prints; \<open>OtherErr\<close> is an error whose
  text comes from outside (HTTP, the database, the AI client).
\<close>

section \<open>Actions, decisions, outcomes\<close>

datatype action = ActionBuyYes | ActionBuyNo | ActionSell | ActionHold | ActionWait | ActionRedeem
  | OtherAction gostring

definition action_of :: "gostring \<Rightarrow> action" where
  "action_of s =
     (if s = ''buy_yes'' then ActionBuyYes else if s = ''buy_no'' then ActionBuyNo
      else if s = ''sell'' then ActionSell else if s = ''hold'' then ActionHold
      else if s = ''wait'' then ActionWait else if s = ''redeem'' then ActionRedeem
      else OtherAction s)"

fun action_str :: "action \<Rightarrow> gostring" where
  "action_str ActionBuyYes = ''buy_yes''"
| "action_str ActionBuyNo = ''buy_no''"
| "action_str ActionSell = ''sell''"
| "action_str ActionHold = ''hold''"
| "action_str ActionWait = ''wait''"
| "action_str ActionRedeem = ''redeem''"
| "action_str (OtherAction s) = s"

datatype (plugins only: code size) gate_err =
    PriceOutside f64 f64 f64 | SellPriceOutside f64
  | OrderUsdNotPositive | OrderUsdAboveMax f64 f64
  | ConfidenceBelowMin int int | EdgeBelowMin f64 f64
  | OpenMarketsAtMax int int | ExposureAboveMax gostring f64 f64 f64
  | DailyVolumeAboveMax f64 f64 f64
  | SellSizeNotPositive | NoOpenPosition | SellExceedsPosition f64 f64
  | UnknownAction action

datatype (plugins only: code size) ledger_err =
    InvalidBuy f64 f64 | InsufficientCash f64 f64
  | InvalidSell f64 f64 | InsufficientShares f64 f64 | NoPositionForToken gostring

datatype (plugins only: code size) venue_err =
    InvalidOrder | BookUnavailable | MidUnavailable
  | BuyDoesNotCross f64 | SellDoesNotCross f64 | BuyBelowMid f64 f64 | SellAboveMid f64 f64
  | EmptyTokenID | EmptyOrderID | EmptyConditionID | NoRedeemablePosition gostring

datatype (plugins only: code size) engine_err =
    InvalidAction action | MarketSlugRequired | SizeRequiredForBuy | SizeRequiredForSell
  | LimitPriceNotUnit | NoJSONFound | BadDecisionJSON
  | StaticFetchFailed "gostring list" | AIClientMissing

datatype (plugins only: code size) trader_err =
    MissingTokenForSell | NoOpenPositionForToken gostring | NoMarkPrice gostring
  | MissingTokenID gostring | LimitPriceNotPositive action | TraderUnknownAction action
  | PositionNotFound | NoConditionID | AlreadyRunning

datatype (plugins only: code size) perr =
    OtherErr gostring | GateErr gate_err | LedgerErr ledger_err | VenueErr venue_err
  | EngineErr engine_err | TraderErr trader_err
  | DecisionErr nat perr | OrderBookErr perr | AICallFailed perr
  | WrapErr gostring perr | Panic gostring

text \<open>The text of \<open>ExecutionOutcome.Message\<close>: empty, an error's, or one of the fixed forms.\<close>

datatype (plugins only: code size) message =
    NoMsg | ErrMsg perr | RedeemSubmitted | SignedNotPosted gostring action f64 f64
  | FilledMsg f64 | PostedAwaitingFill

record decision =
  d_MarketSlug :: gostring
  d_TokenID :: gostring
  d_Action :: action
  d_SizeUsd :: f64
  d_LimitPrice :: f64
  d_Confidence :: int
  d_EdgePct :: f64
  d_Reasoning :: gostring

record execution_outcome =
  eo_MarketSlug :: gostring
  eo_Action :: action
  eo_Status :: gostring
  eo_Message :: message
  eo_OrderID :: gostring
  eo_FillUsd :: f64
  eo_PreviewWire :: gostring

record limit_order_req =
  lr_TokenID :: gostring
  lr_Side :: gostring
  lr_Price :: f64
  lr_Size :: f64
  lr_NegRisk :: bool
  lr_MarketSlug :: gostring
  lr_Outcome :: gostring
  lr_CycleNumber :: int
  lr_DecisionAction :: gostring
  lr_Reasoning :: gostring

text \<open>\<open>OrderResult.Error\<close> is a string in Go; \<open>None\<close> is the empty one.\<close>

record order_result =
  or_OrderID :: gostring
  or_FilledShares :: f64
  or_FilledUsd :: f64
  or_Status :: gostring
  or_Error :: "perr option"
  or_PreviewWire :: gostring

record venue_order =
  vo_OrderID :: gostring
  vo_TokenID :: gostring
  vo_MarketID :: gostring
  vo_Side :: gostring
  vo_Price :: f64
  vo_OriginalSize :: f64
  vo_SizeMatched :: f64
  vo_Status :: gostring
  vo_CreatedAt :: gostring

record order_status =
  os_OrderID :: gostring
  os_SizeMatched :: f64
  os_OriginalSize :: f64
  os_Status :: gostring
  os_Terminal :: bool

definition empty_decision :: decision where
  "empty_decision = \<lparr>d_MarketSlug = '''', d_TokenID = '''', d_Action = OtherAction '''', d_SizeUsd = 0,
     d_LimitPrice = 0, d_Confidence = 0, d_EdgePct = 0, d_Reasoning = ''''\<rparr>"

definition empty_order_result :: order_result where
  "empty_order_result = \<lparr>or_OrderID = '''', or_FilledShares = 0, or_FilledUsd = 0, or_Status = '''',
     or_Error = None, or_PreviewWire = ''''\<rparr>"

section \<open>Markets, positions, books\<close>

record market =
  m_Venue :: gostring
  m_ID :: gostring
  m_Slug :: gostring
  m_Question :: gostring
  m_ConditionID :: gostring
  m_EndDate :: "int option"
  m_Closed :: bool
  m_NegRisk :: bool
  m_YesTokenID :: gostring
  m_NoTokenID :: gostring
  m_Volume24h :: f64
  m_Liquidity :: f64
  m_OutcomePrices :: "f64 list"

definition WinningOutcome :: "market \<Rightarrow> gostring" where
  "WinningOutcome m =
     (if 2 \<le> length (m_OutcomePrices m) then
        (if fl (99 / 100) \<le> m_OutcomePrices m ! 0 then ''YES''
         else if fl (99 / 100) \<le> m_OutcomePrices m ! 1 then ''NO'' else '''')
      else '''')"

definition PayoutPerShare :: "market \<Rightarrow> gostring \<Rightarrow> f64 \<times> bool" where
  "PayoutPerShare m outcome =
     (let winner = WinningOutcome m in
      if winner = '''' then (0, False) else if winner = outcome then (1, True) else (0, True))"

record outcome_position =
  op_TokenID :: gostring
  op_MarketSlug :: gostring
  op_Outcome :: gostring
  op_Shares :: f64
  op_AvgCost :: f64
  op_MidPrice :: f64

record book_level =
  lv_Price :: f64
  lv_Size :: f64

record order_book =
  ob_TokenID :: gostring
  ob_Bids :: "book_level list"
  ob_Asks :: "book_level list"
  ob_Mid :: f64

record market_filter =
  mf_Tag :: gostring
  mf_Closed :: "bool option"
  mf_Limit :: int
  mf_Keywords :: "gostring list"

record redeemable_position =
  rp_ConditionID :: gostring
  rp_MarketSlug :: gostring
  rp_Outcome :: gostring
  rp_Shares :: f64
  rp_NegRisk :: bool

record redeem_result =
  rr_ConditionID :: gostring
  rr_Status :: gostring
  rr_TxHash :: gostring

section \<open>Lemmas\<close>

lemma action_of_str: "action_of (action_str a) = (case a of OtherAction s \<Rightarrow> action_of s | _ \<Rightarrow> a)"
  by (cases a) (simp_all add: action_of_def)

lemma action_str_of [simp]: "action_str (action_of s) = s"
  by (simp add: action_of_def)

lemma WinningOutcome_range: "WinningOutcome m \<in> {''YES'', ''NO'', ''''}"
  by (simp add: WinningOutcome_def)

lemma PayoutPerShare_range: "PayoutPerShare m oc \<in> {(0, False), (0, True), (1, True)}"
  by (simp add: PayoutPerShare_def Let_def)

text \<open>
  once a market is resolved (an outcome price of at least 0.99), exactly one of the two
  outcomes pays one dollar per share and the other pays nothing; while it is not resolved both
  report that the payout is unknown.
\<close>

theorem payout_exclusive:
  "PayoutPerShare m ''YES'' = (0, False) \<and> PayoutPerShare m ''NO'' = (0, False) \<and> WinningOutcome m = ''''
   \<or> PayoutPerShare m ''YES'' = (1, True) \<and> PayoutPerShare m ''NO'' = (0, True) \<and> WinningOutcome m = ''YES''
   \<or> PayoutPerShare m ''YES'' = (0, True) \<and> PayoutPerShare m ''NO'' = (1, True) \<and> WinningOutcome m = ''NO''"
  using WinningOutcome_range [of m] by (auto simp: PayoutPerShare_def)

end
