(* ===== verification/Risk_Gate.thy ===== *)
theory Risk_Gate
  imports Pred_Types
begin

text \<open>
  \<open>prediction/risk/gate.go\<close>: the limits of a prediction trader (\<open>Config\<close>), their defaults,
  and the gate every decision passes before it is executed.  The gate keeps the day's volume,
  the set of open markets, the exposure per market and the open position per token; the checks
  read that state, the fills of a cycle update it.
\<close>

section \<open>Limits\<close>

record risk_config =
  rc_MaxOpenMarkets :: int
  rc_MaxOrderUsd :: f64
  rc_MaxDailyVolumeUsd :: f64
  rc_MaxPositionMarketUsd :: f64
  rc_MinPrice :: f64
  rc_MaxPrice :: f64
  rc_MinConfidence :: int
  rc_MinEdgePct :: f64
  rc_PreviewMode :: bool

definition DefaultConfig :: risk_config where
  "DefaultConfig = \<lparr>
     rc_MaxOpenMarkets = 10,
     rc_MaxOrderUsd = fl 50,
     rc_MaxDailyVolumeUsd = fl 500,
     rc_MaxPositionMarketUsd = fl 200,
     rc_MinPrice = fl (5 / 100),
     rc_MaxPrice = fl (95 / 100),
     rc_MinConfidence = 70,
     rc_MinEdgePct = fl 2,
     rc_PreviewMode = True\<rparr>"

definition FillDefaults :: "risk_config \<Rightarrow> risk_config" where
  "FillDefaults cfg =
     (let def = DefaultConfig;
          cfg = (if rc_MaxOpenMarkets cfg \<le> 0 then cfg\<lparr>rc_MaxOpenMarkets := rc_MaxOpenMarkets def\<rparr> else cfg);
          cfg = (if rc_MaxOrderUsd cfg \<le> 0 then cfg\<lparr>rc_MaxOrderUsd := rc_MaxOrderUsd def\<rparr> else cfg);
          cfg = (if rc_MaxDailyVolumeUsd cfg \<le> 0 then cfg\<lparr>rc_MaxDailyVolumeUsd := rc_MaxDailyVolumeUsd def\<rparr> else cfg);
          cfg = (if rc_MaxPositionMarketUsd cfg \<le> 0 then cfg\<lparr>rc_MaxPositionMarketUsd := rc_MaxPositionMarketUsd def\<rparr> else cfg);
          cfg = (if rc_MinPrice cfg \<le> 0 then cfg\<lparr>rc_MinPrice := rc_MinPrice def\<rparr> else cfg);
          cfg = (if rc_MaxPrice cfg \<le> 0 then cfg\<lparr>rc_MaxPrice := rc_MaxPrice def\<rparr> else cfg);
          cfg = (if rc_MinConfidence cfg \<le> 0 then cfg\<lparr>rc_MinConfidence := rc_MinConfidence def\<rparr> else cfg);
          cfg = (if rc_MinEdgePct cfg \<le> 0 then cfg\<lparr>rc_MinEdgePct := rc_MinEdgePct def\<rparr> else cfg)
      in cfg)"

section \<open>The gate\<close>

record gate =
  g_cfg :: risk_config
  g_dailyVolume :: f64
  g_openMarkets :: int
  g_openMarketSlugs :: "(gostring, bool) gomap"
  g_marketExposure :: "(gostring, f64) gomap"
  g_positionsByToken :: "(gostring, outcome_position) gomap"

definition NewGate :: "risk_config \<Rightarrow> gate" where
  "NewGate cfg = \<lparr>g_cfg = cfg, g_dailyVolume = 0, g_openMarkets = 0, g_openMarketSlugs = [],
     g_marketExposure = [], g_positionsByToken = []\<rparr>"

definition SetDailyVolume :: "gate \<Rightarrow> f64 \<Rightarrow> gate" where
  "SetDailyVolume g v = g\<lparr>g_dailyVolume := v\<rparr>"

definition SetOpenMarkets :: "gate \<Rightarrow> int \<Rightarrow> gate" where
  "SetOpenMarkets g n = g\<lparr>g_openMarkets := n\<rparr>"

text \<open>The mark of a position: its mid, or its cost when there is no mid.\<close>

definition mark_price :: "outcome_position \<Rightarrow> f64" where
  "mark_price p = (if op_MidPrice p \<le> 0 then op_AvgCost p else op_MidPrice p)"

fun add_positions :: "gate \<Rightarrow> outcome_position list \<Rightarrow> gate" where
  "add_positions g [] = g"
| "add_positions g (p # ps) =
     (if op_Shares p \<le> 0 \<or> op_MarketSlug p = '''' then add_positions g ps
      else
        let slug = op_MarketSlug p;
            g = g\<lparr>g_openMarketSlugs := mput slug True (g_openMarketSlugs g)\<rparr>;
            g = (if op_TokenID p \<noteq> '''' then g\<lparr>g_positionsByToken := mput (op_TokenID p) p (g_positionsByToken g)\<rparr> else g);
            price = mark_price p
        in if price \<le> 0 then add_positions g ps
           else add_positions (g\<lparr>g_marketExposure :=
                  mput slug (mget 0 (g_marketExposure g) slug + op_Shares p * price) (g_marketExposure g)\<rparr>) ps)"

definition SetPositions :: "gate \<Rightarrow> outcome_position list \<Rightarrow> gate" where
  "SetPositions g positions =
     (let g = add_positions (g\<lparr>g_openMarketSlugs := [], g_marketExposure := [], g_positionsByToken := []\<rparr>) positions
      in g\<lparr>g_openMarkets := int (length (g_openMarketSlugs g))\<rparr>)"

definition PositionForToken :: "gate \<Rightarrow> gostring \<Rightarrow> outcome_position option" where
  "PositionForToken g tokenID = (if tokenID = '''' then None else map_of (g_positionsByToken g) tokenID)"

section \<open>Checks\<close>

definition CheckPrice :: "gate \<Rightarrow> f64 \<Rightarrow> gate_err option" where
  "CheckPrice g price =
     (if price < rc_MinPrice (g_cfg g) \<or> price > rc_MaxPrice (g_cfg g)
      then Some (PriceOutside price (rc_MinPrice (g_cfg g)) (rc_MaxPrice (g_cfg g))) else None)"

definition CheckSellPrice :: "f64 \<Rightarrow> gate_err option" where
  "CheckSellPrice price =
     (if price < fl (1 / 1000) \<or> price > fl (999 / 1000) then Some (SellPriceOutside price) else None)"

definition CheckOrderUsd :: "gate \<Rightarrow> f64 \<Rightarrow> gate_err option" where
  "CheckOrderUsd g usd =
     (if usd \<le> 0 then Some OrderUsdNotPositive
      else if usd > rc_MaxOrderUsd (g_cfg g) then Some (OrderUsdAboveMax usd (rc_MaxOrderUsd (g_cfg g)))
      else None)"

definition CheckConfidence :: "gate \<Rightarrow> int \<Rightarrow> gate_err option" where
  "CheckConfidence g c =
     (if c < rc_MinConfidence (g_cfg g) then Some (ConfidenceBelowMin c (rc_MinConfidence (g_cfg g))) else None)"

definition CheckEdge :: "gate \<Rightarrow> f64 \<Rightarrow> gate_err option" where
  "CheckEdge g e =
     (if e < rc_MinEdgePct (g_cfg g) then Some (EdgeBelowMin e (rc_MinEdgePct (g_cfg g))) else None)"

definition CheckOpenMarkets :: "gate \<Rightarrow> gate_err option" where
  "CheckOpenMarkets g =
     (if g_openMarkets g \<ge> rc_MaxOpenMarkets (g_cfg g)
      then Some (OpenMarketsAtMax (g_openMarkets g) (rc_MaxOpenMarkets (g_cfg g))) else None)"

definition CheckOpenMarketsForBuy :: "gate \<Rightarrow> gostring \<Rightarrow> gate_err option" where
  "CheckOpenMarketsForBuy g slug =
     (if slug \<noteq> '''' \<and> mget False (g_openMarketSlugs g) slug then None else CheckOpenMarkets g)"

definition CheckMarketExposure :: "gate \<Rightarrow> gostring \<Rightarrow> f64 \<Rightarrow> gate_err option" where
  "CheckMarketExposure g slug addUsd =
     (if rc_MaxPositionMarketUsd (g_cfg g) \<le> 0 \<or> slug = '''' then None
      else let current = mget 0 (g_marketExposure g) slug in
        if current + addUsd > rc_MaxPositionMarketUsd (g_cfg g)
        then Some (ExposureAboveMax slug current addUsd (rc_MaxPositionMarketUsd (g_cfg g))) else None)"

definition CheckDailyVolume :: "gate \<Rightarrow> f64 \<Rightarrow> gate_err option" where
  "CheckDailyVolume g addUsd =
     (if g_dailyVolume g + addUsd > rc_MaxDailyVolumeUsd (g_cfg g)
      then Some (DailyVolumeAboveMax (g_dailyVolume g) addUsd (rc_MaxDailyVolumeUsd (g_cfg g))) else None)"

text \<open>The position part of the sell check (the block guarded by \<open>d.TokenID != ""\<close>).\<close>

definition check_sell_position :: "gate \<Rightarrow> decision \<Rightarrow> gate_err option" where
  "check_sell_position g d =
     (if d_TokenID d = '''' then None
      else case map_of (g_positionsByToken g) (d_TokenID d) of
        None \<Rightarrow> Some NoOpenPosition
      | Some p \<Rightarrow>
          if op_Shares p \<le> 0 then Some NoOpenPosition
          else let mark = mark_price p in
            if mark > 0 \<and> d_SizeUsd d > op_Shares p * mark * fl (101 / 100)
            then Some (SellExceedsPosition (d_SizeUsd d) (op_Shares p * mark)) else None)"

definition check_buy :: "gate \<Rightarrow> decision \<Rightarrow> gate_err option" where
  "check_buy g d =
     first_err
       [CheckOrderUsd g (d_SizeUsd d),
        CheckPrice g (d_LimitPrice d),
        CheckConfidence g (d_Confidence d),
        CheckEdge g (d_EdgePct d),
        CheckOpenMarketsForBuy g (d_MarketSlug d),
        CheckMarketExposure g (d_MarketSlug d) (d_SizeUsd d),
        CheckDailyVolume g (d_SizeUsd d)]"

definition CheckDecision :: "gate \<Rightarrow> decision \<Rightarrow> gate_err option" where
  "CheckDecision g d =
     (case d_Action d of
        ActionHold \<Rightarrow> None
      | ActionWait \<Rightarrow> None
      | ActionRedeem \<Rightarrow> None
      | ActionSell \<Rightarrow>
          first_err
            [if d_SizeUsd d \<le> 0 then Some SellSizeNotPositive else None,
             check_sell_position g d,
             if d_LimitPrice d > 0 then CheckSellPrice (d_LimitPrice d) else None,
             CheckDailyVolume g (d_SizeUsd d)]
      | ActionBuyYes \<Rightarrow> check_buy g d
      | ActionBuyNo \<Rightarrow> check_buy g d
      | OtherAction s \<Rightarrow> Some (UnknownAction (d_Action d)))"

section \<open>Fills\<close>

text \<open>
  The \<open>nil\<close> checks of the Go methods on the maps never fire: \<open>NewGate\<close> and
  \<open>SetPositions\<close> allocate all three.
\<close>

definition RecordFill :: "gate \<Rightarrow> f64 \<Rightarrow> gate" where
  "RecordFill g usd = g\<lparr>g_dailyVolume := g_dailyVolume g + usd\<rparr>"

definition AddMarketExposure :: "gate \<Rightarrow> gostring \<Rightarrow> f64 \<Rightarrow> gate" where
  "AddMarketExposure g slug usd =
     (if slug = '''' \<or> usd \<le> 0 then g
      else
        let g = g\<lparr>g_marketExposure := mput slug (mget 0 (g_marketExposure g) slug + usd) (g_marketExposure g)\<rparr>
        in if \<not> mget False (g_openMarketSlugs g) slug
           then let g = g\<lparr>g_openMarketSlugs := mput slug True (g_openMarketSlugs g)\<rparr>
                in g\<lparr>g_openMarkets := int (length (g_openMarketSlugs g))\<rparr>
           else g)"

definition ReduceMarketExposure :: "gate \<Rightarrow> gostring \<Rightarrow> f64 \<Rightarrow> gate" where
  "ReduceMarketExposure g slug usd =
     (if slug = '''' \<or> usd \<le> 0 then g
      else
        let current = mget 0 (g_marketExposure g) slug - usd in
        if current \<le> fl (1 / 1000000)
        then let g = g\<lparr>g_marketExposure := mdel slug (g_marketExposure g),
                       g_openMarketSlugs := mdel slug (g_openMarketSlugs g)\<rparr>
             in g\<lparr>g_openMarkets := int (length (g_openMarketSlugs g))\<rparr>
        else g\<lparr>g_marketExposure := mput slug current (g_marketExposure g)\<rparr>)"

section \<open>The gate's state\<close>

text \<open>
  What every operation keeps: the three maps have distinct keys, every market with an exposure
  is an open market, and the counter of open markets is the size of the set.
\<close>

definition wf_gate :: "gate \<Rightarrow> bool" where
  "wf_gate g \<longleftrightarrow>
     wf_map (g_openMarketSlugs g) \<and> wf_map (g_marketExposure g) \<and> wf_map (g_positionsByToken g) \<and>
     snd ` set (g_openMarketSlugs g) \<subseteq> {True} \<and>
     fst ` set (g_marketExposure g) \<subseteq> fst ` set (g_openMarketSlugs g) \<and>
     g_openMarkets g = int (length (g_openMarketSlugs g))"

definition wf_maps :: "gate \<Rightarrow> bool" where
  "wf_maps g \<longleftrightarrow>
     wf_map (g_openMarketSlugs g) \<and> wf_map (g_marketExposure g) \<and> wf_map (g_positionsByToken g) \<and>
     snd ` set (g_openMarketSlugs g) \<subseteq> {True} \<and>
     fst ` set (g_marketExposure g) \<subseteq> fst ` set (g_openMarketSlugs g)"

lemma snd_mput_True: "wf_map m \<Longrightarrow> snd ` set m \<subseteq> {True} \<Longrightarrow> snd ` set (mput k True m) \<subseteq> {True}"
  by (auto simp: set_mput)

lemma snd_mdel_True: "wf_map m \<Longrightarrow> snd ` set m \<subseteq> {True} \<Longrightarrow> snd ` set (mdel k m) \<subseteq> {True}"
  by (auto simp: set_mdel)

lemma mget_True_iff:
  assumes "snd ` set m \<subseteq> {True}" shows "mget False m k \<longleftrightarrow> k \<in> fst ` set m"
proof (cases "map_of m k")
  case None
  then have "k \<notin> fst ` set m" by (simp only: map_of_eq_None_iff not_False_eq_True)
  then show ?thesis by (simp only: mget_def None option.case)
next
  case (Some v)
  then have "(k, v) \<in> set m" by (rule map_of_SomeD)
  moreover from this have "v = True" using assms by force
  ultimately show ?thesis using Some by (force simp: mget_def)
qed

lemma open_slug_iff:
  "wf_gate g \<Longrightarrow> mget False (g_openMarketSlugs g) slug \<longleftrightarrow> slug \<in> fst ` set (g_openMarketSlugs g)"
  by (rule mget_True_iff) (simp add: wf_gate_def)

lemma wf_maps_open:
  "wf_maps g \<Longrightarrow> wf_maps (g\<lparr>g_openMarketSlugs := mput slug True (g_openMarketSlugs g)\<rparr>)"
  by (simp add: wf_maps_def dom_mput snd_mput_True subset_insertI2)

lemma wf_maps_position:
  "wf_maps g \<Longrightarrow> wf_maps (g\<lparr>g_positionsByToken := mput k p (g_positionsByToken g)\<rparr>)"
  by (simp add: wf_maps_def)

lemma wf_maps_exposure:
  "wf_maps g \<Longrightarrow> slug \<in> fst ` set (g_openMarketSlugs g) \<Longrightarrow>
   wf_maps (g\<lparr>g_marketExposure := mput slug x (g_marketExposure g)\<rparr>)"
  by (simp add: wf_maps_def dom_mput)

lemma wf_maps_add_positions: "wf_maps g \<Longrightarrow> wf_maps (add_positions g ps)"
proof (induction ps arbitrary: g)
  case (Cons p ps)
  define g1 where "g1 = g\<lparr>g_openMarketSlugs := mput (op_MarketSlug p) True (g_openMarketSlugs g)\<rparr>"
  define g2 where "g2 = (if op_TokenID p \<noteq> '''' then g1\<lparr>g_positionsByToken := mput (op_TokenID p) p (g_positionsByToken g1)\<rparr> else g1)"
  have g1: "wf_maps g1" unfolding g1_def by (rule wf_maps_open [OF Cons.prems])
  then have g2: "wf_maps g2" using wf_maps_position [OF g1] by (simp only: g2_def split: if_split) simp
  have "op_MarketSlug p \<in> fst ` set (g_openMarketSlugs g2)"
    by (simp add: g1_def g2_def dom_mput)
  then show ?case
    using Cons.IH [OF Cons.prems] Cons.IH [OF g2] Cons.IH [OF wf_maps_exposure [OF g2]]
    by (simp only: add_positions.simps Let_def g1_def [symmetric] g2_def [symmetric] split: if_split) auto
qed simp

lemma wf_gate_NewGate [simp]: "wf_gate (NewGate cfg)"
  by (simp add: wf_gate_def NewGate_def)

lemma wf_gate_SetPositions: "wf_gate (SetPositions g ps)"
proof -
  let ?g = "g\<lparr>g_openMarketSlugs := [], g_marketExposure := [], g_positionsByToken := []\<rparr>"
  have "wf_maps (add_positions ?g ps)" by (rule wf_maps_add_positions) (simp add: wf_maps_def)
  then show ?thesis by (simp add: SetPositions_def Let_def wf_gate_def wf_maps_def)
qed

lemma wf_gate_RecordFill: "wf_gate g \<Longrightarrow> wf_gate (RecordFill g usd)"
  by (simp add: wf_gate_def RecordFill_def)

lemma wf_gate_SetDailyVolume: "wf_gate g \<Longrightarrow> wf_gate (SetDailyVolume g v)"
  by (simp add: wf_gate_def SetDailyVolume_def)

lemma wf_gate_AddMarketExposure:
  assumes "wf_gate g" shows "wf_gate (AddMarketExposure g slug usd)"
  using assms open_slug_iff [OF assms, of slug]
  by (auto simp: AddMarketExposure_def Let_def wf_gate_def dom_mput mget_def dest: subsetD [OF snd_mput_True])

lemma neg_exposure_closed:
  assumes "\<not> usd \<le> 0" "usd \<noteq> NaN" shows "0 - usd \<le> fl (1 / 1000000)"
proof (cases usd)
  case (Fin r)
  then show ?thesis using assms fl_mono [of "- r" "1 / 1000000"]
    by (simp add: zero_f64_def minus_f64_def)
qed (use assms fl_small [of "1 / 1000000"] in \<open>auto simp: zero_f64_def minus_f64_def\<close>)

lemma wf_gate_ReduceMarketExposure:
  assumes wf: "wf_gate g" and usd: "usd \<noteq> NaN" shows "wf_gate (ReduceMarketExposure g slug usd)"
proof (cases "mhas (g_marketExposure g) slug")
  case True
  then show ?thesis
    using wf by (auto simp: ReduceMarketExposure_def Let_def wf_gate_def dom_mput dom_mdel mhas_iff
        dest: subsetD [OF snd_mdel_True])
next
  case False
  then have "mget 0 (g_marketExposure g) slug = 0" by (simp add: mget_def mhas_def)
  then show ?thesis
    using wf neg_exposure_closed [OF _ usd]
    by (auto simp: ReduceMarketExposure_def Let_def wf_gate_def dom_mdel dest: subsetD [OF snd_mdel_True])
qed

section \<open>What an approval promises\<close>

text \<open>
  Positions, marks and exposures are sums of products of doubles; the theorems below speak of
  doubles that are not NaN, because every comparison with NaN is false and a NaN therefore
  passes each check (\<open>nan_passes\<close>).
\<close>

definition cfg_numbers :: "risk_config \<Rightarrow> bool" where
  "cfg_numbers c \<longleftrightarrow> rc_MaxOrderUsd c \<noteq> NaN \<and> rc_MinPrice c \<noteq> NaN \<and> rc_MaxPrice c \<noteq> NaN \<and>
     rc_MinEdgePct c \<noteq> NaN \<and> rc_MaxDailyVolumeUsd c \<noteq> NaN \<and> rc_MaxPositionMarketUsd c \<noteq> NaN"

lemma buy_approved_iff:
  "check_buy g d = None \<longleftrightarrow>
     \<not> d_SizeUsd d \<le> 0 \<and> \<not> rc_MaxOrderUsd (g_cfg g) < d_SizeUsd d \<and>
     \<not> d_LimitPrice d < rc_MinPrice (g_cfg g) \<and> \<not> rc_MaxPrice (g_cfg g) < d_LimitPrice d \<and>
     rc_MinConfidence (g_cfg g) \<le> d_Confidence d \<and> \<not> d_EdgePct d < rc_MinEdgePct (g_cfg g) \<and>
     (d_MarketSlug d \<noteq> '''' \<and> mget False (g_openMarketSlugs g) (d_MarketSlug d) \<or>
      g_openMarkets g < rc_MaxOpenMarkets (g_cfg g)) \<and>
     (rc_MaxPositionMarketUsd (g_cfg g) \<le> 0 \<or> d_MarketSlug d = '''' \<or>
      \<not> rc_MaxPositionMarketUsd (g_cfg g) < mget 0 (g_marketExposure g) (d_MarketSlug d) + d_SizeUsd d) \<and>
     \<not> rc_MaxDailyVolumeUsd (g_cfg g) < g_dailyVolume g + d_SizeUsd d"
  by (auto simp: check_buy_def first_err_None CheckOrderUsd_def CheckPrice_def CheckConfidence_def
      CheckEdge_def CheckOpenMarketsForBuy_def CheckOpenMarkets_def CheckMarketExposure_def
      CheckDailyVolume_def Let_def)

definition is_buy :: "action \<Rightarrow> bool" where
  "is_buy a \<longleftrightarrow> a = ActionBuyYes \<or> a = ActionBuyNo"

lemma CheckDecision_buy: "is_buy (d_Action d) \<Longrightarrow> CheckDecision g d = check_buy g d"
  by (auto simp: is_buy_def CheckDecision_def)

lemma nan_passes:
  assumes "is_buy (d_Action d)" "d_SizeUsd d = NaN" "d_LimitPrice d = NaN" "d_EdgePct d = NaN"
    "rc_MinConfidence (g_cfg g) \<le> d_Confidence d" "g_openMarkets g < rc_MaxOpenMarkets (g_cfg g)"
  shows "CheckDecision g d = None"
  using assms by (simp add: CheckDecision_buy buy_approved_iff)

lemma CheckDecision_volume:
  assumes "CheckDecision g d = None" "is_buy (d_Action d) \<or> d_Action d = ActionSell"
  shows "\<not> d_SizeUsd d \<le> 0" "\<not> rc_MaxDailyVolumeUsd (g_cfg g) < g_dailyVolume g + d_SizeUsd d"
  using assms by (auto simp: CheckDecision_buy buy_approved_iff)
    (auto simp: CheckDecision_def first_err_None CheckDailyVolume_def is_buy_def split: if_splits)

section \<open>A cycle of fills never passes the caps\<close>

text \<open>
  \<open>execute.go\<close> books a fill in two steps: the volume (\<open>RecordFill\<close>), then the market's
  exposure, up for a buy and down for a sell.
\<close>

definition applyFillExposure :: "gate \<Rightarrow> decision \<Rightarrow> f64 \<Rightarrow> gate" where
  "applyFillExposure g d fillUsd =
     (if fillUsd \<le> 0 then g
      else case d_Action d of
        ActionBuyYes \<Rightarrow> AddMarketExposure g (d_MarketSlug d) fillUsd
      | ActionBuyNo \<Rightarrow> AddMarketExposure g (d_MarketSlug d) fillUsd
      | ActionSell \<Rightarrow> ReduceMarketExposure g (d_MarketSlug d) fillUsd
      | _ \<Rightarrow> g)"

definition gate_fill :: "gate \<Rightarrow> decision \<Rightarrow> f64 \<Rightarrow> gate" where
  "gate_fill g d usd = applyFillExposure (RecordFill g usd) d usd"

text \<open>
  A budget that every approval checks and every fill spends: the contract between the gate and
  the loop that executes decisions.  Booking an approved fill either adds it to what is used,
  and then the approval compared the sum with the cap, or it lowers what is used (a sell, a
  buy in another market).  A run is a list of decisions, each approved in the state the fills
  before it left, each filled for at most its size.
\<close>

locale budget =
  fixes used :: "'s \<Rightarrow> f64"
    and cap :: "'s \<Rightarrow> f64"
    and inv :: "'s \<Rightarrow> bool"
    and approved :: "'s \<Rightarrow> 'd \<Rightarrow> bool"
    and size_of :: "'d \<Rightarrow> f64"
    and book :: "'s \<Rightarrow> 'd \<Rightarrow> f64 \<Rightarrow> 's"
  assumes book_used: "inv s \<Longrightarrow> approved s d \<Longrightarrow> 0 \<le> used s \<Longrightarrow> used s \<le> cap s \<Longrightarrow>
      0 < usd \<Longrightarrow> used (book s d usd) = used s + usd \<and> \<not> cap s < used s + size_of d \<or>
      0 \<le> used (book s d usd) \<and> used (book s d usd) \<le> used s"
    and book_cap: "cap (book s d usd) = cap s"
    and book_inv: "inv s \<Longrightarrow> inv (book s d usd)"
begin

lemma book_within:
  assumes inv: "inv s" and ok: "approved s d" and usd: "0 < usd" "usd \<le> size_of d"
    and used: "0 \<le> used s" "used s \<le> cap s"
  shows "0 \<le> used (book s d usd) \<and> used (book s d usd) \<le> cap s"
  using book_used [OF inv ok used usd(1)]
proof
  assume add: "used (book s d usd) = used s + usd \<and> \<not> cap s < used s + size_of d"
  have u0: "0 \<le> usd" using usd(1) by (rule f64_less_imp_le)
  then have s0: "0 \<le> size_of d" using usd(2) by (rule f64_le_trans)
  have "used s + usd \<le> used s + size_of d"
    using used usd u0 f64_refl f64_not_NaN by (intro f64_plus_mono_nonneg) auto
  also have "used s + size_of d \<le> cap s"
    using add f64_plus_not_NaN [OF used(1) s0] f64_not_NaN(1) [OF used(2)] by (auto simp: f64_not_less)
  finally (f64_le_trans) show ?thesis using add f64_plus_nonneg [OF used(1) u0] by simp
next
  assume "0 \<le> used (book s d usd) \<and> used (book s d usd) \<le> used s"
  then show ?thesis using f64_le_trans [OF _ used(2)] by blast
qed

lemma run_within:
  assumes "\<forall>pre d usd post. fs = pre @ (d, usd) # post \<longrightarrow>
      approved (foldl (\<lambda>s (d, usd). book s d usd) s pre) d \<and> 0 < usd \<and> usd \<le> size_of d"
    and "inv s" "0 \<le> used s" "used s \<le> cap s"
  shows "used (foldl (\<lambda>s (d, usd). book s d usd) s fs) \<le> cap s"
  using assms
proof (induction fs arbitrary: s)
  case (Cons f fs)
  obtain d usd where f: "f = (d, usd)" by (cases f)
  have ok: "approved s d" "0 < usd" "usd \<le> size_of d"
    using Cons.prems(1) [rule_format, of "[]" d usd fs] f by auto
  note b = book_within [OF Cons.prems(2) ok Cons.prems(3,4)] book_inv [OF Cons.prems(2), of d usd]
  have "approved (foldl (\<lambda>s (d, usd). book s d usd) (book s d usd) pre) d' \<and> 0 < u' \<and> u' \<le> size_of d'"
    if "fs = pre @ (d', u') # post" for pre d' u' post
    using Cons.prems(1) [rule_format, of "f # pre" d' u' post] that f by simp
  then show ?case using Cons.IH [of "book s d usd"] b f by (simp add: book_cap)
qed simp

end

text \<open>The fills of a cycle over the gate, and what makes one admissible.\<close>

fun run_fills :: "gate \<Rightarrow> (decision \<times> f64) list \<Rightarrow> gate" where
  "run_fills g [] = g"
| "run_fills g ((d, usd) # fs) = run_fills (gate_fill g d usd) fs"

definition fill_ok :: "gate \<Rightarrow> decision \<Rightarrow> f64 \<Rightarrow> bool" where
  "fill_ok g d usd \<longleftrightarrow>
     CheckDecision g d = None \<and> (is_buy (d_Action d) \<or> d_Action d = ActionSell) \<and>
     0 < usd \<and> usd \<le> d_SizeUsd d"

fun fills_ok :: "gate \<Rightarrow> (decision \<times> f64) list \<Rightarrow> bool" where
  "fills_ok g [] \<longleftrightarrow> True"
| "fills_ok g ((d, usd) # fs) \<longleftrightarrow> fill_ok g d usd \<and> fills_ok (gate_fill g d usd) fs"

lemma run_fills_foldl: "run_fills g fs = foldl (\<lambda>g (d, usd). gate_fill g d usd) g fs"
  by (induction g fs rule: run_fills.induct) auto

lemma fills_ok_prefix:
  "fills_ok g fs \<Longrightarrow> fs = pre @ (d, usd) # post \<Longrightarrow>
   fill_ok (foldl (\<lambda>g (d, usd). gate_fill g d usd) g pre) d usd"
  by (induction pre arbitrary: g fs) (auto simp: split_beta)

lemma gate_fill_cfg [simp]: "g_cfg (gate_fill g d usd) = g_cfg g"
  by (simp add: gate_fill_def applyFillExposure_def RecordFill_def AddMarketExposure_def
      ReduceMarketExposure_def Let_def split: action.splits)

lemma gate_fill_volume [simp]: "g_dailyVolume (gate_fill g d usd) = g_dailyVolume g + usd"
  by (simp add: gate_fill_def applyFillExposure_def RecordFill_def AddMarketExposure_def
      ReduceMarketExposure_def Let_def split: action.splits)

interpretation volume: budget g_dailyVolume "\<lambda>g. rc_MaxDailyVolumeUsd (g_cfg g)" "\<lambda>_. True"
  "\<lambda>g d. CheckDecision g d = None \<and> (is_buy (d_Action d) \<or> d_Action d = ActionSell)" d_SizeUsd gate_fill
  by unfold_locales (auto dest: CheckDecision_volume(2))

definition exposure :: "gate \<Rightarrow> gostring \<Rightarrow> f64" where
  "exposure g slug = mget 0 (g_marketExposure g) slug"

lemma exposure_Reduce:
  assumes "is64 (exposure g slug)" "0 \<le> exposure g slug" "exposure g slug \<noteq> PInf" "0 < usd"
  shows "0 \<le> exposure (ReduceMarketExposure g slug' usd) slug \<and>
    exposure (ReduceMarketExposure g slug' usd) slug \<le> exposure g slug"
proof -
  let ?c = "exposure g slug - usd"
  have "0 \<le> ?c" "?c \<le> exposure g slug" if "\<not> ?c \<le> fl (1 / 1000000)"
  proof -
    have "?c \<noteq> NaN" using assms by (cases "exposure g slug"; cases usd) (auto simp: zero_f64_def minus_f64_def)
    then show "?c \<le> exposure g slug"
      using assms f64_less_imp_le f64_not_NaN by (intro f64_minus_le) auto
    have "0 \<le> fl (1 / 1000000)" by (rule fl_nonneg) simp
    then show "0 \<le> ?c" using that \<open>?c \<noteq> NaN\<close>
      by (auto simp: f64_not_le intro: f64_less_imp_le f64_le_trans)
  qed
  then show ?thesis
    using assms f64_refl f64_not_NaN
    by (auto simp: ReduceMarketExposure_def Let_def exposure_def mget_mput mget_mdel zero_f64_def)
qed

lemma exposure_gate_fill_buy:
  "is_buy (d_Action d) \<Longrightarrow> 0 < usd \<Longrightarrow>
   exposure (gate_fill g d usd) slug =
     (if slug = d_MarketSlug d \<and> slug \<noteq> '''' then exposure g slug + usd else exposure g slug)"
  using f64_less_not_le [of 0 usd]
  by (auto simp: is_buy_def gate_fill_def applyFillExposure_def AddMarketExposure_def RecordFill_def
      exposure_def Let_def mget_mput)

lemma exposure_gate_fill_sell:
  "d_Action d = ActionSell \<Longrightarrow> exposure (gate_fill g d usd) slug =
     exposure (if usd \<le> 0 then g else ReduceMarketExposure g (d_MarketSlug d) usd) slug"
  by (auto simp: gate_fill_def applyFillExposure_def RecordFill_def ReduceMarketExposure_def
      exposure_def Let_def)

lemma is64_exposure_gate_fill: "is64 (exposure g slug) \<Longrightarrow> is64 (exposure (gate_fill g d usd) slug)"
  by (auto simp: gate_fill_def applyFillExposure_def AddMarketExposure_def RecordFill_def
      ReduceMarketExposure_def exposure_def Let_def mget_mput mget_mdel split: action.splits)

interpretation market: budget "\<lambda>g. exposure g slug" "\<lambda>g. rc_MaxPositionMarketUsd (g_cfg g)"
  "\<lambda>g. is64 (exposure g slug) \<and> 0 < rc_MaxPositionMarketUsd (g_cfg g) \<and> rc_MaxPositionMarketUsd (g_cfg g) \<noteq> PInf"
  "\<lambda>g d. CheckDecision g d = None \<and> (is_buy (d_Action d) \<or> d_Action d = ActionSell)" d_SizeUsd gate_fill
  for slug
proof (unfold_locales, goal_cases)
  case (1 s d usd)
  show ?case
  proof (cases "is_buy (d_Action d)")
    case True
    then have "check_buy s d = None" using 1 CheckDecision_buy by metis
    then show ?thesis
      using 1 True f64_refl f64_not_NaN f64_less_not_le
      by (auto simp: exposure_gate_fill_buy buy_approved_iff exposure_def [symmetric])
  next
    case False
    then have "exposure s slug \<noteq> PInf" using 1 by (cases "rc_MaxPositionMarketUsd (g_cfg s)") auto
    with False show ?thesis using 1 exposure_Reduce f64_less_not_le [of 0 usd] by (auto simp: exposure_gate_fill_sell)
  qed
next
  case (3 s d usd)
  then show ?case by (simp add: is64_exposure_gate_fill)
qed simp

text \<open>
  C5: the daily cap holds over a whole cycle.  Starting from a volume between zero and the cap,
  any sequence of buys and sells, each approved by the gate in the state the earlier fills left
  and each filled for at most its approved size, ends with a volume of at most the cap, rounding
  of the additions included.
\<close>

theorem daily_volume_capped:
  assumes "fills_ok g fs" "0 \<le> g_dailyVolume g" "g_dailyVolume g \<le> rc_MaxDailyVolumeUsd (g_cfg g)"
  shows "g_dailyVolume (run_fills g fs) \<le> rc_MaxDailyVolumeUsd (g_cfg g)"
  unfolding run_fills_foldl
  by (rule volume.run_within) (use assms fills_ok_prefix [OF assms(1)] in \<open>fastforce simp: fill_ok_def\<close>)+

text \<open>
  the exposure cap holds in every market over a whole cycle: with a positive cap and a
  market whose exposure starts between zero and the cap, approved buys and sells in any markets
  leave its exposure at most the cap.
\<close>

theorem market_exposure_capped:
  assumes "fills_ok g fs" "is64 (exposure g slug)" "0 < rc_MaxPositionMarketUsd (g_cfg g)"
    "rc_MaxPositionMarketUsd (g_cfg g) \<noteq> PInf" "0 \<le> exposure g slug" "exposure g slug \<le> rc_MaxPositionMarketUsd (g_cfg g)"
  shows "exposure (run_fills g fs) slug \<le> rc_MaxPositionMarketUsd (g_cfg g)"
  unfolding run_fills_foldl
  by (rule market.run_within) (use assms fills_ok_prefix [OF assms(1)] in \<open>fastforce simp: fill_ok_def\<close>)+

definition ex_buy :: decision where
  "ex_buy = \<lparr>d_MarketSlug = ''btc-up'', d_TokenID = ''1'', d_Action = ActionBuyYes, d_SizeUsd = fl 20,
     d_LimitPrice = fl (1 / 2), d_Confidence = 80, d_EdgePct = fl 3, d_Reasoning = ''''\<rparr>"

definition ex_gate :: gate where
  "ex_gate = NewGate DefaultConfig"

lemmas gate_eval = CheckDecision_def check_buy_def CheckOrderUsd_def CheckPrice_def
  CheckConfidence_def CheckEdge_def CheckOpenMarketsForBuy_def CheckOpenMarkets_def
  CheckMarketExposure_def CheckDailyVolume_def check_sell_position_def CheckSellPrice_def
  RecordFill_def AddMarketExposure_def ReduceMarketExposure_def applyFillExposure_def gate_fill_def
  NewGate_def DefaultConfig_def fill_ok_def is_buy_def exposure_def mget_def mput_def mdel_def

lemma ex_fills_ok: "fills_ok ex_gate [(ex_buy, fl 20), (ex_buy, fl (1 / 10))]"
  by (simp add: gate_eval f64_eval ex_gate_def ex_buy_def)

theorem daily_volume_capped_witness:
  "g_dailyVolume (run_fills ex_gate [(ex_buy, fl 20), (ex_buy, fl (1 / 10))])
     \<le> rc_MaxDailyVolumeUsd (g_cfg ex_gate)"
  by (rule daily_volume_capped [OF ex_fills_ok])
    (simp_all add: gate_eval f64_eval ex_gate_def)

theorem market_exposure_capped_witness:
  "exposure (run_fills ex_gate [(ex_buy, fl 20), (ex_buy, fl (1 / 10))]) ''btc-up''
     \<le> rc_MaxPositionMarketUsd (g_cfg ex_gate)"
  by (rule market_exposure_capped [OF ex_fills_ok])
    (simp_all add: gate_eval f64_eval ex_gate_def)

section \<open>The open-market cap and the reachable gates\<close>

lemma wf_gate_fill:
  assumes "wf_gate g" "usd \<noteq> NaN" shows "wf_gate (gate_fill g d usd)"
  using assms
  by (simp add: gate_fill_def applyFillExposure_def wf_gate_RecordFill wf_gate_AddMarketExposure
      wf_gate_ReduceMarketExposure split: action.split)

lemma open_markets_Add:
  "g_openMarkets (AddMarketExposure g slug usd) \<le>
     (if mget False (g_openMarketSlugs g) slug \<or> slug = '''' then g_openMarkets g
      else max (g_openMarkets g) (int (length (g_openMarketSlugs g)) + 1))"
  using length_mput_le [of slug True "g_openMarketSlugs g"]
  by (auto simp: AddMarketExposure_def Let_def)

lemma open_markets_Reduce:
  "wf_gate g \<Longrightarrow> g_openMarkets (ReduceMarketExposure g slug usd) \<le> g_openMarkets g"
  by (auto simp: ReduceMarketExposure_def Let_def wf_gate_def mdel_def AList.delete_eq)

lemma open_markets_fill:
  assumes wf: "wf_gate g" and ok: "fill_ok g d usd"
    and cap: "g_openMarkets g \<le> rc_MaxOpenMarkets (g_cfg g)"
  shows "g_openMarkets (gate_fill g d usd) \<le> rc_MaxOpenMarkets (g_cfg g)"
proof (cases "is_buy (d_Action d)")
  case True
  then have b: "check_buy g d = None" and usd: "\<not> usd \<le> 0"
    using ok f64_less_not_le by (auto simp: fill_ok_def CheckDecision_buy)
  have "g_openMarkets (gate_fill g d usd) = g_openMarkets (AddMarketExposure (RecordFill g usd) (d_MarketSlug d) usd)"
    using True usd by (auto simp: is_buy_def gate_fill_def applyFillExposure_def)
  also have "\<dots> \<le> rc_MaxOpenMarkets (g_cfg g)"
    using open_markets_Add [of "RecordFill g usd" "d_MarketSlug d" usd] b cap wf
    by (auto simp: buy_approved_iff RecordFill_def wf_gate_def split: if_splits)
  finally show ?thesis .
next
  case False
  then show ?thesis
    using ok cap open_markets_Reduce [OF wf_gate_RecordFill [OF wf], of usd "d_MarketSlug d" usd]
    by (auto simp: fill_ok_def gate_fill_def applyFillExposure_def RecordFill_def)
qed

text \<open>
  the open-market cap holds over a whole cycle: a run of approved fills never raises the
  number of open markets above the configured maximum, and keeps the gate's maps consistent
  (every market with an exposure is open, and the counter is the size of the set).
\<close>

theorem open_markets_capped:
  assumes "fills_ok g fs" "wf_gate g" "g_openMarkets g \<le> rc_MaxOpenMarkets (g_cfg g)"
  shows "wf_gate (run_fills g fs) \<and> g_openMarkets (run_fills g fs) \<le> rc_MaxOpenMarkets (g_cfg g)"
  using assms
proof (induction g fs rule: fills_ok.induct)
  case (2 g d usd fs)
  then have "usd \<noteq> NaN" by (auto simp: fill_ok_def)
  then show ?case using 2 wf_gate_fill open_markets_fill by auto
qed simp

theorem open_markets_capped_witness:
  "wf_gate (run_fills ex_gate [(ex_buy, fl 20), (ex_buy, fl (1 / 10))]) \<and>
   g_openMarkets (run_fills ex_gate [(ex_buy, fl 20), (ex_buy, fl (1 / 10))]) \<le> rc_MaxOpenMarkets (g_cfg ex_gate)"
  by (rule open_markets_capped [OF ex_fills_ok]) (simp_all add: ex_gate_def NewGate_def DefaultConfig_def wf_gate_def)

text \<open>The gates a program run can produce: any interleaving of refreshes and fills.\<close>

inductive gate_reach :: "risk_config \<Rightarrow> gate \<Rightarrow> bool" for cfg where
  new: "gate_reach cfg (NewGate cfg)"
| positions: "gate_reach cfg g \<Longrightarrow> gate_reach cfg (SetPositions g ps)"
| volume: "gate_reach cfg g \<Longrightarrow> gate_reach cfg (SetDailyVolume g v)"
| fill: "gate_reach cfg g \<Longrightarrow> usd \<noteq> NaN \<Longrightarrow> gate_reach cfg (gate_fill g d usd)"

lemma add_positions_cfg [simp]: "g_cfg (add_positions g ps) = g_cfg g"
  by (induction g ps rule: add_positions.induct) (auto simp: Let_def)

lemma SetPositions_cfg [simp]: "g_cfg (SetPositions g ps) = g_cfg g"
  by (simp add: SetPositions_def Let_def)

lemma SetDailyVolume_cfg [simp]: "g_cfg (SetDailyVolume g v) = g_cfg g"
  by (simp add: SetDailyVolume_def)

lemma NewGate_cfg [simp]: "g_cfg (NewGate cfg) = cfg"
  by (simp add: NewGate_def)

text \<open>
  in every gate reachable from a new one by position refreshes, volume resets and fills in
  any order, the state is consistent: distinct keys, every exposed market is open, the counter
  of open markets is the number of open markets, and the limits are the configured ones.
\<close>

theorem gate_reachable_consistent:
  assumes "gate_reach cfg g" shows "wf_gate g \<and> g_cfg g = cfg"
  using assms
proof (induction rule: gate_reach.induct)
  case (fill g usd d)
  then show ?case by (simp add: wf_gate_fill)
qed (simp_all add: wf_gate_SetPositions wf_gate_SetDailyVolume)

theorem gate_reachable_consistent_witness:
  "wf_gate (gate_fill (SetDailyVolume (NewGate DefaultConfig) (fl 3)) ex_buy (fl 20)) \<and>
   g_cfg (gate_fill (SetDailyVolume (NewGate DefaultConfig) (fl 3)) ex_buy (fl 20)) = DefaultConfig"
  by (rule gate_reachable_consistent) (intro gate_reach.intros, simp)

section \<open>Approval is exactly the limits\<close>

text \<open>
  C31: for numbers that are not NaN (and a volume and exposure that are not negative), the gate
  approves a buy exactly when its size is positive and at most the order cap, its price lies in
  the configured band, its confidence and edge reach their minima, its market is already open or
  a slot is free, and neither the market's exposure nor the day's volume would pass its cap.
\<close>

theorem buy_approval_exact:
  assumes "is_buy (d_Action d)" "cfg_numbers (g_cfg g)"
    "d_SizeUsd d \<noteq> NaN" "d_LimitPrice d \<noteq> NaN" "d_EdgePct d \<noteq> NaN"
    "0 \<le> g_dailyVolume g" "0 \<le> exposure g (d_MarketSlug d)"
  shows "CheckDecision g d = None \<longleftrightarrow>
     0 < d_SizeUsd d \<and> d_SizeUsd d \<le> rc_MaxOrderUsd (g_cfg g) \<and>
     rc_MinPrice (g_cfg g) \<le> d_LimitPrice d \<and> d_LimitPrice d \<le> rc_MaxPrice (g_cfg g) \<and>
     rc_MinConfidence (g_cfg g) \<le> d_Confidence d \<and> rc_MinEdgePct (g_cfg g) \<le> d_EdgePct d \<and>
     (d_MarketSlug d \<noteq> '''' \<and> mget False (g_openMarketSlugs g) (d_MarketSlug d) \<or>
      g_openMarkets g < rc_MaxOpenMarkets (g_cfg g)) \<and>
     (rc_MaxPositionMarketUsd (g_cfg g) \<le> 0 \<or> d_MarketSlug d = '''' \<or>
      exposure g (d_MarketSlug d) + d_SizeUsd d \<le> rc_MaxPositionMarketUsd (g_cfg g)) \<and>
     g_dailyVolume g + d_SizeUsd d \<le> rc_MaxDailyVolumeUsd (g_cfg g)"
proof (cases "0 < d_SizeUsd d")
  case True
  then have s: "0 \<le> d_SizeUsd d" by (rule f64_less_imp_le)
  have nn: "exposure g (d_MarketSlug d) + d_SizeUsd d \<noteq> NaN" "g_dailyVolume g + d_SizeUsd d \<noteq> NaN"
    using f64_plus_not_NaN assms(6,7) s by blast+
  have lt: "\<not> x < y \<longleftrightarrow> y \<le> x" if "x \<noteq> NaN" "y \<noteq> NaN" for x y :: f64
    using that f64_less_not_le [of x y] by (auto simp: f64_not_less)
  show ?thesis
    using assms True f64_less_not_le [OF True] nn
    by (simp add: CheckDecision_buy buy_approved_iff cfg_numbers_def lt exposure_def)
next
  case False
  then have "d_SizeUsd d \<le> 0" using assms(3) by (auto simp: f64_not_less zero_f64_def)
  then show ?thesis using False assms(1) by (simp add: CheckDecision_buy buy_approved_iff)
qed

theorem buy_approval_exact_witness: "CheckDecision ex_gate ex_buy = None"
proof -
  have "is_buy (d_Action ex_buy)" "cfg_numbers (g_cfg ex_gate)" "d_SizeUsd ex_buy \<noteq> NaN"
    "d_LimitPrice ex_buy \<noteq> NaN" "d_EdgePct ex_buy \<noteq> NaN" "0 \<le> g_dailyVolume ex_gate"
    "0 \<le> exposure ex_gate (d_MarketSlug ex_buy)"
    by (simp_all add: ex_gate_def ex_buy_def gate_eval cfg_numbers_def f64_eval)
  from buy_approval_exact [OF this] show ?thesis
    by (simp add: ex_gate_def ex_buy_def NewGate_def DefaultConfig_def exposure_def mget_def f64_eval)
qed

end
