(* ===== verification/Pred_Config.thy ===== *)
theory Pred_Config
  imports Risk_Gate
begin

text \<open>
  \<open>prediction/config/config.go\<close>: the strategy of a prediction trader and the defaults that
  replace its unset fields.  Enumerated strings (engine mode, market source) stay strings, as in
  the code, because unknown values are legal and have a meaning.
\<close>

section \<open>Strategy\<close>

definition MarketSourceStatic :: gostring where "MarketSourceStatic = ''static''"
definition MarketSourceTagSearch :: gostring where "MarketSourceTagSearch = ''tag_search''"
definition MarketSourceMixed :: gostring where "MarketSourceMixed = ''mixed''"

definition ModeAI :: gostring where "ModeAI = ''ai''"
definition ModeRules :: gostring where "ModeRules = ''rules''"
definition ModeHybrid :: gostring where "ModeHybrid = ''hybrid''"

record market_source =
  ms_Type :: gostring
  ms_Tag :: gostring
  ms_Keywords :: "gostring list"
  ms_Limit :: int

record rule_config =
  ru_MaxBuyYesPrice :: f64
  ru_MaxBuyNoPrice :: f64
  ru_MinLiquidityUsd :: f64
  ru_MaxSpread :: f64
  ru_DefaultSizeUsd :: f64
  ru_DefaultEdgePct :: f64
  ru_SpotSymbol :: gostring
  ru_SpotMinChangePct :: f64
  ru_TakeProfitMid :: f64
  ru_SellSizeUsd :: f64

record strategy =
  st_Language :: gostring
  st_Mode :: gostring
  st_Rules :: rule_config
  st_FastLoopSec :: int
  st_MarketSource :: market_source
  st_StaticSlugs :: "gostring list"
  st_MinLiquidityUsd :: f64
  st_MinHoursToExpiry :: f64
  st_ScanIntervalMin :: int
  st_Risk :: risk_config

definition zero_rules :: rule_config where
  "zero_rules = \<lparr>ru_MaxBuyYesPrice = 0, ru_MaxBuyNoPrice = 0, ru_MinLiquidityUsd = 0, ru_MaxSpread = 0,
     ru_DefaultSizeUsd = 0, ru_DefaultEdgePct = 0, ru_SpotSymbol = '''', ru_SpotMinChangePct = 0,
     ru_TakeProfitMid = 0, ru_SellSizeUsd = 0\<rparr>"

definition DefaultStrategyConfig :: strategy where
  "DefaultStrategyConfig = \<lparr>
     st_Language = ''en'',
     st_Mode = ModeAI,
     st_Rules = zero_rules\<lparr>ru_MaxSpread := fl (5 / 100), ru_DefaultSizeUsd := fl 10, ru_DefaultEdgePct := fl (25 / 10)\<rparr>,
     st_FastLoopSec = 60,
     st_MarketSource = \<lparr>ms_Type = MarketSourceTagSearch, ms_Tag = ''crypto'', ms_Keywords = [], ms_Limit = 20\<rparr>,
     st_StaticSlugs = [],
     st_MinLiquidityUsd = fl 500,
     st_MinHoursToExpiry = fl (25 / 100),
     st_ScanIntervalMin = 5,
     st_Risk = DefaultConfig\<rparr>"

definition rules_with_defaults :: "rule_config \<Rightarrow> rule_config" where
  "rules_with_defaults r =
     (let def = st_Rules DefaultStrategyConfig;
          r = (if ru_MaxSpread r \<le> 0 then r\<lparr>ru_MaxSpread := ru_MaxSpread def\<rparr> else r);
          r = (if ru_DefaultSizeUsd r \<le> 0 then r\<lparr>ru_DefaultSizeUsd := ru_DefaultSizeUsd def\<rparr> else r);
          r = (if ru_DefaultEdgePct r \<le> 0 then r\<lparr>ru_DefaultEdgePct := ru_DefaultEdgePct def\<rparr> else r)
      in r)"

definition source_with_defaults :: "market_source \<Rightarrow> market_source" where
  "source_with_defaults s =
     (let def = st_MarketSource DefaultStrategyConfig;
          s = (if ms_Type s = '''' then s\<lparr>ms_Type := ms_Type def\<rparr> else s);
          s = (if ms_Tag s = '''' then s\<lparr>ms_Tag := ms_Tag def\<rparr> else s);
          s = (if ms_Limit s \<le> 0 then s\<lparr>ms_Limit := ms_Limit def\<rparr> else s)
      in s)"

definition WithDefaults :: "strategy \<Rightarrow> strategy" where
  "WithDefaults s =
     (let def = DefaultStrategyConfig;
          s = (if st_Language s = '''' then s\<lparr>st_Language := st_Language def\<rparr> else s);
          s = (if st_Mode s = '''' then s\<lparr>st_Mode := st_Mode def\<rparr> else s);
          s = s\<lparr>st_Rules := rules_with_defaults (st_Rules s)\<rparr>;
          s = s\<lparr>st_MarketSource := source_with_defaults (st_MarketSource s)\<rparr>;
          s = (if st_MinLiquidityUsd s \<le> 0 then s\<lparr>st_MinLiquidityUsd := st_MinLiquidityUsd def\<rparr> else s);
          s = (if st_ScanIntervalMin s \<le> 0 then s\<lparr>st_ScanIntervalMin := st_ScanIntervalMin def\<rparr> else s);
          s = (if st_FastLoopSec s \<le> 0 then s\<lparr>st_FastLoopSec := st_FastLoopSec def\<rparr> else s)
      in s\<lparr>st_Risk := FillDefaults (st_Risk s)\<rparr>)"

record trader_config =
  tc_ID :: gostring
  tc_Name :: gostring
  tc_AIModel :: gostring
  tc_APIKey :: gostring
  tc_CustomURL :: gostring
  tc_CustomModel :: gostring
  tc_ScanInterval :: int
  tc_Strategy :: strategy

section \<open>Lemmas\<close>

text \<open>One field: the value after filling is itself unless it is at most zero.\<close>

definition fill_f64 :: "f64 \<Rightarrow> f64 \<Rightarrow> f64" where
  "fill_f64 d x = (if x \<le> 0 then d else x)"

lemma fill_f64_idem: "\<not> d \<le> 0 \<Longrightarrow> fill_f64 d (fill_f64 d x) = fill_f64 d x"
  by (simp add: fill_f64_def)

lemma fl_pos: "0 < (r :: rat) \<Longrightarrow> 1 / 1000 \<le> r \<Longrightarrow> r \<le> 1000 \<Longrightarrow> \<not> fl r \<le> 0"
proof -
  assume "0 < r" "1 / 1000 \<le> r" "r \<le> 1000"
  then have "fl (1 / 1000) \<le> fl r" by (intro fl_mono)
  moreover have "0 < fl (1 / 1000)" by (simp add: f64_eval zero_f64_def)
  ultimately show ?thesis using f64_less_le_trans f64_less_not_le by blast
qed

text \<open>A conditional update is an update by a conditional value.\<close>

lemma risk_if:
  "(if P then c\<lparr>rc_MaxOpenMarkets := v_rc_MaxOpenMarkets\<rparr> else c) = c\<lparr>rc_MaxOpenMarkets := if P then v_rc_MaxOpenMarkets else rc_MaxOpenMarkets c\<rparr>"
  "(if P then c\<lparr>rc_MaxOrderUsd := v_rc_MaxOrderUsd\<rparr> else c) = c\<lparr>rc_MaxOrderUsd := if P then v_rc_MaxOrderUsd else rc_MaxOrderUsd c\<rparr>"
  "(if P then c\<lparr>rc_MaxDailyVolumeUsd := v_rc_MaxDailyVolumeUsd\<rparr> else c) = c\<lparr>rc_MaxDailyVolumeUsd := if P then v_rc_MaxDailyVolumeUsd else rc_MaxDailyVolumeUsd c\<rparr>"
  "(if P then c\<lparr>rc_MaxPositionMarketUsd := v_rc_MaxPositionMarketUsd\<rparr> else c) = c\<lparr>rc_MaxPositionMarketUsd := if P then v_rc_MaxPositionMarketUsd else rc_MaxPositionMarketUsd c\<rparr>"
  "(if P then c\<lparr>rc_MinPrice := v_rc_MinPrice\<rparr> else c) = c\<lparr>rc_MinPrice := if P then v_rc_MinPrice else rc_MinPrice c\<rparr>"
  "(if P then c\<lparr>rc_MaxPrice := v_rc_MaxPrice\<rparr> else c) = c\<lparr>rc_MaxPrice := if P then v_rc_MaxPrice else rc_MaxPrice c\<rparr>"
  "(if P then c\<lparr>rc_MinConfidence := v_rc_MinConfidence\<rparr> else c) = c\<lparr>rc_MinConfidence := if P then v_rc_MinConfidence else rc_MinConfidence c\<rparr>"
  "(if P then c\<lparr>rc_MinEdgePct := v_rc_MinEdgePct\<rparr> else c) = c\<lparr>rc_MinEdgePct := if P then v_rc_MinEdgePct else rc_MinEdgePct c\<rparr>"
  by simp_all

lemma strategy_if:
  "(if P then s\<lparr>st_Language := v_st_Language\<rparr> else s) = s\<lparr>st_Language := if P then v_st_Language else st_Language s\<rparr>"
  "(if P then s\<lparr>st_Mode := v_st_Mode\<rparr> else s) = s\<lparr>st_Mode := if P then v_st_Mode else st_Mode s\<rparr>"
  "(if P then s\<lparr>st_MinLiquidityUsd := v_st_MinLiquidityUsd\<rparr> else s) = s\<lparr>st_MinLiquidityUsd := if P then v_st_MinLiquidityUsd else st_MinLiquidityUsd s\<rparr>"
  "(if P then s\<lparr>st_ScanIntervalMin := v_st_ScanIntervalMin\<rparr> else s) = s\<lparr>st_ScanIntervalMin := if P then v_st_ScanIntervalMin else st_ScanIntervalMin s\<rparr>"
  "(if P then s\<lparr>st_FastLoopSec := v_st_FastLoopSec\<rparr> else s) = s\<lparr>st_FastLoopSec := if P then v_st_FastLoopSec else st_FastLoopSec s\<rparr>"
  by simp_all

lemma FillDefaults_fields [simp]:
  "rc_MaxOpenMarkets (FillDefaults c) = (if rc_MaxOpenMarkets c \<le> 0 then 10 else rc_MaxOpenMarkets c)"
  "rc_MaxOrderUsd (FillDefaults c) = fill_f64 (fl 50) (rc_MaxOrderUsd c)"
  "rc_MaxDailyVolumeUsd (FillDefaults c) = fill_f64 (fl 500) (rc_MaxDailyVolumeUsd c)"
  "rc_MaxPositionMarketUsd (FillDefaults c) = fill_f64 (fl 200) (rc_MaxPositionMarketUsd c)"
  "rc_MinPrice (FillDefaults c) = fill_f64 (fl (5 / 100)) (rc_MinPrice c)"
  "rc_MaxPrice (FillDefaults c) = fill_f64 (fl (95 / 100)) (rc_MaxPrice c)"
  "rc_MinConfidence (FillDefaults c) = (if rc_MinConfidence c \<le> 0 then 70 else rc_MinConfidence c)"
  "rc_MinEdgePct (FillDefaults c) = fill_f64 (fl 2) (rc_MinEdgePct c)"
  "rc_PreviewMode (FillDefaults c) = rc_PreviewMode c"
  by (simp_all add: FillDefaults_def Let_def risk_if DefaultConfig_def fill_f64_def)

lemma FillDefaults_idem: "FillDefaults (FillDefaults c) = FillDefaults c"
  by (rule risk_config.equality) (simp_all add: fill_f64_idem fl_pos)

lemma rules_with_defaults_fields:
  "rules_with_defaults r = r\<lparr>ru_MaxSpread := fill_f64 (fl (5 / 100)) (ru_MaxSpread r),
     ru_DefaultSizeUsd := fill_f64 (fl 10) (ru_DefaultSizeUsd r),
     ru_DefaultEdgePct := fill_f64 (fl (25 / 10)) (ru_DefaultEdgePct r)\<rparr>"
  by (cases r) (simp add: rules_with_defaults_def Let_def DefaultStrategyConfig_def fill_f64_def)

lemma source_with_defaults_idem: "source_with_defaults (source_with_defaults s) = source_with_defaults s"
  by (simp add: source_with_defaults_def Let_def DefaultStrategyConfig_def MarketSourceTagSearch_def)

lemma rules_with_defaults_idem: "rules_with_defaults (rules_with_defaults r) = rules_with_defaults r"
  by (simp add: rules_with_defaults_fields fill_f64_idem fl_pos)

lemma WithDefaults_fields [simp]:
  "st_Language (WithDefaults s) = (if st_Language s = '''' then ''en'' else st_Language s)"
  "st_Mode (WithDefaults s) = (if st_Mode s = '''' then ModeAI else st_Mode s)"
  "st_Rules (WithDefaults s) = rules_with_defaults (st_Rules s)"
  "st_FastLoopSec (WithDefaults s) = (if st_FastLoopSec s \<le> 0 then 60 else st_FastLoopSec s)"
  "st_MarketSource (WithDefaults s) = source_with_defaults (st_MarketSource s)"
  "st_StaticSlugs (WithDefaults s) = st_StaticSlugs s"
  "st_MinLiquidityUsd (WithDefaults s) = fill_f64 (fl 500) (st_MinLiquidityUsd s)"
  "st_MinHoursToExpiry (WithDefaults s) = st_MinHoursToExpiry s"
  "st_ScanIntervalMin (WithDefaults s) = (if st_ScanIntervalMin s \<le> 0 then 5 else st_ScanIntervalMin s)"
  "st_Risk (WithDefaults s) = FillDefaults (st_Risk s)"
  by (simp_all add: WithDefaults_def Let_def strategy_if DefaultStrategyConfig_def fill_f64_def)

text \<open>
  filling defaults is idempotent and reaches a usable configuration: filling twice is
  filling once, and every limit of the result is positive unless it was NaN; the preview flag is
  never changed.
\<close>

theorem with_defaults_idempotent:
  "WithDefaults (WithDefaults s) = WithDefaults s \<and>
   \<not> rc_MaxOrderUsd (st_Risk (WithDefaults s)) \<le> 0 \<and>
   \<not> rc_MaxDailyVolumeUsd (st_Risk (WithDefaults s)) \<le> 0 \<and>
   \<not> rc_MaxPositionMarketUsd (st_Risk (WithDefaults s)) \<le> 0 \<and>
   0 < rc_MaxOpenMarkets (st_Risk (WithDefaults s)) \<and> 0 < st_ScanIntervalMin (WithDefaults s) \<and>
   \<not> ru_DefaultSizeUsd (st_Rules (WithDefaults s)) \<le> 0 \<and>
   rc_PreviewMode (st_Risk (WithDefaults s)) = rc_PreviewMode (st_Risk s)"
proof -
  have "WithDefaults (WithDefaults s) = WithDefaults s"
    by (rule strategy.equality)
      (simp_all add: FillDefaults_idem rules_with_defaults_idem source_with_defaults_idem fill_f64_idem fl_pos ModeAI_def)
  moreover have "\<not> fill_f64 d x \<le> 0" if "\<not> d \<le> 0" for d x using that by (simp add: fill_f64_def)
  ultimately show ?thesis by (auto simp: fl_pos rules_with_defaults_fields)
qed

end
