(* ===== verification/Go_Strconv.thy ===== *)
theory Go_Strconv
  imports Prelude
begin

text \<open>
  What the prediction code uses of \<open>fmt\<close> and \<open>strconv\<close> for doubles: \<open>%.nf\<close> and \<open>%+.nf\<close>, which
  round the exact value to \<open>n\<close> decimals (ties to even), and \<open>strconv.ParseFloat\<close> on decimal
  literals and the special names.  Hexadecimal literals and digit-separating underscores, which
  Go accepts in some forms, are reported as errors here.
\<close>

section \<open>Formatting\<close>

definition pad_digits :: "nat \<Rightarrow> nat \<Rightarrow> gostring" where
  "pad_digits k n = (let ds = nat_digits n in replicate (k - length ds) CHR ''0'' @ ds)"

definition fixed_digits :: "nat \<Rightarrow> nat \<Rightarrow> gostring" where
  "fixed_digits prec n =
     (if prec = 0 then nat_digits n
      else nat_digits (n div 10 ^ prec) @ ''.'' @ pad_digits prec (n mod 10 ^ prec))"

text \<open>\<open>withPlus\<close> is the \<open>+\<close> flag.  A negative number keeps its sign when it rounds to zero.\<close>

definition fmt_fixed :: "bool \<Rightarrow> nat \<Rightarrow> f64 \<Rightarrow> gostring" where
  "fmt_fixed withPlus prec x =
     (case x of
        NaN \<Rightarrow> (if withPlus then ''+NaN'' else ''NaN'')
      | PInf \<Rightarrow> ''+Inf''
      | NInf \<Rightarrow> ''-Inf''
      | Fin r \<Rightarrow>
          (if r < 0 then ''-'' else if withPlus then ''+'' else '''') @
          fixed_digits prec (nat (round_even (\<bar>r\<bar> * 10 ^ prec))))"

section \<open>Parsing\<close>

fun span_digits :: "gostring \<Rightarrow> gostring \<times> gostring" where
  "span_digits [] = ([], [])"
| "span_digits (c # cs) =
     (if digit_val c = None then ([], c # cs) else let (ds, r) = span_digits cs in (c # ds, r))"

definition sign_of :: "gostring \<Rightarrow> rat \<times> gostring" where
  "sign_of s = (case s of
     [] \<Rightarrow> (1, [])
   | c # cs \<Rightarrow> if c = CHR ''-'' then (- 1, cs) else if c = CHR ''+'' then (1, cs) else (1, s))"

text \<open>The exponent part: its value and whether it is well formed.\<close>

definition exponent_of :: "gostring \<Rightarrow> int option" where
  "exponent_of s = (case s of
     [] \<Rightarrow> Some 0
   | c # cs \<Rightarrow>
       if c = CHR ''e'' \<or> c = CHR ''E'' then
         (let (sg, r) = sign_of cs; (ds, rest) = span_digits r in
          if ds = [] \<or> rest \<noteq> [] then None
          else map_option (\<lambda>n. (if sg < 0 then - int n else int n)) (dec_acc 0 ds))
       else None)"

definition special_float :: "gostring \<Rightarrow> f64 option" where
  "special_float s =
     (let l = to_lower s in
      if l = ''nan'' then Some NaN
      else if l \<in> {''inf'', ''infinity'', ''+inf'', ''+infinity''} then Some PInf
      else if l \<in> {''-inf'', ''-infinity''} then Some NInf else None)"

definition decimal_value :: "gostring \<Rightarrow> rat option" where
  "decimal_value s =
     (let (sg, r) = sign_of s;
          (ip, r1) = span_digits r;
          (fp, r2) = (case r1 of c # cs \<Rightarrow> if c = CHR ''.'' then span_digits cs else ([], r1) | [] \<Rightarrow> ([], []))
      in if ip @ fp = [] then None
         else case (dec_acc 0 (ip @ fp), exponent_of r2) of
           (Some m, Some e) \<Rightarrow> Some (sg * of_nat m * 10 powi (e - int (length fp)))
         | _ \<Rightarrow> None)"

text \<open>A value out of range is an error in Go; the caller sees the infinity and the error.\<close>

datatype parse_err = SyntaxErr | RangeErr

definition parse_float :: "gostring \<Rightarrow> f64 \<times> parse_err option" where
  "parse_float s =
     (case special_float s of
        Some x \<Rightarrow> (x, None)
      | None \<Rightarrow>
         (case decimal_value s of
            None \<Rightarrow> (0, Some SyntaxErr)
          | Some r \<Rightarrow> (fl r, if finite64 (fl r) then None else Some RangeErr)))"

lemma parse_float_NaN: "parse_float ''NaN'' = (NaN, None)"
proof -
  have "to_lower ''NaN'' = ''nan''" by code_simp
  then show ?thesis by (simp add: parse_float_def special_float_def)
qed

lemma span_digits_append: "s = fst (span_digits s) @ snd (span_digits s)"
  by (induction s) (auto split: prod.splits)

lemma dec_acc_span: "dec_acc a (fst (span_digits s)) \<noteq> None"
  by (induction s arbitrary: a) (auto split: prod.splits option.splits)

lemma is64_parse_float: "is64 (fst (parse_float s))"
  by (auto simp: parse_float_def special_float_def Let_def split: option.splits)

end
