(* ===== verification/Spot.thy ===== *)
theory Spot
  imports Go_Strconv Pred_Types
begin

text \<open>
  \<open>prediction/spot/binance.go\<close>: the cached spot quote the rule engine consults.  The HTTP calls
  and the JSON decoding of their bodies are the parameters \<open>ticker\<close> (last price and change as the
  two strings of the answer) and \<open>klines\<close> (the rows, each a list of fields, \<open>None\<close> for a field
  that is not a JSON string).
\<close>

section \<open>Quotes\<close>

record quote =
  qt_Symbol :: gostring
  qt_Price :: f64
  qt_Change5mPct :: f64
  qt_Change24hPct :: f64
  qt_FetchedAt :: int

type_synonym quote_cache = "(gostring, quote \<times> int) gomap"

definition cacheTTL :: int where
  "cacheTTL = 30 * 1000000000"

definition normalizeSymbol :: "gostring \<Rightarrow> gostring" where
  "normalizeSymbol symbol0 =
     (let symbol = to_upper (trim_space symbol0) in
      if symbol = '''' then ''''
      else if \<not> has_suffix symbol ''USDT'' then symbol @ ''USDT'' else symbol)"

definition fetchTicker24h :: "(gostring \<Rightarrow> perr + gostring \<times> gostring) \<Rightarrow> gostring \<Rightarrow> perr + f64 \<times> f64" where
  "fetchTicker24h ticker symbol =
     (case ticker symbol of
        Inl e \<Rightarrow> Inl e
      | Inr (lastPrice, change) \<Rightarrow>
         (case parse_float lastPrice of
            (_, Some _) \<Rightarrow> Inl (OtherErr ''parse'')
          | (price, None) \<Rightarrow> Inr (price, fst (parse_float change))))"

definition parseKlineClose :: "gostring option list \<Rightarrow> perr + f64" where
  "parseKlineClose row =
     (if length row < 5 then Inl (OtherErr ''short kline row'')
      else case row ! 1 of
        None \<Rightarrow> Inl (OtherErr ''json'')
      | Some s \<Rightarrow> (case parse_float s of (_, Some _) \<Rightarrow> Inl (OtherErr ''parse'') | (x, None) \<Rightarrow> Inr x))"

definition fetchChange5m :: "(gostring \<Rightarrow> perr + gostring option list list) \<Rightarrow> gostring \<Rightarrow> perr + f64" where
  "fetchChange5m klines symbol =
     (case klines symbol of
        Inl e \<Rightarrow> Inl e
      | Inr rows \<Rightarrow>
         if length rows < 2 then Inl (OtherErr ''insufficient klines'')
         else (case parseKlineClose (rows ! 0) of
           Inl e \<Rightarrow> Inl e
         | Inr open1 \<Rightarrow>
            (case parseKlineClose (rows ! 1) of
               Inl e \<Rightarrow> Inl e
             | Inr close1 \<Rightarrow>
                 if open1 \<le> 0 then Inl (OtherErr ''invalid open'')
                 else Inr (((close1 - open1) / open1) * fl 100))))"

definition FetchQuote ::
  "(gostring \<Rightarrow> perr + gostring \<times> gostring) \<Rightarrow> (gostring \<Rightarrow> perr + gostring option list list) \<Rightarrow> int \<Rightarrow>
   quote_cache \<Rightarrow> gostring \<Rightarrow> (perr + quote) \<times> quote_cache" where
  "FetchQuote ticker klines now cache symbol0 =
     (let symbol = normalizeSymbol symbol0;
          fetch =
            (case fetchTicker24h ticker symbol of
               Inl e \<Rightarrow> (Inl e, cache)
             | Inr (price, chg24) \<Rightarrow>
                 let chg5m = (case fetchChange5m klines symbol of Inl _ \<Rightarrow> 0 | Inr c \<Rightarrow> c);
                     q = \<lparr>qt_Symbol = symbol, qt_Price = price, qt_Change5mPct = chg5m,
                          qt_Change24hPct = chg24, qt_FetchedAt = now\<rparr>
                 in (Inr q, mput symbol (q, now) cache))
      in if symbol = '''' then (Inl (OtherErr ''empty symbol''), cache)
         else case map_of cache symbol of
           Some (q, stamp) \<Rightarrow> if now - stamp < cacheTTL then (Inr q, cache) else fetch
         | None \<Rightarrow> fetch)"

section \<open>Properties\<close>

lemma char_upper_idem [simp]: "char_upper (char_upper c) = char_upper c"
proof (cases "97 \<le> (of_char c :: nat) \<and> (of_char c :: nat) \<le> 122")
  case True
  then have "of_char (char_of ((of_char c :: nat) - 32)) = (of_char c :: nat) - 32"
    by (simp only: of_char_of, intro mod_less) auto
  then show ?thesis using True by (auto simp: char_upper_def Let_def)
next
  case False
  then show ?thesis by (auto simp: char_upper_def Let_def)
qed

lemma to_upper_idem [simp]: "to_upper (to_upper s) = to_upper s"
  by (simp add: to_upper_def o_def)

lemma to_upper_append [simp]: "to_upper (s @ t) = to_upper s @ to_upper t"
  by (simp add: to_upper_def)

lemma is_space_upper [simp]: "is_space (char_upper c) = is_space c"
proof (cases "97 \<le> (of_char c :: nat) \<and> (of_char c :: nat) \<le> 122")
  case True
  then have "of_char (char_of ((of_char c :: nat) - 32)) = (of_char c :: nat) - 32"
    by (simp only: of_char_of, intro mod_less) auto
  then show ?thesis using True by (auto simp: char_upper_def is_space_def Let_def)
next
  case False
  then show ?thesis by (auto simp: char_upper_def Let_def)
qed

text \<open>
  symbol normalisation is idempotent, and its result is empty or ends in USDT in upper case,
  so a symbol is cached and looked up under one key however it was written.
\<close>

theorem normalize_symbol_idempotent:
  "normalizeSymbol (normalizeSymbol s) = normalizeSymbol s \<and>
   (normalizeSymbol s = '''' \<or> has_suffix (normalizeSymbol s) ''USDT'') \<and>
   to_upper (normalizeSymbol s) = normalizeSymbol s"
proof -
  let ?u = "to_upper (trim_space s)"
  have usdt: "to_upper ''USDT'' = ''USDT''" "\<not> is_space (last ''USDT'')" by code_simp+
  have ends: "?u = [] \<or> \<not> is_space (hd ?u) \<and> \<not> is_space (last ?u)"
    using trim_space_ends [of s] by (auto simp: to_upper_def hd_map last_map)
  show ?thesis
  proof (cases "?u = []")
    case True
    then show ?thesis by (simp add: normalizeSymbol_def trim_space_def trim_by_def to_upper_def)
  next
    case False
    define n where "n = normalizeSymbol s"
    have n: "n = (if has_suffix ?u ''USDT'' then ?u else ?u @ ''USDT'')"
      using False by (simp add: n_def normalizeSymbol_def Let_def)
    have suf: "has_suffix n ''USDT''" by (simp add: n has_suffix_def)
    have up: "to_upper n = n" using usdt(1) by (simp add: n)
    have "n \<noteq> []" "\<not> is_space (hd n) \<and> \<not> is_space (last n)" using False ends usdt(2) by (auto simp: n)
    then have "normalizeSymbol n = n" using trim_space_id [of n] suf up by (simp add: normalizeSymbol_def Let_def)
    then show ?thesis using suf up by (simp add: n_def)
  qed
qed

text \<open>
  within its thirty seconds a cached quote answers without touching the network: the second
  of two fetches returns the first's quote and leaves the cache alone, whatever the exchange would
  have said.
\<close>

theorem quote_cache_hit:
  assumes "FetchQuote ticker klines now cache symb = (Inr q, cache')" "map_of cache (normalizeSymbol symb) = None"
    and "now' - now < cacheTTL"
  shows "FetchQuote ticker' klines' now' cache' symb = (Inr q, cache')"
  using assms by (auto simp: FetchQuote_def Let_def split: if_splits sum.splits option.splits)

theorem quote_cache_hit_witness:
  "\<exists>q c. FetchQuote (\<lambda>_. Inr (''1'', ''0'')) (\<lambda>_. Inr []) 0 [] ''btc'' = (Inr q, c) \<and>
     FetchQuote (\<lambda>_. Inl (OtherErr ''down'')) (\<lambda>_. Inl (OtherErr ''down'')) 1000 c ''btc'' = (Inr q, c)"
proof -
  have sym: "normalizeSymbol ''btc'' = ''BTCUSDT''" by code_simp
  have "parse_float ''1'' = (fl 1, None)"
  proof -
    have "special_float ''1'' = None" "decimal_value ''1'' = Some 1" by code_simp+
    then show ?thesis by (simp add: parse_float_def)
  qed
  then obtain q c where f: "FetchQuote (\<lambda>_. Inr (''1'', ''0'')) (\<lambda>_. Inr []) 0 [] ''btc'' = (Inr q, c)"
    by (simp add: FetchQuote_def sym fetchTicker24h_def fetchChange5m_def Let_def)
  then show ?thesis using quote_cache_hit [OF f, of 1000 "\<lambda>_. Inl (OtherErr ''down'')" "\<lambda>_. Inl (OtherErr ''down'')"]
    by (simp add: cacheTTL_def)
qed

end
