(* ===== verification/Go_Time.thy ===== *)
theory Go_Time
  imports Go_Strconv
begin

text \<open>
  What the prediction code uses of package \<open>time\<close>: instants are Unix nanoseconds, durations are
  nanoseconds that saturate at the 64-bit bounds, and a UTC date is computed from the day number
  in the proleptic Gregorian calendar.
\<close>

section \<open>Durations\<close>

definition go_quot :: "int \<Rightarrow> int \<Rightarrow> int" where
  "go_quot a b = (if (a < 0) \<noteq> (b < 0) then - (\<bar>a\<bar> div \<bar>b\<bar>) else \<bar>a\<bar> div \<bar>b\<bar>)"

definition go_rem :: "int \<Rightarrow> int \<Rightarrow> int" where
  "go_rem a b = a - go_quot a b * b"

definition sat64 :: "int \<Rightarrow> int" where
  "sat64 d = (if d < - (2 ^ 63) then - (2 ^ 63) else if 2 ^ 63 - 1 < d then 2 ^ 63 - 1 else d)"

definition time_until :: "int \<Rightarrow> int \<Rightarrow> int" where
  "time_until t now = sat64 (t - now)"

definition time_since :: "int \<Rightarrow> int \<Rightarrow> int" where
  "time_since t now = sat64 (now - t)"

definition hour_ns :: int where
  "hour_ns = 3600 * 1000000000"

definition duration_hours :: "int \<Rightarrow> f64" where
  "duration_hours d = of_go_int (go_quot d hour_ns) + of_go_int (go_rem d hour_ns) / of_go_int hour_ns"

definition minute_ns :: int where
  "minute_ns = 60 * 1000000000"

definition duration_minutes :: "int \<Rightarrow> f64" where
  "duration_minutes d = of_go_int (go_quot d minute_ns) + of_go_int (go_rem d minute_ns) / of_go_int minute_ns"

definition duration_seconds :: "int \<Rightarrow> f64" where
  "duration_seconds d = of_go_int (go_quot d 1000000000) + of_go_int (go_rem d 1000000000) / of_go_int 1000000000"

text \<open>Conversion of a double to an integer truncates; the values here are far inside 64 bits.\<close>

definition trunc_int :: "f64 \<Rightarrow> int" where
  "trunc_int x = (case x of Fin r \<Rightarrow> (if r < 0 then - \<lfloor>- r\<rfloor> else \<lfloor>r\<rfloor>) | _ \<Rightarrow> - (2 ^ 63))"

section \<open>UTC dates\<close>

definition day_ns :: int where
  "day_ns = 24 * hour_ns"

definition civil_of_days :: "int \<Rightarrow> int \<times> int \<times> int" where
  "civil_of_days z0 =
     (let z = z0 + 719468;
          era = z div 146097;
          doe = z mod 146097;
          yoe = (doe - doe div 1460 + doe div 36524 - doe div 146096) div 365;
          doy = doe - (365 * yoe + yoe div 4 - yoe div 100);
          mp = (5 * doy + 2) div 153;
          d = doy - (153 * mp + 2) div 5 + 1;
          m = (if mp < 10 then mp + 3 else mp - 9);
          y = yoe + era * 400 + (if m \<le> 2 then 1 else 0)
      in (y, m, d))"

definition pad2 :: "int \<Rightarrow> gostring" where
  "pad2 n = pad_digits 2 (nat n)"

definition date_string :: "int \<Rightarrow> gostring" where
  "date_string now =
     (let (y, m, d) = civil_of_days (now div day_ns)
      in pad_digits 4 (nat y) @ ''-'' @ pad2 m @ ''-'' @ pad2 d)"

text \<open>\<open>Format(time.RFC3339)\<close> of an instant in UTC, and the day that keys the risk state.\<close>

definition rfc3339 :: "int \<Rightarrow> gostring" where
  "rfc3339 now =
     (let s = now div 1000000000 mod 86400
      in date_string now @ ''T'' @ pad2 (s div 3600) @ '':'' @ pad2 (s div 60 mod 60) @ '':'' @ pad2 (s mod 60) @ ''Z'')"

section \<open>Parsing\<close>

definition leap_year :: "int \<Rightarrow> bool" where
  "leap_year y \<longleftrightarrow> y mod 4 = 0 \<and> (y mod 100 \<noteq> 0 \<or> y mod 400 = 0)"

definition days_in :: "int \<Rightarrow> int \<Rightarrow> int" where
  "days_in y m = (if m = 2 then (if leap_year y then 29 else 28) else if m \<in> {4, 6, 9, 11} then 30 else 31)"

definition days_of_civil :: "int \<Rightarrow> int \<Rightarrow> int \<Rightarrow> int" where
  "days_of_civil y0 m d =
     (let y = (if m \<le> 2 then y0 - 1 else y0);
          yoe = y mod 400;
          mp = (if m > 2 then m - 3 else m + 9);
          doy = (153 * mp + 2) div 5 + d - 1;
          doe = yoe * 365 + yoe div 4 - yoe div 100 + doy
      in y div 400 * 146097 + doe - 719468)"

definition digits_at :: "gostring \<Rightarrow> nat \<Rightarrow> nat \<Rightarrow> int option" where
  "digits_at s i n =
     (let ds = take n (drop i s) in if length ds = n then map_option int (dec_acc 0 ds) else None)"

definition char_at :: "gostring \<Rightarrow> nat \<Rightarrow> char \<Rightarrow> bool" where
  "char_at s i c \<longleftrightarrow> take 1 (drop i s) = [c]"

text \<open>A fraction of a second, in nanoseconds (further digits are dropped), and the rest.\<close>

definition fraction_ns :: "gostring \<Rightarrow> (int \<times> gostring) option" where
  "fraction_ns s = (case s of
     [] \<Rightarrow> Some (0, [])
   | c # cs \<Rightarrow>
       if c = CHR ''.'' \<or> c = CHR '','' then
         (let (ds, r) = span_digits cs in
          if ds = [] then None
          else map_option (\<lambda>n. (int n, r)) (dec_acc 0 (take 9 (ds @ replicate 9 CHR ''0''))))
       else Some (0, s))"

definition zone_ns :: "gostring \<Rightarrow> int option" where
  "zone_ns s =
     (if s = ''Z'' then Some 0
      else if length s = 6 \<and> (char_at s 0 CHR ''+'' \<or> char_at s 0 CHR ''-'') \<and> char_at s 3 CHR '':'' then
        (case (digits_at s 1 2, digits_at s 4 2) of
           (Some h, Some m) \<Rightarrow>
             if h > 24 \<or> m \<ge> 60 then None
             else Some ((if char_at s 0 CHR ''-'' then - 1 else 1) * (h * hour_ns + m * minute_ns))
         | _ \<Rightarrow> None)
      else None)"

text \<open>\<open>time.Parse(time.RFC3339, s)\<close> as a Unix time; \<open>None\<close> is an error.\<close>

definition parse_rfc3339 :: "gostring \<Rightarrow> int option" where
  "parse_rfc3339 s =
     (if \<not> (char_at s 4 CHR ''-'' \<and> char_at s 7 CHR ''-'' \<and> char_at s 10 CHR ''T'' \<and> char_at s 13 CHR '':'' \<and>
            char_at s 16 CHR '':'') then None
      else case (digits_at s 0 4, digits_at s 5 2, digits_at s 8 2) of
        (Some y, Some mo, Some d) \<Rightarrow>
          (case (digits_at s 11 2, digits_at s 14 2, digits_at s 17 2, fraction_ns (drop 19 s)) of
             (Some h, Some mi, Some sec, Some (ns, r)) \<Rightarrow>
               if mo < 1 \<or> mo > 12 \<or> d < 1 \<or> d > days_in y mo \<or> h > 23 \<or> mi > 59 \<or> sec > 59 then None
               else map_option (\<lambda>z. days_of_civil y mo d * day_ns + h * hour_ns + mi * minute_ns + sec * 1000000000 + ns - z)
                      (zone_ns r)
           | _ \<Rightarrow> None)
      | _ \<Rightarrow> None)"

text \<open>The zero \<open>time.Time\<close>, January 1 of year 1.\<close>

definition zero_time_ns :: int where
  "zero_time_ns = - 62135596800 * 1000000000"

lemma parse_examples:
  "parse_rfc3339 ''2024-02-29T00:00:00Z'' = Some (1709164800 * 1000000000)"
  "parse_rfc3339 ''2023-02-29T00:00:00Z'' = None"
  "parse_rfc3339 ''0001-01-01T00:00:00Z'' = Some zero_time_ns"
  by (simp_all add: parse_rfc3339_def char_at_def digits_at_def digit_val_def fraction_ns_def zone_ns_def
      days_in_def leap_year_def days_of_civil_def day_ns_def hour_ns_def minute_ns_def zero_time_ns_def)

lemma date_string_same_day: "t div day_ns = t' div day_ns \<Longrightarrow> date_string t = date_string t'"
  by (simp add: date_string_def)

lemma sat64_mono: "a \<le> b \<Longrightarrow> sat64 a \<le> sat64 b"
  by (auto simp: sat64_def)

lemma date_examples:
  "date_string 0 = ''1970-01-01''" "date_string (1709164800 * 1000000000) = ''2024-02-29''"
  "rfc3339 (1709164799 * 1000000000) = ''2024-02-28T23:59:59Z''"
  by code_simp+

end
