(* ===== verification/Engine_Rules.thy ===== *)
theory Engine_Rules
  imports Pred_Config Spot Go_Time
begin

text \<open>
  The data of \<open>prediction/engine/context.go\<close>, the book summary (\<open>book_summary.go\<close>) and the rule
  engine (\<open>rules.go\<close>), which turns a trading context into decisions without an AI.

  \<open>now\<close> is the clock and \<open>fetch\<close> the answer of \<open>spot.FetchQuote\<close>; the context pointer is never nil
  where the code dereferences it.  The loops carry their two variables, the decisions so far and
  the action recorded per market.
\<close>

section \<open>Context\<close>

record book_summary =
  bs_BestBid :: f64
  bs_BestAsk :: f64
  bs_BidDepth :: f64
  bs_AskDepth :: f64

record market_snapshot =
  sn_Market :: market
  sn_YesMid :: f64
  sn_NoMid :: f64
  sn_Spread :: f64
  sn_YesBook :: book_summary

record pred_context =
  cx_CurrentTime :: gostring
  cx_RuntimeMinutes :: int
  cx_CallCount :: int
  cx_AvailableUsdc :: f64
  cx_TotalEquity :: f64
  cx_WalletAvailable :: bool
  cx_Positions :: "outcome_position list"
  cx_CandidateMarkets :: "market_snapshot list"
  cx_RecentDecisions :: "decision list"
  cx_SpotQuotes :: "(gostring, quote) gomap"

record full_decision =
  fd_Timestamp :: int
  fd_SystemPrompt :: gostring
  fd_UserPrompt :: gostring
  fd_CoTTrace :: gostring
  fd_Decisions :: "decision list"
  fd_Executions :: "execution_outcome list"
  fd_RawResponse :: gostring
  fd_AIRequestDurationMs :: int

definition bookDepthLevels :: nat where
  "bookDepthLevels = 3"

definition summarizeBook :: "order_book option \<Rightarrow> book_summary" where
  "summarizeBook book =
     (case book of
        None \<Rightarrow> \<lparr>bs_BestBid = 0, bs_BestAsk = 0, bs_BidDepth = 0, bs_AskDepth = 0\<rparr>
      | Some b \<Rightarrow>
          \<lparr>bs_BestBid = (if ob_Bids b \<noteq> [] then lv_Price (hd (ob_Bids b)) else 0),
           bs_BestAsk = (if ob_Asks b \<noteq> [] then lv_Price (hd (ob_Asks b)) else 0),
           bs_BidDepth = foldl (\<lambda>acc lv. acc + lv_Size lv) 0 (take bookDepthLevels (ob_Bids b)),
           bs_AskDepth = foldl (\<lambda>acc lv. acc + lv_Size lv) 0 (take bookDepthLevels (ob_Asks b))\<rparr>)"

section \<open>Parts of the rules\<close>

definition roundPrice :: "f64 \<Rightarrow> f64" where
  "roundPrice p = fround (p * fl 1000) / fl 1000"

definition isDirectionalMarket :: "market \<Rightarrow> bool" where
  "isDirectionalMarket m =
     (let hay = to_lower (m_Question m @ '' '' @ m_Slug m) in
      contains hay ''up or down'' \<or> contains hay ''up-or-down'' \<or> contains hay ''up/down'')"

definition spotAllowsBuyYes :: "market \<Rightarrow> quote option \<Rightarrow> f64 \<Rightarrow> bool" where
  "spotAllowsBuyYes m q minPct =
     (case q of None \<Rightarrow> True
      | Some q \<Rightarrow> if minPct \<le> 0 \<or> \<not> isDirectionalMarket m then True else qt_Change5mPct q \<ge> minPct)"

definition spotAllowsBuyNo :: "market \<Rightarrow> quote option \<Rightarrow> f64 \<Rightarrow> bool" where
  "spotAllowsBuyNo m q minPct =
     (case q of None \<Rightarrow> True
      | Some q \<Rightarrow> if minPct \<le> 0 \<or> \<not> isDirectionalMarket m then True else qt_Change5mPct q \<le> - minPct)"

definition spot_quote ::
  "(gostring \<Rightarrow> perr + quote) \<Rightarrow> ((gostring \<times> quote) list \<Rightarrow> (gostring \<times> quote) list) \<Rightarrow> pred_context \<Rightarrow> gostring \<Rightarrow> quote option" where
  "spot_quote fetch rng ctx symbol =
     (let sy = trim_space symbol in
      if sy = '''' then None
      else case fetch sy of
        Inr q \<Rightarrow> Some q
      | Inl _ \<Rightarrow>
          if cx_SpotQuotes ctx = [] then None
          else case map_of (cx_SpotQuotes ctx) (normalizeSymbol sy) of
            Some q \<Rightarrow> Some q
          | None \<Rightarrow> (case rng (cx_SpotQuotes ctx) of [] \<Rightarrow> None | (_, q) # _ \<Rightarrow> Some q))"

definition rules_filled :: "rule_config \<Rightarrow> rule_config" where
  "rules_filled r =
     (let r = (if ru_DefaultSizeUsd r \<le> 0 then r\<lparr>ru_DefaultSizeUsd := fl 10\<rparr> else r)
      in if ru_MaxSpread r \<le> 0 then r\<lparr>ru_MaxSpread := fl (5 / 100)\<rparr> else r)"

definition rule_edge :: "strategy \<Rightarrow> f64" where
  "rule_edge strat =
     (let e = ru_DefaultEdgePct (st_Rules strat);
          e = (if e \<le> 0 then rc_MinEdgePct (st_Risk strat) else e)
      in if e \<le> 0 then fl (25 / 10) else e)"

type_synonym rule_state = "decision list \<times> (gostring, action) gomap"

definition emit :: "decision \<Rightarrow> rule_state \<Rightarrow> rule_state" where
  "emit d s = (fst s @ [d], mput (d_MarketSlug d) (d_Action d) (snd s))"

section \<open>Take profit\<close>

definition position_mark :: "outcome_position \<Rightarrow> f64" where
  "position_mark p = (if op_MidPrice p \<le> 0 then op_AvgCost p else op_MidPrice p)"

definition sell_signal :: "rule_config \<Rightarrow> bool \<Rightarrow> outcome_position \<Rightarrow> bool \<times> bool" where
  "sell_signal rules atCap p =
     (let mark = position_mark p in
      (ru_TakeProfitMid rules > 0 \<and> mark \<ge> ru_TakeProfitMid rules,
       atCap \<and> mark > op_AvgCost p \<and> op_AvgCost p > 0))"

definition sell_reason :: "rule_config \<Rightarrow> int \<Rightarrow> bool \<times> bool \<Rightarrow> outcome_position \<Rightarrow> gostring" where
  "sell_reason rules openCount sig p =
     (if snd sig \<and> \<not> fst sig then
        ''rule: trim at max open markets ('' @ itoa openCount @ ''); mid '' @ fmt_fixed False 3 (position_mark p)
          @ '' > cost '' @ fmt_fixed False 3 (op_AvgCost p)
      else ''rule: take profit mid '' @ fmt_fixed False 3 (position_mark p) @ '' >= ''
          @ fmt_fixed False 3 (ru_TakeProfitMid rules))"

definition rule_sell :: "rule_config \<Rightarrow> f64 \<Rightarrow> bool \<Rightarrow> int \<Rightarrow> rule_state \<Rightarrow> outcome_position \<Rightarrow> rule_state" where
  "rule_sell rules sellSize atCap openCount s p =
     (if op_Shares p \<le> 0 \<or> op_TokenID p = '''' \<or> op_MarketSlug p = '''' then s
      else if position_mark p \<le> 0 then s
      else
        let sig = sell_signal rules atCap p in
        if \<not> fst sig \<and> \<not> snd sig then s
        else if mhas (snd s) (op_MarketSlug p) then s
        else emit (empty_decision\<lparr>d_MarketSlug := op_MarketSlug p, d_TokenID := op_TokenID p,
               d_Action := ActionSell, d_SizeUsd := sellSize,
               d_Reasoning := sell_reason rules openCount sig p\<rparr>) s)"

section \<open>Buying\<close>

definition rule_skips :: "strategy \<Rightarrow> rule_config \<Rightarrow> f64 \<Rightarrow> int \<Rightarrow> market_snapshot \<Rightarrow> bool" where
  "rule_skips strat rules minLiq now snap =
     (let m = sn_Market snap in
      m_Closed m
      \<or> (minLiq > 0 \<and> m_Liquidity m < minLiq)
      \<or> \<bar>sn_YesMid snap + sn_NoMid snap - 1\<bar> > ru_MaxSpread rules
      \<or> (st_MinHoursToExpiry strat > 0 \<and>
          (case m_EndDate m of None \<Rightarrow> False
           | Some e \<Rightarrow> duration_hours (time_until e now) < st_MinHoursToExpiry strat)))"

definition buy_reason :: "gostring \<Rightarrow> f64 \<Rightarrow> f64 \<Rightarrow> quote option \<Rightarrow> gostring" where
  "buy_reason side mid maxp q =
     ''rule: '' @ side @ '' mid '' @ fmt_fixed False 3 mid @ '' <= max '' @ fmt_fixed False 3 maxp @
     (case q of None \<Rightarrow> ''''
      | Some q \<Rightarrow> ''; spot '' @ qt_Symbol q @ '' 5m '' @ fmt_fixed True 2 (qt_Change5mPct q) @ ''%'')"

definition rule_buy :: "rule_config \<Rightarrow> f64 \<Rightarrow> quote option \<Rightarrow> action \<Rightarrow> market \<Rightarrow> f64 \<Rightarrow> decision" where
  "rule_buy rules edgePct q a m mid =
     \<lparr>d_MarketSlug = m_Slug m, d_TokenID = (if a = ActionBuyYes then m_YesTokenID m else m_NoTokenID m),
      d_Action = a, d_SizeUsd = ru_DefaultSizeUsd rules, d_LimitPrice = roundPrice (mid + fl (1 / 100)),
      d_Confidence = 75, d_EdgePct = edgePct,
      d_Reasoning = (if a = ActionBuyYes then buy_reason ''YES'' mid (ru_MaxBuyYesPrice rules) q
                     else buy_reason ''NO'' mid (ru_MaxBuyNoPrice rules) q)\<rparr>"

text \<open>Another action recorded for the market blocks the buy.\<close>

definition slug_taken :: "rule_state \<Rightarrow> gostring \<Rightarrow> action \<Rightarrow> bool" where
  "slug_taken s slug a \<longleftrightarrow> (case map_of (snd s) slug of Some prev \<Rightarrow> prev \<noteq> a | None \<Rightarrow> False)"

text \<open>Each half says whether the loop goes on with the next market (\<open>continue\<close>).\<close>

definition rule_buy_yes ::
  "rule_config \<Rightarrow> f64 \<Rightarrow> quote option \<Rightarrow> market_snapshot \<Rightarrow> rule_state \<Rightarrow> bool \<times> rule_state" where
  "rule_buy_yes rules edgePct q snap s =
     (let m = sn_Market snap in
      if ru_MaxBuyYesPrice rules > 0 \<and> sn_YesMid snap > 0 \<and> sn_YesMid snap \<le> ru_MaxBuyYesPrice rules then
        if \<not> spotAllowsBuyYes m q (ru_SpotMinChangePct rules) then (True, s)
        else if slug_taken s (m_Slug m) ActionBuyYes then (True, s)
        else (False, emit (rule_buy rules edgePct q ActionBuyYes m (sn_YesMid snap)) s)
      else (False, s))"

definition rule_buy_no ::
  "rule_config \<Rightarrow> f64 \<Rightarrow> quote option \<Rightarrow> market_snapshot \<Rightarrow> rule_state \<Rightarrow> rule_state" where
  "rule_buy_no rules edgePct q snap s =
     (let m = sn_Market snap in
      if ru_MaxBuyNoPrice rules > 0 \<and> sn_NoMid snap > 0 \<and> sn_NoMid snap \<le> ru_MaxBuyNoPrice rules then
        if \<not> spotAllowsBuyNo m q (ru_SpotMinChangePct rules) then s
        else if slug_taken s (m_Slug m) ActionBuyNo then s
        else emit (rule_buy rules edgePct q ActionBuyNo m (sn_NoMid snap)) s
      else s)"

definition rule_market ::
  "strategy \<Rightarrow> rule_config \<Rightarrow> f64 \<Rightarrow> f64 \<Rightarrow> int \<Rightarrow> quote option \<Rightarrow> rule_state \<Rightarrow> market_snapshot \<Rightarrow> rule_state" where
  "rule_market strat rules minLiq edgePct now q s snap =
     (if rule_skips strat rules minLiq now snap then s
      else let (next_market, s) = rule_buy_yes rules edgePct q snap s in
        if next_market then s else rule_buy_no rules edgePct q snap s)"

section \<open>The rule engine\<close>

definition rule_sells :: "strategy \<Rightarrow> pred_context \<Rightarrow> rule_state" where
  "rule_sells strat ctx =
     (let rules = rules_filled (st_Rules strat);
          sellSize = (if ru_SellSizeUsd rules \<le> 0 then ru_DefaultSizeUsd rules else ru_SellSizeUsd rules);
          openCount = int (length (filter (\<lambda>p. op_Shares p > 0 \<and> op_MarketSlug p \<noteq> '''') (cx_Positions ctx)));
          maxMarkets = (if rc_MaxOpenMarkets (st_Risk strat) \<le> 0 then 10 else rc_MaxOpenMarkets (st_Risk strat));
          atCap = (openCount \<ge> maxMarkets)
      in foldl (rule_sell rules sellSize atCap openCount) ([], []) (cx_Positions ctx))"

definition rule_buys :: "int \<Rightarrow> quote option \<Rightarrow> strategy \<Rightarrow> pred_context \<Rightarrow> rule_state \<Rightarrow> rule_state" where
  "rule_buys now q strat ctx s =
     (let rules = rules_filled (st_Rules strat);
          minLiq = (if ru_MinLiquidityUsd rules \<le> 0 then st_MinLiquidityUsd strat else ru_MinLiquidityUsd rules)
      in foldl (rule_market strat rules minLiq (rule_edge strat) now q) s (cx_CandidateMarkets ctx))"

definition no_signals :: decision where
  "no_signals = empty_decision\<lparr>d_Action := ActionWait, d_Reasoning := ''rule: no signals this cycle''\<rparr>"

definition EvaluateRules ::
  "int \<Rightarrow> (gostring \<Rightarrow> perr + quote) \<Rightarrow> ((gostring \<times> quote) list \<Rightarrow> (gostring \<times> quote) list) \<Rightarrow>
   pred_context \<Rightarrow> strategy \<Rightarrow> decision list" where
  "EvaluateRules now fetch rng ctx strat =
     (let q = spot_quote fetch rng ctx (ru_SpotSymbol (st_Rules strat));
          out = fst (rule_buys now q strat ctx (rule_sells strat ctx))
      in if out = [] then [no_signals] else out)"

definition RulesFullDecision :: "int \<Rightarrow> decision list \<Rightarrow> full_decision" where
  "RulesFullDecision now ds =
     \<lparr>fd_Timestamp = now, fd_SystemPrompt = '''', fd_UserPrompt = '''', fd_CoTTrace = ''rule engine (no AI)'',
      fd_Decisions = ds, fd_Executions = [], fd_RawResponse = '''', fd_AIRequestDurationMs = 0\<rparr>"

section \<open>One action per market\<close>

text \<open>The map records the action of every decision so far.\<close>

definition rule_inv :: "rule_state \<Rightarrow> bool" where
  "rule_inv s \<longleftrightarrow> (\<forall>d \<in> set (fst s). map_of (snd s) (d_MarketSlug d) = Some (d_Action d))"

lemma emit_inv:
  "rule_inv s \<Longrightarrow> map_of (snd s) (d_MarketSlug d) \<in> {None, Some (d_Action d)} \<Longrightarrow> rule_inv (emit d s)"
  by (auto simp: rule_inv_def emit_def)

lemma rule_sell_inv: "rule_inv s \<Longrightarrow> rule_inv (rule_sell rules sz cap n s p)"
  by (auto simp: rule_sell_def Let_def mhas_def intro!: emit_inv)

lemma not_taken: "\<not> slug_taken s slug a \<Longrightarrow> map_of (snd s) slug \<in> {None, Some a}"
  by (auto simp: slug_taken_def split: option.splits)

lemma rule_buy_slug [simp]:
  "d_MarketSlug (rule_buy rules e q a m mid) = m_Slug m" "d_Action (rule_buy rules e q a m mid) = a"
  by (simp_all add: rule_buy_def)

lemma rule_buy_yes_inv: "rule_inv s \<Longrightarrow> rule_inv (snd (rule_buy_yes rules e q snap s))"
  using not_taken [of s "m_Slug (sn_Market snap)" ActionBuyYes]
  by (auto simp: rule_buy_yes_def Let_def intro!: emit_inv)

lemma rule_buy_no_inv: "rule_inv s \<Longrightarrow> rule_inv (rule_buy_no rules e q snap s)"
  using not_taken [of s "m_Slug (sn_Market snap)" ActionBuyNo]
  by (auto simp: rule_buy_no_def Let_def intro!: emit_inv)

lemma rule_market_inv: "rule_inv s \<Longrightarrow> rule_inv (rule_market strat rules l e now q s snap)"
  using rule_buy_yes_inv [of s rules e q snap]
  by (auto simp: rule_market_def intro: rule_buy_no_inv split: prod.splits)

interpretation rule_sell_run: guarded_ops "rule_sell rules sz cap n" rule_inv "\<lambda>_. True" for rules sz cap n
  by unfold_locales (rule rule_sell_inv)

interpretation rule_market_run: guarded_ops "rule_market strat rules l e now q" rule_inv "\<lambda>_. True"
    for strat rules l e now q
  by unfold_locales (rule rule_market_inv)

lemma rules_inv: "rule_inv (rule_buys now q strat ctx (rule_sells strat ctx))"
proof -
  have "rule_inv (rule_sells strat ctx)"
    unfolding rule_sells_def Let_def
    by (rule rule_sell_run.run_inv) (simp_all add: rule_inv_def list_all_iff)
  then show ?thesis unfolding rule_buys_def Let_def
    by (rule rule_market_run.run_inv) (simp add: list_all_iff)
qed

text \<open>
  the rule engine takes one side per market: the actions of one evaluation are a function of the
  market they name, so it never buys YES and NO of a market together, nor sells
  and buys it; and it always answers with at least one decision.
\<close>

theorem rules_one_action_per_market:
  "EvaluateRules now fetch rng ctx strat \<noteq> [] \<and>
   (\<exists>side. map d_Action (EvaluateRules now fetch rng ctx strat) =
      map (side \<circ> d_MarketSlug) (EvaluateRules now fetch rng ctx strat))"
proof -
  define q where "q = spot_quote fetch rng ctx (ru_SpotSymbol (st_Rules strat))"
  define out where "out = fst (rule_buys now q strat ctx (rule_sells strat ctx))"
  define m where "m = snd (rule_buys now q strat ctx (rule_sells strat ctx))"
  have ev: "EvaluateRules now fetch rng ctx strat = (if out = [] then [no_signals] else out)"
    by (simp add: EvaluateRules_def q_def out_def Let_def)
  have side: "map_of m (d_MarketSlug d) = Some (d_Action d)" if "d \<in> set out" for d
    using rules_inv [of now q strat ctx] that by (auto simp: rule_inv_def out_def m_def)
  show ?thesis
  proof (cases "out = []")
    case True
    have "map d_Action [no_signals] = map ((\<lambda>_. d_Action no_signals) \<circ> d_MarketSlug) [no_signals]" by simp
    then show ?thesis unfolding ev if_P [OF True] by blast
  next
    case False
    have "map d_Action out = map ((\<lambda>slug. the (map_of m slug)) \<circ> d_MarketSlug) out"
      by (simp add: side)
    with False show ?thesis unfolding ev if_not_P [OF False] by blast
  qed
qed

section \<open>Where the decisions come from\<close>

definition sell_origin :: "strategy \<Rightarrow> pred_context \<Rightarrow> decision \<Rightarrow> bool" where
  "sell_origin strat ctx d \<longleftrightarrow> d_Action d = ActionSell \<and>
     (\<exists>p \<in> set (cx_Positions ctx). \<not> op_Shares p \<le> 0 \<and> op_TokenID p = d_TokenID d \<and> d_TokenID d \<noteq> '''' \<and>
        op_MarketSlug p = d_MarketSlug d \<and> \<not> position_mark p \<le> 0)"

definition buy_origin :: "int \<Rightarrow> quote option \<Rightarrow> strategy \<Rightarrow> pred_context \<Rightarrow> decision \<Rightarrow> bool" where
  "buy_origin now q strat ctx d \<longleftrightarrow>
     (\<exists>snap \<in> set (cx_CandidateMarkets ctx). let m = sn_Market snap; r = rules_filled (st_Rules strat) in
        d_MarketSlug d = m_Slug m \<and> \<not> m_Closed m \<and>
        \<not> \<bar>sn_YesMid snap + sn_NoMid snap - 1\<bar> > ru_MaxSpread r \<and> d_SizeUsd d = ru_DefaultSizeUsd r \<and>
        (d_Action d = ActionBuyYes \<and> d_TokenID d = m_YesTokenID m \<and> 0 < sn_YesMid snap \<and>
           sn_YesMid snap \<le> ru_MaxBuyYesPrice r \<and> spotAllowsBuyYes m q (ru_SpotMinChangePct r) \<and>
           d_LimitPrice d = roundPrice (sn_YesMid snap + fl (1 / 100))
         \<or> d_Action d = ActionBuyNo \<and> d_TokenID d = m_NoTokenID m \<and> 0 < sn_NoMid snap \<and>
           sn_NoMid snap \<le> ru_MaxBuyNoPrice r \<and> spotAllowsBuyNo m q (ru_SpotMinChangePct r) \<and>
           d_LimitPrice d = roundPrice (sn_NoMid snap + fl (1 / 100))))"

lemma foldl_emits:
  assumes "\<And>s x. x \<in> set xs \<Longrightarrow> \<forall>d \<in> set (fst (f s x)). d \<in> set (fst s) \<or> P d"
  shows "\<forall>d \<in> set (fst (foldl f s xs)). d \<in> set (fst s) \<or> P d"
  using assms
proof (induction xs arbitrary: s)
  case (Cons x xs)
  have "\<forall>d \<in> set (fst (foldl f (f s x) xs)). d \<in> set (fst (f s x)) \<or> P d"
    by (rule Cons.IH, rule Cons.prems) simp
  then show ?case using Cons.prems [of x s] by auto
qed simp

lemma rule_sells_origin: "\<forall>d \<in> set (fst (rule_sells strat ctx)). sell_origin strat ctx d"
proof -
  have "\<forall>d \<in> set (fst (rule_sell r sz cap n s p)). d \<in> set (fst s) \<or> sell_origin strat ctx d"
    if "p \<in> set (cx_Positions ctx)" for r sz cap n s p
    using that by (auto simp: rule_sell_def Let_def emit_def sell_origin_def empty_decision_def)
  then have "\<forall>d \<in> set (fst (foldl (rule_sell r sz cap n) ([], []) (cx_Positions ctx))). sell_origin strat ctx d"
    for r sz cap n
    using foldl_emits [of "cx_Positions ctx" "rule_sell r sz cap n" "sell_origin strat ctx" "([], [])"] by simp
  then show ?thesis unfolding rule_sells_def Let_def by blast
qed

lemma rule_market_emits:
  assumes "snap \<in> set (cx_CandidateMarkets ctx)" and r: "r = rules_filled (st_Rules strat)"
  shows "\<forall>d \<in> set (fst (rule_market strat r l e now q s snap)). d \<in> set (fst s) \<or> buy_origin now q strat ctx d"
proof (cases "rule_skips strat r l now snap")
  case False
  have yes: "\<forall>d \<in> set (fst (snd (rule_buy_yes r e q snap s))). d \<in> set (fst s) \<or> buy_origin now q strat ctx d" for s
    using assms False by (auto simp: rule_buy_yes_def rule_skips_def buy_origin_def emit_def rule_buy_def Let_def)
  have no: "\<forall>d \<in> set (fst (rule_buy_no r e q snap s)). d \<in> set (fst s) \<or> buy_origin now q strat ctx d" for s
    using assms False by (auto simp: rule_buy_no_def rule_skips_def buy_origin_def emit_def rule_buy_def Let_def)
  show ?thesis
  proof (cases "rule_buy_yes r e q snap s" rule: prod.exhaust)
    case (Pair stop s')
    then show ?thesis using yes [of s] no [of s'] False by (cases stop) (auto simp: rule_market_def)
  qed
qed (simp add: rule_market_def)

text \<open>
  nothing but justified orders: every decision of the rule engine is the single wait, a sell
  of a token held with positive shares and a usable mark, or a buy in an open candidate market
  within the spread limit, at or below the configured price cap, allowed by the spot filter, for
  the configured size, one cent above the mid (rounded to a tenth of a cent).
\<close>

theorem rules_decisions_justified:
  "list_all (\<lambda>d. d = no_signals \<or> sell_origin strat ctx d \<or>
       buy_origin now (spot_quote fetch rng ctx (ru_SpotSymbol (st_Rules strat))) strat ctx d)
     (EvaluateRules now fetch rng ctx strat)"
proof -
  define q where "q = spot_quote fetch rng ctx (ru_SpotSymbol (st_Rules strat))"
  have "\<forall>d \<in> set (fst (rule_buys now q strat ctx (rule_sells strat ctx))).
      d \<in> set (fst (rule_sells strat ctx)) \<or> buy_origin now q strat ctx d"
    unfolding rule_buys_def Let_def by (rule foldl_emits) (rule rule_market_emits [OF _ refl])
  then show ?thesis using rule_sells_origin [of strat ctx] by (auto simp: EvaluateRules_def q_def Let_def list_all_iff)
qed

text \<open>
  the spot filter on YES also drops NO.  In a directional market whose YES and NO mids are
  both at or under their caps, a spot fall of at least the minimum, which allows buying NO and
  forbids buying YES, makes the rules skip the market: the \<open>continue\<close> of the YES branch leaves the
  loop body before the NO branch is reached.
\<close>

theorem spot_veto_skips_no:
  assumes "isDirectionalMarket (sn_Market snap)" "0 < ru_SpotMinChangePct rules"
    and "\<not> qt_Change5mPct q \<ge> ru_SpotMinChangePct rules" "qt_Change5mPct q \<le> - ru_SpotMinChangePct rules"
    and yes: "0 < ru_MaxBuyYesPrice rules" "0 < sn_YesMid snap" "sn_YesMid snap \<le> ru_MaxBuyYesPrice rules"
    and no: "0 < ru_MaxBuyNoPrice rules" "0 < sn_NoMid snap" "sn_NoMid snap \<le> ru_MaxBuyNoPrice rules"
    and free: "\<not> slug_taken s (m_Slug (sn_Market snap)) ActionBuyNo"
  shows "rule_market strat rules l e now (Some q) s snap = s \<and>
     rule_buy_no rules e (Some q) snap s =
       emit (rule_buy rules e (Some q) ActionBuyNo (sn_Market snap) (sn_NoMid snap)) s"
proof -
  have "\<not> spotAllowsBuyYes (sn_Market snap) (Some q) (ru_SpotMinChangePct rules)"
    using assms(1-3) by (auto simp: spotAllowsBuyYes_def dest: f64_less_not_le)
  moreover have "spotAllowsBuyNo (sn_Market snap) (Some q) (ru_SpotMinChangePct rules)"
    using assms(4) by (simp add: spotAllowsBuyNo_def)
  ultimately show ?thesis using yes no free
    by (simp add: rule_market_def rule_buy_yes_def rule_buy_no_def)
qed

definition ex_updown :: market_snapshot where
  "ex_updown = \<lparr>sn_Market = \<lparr>m_Venue = '''', m_ID = '''', m_Slug = ''btc-up-or-down'', m_Question = ''BTC'',
     m_ConditionID = ''c'', m_EndDate = None, m_Closed = False, m_NegRisk = False, m_YesTokenID = ''y'',
     m_NoTokenID = ''n'', m_Volume24h = 0, m_Liquidity = 0, m_OutcomePrices = []\<rparr>,
     sn_YesMid = fl (1 / 2), sn_NoMid = fl (1 / 2), sn_Spread = 0, sn_YesBook = summarizeBook None\<rparr>"

definition ex_rules :: rule_config where
  "ex_rules = zero_rules\<lparr>ru_MaxBuyYesPrice := fl (1 / 2), ru_MaxBuyNoPrice := fl (1 / 2),
     ru_SpotMinChangePct := fl (1 / 4)\<rparr>"

theorem spot_veto_skips_no_witness:
  "rule_market DefaultStrategyConfig ex_rules 0 1 0 (Some \<lparr>qt_Symbol = ''BTCUSDT'', qt_Price = 1,
     qt_Change5mPct = fl (- 1), qt_Change24hPct = 0, qt_FetchedAt = 0\<rparr>) ([], []) ex_updown = ([], [])"
proof -
  have d: "isDirectionalMarket (sn_Market ex_updown)"
  proof -
    have "to_lower (''BTC'' @ '' '' @ ''btc-up-or-down'') = ''btc btc-up-or-down''" by code_simp
    moreover have "contains ''btc btc-up-or-down'' ''up-or-down''" by code_simp
    ultimately show ?thesis by (simp add: isDirectionalMarket_def ex_updown_def)
  qed
  let ?q = "\<lparr>qt_Symbol = ''BTCUSDT'', qt_Price = 1, qt_Change5mPct = fl (- 1), qt_Change24hPct = 0, qt_FetchedAt = 0\<rparr>"
  have n: "0 < fl (1 / 4)" "\<not> fl (1 / 4) \<le> fl (- 1)" "fl (- 1) \<le> - fl (1 / 4)" "0 < fl (1 / 2)" "fl (1 / 2) \<le> fl (1 / 2)"
    by (simp_all add: f64_eval zero_f64_def)
  have "rule_market DefaultStrategyConfig ex_rules 0 1 0 (Some ?q) ([], []) ex_updown = ([], [])"
    by (rule spot_veto_skips_no [THEN conjunct1])
      (simp_all add: d n ex_rules_def slug_taken_def, simp_all add: ex_updown_def n)
  then show ?thesis .
qed

end
