(* ===== verification/Pred_Venue.thy ===== *)
theory Pred_Venue
  imports Pred_Types
begin

text \<open>
  \<open>prediction/types/venue.go\<close>: the interface \<open>PredictionVenue\<close> as a record of functions on the
  venue's state \<open>'s\<close>, with the two optional methods the trader looks for by a type assertion
  (\<open>LiveRedeemReady\<close> is false and \<open>RecordEquitySnapshot\<close> does nothing where the method is absent).

  Reading market data does not change the state; polling an order and submitting orders or
  redemptions may.  A venue that reports no error returns a market, as the Gamma client does; an
  order result, an order status and a book may be nil.
\<close>

record 's venue_ops =
  vn_VenueID :: gostring
  vn_GetCollateral :: "'s \<Rightarrow> perr + f64 \<times> f64"
  vn_GetOutcomePositions :: "'s \<Rightarrow> perr + outcome_position list"
  vn_GetMarketBySlug :: "'s \<Rightarrow> gostring \<Rightarrow> perr + market"
  vn_SearchMarkets :: "'s \<Rightarrow> market_filter \<Rightarrow> perr + market list"
  vn_GetOrderBook :: "'s \<Rightarrow> gostring \<Rightarrow> perr + order_book option"
  vn_GetMidPrice :: "'s \<Rightarrow> gostring \<Rightarrow> perr + f64"
  vn_PlaceLimitOrder :: "'s \<Rightarrow> limit_order_req \<Rightarrow> (perr + order_result option) \<times> 's"
  vn_CancelOrder :: "'s \<Rightarrow> gostring \<Rightarrow> (perr + unit) \<times> 's"
  vn_GetOrderStatus :: "'s \<Rightarrow> gostring \<Rightarrow> (perr + order_status option) \<times> 's"
  vn_ListOpenOrders :: "'s \<Rightarrow> perr + venue_order list"
  vn_FindRedeemablePositions :: "'s \<Rightarrow> perr + redeemable_position list"
  vn_RedeemCondition :: "'s \<Rightarrow> gostring \<Rightarrow> bool \<Rightarrow> (perr + redeem_result) \<times> 's"
  vn_LiveRedeemReady :: "'s \<Rightarrow> bool"
  vn_RecordEquitySnapshot :: "'s \<Rightarrow> int \<Rightarrow> 's"

text \<open>\<open>positions, _ := venue.GetOutcomePositions()\<close>: an error leaves a nil slice.\<close>

definition venue_positions :: "'s venue_ops \<Rightarrow> 's \<Rightarrow> outcome_position list" where
  "venue_positions ops s = (case vn_GetOutcomePositions ops s of Inl _ \<Rightarrow> [] | Inr ps \<Rightarrow> ps)"

definition venue_mid :: "'s venue_ops \<Rightarrow> 's \<Rightarrow> gostring \<Rightarrow> f64" where
  "venue_mid ops s tok = (case vn_GetMidPrice ops s tok of Inl _ \<Rightarrow> 0 | Inr m \<Rightarrow> m)"

section \<open>The contract a trader relies on\<close>

text \<open>
  What the trader needs of a venue to count volume: an accepted order never reports a negative
  number of shares or dollars.  A venue without side effects of its own also leaves its state as
  it was when an order comes back with an error, or as rejected.
\<close>

locale fill_venue =
  fixes ops :: "'s venue_ops"
  assumes fill_not_negative:
      "vn_PlaceLimitOrder ops s req = (Inr (Some r), s') \<Longrightarrow> or_Error r = None \<Longrightarrow>
       \<not> or_FilledShares r < 0 \<and> \<not> or_FilledUsd r < 0"

locale trading_venue = fill_venue +
  assumes refused_unchanged:
      "vn_PlaceLimitOrder ops s req = (res, s') \<Longrightarrow>
       (case res of Inl _ \<Rightarrow> True | Inr None \<Rightarrow> False | Inr (Some r) \<Rightarrow> or_Error r \<noteq> None) \<Longrightarrow> s' = s"

end
