(* ===== verification/Engine_Analysis.thy ===== *)
theory Engine_Analysis
  imports Engine_Rules Pred_Venue
begin

text \<open>
  \<open>prediction/engine/analysis.go\<close> and the market discovery of \<open>context.go\<close>: which markets a cycle
  looks at, how the answer of the AI becomes decisions, how they are validated and how their
  token ids are filled in.

  Parameters: \<open>unmarshal\<close> and \<open>unmarshal1\<close> are \<open>json.Unmarshal\<close> into a list of decisions and into
  one decision; \<open>ai\<close> is the AI client; \<open>prompts\<close> renders the two prompts (\<open>prompt.go\<close>).  Failing
  GetMidPrice calls yield 0, the value the venues return beside the error.
\<close>

section \<open>Candidate markets\<close>

definition fetch_slugs :: "'s venue_ops \<Rightarrow> 's \<Rightarrow> gostring list \<Rightarrow> market list \<times> gostring list" where
  "fetch_slugs ops s slugs =
     foldl (\<lambda>(ms, errs) slug. case vn_GetMarketBySlug ops s slug of
              Inl _ \<Rightarrow> (ms, errs @ [slug]) | Inr m \<Rightarrow> (ms @ [m], errs)) ([], []) slugs"

definition tag_filter :: "gostring \<Rightarrow> gostring list \<Rightarrow> int \<Rightarrow> market_filter" where
  "tag_filter tag kws limit = \<lparr>mf_Tag = tag, mf_Closed = None, mf_Limit = limit, mf_Keywords = kws\<rparr>"

definition source_markets :: "'s venue_ops \<Rightarrow> 's \<Rightarrow> strategy \<Rightarrow> perr + market list" where
  "source_markets ops s strat =
     (let src = st_MarketSource strat; slugs = st_StaticSlugs strat in
      if ms_Type src = MarketSourceStatic \<or> ms_Type src = '''' then
        (let (markets, errs) = fetch_slugs ops s slugs in
         if slugs \<noteq> [] \<and> markets = [] then Inl (EngineErr (StaticFetchFailed errs)) else Inr markets)
      else if ms_Type src = MarketSourceTagSearch then
        vn_SearchMarkets ops s (tag_filter (ms_Tag src) (ms_Keywords src) (if ms_Limit src \<le> 0 then 20 else ms_Limit src))
      else if ms_Type src = MarketSourceMixed then
        Inr (fst (fetch_slugs ops s slugs) @
             (case vn_SearchMarkets ops s (tag_filter (ms_Tag src) (ms_Keywords src) (ms_Limit src)) of
                Inl _ \<Rightarrow> [] | Inr found \<Rightarrow> found))
      else vn_SearchMarkets ops s (tag_filter ''crypto'' [] 20))"

definition snapshot_of :: "'s venue_ops \<Rightarrow> 's \<Rightarrow> market \<Rightarrow> market_snapshot" where
  "snapshot_of ops s m =
     (let yes = (if m_YesTokenID m \<noteq> '''' then venue_mid ops s (m_YesTokenID m) else 0);
          no = (if m_NoTokenID m \<noteq> '''' then venue_mid ops s (m_NoTokenID m) else 0);
          book = (if m_YesTokenID m \<noteq> '''' then
                    (case vn_GetOrderBook ops s (m_YesTokenID m) of Inr b \<Rightarrow> summarizeBook b | Inl _ \<Rightarrow> summarizeBook None)
                  else summarizeBook None)
      in \<lparr>sn_Market = m, sn_YesMid = yes, sn_NoMid = no,
          sn_Spread = (if yes > 0 \<and> no > 0 then yes + no - 1 else 0), sn_YesBook = book\<rparr>)"

definition market_eligible :: "strategy \<Rightarrow> int \<Rightarrow> market \<Rightarrow> bool" where
  "market_eligible strat now m \<longleftrightarrow>
     \<not> m_Closed m \<and>
     \<not> (st_MinLiquidityUsd strat > 0 \<and> m_Liquidity m < st_MinLiquidityUsd strat) \<and>
     \<not> (st_MinHoursToExpiry strat > 0 \<and>
          (case m_EndDate m of None \<Rightarrow> False
           | Some e \<Rightarrow> duration_hours (time_until e now) < st_MinHoursToExpiry strat))"

fun pick_markets :: "strategy \<Rightarrow> int \<Rightarrow> gostring list \<Rightarrow> market list \<Rightarrow> market list" where
  "pick_markets strat now seen [] = []"
| "pick_markets strat now seen (m # ms) =
     (if m_Slug m \<in> set seen \<or> \<not> market_eligible strat now m then pick_markets strat now seen ms
      else m # pick_markets strat now (m_Slug m # seen) ms)"

definition GetCandidateMarkets :: "'s venue_ops \<Rightarrow> 's \<Rightarrow> strategy \<Rightarrow> int \<Rightarrow> perr + market_snapshot list" where
  "GetCandidateMarkets ops s strat now =
     (case source_markets ops s strat of
        Inl e \<Rightarrow> Inl e
      | Inr markets \<Rightarrow> Inr (map (snapshot_of ops s) (pick_markets strat now [] markets)))"

definition BuildContext ::
  "(gostring \<Rightarrow> perr + quote) \<Rightarrow> 's venue_ops \<Rightarrow> 's \<Rightarrow> strategy \<Rightarrow> int \<Rightarrow> int \<Rightarrow> int \<Rightarrow> decision list \<Rightarrow> perr + pred_context" where
  "BuildContext fetch ops s strat now callCount runtimeMin recent =
     (let (avail, equity, walletOK) =
            (case vn_GetCollateral ops s of Inl _ \<Rightarrow> (0, 0, False) | Inr (a, e) \<Rightarrow> (a, e, True));
          positions = venue_positions ops s
      in case GetCandidateMarkets ops s strat now of
        Inl e \<Rightarrow> Inl e
      | Inr candidates \<Rightarrow>
          let sy = trim_space (ru_SpotSymbol (st_Rules strat));
              quotes = (if sy \<noteq> '''' then
                 (case fetch sy of Inr q \<Rightarrow> mput (qt_Symbol q) q [] | Inl _ \<Rightarrow> []) else [])
          in Inr \<lparr>cx_CurrentTime = rfc3339 now, cx_RuntimeMinutes = runtimeMin, cx_CallCount = callCount,
                  cx_AvailableUsdc = avail, cx_TotalEquity = equity, cx_WalletAvailable = walletOK,
                  cx_Positions = positions, cx_CandidateMarkets = candidates,
                  cx_RecentDecisions = recent, cx_SpotQuotes = quotes\<rparr>)"

section \<open>Parsing the answer\<close>

fun split_on :: "gostring \<Rightarrow> gostring \<Rightarrow> (gostring \<times> gostring) option" where
  "split_on p [] = (if p = [] then Some ([], []) else None)"
| "split_on p (c # cs) =
     (if has_prefix (c # cs) p then Some ([], drop (length p) (c # cs))
      else map_option (\<lambda>(a, b). (c # a, b)) (split_on p cs))"

text \<open>
  \<open>(?s)<tag>(.*?)</tag>\<close>: the leftmost opening tag that a closing tag follows; as a closing tag after a
  later opening tag also follows the first one, that is the first opening tag, and the lazy group
  ends at the first closing tag after it.
\<close>

definition tagged :: "gostring \<Rightarrow> gostring \<Rightarrow> gostring option" where
  "tagged tag raw =
     (case split_on (''<'' @ tag @ ''>'') raw of
        None \<Rightarrow> None
      | Some (_, rest) \<Rightarrow> map_option fst (split_on (''</'' @ tag @ ''>'') rest))"

fun bracket_scan :: "int \<Rightarrow> bool \<Rightarrow> bool \<Rightarrow> gostring \<Rightarrow> nat option" where
  "bracket_scan depth inString escape [] = None"
| "bracket_scan depth inString escape (c # cs) =
     (if escape then map_option Suc (bracket_scan depth inString False cs)
      else if c = CHR 0x5C \<and> inString then map_option Suc (bracket_scan depth inString True cs)
      else if c = CHR 0x22 then map_option Suc (bracket_scan depth (\<not> inString) False cs)
      else if inString then map_option Suc (bracket_scan depth inString False cs)
      else if c = CHR ''['' then map_option Suc (bracket_scan (depth + 1) inString False cs)
      else if c = CHR '']'' then
        (if depth - 1 = 0 then Some 1 else map_option Suc (bracket_scan (depth - 1) inString False cs))
      else map_option Suc (bracket_scan depth inString False cs))"

definition extractJSONArray :: "gostring \<Rightarrow> gostring" where
  "extractJSONArray s =
     (let r = dropWhile (\<lambda>c. c \<noteq> CHR ''['') s in
      case bracket_scan 0 False False r of None \<Rightarrow> '''' | Some n \<Rightarrow> take n r)"

definition validateDecision :: "decision \<Rightarrow> engine_err option" where
  "validateDecision d =
     (case d_Action d of OtherAction _ \<Rightarrow> Some (InvalidAction (d_Action d))
      | _ \<Rightarrow>
        if d_MarketSlug d = '''' \<and> d_Action d \<noteq> ActionWait then Some MarketSlugRequired
        else if (d_Action d = ActionBuyYes \<or> d_Action d = ActionBuyNo) \<and> d_SizeUsd d \<le> 0 then Some SizeRequiredForBuy
        else if (d_Action d = ActionBuyYes \<or> d_Action d = ActionBuyNo) \<and>
                (d_LimitPrice d \<le> 0 \<or> d_LimitPrice d \<ge> 1) then Some LimitPriceNotUnit
        else if d_Action d = ActionSell \<and> d_SizeUsd d \<le> 0 then Some SizeRequiredForSell
        else if d_Action d = ActionSell \<and> (d_LimitPrice d \<le> 0 \<or> d_LimitPrice d \<ge> 1) then Some LimitPriceNotUnit
        else None)"

text \<open>The index and the error of the first decision that does not validate.\<close>

fun first_invalid :: "nat \<Rightarrow> decision list \<Rightarrow> (nat \<times> engine_err) option" where
  "first_invalid i [] = None"
| "first_invalid i (d # ds) =
     (case validateDecision d of Some e \<Rightarrow> Some (i, e) | None \<Rightarrow> first_invalid (Suc i) ds)"

definition parsePredictionResponse ::
  "(gostring \<Rightarrow> decision list option) \<Rightarrow> (gostring \<Rightarrow> decision option) \<Rightarrow> gostring \<Rightarrow>
   decision list \<times> gostring \<times> perr option" where
  "parsePredictionResponse unmarshal unmarshal1 raw =
     (let cot = (case tagged ''reasoning'' raw of Some b \<Rightarrow> trim_space b | None \<Rightarrow> '''');
          js = (case tagged ''decision'' raw of Some b \<Rightarrow> trim_space b | None \<Rightarrow> '''');
          js = (if js = '''' then extractJSONArray raw else js)
      in if js = '''' then ([], cot, Some (EngineErr NoJSONFound))
         else case (case unmarshal js of Some ds \<Rightarrow> Some ds | None \<Rightarrow> map_option (\<lambda>d. [d]) (unmarshal1 js)) of
           None \<Rightarrow> ([], cot, Some (EngineErr BadDecisionJSON))
         | Some ds \<Rightarrow>
             (case first_invalid 0 ds of
                Some (i, e) \<Rightarrow> (ds, cot, Some (DecisionErr i (EngineErr e)))
              | None \<Rightarrow> (ds, cot, None)))"

section \<open>Token ids\<close>

definition held_in :: "gostring \<Rightarrow> outcome_position list \<Rightarrow> outcome_position list" where
  "held_in slug = filter (\<lambda>p. op_MarketSlug p = slug \<and> op_Shares p > 0 \<and> op_TokenID p \<noteq> '''')"

definition sellTokenFromPositions :: "gostring \<Rightarrow> outcome_position list \<Rightarrow> gostring" where
  "sellTokenFromPositions slug positions =
     (case held_in slug positions of
        [] \<Rightarrow> ''''
      | p # ps \<Rightarrow> op_TokenID (foldl (\<lambda>best q. if op_Shares q > op_Shares best then q else best) p ps))"

definition slug_tokens :: "pred_context \<Rightarrow> (gostring, gostring \<times> gostring) gomap" where
  "slug_tokens ctx =
     foldl (\<lambda>m snap. mput (m_Slug (sn_Market snap)) (m_YesTokenID (sn_Market snap), m_NoTokenID (sn_Market snap)) m)
       [] (cx_CandidateMarkets ctx)"

definition resolve_token :: "(gostring, gostring \<times> gostring) gomap \<Rightarrow> pred_context \<Rightarrow> decision \<Rightarrow> decision" where
  "resolve_token tokens ctx d =
     (if d_TokenID d \<noteq> '''' then d
      else case map_of tokens (d_MarketSlug d) of
        None \<Rightarrow> d
      | Some (yes, no) \<Rightarrow>
         (case d_Action d of
            ActionBuyYes \<Rightarrow> if yes \<noteq> '''' then d\<lparr>d_TokenID := yes\<rparr> else d
          | ActionBuyNo \<Rightarrow> if no \<noteq> '''' then d\<lparr>d_TokenID := no\<rparr> else d
          | ActionSell \<Rightarrow>
              let tid = sellTokenFromPositions (d_MarketSlug d) (cx_Positions ctx) in
              if tid \<noteq> '''' then d\<lparr>d_TokenID := tid\<rparr> else d
          | _ \<Rightarrow> d))"

definition resolveTokenIDs :: "decision list \<Rightarrow> pred_context \<Rightarrow> decision list" where
  "resolveTokenIDs ds ctx = map (resolve_token (slug_tokens ctx) ctx) ds"

text \<open>The slice a parse error returns is left unresolved, as in the code.\<close>

definition GetPredictionDecisions ::
  "(strategy \<Rightarrow> pred_context \<Rightarrow> gostring \<times> gostring) \<Rightarrow> (gostring \<Rightarrow> gostring \<Rightarrow> perr + gostring) \<Rightarrow>
   (gostring \<Rightarrow> decision list option) \<Rightarrow> (gostring \<Rightarrow> decision option) \<Rightarrow> int \<Rightarrow> int \<Rightarrow>
   pred_context \<Rightarrow> strategy \<Rightarrow> full_decision option \<times> perr option" where
  "GetPredictionDecisions prompts ai unmarshal unmarshal1 now durationMs ctx strat =
     (let (sys, user) = prompts strat ctx in
      case ai sys user of
        Inl e \<Rightarrow> (None, Some (AICallFailed e))
      | Inr raw \<Rightarrow>
          let (ds, cot, err) = parsePredictionResponse unmarshal unmarshal1 raw;
              full = \<lparr>fd_Timestamp = now, fd_SystemPrompt = sys, fd_UserPrompt = user, fd_CoTTrace = cot,
                      fd_Decisions = (if err = None then resolveTokenIDs ds ctx else ds), fd_Executions = [],
                      fd_RawResponse = raw, fd_AIRequestDurationMs = durationMs\<rparr>
          in (Some full, err))"

definition langZH :: "strategy \<Rightarrow> bool" where
  "langZH cfg \<longleftrightarrow> equal_fold (st_Language cfg) ''zh'' \<or> equal_fold (st_Language cfg) ''zh-CN''"

section \<open>Candidate markets are eligible\<close>

lemma pick_markets_props:
  "set (pick_markets strat now seen ms) \<subseteq> {m \<in> set ms. market_eligible strat now m \<and> m_Slug m \<notin> set seen} \<and>
   distinct (map m_Slug (pick_markets strat now seen ms))"
proof (induction ms arbitrary: seen)
  case (Cons m ms)
  show ?case using Cons.IH [of seen] Cons.IH [of "m_Slug m # seen"] by auto
qed simp

lemma snapshot_of_Market [simp]: "sn_Market (snapshot_of ops s m) = m"
  by (simp add: snapshot_of_def Let_def)

text \<open>
  every candidate market of a cycle is open, liquid enough and far enough from its expiry,
  and no market is offered twice.
\<close>

theorem candidate_markets_eligible:
  assumes "GetCandidateMarkets ops s strat now = Inr snaps"
  shows "distinct (map (m_Slug \<circ> sn_Market) snaps) \<and>
    (\<forall>snap \<in> set snaps. market_eligible strat now (sn_Market snap))"
proof -
  obtain ms where "snaps = map (snapshot_of ops s) (pick_markets strat now [] ms)"
    using assms by (auto simp: GetCandidateMarkets_def split: sum.splits)
  then show ?thesis using pick_markets_props [of strat now "[]" ms] by (auto simp: comp_def)
qed

section \<open>Extracting the array\<close>

text \<open>
  A reference for what lies between two matching brackets: strings, in which a backslash takes the
  next character with it and brackets mean nothing, nested pairs of brackets, and other text.
\<close>

inductive string_body :: "gostring \<Rightarrow> bool" where
  string_end: "string_body []"
| string_char: "c \<noteq> CHR 0x22 \<Longrightarrow> c \<noteq> CHR 0x5C \<Longrightarrow> string_body t \<Longrightarrow> string_body (c # t)"
| string_escape: "string_body t \<Longrightarrow> string_body (CHR 0x5C # c # t)"

inductive bracket_body :: "gostring \<Rightarrow> bool" where
  body_end: "bracket_body []"
| body_char: "c \<notin> {CHR ''['', CHR '']'', CHR 0x22} \<Longrightarrow> bracket_body u \<Longrightarrow> bracket_body (c # u)"
| body_string: "string_body t \<Longrightarrow> bracket_body u \<Longrightarrow> bracket_body (CHR 0x22 # t @ CHR 0x22 # u)"
| body_nest: "bracket_body t \<Longrightarrow> bracket_body u \<Longrightarrow> bracket_body (CHR ''['' # t @ CHR '']'' # u)"

lemma scan_string:
  "string_body t \<Longrightarrow>
   bracket_scan d True False (t @ CHR 0x22 # r) = map_option ((+) (length t + 1)) (bracket_scan d False False r)"
  by (induction t rule: string_body.induct) (auto simp: option.map_comp comp_def)

lemma scan_body:
  "bracket_body u \<Longrightarrow> 1 \<le> d \<Longrightarrow>
   bracket_scan d False False (u @ r) = map_option ((+) (length u)) (bracket_scan d False False r)"
proof (induction u arbitrary: d r rule: bracket_body.induct)
  case body_end
  then show ?case by (simp add: option.map_ident)
next
  case (body_string t u)
  then show ?case by (simp add: scan_string option.map_comp comp_def add.assoc)
next
  case (body_nest t u)
  have "bracket_scan (d + 1) False False (t @ CHR '']'' # u @ r) =
      map_option ((+) (length t)) (bracket_scan (d + 1) False False (CHR '']'' # u @ r))"
    using body_nest by (intro body_nest.IH) simp
  then show ?case using body_nest by (simp add: option.map_comp comp_def add.assoc)
next
  case (body_char c u)
  then show ?case by (cases "bracket_scan d False False r") auto
qed

text \<open>
  the array extractor finds the first bracketed block whole: after any text without an
  opening bracket, a block whose inside is well bracketed (brackets inside strings and escaped
  quotes do not count) is returned exactly, whatever follows it.
\<close>

theorem extract_array_exact:
  assumes "CHR ''['' \<notin> set pre" "bracket_body u"
  shows "extractJSONArray (pre @ (CHR ''['' # u @ [CHR '']'']) @ post) = CHR ''['' # u @ [CHR '']'']"
proof -
  have "dropWhile (\<lambda>c. c \<noteq> CHR ''['') (pre @ (CHR ''['' # u @ [CHR '']'']) @ post) = CHR ''['' # u @ CHR '']'' # post"
    using assms(1) by (subst dropWhile_append2) auto
  moreover have "bracket_scan 0 False False (CHR ''['' # u @ CHR '']'' # post) = Some (length u + 2)"
    using scan_body [OF assms(2), of 1 "CHR '']'' # post"] by simp
  ultimately show ?thesis by (simp add: extractJSONArray_def)
qed

theorem extract_array_exact_witness:
  "extractJSONArray (''Sure: '' @ (CHR ''['' # (''{'' @ (CHR 0x22 # '']'' @ [CHR 0x22]) @ ''}'') @ [CHR '']'']) @ '' done [1]'') =
     CHR ''['' # (''{'' @ (CHR 0x22 # '']'' @ [CHR 0x22]) @ ''}'') @ [CHR '']'']"
proof (rule extract_array_exact)
  show "CHR ''['' \<notin> set ''Sure: ''" by simp
  have "bracket_body (CHR 0x22 # '']'' @ CHR 0x22 # ''}'')"
    by (intro body_string string_char string_end body_char body_end) simp_all
  then show "bracket_body (''{'' @ (CHR 0x22 # '']'' @ [CHR 0x22]) @ ''}'')"
    by (simp add: body_char)
qed

section \<open>Accepted decisions\<close>

lemma first_invalid_None: "first_invalid i ds = None \<longleftrightarrow> (\<forall>d \<in> set ds. validateDecision d = None)"
  by (induction ds arbitrary: i) (auto split: option.splits)

lemma validate_None:
  "validateDecision d = None \<Longrightarrow>
   (\<nexists>x. d_Action d = OtherAction x) \<and> (d_MarketSlug d = '''' \<longrightarrow> d_Action d = ActionWait) \<and>
   (d_Action d \<in> {ActionBuyYes, ActionBuyNo, ActionSell} \<longrightarrow>
      \<not> d_SizeUsd d \<le> 0 \<and> \<not> d_LimitPrice d \<le> 0 \<and> \<not> 1 \<le> d_LimitPrice d)"
  by (auto simp: validateDecision_def split: action.splits if_split_asm)

lemma resolve_token_keeps:
  "resolve_token tokens ctx d = d \<or> (\<exists>t. t \<noteq> '''' \<and> resolve_token tokens ctx d = d\<lparr>d_TokenID := t\<rparr>)"
  by (auto simp: resolve_token_def Let_def split: option.splits action.splits)

lemma validate_token: "validateDecision (d\<lparr>d_TokenID := t\<rparr>) = validateDecision d"
  by (cases "d_Action d") (simp_all add: validateDecision_def)

text \<open>
  C32: decisions the AI path returns without an error are well formed: each has a known action, a
  market unless it waits, and, when it trades, a size that is not zero or less and a limit price
  strictly inside (0, 1).
\<close>

theorem ai_decisions_valid:
  assumes "GetPredictionDecisions prompts ai um um1 now ms ctx strat = (Some full, None)"
  shows "\<forall>d \<in> set (fd_Decisions full).
    (\<nexists>x. d_Action d = OtherAction x) \<and> (d_MarketSlug d = '''' \<longrightarrow> d_Action d = ActionWait) \<and>
    (d_Action d \<in> {ActionBuyYes, ActionBuyNo, ActionSell} \<longrightarrow>
       \<not> d_SizeUsd d \<le> 0 \<and> \<not> d_LimitPrice d \<le> 0 \<and> \<not> 1 \<le> d_LimitPrice d)"
proof -
  obtain raw ds cot where parse: "parsePredictionResponse um um1 raw = (ds, cot, None)"
    and full: "fd_Decisions full = resolveTokenIDs ds ctx"
    using assms by (auto simp: GetPredictionDecisions_def Let_def split: prod.splits sum.splits)
  have "first_invalid 0 ds = None"
    using parse by (simp add: parsePredictionResponse_def Let_def split: if_split_asm option.splits prod.splits)
  then have valid: "\<forall>d \<in> set ds. validateDecision d = None" by (simp add: first_invalid_None)
  have "validateDecision d = None" if "d \<in> set (fd_Decisions full)" for d
  proof -
    from that have "d \<in> resolve_token (slug_tokens ctx) ctx ` set ds" by (simp add: full resolveTokenIDs_def)
    then obtain d0 where d0: "d = resolve_token (slug_tokens ctx) ctx d0" "d0 \<in> set ds" by (rule imageE)
    then show ?thesis using valid resolve_token_keeps [of "slug_tokens ctx" ctx d0] validate_token by fastforce
  qed
  then show ?thesis using validate_None by blast
qed

lemma slug_tokens_origin:
  "map_of (slug_tokens ctx) slug = Some (yes, no) \<Longrightarrow>
   \<exists>snap \<in> set (cx_CandidateMarkets ctx). m_Slug (sn_Market snap) = slug \<and>
     m_YesTokenID (sn_Market snap) = yes \<and> m_NoTokenID (sn_Market snap) = no"
proof -
  define f where "f = (\<lambda>m (snap :: market_snapshot). mput (m_Slug (sn_Market snap)) (m_YesTokenID (sn_Market snap), m_NoTokenID (sn_Market snap)) m)"
  have "map_of (foldl f m snaps) slug = Some (yes, no) \<Longrightarrow> map_of m slug = Some (yes, no) \<or>
      (\<exists>snap \<in> set snaps. m_Slug (sn_Market snap) = slug \<and>
         m_YesTokenID (sn_Market snap) = yes \<and> m_NoTokenID (sn_Market snap) = no)" for m snaps
  proof (induction snaps arbitrary: m)
    case (Cons x snaps)
    then have "map_of (f m x) slug = Some (yes, no) \<or> (\<exists>snap \<in> set snaps. m_Slug (sn_Market snap) = slug \<and>
         m_YesTokenID (sn_Market snap) = yes \<and> m_NoTokenID (sn_Market snap) = no)" by simp
    then show ?case by (auto simp: f_def split: if_split_asm)
  qed simp
  from this [of "[]" "cx_CandidateMarkets ctx"] show "map_of (slug_tokens ctx) slug = Some (yes, no) \<Longrightarrow> ?thesis"
    by (simp add: slug_tokens_def f_def)
qed

text \<open>The scan keeps a position no other one exceeds, when no share count is NaN.\<close>

lemma best_position:
  assumes "\<forall>q \<in> set (p # ps). op_Shares q \<noteq> NaN"
  shows "foldl (\<lambda>best q. if op_Shares q > op_Shares best then q else best) p ps \<in> set (p # ps) \<and>
    (\<forall>q \<in> set (p # ps). op_Shares q \<le> op_Shares (foldl (\<lambda>best q. if op_Shares q > op_Shares best then q else best) p ps))"
  using assms
proof (induction ps arbitrary: p)
  case (Cons x ps)
  show ?case
  proof (cases "op_Shares x > op_Shares p")
    case True
    then show ?thesis using Cons.IH [of x] Cons.prems by (auto intro: f64_le_trans f64_less_imp_le)
  next
    case False
    then have "op_Shares x \<le> op_Shares p" using Cons.prems by (auto simp: f64_not_less)
    then show ?thesis using Cons.IH [of p] Cons.prems False by (auto intro: f64_le_trans)
  qed
qed (simp add: f64_refl)

text \<open>
  filling in token ids touches nothing but an empty token id, and never crosses sides: a YES
  buy gets the YES token of a candidate with that slug, a NO buy its NO token, and a sell the token
  of a position held in that market with the most shares.
\<close>

theorem resolved_token_right_side:
  assumes "\<forall>p \<in> set (cx_Positions ctx). op_Shares p \<noteq> NaN"
  shows "list_all2 (\<lambda>d d'. d' = d \<or> d_TokenID d = '''' \<and> (\<exists>t. t \<noteq> '''' \<and> d' = d\<lparr>d_TokenID := t\<rparr> \<and>
     (d_Action d = ActionBuyYes \<and> (\<exists>snap \<in> set (cx_CandidateMarkets ctx).
          m_Slug (sn_Market snap) = d_MarketSlug d \<and> m_YesTokenID (sn_Market snap) = t)
      \<or> d_Action d = ActionBuyNo \<and> (\<exists>snap \<in> set (cx_CandidateMarkets ctx).
          m_Slug (sn_Market snap) = d_MarketSlug d \<and> m_NoTokenID (sn_Market snap) = t)
      \<or> d_Action d = ActionSell \<and> (\<exists>p \<in> set (held_in (d_MarketSlug d) (cx_Positions ctx)). op_TokenID p = t \<and>
          (\<forall>q \<in> set (held_in (d_MarketSlug d) (cx_Positions ctx)). op_Shares q \<le> op_Shares p)))))
     ds (resolveTokenIDs ds ctx)" (is "list_all2 ?P _ _")
proof -
  have sell: "\<exists>p \<in> set (held_in slug (cx_Positions ctx)). op_TokenID p = sellTokenFromPositions slug (cx_Positions ctx) \<and>
      (\<forall>q \<in> set (held_in slug (cx_Positions ctx)). op_Shares q \<le> op_Shares p)"
    if "sellTokenFromPositions slug (cx_Positions ctx) \<noteq> ''''" for slug
  proof (cases "held_in slug (cx_Positions ctx)")
    case (Cons p ps)
    have "\<forall>q \<in> set (held_in slug (cx_Positions ctx)). op_Shares q \<noteq> NaN"
      using assms by (auto simp: held_in_def)
    then show ?thesis unfolding Cons using best_position [of p ps]
      by (auto simp: sellTokenFromPositions_def Cons simp del: set_simps)
  qed (use that in \<open>simp add: sellTokenFromPositions_def\<close>)
  show ?thesis
    unfolding resolveTokenIDs_def list_all2_map2 list_all2_same
  proof
    fix d
    show "?P d (resolve_token (slug_tokens ctx) ctx d)"
    proof (cases "resolve_token (slug_tokens ctx) ctx d = d")
      case False
      then obtain yes no where e: "d_TokenID d = ''''" "map_of (slug_tokens ctx) (d_MarketSlug d) = Some (yes, no)"
        by (auto simp: resolve_token_def split: if_split_asm option.splits)
      from slug_tokens_origin [OF e(2)] obtain snap where snap: "snap \<in> set (cx_CandidateMarkets ctx)"
        "m_Slug (sn_Market snap) = d_MarketSlug d" "m_YesTokenID (sn_Market snap) = yes" "m_NoTokenID (sn_Market snap) = no"
        by blast
      show ?thesis using False e snap sell [of "d_MarketSlug d"]
        by (cases "d_Action d") (auto simp: resolve_token_def Let_def split: if_split_asm)
    qed simp
  qed
qed

section \<open>Examples\<close>

definition ex_rain :: market where
  "ex_rain = sn_Market ex_updown"

definition ex_static :: strategy where
  "ex_static = DefaultStrategyConfig\<lparr>st_MarketSource := \<lparr>ms_Type = ''static'', ms_Tag = '''', ms_Keywords = [], ms_Limit = 0\<rparr>,
     st_StaticSlugs := [''a'', ''a''], st_MinLiquidityUsd := 0\<rparr>"

definition ex_ops :: "unit venue_ops" where
  "ex_ops = \<lparr>vn_VenueID = ''x'', vn_GetCollateral = (\<lambda>_. Inr (1, 1)), vn_GetOutcomePositions = (\<lambda>_. Inr []),
     vn_GetMarketBySlug = (\<lambda>_ _. Inr ex_rain), vn_SearchMarkets = (\<lambda>_ _. Inr []),
     vn_GetOrderBook = (\<lambda>_ _. Inr None), vn_GetMidPrice = (\<lambda>_ _. Inr 1),
     vn_PlaceLimitOrder = (\<lambda>s _. (Inr None, s)), vn_CancelOrder = (\<lambda>s _. (Inr (), s)),
     vn_GetOrderStatus = (\<lambda>s _. (Inr None, s)), vn_ListOpenOrders = (\<lambda>_. Inr []),
     vn_FindRedeemablePositions = (\<lambda>_. Inr []),
     vn_RedeemCondition = (\<lambda>s _ _. (Inl (OtherErr ''no''), s)), vn_LiveRedeemReady = (\<lambda>_. False),
     vn_RecordEquitySnapshot = (\<lambda>s _. s)\<rparr>"

lemma ex_candidates: "GetCandidateMarkets ex_ops () ex_static 0 = Inr [snapshot_of ex_ops () ex_rain]"
proof -
  have "market_eligible ex_static 0 ex_rain"
    by (simp add: market_eligible_def ex_static_def ex_rain_def ex_updown_def)
  then show ?thesis
    by (simp add: GetCandidateMarkets_def source_markets_def ex_static_def MarketSourceStatic_def fetch_slugs_def
        ex_ops_def)
qed

theorem candidate_markets_eligible_witness:
  "distinct (map (m_Slug \<circ> sn_Market) [snapshot_of ex_ops () ex_rain]) \<and> market_eligible ex_static 0 ex_rain"
  using candidate_markets_eligible [OF ex_candidates] by simp

definition ex_ai_ctx :: pred_context where
  "ex_ai_ctx = \<lparr>cx_CurrentTime = '''', cx_RuntimeMinutes = 0, cx_CallCount = 1, cx_AvailableUsdc = 1,
     cx_TotalEquity = 1, cx_WalletAvailable = True, cx_Positions = [],
     cx_CandidateMarkets = [ex_updown], cx_RecentDecisions = [], cx_SpotQuotes = []\<rparr>"

definition ex_ai_buy :: decision where
  "ex_ai_buy = empty_decision\<lparr>d_MarketSlug := ''btc-up-or-down'', d_Action := ActionBuyYes, d_SizeUsd := fl 10,
     d_LimitPrice := fl (1 / 2)\<rparr>"

lemma ex_ai:
  "\<exists>full. GetPredictionDecisions (\<lambda>_ _. ('''', '''')) (\<lambda>_ _. Inr ''[1]'') (\<lambda>_. Some [ex_ai_buy]) (\<lambda>_. None) 0 0
     ex_ai_ctx DefaultStrategyConfig = (Some full, None) \<and> fd_Decisions full = [ex_ai_buy\<lparr>d_TokenID := ''y''\<rparr>]"
proof -
  have "tagged ''reasoning'' ''[1]'' = None" "tagged ''decision'' ''[1]'' = None" "extractJSONArray ''[1]'' = ''[1]''"
    by code_simp+
  moreover have "validateDecision ex_ai_buy = None"
    by (simp add: validateDecision_def ex_ai_buy_def f64_eval zero_f64_def one_f64_def)
  ultimately have "parsePredictionResponse (\<lambda>_. Some [ex_ai_buy]) (\<lambda>_. None) ''[1]'' = ([ex_ai_buy], '''', None)"
    by (simp add: parsePredictionResponse_def)
  moreover have "resolveTokenIDs [ex_ai_buy] ex_ai_ctx = [ex_ai_buy\<lparr>d_TokenID := ''y''\<rparr>]"
    by (simp add: resolveTokenIDs_def resolve_token_def slug_tokens_def ex_ai_ctx_def ex_ai_buy_def
        ex_updown_def empty_decision_def)
  ultimately show ?thesis by (simp add: GetPredictionDecisions_def)
qed

theorem ai_decisions_valid_witness:
  "\<exists>full :: full_decision. fd_Decisions full = [ex_ai_buy\<lparr>d_TokenID := ''y''\<rparr>] \<and>
     (\<forall>d \<in> set (fd_Decisions full). d_MarketSlug d = '''' \<longrightarrow> d_Action d = ActionWait)"
proof -
  obtain full where full: "GetPredictionDecisions (\<lambda>_ _. ('''', '''')) (\<lambda>_ _. Inr ''[1]'') (\<lambda>_. Some [ex_ai_buy])
      (\<lambda>_. None) 0 0 ex_ai_ctx DefaultStrategyConfig = (Some full, None)" "fd_Decisions full = [ex_ai_buy\<lparr>d_TokenID := ''y''\<rparr>]"
    using ex_ai by blast
  show ?thesis using full(2) ai_decisions_valid [OF full(1)] by (intro exI [of _ full]) blast
qed

theorem resolved_token_right_side_witness:
  "list_all2 (\<lambda>d d'. d' = d \<or> (\<exists>t. d' = d\<lparr>d_TokenID := t\<rparr>)) [ex_ai_buy] (resolveTokenIDs [ex_ai_buy] ex_ai_ctx)"
  by (rule list_all2_mono [OF resolved_token_right_side]) (auto simp: ex_ai_ctx_def)

end
