(* ===== verification/Pred_Trader.thy ===== *)
theory Pred_Trader
  imports Engine_Analysis
begin

text \<open>
  \<open>prediction/trader\<close>: the runtime of a prediction trader.  One cycle reloads the day's volume,
  redeems what it can, builds the context, asks the engine for decisions, orders them, checks each
  one at the gate, sends it to the venue, books the fill and records what happened.

  The state is the record \<open>trader\<close> (the fields of \<open>PredictionTrader\<close>) beside the world \<open>'s\<close>: the venue,
  the database, the clock and the other goroutines, which the code reaches only through calls.
  \<open>'s env\<close> is the record of those calls.  A call whose error the code only logs returns just the
  world.  Log lines are not modelled; the telemetry events and the notifications are calls.
\<close>

section \<open>The trader and its environment\<close>

record order_record =
  od_OrderID :: gostring
  od_CycleNumber :: int
  od_MarketSlug :: gostring
  od_TokenID :: gostring
  od_Side :: gostring
  od_Price :: f64
  od_Size :: f64
  od_Status :: gostring
  od_PreviewWire :: gostring
  od_IsPreview :: bool

record audit_record =
  au_CycleNumber :: int
  au_EventType :: gostring
  au_MarketSlug :: gostring
  au_Action :: gostring
  au_OrderID :: gostring
  au_AmountUsd :: f64
  au_Status :: gostring
  au_Message :: message

text \<open>The JSON columns of a decision row are kept as the values that are marshalled.\<close>

record decision_record =
  dr_CycleNumber :: int
  dr_Timestamp :: int
  dr_CoTTrace :: gostring
  dr_Decisions :: "decision list"
  dr_Executions :: "execution_outcome list"
  dr_RawResponse :: gostring
  dr_Success :: bool
  dr_ErrorMessage :: "perr option"
  dr_AIRequestDurationMs :: int

datatype (plugins only: code size) telemetry_event =
    CycleStarted int
  | CycleDone int int int
  | CycleFailed int perr
  | Executed gostring execution_outcome

text \<open>The calls of other goroutines that move the running flags while a cycle runs.\<close>

datatype control = RunCall | StopCall

record 's env =
  w_venue :: "'s venue_ops"
  w_now :: "'s \<Rightarrow> int"
  w_control :: "'s \<Rightarrow> control list"
  w_LoadRiskState :: "'s \<Rightarrow> gostring \<Rightarrow> perr + f64 \<times> gostring"
  w_SaveRiskState :: "'s \<Rightarrow> gostring \<Rightarrow> gostring \<Rightarrow> f64 \<Rightarrow> 's"
  w_ListOrderRecords :: "'s \<Rightarrow> gostring \<Rightarrow> int \<Rightarrow> order_record list"
  w_SaveOrderRecord :: "'s \<Rightarrow> gostring \<Rightarrow> order_record \<Rightarrow> 's"
  w_UpdateOrderStatus :: "'s \<Rightarrow> gostring \<Rightarrow> gostring \<Rightarrow> gostring \<Rightarrow> 's"
  w_SaveDecision :: "'s \<Rightarrow> gostring \<Rightarrow> decision_record \<Rightarrow> 's"
  w_SaveAuditLog :: "'s \<Rightarrow> gostring \<Rightarrow> audit_record \<Rightarrow> 's"
  w_Telemetry :: "'s \<Rightarrow> telemetry_event \<Rightarrow> 's"
  w_NotifyExecution :: "'s \<Rightarrow> execution_outcome \<Rightarrow> 's"
  w_NotifyCycleFailed :: "'s \<Rightarrow> perr \<Rightarrow> 's"
  w_FetchQuote :: "'s \<Rightarrow> gostring \<Rightarrow> perr + quote"
  w_QuoteRange :: "(gostring \<times> quote) list \<Rightarrow> (gostring \<times> quote) list"
  w_DecisionRange :: "(gostring \<times> decision) list \<Rightarrow> (gostring \<times> decision) list"
  w_AI :: "'s \<Rightarrow> gostring \<Rightarrow> gostring \<Rightarrow> perr + gostring"
  w_AIDurationMs :: "'s \<Rightarrow> int"
  w_Prompts :: "strategy \<Rightarrow> pred_context \<Rightarrow> gostring \<times> gostring"
  w_Unmarshal :: "gostring \<Rightarrow> decision list option"
  w_Unmarshal1 :: "gostring \<Rightarrow> decision option"

record trader =
  t_cfg :: trader_config
  t_gate :: gate
  t_hasAI :: bool
  t_hasStore :: bool
  t_dbid :: gostring
  t_callCount :: int
  t_startTime :: int
  t_dailyVolume :: f64
  t_lastReset :: int
  t_recent :: "decision list"
  t_lastCycleAt :: "int option"
  t_lastCycleOK :: bool
  t_lastCycleError :: "perr option"
  t_lastDecisionCount :: int
  t_lastExecutionCount :: int
  t_isRunning :: bool
  t_loopActive :: bool

abbreviation stored :: "trader \<Rightarrow> bool" where
  "stored t \<equiv> t_hasStore t \<and> t_dbid t \<noteq> ''''"

abbreviation strat_of :: "trader \<Rightarrow> strategy" where
  "strat_of t \<equiv> tc_Strategy (t_cfg t)"

text \<open>\<open>NewPredictionTrader\<close>: the venue is not nil; the error is a missing AI client.\<close>

definition NewPredictionTrader :: "trader_config \<Rightarrow> bool \<Rightarrow> int \<Rightarrow> engine_err + trader" where
  "NewPredictionTrader cfg0 hasClient now =
     (let strat = tc_Strategy cfg0;
          strat = (if feq (rc_MaxOrderUsd (st_Risk strat)) 0 then strat\<lparr>st_Risk := DefaultConfig\<rparr> else strat);
          cfg = cfg0\<lparr>tc_Strategy := strat\<rparr>;
          mode = (if st_Mode strat = '''' then ModeAI else st_Mode strat);
          needsAI = (mode = ModeAI \<or> mode = ModeHybrid)
      in if needsAI \<and> \<not> hasClient then Inl AIClientMissing
         else Inr \<lparr>t_cfg = cfg, t_gate = NewGate (st_Risk strat), t_hasAI = hasClient, t_hasStore = False,
                t_dbid = '''', t_callCount = 0, t_startTime = now, t_dailyVolume = 0, t_lastReset = now,
                t_recent = [], t_lastCycleAt = None, t_lastCycleOK = False, t_lastCycleError = None,
                t_lastDecisionCount = 0, t_lastExecutionCount = 0, t_isRunning = False, t_loopActive = False\<rparr>)"

definition SetStore :: "bool \<Rightarrow> gostring \<Rightarrow> trader \<Rightarrow> trader" where
  "SetStore hasStore dbid t = t\<lparr>t_hasStore := hasStore, t_dbid := dbid\<rparr>"

section \<open>Loop control\<close>

text \<open>The state changes of \<open>Run\<close> before its loop, and of \<open>Stop\<close>.\<close>

definition run_begin :: "trader \<Rightarrow> trader_err + trader" where
  "run_begin t = (if t_isRunning t then Inl AlreadyRunning else Inr (t\<lparr>t_isRunning := True, t_loopActive := True\<rparr>))"

definition stop_run :: "trader \<Rightarrow> trader" where
  "stop_run t = (if \<not> t_isRunning t then t else t\<lparr>t_isRunning := False, t_loopActive := False\<rparr>)"

definition shouldAbortExecution :: "trader \<Rightarrow> bool" where
  "shouldAbortExecution t \<longleftrightarrow> t_loopActive t \<and> \<not> t_isRunning t"

fun control_step :: "trader \<Rightarrow> control \<Rightarrow> trader" where
  "control_step t RunCall = (case run_begin t of Inl _ \<Rightarrow> t | Inr t' \<Rightarrow> t')"
| "control_step t StopCall = stop_run t"

text \<open>The trader as the next lock of \<open>isRunningMutex\<close> finds it.\<close>

definition controlled :: "'s env \<Rightarrow> 's \<Rightarrow> trader \<Rightarrow> trader" where
  "controlled env s t = foldl control_step t (w_control env s)"

definition scan_interval :: "trader \<Rightarrow> int" where
  "scan_interval t =
     (let i = tc_ScanInterval (t_cfg t);
          i = (if i \<le> 0 then st_ScanIntervalMin (strat_of t) else i)
      in if i \<le> 0 then 5 else i)"

record runtime_status =
  rs_IsRunning :: bool
  rs_CycleCount :: int
  rs_UptimeSec :: int
  rs_ScanIntervalMinutes :: int
  rs_LastCycleAt :: "int option"
  rs_LastCycleOK :: bool
  rs_LastCycleError :: "perr option"
  rs_LastDecisionCount :: int
  rs_LastExecutionCount :: int
  rs_DailyVolumeUsd :: f64

definition RuntimeStatus :: "int \<Rightarrow> trader \<Rightarrow> runtime_status" where
  "RuntimeStatus now t =
     \<lparr>rs_IsRunning = t_isRunning t, rs_CycleCount = t_callCount t,
      rs_UptimeSec = trunc_int (duration_seconds (time_since (t_startTime t) now)),
      rs_ScanIntervalMinutes = scan_interval t, rs_LastCycleAt = t_lastCycleAt t,
      rs_LastCycleOK = t_lastCycleOK t, rs_LastCycleError = t_lastCycleError t,
      rs_LastDecisionCount = t_lastDecisionCount t, rs_LastExecutionCount = t_lastExecutionCount t,
      rs_DailyVolumeUsd = t_dailyVolume t\<rparr>"

section \<open>Daily volume\<close>

definition maybeResetDailyVolumeLocal :: "int \<Rightarrow> trader \<Rightarrow> trader" where
  "maybeResetDailyVolumeLocal now t =
     (if time_since (t_lastReset t) now > day_ns then t\<lparr>t_dailyVolume := 0, t_lastReset := now\<rparr> else t)"

definition syncDailyVolumeFromStore :: "'s env \<Rightarrow> 's \<Rightarrow> trader \<Rightarrow> trader" where
  "syncDailyVolumeFromStore env s t =
     (if \<not> stored t then maybeResetDailyVolumeLocal (w_now env s) t
      else case w_LoadRiskState env s (t_dbid t) of
        Inl _ \<Rightarrow> maybeResetDailyVolumeLocal (w_now env s) t
      | Inr (vol, day) \<Rightarrow>
          if day \<noteq> date_string (w_now env s) then t\<lparr>t_dailyVolume := 0, t_lastReset := w_now env s\<rparr>
          else t\<lparr>t_dailyVolume := vol, t_lastReset := w_now env s\<rparr>)"

definition persistDailyVolume :: "'s env \<Rightarrow> trader \<Rightarrow> 's \<Rightarrow> 's" where
  "persistDailyVolume env t s =
     (if \<not> stored t then s
      else w_SaveRiskState env s (t_dbid t) (date_string (w_now env s)) (t_dailyVolume t))"

definition recordFillVolume :: "'s env \<Rightarrow> f64 \<Rightarrow> trader \<times> 's \<Rightarrow> trader \<times> 's" where
  "recordFillVolume env usd ts =
     (if usd \<le> 0 then ts
      else let t = (fst ts)\<lparr>t_dailyVolume := t_dailyVolume (fst ts) + usd\<rparr>
           in (t, persistDailyVolume env t (snd ts)))"

section \<open>Ordering decisions\<close>

text \<open>An action that is not in the priority map has priority 0, the map's zero value.\<close>

definition priority :: "action \<Rightarrow> nat" where
  "priority a = (case a of ActionSell \<Rightarrow> 0 | ActionRedeem \<Rightarrow> 1 | ActionBuyYes \<Rightarrow> 2 | ActionBuyNo \<Rightarrow> 2
     | ActionHold \<Rightarrow> 3 | ActionWait \<Rightarrow> 4 | OtherAction _ \<Rightarrow> 0)"

text \<open>The inner loop: \<open>x\<close> is \<open>out[i]\<close>, swapped with each later element of smaller priority.\<close>

fun sort_sweep :: "decision \<Rightarrow> decision list \<Rightarrow> decision \<times> decision list" where
  "sort_sweep x [] = (x, [])"
| "sort_sweep x (y # ys) =
     (if priority (d_Action y) < priority (d_Action x)
      then let (z, zs) = sort_sweep y ys in (z, x # zs)
      else let (z, zs) = sort_sweep x ys in (z, y # zs))"

lemma sort_sweep_length: "length (snd (sort_sweep x ys)) = length ys"
  by (induction x ys rule: sort_sweep.induct) (auto split: prod.splits)

function sortDecisions :: "decision list \<Rightarrow> decision list" where
  "sortDecisions [] = []"
| "sortDecisions (x # xs) = (let (z, zs) = sort_sweep x xs in z # sortDecisions zs)"
  by pat_completeness auto

termination
  by (relation "measure length") (auto simp: sort_sweep_length dest: arg_cong [where f = "\<lambda>p. length (snd p)"])

section \<open>Selling\<close>

definition truncateToken :: "gostring \<Rightarrow> gostring" where
  "truncateToken i = (if length i \<le> 12 then i else take 6 i @ ''...'' @ drop (length i - 4) i)"

definition roundSellPrice :: "f64 \<Rightarrow> f64" where
  "roundSellPrice p = fround (p * fl 1000) / fl 1000"

definition sell_token :: "outcome_position list \<Rightarrow> decision \<Rightarrow> decision" where
  "sell_token positions d =
     (if d_TokenID d = '''' \<and> d_MarketSlug d \<noteq> '''' then
        (case filter (\<lambda>p. op_MarketSlug p = d_MarketSlug d \<and> op_Shares p > 0 \<and> op_TokenID p \<noteq> '''') positions of
           [] \<Rightarrow> d | p # _ \<Rightarrow> d\<lparr>d_TokenID := op_TokenID p\<rparr>)
      else d)"

definition sell_limit :: "f64 \<Rightarrow> f64 \<Rightarrow> f64" where
  "sell_limit mark limit =
     (if limit \<le> 0 then
        (let l = roundSellPrice (mark - fl (1 / 100)) in if l < fl (1 / 1000) then fl (1 / 1000) else l)
      else limit)"

definition sell_size :: "f64 \<Rightarrow> f64 \<Rightarrow> f64 \<Rightarrow> f64 \<Rightarrow> f64" where
  "sell_size shares mark limit size0 =
     (let positionUsd = shares * mark;
          sz = (if size0 \<le> 0 \<or> size0 > positionUsd then positionUsd else size0);
          maxShares = sz / limit
      in if maxShares > shares then shares * limit else sz)"

definition normalizeSellDecision :: "gate \<Rightarrow> outcome_position list \<Rightarrow> decision \<Rightarrow> trader_err + decision" where
  "normalizeSellDecision g positions d0 =
     (let d = sell_token positions d0 in
      if d_TokenID d = '''' then Inl MissingTokenForSell
      else case PositionForToken g (d_TokenID d) of
        None \<Rightarrow> Inl (NoOpenPositionForToken (truncateToken (d_TokenID d)))
      | Some p \<Rightarrow>
          if op_Shares p \<le> 0 then Inl (NoOpenPositionForToken (truncateToken (d_TokenID d)))
          else
            let d = (if d_MarketSlug d = '''' then d\<lparr>d_MarketSlug := op_MarketSlug p\<rparr> else d);
                mark = (if op_MidPrice p \<le> 0 then op_AvgCost p else op_MidPrice p)
            in if mark \<le> 0 then Inl (NoMarkPrice (d_MarketSlug d))
               else let limit = sell_limit mark (d_LimitPrice d) in
                 Inr (d\<lparr>d_SizeUsd := sell_size (op_Shares p) mark limit (d_SizeUsd d), d_LimitPrice := limit\<rparr>))"

section \<open>Executing a trade\<close>

definition outcome_of :: "decision \<Rightarrow> execution_outcome" where
  "outcome_of d = \<lparr>eo_MarketSlug = d_MarketSlug d, eo_Action = d_Action d, eo_Status = '''', eo_Message = NoMsg,
     eo_OrderID = '''', eo_FillUsd = 0, eo_PreviewWire = ''''\<rparr>"

definition failed :: "gostring \<Rightarrow> perr \<Rightarrow> execution_outcome \<Rightarrow> execution_outcome" where
  "failed status e out = out\<lparr>eo_Status := status, eo_Message := ErrMsg e\<rparr>"

definition side_of :: "action \<Rightarrow> gostring" where
  "side_of a = (if a = ActionSell then ''SELL'' else ''BUY'')"

definition order_req :: "trader \<Rightarrow> bool \<Rightarrow> decision \<Rightarrow> limit_order_req" where
  "order_req t negRisk d =
     \<lparr>lr_TokenID = d_TokenID d, lr_Side = side_of (d_Action d), lr_Price = d_LimitPrice d,
      lr_Size = d_SizeUsd d / d_LimitPrice d, lr_NegRisk = negRisk, lr_MarketSlug = d_MarketSlug d,
      lr_Outcome = (case d_Action d of ActionBuyYes \<Rightarrow> ''YES'' | ActionBuyNo \<Rightarrow> ''NO'' | _ \<Rightarrow> ''''),
      lr_CycleNumber = t_callCount t, lr_DecisionAction = action_str (d_Action d), lr_Reasoning = d_Reasoning d\<rparr>"

definition saveOrderRecord ::
  "'s env \<Rightarrow> decision \<Rightarrow> order_result \<Rightarrow> execution_outcome \<Rightarrow> trader \<times> 's \<Rightarrow> trader \<times> 's" where
  "saveOrderRecord env d r out ts =
     (let (t, s) = ts in
      if \<not> stored t \<or> or_OrderID r = '''' then ts
      else (t, w_SaveOrderRecord env s (t_dbid t)
        \<lparr>od_OrderID = or_OrderID r, od_CycleNumber = t_callCount t, od_MarketSlug = d_MarketSlug d,
         od_TokenID = d_TokenID d, od_Side = side_of (d_Action d), od_Price = d_LimitPrice d,
         od_Size = d_SizeUsd d / d_LimitPrice d, od_Status = eo_Status out, od_PreviewWire = or_PreviewWire r,
         od_IsPreview = (eo_Status out = ''preview'' \<or> has_prefix (or_OrderID r) ''preview-'')\<rparr>))"

text \<open>The polling loop, with the number of attempts left (four at the start).\<close>

fun poll_fill :: "'s env \<Rightarrow> decision \<Rightarrow> gostring \<Rightarrow> nat \<Rightarrow> 's \<Rightarrow> f64 option \<times> 's" where
  "poll_fill env d oid 0 s = (None, s)"
| "poll_fill env d oid (Suc n) s =
     (case vn_GetOrderStatus (w_venue env) s oid of
        (Inl _, s) \<Rightarrow> poll_fill env d oid n s
      | (Inr None, s) \<Rightarrow> poll_fill env d oid n s
      | (Inr (Some st), s) \<Rightarrow>
          if os_SizeMatched st \<le> 0 then (if os_Terminal st then (None, s) else poll_fill env d oid n s)
          else if os_OriginalSize st > 0 then (Some (d_SizeUsd d * (os_SizeMatched st / os_OriginalSize st)), s)
          else (Some (d_SizeUsd d), s))"

definition confirmedFillUsd :: "'s env \<Rightarrow> decision \<Rightarrow> order_result \<Rightarrow> 's \<Rightarrow> f64 option \<times> 's" where
  "confirmedFillUsd env d r s =
     (if or_OrderID r = '''' \<or> has_prefix (or_OrderID r) ''preview-'' then (None, s)
      else poll_fill env d (or_OrderID r) 4 s)"

text \<open>Booking a fill: the gate, the day's volume, the exposure, the outcome and the order row.\<close>

definition book_fill ::
  "'s env \<Rightarrow> decision \<Rightarrow> order_result \<Rightarrow> f64 \<Rightarrow> execution_outcome \<Rightarrow> trader \<times> 's \<Rightarrow> execution_outcome \<times> trader \<times> 's" where
  "book_fill env d r fillUsd out ts =
     (let ts = ((fst ts)\<lparr>t_gate := RecordFill (t_gate (fst ts)) fillUsd\<rparr>, snd ts);
          ts = recordFillVolume env fillUsd ts;
          ts = ((fst ts)\<lparr>t_gate := applyFillExposure (t_gate (fst ts)) d fillUsd\<rparr>, snd ts);
          out = out\<lparr>eo_Status := ''filled'', eo_FillUsd := fillUsd, eo_Message := FilledMsg fillUsd\<rparr>
      in (out, saveOrderRecord env d r out ts))"

definition trade_result ::
  "'s env \<Rightarrow> decision \<Rightarrow> order_result \<Rightarrow> execution_outcome \<Rightarrow> trader \<times> 's \<Rightarrow> execution_outcome \<times> trader \<times> 's" where
  "trade_result env d r out0 ts =
     (let out = out0\<lparr>eo_OrderID := or_OrderID r\<rparr> in
      if or_Status r = ''preview'' \<or> has_prefix (or_OrderID r) ''preview-'' then
        (let out = out\<lparr>eo_Status := ''preview'', eo_PreviewWire := or_PreviewWire r,
               eo_Message := SignedNotPosted (side_of (d_Action d)) (d_Action d) (d_LimitPrice d) (d_SizeUsd d / d_LimitPrice d)\<rparr>
         in (out, saveOrderRecord env d r out ts))
      else if or_Status r = ''matched'' \<or> or_FilledShares r > 0 then
        book_fill env d r (if or_FilledUsd r \<le> 0 then or_FilledShares r * d_LimitPrice d else or_FilledUsd r) out ts
      else
        (case confirmedFillUsd env d r (snd ts) of
           (Some usd, s) \<Rightarrow> book_fill env d r usd out (fst ts, s)
         | (None, s) \<Rightarrow>
             let out = out\<lparr>eo_Status := ''posted'', eo_Message := PostedAwaitingFill\<rparr>
             in (out, saveOrderRecord env d r out (fst ts, s))))"

definition executeTradeOutcome :: "'s env \<Rightarrow> decision \<Rightarrow> trader \<times> 's \<Rightarrow> execution_outcome \<times> trader \<times> 's" where
  "executeTradeOutcome env d ts =
     (let (t, s) = ts; out = outcome_of d in
      if d_TokenID d = '''' then (failed ''error'' (TraderErr (MissingTokenID (d_MarketSlug d))) out, ts)
      else if d_LimitPrice d \<le> 0 then (failed ''error'' (TraderErr (LimitPriceNotPositive (d_Action d))) out, ts)
      else
        let negRisk = (case vn_GetMarketBySlug (w_venue env) s (d_MarketSlug d) of Inl _ \<Rightarrow> False | Inr m \<Rightarrow> m_NegRisk m)
        in case vn_PlaceLimitOrder (w_venue env) s (order_req t negRisk d) of
             (Inl e, s) \<Rightarrow> (failed ''error'' e out, t, s)
           | (Inr None, s) \<Rightarrow> (out\<lparr>eo_Status := ''skipped''\<rparr>, t, s)
           | (Inr (Some r), s) \<Rightarrow>
               (case or_Error r of
                  Some e \<Rightarrow> (failed ''rejected'' e out, t, s)
                | None \<Rightarrow> trade_result env d r out (t, s)))"

section \<open>Redeeming\<close>

text \<open>A failed redemption of one item is logged and the loop goes on.\<close>

fun redeem_items :: "'s env \<Rightarrow> redeemable_position list \<Rightarrow> 's \<Rightarrow> 's" where
  "redeem_items env [] s = s"
| "redeem_items env (i # is) s =
     redeem_items env is (snd (vn_RedeemCondition (w_venue env) s (rp_ConditionID i) (rp_NegRisk i)))"

definition executeRedeem :: "'s env \<Rightarrow> decision \<Rightarrow> 's \<Rightarrow> perr option \<times> 's" where
  "executeRedeem env d s =
     (if d_MarketSlug d \<noteq> '''' then
        (case vn_GetMarketBySlug (w_venue env) s (d_MarketSlug d) of
           Inl e \<Rightarrow> (Some e, s)
         | Inr m \<Rightarrow>
             if m_ConditionID m = '''' then (Some (TraderErr NoConditionID), s)
             else case vn_RedeemCondition (w_venue env) s (m_ConditionID m) (m_NegRisk m) of
               (Inl e, s) \<Rightarrow> (Some e, s) | (Inr _, s) \<Rightarrow> (None, s))
      else case vn_FindRedeemablePositions (w_venue env) s of
        Inl e \<Rightarrow> (Some e, s)
      | Inr items \<Rightarrow> (None, redeem_items env items s))"

definition canAutoRedeem :: "'s env \<Rightarrow> 's \<Rightarrow> trader \<Rightarrow> bool" where
  "canAutoRedeem env s t \<longleftrightarrow>
     rc_PreviewMode (g_cfg (t_gate t)) \<or> vn_LiveRedeemReady (w_venue env) s
     \<or> vn_VenueID (w_venue env) = ''polymarket_sim''"

definition tryAutoRedeem :: "'s env \<Rightarrow> trader \<Rightarrow> 's \<Rightarrow> 's" where
  "tryAutoRedeem env t s =
     (if \<not> canAutoRedeem env s t then s
      else case vn_FindRedeemablePositions (w_venue env) s of
        Inl _ \<Rightarrow> s | Inr items \<Rightarrow> redeem_items env items s)"

section \<open>Executing a decision\<close>

definition executeDecisionWithOutcome ::
  "'s env \<Rightarrow> decision \<Rightarrow> trader \<times> 's \<Rightarrow> execution_outcome \<times> trader \<times> 's" where
  "executeDecisionWithOutcome env d ts =
     (let (t, s) = ts; out = outcome_of d in
      case d_Action d of
        ActionHold \<Rightarrow> (out\<lparr>eo_Status := ''skipped''\<rparr>, ts)
      | ActionWait \<Rightarrow> (out\<lparr>eo_Status := ''skipped''\<rparr>, ts)
      | ActionRedeem \<Rightarrow>
          (case CheckDecision (t_gate t) d of
             Some e \<Rightarrow> (failed ''risk_blocked'' (GateErr e) out, ts)
           | None \<Rightarrow>
              (case executeRedeem env d s of
                 (Some e, s) \<Rightarrow> (failed ''error'' e out, t, s)
               | (None, s) \<Rightarrow> (out\<lparr>eo_Status := ''redeem'', eo_Message := RedeemSubmitted\<rparr>, t, s)))
      | OtherAction _ \<Rightarrow> (failed ''error'' (TraderErr (TraderUnknownAction (d_Action d))) out, ts)
      | _ \<Rightarrow>
          (case (if d_Action d = ActionSell
                 then normalizeSellDecision (t_gate t) (venue_positions (w_venue env) s) d else Inr d) of
             Inl e \<Rightarrow> (failed ''error'' (TraderErr e) out, ts)
           | Inr d' \<Rightarrow>
              (case CheckDecision (t_gate t) d' of
                 Some e \<Rightarrow> (failed ''risk_blocked'' (GateErr e) out, ts)
               | None \<Rightarrow> executeTradeOutcome env d' ts)))"

definition SellPosition :: "'s env \<Rightarrow> gostring \<Rightarrow> f64 \<Rightarrow> f64 \<Rightarrow> trader \<times> 's \<Rightarrow> execution_outcome \<times> trader \<times> 's" where
  "SellPosition env tokenID sizeUsd limitPrice ts =
     (let (t, s) = ts; out = outcome_of empty_decision in
      case vn_GetOutcomePositions (w_venue env) s of
        Inl e \<Rightarrow> (failed ''error'' e out, ts)
      | Inr positions \<Rightarrow>
          let t = t\<lparr>t_gate := SetPositions (t_gate t) positions\<rparr> in
          (case filter (\<lambda>p. op_TokenID p = tokenID \<and> op_Shares p > 0) positions of
             [] \<Rightarrow> (failed ''error'' (TraderErr PositionNotFound) out, t, s)
           | p # _ \<Rightarrow> executeDecisionWithOutcome env
               (empty_decision\<lparr>d_MarketSlug := op_MarketSlug p, d_TokenID := tokenID, d_Action := ActionSell,
                  d_SizeUsd := sizeUsd, d_LimitPrice := limitPrice, d_Reasoning := ''manual sell via API''\<rparr>) (t, s)))"

end
