(* ===== verification/Pred_Cycle.thy ===== *)
theory Pred_Cycle
  imports Pred_Trader
begin

text \<open>
  The cycle of the trader: \<open>prediction/trader/cycle.go\<close>, \<open>runCycle\<close> and the recording functions of
  \<open>trader.go\<close>, \<open>risk_state.go\<close>, \<open>status.go\<close> and \<open>orders_sync.go\<close>.
\<close>

section \<open>Where decisions come from\<close>

definition effectiveMode :: "trader \<Rightarrow> gostring" where
  "effectiveMode t = (if st_Mode (strat_of t) = '''' then ModeAI else st_Mode (strat_of t))"

fun merge_rules :: "decision list \<Rightarrow> (gostring, decision) gomap \<Rightarrow> (gostring, decision) gomap" where
  "merge_rules [] m = m"
| "merge_rules (d # ds) m =
     (if d_Action d = ActionWait \<or> d_Action d = ActionHold then merge_rules ds m
      else if d_MarketSlug d \<noteq> '''' then merge_rules ds (mput (d_MarketSlug d) d m)
      else merge_rules ds m)"

fun merge_ai :: "decision list \<Rightarrow> (gostring, decision) gomap \<Rightarrow> (gostring, decision) gomap" where
  "merge_ai [] m = m"
| "merge_ai (d # ds) m =
     (if d_MarketSlug d = '''' then merge_ai ds m else merge_ai ds (mput (d_MarketSlug d) d m))"

definition hybrid_wait :: decision where
  "hybrid_wait = empty_decision\<lparr>d_Action := ActionWait, d_Reasoning := ''hybrid: no signals''\<rparr>"

definition mergeDecisions ::
  "((gostring \<times> decision) list \<Rightarrow> (gostring \<times> decision) list) \<Rightarrow> decision list \<Rightarrow> decision list \<Rightarrow> decision list" where
  "mergeDecisions rng rules ai =
     (let out = map snd (rng (merge_ai ai (merge_rules rules [])))
      in if out = [] then [hybrid_wait] else out)"

definition runRulesCycle :: "'s env \<Rightarrow> 's \<Rightarrow> trader \<Rightarrow> pred_context \<Rightarrow> full_decision" where
  "runRulesCycle env s t ctx =
     RulesFullDecision (w_now env s)
       (EvaluateRules (w_now env s) (w_FetchQuote env s) (w_QuoteRange env) ctx (strat_of t))"

definition runAICycle :: "'s env \<Rightarrow> 's \<Rightarrow> trader \<Rightarrow> pred_context \<Rightarrow> full_decision option \<times> perr option" where
  "runAICycle env s t ctx =
     (if \<not> t_hasAI t then (None, Some (EngineErr AIClientMissing))
      else GetPredictionDecisions (w_Prompts env) (w_AI env s) (w_Unmarshal env) (w_Unmarshal1 env)
             (w_now env s) (w_AIDurationMs env s) ctx (strat_of t))"

definition hybrid_trace :: "gostring \<Rightarrow> gostring \<Rightarrow> gostring" where
  "hybrid_trace r a = ''hybrid'' @ [CHR 0x0A] @ ''--- rules ---'' @ [CHR 0x0A] @ r @ [CHR 0x0A] @
     ''--- AI ---'' @ [CHR 0x0A] @ a"

definition runHybridCycle :: "'s env \<Rightarrow> 's \<Rightarrow> trader \<Rightarrow> pred_context \<Rightarrow> full_decision option \<times> perr option" where
  "runHybridCycle env s t ctx =
     (let ruleDecision = runRulesCycle env s t ctx in
      case runAICycle env s t ctx of
        (None, err) \<Rightarrow> (Some ruleDecision, err)
      | (Some ai, err) \<Rightarrow>
          (Some (ai\<lparr>fd_Decisions := mergeDecisions (w_DecisionRange env) (fd_Decisions ruleDecision) (fd_Decisions ai),
                    fd_CoTTrace := hybrid_trace (fd_CoTTrace ruleDecision) (fd_CoTTrace ai)\<rparr>), err))"

definition decide :: "'s env \<Rightarrow> 's \<Rightarrow> trader \<Rightarrow> pred_context \<Rightarrow> full_decision option \<times> perr option" where
  "decide env s t ctx =
     (if effectiveMode t = ModeRules then (Some (runRulesCycle env s t ctx), None)
      else if effectiveMode t = ModeHybrid then runHybridCycle env s t ctx
      else runAICycle env s t ctx)"

section \<open>Recording\<close>

definition audit_event :: "gostring \<Rightarrow> gostring" where
  "audit_event status =
     (if status \<in> {''filled'', ''posted'', ''preview'', ''rejected'', ''risk_blocked'', ''error'', ''redeem''}
      then status else ''execution'')"

definition auditLevel :: "gostring \<Rightarrow> gostring" where
  "auditLevel eventType =
     (if eventType \<in> {''error'', ''rejected'', ''risk_blocked''} then ''error''
      else if eventType \<in> {''preview'', ''posted''} then ''warn'' else ''info'')"

text \<open>\<open>TelegramNotify\<close> is set; the statuses it is sent for.\<close>

definition notifyExecution :: "'s env \<Rightarrow> execution_outcome \<Rightarrow> 's \<Rightarrow> 's" where
  "notifyExecution env out s =
     (if eo_Status out \<in> {''filled'', ''preview'', ''redeem'', ''error'', ''rejected'', ''posted''}
      then w_NotifyExecution env s out else s)"

definition auditExecution :: "'s env \<Rightarrow> trader \<Rightarrow> execution_outcome \<Rightarrow> 's \<Rightarrow> 's" where
  "auditExecution env t out s =
     (if \<not> stored t then s
      else if eo_Status out \<in> {'''', ''skipped'', ''hold'', ''wait''} then s
      else
        let eventType = audit_event (eo_Status out);
            s = w_Telemetry env s (Executed (auditLevel eventType) out);
            s = w_SaveAuditLog env s (t_dbid t)
              \<lparr>au_CycleNumber = t_callCount t, au_EventType = eventType, au_MarketSlug = eo_MarketSlug out,
               au_Action = action_str (eo_Action out), au_OrderID = eo_OrderID out, au_AmountUsd = eo_FillUsd out,
               au_Status = eo_Status out, au_Message = eo_Message out\<rparr>
        in notifyExecution env out s)"

definition saveDecisionRecord :: "'s env \<Rightarrow> trader \<Rightarrow> full_decision option \<Rightarrow> perr option \<Rightarrow> 's \<Rightarrow> 's" where
  "saveDecisionRecord env t fd err s =
     (case fd of
        None \<Rightarrow> s
      | Some f \<Rightarrow>
          if \<not> stored t then s
          else w_SaveDecision env s (t_dbid t)
            \<lparr>dr_CycleNumber = t_callCount t, dr_Timestamp = fd_Timestamp f, dr_CoTTrace = fd_CoTTrace f,
             dr_Decisions = fd_Decisions f, dr_Executions = fd_Executions f, dr_RawResponse = fd_RawResponse f,
             dr_Success = (err = None), dr_ErrorMessage = err, dr_AIRequestDurationMs = fd_AIRequestDurationMs f\<rparr>)"

text \<open>
  The stand-in for a cycle without any decision is one wait; its reasoning is the error's text in
  the code, which the row also keeps as its error.
\<close>

definition saveFailedCycleRecord :: "'s env \<Rightarrow> trader \<Rightarrow> full_decision option \<Rightarrow> perr \<Rightarrow> 's \<Rightarrow> 's" where
  "saveFailedCycleRecord env t fd err s =
     (if \<not> stored t then s
      else
        let f = (case fd of
                   Some f \<Rightarrow> f
                 | None \<Rightarrow> (RulesFullDecision (w_now env s) [empty_decision\<lparr>d_Action := ActionWait\<rparr>])\<lparr>fd_CoTTrace := ''''\<rparr>)
        in saveDecisionRecord env t (Some f) (Some err) s)"

definition recordCycleTelemetry ::
  "'s env \<Rightarrow> nat \<Rightarrow> nat \<Rightarrow> perr option \<Rightarrow> trader \<times> 's \<Rightarrow> trader \<times> 's" where
  "recordCycleTelemetry env decisionCount executionCount err ts =
     (let (t, s) = ts;
          t = t\<lparr>t_lastCycleAt := Some (w_now env s), t_lastDecisionCount := int decisionCount,
                t_lastExecutionCount := int executionCount, t_lastCycleOK := (err = None), t_lastCycleError := err\<rparr>
      in (t, w_Telemetry env s
            (case err of None \<Rightarrow> CycleDone (t_callCount t) (int decisionCount) (int executionCount)
             | Some e \<Rightarrow> CycleFailed (t_callCount t) e)))"

section \<open>Order synchronisation\<close>

text \<open>The new status of a row and the volume it adds, from the venue's answer.\<close>

definition synced_status :: "order_status \<Rightarrow> gostring" where
  "synced_status st =
     (if os_SizeMatched st > 0 \<and> os_OriginalSize st > 0 \<and> os_SizeMatched st \<ge> os_OriginalSize st
      then ''filled'' else to_lower (os_Status st))"

definition sync_final :: "order_record \<Rightarrow> bool" where
  "sync_final r \<longleftrightarrow> od_IsPreview r \<or> od_OrderID r = '''' \<or>
     to_lower (od_Status r) \<in> {''filled'', ''cancelled'', ''canceled''}"

definition synced_usd :: "order_record \<Rightarrow> order_status \<Rightarrow> f64" where
  "synced_usd r st = od_Price r * (if os_SizeMatched st > 0 then os_SizeMatched st else od_Size r)"

definition sync_row :: "'s env \<Rightarrow> trader \<times> 's \<Rightarrow> order_record \<Rightarrow> trader \<times> 's" where
  "sync_row env ts r =
     (let (t, s) = ts in
      if sync_final r then ts
      else case vn_GetOrderStatus (w_venue env) s (od_OrderID r) of
        (Inl _, s) \<Rightarrow> (t, s)
      | (Inr None, s) \<Rightarrow> (t, s)
      | (Inr (Some st), s) \<Rightarrow>
          let newStatus = synced_status st in
          if newStatus = to_lower (od_Status r) then (t, s)
          else
            let s = w_UpdateOrderStatus env s (t_dbid t) (od_OrderID r) newStatus in
            if newStatus = ''filled'' then recordFillVolume env (synced_usd r st) (t, s) else (t, s))"

definition import_order :: "venue_order \<Rightarrow> order_record" where
  "import_order ord = \<lparr>od_OrderID = vo_OrderID ord, od_CycleNumber = 0, od_MarketSlug = '''', od_TokenID = vo_TokenID ord,
     od_Side = vo_Side ord, od_Price = vo_Price ord, od_Size = vo_OriginalSize ord, od_Status = vo_Status ord,
     od_PreviewWire = '''', od_IsPreview = False\<rparr>"

definition SyncOrderRecordsFromCLOB :: "'s env \<Rightarrow> trader \<times> 's \<Rightarrow> trader \<times> 's" where
  "SyncOrderRecordsFromCLOB env ts =
     (let (t, s) = foldl (sync_row env) ts (w_ListOrderRecords env (snd ts) (t_dbid (fst ts)) 100) in
      case vn_ListOpenOrders (w_venue env) s of
        Inl _ \<Rightarrow> (t, s)
      | Inr orders \<Rightarrow> (t, foldl (\<lambda>s ord. w_SaveOrderRecord env s (t_dbid t) (import_order ord)) s orders))"

definition syncOrdersAfterCycle :: "'s env \<Rightarrow> trader \<times> 's \<Rightarrow> trader \<times> 's" where
  "syncOrdersAfterCycle env ts =
     (if rc_PreviewMode (g_cfg (t_gate (fst ts))) \<or> \<not> stored (fst ts) then ts
      else SyncOrderRecordsFromCLOB env ts)"

section \<open>The cycle\<close>

text \<open>Other goroutines may call \<open>Run\<close> and \<open>Stop\<close> before each decision is looked at.\<close>

fun execute_all :: "'s env \<Rightarrow> decision list \<Rightarrow> trader \<times> 's \<Rightarrow> execution_outcome list \<times> trader \<times> 's" where
  "execute_all env [] ts = ([], ts)"
| "execute_all env (d # ds) ts =
     (let ts = (controlled env (snd ts) (fst ts), snd ts) in
      if shouldAbortExecution (fst ts) then ([], ts)
      else
        let (out, t, s) = executeDecisionWithOutcome env d ts;
            s = auditExecution env t out s;
            (outs, ts) = execute_all env ds (t, s)
        in (out # outs, ts))"

definition remember :: "decision list \<Rightarrow> decision list \<Rightarrow> decision list" where
  "remember recent ds = (let r = recent @ ds in if length r > 20 then drop (length r - 20) r else r)"

text \<open>What the loop leaves: the decision with its executions, recorded, synced and remembered.\<close>

definition finish_cycle :: "'s env \<Rightarrow> full_decision \<Rightarrow> trader \<times> 's \<Rightarrow> full_decision \<times> trader \<times> 's" where
  "finish_cycle env fd ts =
     (let (outs, t, s) = execute_all env (sortDecisions (fd_Decisions fd)) ts;
          fd = fd\<lparr>fd_Executions := outs\<rparr>;
          s = saveDecisionRecord env t (Some fd) None s;
          ts = syncOrdersAfterCycle env (t, s);
          ts = recordCycleTelemetry env (length (fd_Decisions fd)) (length outs) None ts
      in (fd, (fst ts)\<lparr>t_recent := remember (t_recent (fst ts)) (fd_Decisions fd)\<rparr>, snd ts))"

text \<open>The state before deciding: volume reloaded, redemptions done, the call counted.\<close>

definition begin_cycle :: "'s env \<Rightarrow> trader \<times> 's \<Rightarrow> trader \<times> 's" where
  "begin_cycle env ts =
     (let (t, s) = ts;
          t = t\<lparr>t_callCount := t_callCount t + 1\<rparr>;
          s = w_Telemetry env s (CycleStarted (t_callCount t));
          t = syncDailyVolumeFromStore env s t
      in (t, tryAutoRedeem env t s))"

definition load_gate :: "'s env \<Rightarrow> trader \<times> 's \<Rightarrow> trader" where
  "load_gate env ts =
     (let (t, s) = ts in
      t\<lparr>t_gate := SetDailyVolume (SetPositions (t_gate t) (venue_positions (w_venue env) s)) (t_dailyVolume t)\<rparr>)"

text \<open>The body of \<open>runCycle\<close>; the deferred snapshot follows it in \<open>runCycle\<close>.\<close>

definition cycle_body ::
  "'s env \<Rightarrow> trader \<times> 's \<Rightarrow> (full_decision option \<times> perr option) \<times> trader \<times> 's" where
  "cycle_body env ts0 =
     (let (t, s) = begin_cycle env ts0;
          runtimeMin = trunc_int (duration_minutes (time_since (t_startTime t) (w_now env s)))
      in case BuildContext (w_FetchQuote env s) (w_venue env) s (strat_of t) (w_now env s) (t_callCount t) runtimeMin (t_recent t) of
        Inl e \<Rightarrow> ((None, Some e), recordCycleTelemetry env 0 0 (Some e) (t, s))
      | Inr ctx \<Rightarrow>
          let t = load_gate env (t, s) in
          (case decide env s t ctx of
             (fd, Some e) \<Rightarrow>
               let s = saveFailedCycleRecord env t fd e s;
                   s = w_NotifyCycleFailed env s e
               in ((fd, Some e), recordCycleTelemetry env
                     (case fd of None \<Rightarrow> 0 | Some f \<Rightarrow> length (fd_Decisions f)) 0 (Some e) (t, s))
           | (None, None) \<Rightarrow> ((None, None), recordCycleTelemetry env 0 0 None (t, s))
           | (Some f, None) \<Rightarrow>
               let (f, ts) = finish_cycle env f (t, s) in ((Some f, None), ts)))"

definition runCycle ::
  "'s env \<Rightarrow> trader \<times> 's \<Rightarrow> (full_decision option \<times> perr option) \<times> trader \<times> 's" where
  "runCycle env ts0 =
     (let (res, t, s) = cycle_body env ts0
      in (res, t, vn_RecordEquitySnapshot (w_venue env) s (t_callCount t)))"

end
