(* ===== verification/Sim_Ledger.thy ===== *)
theory Sim_Ledger
  imports Pred_Types
begin

text \<open>
  \<open>prediction/sim/ledger.go\<close>: virtual cash and the outcome tokens held, with the operations the
  simulated venue performs on them.  The Go map holds pointers, but a pointer never leaves the
  ledger (every accessor copies), so the model's map holds the records themselves.  The mutex
  makes each operation atomic; the model is one function per operation.
\<close>

section \<open>State\<close>

record position_meta =
  pm_TokenID :: gostring
  pm_MarketSlug :: gostring
  pm_Outcome :: gostring
  pm_ConditionID :: gostring
  pm_NegRisk :: bool
  pm_Shares :: f64
  pm_AvgCost :: f64

record ledger =
  l_cash :: f64
  l_initial :: f64
  l_byToken :: "(gostring, position_meta) gomap"

definition sim_default_balance :: f64 where
  "sim_default_balance = fl 10000"

definition eps9 :: f64 where
  "eps9 = fl (1 / 1000000000)"

definition setInitial :: "ledger \<Rightarrow> f64 \<Rightarrow> ledger" where
  "setInitial l initial = (if initial > 0 then l\<lparr>l_initial := initial\<rparr> else l)"

definition NewLedger :: "f64 \<Rightarrow> ledger" where
  "NewLedger initialCash =
     (let c = (if initialCash \<le> 0 then sim_default_balance else initialCash)
      in \<lparr>l_cash = c, l_initial = c, l_byToken = []\<rparr>)"

definition SetCash :: "ledger \<Rightarrow> f64 \<Rightarrow> ledger" where
  "SetCash l cash = l\<lparr>l_cash := cash\<rparr>"

definition RestorePosition :: "ledger \<Rightarrow> position_meta \<Rightarrow> ledger" where
  "RestorePosition l p =
     (if pm_TokenID p = '''' \<or> pm_Shares p \<le> 0 then l
      else l\<lparr>l_byToken := mput (pm_TokenID p) p (l_byToken l)\<rparr>)"

section \<open>Reading\<close>

type_synonym token_range = "(gostring \<times> position_meta) list \<Rightarrow> (gostring \<times> position_meta) list"

definition Positions :: "token_range \<Rightarrow> ledger \<Rightarrow> position_meta list" where
  "Positions rng l = filter (\<lambda>p. pm_Shares p > eps9) (map snd (rng (l_byToken l)))"

definition LedgerPosition :: "ledger \<Rightarrow> gostring \<Rightarrow> position_meta option" where
  "LedgerPosition l tokenID =
     (case map_of (l_byToken l) tokenID of
        None \<Rightarrow> None
      | Some p \<Rightarrow> if pm_Shares p \<le> eps9 then None else Some p)"

definition outcome_of_meta :: "(gostring, f64) gomap \<Rightarrow> position_meta \<Rightarrow> outcome_position" where
  "outcome_of_meta mids p =
     \<lparr>op_TokenID = pm_TokenID p, op_MarketSlug = pm_MarketSlug p, op_Outcome = pm_Outcome p,
      op_Shares = pm_Shares p, op_AvgCost = pm_AvgCost p,
      op_MidPrice = (case map_of mids (pm_TokenID p) of Some mid \<Rightarrow> mid | None \<Rightarrow> 0)\<rparr>"

definition OutcomePositions :: "token_range \<Rightarrow> ledger \<Rightarrow> (gostring, f64) gomap \<Rightarrow> outcome_position list" where
  "OutcomePositions rng l mids =
     map (outcome_of_meta mids) (filter (\<lambda>p. \<not> pm_Shares p \<le> eps9) (map snd (rng (l_byToken l))))"

definition mark_meta :: "(gostring, f64) gomap \<Rightarrow> position_meta \<Rightarrow> f64" where
  "mark_meta mids p =
     (case map_of mids (pm_TokenID p) of
        Some mid \<Rightarrow> if mid > 0 then mid else pm_AvgCost p
      | None \<Rightarrow> pm_AvgCost p)"

fun mark_positions :: "(gostring, f64) gomap \<Rightarrow> f64 \<Rightarrow> position_meta list \<Rightarrow> f64" where
  "mark_positions mids equity [] = equity"
| "mark_positions mids equity (p # ps) =
     (if pm_Shares p \<le> eps9 then mark_positions mids equity ps
      else mark_positions mids (equity + pm_Shares p * mark_meta mids p) ps)"

definition MarkEquity :: "token_range \<Rightarrow> ledger \<Rightarrow> (gostring, f64) gomap \<Rightarrow> f64 \<times> f64" where
  "MarkEquity rng l mids =
     (l_cash l, mark_positions mids (l_cash l) (map snd (rng (l_byToken l))))"

section \<open>Trading\<close>

text \<open>The entry a buy writes to: a fresh one, or the held one with its metadata refreshed.\<close>

definition buy_entry ::
  "position_meta option \<Rightarrow> gostring \<Rightarrow> gostring \<Rightarrow> gostring \<Rightarrow> gostring \<Rightarrow> bool \<Rightarrow> position_meta" where
  "buy_entry held tokenID slug outcome conditionID negRisk =
     (case held of
        None \<Rightarrow> \<lparr>pm_TokenID = tokenID, pm_MarketSlug = slug, pm_Outcome = outcome,
                 pm_ConditionID = conditionID, pm_NegRisk = negRisk, pm_Shares = 0, pm_AvgCost = 0\<rparr>
      | Some p \<Rightarrow>
          let p = (if slug \<noteq> '''' then p\<lparr>pm_MarketSlug := slug\<rparr> else p);
              p = (if outcome \<noteq> '''' then p\<lparr>pm_Outcome := outcome\<rparr> else p);
              p = (if conditionID \<noteq> '''' then p\<lparr>pm_ConditionID := conditionID\<rparr> else p)
          in p\<lparr>pm_NegRisk := negRisk\<rparr>)"

definition bought :: "position_meta \<Rightarrow> f64 \<Rightarrow> f64 \<Rightarrow> position_meta" where
  "bought p shares cost =
     (let totalCost = pm_AvgCost p * pm_Shares p + cost;
          p = p\<lparr>pm_Shares := pm_Shares p + shares\<rparr>
      in if pm_Shares p > 0 then p\<lparr>pm_AvgCost := totalCost / pm_Shares p\<rparr> else p)"

definition ApplyBuy ::
  "ledger \<Rightarrow> gostring \<Rightarrow> gostring \<Rightarrow> gostring \<Rightarrow> gostring \<Rightarrow> bool \<Rightarrow> f64 \<Rightarrow> f64 \<Rightarrow> ledger_err + ledger" where
  "ApplyBuy l tokenID slug outcome conditionID negRisk shares price =
     (if shares \<le> 0 \<or> price \<le> 0 then Inl (InvalidBuy shares price)
      else let cost = shares * price in
        if cost > l_cash l + eps9 then Inl (InsufficientCash cost (l_cash l))
        else
          let p = bought (buy_entry (map_of (l_byToken l) tokenID) tokenID slug outcome conditionID negRisk) shares cost
          in Inr (l\<lparr>l_cash := l_cash l - cost, l_byToken := mput tokenID p (l_byToken l)\<rparr>))"

definition ApplySell :: "ledger \<Rightarrow> gostring \<Rightarrow> f64 \<Rightarrow> f64 \<Rightarrow> ledger_err + f64 \<times> ledger" where
  "ApplySell l tokenID shares price =
     (if shares \<le> 0 \<or> price \<le> 0 then Inl (InvalidSell shares price)
      else case map_of (l_byToken l) tokenID of
        None \<Rightarrow> Inl (InsufficientShares shares 0)
      | Some p \<Rightarrow>
          if pm_Shares p + eps9 < shares then Inl (InsufficientShares shares (pm_Shares p))
          else
            let proceeds = shares * price;
                p = p\<lparr>pm_Shares := pm_Shares p - shares\<rparr>;
                m = (if pm_Shares p \<le> eps9 then mdel tokenID (l_byToken l) else mput tokenID p (l_byToken l))
            in Inr (proceeds, l\<lparr>l_cash := l_cash l + proceeds, l_byToken := m\<rparr>))"

definition RedeemPosition :: "ledger \<Rightarrow> gostring \<Rightarrow> f64 \<Rightarrow> ledger_err + f64 \<times> ledger" where
  "RedeemPosition l tokenID payoutPerShare =
     (case map_of (l_byToken l) tokenID of
        None \<Rightarrow> Inl (NoPositionForToken tokenID)
      | Some p \<Rightarrow>
          if pm_Shares p \<le> eps9 then Inl (NoPositionForToken tokenID)
          else let payout = pm_Shares p * payoutPerShare in
            Inr (payout, l\<lparr>l_cash := l_cash l + payout, l_byToken := mdel tokenID (l_byToken l)\<rparr>))"

section \<open>Well-formed ledgers\<close>

text \<open>
  Every entry sits under its own token and holds a positive number of shares; an entry that a
  sell or a redemption empties is gone.
\<close>

definition wf_ledger :: "ledger \<Rightarrow> bool" where
  "wf_ledger l \<longleftrightarrow> wf_map (l_byToken l) \<and>
     (\<forall>(k, p) \<in> set (l_byToken l). pm_TokenID p = k \<and> 0 < pm_Shares p \<and> is64 (pm_Shares p))"

lemma eps9_pos: "0 < eps9"
  by (simp add: eps9_def f64_eval)

lemma eps9_num [simp]: "eps9 \<noteq> NaN" "NaN \<noteq> eps9"
  by (simp_all add: eps9_def)

lemma buy_entry_None [simp]: "pm_TokenID (buy_entry None tok s oc c n) = tok"
  by (simp add: buy_entry_def)

lemma buy_entry_Some [simp]: "pm_TokenID (buy_entry (Some p) tok s oc c n) = pm_TokenID p"
  by (simp add: buy_entry_def Let_def)

lemma buy_entry_shares [simp]:
  "pm_Shares (buy_entry held tok s oc c n) = (case held of None \<Rightarrow> 0 | Some p \<Rightarrow> pm_Shares p)"
  "pm_AvgCost (buy_entry held tok s oc c n) = (case held of None \<Rightarrow> 0 | Some p \<Rightarrow> pm_AvgCost p)"
  by (auto simp: buy_entry_def Let_def split: option.splits)

lemma wf_ledger_lookup:
  "wf_ledger l \<Longrightarrow> map_of (l_byToken l) k = Some p \<Longrightarrow> pm_TokenID p = k \<and> 0 < pm_Shares p \<and> is64 (pm_Shares p)"
  by (auto simp: wf_ledger_def dest!: map_of_SomeD)

lemma wf_ledger_put:
  "wf_ledger l \<Longrightarrow> pm_TokenID p = k \<Longrightarrow> 0 < pm_Shares p \<Longrightarrow> is64 (pm_Shares p) \<Longrightarrow>
   wf_ledger (l\<lparr>l_cash := c, l_byToken := mput k p (l_byToken l)\<rparr>)"
  by (auto simp: wf_ledger_def set_mput)

lemma wf_ledger_del: "wf_ledger l \<Longrightarrow> wf_ledger (l\<lparr>l_cash := c, l_byToken := mdel k (l_byToken l)\<rparr>)"
  by (auto simp: wf_ledger_def set_mdel)

lemma wf_NewLedger: "wf_ledger (NewLedger c)"
  by (simp add: wf_ledger_def NewLedger_def Let_def)

lemma wf_RestorePosition: "wf_ledger l \<Longrightarrow> is64 (pm_Shares p) \<Longrightarrow> pm_Shares p \<noteq> NaN \<Longrightarrow> wf_ledger (RestorePosition l p)"
  using wf_ledger_put [of l p "pm_TokenID p" "l_cash l"]
  by (auto simp: RestorePosition_def f64_not_le zero_f64_def)

lemma f64_add_pos:
  assumes "0 \<le> a" "0 < b" "is64 b" shows "0 < a + (b :: f64)"
proof (cases "\<exists>r s. a = Fin r \<and> b = Fin s")
  case True
  then obtain r s where rs: "a = Fin r" "b = Fin s" by auto
  then have "fl s \<le> fl (r + s)" using assms by (intro fl_mono) (auto simp: zero_f64_def)
  moreover have "fl s = Fin s" using assms rs by (auto intro: fl_exact)
  ultimately show ?thesis using rs assms f64_less_le_trans [of 0 "Fin s"] by simp
next
  case False
  then show ?thesis using assms by (cases a; cases b) (auto simp: zero_f64_def)
qed

lemma bought_simps [simp]:
  "pm_Shares (bought p sh c) = pm_Shares p + sh" "pm_TokenID (bought p sh c) = pm_TokenID p"
  by (simp_all add: bought_def Let_def)

lemma ApplyBuy_Inr:
  assumes "ApplyBuy l tok slug oc cid nr shares price = Inr l'"
  shows "\<not> shares \<le> 0" "\<not> price \<le> 0" "\<not> l_cash l + eps9 < shares * price"
    "l' = l\<lparr>l_cash := l_cash l - shares * price, l_byToken := mput tok
       (bought (buy_entry (map_of (l_byToken l) tok) tok slug oc cid nr) shares (shares * price)) (l_byToken l)\<rparr>"
  using assms by (auto simp: ApplyBuy_def Let_def split: if_split_asm)

lemma wf_ApplyBuy:
  assumes wf: "wf_ledger l" and sh: "shares \<noteq> NaN" "is64 shares"
    and ok: "ApplyBuy l tok slug oc cid nr shares price = Inr l'"
  shows "wf_ledger l'"
proof -
  let ?p = "buy_entry (map_of (l_byToken l) tok) tok slug oc cid nr"
  have pos: "0 < shares" using ok sh by (auto simp: ApplyBuy_def f64_not_le zero_f64_def split: if_splits)
  have held: "0 \<le> pm_Shares ?p" "pm_TokenID ?p = tok"
    using wf_ledger_lookup [OF wf, of tok]
    by (cases "map_of (l_byToken l) tok"; simp add: f64_less_imp_le zero_f64_def)+
  have new: "0 < pm_Shares ?p + shares" using held(1) pos sh(2) by (rule f64_add_pos)
  then show ?thesis
    unfolding ApplyBuy_Inr(4) [OF ok] using held(2) by (intro wf_ledger_put [OF wf]) simp_all
qed

lemma f64_minus_not_NaN: "finite64 b \<Longrightarrow> a \<noteq> NaN \<Longrightarrow> a - b \<noteq> (NaN :: f64)"
  by (cases a; cases b) (auto simp: finite64_def minus_f64_def)

lemma ApplySell_Inr:
  assumes "ApplySell l tok shares price = Inr (pr, l')"
  obtains p where "map_of (l_byToken l) tok = Some p" "\<not> shares \<le> 0" "\<not> price \<le> 0"
    "\<not> pm_Shares p + eps9 < shares" "pr = shares * price"
    "l' = l\<lparr>l_cash := l_cash l + shares * price, l_byToken :=
       (if pm_Shares p - shares \<le> eps9 then mdel tok (l_byToken l)
        else mput tok (p\<lparr>pm_Shares := pm_Shares p - shares\<rparr>) (l_byToken l))\<rparr>"
proof (cases "map_of (l_byToken l) tok")
  case None
  then show ?thesis using assms by (simp add: ApplySell_def split: if_split_asm)
next
  case (Some p)
  show ?thesis
    by (rule that [OF Some]) (use assms Some in \<open>auto simp: ApplySell_def Let_def split: if_split_asm\<close>)
qed

lemma wf_ApplySell:
  assumes wf: "wf_ledger l" and sh: "finite64 shares"
    and ok: "ApplySell l tok shares price = Inr (pr, l')"
  shows "wf_ledger l'"
proof -
  obtain p where p: "map_of (l_byToken l) tok = Some p"
    and l': "l' = l\<lparr>l_cash := l_cash l + shares * price, l_byToken :=
       (if pm_Shares p - shares \<le> eps9 then mdel tok (l_byToken l)
        else mput tok (p\<lparr>pm_Shares := pm_Shares p - shares\<rparr>) (l_byToken l))\<rparr>"
    using ok by (rule ApplySell_Inr)
  note held = wf_ledger_lookup [OF wf p]
  have "pm_Shares p \<noteq> NaN" using held by auto
  then have nn: "pm_Shares p - shares \<noteq> NaN" by (rule f64_minus_not_NaN [OF sh])
  show ?thesis
  proof (cases "pm_Shares p - shares \<le> eps9")
    case True
    then show ?thesis using wf_ledger_del [OF wf] l' by simp
  next
    case False
    then have "eps9 < pm_Shares p - shares" using nn by (simp add: f64_not_le)
    then have "0 < pm_Shares p - shares" using f64_less_imp_le [OF eps9_pos] f64_le_less_trans by blast
    then show ?thesis using wf_ledger_put [OF wf, of "p\<lparr>pm_Shares := pm_Shares p - shares\<rparr>" tok] held False l'
      by simp
  qed
qed

lemma wf_RedeemPosition:
  "wf_ledger l \<Longrightarrow> RedeemPosition l tok payout = Inr (u, l') \<Longrightarrow> wf_ledger l'"
  by (auto simp: RedeemPosition_def Let_def wf_ledger_del split: option.splits if_splits)

section \<open>What trading does to cash and holdings\<close>

lemma f64_times_pos_not_NaN: "0 < a \<Longrightarrow> 0 < b \<Longrightarrow> a * b \<noteq> (NaN :: f64) \<and> 0 \<le> a * b"
  using fl_nonneg by (cases a; cases b) (auto simp: zero_f64_def)

text \<open>
  C16: a simulated buy never overdraws the account by more than two billionths of a dollar, and
  never adds cash: for balances up to a million dollars and orders that are not NaN, an accepted
  buy leaves at least \<open>-2e-9\<close> dollars.  The slack is the code's \<open>1e-9\<close> tolerance plus the
  rounding of the sum, the product and the difference.
\<close>

theorem buy_never_overdraws:
  assumes ok: "ApplyBuy l tok slug oc cid nr shares price = Inr l'"
    and num: "shares \<noteq> NaN" "price \<noteq> NaN"
    and cash: "l_cash l = Fin c" "\<bar>c\<bar> \<le> 1000000" "is64 (l_cash l)"
  shows "fl (- 2 / 1000000000) \<le> l_cash l' \<and> l_cash l' \<le> l_cash l"
proof -
  define e where "e = rnd (1 / 1000000000)"
  have e: "eps9 = Fin e" unfolding eps9_def e_def by (rule fl_moderate) simp
  have eb: "0 < e" "e \<le> 1 / 999999999"
    unfolding e_def by (simp_all add: f64_eval)
  have "0 < shares" "0 < price"
    using ok num by (auto simp: ApplyBuy_def f64_not_le zero_f64_def split: if_split_asm)
  then have cost: "shares * price \<noteq> NaN" "0 \<le> shares * price" using f64_times_pos_not_NaN by blast+
  note chk = ApplyBuy_Inr(3) [OF ok] and l' = ApplyBuy_Inr(4) [OF ok]
  have ce: "\<bar>c + e\<bar> \<le> 1000001" using cash eb by simp
  then have sum: "l_cash l + eps9 = Fin (rnd (c + e))"
    unfolding cash(1) e using fl_moderate [of "c + e"] by simp
  then obtain k where k: "shares * price = Fin k" "0 \<le> k" "k \<le> rnd (c + e)"
    using chk cost by (cases "shares * price") (auto simp: zero_f64_def)
  have "\<bar>rnd (c + e) - (c + e)\<bar> \<le> \<bar>c + e\<bar> / 2 ^ 53 + 1 / 2 ^ 70"
    by (rule rnd_err_moderate)
  also have "\<dots> \<le> 1000001 / 2 ^ 53 + 1 / 2 ^ 70"
    using ce by (intro add_right_mono divide_right_mono) auto
  finally have "rnd (c + e) - (c + e) \<le> 1000001 / 2 ^ 53 + 1 / 2 ^ 70" by (rule abs_le_D1)
  then have "- 2 / 1000000000 \<le> c - k" using k eb by simp
  then have "fl (- 2 / 1000000000) \<le> fl (c - k)" by (rule fl_mono)
  moreover have "fl (c - k) \<le> fl c" using k by (intro fl_mono) simp
  moreover have "fl c = Fin c" using cash fl_exact by simp
  ultimately show ?thesis using l' k cash by (simp add: minus_f64_def)
qed

theorem buy_never_overdraws_witness:
  "\<exists>l'. ApplyBuy (NewLedger 0) ''tok'' ''m'' ''YES'' ''c'' False (fl 100) (fl (1 / 2)) = Inr l' \<and>
     fl (- 2 / 1000000000) \<le> l_cash l' \<and> l_cash l' \<le> fl 10000"
proof -
  have l: "NewLedger 0 = \<lparr>l_cash = fl 10000, l_initial = fl 10000, l_byToken = []\<rparr>"
    using f64_refl [of 0] by (simp add: NewLedger_def sim_default_balance_def Let_def)
  obtain l' where l': "ApplyBuy (NewLedger 0) ''tok'' ''m'' ''YES'' ''c'' False (fl 100) (fl (1 / 2)) = Inr l'"
    unfolding l by (simp add: ApplyBuy_def Let_def eps9_def f64_eval zero_f64_def)
  have "fl 10000 = Fin 10000" by (simp add: f64_eval)
  then show ?thesis
    using buy_never_overdraws [OF l', of 10000] l' is64_fl [of 10000] by (simp add: l)
qed

section \<open>Runs of the ledger\<close>

text \<open>
  The mutations the venue performs, as a sequence: an operation that returns an error leaves the
  ledger as it was.
\<close>

datatype (plugins only: code size) ledger_op =
    LBuy gostring gostring gostring gostring bool f64 f64
  | LSell gostring f64 f64
  | LRedeem gostring f64

fun op_token :: "ledger_op \<Rightarrow> gostring" where
  "op_token (LBuy tok _ _ _ _ _ _) = tok"
| "op_token (LSell tok _ _) = tok"
| "op_token (LRedeem tok _) = tok"

fun op_finite :: "ledger_op \<Rightarrow> bool" where
  "op_finite (LBuy _ _ _ _ _ sh _) = (finite64 sh \<and> is64 sh)"
| "op_finite (LSell _ sh _) = finite64 sh"
| "op_finite (LRedeem _ _) = True"

fun ledger_step :: "ledger \<Rightarrow> ledger_op \<Rightarrow> ledger" where
  "ledger_step l (LBuy tok slug oc cid nr sh pr) = ok_or l (ApplyBuy l tok slug oc cid nr sh pr)"
| "ledger_step l (LSell tok sh pr) = (case ApplySell l tok sh pr of Inl _ \<Rightarrow> l | Inr (_, l') \<Rightarrow> l')"
| "ledger_step l (LRedeem tok pay) = (case RedeemPosition l tok pay of Inl _ \<Rightarrow> l | Inr (_, l') \<Rightarrow> l')"

lemma ledger_step_frame:
  "k \<noteq> op_token op \<Longrightarrow> map_of (l_byToken (ledger_step l op)) k = map_of (l_byToken l) k"
  by (cases op) (auto simp: ApplyBuy_def ApplySell_def RedeemPosition_def Let_def ok_or_def split: option.splits)

interpretation ledger_tokens: keyed_ops "\<lambda>l. map_of (l_byToken l)" ledger_step op_token
  by unfold_locales (rule ledger_step_frame)

lemma finite64_not_NaN: "finite64 x \<Longrightarrow> x \<noteq> NaN"
  by (auto simp: finite64_def)

lemma wf_ledger_step: "wf_ledger l \<Longrightarrow> op_finite op \<Longrightarrow> wf_ledger (ledger_step l op)"
  by (cases op) (auto simp: ok_or_def finite64_not_NaN split: sum.split prod.split
        intro: wf_ApplyBuy [OF _ finite64_not_NaN] wf_ApplySell wf_RedeemPosition)

interpretation ledger_wf: guarded_ops ledger_step wf_ledger op_finite
  by unfold_locales (rule wf_ledger_step)

text \<open>
  C17: whatever sequence of buys, sells and redemptions runs on a new account, accepted or
  refused, every entry of the book sits under its own token, holds a strictly positive number of
  shares, and no token has two entries; and a token no operation names is never in the book.
\<close>

theorem ledger_run_well_formed:
  assumes "list_all op_finite ops"
  shows "let l = foldl ledger_step (NewLedger cash) ops in
    distinct (map fst (l_byToken l)) \<and>
    (\<forall>(k, p) \<in> set (l_byToken l). pm_TokenID p = k \<and> 0 < pm_Shares p \<and> k \<in> op_token ` set ops)"
proof -
  let ?l = "foldl ledger_step (NewLedger cash) ops"
  have wf: "wf_ledger ?l" by (rule ledger_wf.run_inv [OF wf_NewLedger assms])
  have "k \<in> op_token ` set ops" if "(k, p) \<in> set (l_byToken ?l)" for k p
  proof (rule ledger_tokens.run_changes [where s = "NewLedger cash"])
    have "map_of (l_byToken ?l) k = Some p" using wf that by (auto simp: wf_ledger_def wf_map_in_set)
    then show "map_of (l_byToken ?l) k \<noteq> map_of (l_byToken (NewLedger cash)) k"
      by (simp add: NewLedger_def Let_def)
  qed
  then show ?thesis using wf by (fastforce simp: wf_ledger_def wf_map_def Let_def)
qed

theorem ledger_run_well_formed_witness:
  "let l = foldl ledger_step (NewLedger (fl 10)) [LBuy ''a'' '''' '''' '''' False 1 1, LSell ''b'' 1 1] in
    distinct (map fst (l_byToken l)) \<and>
    (\<forall>(k, p) \<in> set (l_byToken l). pm_TokenID p = k \<and> 0 < pm_Shares p \<and> k \<in> {''a'', ''b''})"
  using ledger_run_well_formed [of "[LBuy ''a'' '''' '''' '''' False 1 1, LSell ''b'' 1 1]" "fl 10"]
  by (simp add: finite64_1)

text \<open>
  buying a token that is not held and selling the same shares again restores the book of
  holdings, at whatever positive price the sell is done; only cash moves.
\<close>

theorem buy_sell_round_trip:
  assumes "ApplyBuy l tok slug oc cid nr shares price = Inr l1"
    and "map_of (l_byToken l) tok = None" and "shares = Fin r" "is64 shares" "0 < price'"
  shows "\<exists>pr l2. ApplySell l1 tok shares price' = Inr (pr, l2) \<and> l_byToken l2 = l_byToken l \<and>
           l_cash l2 = l_cash l - shares * price + shares * price'"
proof -
  note l1 = ApplyBuy_Inr [OF assms(1)]
  have "(0 :: f64) + shares = shares" using assms(3,4) by (simp add: zero_f64_def fl_exact)
  moreover have "shares - shares \<le> eps9" using assms(3) f64_less_imp_le [OF eps9_pos] by (simp add: minus_f64_def)
  moreover have "0 \<le> shares" using l1(1) assms(3) by (auto simp: f64_not_le zero_f64_def)
  then have "\<not> shares + eps9 < shares"
    using assms(3,4) f64_le_plus [of shares eps9] f64_less_imp_le [OF eps9_pos] by (auto dest: f64_less_not_le)
  moreover have "\<not> price' \<le> 0" using assms(5) by (rule f64_less_not_le)
  ultimately show ?thesis using l1(1) assms(2)
    by (simp add: ApplySell_def Let_def l1(4) mdel_mput_new)
qed

theorem buy_sell_round_trip_witness:
  "\<exists>l1 pr l2. ApplyBuy (NewLedger 0) ''tok'' ''m'' ''YES'' ''c'' False (fl 100) (fl (1 / 2)) = Inr l1 \<and>
     l_byToken l1 \<noteq> [] \<and> ApplySell l1 ''tok'' (fl 100) (fl (3 / 4)) = Inr (pr, l2) \<and> l_byToken l2 = []"
proof -
  have l: "NewLedger 0 = \<lparr>l_cash = fl 10000, l_initial = fl 10000, l_byToken = []\<rparr>"
    using f64_refl [of 0] by (simp add: NewLedger_def sim_default_balance_def Let_def)
  obtain l1 where l1: "ApplyBuy (NewLedger 0) ''tok'' ''m'' ''YES'' ''c'' False (fl 100) (fl (1 / 2)) = Inr l1"
      "l_byToken l1 \<noteq> []"
    unfolding l by (simp add: ApplyBuy_def Let_def eps9_def f64_eval zero_f64_def mput_def)
  have "fl 100 = Fin 100" "(0 :: f64) < fl (3 / 4)" by (simp_all add: f64_eval zero_f64_def)
  then show ?thesis
    using buy_sell_round_trip [OF l1(1), of 100 "fl (3 / 4)"] l1 is64_fl [of 100] by (auto simp: l)
qed

end
