(* ===== verification/Sim_Fill.thy ===== *)
theory Sim_Fill
  imports Pred_Types
begin

text \<open>
  \<open>prediction/sim/fill.go\<close> and \<open>prediction/sim/config.go\<close>: at what price and for how many
  shares the simulated venue fills a limit order against a live order book.  A \<open>nil\<close> book is
  \<open>None\<close>; an error is the message's constructor.
\<close>

section \<open>Configuration\<close>

record sim_config =
  sc_InitialBalanceUsd :: f64
  sc_FillModel :: gostring
  sc_SlippageBps :: int

definition FillModelLimitCross :: gostring where "FillModelLimitCross = ''limit_cross''"

definition FillModelMidInstant :: gostring where "FillModelMidInstant = ''mid_instant''"

definition SimDefaultConfig :: sim_config where
  "SimDefaultConfig = \<lparr>sc_InitialBalanceUsd = fl 10000, sc_FillModel = FillModelLimitCross, sc_SlippageBps = 0\<rparr>"

record fill_quote =
  fq_FillPrice :: f64
  fq_FillShares :: f64

definition fill_eps :: f64 where
  "fill_eps = fl (1 / 1000000000)"

section \<open>Fills\<close>

definition applySlippage :: "f64 \<Rightarrow> int \<Rightarrow> int \<Rightarrow> f64" where
  "applySlippage price direction bps =
     (if bps \<le> 0 \<or> price \<le> 0 then price
      else let adj = of_go_int bps / fl 10000 in
        if direction > 0 then price * (1 + adj) else price * (1 - adj))"

definition cap_shares :: "f64 \<Rightarrow> f64 \<Rightarrow> f64" where
  "cap_shares sz reqShares = (if sz > 0 \<and> sz < reqShares then sz else reqShares)"

definition fillLimitCross ::
  "sim_config \<Rightarrow> gostring \<Rightarrow> f64 \<Rightarrow> f64 \<Rightarrow> order_book option \<Rightarrow> venue_err + fill_quote" where
  "fillLimitCross cfg side limitPrice reqShares book =
     (case book of None \<Rightarrow> Inl BookUnavailable | Some b \<Rightarrow>
       let bps = sc_SlippageBps cfg in
       if side = ''BUY'' then
         (if ob_Asks b \<noteq> [] \<and> lv_Price (hd (ob_Asks b)) \<le> limitPrice + fill_eps then
            Inr \<lparr>fq_FillPrice = applySlippage (lv_Price (hd (ob_Asks b))) 1 bps,
                 fq_FillShares = cap_shares (lv_Size (hd (ob_Asks b))) reqShares\<rparr>
          else if ob_Mid b > 0 \<and> limitPrice \<ge> ob_Mid b - fill_eps then
            Inr \<lparr>fq_FillPrice = applySlippage (ob_Mid b) 1 bps, fq_FillShares = reqShares\<rparr>
          else Inl (BuyDoesNotCross limitPrice))
       else
         (if ob_Bids b \<noteq> [] \<and> lv_Price (hd (ob_Bids b)) \<ge> limitPrice - fill_eps then
            Inr \<lparr>fq_FillPrice = applySlippage (lv_Price (hd (ob_Bids b))) (- 1) bps,
                 fq_FillShares = cap_shares (lv_Size (hd (ob_Bids b))) reqShares\<rparr>
          else if ob_Mid b > 0 \<and> limitPrice \<le> ob_Mid b + fill_eps then
            Inr \<lparr>fq_FillPrice = applySlippage (ob_Mid b) (- 1) bps, fq_FillShares = reqShares\<rparr>
          else Inl (SellDoesNotCross limitPrice)))"

definition fillAtMid ::
  "sim_config \<Rightarrow> gostring \<Rightarrow> f64 \<Rightarrow> f64 \<Rightarrow> order_book option \<Rightarrow> venue_err + fill_quote" where
  "fillAtMid cfg side limitPrice reqShares book =
     (case book of None \<Rightarrow> Inl MidUnavailable | Some b \<Rightarrow>
       if ob_Mid b \<le> 0 then Inl MidUnavailable
       else if side = ''BUY'' \<and> limitPrice + fill_eps < ob_Mid b then Inl (BuyBelowMid limitPrice (ob_Mid b))
       else if side = ''SELL'' \<and> limitPrice > ob_Mid b + fill_eps then Inl (SellAboveMid limitPrice (ob_Mid b))
       else let dir = (if side = ''SELL'' then - 1 else 1) in
         Inr \<lparr>fq_FillPrice = applySlippage (ob_Mid b) dir (sc_SlippageBps cfg), fq_FillShares = reqShares\<rparr>)"

definition simulateFill ::
  "sim_config \<Rightarrow> gostring \<Rightarrow> f64 \<Rightarrow> f64 \<Rightarrow> order_book option \<Rightarrow> venue_err + fill_quote" where
  "simulateFill cfg side0 limitPrice reqShares book =
     (if limitPrice \<le> 0 \<or> reqShares \<le> 0 then Inl InvalidOrder
      else
        let side = to_upper (trim_space side0);
            model = (if sc_FillModel cfg = '''' then FillModelLimitCross else sc_FillModel cfg)
        in if model = FillModelMidInstant then fillAtMid cfg side limitPrice reqShares book
           else fillLimitCross cfg side limitPrice reqShares book)"

section \<open>Lemmas\<close>

lemma cap_shares_le: "reqShares \<noteq> NaN \<Longrightarrow> cap_shares sz reqShares \<le> reqShares"
  by (auto simp: cap_shares_def f64_less_imp_le f64_refl)

lemma applySlippage_none [simp]: "bps \<le> 0 \<Longrightarrow> applySlippage p d bps = p"
  by (simp add: applySlippage_def)

lemma fill_shares_le:
  "reqShares \<noteq> NaN \<Longrightarrow> simulateFill cfg side limit reqShares book = Inr q \<Longrightarrow> fq_FillShares q \<le> reqShares"
  by (auto simp: simulateFill_def fillLimitCross_def fillAtMid_def Let_def cap_shares_le f64_refl
        split: option.splits if_split_asm)

lemma fill_eps_Fin: obtains e where "fill_eps = Fin e" "0 < e" "e \<le> 1 / 999999999"
proof (rule that)
  show "fill_eps = Fin (rnd (1 / 1000000000))" unfolding fill_eps_def by (rule fl_moderate) simp
qed (simp_all add: f64_eval)

lemma rnd_within: "\<bar>x\<bar> \<le> 4 \<Longrightarrow> \<bar>rnd x - x\<bar> \<le> 1 / 2 ^ 50"
proof -
  assume "\<bar>x\<bar> \<le> 4"
  then have "\<bar>x\<bar> / 2 ^ 53 + 1 / 2 ^ 70 \<le> 4 / 2 ^ 53 + 1 / 2 ^ 70"
    by (intro add_right_mono divide_right_mono) auto
  also have "\<dots> \<le> (1 :: rat) / 2 ^ 50" by simp
  finally show ?thesis using rnd_err_moderate [of x] by (rule order_trans [rotated])
qed

lemma Fin_add_eps:
  assumes "fill_eps = Fin e" "0 < e" "e \<le> 1 / 999999999" "\<bar>r\<bar> \<le> 2"
  shows "\<exists>s. Fin r + fill_eps = Fin s \<and> \<bar>s - (r + e)\<bar> \<le> 1 / 2 ^ 50"
    and "\<exists>s. Fin r - fill_eps = Fin s \<and> \<bar>s - (r - e)\<bar> \<le> 1 / 2 ^ 50"
proof -
  have "\<bar>r + e\<bar> \<le> 4" "\<bar>r - e\<bar> \<le> 4" using assms by auto
  then show "\<exists>s. Fin r + fill_eps = Fin s \<and> \<bar>s - (r + e)\<bar> \<le> 1 / 2 ^ 50"
    "\<exists>s. Fin r - fill_eps = Fin s \<and> \<bar>s - (r - e)\<bar> \<le> 1 / 2 ^ 50"
    using rnd_within [of "r + e"] rnd_within [of "r - e"] fl_moderate [of "r + e"] fl_moderate [of "r - e"]
    by (simp_all add: assms(1) minus_f64_def)
qed

text \<open>The prices of a book that a probability market can quote.\<close>

definition book_prices :: "order_book \<Rightarrow> f64 list" where
  "book_prices b = ob_Mid b # map lv_Price (ob_Bids b @ ob_Asks b)"

definition unit_book :: "order_book \<Rightarrow> bool" where
  "unit_book b \<longleftrightarrow> list_all (\<lambda>p. case p of Fin r \<Rightarrow> 0 \<le> r \<and> r \<le> 1 | _ \<Rightarrow> False) (book_prices b)"

lemma fill_price_buy:
  assumes "simulateFill cfg side limit req book = Inr q" "sc_SlippageBps cfg \<le> 0"
    "to_upper (trim_space side) = ''BUY''"
  shows "\<exists>b. book = Some b \<and> fq_FillPrice q \<in> set (book_prices b) \<and>
    (fq_FillPrice q \<le> limit + fill_eps \<or> fq_FillPrice q - fill_eps \<le> limit \<or> \<not> limit + fill_eps < fq_FillPrice q)"
  using assms by (cases book) (auto simp: simulateFill_def fillLimitCross_def fillAtMid_def Let_def
      book_prices_def split: if_split_asm)

lemma fill_price_sell:
  assumes "simulateFill cfg side limit req book = Inr q" "sc_SlippageBps cfg \<le> 0"
    "to_upper (trim_space side) = ''SELL''"
  shows "\<exists>b. book = Some b \<and> fq_FillPrice q \<in> set (book_prices b) \<and>
    (limit - fill_eps \<le> fq_FillPrice q \<or> limit \<le> fq_FillPrice q + fill_eps \<or> \<not> fq_FillPrice q + fill_eps < limit)"
  using assms by (cases book) (auto simp: simulateFill_def fillLimitCross_def fillAtMid_def Let_def
      book_prices_def split: if_split_asm)

lemma price_test:
  assumes p: "0 \<le> p" "p \<le> 1" and L: "0 \<le> L" "L \<le> 1"
    and t: "Fin p \<le> Fin L + fill_eps \<or> Fin p - fill_eps \<le> Fin L \<or> \<not> Fin L + fill_eps < Fin p"
  shows "p \<le> L + 2 / 1000000000"
proof -
  obtain e where e: "fill_eps = Fin e" "0 < e" "e \<le> 1 / 999999999" by (rule fill_eps_Fin)
  obtain s where s: "Fin L + fill_eps = Fin s" "\<bar>s - (L + e)\<bar> \<le> 1 / 2 ^ 50"
    using Fin_add_eps(1) [OF e, of L] L by auto
  obtain u where u: "Fin p - fill_eps = Fin u" "\<bar>u - (p - e)\<bar> \<le> 1 / 2 ^ 50"
    using Fin_add_eps(2) [OF e, of p] p by auto
  have "s \<le> L + 2 / 1000000000" "p - 2 / 1000000000 \<le> u"
    using abs_le_D1 [OF s(2)] abs_le_D2 [OF u(2)] e by auto
  then show ?thesis using t by (auto simp: s(1) u(1))
qed

text \<open>
  with no slippage configured, a simulated fill honours the order: on a book quoted in
  [0, 1] a BUY fills at most two billionths above the limit, a SELL at most two billionths
  below it, the price is one the book shows, and no more shares fill than were asked for.
\<close>

theorem fill_respects_limit:
  assumes fill: "simulateFill cfg side (Fin L) req (Some b) = Inr q" and bps: "sc_SlippageBps cfg \<le> 0"
    and L: "0 < L" "L \<le> 1" and book: "unit_book b" and req: "req \<noteq> NaN"
  shows "\<exists>p. fq_FillPrice q = Fin p \<and> fq_FillShares q \<le> req \<and>
     (to_upper (trim_space side) = ''BUY'' \<longrightarrow> p \<le> L + 2 / 1000000000) \<and>
     (to_upper (trim_space side) = ''SELL'' \<longrightarrow> L - 2 / 1000000000 \<le> p)"
proof -
  have "fq_FillPrice q \<in> set (book_prices b)"
    using fill bps by (auto simp: simulateFill_def fillLimitCross_def fillAtMid_def Let_def
        book_prices_def split: if_split_asm)
  then have "case fq_FillPrice q of Fin r \<Rightarrow> 0 \<le> r \<and> r \<le> 1 | _ \<Rightarrow> False"
    using book by (simp only: unit_book_def list_all_iff)
  then obtain p where p: "fq_FillPrice q = Fin p" "0 \<le> p" "p \<le> 1"
    by (cases "fq_FillPrice q") auto
  have "p \<le> L + 2 / 1000000000" if "to_upper (trim_space side) = ''BUY''"
    using fill_price_buy [OF fill bps that] p L by (intro price_test) auto
  moreover have "L \<le> p + 2 / 1000000000" if "to_upper (trim_space side) = ''SELL''"
  proof (rule ccontr)
    assume "\<not> ?thesis"
    then show False using price_test [of L p] fill_price_sell [OF fill bps that] p L by auto
  qed
  ultimately show ?thesis using p fill_shares_le [OF req fill] by auto
qed

definition ex_book :: order_book where
  "ex_book = \<lparr>ob_TokenID = ''tok'', ob_Bids = [\<lparr>lv_Price = fl (48 / 100), lv_Size = fl 10\<rparr>],
     ob_Asks = [\<lparr>lv_Price = fl (1 / 2), lv_Size = fl 40\<rparr>], ob_Mid = fl (49 / 100)\<rparr>"

lemma unit_ex_book: "unit_book ex_book"
  by (simp add: unit_book_def book_prices_def ex_book_def f64_eval)

theorem fill_respects_limit_witness:
  "\<exists>q. simulateFill SimDefaultConfig '' buy'' (Fin (1 / 2)) (fl 100) (Some ex_book) = Inr q \<and>
     fq_FillShares q = fl 40 \<and> (\<exists>p. fq_FillPrice q = Fin p \<and> p \<le> 1 / 2 + 2 / 1000000000)"
proof -
  have side: "to_upper (trim_space '' buy'') = ''BUY''" by code_simp
  obtain q where q: "simulateFill SimDefaultConfig '' buy'' (Fin (1 / 2)) (fl 100) (Some ex_book) = Inr q"
      "fq_FillShares q = fl 40"
    by (simp add: simulateFill_def side fillLimitCross_def SimDefaultConfig_def ex_book_def Let_def
        FillModelLimitCross_def FillModelMidInstant_def fill_eps_def cap_shares_def f64_eval zero_f64_def)
  show ?thesis using fill_respects_limit [OF q(1)] q side unit_ex_book by (auto simp: SimDefaultConfig_def)
qed

text \<open>
  slippage is applied after the limit test: with 100 basis points configured, an order
  limited to 0.50 against an ask of 0.50 fills at 0.505, above its own limit.
\<close>

theorem slippage_exceeds_limit:
  "\<exists>q. simulateFill (SimDefaultConfig\<lparr>sc_SlippageBps := 100\<rparr>) ''BUY'' (fl (1 / 2)) (fl 10) (Some ex_book) = Inr q \<and>
     fl (1 / 2) + fl (4 / 1000) < fq_FillPrice q"
proof -
  have side: "to_upper (trim_space ''BUY'') = ''BUY''" by code_simp
  show ?thesis
    by (simp add: simulateFill_def side fillLimitCross_def SimDefaultConfig_def ex_book_def Let_def
        FillModelLimitCross_def FillModelMidInstant_def fill_eps_def cap_shares_def applySlippage_def
        f64_eval zero_f64_def one_f64_def)
qed

end
