(* ===== verification/Sim_Venue.thy ===== *)
theory Sim_Venue
  imports Sim_Ledger Sim_Fill
begin

text \<open>
  \<open>prediction/sim/venue.go\<close> and the recording half of \<open>prediction/sim/persist.go\<close>: the
  simulated venue, which prices orders against live market data and settles them on the ledger.

  The live data come from a \<open>MarketReader\<close>, an interface this package only calls: it is the
  argument \<open>mr\<close> of every operation, a record of functions that may answer anything.  What the
  venue hands to its database (fill rows and saved ledgers) is appended to \<open>sv_trace\<close> in call
  order; the errors of those calls are dropped by the code.  \<open>now\<close> is the clock, \<open>rng\<close> the order
  in which a loop visits the ledger's map.
\<close>

section \<open>State\<close>

record market_reader =
  mr_GetMarketBySlug :: "gostring \<Rightarrow> perr + market option"
  mr_SearchMarkets :: "market_filter \<Rightarrow> perr + market list"
  mr_GetOrderBook :: "gostring \<Rightarrow> perr + order_book option"
  mr_GetMidPrice :: "gostring \<Rightarrow> perr + f64"

record stored_order =
  so_OrderID :: gostring
  so_TokenID :: gostring
  so_Side :: gostring
  so_Price :: f64
  so_OriginalSize :: f64
  so_SizeMatched :: f64
  so_Status :: gostring
  so_Terminal :: bool
  so_FilledUsd :: f64

record sim_fill =
  sf_OrderID :: gostring
  sf_TokenID :: gostring
  sf_MarketSlug :: gostring
  sf_Outcome :: gostring
  sf_Side :: gostring
  sf_FillPrice :: f64
  sf_FillShares :: f64
  sf_FillUsd :: f64
  sf_CycleNumber :: int
  sf_DecisionAction :: gostring
  sf_Reasoning :: gostring
  sf_Timestamp :: int

record sim_snapshot =
  ss_CycleNumber :: int
  ss_CashUsdc :: f64
  ss_PositionValue :: f64
  ss_TotalEquity :: f64
  ss_TotalPnl :: f64
  ss_TotalPnlPct :: f64
  ss_OpenPositions :: int
  ss_Timestamp :: int

datatype (plugins only: code size) sim_effect =
  SaveSimFill sim_fill | SaveLedger ledger | SaveSimSnapshot sim_snapshot

record sim_venue =
  sv_cfg :: sim_config
  sv_ledger :: ledger
  sv_bound :: bool
  sv_orders :: "(gostring, stored_order) gomap"
  sv_seq :: int
  sv_trace :: "sim_effect list"

definition NewVenue :: "sim_config \<Rightarrow> ledger option \<Rightarrow> sim_venue" where
  "NewVenue cfg0 led =
     (let cfg = (if sc_InitialBalanceUsd cfg0 \<le> 0
                 then cfg0\<lparr>sc_InitialBalanceUsd := sc_InitialBalanceUsd SimDefaultConfig\<rparr> else cfg0);
          cfg = (if sc_FillModel cfg = '''' then cfg\<lparr>sc_FillModel := FillModelLimitCross\<rparr> else cfg);
          l = (case led of None \<Rightarrow> NewLedger (sc_InitialBalanceUsd cfg) | Some l \<Rightarrow> l)
      in \<lparr>sv_cfg = cfg, sv_ledger = l, sv_bound = False, sv_orders = [], sv_seq = 0, sv_trace = []\<rparr>)"

text \<open>\<open>BindStore\<close>: a nil store or an empty trader id leaves the venue unbound.\<close>

definition BindStore :: "bool \<Rightarrow> gostring \<Rightarrow> sim_venue \<Rightarrow> sim_venue" where
  "BindStore has_store traderID v =
     (if \<not> has_store \<or> traderID = '''' then v else v\<lparr>sv_bound := True\<rparr>)"

definition recordFill :: "sim_fill \<Rightarrow> sim_venue \<Rightarrow> sim_venue" where
  "recordFill f v = (if \<not> sv_bound v then v else v\<lparr>sv_trace := sv_trace v @ [SaveSimFill f]\<rparr>)"

definition persist :: "sim_venue \<Rightarrow> sim_venue" where
  "persist v = (if sv_bound v then v\<lparr>sv_trace := sv_trace v @ [SaveLedger (sv_ledger v)]\<rparr> else v)"

section \<open>Reading\<close>

fun mids_of :: "market_reader \<Rightarrow> (gostring, f64) gomap \<Rightarrow> position_meta list \<Rightarrow> (gostring, f64) gomap" where
  "mids_of mr mids [] = mids"
| "mids_of mr mids (p # ps) =
     (if pm_TokenID p = '''' then mids_of mr mids ps
      else case mr_GetMidPrice mr (pm_TokenID p) of
        Inl _ \<Rightarrow> mids_of mr mids ps
      | Inr mid \<Rightarrow> if mid > 0 then mids_of mr (mput (pm_TokenID p) mid mids) ps else mids_of mr mids ps)"

definition fetchMids :: "token_range \<Rightarrow> market_reader \<Rightarrow> sim_venue \<Rightarrow> (gostring, f64) gomap" where
  "fetchMids rng mr v = mids_of mr [] (Positions rng (sv_ledger v))"

definition GetCollateral :: "token_range \<Rightarrow> token_range \<Rightarrow> market_reader \<Rightarrow> sim_venue \<Rightarrow> f64 \<times> f64" where
  "GetCollateral rng rng' mr v = MarkEquity rng' (sv_ledger v) (fetchMids rng mr v)"

definition GetOutcomePositions ::
  "token_range \<Rightarrow> token_range \<Rightarrow> market_reader \<Rightarrow> sim_venue \<Rightarrow> outcome_position list" where
  "GetOutcomePositions rng rng' mr v = OutcomePositions rng' (sv_ledger v) (fetchMids rng mr v)"

definition resolveTokenMeta ::
  "market_reader \<Rightarrow> sim_venue \<Rightarrow> limit_order_req \<Rightarrow> gostring \<times> gostring \<times> gostring \<times> bool" where
  "resolveTokenMeta mr v req =
     (let slug = lr_MarketSlug req; outcome = lr_Outcome req;
          (outcome, conditionID, negRisk) =
            (if slug \<noteq> '''' then
               (case mr_GetMarketBySlug mr slug of
                  Inr (Some m) \<Rightarrow>
                    (if outcome = '''' then
                       (if lr_TokenID req = m_YesTokenID m then ''YES''
                        else if lr_TokenID req = m_NoTokenID m then ''NO'' else '''')
                     else outcome, m_ConditionID m, m_NegRisk m)
                | _ \<Rightarrow> (outcome, '''', False))
             else (outcome, '''', False))
      in case LedgerPosition (sv_ledger v) (lr_TokenID req) of
           Some p \<Rightarrow> (if slug = '''' then pm_MarketSlug p else slug,
                      if outcome = '''' then pm_Outcome p else outcome,
                      if conditionID = '''' then pm_ConditionID p else conditionID,
                      pm_NegRisk p)
         | None \<Rightarrow> (slug, outcome, conditionID, negRisk))"

section \<open>Orders\<close>

definition rejected :: "perr \<Rightarrow> order_result" where
  "rejected e = empty_order_result\<lparr>or_Status := ''rejected'', or_Error := Some e\<rparr>"

definition sim_order_id :: "int \<Rightarrow> gostring" where
  "sim_order_id n = ''sim-'' @ itoa n"

text \<open>The ledger operation of an order that fills, and the bookkeeping once it is accepted.\<close>

definition settle ::
  "ledger \<Rightarrow> limit_order_req \<Rightarrow> gostring \<times> gostring \<times> gostring \<times> bool \<Rightarrow> f64 \<Rightarrow> f64 \<Rightarrow> ledger_err + ledger" where
  "settle l req meta shares price =
     (let (slug, outcome, conditionID, negRisk) = meta;
          negRisk = (if lr_NegRisk req then True else negRisk)
      in if to_upper (trim_space (lr_Side req)) = ''BUY''
         then ApplyBuy l (lr_TokenID req) slug outcome conditionID negRisk shares price
         else case ApplySell l (lr_TokenID req) shares price of Inl e \<Rightarrow> Inl e | Inr (_, l') \<Rightarrow> Inr l')"

definition order_filled ::
  "int \<Rightarrow> limit_order_req \<Rightarrow> gostring \<Rightarrow> gostring \<Rightarrow> f64 \<Rightarrow> f64 \<Rightarrow> ledger \<Rightarrow> sim_venue \<Rightarrow> order_result \<times> sim_venue" where
  "order_filled now req slug outcome shares price l v =
     (let filledUsd = shares * price;
          side = to_upper (trim_space (lr_Side req));
          n = sv_seq v + 1;
          oid = sim_order_id n;
          order = \<lparr>so_OrderID = oid, so_TokenID = lr_TokenID req, so_Side = side, so_Price = price,
            so_OriginalSize = lr_Size req, so_SizeMatched = shares, so_Status = ''matched'',
            so_Terminal = True, so_FilledUsd = filledUsd\<rparr>;
          v = v\<lparr>sv_ledger := l, sv_seq := n, sv_orders := mput oid order (sv_orders v)\<rparr>;
          v = recordFill \<lparr>sf_OrderID = oid, sf_TokenID = lr_TokenID req, sf_MarketSlug = slug,
            sf_Outcome = outcome, sf_Side = side, sf_FillPrice = price, sf_FillShares = shares,
            sf_FillUsd = filledUsd, sf_CycleNumber = lr_CycleNumber req,
            sf_DecisionAction = lr_DecisionAction req, sf_Reasoning = lr_Reasoning req,
            sf_Timestamp = now\<rparr> v
      in (empty_order_result\<lparr>or_OrderID := oid, or_FilledShares := shares,
            or_FilledUsd := filledUsd, or_Status := ''matched''\<rparr>, persist v))"

definition PlaceLimitOrder ::
  "int \<Rightarrow> market_reader \<Rightarrow> sim_venue \<Rightarrow> limit_order_req \<Rightarrow> (perr + order_result) \<times> sim_venue" where
  "PlaceLimitOrder now mr v req =
     (if lr_TokenID req = '''' then (Inl (VenueErr EmptyTokenID), v)
      else if lr_Price req \<le> 0 \<or> lr_Size req \<le> 0 then (Inl (VenueErr InvalidOrder), v)
      else case mr_GetOrderBook mr (lr_TokenID req) of
        Inl e \<Rightarrow> (Inl (OrderBookErr e), v)
      | Inr book \<Rightarrow>
       (case simulateFill (sv_cfg v) (lr_Side req) (lr_Price req) (lr_Size req) book of
          Inl e \<Rightarrow> (Inr (rejected (VenueErr e)), v)
        | Inr quote \<Rightarrow>
            let meta = resolveTokenMeta mr v req in
            (case settle (sv_ledger v) req meta (fq_FillShares quote) (fq_FillPrice quote) of
               Inl e \<Rightarrow> (Inr (rejected (LedgerErr e)), v)
             | Inr l \<Rightarrow>
                 let (r, v') = order_filled now req (fst meta) (fst (snd meta))
                                 (fq_FillShares quote) (fq_FillPrice quote) l v
                 in (Inr r, v'))))"

definition CancelOrder :: "sim_venue \<Rightarrow> gostring \<Rightarrow> (perr + unit) \<times> sim_venue" where
  "CancelOrder v orderID =
     (if orderID = '''' then (Inl (VenueErr EmptyOrderID), v)
      else case map_of (sv_orders v) orderID of
        None \<Rightarrow> (Inr (), v)
      | Some ord \<Rightarrow>
          if so_Terminal ord then (Inr (), v)
          else (Inr (), v\<lparr>sv_orders := mput orderID (ord\<lparr>so_Status := ''cancelled'', so_Terminal := True\<rparr>) (sv_orders v)\<rparr>))"

definition GetOrderStatus :: "sim_venue \<Rightarrow> gostring \<Rightarrow> perr + order_status" where
  "GetOrderStatus v orderID =
     (if orderID = '''' then Inl (VenueErr EmptyOrderID)
      else case map_of (sv_orders v) orderID of
        None \<Rightarrow> Inr \<lparr>os_OrderID = orderID, os_SizeMatched = 0, os_OriginalSize = 0,
                     os_Status = ''unknown'', os_Terminal = False\<rparr>
      | Some ord \<Rightarrow> Inr \<lparr>os_OrderID = so_OrderID ord, os_SizeMatched = so_SizeMatched ord,
                     os_OriginalSize = so_OriginalSize ord, os_Status = so_Status ord, os_Terminal = so_Terminal ord\<rparr>)"

definition venue_order_of :: "stored_order \<Rightarrow> venue_order" where
  "venue_order_of ord = \<lparr>vo_OrderID = so_OrderID ord, vo_TokenID = so_TokenID ord, vo_MarketID = '''', vo_Side = so_Side ord,
     vo_Price = so_Price ord, vo_OriginalSize = so_OriginalSize ord, vo_SizeMatched = so_SizeMatched ord,
     vo_Status = so_Status ord, vo_CreatedAt = ''''\<rparr>"

definition ListOpenOrders ::
  "((gostring \<times> stored_order) list \<Rightarrow> (gostring \<times> stored_order) list) \<Rightarrow> sim_venue \<Rightarrow> venue_order list" where
  "ListOpenOrders rng v =
     map venue_order_of (filter (\<lambda>ord. \<not> so_Terminal ord) (map snd (rng (sv_orders v))))"

section \<open>Redemption\<close>

definition simPayoutForPosition :: "market_reader \<Rightarrow> market \<Rightarrow> gostring \<Rightarrow> gostring \<Rightarrow> f64" where
  "simPayoutForPosition mr m outcome tokenID =
     (case PayoutPerShare m outcome of
        (payout, True) \<Rightarrow> payout
      | (_, False) \<Rightarrow>
         (case mr_GetMidPrice mr tokenID of
            Inl _ \<Rightarrow> 0
          | Inr mid \<Rightarrow> if mid \<ge> fl (95 / 100) then 1 else 0))"

definition simPositionWon :: "market_reader \<Rightarrow> market \<Rightarrow> gostring \<Rightarrow> gostring \<Rightarrow> bool" where
  "simPositionWon mr m outcome tokenID \<longleftrightarrow> simPayoutForPosition mr m outcome tokenID > 0"

definition sim_redeemable :: "market_reader \<Rightarrow> position_meta \<Rightarrow> bool" where
  "sim_redeemable mr p \<longleftrightarrow> \<not> (pm_MarketSlug p = '''' \<or> pm_Shares p \<le> 0) \<and>
     (case mr_GetMarketBySlug mr (pm_MarketSlug p) of
        Inr (Some m) \<Rightarrow> m_Closed m \<and> simPositionWon mr m (pm_Outcome p) (pm_TokenID p)
      | _ \<Rightarrow> False)"

definition FindRedeemablePositions :: "token_range \<Rightarrow> market_reader \<Rightarrow> sim_venue \<Rightarrow> redeemable_position list" where
  "FindRedeemablePositions rng mr v =
     map (\<lambda>p. \<lparr>rp_ConditionID = pm_ConditionID p, rp_MarketSlug = pm_MarketSlug p, rp_Outcome = pm_Outcome p,
               rp_Shares = pm_Shares p, rp_NegRisk = pm_NegRisk p\<rparr>)
       (filter (sim_redeemable mr) (Positions rng (sv_ledger v)))"

text \<open>The payout of one position in \<open>RedeemCondition\<close>; the error is the mid price's.\<close>

definition redeem_payout :: "market_reader \<Rightarrow> position_meta \<Rightarrow> perr + f64" where
  "redeem_payout mr p =
     (case mr_GetMarketBySlug mr (pm_MarketSlug p) of
        Inr (Some m) \<Rightarrow> Inr (simPayoutForPosition mr m (pm_Outcome p) (pm_TokenID p))
      | _ \<Rightarrow> (case mr_GetMidPrice mr (pm_TokenID p) of
                Inl e \<Rightarrow> Inl e
              | Inr mid \<Rightarrow> Inr (if mid \<ge> fl (95 / 100) then 1 else 0)))"

definition redeem_id :: "int \<Rightarrow> gostring" where
  "redeem_id now = ''sim-redeem-'' @ itoa (now div 1000000)"

definition redeem_one ::
  "int \<Rightarrow> int \<Rightarrow> market_reader \<Rightarrow> sim_venue \<Rightarrow> gostring \<Rightarrow> position_meta \<Rightarrow> (perr + redeem_result) \<times> sim_venue" where
  "redeem_one now now' mr v conditionID p =
     (case redeem_payout mr p of
        Inl e \<Rightarrow> (Inl e, v)
      | Inr payout \<Rightarrow>
         (case RedeemPosition (sv_ledger v) (pm_TokenID p) payout of
            Inl e \<Rightarrow> (Inl (LedgerErr e), v)
          | Inr (usd, l) \<Rightarrow>
              let v = recordFill \<lparr>sf_OrderID = redeem_id now, sf_TokenID = pm_TokenID p,
                        sf_MarketSlug = pm_MarketSlug p, sf_Outcome = pm_Outcome p, sf_Side = ''REDEEM'',
                        sf_FillPrice = payout, sf_FillShares = pm_Shares p, sf_FillUsd = usd,
                        sf_CycleNumber = 0, sf_DecisionAction = ''redeem'', sf_Reasoning = '''',
                        sf_Timestamp = now\<rparr> (v\<lparr>sv_ledger := l\<rparr>)
              in (Inr \<lparr>rr_ConditionID = conditionID, rr_Status = ''success'', rr_TxHash = redeem_id now'\<rparr>, persist v)))"

text \<open>
  The loop runs its body for the first position of the condition and returns from it.  The
  argument \<open>negRisk\<close> of the Go method is not read.
\<close>

definition RedeemCondition ::
  "int \<Rightarrow> int \<Rightarrow> token_range \<Rightarrow> market_reader \<Rightarrow> sim_venue \<Rightarrow> gostring \<Rightarrow> bool \<Rightarrow> (perr + redeem_result) \<times> sim_venue" where
  "RedeemCondition now now' rng mr v conditionID negRisk =
     (if conditionID = '''' then (Inl (VenueErr EmptyConditionID), v)
      else case filter (\<lambda>p. \<not> (pm_ConditionID p \<noteq> conditionID \<or> pm_Shares p \<le> 0)) (Positions rng (sv_ledger v)) of
        [] \<Rightarrow> (Inl (VenueErr (NoRedeemablePosition conditionID)), v)
      | p # _ \<Rightarrow> redeem_one now now' mr v conditionID p)"

text \<open>\<open>RecordEquitySnapshot\<close> of \<open>persist.go\<close>.\<close>

definition RecordEquitySnapshot ::
  "int \<Rightarrow> token_range \<Rightarrow> token_range \<Rightarrow> market_reader \<Rightarrow> sim_venue \<Rightarrow> int \<Rightarrow> sim_venue" where
  "RecordEquitySnapshot now rng rng' mr v cycleNumber =
     (if \<not> sv_bound v then v
      else
        let (cash, equity) = GetCollateral rng rng' mr v;
            posValue = equity - cash;
            posValue = (if posValue < 0 then 0 else posValue);
            initial = l_initial (sv_ledger v);
            pnl = equity - initial;
            pnlPct = (if initial > 0 then (pnl / initial) * fl 100 else 0)
        in v\<lparr>sv_trace := sv_trace v @ [SaveSimSnapshot \<lparr>ss_CycleNumber = cycleNumber, ss_CashUsdc = cash,
              ss_PositionValue = posValue, ss_TotalEquity = equity, ss_TotalPnl = pnl,
              ss_TotalPnlPct = pnlPct, ss_OpenPositions = int (length (Positions rng (sv_ledger v))),
              ss_Timestamp = now\<rparr>]\<rparr>)"

section \<open>What one operation does\<close>

lemma recordFill_simps [simp]:
  "sv_ledger (recordFill f v) = sv_ledger v" "sv_orders (recordFill f v) = sv_orders v"
  "sv_seq (recordFill f v) = sv_seq v" "sv_bound (recordFill f v) = sv_bound v" "sv_cfg (recordFill f v) = sv_cfg v"
  "sv_trace (recordFill f v) = sv_trace v @ (if sv_bound v then [SaveSimFill f] else [])"
  by (simp_all add: recordFill_def)

lemma persist_simps [simp]:
  "sv_ledger (persist v) = sv_ledger v" "sv_orders (persist v) = sv_orders v"
  "sv_seq (persist v) = sv_seq v" "sv_bound (persist v) = sv_bound v" "sv_cfg (persist v) = sv_cfg v"
  "sv_trace (persist v) = sv_trace v @ (if sv_bound v then [SaveLedger (sv_ledger v)] else [])"
  by (simp_all add: persist_def)

lemma rejected_simps [simp]: "or_Status (rejected e) = ''rejected''" "or_Error (rejected e) = Some e"
  by (simp_all add: rejected_def)

lemma order_filled_simps:
  assumes "order_filled now req slug outcome shares price l v = (r, v')"
  shows "or_OrderID r = sim_order_id (sv_seq v + 1)" "or_Status r = ''matched''" "or_Error r = None"
    "or_FilledShares r = shares" "or_FilledUsd r = shares * price"
    "sv_ledger v' = l" "sv_seq v' = sv_seq v + 1" "sv_cfg v' = sv_cfg v" "sv_bound v' = sv_bound v"
    "sv_orders v' = mput (or_OrderID r)
       \<lparr>so_OrderID = or_OrderID r, so_TokenID = lr_TokenID req, so_Side = to_upper (trim_space (lr_Side req)),
        so_Price = price, so_OriginalSize = lr_Size req, so_SizeMatched = shares,
        so_Status = ''matched'', so_Terminal = True, so_FilledUsd = shares * price\<rparr> (sv_orders v)"
    "sv_trace v' = sv_trace v @ (if sv_bound v then
       [SaveSimFill \<lparr>sf_OrderID = or_OrderID r, sf_TokenID = lr_TokenID req, sf_MarketSlug = slug,
          sf_Outcome = outcome, sf_Side = to_upper (trim_space (lr_Side req)), sf_FillPrice = price,
          sf_FillShares = shares, sf_FillUsd = shares * price, sf_CycleNumber = lr_CycleNumber req,
          sf_DecisionAction = lr_DecisionAction req, sf_Reasoning = lr_Reasoning req, sf_Timestamp = now\<rparr>,
        SaveLedger l] else [])"
  using assms by (auto simp: order_filled_def Let_def empty_order_result_def)

text \<open>A placed order either settles and is booked as filled, or changes nothing.\<close>

lemma PlaceLimitOrder_cases:
  assumes "PlaceLimitOrder now mr v req = (res, v')"
  obtains (filled) r book q l where "res = Inr r" "mr_GetOrderBook mr (lr_TokenID req) = Inr book"
      "simulateFill (sv_cfg v) (lr_Side req) (lr_Price req) (lr_Size req) book = Inr q"
      "settle (sv_ledger v) req (resolveTokenMeta mr v req) (fq_FillShares q) (fq_FillPrice q) = Inr l"
      "order_filled now req (fst (resolveTokenMeta mr v req)) (fst (snd (resolveTokenMeta mr v req)))
         (fq_FillShares q) (fq_FillPrice q) l v = (r, v')"
    | (refused) e where "res = Inr (rejected e)" "v' = v"
    | (error) e where "res = Inl e" "v' = v"
proof (cases "lr_TokenID req = '''' \<or> lr_Price req \<le> 0 \<or> lr_Size req \<le> 0")
  case True
  then show ?thesis using assms error by (auto simp: PlaceLimitOrder_def split: if_splits)
next
  case ok: False
  note pl = assms [unfolded PlaceLimitOrder_def]
  show ?thesis
  proof (cases "mr_GetOrderBook mr (lr_TokenID req)")
    case (Inl e)
    then show ?thesis using pl ok error by auto
  next
    case book: (Inr book)
    show ?thesis
    proof (cases "simulateFill (sv_cfg v) (lr_Side req) (lr_Price req) (lr_Size req) book")
      case (Inl e)
      then show ?thesis using pl ok book refused by auto
    next
      case q: (Inr q)
      show ?thesis
      proof (cases "settle (sv_ledger v) req (resolveTokenMeta mr v req) (fq_FillShares q) (fq_FillPrice q)")
        case (Inl e)
        then show ?thesis using pl ok book q refused by (auto simp: Let_def)
      next
        case (Inr l)
        then show ?thesis using pl ok book q filled by (auto simp: Let_def split: prod.splits)
      qed
    qed
  qed
qed

lemma simPayout_01: "simPayoutForPosition mr m oc tok \<in> {0, 1}"
  using PayoutPerShare_range [of m oc]
  by (auto simp: simPayoutForPosition_def split: prod.splits bool.splits sum.splits)

lemma redeem_payout_01: "redeem_payout mr p = Inr payout \<Longrightarrow> payout = 0 \<or> payout = 1"
  using simPayout_01 by (auto simp: redeem_payout_def split: sum.splits option.splits if_splits)

lemma RedeemCondition_cases:
  assumes "RedeemCondition now now' rng mr v cid nr = (res, v')"
  obtains (paid) p payout usd l where "p \<in> set (Positions rng (sv_ledger v))" "pm_ConditionID p = cid" "cid \<noteq> ''''"
      "redeem_payout mr p = Inr payout" "payout = 0 \<or> payout = 1"
      "RedeemPosition (sv_ledger v) (pm_TokenID p) payout = Inr (usd, l)"
      "res = Inr \<lparr>rr_ConditionID = cid, rr_Status = ''success'', rr_TxHash = redeem_id now'\<rparr>"
      "sv_ledger v' = l" "sv_orders v' = sv_orders v" "sv_seq v' = sv_seq v" "sv_bound v' = sv_bound v"
      "sv_bound v \<Longrightarrow> \<exists>f. sv_trace v' = sv_trace v @ [SaveSimFill f, SaveLedger l]"
      "\<not> sv_bound v \<Longrightarrow> sv_trace v' = sv_trace v"
    | (failed) e where "res = Inl e" "v' = v"
proof (cases "filter (\<lambda>p. \<not> (pm_ConditionID p \<noteq> cid \<or> pm_Shares p \<le> 0)) (Positions rng (sv_ledger v))")
  case Nil
  then show ?thesis using assms failed by (auto simp: RedeemCondition_def split: if_splits)
next
  case (Cons p ps)
  then have p: "p \<in> set (Positions rng (sv_ledger v))" "pm_ConditionID p = cid"
    by (auto dest!: filter_eq_ConsD)
  show ?thesis
  proof (cases "cid = ''''")
    case True
    then show ?thesis using assms failed by (auto simp: RedeemCondition_def)
  next
    case False
    then have one: "redeem_one now now' mr v cid p = (res, v')" using assms Cons by (simp add: RedeemCondition_def)
    show ?thesis
    proof (cases "redeem_payout mr p")
      case (Inl e)
      then show ?thesis using one failed by (auto simp: redeem_one_def)
    next
      case pay: (Inr payout)
      show ?thesis
      proof (cases "RedeemPosition (sv_ledger v) (pm_TokenID p) payout")
        case (Inl e)
        then show ?thesis using one pay failed by (auto simp: redeem_one_def)
      next
        case (Inr ul)
        then show ?thesis using one pay
          by (cases ul) (rule paid [OF p False pay redeem_payout_01 [OF pay]]; force simp: redeem_one_def Let_def)
      qed
    qed
  qed
qed

section \<open>Runs of the venue\<close>

text \<open>The calls a trader makes, each with the market data and the clock it saw.\<close>

datatype (plugins only: code size) sim_op =
    SPlace int market_reader limit_order_req
  | SCancel gostring
  | SRedeem int int token_range market_reader gostring bool
  | SSnapshot int token_range token_range market_reader int

fun sim_step :: "sim_venue \<Rightarrow> sim_op \<Rightarrow> sim_venue" where
  "sim_step v (SPlace now mr req) = snd (PlaceLimitOrder now mr v req)"
| "sim_step v (SCancel oid) = snd (CancelOrder v oid)"
| "sim_step v (SRedeem now now' rng mr cid nr) = snd (RedeemCondition now now' rng mr v cid nr)"
| "sim_step v (SSnapshot now rng rng' mr n) = RecordEquitySnapshot now rng rng' mr v n"

text \<open>Every stored order is final and sits under its own id, one of those already handed out.\<close>

definition orders_final :: "sim_venue \<Rightarrow> bool" where
  "orders_final v \<longleftrightarrow> 0 \<le> sv_seq v \<and> wf_map (sv_orders v) \<and>
     (\<forall>(k, ord) \<in> set (sv_orders v). so_OrderID ord = k \<and> so_Terminal ord \<and> so_Status ord = ''matched'' \<and>
        (\<exists>n. 1 \<le> n \<and> n \<le> sv_seq v \<and> k = sim_order_id n))"

lemma sim_order_id_inject: "0 \<le> m \<Longrightarrow> 0 \<le> n \<Longrightarrow> sim_order_id m = sim_order_id n \<longleftrightarrow> m = n"
  by (simp add: sim_order_id_def itoa_inject)

lemma orders_final_fresh: "orders_final v \<Longrightarrow> map_of (sv_orders v) (sim_order_id (sv_seq v + 1)) = None"
  by (rule ccontr) (force simp: orders_final_def sim_order_id_inject dest!: map_of_SomeD)

lemma orders_final_place:
  assumes "orders_final v" shows "orders_final (snd (PlaceLimitOrder now mr v req))"
proof (cases "PlaceLimitOrder now mr v req" rule: prod.exhaust)
  case (Pair res v')
  then show ?thesis
  proof (cases rule: PlaceLimitOrder_cases)
    case (filled r book q l)
    note f = order_filled_simps [OF filled(5)]
    have "\<exists>n. 1 \<le> n \<and> n \<le> sv_seq v + 1 \<and> sim_order_id (sv_seq v + 1) = sim_order_id n"
      using assms by (intro exI [of _ "sv_seq v + 1"]) (simp add: orders_final_def)
    then show ?thesis using assms Pair f(1,7,10)
      by (fastforce simp: orders_final_def set_mput)
  qed (use assms Pair in simp_all)
qed

lemma orders_final_step: "orders_final v \<Longrightarrow> orders_final (sim_step v op)"
proof (cases op)
  case (SCancel oid)
  moreover assume "orders_final v"
  moreover have "so_Terminal ord" if "orders_final v" "map_of (sv_orders v) oid = Some ord" for ord
    using that by (auto simp: orders_final_def dest!: map_of_SomeD)
  ultimately show ?thesis by (auto simp: CancelOrder_def split: option.splits)
next
  case (SRedeem now now' rng mr cid nr)
  moreover assume "orders_final v"
  ultimately show ?thesis
    by (cases "RedeemCondition now now' rng mr v cid nr" rule: prod.exhaust)
      (auto simp: orders_final_def elim!: RedeemCondition_cases)
next
  case (SSnapshot now rng rng' mr n)
  moreover assume "orders_final v"
  ultimately show ?thesis by (simp add: RecordEquitySnapshot_def Let_def orders_final_def split: prod.splits)
qed (simp add: orders_final_place)

interpretation sim_orders: guarded_ops sim_step orders_final "\<lambda>_. True"
  by unfold_locales (rule orders_final_step)

lemma orders_final_New: "orders_final (NewVenue cfg led)"
  by (simp add: orders_final_def NewVenue_def Let_def)

lemma orders_final_Bind: "orders_final v \<Longrightarrow> orders_final (BindStore st tid v)"
  by (simp add: orders_final_def BindStore_def)

text \<open>
  the simulated venue never leaves an order open: whatever calls are made on it, every order
  it stores is already terminal, so \<open>ListOpenOrders\<close> is empty in any iteration order.
\<close>

theorem sim_run_no_open_orders:
  assumes "range_order rng"
  shows "ListOpenOrders rng (foldl sim_step (BindStore st tid (NewVenue cfg led)) ops) = []"
proof -
  let ?v = "foldl sim_step (BindStore st tid (NewVenue cfg led)) ops"
  have "orders_final ?v" by (intro sim_orders.run_inv orders_final_Bind orders_final_New) (simp add: list_all_iff)
  then show ?thesis using set_range_order [OF assms, of "sv_orders ?v"]
    by (auto simp: ListOpenOrders_def orders_final_def filter_empty_conv)
qed

theorem sim_run_no_open_orders_witness:
  "ListOpenOrders rev (foldl sim_step (BindStore True ''t'' (NewVenue SimDefaultConfig None)) [SCancel ''sim-1'']) = []"
  by (rule sim_run_no_open_orders [OF range_order_rev])

text \<open>
  an order the venue reports as matched gets an id no earlier order has, and asking for the
  status of that id afterwards gives back the shares that filled, as a final order.
\<close>

theorem matched_order_recorded:
  assumes place: "PlaceLimitOrder now mr (foldl sim_step (BindStore st tid (NewVenue cfg led)) ops) req = (Inr r, v')"
    and ok: "or_Status r = ''matched''"
  shows "map_of (sv_orders (foldl sim_step (BindStore st tid (NewVenue cfg led)) ops)) (or_OrderID r) = None \<and>
    GetOrderStatus v' (or_OrderID r) =
      Inr \<lparr>os_OrderID = or_OrderID r, os_SizeMatched = or_FilledShares r, os_OriginalSize = lr_Size req,
           os_Status = ''matched'', os_Terminal = True\<rparr>"
proof -
  let ?v = "foldl sim_step (BindStore st tid (NewVenue cfg led)) ops"
  have fin: "orders_final ?v" by (intro sim_orders.run_inv orders_final_Bind orders_final_New) (simp add: list_all_iff)
  from place show ?thesis
  proof (cases rule: PlaceLimitOrder_cases)
    case (filled r' book q l)
    note f = order_filled_simps [OF filled(5)]
    have "or_OrderID r' \<noteq> ''''" by (simp add: f(1) sim_order_id_def)
    then show ?thesis using filled(1) f(1,4,10) orders_final_fresh [OF fin] by (simp add: GetOrderStatus_def)
  qed (use ok in auto)
qed






text \<open>Live data for the examples: one book, one market.\<close>

definition ex_market :: market where
  "ex_market = \<lparr>m_Venue = ''polymarket'', m_ID = ''1'', m_Slug = ''rain'', m_Question = ''Rain?'',
     m_ConditionID = ''c1'', m_EndDate = None, m_Closed = False, m_NegRisk = False,
     m_YesTokenID = ''tok'', m_NoTokenID = ''tok2'', m_Volume24h = 0, m_Liquidity = 0,
     m_OutcomePrices = [fl (49 / 100), fl (51 / 100)]\<rparr>"

definition ex_reader :: market_reader where
  "ex_reader = \<lparr>mr_GetMarketBySlug = (\<lambda>_. Inr (Some ex_market)), mr_SearchMarkets = (\<lambda>_. Inr [ex_market]),
     mr_GetOrderBook = (\<lambda>_. Inr (Some ex_book)), mr_GetMidPrice = (\<lambda>_. Inr (fl (49 / 100)))\<rparr>"

definition ex_req :: limit_order_req where
  "ex_req = \<lparr>lr_TokenID = ''tok'', lr_Side = ''BUY'', lr_Price = fl (1 / 2), lr_Size = fl 100,
     lr_NegRisk = False, lr_MarketSlug = ''rain'', lr_Outcome = ''YES'', lr_CycleNumber = 1,
     lr_DecisionAction = ''buy_yes'', lr_Reasoning = ''''\<rparr>"

definition ex_venue :: sim_venue where
  "ex_venue = BindStore True ''t'' (NewVenue SimDefaultConfig None)"

lemma ex_side: "to_upper (trim_space ''BUY'') = ''BUY''"
  by code_simp

lemma ex_venue_eval: "ex_venue = \<lparr>sv_cfg = SimDefaultConfig,
   sv_ledger = \<lparr>l_cash = fl 10000, l_initial = fl 10000, l_byToken = []\<rparr>,
   sv_bound = True, sv_orders = [], sv_seq = 0, sv_trace = []\<rparr>"
proof -
  have "\<not> fl 10000 \<le> 0" by (simp add: f64_eval zero_f64_def)
  then show ?thesis by (simp add: ex_venue_def BindStore_def NewVenue_def NewLedger_def SimDefaultConfig_def
        FillModelLimitCross_def Let_def)
qed

lemma ex_fill: "simulateFill SimDefaultConfig ''BUY'' (fl (1 / 2)) (fl 100) (Some ex_book) =
    Inr \<lparr>fq_FillPrice = fl (1 / 2), fq_FillShares = fl 40\<rparr>"
  by (simp add: simulateFill_def ex_side fillLimitCross_def SimDefaultConfig_def ex_book_def Let_def
      FillModelLimitCross_def FillModelMidInstant_def fill_eps_def cap_shares_def f64_eval zero_f64_def)

lemma ex_place:
  obtains r v' where "PlaceLimitOrder 7 ex_reader ex_venue ex_req = (Inr r, v')" "or_Status r = ''matched''"
    "or_FilledShares r = fl 40" "or_FilledUsd r = fl 20" "or_OrderID r = ''sim-1''"
proof (cases "PlaceLimitOrder 7 ex_reader ex_venue ex_req" rule: prod.exhaust)
  case (Pair res v')
  have "\<exists>l. ApplyBuy (sv_ledger ex_venue) ''tok'' ''rain'' ''YES'' ''c1'' False (fl 40) (fl (1 / 2)) = Inr l"
    unfolding ex_venue_eval by (simp add: ApplyBuy_def Let_def eps9_def f64_eval zero_f64_def)
  then obtain l where l: "settle (sv_ledger ex_venue) ex_req (resolveTokenMeta ex_reader ex_venue ex_req)
      (fl 40) (fl (1 / 2)) = Inr l"
    by (auto simp: settle_def resolveTokenMeta_def ex_req_def ex_reader_def ex_market_def ex_side
        LedgerPosition_def ex_venue_eval)
  obtain r v where f: "order_filled 7 ex_req (fst (resolveTokenMeta ex_reader ex_venue ex_req))
      (fst (snd (resolveTokenMeta ex_reader ex_venue ex_req))) (fl 40) (fl (1 / 2)) l ex_venue = (r, v)"
    by (rule prod.exhaust)
  have q: "simulateFill (sv_cfg ex_venue) (lr_Side ex_req) (lr_Price ex_req) (lr_Size ex_req) (Some ex_book) =
      Inr \<lparr>fq_FillPrice = fl (1 / 2), fq_FillShares = fl 40\<rparr>"
    by (simp add: ex_fill ex_venue_eval ex_req_def)
  have pos: "\<not> (lr_Price ex_req \<le> 0 \<or> lr_Size ex_req \<le> 0)" "lr_TokenID ex_req \<noteq> ''''"
    by (simp_all add: ex_req_def f64_eval zero_f64_def)
  have "mr_GetOrderBook ex_reader (lr_TokenID ex_req) = Inr (Some ex_book)" by (simp add: ex_reader_def)
  then have pl: "PlaceLimitOrder 7 ex_reader ex_venue ex_req = (Inr r, v)"
    using pos q l f by (simp add: PlaceLimitOrder_def)
  have seq: "sv_seq ex_venue + 1 = 1" by (simp add: ex_venue_eval)
  have oid: "sim_order_id 1 = ''sim-1''" by code_simp
  have usd: "fl 40 * fl (1 / 2) = fl 20" by (simp add: f64_eval)
  note o = order_filled_simps(1,2,4,5) [OF f, unfolded seq oid usd]
  show ?thesis by (rule that [OF pl o(2,3,4,1)])
qed

theorem matched_order_recorded_witness:
  "\<exists>r v'. PlaceLimitOrder 7 ex_reader ex_venue ex_req = (Inr r, v') \<and> or_OrderID r = ''sim-1'' \<and>
     GetOrderStatus v' ''sim-1'' = Inr \<lparr>os_OrderID = ''sim-1'', os_SizeMatched = fl 40, os_OriginalSize = fl 100,
       os_Status = ''matched'', os_Terminal = True\<rparr>"
proof -
  obtain r v' where r: "PlaceLimitOrder 7 ex_reader ex_venue ex_req = (Inr r, v')" "or_Status r = ''matched''"
    "or_FilledShares r = fl 40" "or_FilledUsd r = fl 20" "or_OrderID r = ''sim-1''" by (rule ex_place)
  have "lr_Size ex_req = fl 100" by (simp add: ex_req_def)
  then show ?thesis
    using matched_order_recorded [of 7 ex_reader True "''t''" SimDefaultConfig None "[]" ex_req r v'] r
    by (simp add: ex_venue_def)
qed


section \<open>Redemption\<close>

lemma Positions_lookup:
  assumes "wf_ledger l" "range_order rng" "p \<in> set (Positions rng l)"
  shows "map_of (l_byToken l) (pm_TokenID p) = Some p" "eps9 < pm_Shares p"
  using assms set_range_order [OF assms(2), of "l_byToken l"]
  by (auto simp: Positions_def wf_ledger_def wf_map_in_set)

lemma RedeemPosition_Inr:
  "RedeemPosition l tok payout = Inr (usd, l') \<Longrightarrow> map_of (l_byToken l) tok = Some p \<Longrightarrow>
   usd = pm_Shares p * payout \<and> l' = l\<lparr>l_cash := l_cash l + pm_Shares p * payout, l_byToken := mdel tok (l_byToken l)\<rparr>"
  by (auto simp: RedeemPosition_def Let_def split: if_splits)

text \<open>
  a redemption that succeeds pays, for one position of the condition, its whole shares at
  one dollar or at nothing, adds exactly that to cash, removes that position and touches no other.
\<close>

theorem redeem_pays_face_or_nothing:
  assumes "RedeemCondition now now' rng mr v cid nr = (Inr r, v')" "wf_ledger (sv_ledger v)" "range_order rng"
  shows "\<exists>p payout. p \<in> set (Positions rng (sv_ledger v)) \<and> pm_ConditionID p = cid \<and>
    (payout = 0 \<or> payout = 1) \<and>
    l_cash (sv_ledger v') = l_cash (sv_ledger v) + pm_Shares p * payout \<and>
    map_of (l_byToken (sv_ledger v')) = (map_of (l_byToken (sv_ledger v)))(pm_TokenID p := None)"
  using assms(1)
proof (cases rule: RedeemCondition_cases)
  case (paid p payout usd l)
  note l = RedeemPosition_Inr [OF paid(6) Positions_lookup(1) [OF assms(2,3) paid(1)]]
  show ?thesis
    by (rule exI [of _ p], rule exI [of _ payout]) (use paid l in simp)
qed auto

text \<open>
  Redemption does not look at whether the market is closed: a position whose market is open,
  unresolved and quoted below 0.95 is not listed as redeemable, but redeeming its condition still
  succeeds, deletes it and pays its shares times zero.
\<close>

lemma redeem_open_market:
  assumes wf: "wf_ledger (sv_ledger v)" "range_order rng"
    and p: "p \<in> set (Positions rng (sv_ledger v))" "pm_ConditionID p = cid" "cid \<noteq> ''''"
    and only: "\<forall>q \<in> set (Positions rng (sv_ledger v)). pm_ConditionID q = cid \<longrightarrow> q = p"
    and open_market: "mr_GetMarketBySlug mr (pm_MarketSlug p) = Inr (Some m)" "\<not> m_Closed m" "WinningOutcome m = ''''"
    and mid: "mr_GetMidPrice mr (pm_TokenID p) = Inr mid" "mid < fl (95 / 100)"
  shows "\<not> sim_redeemable mr p \<and>
    (\<exists>r v'. RedeemCondition now now' rng mr v cid nr = (Inr r, v') \<and> rr_Status r = ''success'' \<and>
       map_of (l_byToken (sv_ledger v')) (pm_TokenID p) = None \<and>
       l_cash (sv_ledger v') = l_cash (sv_ledger v) + pm_Shares p * 0)"
proof -
  note look = Positions_lookup [OF wf p(1)]
  have big: "\<not> pm_Shares p \<le> eps9" using look(2) by (rule f64_less_not_le)
  have pos: "\<not> pm_Shares p \<le> 0" by (rule f64_less_not_le [OF f64_le_less_trans [OF f64_less_imp_le [OF eps9_pos] look(2)]])
  have pay: "redeem_payout mr p = Inr 0"
    using open_market mid f64_less_not_le [OF mid(2)]
    by (simp add: redeem_payout_def simPayoutForPosition_def PayoutPerShare_def)
  have "p \<in> set (filter (\<lambda>q. \<not> (pm_ConditionID q \<noteq> cid \<or> pm_Shares q \<le> 0)) (Positions rng (sv_ledger v)))"
    using p pos by simp
  then obtain q qs where f: "filter (\<lambda>q. \<not> (pm_ConditionID q \<noteq> cid \<or> pm_Shares q \<le> 0)) (Positions rng (sv_ledger v)) = q # qs"
    by (metis list.set_cases)
  then have "q = p" using only by (auto dest!: filter_eq_ConsD)
  then have red: "RedeemCondition now now' rng mr v cid nr = redeem_one now now' mr v cid p"
    using f p(3) by (simp add: RedeemCondition_def)
  moreover have "\<not> sim_redeemable mr p" using open_market by (simp add: sim_redeemable_def)
  ultimately show ?thesis using pay big look(1) p(3)
    by (simp add: redeem_one_def RedeemPosition_def Let_def)
qed

definition ex_meta :: position_meta where
  "ex_meta = \<lparr>pm_TokenID = ''tok'', pm_MarketSlug = ''rain'', pm_Outcome = ''YES'', pm_ConditionID = ''c1'',
     pm_NegRisk = False, pm_Shares = fl 40, pm_AvgCost = fl (1 / 2)\<rparr>"

definition ex_holding :: sim_venue where
  "ex_holding = ex_venue\<lparr>sv_ledger := \<lparr>l_cash = fl 10, l_initial = fl 30, l_byToken = [(''tok'', ex_meta)]\<rparr>\<rparr>"

lemma ex_holding_positions: "Positions id (sv_ledger ex_holding) = [ex_meta]" "wf_ledger (sv_ledger ex_holding)"
proof -
  have "eps9 < fl 40" "0 < fl 40" by (simp_all add: eps9_def f64_eval zero_f64_def)
  then show "Positions id (sv_ledger ex_holding) = [ex_meta]" "wf_ledger (sv_ledger ex_holding)"
    by (simp_all add: Positions_def ex_holding_def ex_meta_def wf_ledger_def wf_map_def)
qed

theorem redeem_pays_face_or_nothing_witness:
  "\<exists>r v'. RedeemCondition 5 6 id ex_reader ex_holding ''c1'' False = (Inr r, v') \<and>
     (\<exists>payout. (payout = 0 \<or> payout = 1) \<and> l_cash (sv_ledger v') = fl 10 + fl 40 * payout)"
proof -
  have p: "pm_Shares ex_meta = fl 40" "l_cash (sv_ledger ex_holding) = fl 10" "pm_ConditionID ex_meta = ''c1''"
    "map_of (l_byToken (sv_ledger ex_holding)) (pm_TokenID ex_meta) = Some ex_meta"
    by (simp_all add: ex_meta_def ex_holding_def)
  have pay: "redeem_payout ex_reader ex_meta = Inr 0"
    by (simp add: redeem_payout_def ex_reader_def simPayoutForPosition_def PayoutPerShare_def
        WinningOutcome_def ex_market_def f64_eval)
  have "\<not> fl 40 \<le> 0" "\<not> fl 40 \<le> eps9" by (simp_all add: eps9_def f64_eval zero_f64_def)
  then obtain r v' where red: "RedeemCondition 5 6 id ex_reader ex_holding ''c1'' False = (Inr r, v')"
    by (simp add: RedeemCondition_def ex_holding_positions p pay redeem_one_def RedeemPosition_def Let_def)
  obtain q payout where "q \<in> set (Positions id (sv_ledger ex_holding))" "payout = 0 \<or> payout = 1"
      "l_cash (sv_ledger v') = l_cash (sv_ledger ex_holding) + pm_Shares q * payout"
    using redeem_pays_face_or_nothing [OF red ex_holding_positions(2) range_order_id] by blast
  then have "l_cash (sv_ledger v') = fl 10 + fl 40 * payout" "payout = 0 \<or> payout = 1"
    by (simp_all add: ex_holding_positions(1) p)
  then show ?thesis using red by blast
qed

section \<open>What is saved\<close>

text \<open>The last ledger handed to the database.\<close>

fun last_saved :: "sim_effect list \<Rightarrow> ledger option" where
  "last_saved [] = None"
| "last_saved (e # es) =
     (case last_saved es of Some l \<Rightarrow> Some l | None \<Rightarrow> (case e of SaveLedger l \<Rightarrow> Some l | _ \<Rightarrow> None))"

lemma last_saved_append:
  "last_saved (es @ es') = (case last_saved es' of Some l \<Rightarrow> Some l | None \<Rightarrow> last_saved es)"
  by (induction es) (auto split: option.splits)

definition saved :: "ledger \<Rightarrow> sim_venue \<Rightarrow> bool" where
  "saved l0 v \<longleftrightarrow> sv_bound v \<and>
     (case last_saved (sv_trace v) of Some l \<Rightarrow> sv_ledger v = l | None \<Rightarrow> sv_ledger v = l0)"

lemma saved_step: "saved l0 v \<Longrightarrow> saved l0 (sim_step v op)"
proof (cases op)
  case (SPlace now mr req)
  assume sv: "saved l0 v"
  show ?thesis
  proof (cases "PlaceLimitOrder now mr v req" rule: prod.exhaust)
    case (Pair res v')
    then show ?thesis
    proof (cases rule: PlaceLimitOrder_cases)
      case (filled r book q l)
      show ?thesis using sv order_filled_simps(6,9,11) [OF filled(5)] Pair SPlace
        by (simp add: saved_def last_saved_append)
    qed (use sv Pair SPlace in simp_all)
  qed
next
  case (SCancel oid)
  moreover assume "saved l0 v"
  ultimately show ?thesis by (auto simp: CancelOrder_def saved_def split: option.splits)
next
  case (SRedeem now now' rng mr cid nr)
  assume sv: "saved l0 v"
  show ?thesis
  proof (cases "RedeemCondition now now' rng mr v cid nr" rule: prod.exhaust)
    case (Pair res v')
    then show ?thesis
    proof (cases rule: RedeemCondition_cases)
      case (paid p payout usd l)
      then show ?thesis using sv Pair SRedeem by (auto simp: saved_def last_saved_append)
    qed (use sv Pair SRedeem in simp_all)
  qed
next
  case (SSnapshot now rng rng' mr n)
  moreover assume "saved l0 v"
  ultimately show ?thesis
    by (simp add: RecordEquitySnapshot_def saved_def last_saved_append Let_def split: prod.splits option.splits)
qed

interpretation sim_saved: guarded_ops sim_step "saved l0" "\<lambda>_. True" for l0
  by unfold_locales (rule saved_step)

text \<open>
  C34: a venue bound to a store never trades unsaved: after any sequence of calls the ledger last
  handed to the database is the ledger in memory, or nothing was saved and the ledger is still the
  one the venue started with.
\<close>

theorem bound_ledger_saved:
  assumes "st" "tid \<noteq> ''''"
  shows "case last_saved (sv_trace (foldl sim_step (BindStore st tid (NewVenue cfg (Some l0))) ops)) of
     Some l \<Rightarrow> sv_ledger (foldl sim_step (BindStore st tid (NewVenue cfg (Some l0))) ops) = l
   | None \<Rightarrow> sv_ledger (foldl sim_step (BindStore st tid (NewVenue cfg (Some l0))) ops) = l0"
proof -
  have "saved l0 (BindStore st tid (NewVenue cfg (Some l0)))"
    using assms by (simp add: saved_def BindStore_def NewVenue_def Let_def)
  then have "saved l0 (foldl sim_step (BindStore st tid (NewVenue cfg (Some l0))) ops)"
    by (rule sim_saved.run_inv) (simp add: list_all_iff)
  then show ?thesis by (simp add: saved_def)
qed

theorem bound_ledger_saved_witness:
  "case last_saved (sv_trace (foldl sim_step (BindStore True ''t'' (NewVenue SimDefaultConfig (Some (NewLedger 1))))
       [SPlace 7 ex_reader ex_req])) of
     Some l \<Rightarrow> sv_ledger (foldl sim_step (BindStore True ''t'' (NewVenue SimDefaultConfig (Some (NewLedger 1))))
       [SPlace 7 ex_reader ex_req]) = l
   | None \<Rightarrow> sv_ledger (foldl sim_step (BindStore True ''t'' (NewVenue SimDefaultConfig (Some (NewLedger 1))))
       [SPlace 7 ex_reader ex_req]) = NewLedger 1"
  by (rule bound_ledger_saved) simp_all

end
