(* ===== verification/Sim_Ops.thy ===== *)
theory Sim_Ops
  imports Sim_Venue Pred_Venue
begin

text \<open>
  The simulated venue as a \<open>PredictionVenue\<close>: the methods of \<open>prediction/sim/venue.go\<close> in the
  interface's record, for fixed live data \<open>mr\<close>, clock and map orders.  The two delegating reads
  pass the reader's answer on; a reader that answers nil without an error (Gamma does not) becomes
  an error here.
\<close>

definition sim_market :: "market_reader \<Rightarrow> gostring \<Rightarrow> perr + market" where
  "sim_market mr slug =
     (case mr_GetMarketBySlug mr slug of
        Inl e \<Rightarrow> Inl e | Inr (Some m) \<Rightarrow> Inr m | Inr None \<Rightarrow> Inl (OtherErr ''nil market''))"

definition sim_ops ::
  "int \<Rightarrow> token_range \<Rightarrow> ((gostring \<times> stored_order) list \<Rightarrow> (gostring \<times> stored_order) list) \<Rightarrow>
   market_reader \<Rightarrow> sim_venue venue_ops" where
  "sim_ops now rng orng mr =
     \<lparr>vn_VenueID = ''polymarket_sim'',
      vn_GetCollateral = (\<lambda>v. Inr (GetCollateral rng rng mr v)),
      vn_GetOutcomePositions = (\<lambda>v. Inr (GetOutcomePositions rng rng mr v)),
      vn_GetMarketBySlug = (\<lambda>_ slug. sim_market mr slug),
      vn_SearchMarkets = (\<lambda>_ f. mr_SearchMarkets mr f),
      vn_GetOrderBook = (\<lambda>_ tok. mr_GetOrderBook mr tok),
      vn_GetMidPrice = (\<lambda>_ tok. mr_GetMidPrice mr tok),
      vn_PlaceLimitOrder = (\<lambda>v req. case PlaceLimitOrder now mr v req of
         (Inl e, v') \<Rightarrow> (Inl e, v') | (Inr r, v') \<Rightarrow> (Inr (Some r), v')),
      vn_CancelOrder = CancelOrder,
      vn_GetOrderStatus = (\<lambda>v oid. (map_sum id Some (GetOrderStatus v oid), v)),
      vn_ListOpenOrders = (\<lambda>v. Inr (ListOpenOrders orng v)),
      vn_FindRedeemablePositions = (\<lambda>v. Inr (FindRedeemablePositions rng mr v)),
      vn_RedeemCondition = (\<lambda>v cid nr. RedeemCondition now now rng mr v cid nr),
      vn_LiveRedeemReady = (\<lambda>_. False),
      vn_RecordEquitySnapshot = (\<lambda>v n. RecordEquitySnapshot now rng rng mr v n)\<rparr>"

section \<open>The simulated venue keeps the contract\<close>

lemma f64_times_not_neg: "\<not> a < 0 \<Longrightarrow> \<not> b < 0 \<Longrightarrow> \<not> a * b < (0 :: f64)"
proof -
  assume "\<not> a < 0" "\<not> b < 0"
  moreover have "\<not> fl r < 0" if "0 \<le> r" for r
    using fl_nonneg [OF that] f64_less_not_le by blast
  ultimately show ?thesis by (cases a; cases b) (auto simp: zero_f64_def not_less)
qed

lemma not_le_not_less: "\<not> a \<le> 0 \<Longrightarrow> \<not> a < (0 :: f64)"
  using f64_less_imp_le by blast

interpretation sim: trading_venue "sim_ops now rng orng mr" for now rng orng mr
proof
  fix s s' req r
  assume "vn_PlaceLimitOrder (sim_ops now rng orng mr) s req = (Inr (Some r), s')" and ok: "or_Error r = None"
  then have pl: "PlaceLimitOrder now mr s req = (Inr r, s')"
    by (auto simp: sim_ops_def split: prod.splits sum.splits)
  then show "\<not> or_FilledShares r < 0 \<and> \<not> or_FilledUsd r < 0"
  proof (cases rule: PlaceLimitOrder_cases)
    case (filled r' book q l)
    have "\<not> fq_FillShares q \<le> 0 \<and> \<not> fq_FillPrice q \<le> 0"
      using filled(4) by (auto simp: settle_def ApplyBuy_def ApplySell_def split: prod.splits if_split_asm)
    then show ?thesis using filled(1) order_filled_simps(4,5) [OF filled(5)]
      by (auto simp: f64_times_not_neg not_le_not_less)
  qed (use ok in auto)
next
  fix s s' req res
  assume "vn_PlaceLimitOrder (sim_ops now rng orng mr) s req = (res, s')"
    and "case res of Inl _ \<Rightarrow> True | Inr None \<Rightarrow> False | Inr (Some r) \<Rightarrow> or_Error r \<noteq> None"
  then obtain res' where pl: "PlaceLimitOrder now mr s req = (res', s')"
      and "case res' of Inl _ \<Rightarrow> True | Inr r \<Rightarrow> or_Error r \<noteq> None"
    by (auto simp: sim_ops_def split: prod.splits sum.splits)
  with pl show "s' = s"
    by (cases rule: PlaceLimitOrder_cases) (auto dest: order_filled_simps(3))
qed

end
