(* ===== verification/Trader_Correct.thy ===== *)
theory Trader_Correct
  imports Pred_Cycle Sim_Ops
begin

text \<open>
  What the trader's loop guarantees: the order of execution, the merge of rules and AI, that
  nothing reaches the venue without the gate's approval, that a normalised sell fits the holding,
  and that the gate and the trader count the same volume.
\<close>

section \<open>Order of execution\<close>

lemma sort_sweep_mset: "sort_sweep x ys = (z, zs) \<Longrightarrow> add_mset z (mset zs) = add_mset x (mset ys)"
  by (induction x ys arbitrary: z zs rule: sort_sweep.induct) (auto split: prod.splits if_split_asm)

lemma sort_sweep_least:
  "sort_sweep x ys = (z, zs) \<Longrightarrow>
   priority (d_Action z) \<le> priority (d_Action x) \<and> (\<forall>d \<in> set zs. priority (d_Action z) \<le> priority (d_Action d))"
proof (induction x ys arbitrary: z zs rule: sort_sweep.induct)
  case (2 x y ys)
  show ?case
  proof (cases "priority (d_Action y) < priority (d_Action x)")
    case True
    then obtain zs' where "sort_sweep y ys = (z, zs')" "zs = x # zs'" using "2.prems" by (auto split: prod.splits)
    then show ?thesis using "2.IH"(1) [OF True] True by fastforce
  next
    case False
    then obtain zs' where "sort_sweep x ys = (z, zs')" "zs = y # zs'" using "2.prems" by (auto split: prod.splits)
    then show ?thesis using "2.IH"(2) [OF False] False by fastforce
  qed
qed simp

text \<open>
  a cycle executes exactly the decisions it was given, ordered so that sells and redemptions
  come before buys, and holds and waits last.
\<close>

theorem sort_decisions_correct:
  "mset (sortDecisions ds) = mset ds \<and> sorted (map (priority \<circ> d_Action) (sortDecisions ds))"
proof (induction ds rule: sortDecisions.induct)
  case (2 x xs)
  obtain z zs where sw: "sort_sweep x xs = (z, zs)" by (rule prod.exhaust)
  note IH = "2.IH" [OF sw [symmetric] refl]
  have "mset (sortDecisions (x # xs)) = mset (x # xs)"
    using IH sort_sweep_mset [OF sw] sw by simp
  moreover have "\<forall>d \<in> set (sortDecisions zs). priority (d_Action z) \<le> priority (d_Action d)"
    using sort_sweep_least [OF sw] mset_eq_setD [OF IH [THEN conjunct1]] by simp
  ultimately show ?case using IH sw by simp
qed simp

section \<open>Merging\<close>

definition good_entries :: "decision set \<Rightarrow> (gostring, decision) gomap \<Rightarrow> bool" where
  "good_entries D m \<longleftrightarrow> wf_map m \<and> (\<forall>(k, d) \<in> set m. d_MarketSlug d = k \<and> k \<noteq> '''' \<and> d \<in> D)"

lemma good_entries_put:
  "good_entries D m \<Longrightarrow> d \<in> D \<Longrightarrow> d_MarketSlug d \<noteq> '''' \<Longrightarrow> good_entries D (mput (d_MarketSlug d) d m)"
  by (auto simp: good_entries_def set_mput)

lemma good_merge_rules: "good_entries D m \<Longrightarrow> set ds \<subseteq> D \<Longrightarrow> good_entries D (merge_rules ds m)"
  by (induction ds arbitrary: m) (auto intro: good_entries_put)

lemma good_merge_ai: "good_entries D m \<Longrightarrow> set ds \<subseteq> D \<Longrightarrow> good_entries D (merge_ai ds m)"
  by (induction ds arbitrary: m) (auto intro: good_entries_put)

lemma merge_ai_lookup:
  "(\<exists>d \<in> set ds. d_MarketSlug d = slug \<and> slug \<noteq> '''' \<and> map_of (merge_ai ds m) slug = Some d)
   \<or> (\<forall>d \<in> set ds. d_MarketSlug d = slug \<longrightarrow> slug = '''') \<and> map_of (merge_ai ds m) slug = map_of m slug"
proof (induction ds arbitrary: m)
  case (Cons d ds)
  show ?case using Cons.IH [of m] Cons.IH [of "mput (d_MarketSlug d) d m"] by (auto split: if_splits)
qed simp

lemma merge_rules_keeps: "map_of m slug \<noteq> None \<Longrightarrow> map_of (merge_rules ds m) slug \<noteq> None"
  by (induction ds arbitrary: m) (auto simp del: fun_upd_apply simp: fun_upd_def)

lemma merge_rules_has:
  "d \<in> set ds \<Longrightarrow> d_Action d \<notin> {ActionWait, ActionHold} \<Longrightarrow> d_MarketSlug d \<noteq> '''' \<Longrightarrow>
   map_of (merge_rules ds m) (d_MarketSlug d) \<noteq> None"
proof (induction ds arbitrary: m)
  case (Cons e ds)
  show ?case
  proof (cases "d = e")
    case True
    then show ?thesis using Cons.prems merge_rules_keeps [of "mput (d_MarketSlug d) d m" "d_MarketSlug d" ds] by simp
  qed (use Cons in auto)
qed simp

text \<open>
  the hybrid merge decides once per market and lets the AI win: the merged decisions name
  distinct, non-empty markets and are all decisions of the AI or of the rules; a market the AI
  named is decided by the AI, every market a rule wants to trade is decided by someone; and
  without any such market the result is a single wait.
\<close>

theorem merge_ai_overrides_rules:
  fixes rules ai :: "decision list"
  assumes "range_order rng"
  defines "out \<equiv> mergeDecisions rng rules ai"
  shows "out = [hybrid_wait] \<and> (\<forall>d \<in> set ai. d_MarketSlug d = '''') \<or>
    distinct (map d_MarketSlug out) \<and>
    (\<forall>d \<in> set out. d_MarketSlug d \<noteq> '''' \<and>
       (if \<exists>a \<in> set ai. d_MarketSlug a = d_MarketSlug d then d \<in> set ai else d \<in> set rules)) \<and>
    (\<forall>a \<in> set ai. d_MarketSlug a \<noteq> '''' \<longrightarrow> d_MarketSlug a \<in> d_MarketSlug ` set out) \<and>
    (\<forall>r \<in> set rules. d_Action r \<notin> {ActionWait, ActionHold} \<longrightarrow> d_MarketSlug r \<noteq> '''' \<longrightarrow>
       d_MarketSlug r \<in> d_MarketSlug ` set out)"
proof -
  define m0 where "m0 = merge_rules rules []"
  define m where "m = merge_ai ai m0"
  have g0: "good_entries (set rules) m0" unfolding m0_def
    by (rule good_merge_rules) (simp_all add: good_entries_def)
  then have g: "good_entries (set ai \<union> set rules) m" unfolding m_def
    by (intro good_merge_ai) (auto simp: good_entries_def)
  have wf: "wf_map m" and ent: "\<And>k d. (k, d) \<in> set m \<Longrightarrow> d_MarketSlug d = k \<and> k \<noteq> '''' \<and> d \<in> set ai \<union> set rules"
    using g by (auto simp: good_entries_def)
  have out: "out = (if map snd (rng m) = [] then [hybrid_wait] else map snd (rng m))"
    by (simp add: out_def mergeDecisions_def m_def m0_def Let_def)
  have setr: "set (rng m) = set m" using assms(1) by (rule set_range_order)
  have src: "if \<exists>a \<in> set ai. d_MarketSlug a = d_MarketSlug d then d \<in> set ai else d \<in> set rules"
    if "d \<in> snd ` set m" for d
  proof -
    from that ent obtain k where k: "(k, d) \<in> set m" "d_MarketSlug d = k" "k \<noteq> ''''" by force
    then have "map_of m k = Some d" using wf by (simp add: wf_map_in_set)
    moreover have "d \<in> set rules" if "map_of m0 k = Some d"
      using g0 map_of_SomeD [OF that] by (auto simp: good_entries_def)
    ultimately show ?thesis using merge_ai_lookup [of ai k m0] k by (auto simp: m_def)
  qed
  have has: "k \<in> d_MarketSlug ` snd ` set m" if "map_of m k \<noteq> None" for k
    using that ent by (force dest: map_of_SomeD)
  have ai_in: "map_of m (d_MarketSlug a) \<noteq> None" if "a \<in> set ai" "d_MarketSlug a \<noteq> ''''" for a
    using merge_ai_lookup [of ai "d_MarketSlug a" m0] that by (auto simp: m_def)
  have rule_in: "map_of m (d_MarketSlug r) \<noteq> None"
    if "r \<in> set rules" "d_Action r \<notin> {ActionWait, ActionHold}" "d_MarketSlug r \<noteq> ''''" for r
    using merge_ai_lookup [of ai "d_MarketSlug r" m0] merge_rules_has [OF that, of "[]"]
    by (auto simp: m_def m0_def)
  show ?thesis
  proof (cases "m = []")
    case True
    then have "out = [hybrid_wait]" using setr by (simp add: out)
    then show ?thesis using ai_in True by auto
  next
    case False
    then have o: "out = map snd (rng m)" using setr by (auto simp: out)
    have "map d_MarketSlug out = map fst (rng m)" using ent setr by (auto simp: o)
    moreover have "distinct (map fst (rng m))"
    proof -
      have "mset (map fst (rng m)) = mset (map fst m)" using assms(1) by (simp add: range_order_def)
      from mset_eq_imp_distinct_iff [OF this] show ?thesis using wf by (simp add: wf_map_def)
    qed
    ultimately have "distinct (map d_MarketSlug out)" by simp
    moreover have "set out = snd ` set m" using setr by (simp add: o)
    ultimately show ?thesis using src has ai_in rule_in ent by (intro disjI2) force
  qed
qed

theorem merge_ai_overrides_rules_witness:
  "let r = empty_decision\<lparr>d_MarketSlug := ''m'', d_Action := ActionBuyYes\<rparr>;
       a = empty_decision\<lparr>d_MarketSlug := ''m'', d_Action := ActionHold\<rparr>
   in mergeDecisions rev [r] [a] = [a] \<and> (\<forall>d \<in> set (mergeDecisions rev [r] [a]). d \<in> {a})"
proof -
  let ?r = "empty_decision\<lparr>d_MarketSlug := ''m'', d_Action := ActionBuyYes\<rparr>"
  let ?a = "empty_decision\<lparr>d_MarketSlug := ''m'', d_Action := ActionHold\<rparr>"
  have "mergeDecisions rev [?r] [?a] = [?a]"
    by (simp add: mergeDecisions_def mput_def)
  then show ?thesis using merge_ai_overrides_rules [OF range_order_rev, of "[?r]" "[?a]"] by (simp add: Let_def)
qed

section \<open>No order without the gate\<close>

lemma executeDecision_simps:
  "d_Action d = ActionHold \<or> d_Action d = ActionWait \<Longrightarrow>
     executeDecisionWithOutcome env d (t, s) = (outcome_of d\<lparr>eo_Status := ''skipped''\<rparr>, t, s)"
  "d_Action d = OtherAction x \<Longrightarrow> executeDecisionWithOutcome env d (t, s) =
     (failed ''error'' (TraderErr (TraderUnknownAction (d_Action d))) (outcome_of d), t, s)"
  by (auto simp: executeDecisionWithOutcome_def)

text \<open>The decision that is checked and sent: a sell is normalised first.\<close>

definition prepared :: "'s env \<Rightarrow> trader \<times> 's \<Rightarrow> decision \<Rightarrow> trader_err + decision" where
  "prepared env ts d =
     (if d_Action d = ActionSell
      then normalizeSellDecision (t_gate (fst ts)) (venue_positions (w_venue env) (snd ts)) d else Inr d)"

lemma executeDecision_trade:
  assumes "is_buy (d_Action d) \<or> d_Action d = ActionSell"
  shows "executeDecisionWithOutcome env d ts =
    (case prepared env ts d of
       Inl e \<Rightarrow> (failed ''error'' (TraderErr e) (outcome_of d), ts)
     | Inr d' \<Rightarrow> (case CheckDecision (t_gate (fst ts)) d' of
           Some e \<Rightarrow> (failed ''risk_blocked'' (GateErr e) (outcome_of d), ts)
         | None \<Rightarrow> executeTradeOutcome env d' ts))"
  using assms by (cases ts; cases "d_Action d") (auto simp: executeDecisionWithOutcome_def prepared_def is_buy_def Let_def split: sum.split)

text \<open>
  C1: nothing reaches the venue or the books without the gate.  If executing a decision changes
  the trader or the world at all, the decision is a redemption, or it is a buy or a sell whose
  prepared form the gate approved in the state it was executed in, and whose token and limit price
  are set.
\<close>

theorem no_trade_without_approval:
  assumes "executeDecisionWithOutcome env d ts = (out, ts')" "ts' \<noteq> ts"
  shows "d_Action d = ActionRedeem \<or>
    (is_buy (d_Action d) \<or> d_Action d = ActionSell) \<and>
    (\<exists>d'. prepared env ts d = Inr d' \<and> CheckDecision (t_gate (fst ts)) d' = None \<and>
       d_TokenID d' \<noteq> '''' \<and> \<not> d_LimitPrice d' \<le> 0 \<and> executeTradeOutcome env d' ts = (out, ts'))"
proof (cases "is_buy (d_Action d) \<or> d_Action d = ActionSell")
  case True
  then obtain d' where d': "prepared env ts d = Inr d'" "CheckDecision (t_gate (fst ts)) d' = None"
      "executeTradeOutcome env d' ts = (out, ts')"
    using assms by (auto simp: executeDecision_trade split: sum.splits option.splits)
  moreover have "d_TokenID d' \<noteq> ''''" "\<not> d_LimitPrice d' \<le> 0"
    using assms(2) d'(3) by (cases ts; auto simp: executeTradeOutcome_def Let_def split: if_split_asm)+
  ultimately show ?thesis using True by blast
next
  case False
  then show ?thesis using assms
    by (cases ts; cases "d_Action d") (auto simp: executeDecision_simps is_buy_def)
qed

section \<open>The gate and the trader count the same volume\<close>

text \<open>Concurrent \<open>Run\<close> and \<open>Stop\<close> calls move the running flags only.\<close>

lemma control_step_fields [simp]:
  "t_gate (control_step t c) = t_gate t" "t_dailyVolume (control_step t c) = t_dailyVolume t"
  "t_cfg (control_step t c) = t_cfg t" "t_callCount (control_step t c) = t_callCount t"
  "t_recent (control_step t c) = t_recent t" "t_hasStore (control_step t c) = t_hasStore t"
  "t_dbid (control_step t c) = t_dbid t" "t_hasAI (control_step t c) = t_hasAI t"
  "t_startTime (control_step t c) = t_startTime t"
  by (cases c; simp add: run_begin_def stop_run_def)+

lemma foldl_keeps: "(\<And>t c. f (step t c) = f t) \<Longrightarrow> f (foldl step t cs) = f t"
  by (induction cs arbitrary: t) simp_all

lemma controlled_fields [simp]:
  "t_gate (controlled env s t) = t_gate t" "t_dailyVolume (controlled env s t) = t_dailyVolume t"
  "t_cfg (controlled env s t) = t_cfg t" "t_callCount (controlled env s t) = t_callCount t"
  "t_recent (controlled env s t) = t_recent t" "t_hasStore (controlled env s t) = t_hasStore t"
  "t_dbid (controlled env s t) = t_dbid t" "t_hasAI (controlled env s t) = t_hasAI t"
  "t_startTime (controlled env s t) = t_startTime t"
  unfolding controlled_def by (rule foldl_keeps, simp)+

definition same_volume :: "trader \<Rightarrow> bool" where
  "same_volume t \<longleftrightarrow> g_dailyVolume (t_gate t) = t_dailyVolume t \<and> is64 (t_dailyVolume t)"

lemma persist_world_only [simp]: "fst (saveOrderRecord env d r out ts) = fst ts"
  by (simp add: saveOrderRecord_def split: prod.splits)

lemma applyFillExposure_volume [simp]: "g_dailyVolume (applyFillExposure g d usd) = g_dailyVolume g"
  by (simp add: applyFillExposure_def AddMarketExposure_def ReduceMarketExposure_def Let_def split: action.splits)

lemma is64_plus_0: "is64 x \<Longrightarrow> x + 0 = x"
  by (cases x) (auto simp: zero_f64_def fl_exact)

lemma f64_eq_0: "x \<le> 0 \<Longrightarrow> \<not> x < 0 \<Longrightarrow> x = (0 :: f64)"
  by (cases x) (auto simp: zero_f64_def)

lemma book_fill_trader:
  "fst (snd (book_fill env d r usd out ts)) =
     (if usd \<le> 0 then (fst ts)\<lparr>t_gate := gate_fill (t_gate (fst ts)) d usd\<rparr>
      else (fst ts)\<lparr>t_dailyVolume := t_dailyVolume (fst ts) + usd, t_gate := gate_fill (t_gate (fst ts)) d usd\<rparr>)"
  by (simp add: book_fill_def recordFillVolume_def gate_fill_def Let_def)

lemma book_fill_same_volume:
  "same_volume (fst ts) \<Longrightarrow> \<not> usd < 0 \<Longrightarrow> same_volume (fst (snd (book_fill env d r usd out ts)))"
  unfolding book_fill_trader same_volume_def using f64_eq_0 [of usd] by (auto simp: is64_plus_0)

lemma poll_fill_not_negative:
  "poll_fill env d oid n s = (Some usd, s') \<Longrightarrow> \<not> d_SizeUsd d \<le> 0 \<Longrightarrow> \<not> usd < 0"
proof (induction env d oid n s rule: poll_fill.induct)
  case (2 env d oid n s)
  have nn: "\<not> fl r < Fin 0" if "0 \<le> r" for r
    using f64_less_not_le [of "fl r" 0] fl_nonneg [OF that] by (auto simp: zero_f64_def)
  have div: "\<not> a / b < 0" if "\<not> a \<le> 0" "0 < b" for a b :: f64
    using that by (cases a; cases b) (auto simp: zero_f64_def nn)
  show ?case using 2 f64_times_not_neg [OF not_le_not_less div]
    by (auto split: prod.splits sum.splits option.splits if_split_asm dest: not_le_not_less)
qed simp

lemma approved_size:
  "CheckDecision g d = None \<Longrightarrow> is_buy (d_Action d) \<or> d_Action d = ActionSell \<Longrightarrow> \<not> d_SizeUsd d \<le> 0"
  by (cases "d_Action d") (auto simp: CheckDecision_def check_buy_def CheckOrderUsd_def is_buy_def split: if_split_asm)

lemma normalize_action: "normalizeSellDecision g ps d = Inr d' \<Longrightarrow> d_Action d' = d_Action d"
  by (auto simp: normalizeSellDecision_def Let_def sell_token_def
      split: if_split_asm option.splits list.splits)

lemma prepared_action: "prepared env ts d = Inr d' \<Longrightarrow> d_Action d' = d_Action d"
  by (auto simp: prepared_def normalize_action split: if_split_asm)

lemma trade_result_same_volume:
  assumes "same_volume t" "\<not> or_FilledShares r < 0" "\<not> d_LimitPrice d \<le> 0" "\<not> d_SizeUsd d \<le> 0"
  shows "same_volume (fst (snd (trade_result env d r out (t, s))))"
proof -
  have "\<not> (if or_FilledUsd r \<le> 0 then or_FilledShares r * d_LimitPrice d else or_FilledUsd r) < 0"
    using assms f64_times_not_neg [of "or_FilledShares r" "d_LimitPrice d"] by (auto dest: not_le_not_less f64_less_imp_le)
  moreover have "\<not> usd < 0" if "confirmedFillUsd env d r s = (Some usd, s')" for usd s'
    using that poll_fill_not_negative [of env d "or_OrderID r" 4 s usd s'] assms(4)
    by (auto simp: confirmedFillUsd_def split: if_split_asm)
  ultimately show ?thesis using assms(1) book_fill_same_volume [of "(t, _)"]
    by (auto simp: trade_result_def Let_def split: prod.splits option.splits)
qed

text \<open>
  The client of \<open>fill_venue\<close>: with a venue that keeps the contract, the trader and its gate go
  on counting the same volume whatever is executed.
\<close>

context fill_venue begin

lemma executeDecision_same_volume:
  assumes "w_venue env = ops" "same_volume (fst ts)"
  shows "same_volume (fst (snd (executeDecisionWithOutcome env d ts)))"
proof (cases "is_buy (d_Action d) \<or> d_Action d = ActionSell")
  case True
  show ?thesis
  proof (cases "prepared env ts d")
    case (Inl e)
    then show ?thesis using True assms(2) by (simp add: executeDecision_trade)
  next
    case (Inr d')
    have act: "is_buy (d_Action d') \<or> d_Action d' = ActionSell" using prepared_action [OF Inr] True by simp
    show ?thesis
    proof (cases "CheckDecision (t_gate (fst ts)) d'")
      case None
      note sz = approved_size [OF None act]
      have "same_volume (fst (snd (executeTradeOutcome env d' ts)))"
      proof (cases "d_TokenID d' = '''' \<or> d_LimitPrice d' \<le> 0")
        case False
        obtain t s where ts: "ts = (t, s)" by (rule prod.exhaust)
        have tr: "same_volume (fst (snd (trade_result env d' r (outcome_of d') (t, s'))))"
          if "vn_PlaceLimitOrder ops s req = (Inr (Some r), s')" "or_Error r = None" for req r s'
          using fill_not_negative [OF that] assms(2) False sz
          by (intro trade_result_same_volume) (simp_all add: ts)
        show ?thesis using False assms tr unfolding ts
          by (auto simp: executeTradeOutcome_def Let_def split: prod.split sum.split option.split)
      qed (use assms(2) in \<open>cases ts; auto simp: executeTradeOutcome_def Let_def\<close>)
      then show ?thesis using True Inr None by (simp add: executeDecision_trade)
    next
      case (Some e)
      then show ?thesis using True Inr assms(2) by (simp add: executeDecision_trade)
    qed
  qed
next
  case False
  then show ?thesis using assms(2)
    by (cases ts; cases "d_Action d")
      (auto simp: executeDecision_simps is_buy_def executeDecisionWithOutcome_def Let_def split: option.split prod.split)
qed

lemma execute_all_same_volume:
  assumes "w_venue env = ops"
  shows "same_volume (fst ts) \<Longrightarrow> same_volume (fst (snd (execute_all env ds ts)))"
proof (induction ds arbitrary: ts)
  case (Cons d ds)
  define ts0 where "ts0 = (controlled env (snd ts) (fst ts), snd ts)"
  have v: "same_volume (fst ts0)" using Cons.prems by (simp add: ts0_def same_volume_def)
  obtain out t s where e: "executeDecisionWithOutcome env d ts0 = (out, t, s)" by (rule prod_cases3)
  have "same_volume t" using executeDecision_same_volume [OF assms v, of d] e by simp
  then show ?case using Cons.IH [of "(t, auditExecution env t out s)"] v e
    by (auto simp: ts0_def [symmetric] split: prod.splits)
qed simp

end

text \<open>
  on the simulated venue the gate and the trader never disagree about the day's volume:
  whatever decisions a cycle executes, if both counters agree before, they agree after every one
  of them, so the limit the gate enforces is the limit on the volume that is saved.
\<close>

theorem cycle_volume_consistent:
  assumes "w_venue env = sim_ops now rng orng mr" "g_dailyVolume (t_gate t) = t_dailyVolume t" "is64 (t_dailyVolume t)"
  shows "let t' = fst (snd (execute_all env ds (t, v))) in
     g_dailyVolume (t_gate t') = t_dailyVolume t' \<and> is64 (t_dailyVolume t')"
  using sim.execute_all_same_volume [OF assms(1), of "(t, v)" ds] assms(2,3)
  by (simp add: same_volume_def Let_def)

definition ex_cfg :: trader_config where
  "ex_cfg = \<lparr>tc_ID = ''p'', tc_Name = ''p'', tc_AIModel = '''', tc_APIKey = '''', tc_CustomURL = '''',
     tc_CustomModel = '''', tc_ScanInterval = 0, tc_Strategy = DefaultStrategyConfig\<lparr>st_Mode := ModeRules\<rparr>\<rparr>"

definition ex_trader :: trader where
  "ex_trader = \<lparr>t_cfg = ex_cfg, t_gate = NewGate DefaultConfig, t_hasAI = False, t_hasStore = False,
     t_dbid = '''', t_callCount = 0, t_startTime = 0, t_dailyVolume = 0, t_lastReset = 0,
     t_recent = [], t_lastCycleAt = None, t_lastCycleOK = False, t_lastCycleError = None,
     t_lastDecisionCount = 0, t_lastExecutionCount = 0, t_isRunning = False, t_loopActive = False\<rparr>"

text \<open>An environment that forgets what is recorded in it, on a given venue.\<close>

definition plain_env :: "'s venue_ops \<Rightarrow> 's env" where
  "plain_env ops = \<lparr>w_venue = ops, w_now = (\<lambda>_. 0), w_control = (\<lambda>_. []),
     w_LoadRiskState = (\<lambda>_ _. Inr (0, '''')), w_SaveRiskState = (\<lambda>s _ _ _. s),
     w_ListOrderRecords = (\<lambda>_ _ _. []), w_SaveOrderRecord = (\<lambda>s _ _. s), w_UpdateOrderStatus = (\<lambda>s _ _ _. s),
     w_SaveDecision = (\<lambda>s _ _. s), w_SaveAuditLog = (\<lambda>s _ _. s), w_Telemetry = (\<lambda>s _. s),
     w_NotifyExecution = (\<lambda>s _. s), w_NotifyCycleFailed = (\<lambda>s _. s),
     w_FetchQuote = (\<lambda>_ _. Inl (OtherErr ''offline'')), w_QuoteRange = id, w_DecisionRange = id,
     w_AI = (\<lambda>_ _ _. Inl (OtherErr ''offline'')), w_AIDurationMs = (\<lambda>_. 0), w_Prompts = (\<lambda>_ _. ('''', '''')),
     w_Unmarshal = (\<lambda>_. None), w_Unmarshal1 = (\<lambda>_. None)\<rparr>"

text \<open>A preview venue that keeps the requests it is sent.\<close>

definition preview_ops :: "limit_order_req list venue_ops" where
  "preview_ops = \<lparr>vn_VenueID = ''preview'', vn_GetCollateral = (\<lambda>_. Inr (0, 0)),
     vn_GetOutcomePositions = (\<lambda>_. Inr []), vn_GetMarketBySlug = (\<lambda>_ _. Inl (OtherErr ''offline'')),
     vn_SearchMarkets = (\<lambda>_ _. Inr []), vn_GetOrderBook = (\<lambda>_ _. Inr None), vn_GetMidPrice = (\<lambda>_ _. Inr 0),
     vn_PlaceLimitOrder = (\<lambda>s r. (Inr (Some (empty_order_result\<lparr>or_Status := ''preview''\<rparr>)), s @ [r])),
     vn_CancelOrder = (\<lambda>s _. (Inr (), s)), vn_GetOrderStatus = (\<lambda>s _. (Inr None, s)),
     vn_ListOpenOrders = (\<lambda>_. Inr []), vn_FindRedeemablePositions = (\<lambda>_. Inr []),
     vn_RedeemCondition = (\<lambda>s _ _. (Inl (OtherErr ''no''), s)), vn_LiveRedeemReady = (\<lambda>_. False),
     vn_RecordEquitySnapshot = (\<lambda>s _. s)\<rparr>"

theorem no_trade_without_approval_witness:
  "\<exists>out ts'. executeDecisionWithOutcome (plain_env preview_ops) ex_buy (ex_trader, []) = (out, ts') \<and>
     length (snd ts') = 1 \<and> (\<exists>d'. CheckDecision ex_gate d' = None \<and> d_TokenID d' \<noteq> '''' \<and> \<not> d_LimitPrice d' \<le> 0)"
proof -
  have ok: "CheckDecision ex_gate ex_buy = None"
    by (simp add: gate_eval f64_eval ex_gate_def ex_buy_def)
  have g: "t_gate ex_trader = ex_gate" "\<not> stored ex_trader"
    by (simp_all add: ex_trader_def ex_gate_def)
  have d: "d_Action ex_buy = ActionBuyYes" "d_TokenID ex_buy = ''1''" "\<not> d_LimitPrice ex_buy \<le> 0"
    by (simp_all add: ex_buy_def f64_eval zero_f64_def)
  have "\<exists>out s. executeDecisionWithOutcome (plain_env preview_ops) ex_buy (ex_trader, []) = (out, ex_trader, s) \<and> length s = 1"
    by (simp add: executeDecisionWithOutcome_def executeTradeOutcome_def trade_result_def saveOrderRecord_def
        plain_env_def preview_ops_def empty_order_result_def g d ok Let_def)
  then obtain out s where e: "executeDecisionWithOutcome (plain_env preview_ops) ex_buy (ex_trader, []) = (out, ex_trader, s)"
    and s: "length s = 1" by blast
  from s have "(ex_trader, s) \<noteq> (ex_trader, [])" by auto
  from no_trade_without_approval [OF e this] show ?thesis
    using e s by (auto simp: d g)
qed

theorem cycle_volume_consistent_witness:
  "let t' = fst (snd (execute_all (plain_env (sim_ops 0 id id ex_reader)) [ex_ai_buy, ex_buy] (ex_trader, ex_venue))) in
     g_dailyVolume (t_gate t') = t_dailyVolume t' \<and> is64 (t_dailyVolume t')"
  by (rule cycle_volume_consistent) (simp_all add: plain_env_def ex_trader_def NewGate_def)

section \<open>The cycle runs the gate\<close>

text \<open>
  The gate's view of one decision: a filled one was approved in the form it was sent in, and the gate
  has booked the dollars it filled; any other leaves the gate as it was.
\<close>

definition gate_step :: "gate \<Rightarrow> (trader_err + decision) \<Rightarrow> execution_outcome \<Rightarrow> gate \<Rightarrow> bool" where
  "gate_step g sent out g' \<longleftrightarrow>
     (if eo_Status out = ''filled'' then
        \<exists>d'. sent = Inr d' \<and> (is_buy (d_Action d') \<or> d_Action d' = ActionSell) \<and> CheckDecision g d' = None \<and>
          eo_Action out = d_Action d' \<and> g' = gate_fill g d' (eo_FillUsd out)
      else g' = g)"

lemma gate_step_skip: "eo_Status out \<noteq> ''filled'' \<Longrightarrow> gate_step g sent out g"
  by (simp add: gate_step_def)

lemma book_fill_outcome:
  "book_fill env d r usd out ts = (out', ts') \<Longrightarrow>
   eo_Status out' = ''filled'' \<and> eo_FillUsd out' = usd \<and> eo_Action out' = eo_Action out \<and> t_gate (fst ts') = gate_fill (t_gate (fst ts)) d usd"
  using book_fill_trader [of env d r usd out ts] by (auto simp: book_fill_def Let_def split: if_split_asm)

lemma step_book_fill:
  assumes "book_fill env d r usd out ts = (out', ts')" "CheckDecision (t_gate (fst ts)) d = None"
    "is_buy (d_Action d) \<or> d_Action d = ActionSell" "eo_Action out = d_Action d"
  shows "gate_step (t_gate (fst ts)) (Inr d) out' (t_gate (fst ts'))"
  using book_fill_outcome [OF assms(1)] assms(2-4) by (simp add: gate_step_def)

lemma step_trade_result:
  assumes "trade_result env d r out ts = (out', ts')" "CheckDecision (t_gate (fst ts)) d = None"
    "is_buy (d_Action d) \<or> d_Action d = ActionSell" "eo_Action out = d_Action d"
  shows "gate_step (t_gate (fst ts)) (Inr d) out' (t_gate (fst ts'))"
proof -
  have skip: "gate_step (t_gate (fst ts)) (Inr d) o1 (t_gate (fst (saveOrderRecord env d r o1 (fst ts, s))))"
    if "eo_Status o1 \<noteq> ''filled''" for o1 s using gate_step_skip [OF that] by simp
  have act: "eo_Action (out\<lparr>eo_OrderID := x\<rparr>) = d_Action d" for x using assms(4) by simp
  consider (preview) "or_Status r = ''preview'' \<or> has_prefix (or_OrderID r) ''preview-''"
    | (matched) "\<not> (or_Status r = ''preview'' \<or> has_prefix (or_OrderID r) ''preview-'')"
        "or_Status r = ''matched'' \<or> or_FilledShares r > 0"
    | (poll) "\<not> (or_Status r = ''preview'' \<or> has_prefix (or_OrderID r) ''preview-'')"
        "\<not> (or_Status r = ''matched'' \<or> or_FilledShares r > 0)" by blast
  then show ?thesis
  proof cases
    case preview
    then show ?thesis using assms(1) skip [of _ "snd ts"] by (auto simp: trade_result_def Let_def)
  next
    case matched
    then show ?thesis using assms(1) by (auto simp: trade_result_def Let_def intro: step_book_fill [OF _ assms(2,3) act])
  next
    case poll
    obtain usd s where c: "confirmedFillUsd env d r (snd ts) = (usd, s)" by (rule prod.exhaust)
    show ?thesis
    proof (cases usd)
      case None
      then show ?thesis using assms(1) poll c skip by (auto simp: trade_result_def Let_def)
    next
      case (Some u)
      then have "book_fill env d r u (out\<lparr>eo_OrderID := or_OrderID r\<rparr>) (fst ts, s) = (out', ts')"
        using assms(1) poll c by (auto simp: trade_result_def Let_def)
      then show ?thesis using step_book_fill [of env d r u _ "(fst ts, s)"] assms(2,3) act by simp
    qed
  qed
qed

lemma step_executeTrade:
  assumes "executeTradeOutcome env d ts = (out', ts')" "CheckDecision (t_gate (fst ts)) d = None"
    "is_buy (d_Action d) \<or> d_Action d = ActionSell"
  shows "gate_step (t_gate (fst ts)) (Inr d) out' (t_gate (fst ts'))"
proof (cases ts)
  case (Pair t s)
  have step: "gate_step (t_gate t) (Inr d) out' (t_gate (fst ts'))"
    if "trade_result env d r (outcome_of d) (t, s') = (out', ts')" for r s'
    using step_trade_result [OF that] assms(2,3) by (simp add: Pair outcome_of_def)
  show ?thesis using assms(1) unfolding Pair
    by (auto simp: executeTradeOutcome_def Let_def failed_def outcome_of_def intro!: gate_step_skip
        intro: step [unfolded outcome_of_def] split: if_split_asm prod.splits sum.splits option.splits)
qed

lemma step_executeDecision:
  assumes "executeDecisionWithOutcome env d ts = (out, ts')"
  shows "gate_step (t_gate (fst ts)) (prepared env ts d) out (t_gate (fst ts'))"
proof (cases "is_buy (d_Action d) \<or> d_Action d = ActionSell")
  case True
  have step: "gate_step (t_gate (fst ts)) (Inr d') out (t_gate (fst ts'))"
    if "prepared env ts d = Inr d'" "CheckDecision (t_gate (fst ts)) d' = None" "executeTradeOutcome env d' ts = (out, ts')"
    for d' using step_executeTrade [OF that(3,2)] prepared_action [OF that(1)] True that(1) by simp
  from True show ?thesis using assms
    by (auto simp: executeDecision_trade failed_def outcome_of_def intro!: gate_step_skip intro: step
        split: sum.splits option.splits)
next
  case False
  then show ?thesis using assms
    by (cases ts; cases "d_Action d")
      (auto simp: is_buy_def executeDecisionWithOutcome_def Let_def failed_def outcome_of_def intro!: gate_step_skip
        split: option.splits prod.splits)
qed

text \<open>The trader and the world after the first \<open>i\<close> decisions.\<close>

definition state_after :: "'s env \<Rightarrow> decision list \<Rightarrow> trader \<times> 's \<Rightarrow> nat \<Rightarrow> trader \<times> 's" where
  "state_after env ds ts i = snd (execute_all env (take i ds) ts)"

lemma prepared_controlled: "prepared env (controlled env s t, s) d = prepared env (t, s) d"
  by (simp add: prepared_def)

lemma execute_all_step:
  assumes "\<not> shouldAbortExecution (controlled env (snd ts) (fst ts))"
    and "executeDecisionWithOutcome env d (controlled env (snd ts) (fst ts), snd ts) = (out, t, s)"
  shows "execute_all env (d # ds) ts =
    (out # fst (execute_all env ds (t, auditExecution env t out s)), snd (execute_all env ds (t, auditExecution env t out s)))"
  using assms by (simp add: case_prod_beta Let_def)

text \<open>
  C6: a cycle is a run of the gate.  Executing any decisions, on any venue, moves the gate decision by decision.
  Where the outcome is a fill, the decision in its place, in the form it was sent in (a sell is normalised
  against the positions the venue reports at that moment), was approved by the gate as the decisions before it
  left it, and the gate has booked exactly the dollars the outcome reports; where it is not, the gate
  has not changed.
\<close>

theorem cycle_refines_gate_run:
  "let outs = fst (execute_all env ds ts); st = state_after env ds ts in
     length outs \<le> length ds \<and> t_gate (fst (st 0)) = t_gate (fst ts) \<and>
     t_gate (fst (st (length outs))) = t_gate (fst (snd (execute_all env ds ts))) \<and>
     (\<forall>i < length outs.
        gate_step (t_gate (fst (st i))) (prepared env (st i) (ds ! i)) (outs ! i) (t_gate (fst (st (Suc i)))))"
proof (induction ds arbitrary: ts)
  case (Cons d ds)
  show ?case
  proof (cases "shouldAbortExecution (controlled env (snd ts) (fst ts))")
    case True
    then show ?thesis by (simp add: state_after_def)
  next
    case False
    obtain out t s where e: "executeDecisionWithOutcome env d (controlled env (snd ts) (fst ts), snd ts) = (out, t, s)" by (rule prod_cases3)
    let ?ts1 = "(t, auditExecution env t out s)"
    note run = execute_all_step [OF False e]
    have at0: "state_after env (d # ds) ts 0 = ts" by (simp add: state_after_def)
    have atS: "state_after env (d # ds) ts (Suc i) = state_after env ds ?ts1 i" for i
      unfolding state_after_def take_Suc_Cons run by simp
    have first: "state_after env ds ?ts1 0 = ?ts1" by (simp add: state_after_def)
    have head: "gate_step (t_gate (fst ts)) (prepared env ts d) out (t_gate t)"
      using step_executeDecision [OF e] prepared_controlled [of env "snd ts" "fst ts" d] by simp
    have "gate_step (t_gate (fst (state_after env (d # ds) ts i))) (prepared env (state_after env (d # ds) ts i) ((d # ds) ! i))
        (fst (execute_all env (d # ds) ts) ! i) (t_gate (fst (state_after env (d # ds) ts (Suc i))))"
      if "i < length (fst (execute_all env (d # ds) ts))" for i
    proof (cases i)
      case 0
      then show ?thesis using head by (simp only: at0 atS first run fst_conv nth_Cons_0)
    next
      case (Suc j)
      then show ?thesis using Cons.IH [of ?ts1] that by (simp only: atS run fst_conv nth_Cons_Suc Let_def) simp
    qed
    then show ?thesis using Cons.IH [of ?ts1] at0 atS
      by (simp add: Let_def run del: execute_all.simps)
  qed
qed (simp add: state_after_def)

text \<open>A venue that matches every order for twenty dollars.\<close>

definition matching_ops :: "limit_order_req list venue_ops" where
  "matching_ops = preview_ops\<lparr>vn_PlaceLimitOrder := (\<lambda>s r. (Inr (Some (empty_order_result\<lparr>or_OrderID := ''1'', or_Status := ''matched'',
     or_FilledShares := fl 40, or_FilledUsd := fl 20\<rparr>)), s @ [r]))\<rparr>"

theorem cycle_refines_gate_run_witness:
  "let r = execute_all (plain_env matching_ops) [ex_buy] (ex_trader, [])
   in map eo_Status (fst r) = [''filled''] \<and> t_gate (fst (snd r)) = gate_fill ex_gate ex_buy (fl 20)"
proof -
  let ?env = "plain_env matching_ops"
  have ok: "CheckDecision ex_gate ex_buy = None"
    by (simp add: gate_eval f64_eval ex_gate_def ex_buy_def)
  have g: "t_gate ex_trader = ex_gate" "\<not> stored ex_trader" by (simp_all add: ex_trader_def ex_gate_def)
  have d: "d_Action ex_buy = ActionBuyYes" "d_TokenID ex_buy = ''1''" "\<not> d_LimitPrice ex_buy \<le> 0" "\<not> fl 20 \<le> 0"
    by (simp_all add: ex_buy_def f64_eval zero_f64_def)
  have c: "controlled ?env [] ex_trader = ex_trader" by (simp add: controlled_def plain_env_def)
  have run: "\<not> shouldAbortExecution ex_trader" by (simp add: shouldAbortExecution_def ex_trader_def)
  have pre: "\<not> has_prefix ''1'' ''preview-''" by code_simp
  obtain out t s where e: "executeDecisionWithOutcome ?env ex_buy (ex_trader, []) = (out, t, s)" by (rule prod_cases3)
  then have f: "eo_Status out = ''filled''" "eo_FillUsd out = fl 20"
    using pre by (auto simp: executeDecisionWithOutcome_def executeTradeOutcome_def trade_result_def book_fill_def
        plain_env_def preview_ops_def matching_ops_def empty_order_result_def g d ok Let_def)
  have x: "fst (execute_all ?env [ex_buy] (ex_trader, [])) = [out]"
    using e c run by (simp add: Let_def)
  have p: "prepared ?env (state_after ?env [ex_buy] (ex_trader, []) 0) ex_buy = Inr ex_buy" by (simp add: prepared_def d)
  let ?st = "state_after ?env [ex_buy] (ex_trader, [])"
  have "t_gate (fst (?st 0)) = ex_gate \<and>
      t_gate (fst (?st (Suc 0))) = t_gate (fst (snd (execute_all ?env [ex_buy] (ex_trader, [])))) \<and>
      gate_step (t_gate (fst (?st 0))) (prepared ?env (?st 0) ex_buy) out (t_gate (fst (?st (Suc 0))))"
    using cycle_refines_gate_run [of ?env "[ex_buy]" "(ex_trader, [])"] by (auto simp: x g Let_def simp del: execute_all.simps)
  then obtain s: "t_gate (fst (?st 0)) = ex_gate" "t_gate (fst (?st (Suc 0))) = t_gate (fst (snd (execute_all ?env [ex_buy] (ex_trader, []))))"
    and "gate_step (t_gate (fst (?st 0))) (prepared ?env (?st 0) ex_buy) out (t_gate (fst (?st (Suc 0))))" by blast
  then have "gate_step ex_gate (Inr ex_buy) out (t_gate (fst (snd (execute_all ?env [ex_buy] (ex_trader, [])))))"
    by (simp only: p s(1,2))
  then show ?thesis using x f by (simp add: gate_step_def Let_def del: execute_all.simps)
qed

end
