(* ===== verification/Trader_Sell.thy ===== *)
theory Trader_Sell
  imports Trader_Correct
begin

text \<open>
  The numeric side of the trader: a normalised sell fits the position it closes, both for the gate
  and for the ledger, and a polled fill never books more than was asked for.
\<close>

section \<open>Normalised sells\<close>

lemma rnd_upper: "rnd x \<le> x + \<bar>x\<bar> / 2 ^ 53 + 1 / 2 ^ 70" and rnd_lower: "x - \<bar>x\<bar> / 2 ^ 53 - 1 / 2 ^ 70 \<le> rnd x"
  using abs_le_D1 [OF rnd_err_moderate [of x]] abs_le_D2 [OF rnd_err_moderate [of x]] by linarith+

lemma eps9_Fin: obtains e where "eps9 = Fin e" "1 / 1000000001 \<le> e" "e \<le> 1 / 999999999"
proof (rule that)
  show "eps9 = Fin (rnd (1 / 1000000000))" unfolding eps9_def by (rule fl_moderate) simp
qed (simp_all add: f64_eval)

lemma rnd_self: "is64 (Fin r) \<Longrightarrow> \<bar>r\<bar> \<le> 2 ^ 60 \<Longrightarrow> rnd r = r"
  using fl_exact [of r] fl_moderate [of r] by simp

lemma rnd_one_million: "x \<le> 1000000 \<Longrightarrow> rnd x \<le> 1000000"
  using rnd_mono [of x 1000000] rnd_of_int [of 1000000] by simp

text \<open>The rational core: what is sold after the size was cut to the shares held.\<close>

lemma recomputed_shares_fit:
  assumes S: "0 < S" "S \<le> 1000000" and L: "1 / 2000 \<le> L" "L \<le> 1" and e: "1 / 1000000001 \<le> e" "e \<le> 1 / 999999999"
  shows "rnd (rnd (S * L) / L) \<le> rnd (S + e)"
proof -
  have L0: "0 < L" using L by linarith
  have SL: "0 \<le> S * L" "S * L \<le> 1000000 * 1" using S L mult_mono [of S 1000000 L 1] by auto
  have a: "rnd (S * L) \<le> S * L + S * L / 2 ^ 53 + 1 / 2 ^ 70" using rnd_upper [of "S * L"] SL by simp
  have "rnd (S * L) / L \<le> (S * L + S * L / 2 ^ 53 + 1 / 2 ^ 70) / L"
    using a L0 by (intro divide_right_mono) auto
  also have "\<dots> = S + S / 2 ^ 53 + (1 / 2 ^ 70) / L" using L0 by (simp add: field_simps)
  also have "(1 / 2 ^ 70) / L \<le> (1 / 2 ^ 70) / (1 / 2000)" using L by (intro divide_left_mono) auto
  finally have b: "rnd (S * L) / L \<le> S + S / 2 ^ 53 + 2000 / 2 ^ 70" by simp
  define X where "X = S + S / 2 ^ 53 + 2000 / 2 ^ 70"
  have X: "0 \<le> X" "X \<le> S + 1 / 5000000000" "X \<le> 1000001" using S by (auto simp: X_def)
  have "rnd (rnd (S * L) / L) \<le> rnd X" using b unfolding X_def by (rule rnd_mono)
  also have "\<dots> \<le> X + X / 2 ^ 53 + 1 / 2 ^ 70" using rnd_upper [of X] X(1) by simp
  also have "\<dots> \<le> S + 1 / 2500000000" using X by simp
  also have "\<dots> \<le> (S + e) - (S + e) / 2 ^ 53 - 1 / 2 ^ 70"
  proof -
    have "(S + e) / 2 ^ 53 \<le> 1000001 / 2 ^ 53" using S e by (intro divide_right_mono) auto
    moreover have "1000001 / 2 ^ 53 + 1 / 2 ^ 70 \<le> (1 / 5000000000 :: rat)" by simp
    moreover have "1 / 2500000000 + 1 / 5000000000 \<le> (1 / 1000000001 :: rat)" by simp
    ultimately show ?thesis using e(1) by linarith
  qed
  also have "\<dots> \<le> rnd (S + e)" using rnd_lower [of "S + e"] S e by simp
  finally show ?thesis .
qed

lemma sell_size_core:
  assumes S: "0 < S" "S \<le> 1000000" "is64 (Fin S)" and M: "0 < M" "M \<le> 1"
    and L: "1 / 2000 \<le> L" "L \<le> 1" and z: "z \<noteq> NaN" "is64 z"
  obtains y where "sell_size (Fin S) (Fin M) (Fin L) z = Fin y" "is64 (Fin y)" "0 \<le> y" "y \<le> rnd (S * M)"
    "fl (y / L) \<le> Fin S \<or> y = rnd (S * L)"
proof -
  have L0: "0 < L" using L by linarith
  have SM: "0 \<le> S * M" "S * M \<le> 1000000" using S M mult_mono [of S 1000000 M 1] by auto
  have SL: "0 \<le> S * L" "S * L \<le> 1000000" using S L mult_mono [of S 1000000 L 1] by auto
  have P: "fl (S * M) = Fin (rnd (S * M))" using SM by (intro fl_moderate) simp
  have Q: "fl (S * L) = Fin (rnd (S * L))" using SL by (intro fl_moderate) simp
  have P0: "0 \<le> rnd (S * M)" "rnd (S * M) \<le> 1000000"
    using rnd_mono [OF SM(1)] rnd_one_million [OF SM(2)] by (auto simp: rnd_self)
  have Q0: "0 \<le> rnd (S * L)" using rnd_mono [OF SL(1)] by (simp add: rnd_self)
  define sz where "sz = (if z \<le> 0 \<or> z > Fin (rnd (S * M)) then Fin (rnd (S * M)) else z)"
  obtain y where y: "sz = Fin y" "0 \<le> y" "y \<le> rnd (S * M)" "is64 (Fin y)"
  proof (cases "z \<le> 0 \<or> z > Fin (rnd (S * M))")
    case True
    then show ?thesis using that [of "rnd (S * M)"] P0 is64_fl [of "S * M"] by (simp add: sz_def P)
  next
    case False
    then obtain r where "z = Fin r" using z by (cases z) (auto simp: zero_f64_def)
    then show ?thesis using that [of r] False z(2) by (auto simp: sz_def zero_f64_def)
  qed
  have eq: "sell_size (Fin S) (Fin M) (Fin L) z = (if fl (y / L) > Fin S then Fin (rnd (S * L)) else Fin y)"
    using y(1) L0 by (simp add: sell_size_def Let_def P Q sz_def)
  show ?thesis
  proof (cases "fl (y / L) > Fin S")
    case True
    have "\<not> y / L \<le> S"
    proof
      assume "y / L \<le> S"
      then have "fl (y / L) \<le> fl S" by (rule fl_mono)
      then show False using True fl_exact [OF S(3)] f64_less_not_le by auto
    qed
    then have "S * L \<le> y" using L0 by (simp add: field_simps)
    then have "rnd (S * L) \<le> rnd y" by (rule rnd_mono)
    then have "rnd (S * L) \<le> y" using rnd_self [OF y(4)] y(2,3) P0 by simp
    then show ?thesis using that [of "rnd (S * L)"] eq True y Q0 is64_fl [of "S * L"] by (simp add: Q)
  next
    case False
    have "fl (y / L) \<noteq> NaN" by simp
    then show ?thesis using that [of y] eq False y by (auto simp: f64_not_less)
  qed
qed

text \<open>
  C28: a normalised sell is never refused for its size.  For a position of at most a million
  shares marked in (0, 1] and a limit price in the range the gate accepts, the decision
  \<open>normalizeSellDecision\<close> returns passes the gate's position check, and the shares the trader then
  orders, the size over the price, are within the tolerance of the simulated ledger.
\<close>

theorem normalized_sell_fits:
  assumes norm: "normalizeSellDecision g ps d = Inr d'"
    and pos: "PositionForToken g (d_TokenID d') = Some p" "op_Shares p = Fin S" "S \<le> 1000000" "is64 (op_Shares p)"
    and mark: "mark_price p = Fin M" "M \<le> 1"
    and limit: "d_LimitPrice d' = Fin L" "1 / 2000 \<le> L" "L \<le> 1"
    and size: "d_SizeUsd d \<noteq> NaN" "is64 (d_SizeUsd d)"
  shows "check_sell_position g d' = None \<and> \<not> op_Shares p + eps9 < d_SizeUsd d' / d_LimitPrice d'"
proof -
  have tok: "d_TokenID d' \<noteq> ''''" using pos(1) by (auto simp: PositionForToken_def split: if_split_asm)
  have ids: "d_TokenID d' = d_TokenID (sell_token ps d)" "d_SizeUsd (sell_token ps d) = d_SizeUsd d"
    using norm by (auto simp: normalizeSellDecision_def Let_def sell_token_def split: if_split_asm option.splits list.splits)
  then have p: "PositionForToken g (d_TokenID (sell_token ps d)) = Some p" using pos(1) by simp
  have m: "(if op_MidPrice p \<le> 0 then op_AvgCost p else op_MidPrice p) = Fin M" using mark(1) by (simp add: mark_price_def)
  note n = norm [unfolded normalizeSellDecision_def Let_def p option.case m]
  have S0: "0 < S" using n pos(2) by (auto simp: zero_f64_def split: if_split_asm)
  have M0: "0 < M" using n by (auto simp: zero_f64_def split: if_split_asm)
  have sz: "d_SizeUsd d' = sell_size (Fin S) (Fin M) (Fin L) (d_SizeUsd d)"
    using n limit(1) ids(2) pos(2) by (auto split: if_split_asm)
  obtain y where y: "d_SizeUsd d' = Fin y" "is64 (Fin y)" "0 \<le> y" "y \<le> rnd (S * M)"
      "fl (y / L) \<le> Fin S \<or> y = rnd (S * L)"
    using sell_size_core [OF S0 pos(3) _ M0 mark(2) limit(2,3) size] pos(2,4) sz by auto
  have SM: "0 \<le> S * M" "S * M \<le> 1000000" using S0 M0 pos(3) mark(2) mult_mono [of S 1000000 M 1] by auto
  have P: "fl (S * M) = Fin (rnd (S * M))" using SM by (intro fl_moderate) simp
  have "\<not> Fin (rnd (S * M)) * fl (101 / 100) < Fin y"
  proof -
    have P0: "0 \<le> rnd (S * M)" using rnd_mono [OF SM(1)] by (simp add: rnd_self)
    define q :: rat where "q = 4548635623644201 / 4503599627370496"
    have q: "fl (101 / 100) = Fin q" "1 \<le> q" by (simp_all add: f64_eval q_def)
    have "fl (rnd (S * M)) \<le> fl (rnd (S * M) * q)"
      using P0 q(2) mult_left_mono [of 1 q "rnd (S * M)"] by (intro fl_mono) simp
    then have "Fin (rnd (S * M)) \<le> Fin (rnd (S * M)) * fl (101 / 100)"
      using fl_exact [of "rnd (S * M)"] is64_fl [of "S * M"] by (simp add: q P)
    moreover have "Fin y \<le> Fin (rnd (S * M))" using y(4) by simp
    ultimately have "Fin y \<le> Fin (rnd (S * M)) * fl (101 / 100)" by (rule f64_le_trans [rotated])
    then show ?thesis using f64_less_not_le by blast
  qed
  moreover have "map_of (g_positionsByToken g) (d_TokenID d') = Some p"
    using pos(1) tok by (simp add: PositionForToken_def)
  ultimately have gate_ok: "check_sell_position g d' = None"
    using tok S0 pos(2) mark(1) y(1) P by (simp add: check_sell_position_def zero_f64_def)
  obtain e where e: "eps9 = Fin e" "1 / 1000000001 \<le> e" "e \<le> 1 / 999999999" by (rule eps9_Fin)
  have Se: "fl (S + e) = Fin (rnd (S + e))" using S0 pos(3) e by (intro fl_moderate) simp
  have L0: "0 < L" using limit(2) by linarith
  from y(5) have "\<not> Fin S + eps9 < fl (y / L)"
  proof
    assume le: "fl (y / L) \<le> Fin S"
    have "Fin S \<le> Fin S + eps9"
      using f64_le_plus [of "Fin S" eps9] pos(2,4) S0 eps9_pos f64_less_imp_le by (simp add: zero_f64_def)
    then show ?thesis using le f64_le_trans f64_less_not_le by blast
  next
    assume yL: "y = rnd (S * L)"
    have "y / L \<le> 4000000000"
    proof -
      have "y \<le> 2000000" using y(4) rnd_one_million [OF SM(2)] by simp
      then have "y / L \<le> 2000000 / (1 / 2000)" using limit(2) y(3) L0 by (intro frac_le) auto
      then show ?thesis by simp
    qed
    then have "fl (y / L) = Fin (rnd (y / L))" using y(3) L0 by (intro fl_moderate) simp
    then show ?thesis
      using recomputed_shares_fit [OF S0 pos(3) limit(2,3) e(2,3)] by (simp add: yL e(1) Se)
  qed
  then show ?thesis using gate_ok L0 by (simp add: y(1) limit(1) pos(2))
qed

definition ex_pos :: outcome_position where
  "ex_pos = \<lparr>op_TokenID = ''tok'', op_MarketSlug = ''rain'', op_Outcome = ''YES'', op_Shares = fl 10,
     op_AvgCost = fl (1 / 2), op_MidPrice = fl (1 / 2)\<rparr>"

definition ex_sell :: decision where
  "ex_sell = empty_decision\<lparr>d_MarketSlug := ''rain'', d_Action := ActionSell, d_SizeUsd := fl 3, d_LimitPrice := fl (1 / 2)\<rparr>"

definition ex_sell_gate :: gate where
  "ex_sell_gate = (NewGate DefaultConfig)\<lparr>g_positionsByToken := [(''tok'', ex_pos)]\<rparr>"

lemma ex_normalize: "normalizeSellDecision ex_sell_gate [ex_pos] ex_sell = Inr (ex_sell\<lparr>d_TokenID := ''tok''\<rparr>)"
proof -
  have n: "\<not> fl 10 \<le> 0" "\<not> fl (1 / 2) \<le> 0" "0 < fl 10" "\<not> fl 3 \<le> 0" "fl 10 * fl (1 / 2) = fl 5"
    "\<not> fl 5 < fl 3" "fl 3 / fl (1 / 2) = fl 6" "\<not> fl 10 < fl 6"
    by (simp_all add: f64_eval zero_f64_def)
  show ?thesis
    by (simp add: normalizeSellDecision_def sell_token_def ex_sell_gate_def PositionForToken_def ex_sell_def
        empty_decision_def ex_pos_def sell_limit_def sell_size_def n)
qed

theorem normalized_sell_fits_witness:
  "check_sell_position ex_sell_gate (ex_sell\<lparr>d_TokenID := ''tok''\<rparr>) = None \<and> \<not> fl 10 + eps9 < fl 3 / fl (1 / 2)"
proof -
  have f: "fl 10 = Fin 10" "fl (1 / 2) = Fin (1 / 2)" by (simp_all add: f64_eval)
  have half: "\<not> fl (1 / 2) \<le> 0" by (simp add: f64_eval zero_f64_def)
  have p: "PositionForToken ex_sell_gate ''tok'' = Some ex_pos" "op_Shares ex_pos = fl 10" "mark_price ex_pos = fl (1 / 2)"
    using half by (simp_all add: PositionForToken_def ex_sell_gate_def ex_pos_def mark_price_def)
  have d: "d_SizeUsd ex_sell = fl 3" "d_LimitPrice ex_sell = fl (1 / 2)" by (simp_all add: ex_sell_def)
  show ?thesis
    using normalized_sell_fits [OF ex_normalize, of ex_pos 10 "1 / 2" "1 / 2"] is64_fl [of 10] p d
    by (simp add: f)
qed

section \<open>Polled fills\<close>

text \<open>
  a fill confirmed by polling never books more than the decision's size: if the exchange never
  reports more matched than ordered, the dollars are at most \<open>SizeUsd\<close>; and no number of failed
  polls books anything.
\<close>

theorem polled_fill_bounded:
  assumes poll: "confirmedFillUsd env d r s = (Some usd, s')"
    and honest: "\<And>s oid st s'. vn_GetOrderStatus (w_venue env) s oid = (Inr (Some st), s') \<Longrightarrow>
        os_SizeMatched st \<le> os_OriginalSize st \<and> finite64 (os_SizeMatched st) \<and> finite64 (os_OriginalSize st)"
    and size: "d_SizeUsd d = Fin z" "0 \<le> z" "is64 (d_SizeUsd d)"
  shows "usd \<le> d_SizeUsd d"
proof -
  have part: "d_SizeUsd d * (m / n) \<le> d_SizeUsd d"
    if mn: "\<not> m \<le> 0" "m \<le> n" "finite64 m" "finite64 n" for m n
  proof -
    obtain a b where ab: "m = Fin a" "n = Fin b" "0 < a" "a \<le> b"
      using mn by (cases m; cases n) (auto simp: finite64_def zero_f64_def)
    then have q: "0 \<le> a / b" "a / b \<le> 1" by auto
    then have "\<bar>a / b\<bar> \<le> 2 ^ 60" by simp
    then have mdiv: "m / n = Fin (rnd (a / b))" using ab fl_moderate [of "a / b"] by simp
    have "rnd (a / b) \<le> 1" using rnd_mono [OF q(2)] rnd_of_int [of 1] by simp
    then have "z * rnd (a / b) \<le> z" using size(2) mult_left_mono [of "rnd (a / b)" 1 z] by simp
    then have "fl (z * rnd (a / b)) \<le> fl z" by (rule fl_mono)
    then show ?thesis using size fl_exact by (simp add: mdiv)
  qed
  have "usd \<le> d_SizeUsd d" if "poll_fill env d oid k s = (Some usd, s')" for oid k s
    using that
  proof (induction k arbitrary: s)
    case (Suc k)
    have self: "d_SizeUsd d \<le> d_SizeUsd d" using size(1) by simp
    show ?case using Suc part honest [of s oid] self
      by (auto split: prod.splits sum.splits option.splits if_split_asm)
  qed simp
  then show ?thesis using poll by (auto simp: confirmedFillUsd_def split: if_split_asm)
qed

definition half_filled :: "unit venue_ops" where
  "half_filled = ex_ops\<lparr>vn_GetOrderStatus := \<lambda>s oid. (Inr (Some \<lparr>os_OrderID = oid, os_SizeMatched = fl 5,
     os_OriginalSize = fl 10, os_Status = ''live'', os_Terminal = False\<rparr>), s)\<rparr>"

theorem polled_fill_bounded_witness:
  "\<exists>usd. confirmedFillUsd (plain_env half_filled) ex_sell (empty_order_result\<lparr>or_OrderID := ''x''\<rparr>) () = (Some usd, ()) \<and>
     usd \<le> fl 3"
proof -
  have n: "\<not> fl 5 \<le> 0" "0 < fl 10" "fl 5 \<le> fl 10" "finite64 (fl 5)" "finite64 (fl 10)"
    and f: "fl 3 = Fin 3" by (simp_all add: f64_eval zero_f64_def finite64_def)
  have d: "d_SizeUsd ex_sell = fl 3" by (simp add: ex_sell_def)
  have p: "\<not> has_prefix ''x'' ''preview-''" by code_simp
  have "poll_fill (plain_env half_filled) ex_sell ''x'' 4 () = (Some (fl 3 * (fl 5 / fl 10)), ())"
    by (simp add: numeral_eq_Suc plain_env_def half_filled_def n d)
  then have c: "confirmedFillUsd (plain_env half_filled) ex_sell (empty_order_result\<lparr>or_OrderID := ''x''\<rparr>) () =
      (Some (fl 3 * (fl 5 / fl 10)), ())"
    using p by (simp add: confirmedFillUsd_def)
  have "fl 3 * (fl 5 / fl 10) \<le> d_SizeUsd ex_sell"
    by (rule polled_fill_bounded [OF c, of 3])
      (use is64_fl [of 3] in \<open>auto simp: plain_env_def half_filled_def n d f\<close>)
  then show ?thesis using c by (simp add: d)
qed

end
