(* ===== verification/Pred_Store.thy ===== *)
theory Pred_Store
  imports Pred_Trader Sim_Venue
begin

text \<open>
  \<open>store/prediction*.go\<close>: the rows of the prediction tables and the operations of
  \<open>PredictionStore\<close> on them.

  The database and gorm are reached through the record \<open>table\<close>: one field per chain of gorm calls
  the code uses.  What the code relies on of them is stated after the operations, each law on its
  own; rows come back in an order the database chooses wherever the code asks for none.
\<close>

section \<open>Rows and tables\<close>

text \<open>A row that belongs to a trader: its key, its owner and its timestamp are the database's.\<close>

record 'a db_row =
  db_ID :: int
  db_TraderID :: gostring
  db_Time :: int
  db_Data :: 'a

record trader_row =
  tr_ID :: gostring
  tr_UserID :: gostring
  tr_Name :: gostring
  tr_AIModelID :: gostring
  tr_Venue :: gostring
  tr_PrivateKey :: gostring
  tr_ProxyAddress :: gostring
  tr_SignatureType :: int
  tr_StrategyJSON :: gostring
  tr_ScanIntervalMinutes :: int
  tr_PreviewMode :: bool
  tr_TradingMode :: gostring
  tr_SimConfigJSON :: gostring
  tr_IsRunning :: bool
  tr_ShowInCompetition :: bool
  tr_CreatedAt :: int

record risk_row =
  rk_TraderID :: gostring
  rk_VolumeDay :: gostring
  rk_DailyVolumeUsd :: f64

record sim_account =
  sa_TraderID :: gostring
  sa_CashUsdc :: f64
  sa_InitialBalance :: f64

record sim_position =
  sp_TraderID :: gostring
  sp_Meta :: position_meta

text \<open>
  \<open>tb_List\<close> orders by time, newest first or oldest first, and takes an offset and a limit;
  \<open>tb_First\<close> is the first row of a query, nothing for \<open>ErrRecordNotFound\<close>.
\<close>

record ('d, 'r) table =
  tb_Find :: "'d \<Rightarrow> ('r \<Rightarrow> bool) \<Rightarrow> perr + 'r list"
  tb_List :: "'d \<Rightarrow> ('r \<Rightarrow> bool) \<Rightarrow> bool \<Rightarrow> int \<Rightarrow> int option \<Rightarrow> perr + 'r list"
  tb_First :: "'d \<Rightarrow> ('r \<Rightarrow> bool) \<Rightarrow> perr + 'r option"
  tb_Create :: "'d \<Rightarrow> 'r \<Rightarrow> perr option \<times> 'd"
  tb_Save :: "'d \<Rightarrow> 'r \<Rightarrow> perr option \<times> 'd"
  tb_Update :: "'d \<Rightarrow> ('r \<Rightarrow> bool) \<Rightarrow> ('r \<Rightarrow> 'r) \<Rightarrow> perr option \<times> 'd"
  tb_Delete :: "'d \<Rightarrow> ('r \<Rightarrow> bool) \<Rightarrow> perr option \<times> 'd"

record 'd pred_db =
  pd_traders :: "('d, trader_row) table"
  pd_decisions :: "('d, decision_record db_row) table"
  pd_audit :: "('d, audit_record db_row) table"
  pd_orders :: "('d, order_record db_row) table"
  pd_risk :: "('d, risk_row) table"
  pd_accounts :: "('d, sim_account) table"
  pd_positions :: "('d, sim_position) table"
  pd_fills :: "('d, sim_fill db_row) table"
  pd_snapshots :: "('d, sim_snapshot db_row) table"
  pd_Transaction :: "('d \<Rightarrow> perr option \<times> 'd) \<Rightarrow> 'd \<Rightarrow> perr option \<times> 'd"

definition not_found :: perr where
  "not_found = OtherErr ''record not found''"

text \<open>A row about to be created: the database fills in its key and its time.\<close>

definition new_row :: "gostring \<Rightarrow> int \<Rightarrow> 'a \<Rightarrow> 'a db_row" where
  "new_row tid time r = \<lparr>db_ID = 0, db_TraderID = tid, db_Time = time, db_Data = r\<rparr>"

section \<open>Traders\<close>

definition CreateTrader :: "'d pred_db \<Rightarrow> trader_row \<Rightarrow> 'd \<Rightarrow> perr option \<times> 'd" where
  "CreateTrader db t d = tb_Create (pd_traders db) d t"

definition ListTraders :: "'d pred_db \<Rightarrow> gostring \<Rightarrow> 'd \<Rightarrow> perr + trader_row list" where
  "ListTraders db uid d = tb_List (pd_traders db) d (\<lambda>r. tr_UserID r = uid) True 0 None"

definition owned_row :: "gostring \<Rightarrow> gostring \<Rightarrow> trader_row \<Rightarrow> bool" where
  "owned_row uid tid r \<longleftrightarrow> tr_ID r = tid \<and> tr_UserID r = uid"

definition GetTrader :: "'d pred_db \<Rightarrow> gostring \<Rightarrow> gostring \<Rightarrow> 'd \<Rightarrow> perr + trader_row" where
  "GetTrader db uid tid d =
     (case tb_First (pd_traders db) d (owned_row uid tid) of
        Inl e \<Rightarrow> Inl e | Inr None \<Rightarrow> Inl not_found | Inr (Some r) \<Rightarrow> Inr r)"

definition UpdateTrader :: "'d pred_db \<Rightarrow> trader_row \<Rightarrow> 'd \<Rightarrow> perr option \<times> 'd" where
  "UpdateTrader db t d = tb_Update (pd_traders db) d (owned_row (tr_UserID t) (tr_ID t))
     (\<lambda>r. r\<lparr>tr_Name := tr_Name t, tr_AIModelID := tr_AIModelID t, tr_Venue := tr_Venue t,
            tr_ProxyAddress := tr_ProxyAddress t, tr_SignatureType := tr_SignatureType t,
            tr_StrategyJSON := tr_StrategyJSON t, tr_ScanIntervalMinutes := tr_ScanIntervalMinutes t,
            tr_PreviewMode := tr_PreviewMode t, tr_TradingMode := tr_TradingMode t,
            tr_SimConfigJSON := tr_SimConfigJSON t\<rparr>)"

definition UpdatePrivateKey :: "'d pred_db \<Rightarrow> gostring \<Rightarrow> gostring \<Rightarrow> gostring \<Rightarrow> 'd \<Rightarrow> perr option \<times> 'd" where
  "UpdatePrivateKey db uid tid key d =
     (case tb_First (pd_traders db) d (owned_row uid tid) of
        Inl e \<Rightarrow> (Some e, d)
      | Inr None \<Rightarrow> (Some not_found, d)
      | Inr (Some r) \<Rightarrow> tb_Save (pd_traders db) d (r\<lparr>tr_PrivateKey := key\<rparr>))"

definition UpdateStatus :: "'d pred_db \<Rightarrow> gostring \<Rightarrow> gostring \<Rightarrow> bool \<Rightarrow> 'd \<Rightarrow> perr option \<times> 'd" where
  "UpdateStatus db uid tid running d =
     tb_Update (pd_traders db) d (owned_row uid tid) (\<lambda>r. r\<lparr>tr_IsRunning := running\<rparr>)"

definition ListAllTraders :: "'d pred_db \<Rightarrow> 'd \<Rightarrow> perr + trader_row list" where
  "ListAllTraders db d = tb_List (pd_traders db) d (\<lambda>_. True) True 0 None"

definition GetTraderByID :: "'d pred_db \<Rightarrow> gostring \<Rightarrow> 'd \<Rightarrow> perr + trader_row" where
  "GetTraderByID db tid d =
     (case tb_First (pd_traders db) d (\<lambda>r. tr_ID r = tid) of
        Inl e \<Rightarrow> Inl (WrapErr ''prediction trader not found'' e)
      | Inr None \<Rightarrow> Inl (WrapErr ''prediction trader not found'' not_found)
      | Inr (Some r) \<Rightarrow> Inr r)"

definition ListCompetitionTraders :: "'d pred_db \<Rightarrow> 'd \<Rightarrow> perr + trader_row list" where
  "ListCompetitionTraders db d = tb_List (pd_traders db) d tr_ShowInCompetition True 0 None"

definition UpdateShowInCompetition :: "'d pred_db \<Rightarrow> gostring \<Rightarrow> gostring \<Rightarrow> bool \<Rightarrow> 'd \<Rightarrow> perr option \<times> 'd" where
  "UpdateShowInCompetition db uid tid sh d =
     tb_Update (pd_traders db) d (owned_row uid tid) (\<lambda>r. r\<lparr>tr_ShowInCompetition := sh\<rparr>)"

text \<open>
  The column defaults of \<open>PredictionTraderDB\<close>: what gorm stores in the place of a zero value when it
  creates a row.
\<close>

definition trader_defaults :: "trader_row \<Rightarrow> trader_row" where
  "trader_defaults t = t\<lparr>tr_Venue := (if tr_Venue t = '''' then ''polymarket'' else tr_Venue t),
     tr_SignatureType := (if tr_SignatureType t = 0 then 2 else tr_SignatureType t),
     tr_StrategyJSON := (if tr_StrategyJSON t = '''' then ''{}'' else tr_StrategyJSON t),
     tr_ScanIntervalMinutes := (if tr_ScanIntervalMinutes t = 0 then 5 else tr_ScanIntervalMinutes t),
     tr_PreviewMode := True,
     tr_TradingMode := (if tr_TradingMode t = '''' then ''preview'' else tr_TradingMode t),
     tr_SimConfigJSON := (if tr_SimConfigJSON t = '''' then ''{}'' else tr_SimConfigJSON t),
     tr_ShowInCompetition := True\<rparr>"

section \<open>Modes\<close>

definition EffectiveTradingMode :: "trader_row \<Rightarrow> gostring" where
  "EffectiveTradingMode t =
     (if trim_space (tr_TradingMode t) \<in> {''simulation'', ''live'', ''preview''} then tr_TradingMode t
      else if \<not> tr_PreviewMode t then ''live'' else ''preview'')"

definition IsValidTradingMode :: "gostring \<Rightarrow> bool" where
  "IsValidTradingMode tm \<longleftrightarrow> trim_space tm \<in> {'''', ''simulation'', ''preview'', ''live''}"

text \<open>\<open>ParseStrategyJSON\<close> and \<open>ParseSimConfigJSON\<close>: an absent document leaves the value as it is.\<close>

definition ParseStrategyJSON :: "('a \<Rightarrow> gostring \<Rightarrow> perr option \<times> 'a) \<Rightarrow> gostring \<Rightarrow> 'a \<Rightarrow> perr option \<times> 'a" where
  "ParseStrategyJSON unmarshal raw x = (if raw = '''' \<or> raw = ''{}'' then (None, x) else unmarshal x raw)"

definition ParseSimConfigJSON :: "('a \<Rightarrow> gostring \<Rightarrow> perr option \<times> 'a) \<Rightarrow> gostring \<Rightarrow> 'a \<Rightarrow> perr option \<times> 'a" where
  "ParseSimConfigJSON unmarshal raw x = (if raw = '''' \<or> raw = ''{}'' then (None, x) else unmarshal x raw)"

section \<open>Pages\<close>

definition clampPageLimit :: "int \<Rightarrow> int" where
  "clampPageLimit limit = (if limit \<le> 0 then 20 else if limit > 100 then 100 else limit)"

definition clampPageOffset :: "int \<Rightarrow> int" where
  "clampPageOffset offset = (if offset < 0 then 0 else offset)"

text \<open>One row more than the page is asked for, to know whether there are more.\<close>

definition list_page :: "('d, 'a db_row) table \<Rightarrow> gostring \<Rightarrow> int \<Rightarrow> int \<Rightarrow> 'd \<Rightarrow> perr + 'a db_row list \<times> bool" where
  "list_page tb tid limit0 offset0 d =
     (let limit = clampPageLimit limit0; offset = clampPageOffset offset0
      in case tb_List tb d (\<lambda>r. db_TraderID r = tid) True offset (Some (limit + 1)) of
        Inl e \<Rightarrow> Inl e
      | Inr rows \<Rightarrow>
          if int (length rows) > limit then Inr (take (nat limit) rows, True) else Inr (rows, False))"

section \<open>Decisions, audit and orders\<close>

definition SaveDecision :: "'d pred_db \<Rightarrow> gostring \<Rightarrow> decision_record \<Rightarrow> 'd \<Rightarrow> perr option \<times> 'd" where
  "SaveDecision db tid r d = tb_Create (pd_decisions db) d (new_row tid (dr_Timestamp r) r)"

definition DeleteDecisions :: "'d pred_db \<Rightarrow> gostring \<Rightarrow> 'd \<Rightarrow> perr option \<times> 'd" where
  "DeleteDecisions db tid d = tb_Delete (pd_decisions db) d (\<lambda>r. db_TraderID r = tid)"

definition ListDecisionsPage ::
  "'d pred_db \<Rightarrow> gostring \<Rightarrow> int \<Rightarrow> int \<Rightarrow> 'd \<Rightarrow> perr + decision_record db_row list \<times> bool" where
  "ListDecisionsPage db = list_page (pd_decisions db)"

definition ListDecisions :: "'d pred_db \<Rightarrow> gostring \<Rightarrow> int \<Rightarrow> 'd \<Rightarrow> perr + decision_record db_row list" where
  "ListDecisions db tid limit d = map_sum id fst (ListDecisionsPage db tid limit 0 d)"

definition SaveAuditLog :: "'d pred_db \<Rightarrow> gostring \<Rightarrow> audit_record \<Rightarrow> 'd \<Rightarrow> perr option \<times> 'd" where
  "SaveAuditLog db tid r d =
     (if tid = '''' \<or> au_EventType r = '''' then (None, d) else tb_Create (pd_audit db) d (new_row tid 0 r))"

definition ListAuditLogsPage ::
  "'d pred_db \<Rightarrow> gostring \<Rightarrow> int \<Rightarrow> int \<Rightarrow> 'd \<Rightarrow> perr + audit_record db_row list \<times> bool" where
  "ListAuditLogsPage db = list_page (pd_audit db)"

definition ListAuditLogs :: "'d pred_db \<Rightarrow> gostring \<Rightarrow> int \<Rightarrow> 'd \<Rightarrow> perr + audit_record db_row list" where
  "ListAuditLogs db tid limit d = map_sum id fst (ListAuditLogsPage db tid limit 0 d)"

definition DeleteAuditLogs :: "'d pred_db \<Rightarrow> gostring \<Rightarrow> 'd \<Rightarrow> perr option \<times> 'd" where
  "DeleteAuditLogs db tid d = tb_Delete (pd_audit db) d (\<lambda>r. db_TraderID r = tid)"

definition order_key :: "gostring \<Rightarrow> gostring \<Rightarrow> order_record db_row \<Rightarrow> bool" where
  "order_key tid oid r \<longleftrightarrow> db_TraderID r = tid \<and> od_OrderID (db_Data r) = oid"

definition order_updates :: "order_record \<Rightarrow> order_record \<Rightarrow> order_record" where
  "order_updates r old = old\<lparr>od_Status := od_Status r, od_PreviewWire := od_PreviewWire r, od_IsPreview := od_IsPreview r,
     od_CycleNumber := (if od_CycleNumber r > 0 then od_CycleNumber r else od_CycleNumber old)\<rparr>"

definition SaveOrderRecord :: "'d pred_db \<Rightarrow> gostring \<Rightarrow> order_record \<Rightarrow> 'd \<Rightarrow> perr option \<times> 'd" where
  "SaveOrderRecord db tid r d =
     (if tid = '''' \<or> od_OrderID r = '''' then (None, d)
      else case tb_First (pd_orders db) d (order_key tid (od_OrderID r)) of
        Inl e \<Rightarrow> (Some e, d)
      | Inr None \<Rightarrow> tb_Create (pd_orders db) d (new_row tid 0 r)
      | Inr (Some old) \<Rightarrow> tb_Update (pd_orders db) d (\<lambda>x. db_ID x = db_ID old)
          (\<lambda>x. x\<lparr>db_Data := order_updates r (db_Data x)\<rparr>))"

definition UpdateOrderStatus :: "'d pred_db \<Rightarrow> gostring \<Rightarrow> gostring \<Rightarrow> gostring \<Rightarrow> 'd \<Rightarrow> perr option \<times> 'd" where
  "UpdateOrderStatus db tid oid status d =
     tb_Update (pd_orders db) d (order_key tid oid) (\<lambda>x. x\<lparr>db_Data := (db_Data x)\<lparr>od_Status := status\<rparr>\<rparr>)"

definition ListOrderRecordsPage ::
  "'d pred_db \<Rightarrow> gostring \<Rightarrow> int \<Rightarrow> int \<Rightarrow> 'd \<Rightarrow> perr + order_record db_row list \<times> bool" where
  "ListOrderRecordsPage db = list_page (pd_orders db)"

definition ListOrderRecords :: "'d pred_db \<Rightarrow> gostring \<Rightarrow> int \<Rightarrow> 'd \<Rightarrow> perr + order_record db_row list" where
  "ListOrderRecords db tid limit d = map_sum id fst (ListOrderRecordsPage db tid limit 0 d)"

definition GetOrderRecord :: "'d pred_db \<Rightarrow> gostring \<Rightarrow> gostring \<Rightarrow> 'd \<Rightarrow> perr + order_record db_row" where
  "GetOrderRecord db tid oid d =
     (case tb_First (pd_orders db) d (order_key tid oid) of
        Inl e \<Rightarrow> Inl e | Inr None \<Rightarrow> Inl not_found | Inr (Some r) \<Rightarrow> Inr r)"

definition DeleteOrderRecords :: "'d pred_db \<Rightarrow> gostring \<Rightarrow> 'd \<Rightarrow> perr option \<times> 'd" where
  "DeleteOrderRecords db tid d = tb_Delete (pd_orders db) d (\<lambda>r. db_TraderID r = tid)"

section \<open>Risk state\<close>

definition LoadRiskState :: "'d pred_db \<Rightarrow> gostring \<Rightarrow> 'd \<Rightarrow> perr + f64 \<times> gostring" where
  "LoadRiskState db tid d =
     (case tb_First (pd_risk db) d (\<lambda>r. rk_TraderID r = tid) of
        Inl e \<Rightarrow> Inl e | Inr None \<Rightarrow> Inr (0, '''') | Inr (Some r) \<Rightarrow> Inr (rk_DailyVolumeUsd r, rk_VolumeDay r))"

definition SaveRiskState :: "'d pred_db \<Rightarrow> gostring \<Rightarrow> gostring \<Rightarrow> f64 \<Rightarrow> 'd \<Rightarrow> perr option \<times> 'd" where
  "SaveRiskState db tid day vol d =
     tb_Save (pd_risk db) d \<lparr>rk_TraderID = tid, rk_VolumeDay = day, rk_DailyVolumeUsd = vol\<rparr>"

definition DeleteRiskState :: "'d pred_db \<Rightarrow> gostring \<Rightarrow> 'd \<Rightarrow> perr option \<times> 'd" where
  "DeleteRiskState db tid d = tb_Delete (pd_risk db) d (\<lambda>r. rk_TraderID r = tid)"

section \<open>Simulation state\<close>

definition LoadSimAccount :: "'d pred_db \<Rightarrow> gostring \<Rightarrow> 'd \<Rightarrow> perr + (f64 \<times> f64) option" where
  "LoadSimAccount db tid d =
     (case tb_First (pd_accounts db) d (\<lambda>r. sa_TraderID r = tid) of
        Inl e \<Rightarrow> Inl e | Inr None \<Rightarrow> Inr None | Inr (Some r) \<Rightarrow> Inr (Some (sa_CashUsdc r, sa_InitialBalance r)))"

definition ListSimPositions :: "'d pred_db \<Rightarrow> gostring \<Rightarrow> 'd \<Rightarrow> perr + position_meta list" where
  "ListSimPositions db tid d = map_sum id (map sp_Meta) (tb_Find (pd_positions db) d (\<lambda>r. sp_TraderID r = tid))"

fun create_positions :: "'d pred_db \<Rightarrow> gostring \<Rightarrow> position_meta list \<Rightarrow> 'd \<Rightarrow> perr option \<times> 'd" where
  "create_positions db tid [] d = (None, d)"
| "create_positions db tid (p # ps) d =
     (if pm_Shares p \<le> 0 then create_positions db tid ps d
      else case tb_Create (pd_positions db) d \<lparr>sp_TraderID = tid, sp_Meta = p\<rparr> of
        (Some e, d) \<Rightarrow> (Some e, d) | (None, d) \<Rightarrow> create_positions db tid ps d)"

definition save_sim_tx :: "'d pred_db \<Rightarrow> gostring \<Rightarrow> f64 \<Rightarrow> f64 \<Rightarrow> position_meta list \<Rightarrow> 'd \<Rightarrow> perr option \<times> 'd" where
  "save_sim_tx db tid cash initial positions d =
     (case tb_Save (pd_accounts db) d \<lparr>sa_TraderID = tid, sa_CashUsdc = cash, sa_InitialBalance = initial\<rparr> of
        (Some e, d) \<Rightarrow> (Some e, d)
      | (None, d) \<Rightarrow>
         (case tb_Delete (pd_positions db) d (\<lambda>r. sp_TraderID r = tid) of
            (Some e, d) \<Rightarrow> (Some e, d)
          | (None, d) \<Rightarrow> create_positions db tid positions d))"

definition SaveSimState :: "'d pred_db \<Rightarrow> gostring \<Rightarrow> f64 \<Rightarrow> f64 \<Rightarrow> position_meta list \<Rightarrow> 'd \<Rightarrow> perr option \<times> 'd" where
  "SaveSimState db tid cash initial positions d = pd_Transaction db (save_sim_tx db tid cash initial positions) d"

definition SaveSimFillRow :: "'d pred_db \<Rightarrow> gostring \<Rightarrow> sim_fill \<Rightarrow> 'd \<Rightarrow> perr option \<times> 'd" where
  "SaveSimFillRow db tid f d = tb_Create (pd_fills db) d (new_row tid (sf_Timestamp f) f)"

definition ListSimFills :: "'d pred_db \<Rightarrow> gostring \<Rightarrow> int \<Rightarrow> 'd \<Rightarrow> perr + sim_fill db_row list" where
  "ListSimFills db tid limit d =
     tb_List (pd_fills db) d (\<lambda>r. db_TraderID r = tid) True 0 (Some (if limit \<le> 0 then 50 else limit))"

definition SaveSimSnapshotRow :: "'d pred_db \<Rightarrow> gostring \<Rightarrow> sim_snapshot \<Rightarrow> 'd \<Rightarrow> perr option \<times> 'd" where
  "SaveSimSnapshotRow db tid s d = tb_Create (pd_snapshots db) d (new_row tid (ss_Timestamp s) s)"

definition ListSimSnapshotsByTimeRange ::
  "'d pred_db \<Rightarrow> gostring \<Rightarrow> int \<Rightarrow> int \<Rightarrow> int \<Rightarrow> 'd \<Rightarrow> perr + sim_snapshot db_row list" where
  "ListSimSnapshotsByTimeRange db tid st en limit d =
     tb_List (pd_snapshots db) d (\<lambda>r. db_TraderID r = tid \<and> st \<le> db_Time r \<and> db_Time r \<le> en) False 0
       (Some (if limit \<le> 0 then 500 else limit))"

definition ListSimSnapshots :: "'d pred_db \<Rightarrow> gostring \<Rightarrow> int \<Rightarrow> 'd \<Rightarrow> perr + sim_snapshot db_row list" where
  "ListSimSnapshots db tid limit d =
     map_sum id rev (tb_List (pd_snapshots db) d (\<lambda>r. db_TraderID r = tid) True 0 (Some (if limit \<le> 0 then 100 else limit)))"

text \<open>The first error ends a sequence of deletions.\<close>

fun until_error :: "('d \<Rightarrow> perr option \<times> 'd) list \<Rightarrow> 'd \<Rightarrow> perr option \<times> 'd" where
  "until_error [] d = (None, d)"
| "until_error (f # fs) d = (case f d of (Some e, d) \<Rightarrow> (Some e, d) | (None, d) \<Rightarrow> until_error fs d)"

definition DeleteSimData :: "'d pred_db \<Rightarrow> gostring \<Rightarrow> 'd \<Rightarrow> perr option \<times> 'd" where
  "DeleteSimData db tid = until_error
     [\<lambda>d. tb_Delete (pd_fills db) d (\<lambda>r. db_TraderID r = tid),
      \<lambda>d. tb_Delete (pd_snapshots db) d (\<lambda>r. db_TraderID r = tid),
      \<lambda>d. tb_Delete (pd_positions db) d (\<lambda>r. sp_TraderID r = tid),
      \<lambda>d. tb_Delete (pd_accounts db) d (\<lambda>r. sa_TraderID r = tid)]"

text \<open>The rows that hang on a trader go first, whoever asks, and their errors are ignored.\<close>

definition DeleteTrader :: "'d pred_db \<Rightarrow> gostring \<Rightarrow> gostring \<Rightarrow> 'd \<Rightarrow> perr option \<times> 'd" where
  "DeleteTrader db uid tid d0 =
     (let d = snd (DeleteDecisions db tid d0);
          d = snd (DeleteSimData db tid d);
          d = snd (DeleteOrderRecords db tid d);
          d = snd (DeleteRiskState db tid d);
          d = snd (DeleteAuditLogs db tid d)
      in tb_Delete (pd_traders db) d (owned_row uid tid))"

end
