(* ===== verification/Sim_Persist.thy ===== *)
theory Sim_Persist
  imports Pred_Store
begin

text \<open>
  \<open>prediction/sim/persist.go\<close>: how a ledger reaches the database and comes back, the first row of a
  simulation account and its reset; what the code relies on of gorm; and what follows for the
  stored ledger, for pages of rows and for order records.
\<close>

section \<open>Saving and loading\<close>

definition saveLedger :: "'d pred_db \<Rightarrow> token_range \<Rightarrow> gostring \<Rightarrow> ledger \<Rightarrow> 'd \<Rightarrow> perr option \<times> 'd" where
  "saveLedger db rng tid l d = SaveSimState db tid (l_cash l) (l_initial l) (Positions rng l) d"

fun load_rows :: "ledger \<Rightarrow> position_meta list \<Rightarrow> ledger" where
  "load_rows l [] = l"
| "load_rows l (p # ps) = load_rows (if pm_Shares p \<le> 0 then l else RestorePosition l p) ps"

definition LoadLedgerFromStore :: "bool \<Rightarrow> 'd pred_db \<Rightarrow> gostring \<Rightarrow> 'd \<Rightarrow> ledger \<Rightarrow> perr option \<times> ledger" where
  "LoadLedgerFromStore has_store db tid d l =
     (if \<not> has_store \<or> tid = '''' then (None, l)
      else case LoadSimAccount db tid d of
        Inl e \<Rightarrow> (Some e, l)
      | Inr None \<Rightarrow> (None, l)
      | Inr (Some (cash, initial)) \<Rightarrow>
          let l = SetCash l cash; l = (if initial > 0 then setInitial l initial else l)
          in case ListSimPositions db tid d of Inl e \<Rightarrow> (Some e, l) | Inr rows \<Rightarrow> (None, load_rows l rows))"

text \<open>The snapshot of a ledger that holds cash only; there is nothing to price.\<close>

definition start_snapshot :: "int \<Rightarrow> f64 \<Rightarrow> sim_snapshot" where
  "start_snapshot now initial =
     (let l = NewLedger initial; posValue = l_cash l - l_cash l; pnl = l_cash l - l_initial l
      in \<lparr>ss_CycleNumber = 0, ss_CashUsdc = l_cash l, ss_PositionValue = (if posValue < 0 then 0 else posValue),
          ss_TotalEquity = l_cash l, ss_TotalPnl = pnl,
          ss_TotalPnlPct = (if l_initial l > 0 then (pnl / l_initial l) * fl 100 else 0),
          ss_OpenPositions = 0, ss_Timestamp = now\<rparr>)"

definition start_account :: "'d pred_db \<Rightarrow> int \<Rightarrow> gostring \<Rightarrow> sim_config \<Rightarrow> 'd \<Rightarrow> perr option \<times> 'd" where
  "start_account db now tid cfg d =
     (let initial = (if sc_InitialBalanceUsd cfg \<le> 0 then sc_InitialBalanceUsd SimDefaultConfig else sc_InitialBalanceUsd cfg)
      in case SaveSimState db tid initial initial [] d of
           (Some e, d) \<Rightarrow> (Some e, d)
         | (None, d) \<Rightarrow> SaveSimSnapshotRow db tid (start_snapshot now initial) d)"

definition InitLedgerInStore :: "bool \<Rightarrow> 'd pred_db \<Rightarrow> int \<Rightarrow> gostring \<Rightarrow> sim_config \<Rightarrow> 'd \<Rightarrow> perr option \<times> 'd" where
  "InitLedgerInStore has_store db now tid cfg d =
     (if \<not> has_store \<or> tid = '''' then (None, d)
      else case LoadSimAccount db tid d of
        Inl e \<Rightarrow> (Some e, d) | Inr (Some _) \<Rightarrow> (None, d) | Inr None \<Rightarrow> start_account db now tid cfg d)"

definition ResetSimAccount :: "bool \<Rightarrow> 'd pred_db \<Rightarrow> int \<Rightarrow> gostring \<Rightarrow> sim_config \<Rightarrow> 'd \<Rightarrow> perr option \<times> 'd" where
  "ResetSimAccount has_store db now tid cfg d =
     (if \<not> has_store \<or> tid = '''' then (None, d)
      else case DeleteSimData db tid d of
        (Some e, d) \<Rightarrow> (Some e, d)
      | (None, d) \<Rightarrow>
          let d = snd (DeleteDecisions db tid d); d = snd (DeleteOrderRecords db tid d);
              d = snd (DeleteAuditLogs db tid d); d = snd (DeleteRiskState db tid d)
          in start_account db now tid cfg d)"

text \<open>What a venue hands to the database, carried out there; its errors are ignored.\<close>

fun run_effect :: "'d pred_db \<Rightarrow> token_range \<Rightarrow> gostring \<Rightarrow> sim_effect \<Rightarrow> 'd \<Rightarrow> 'd" where
  "run_effect db rng tid (SaveSimFill f) d = snd (SaveSimFillRow db tid f d)"
| "run_effect db rng tid (SaveLedger l) d = snd (saveLedger db rng tid l d)"
| "run_effect db rng tid (SaveSimSnapshot s) d = snd (SaveSimSnapshotRow db tid s d)"

fun run_effects :: "'d pred_db \<Rightarrow> token_range \<Rightarrow> gostring \<Rightarrow> sim_effect list \<Rightarrow> 'd \<Rightarrow> 'd" where
  "run_effects db rng tid [] d = d"
| "run_effects db rng tid (e # es) d = run_effects db rng tid es (run_effect db rng tid e d)"

section \<open>What the code relies on of gorm\<close>

text \<open>
  \<open>rows d\<close> is what a table holds in the database \<open>d\<close>.  A query answers with the matching rows, in the
  order of their times if one is asked for; creating adds a row, saving replaces the row of the same
  primary key, and an operation that fails changes nothing.
\<close>

definition find_law :: "('d, 'r) table \<Rightarrow> ('d \<Rightarrow> 'r list) \<Rightarrow> bool" where
  "find_law T rows \<longleftrightarrow> (\<forall>d p rs. tb_Find T d p = Inr rs \<longrightarrow> mset rs = mset (filter p (rows d)))"

definition list_law :: "('d, 'r) table \<Rightarrow> ('d \<Rightarrow> 'r list) \<Rightarrow> ('r \<Rightarrow> int) \<Rightarrow> bool" where
  "list_law T rows time \<longleftrightarrow> (\<forall>d p desc off lim rs. tb_List T d p desc off lim = Inr rs \<longrightarrow>
     (\<exists>ss. mset ss = mset (filter p (rows d)) \<and> sorted (map time (if desc then rev ss else ss)) \<and>
       rs = (case lim of None \<Rightarrow> drop (nat off) ss | Some n \<Rightarrow> take (nat n) (drop (nat off) ss))))"

definition first_law :: "('d, 'r) table \<Rightarrow> ('d \<Rightarrow> 'r list) \<Rightarrow> bool" where
  "first_law T rows \<longleftrightarrow> (\<forall>d p r. tb_First T d p = Inr r \<longrightarrow>
     (case r of None \<Rightarrow> \<forall>x \<in> set (rows d). \<not> p x | Some x \<Rightarrow> x \<in> set (rows d) \<and> p x))"

definition create_law :: "('d, 'r) table \<Rightarrow> ('d \<Rightarrow> 'r list) \<Rightarrow> ('d \<Rightarrow> 'r \<Rightarrow> 'r) \<Rightarrow> bool" where
  "create_law T rows fill \<longleftrightarrow> (\<forall>d r e d'. tb_Create T d r = (e, d') \<longrightarrow>
     mset (rows d') = (if e = None then add_mset (fill d r) (mset (rows d)) else mset (rows d)))"

definition save_law :: "('d, 'r) table \<Rightarrow> ('d \<Rightarrow> 'r list) \<Rightarrow> ('r \<Rightarrow> 'k) \<Rightarrow> bool" where
  "save_law T rows key \<longleftrightarrow> (\<forall>d r e d'. tb_Save T d r = (e, d') \<longrightarrow>
     mset (rows d') = (if e = None then add_mset r (mset (filter (\<lambda>x. key x \<noteq> key r) (rows d))) else mset (rows d)))"

definition delete_law :: "('d, 'r) table \<Rightarrow> ('d \<Rightarrow> 'r list) \<Rightarrow> bool" where
  "delete_law T rows \<longleftrightarrow> (\<forall>d p e d'. tb_Delete T d p = (e, d') \<longrightarrow>
     mset (rows d') = (if e = None then mset (filter (\<lambda>x. \<not> p x) (rows d)) else mset (rows d)))"

definition update_law :: "('d, 'r) table \<Rightarrow> ('d \<Rightarrow> 'r list) \<Rightarrow> bool" where
  "update_law T rows \<longleftrightarrow> (\<forall>d p u e d'. tb_Update T d p u = (e, d') \<longrightarrow>
     mset (rows d') = (if e = None then image_mset (\<lambda>x. if p x then u x else x) (mset (rows d)) else mset (rows d)))"

text \<open>
  The tables of a simulation: accounts keyed by trader, positions, no operation on one of them or
  on the fills and snapshots touches another, and a transaction that reports success has done what
  its body did.
\<close>

definition sim_db_ok :: "'d pred_db \<Rightarrow> ('d \<Rightarrow> sim_account list) \<Rightarrow> ('d \<Rightarrow> sim_position list) \<Rightarrow> bool" where
  "sim_db_ok db acc pos \<longleftrightarrow>
     first_law (pd_accounts db) acc \<and> save_law (pd_accounts db) acc sa_TraderID \<and>
     find_law (pd_positions db) pos \<and> create_law (pd_positions db) pos (\<lambda>_ r. r) \<and> delete_law (pd_positions db) pos \<and>
     (\<forall>d r. pos (snd (tb_Save (pd_accounts db) d r)) = pos d) \<and>
     (\<forall>d p. acc (snd (tb_Delete (pd_positions db) d p)) = acc d) \<and>
     (\<forall>d r. acc (snd (tb_Create (pd_positions db) d r)) = acc d) \<and>
     (\<forall>f d d'. pd_Transaction db f d = (None, d') \<longrightarrow> f d = (None, d'))"

section \<open>The stored ledger\<close>

text \<open>The database holds a ledger: its one account row and its position rows.\<close>

definition holds_ledger ::
  "('d \<Rightarrow> sim_account list) \<Rightarrow> ('d \<Rightarrow> sim_position list) \<Rightarrow> gostring \<Rightarrow> f64 \<Rightarrow> f64 \<Rightarrow> position_meta list \<Rightarrow> 'd \<Rightarrow> bool" where
  "holds_ledger acc pos tid cash initial ps d \<longleftrightarrow>
     filter (\<lambda>r. sa_TraderID r = tid) (acc d) = [\<lparr>sa_TraderID = tid, sa_CashUsdc = cash, sa_InitialBalance = initial\<rparr>] \<and>
     mset (filter (\<lambda>r. sp_TraderID r = tid) (pos d)) = mset (map (\<lambda>p. \<lparr>sp_TraderID = tid, sp_Meta = p\<rparr>) ps)"

lemma create_positions_rows:
  assumes "create_law (pd_positions db) pos (\<lambda>_ r. r)" "\<And>d r. acc (snd (tb_Create (pd_positions db) d r)) = acc d"
  shows "create_positions db tid ps d = (None, d') \<Longrightarrow>
     acc d' = acc d \<and>
     mset (pos d') = mset (pos d) + mset (map (\<lambda>p. \<lparr>sp_TraderID = tid, sp_Meta = p\<rparr>) (filter (\<lambda>p. \<not> pm_Shares p \<le> 0) ps))"
proof (induction ps arbitrary: d)
  case (Cons p ps)
  show ?case
  proof (cases "pm_Shares p \<le> 0")
    case False
    obtain e d1 where c: "tb_Create (pd_positions db) d \<lparr>sp_TraderID = tid, sp_Meta = p\<rparr> = (e, d1)" by fastforce
    then have e: "e = None" and rest: "create_positions db tid ps d1 = (None, d')"
      using Cons.prems False by (cases e; simp)+
    have "acc d1 = acc d" using assms(2) [of d "\<lparr>sp_TraderID = tid, sp_Meta = p\<rparr>"] c by simp
    moreover have "mset (pos d1) = add_mset \<lparr>sp_TraderID = tid, sp_Meta = p\<rparr> (mset (pos d))"
      using assms(1) c e by (auto simp: create_law_def)
    ultimately show ?thesis using Cons.IH [OF rest] False by simp
  qed (use Cons in simp)
qed simp

lemma SaveSimState_holds:
  assumes ok: "sim_db_ok db acc pos" and s: "SaveSimState db tid cash initial ps d = (None, d')"
    and pos_shares: "\<forall>p \<in> set ps. \<not> pm_Shares p \<le> 0"
  shows "holds_ledger acc pos tid cash initial ps d'"
proof -
  let ?a = "\<lparr>sa_TraderID = tid, sa_CashUsdc = cash, sa_InitialBalance = initial\<rparr>"
  have tx: "save_sim_tx db tid cash initial ps d = (None, d')"
    using ok s by (simp add: sim_db_ok_def SaveSimState_def)
  obtain e d1 where a: "tb_Save (pd_accounts db) d ?a = (e, d1)" by fastforce
  obtain e' d2 where b: "tb_Delete (pd_positions db) d1 (\<lambda>r. sp_TraderID r = tid) = (e', d2)" by fastforce
  have n: "e = None" "e' = None" and c: "create_positions db tid ps d2 = (None, d')"
    using tx a b by (auto simp: save_sim_tx_def split: option.splits prod.splits)
  have acc1: "mset (acc d1) = add_mset ?a (mset (filter (\<lambda>x. sa_TraderID x \<noteq> tid) (acc d)))"
    using ok a n(1) unfolding sim_db_ok_def save_law_def by force
  have "acc d2 = acc d1" using ok b unfolding sim_db_ok_def by (metis snd_conv)
  moreover have pos2: "mset (pos d2) = mset (filter (\<lambda>r. sp_TraderID r \<noteq> tid) (pos d1))"
    using ok b n(2) unfolding sim_db_ok_def delete_law_def by force
  moreover have "acc d' = acc d2 \<and> mset (pos d') = mset (pos d2) + mset (map (\<lambda>p. \<lparr>sp_TraderID = tid, sp_Meta = p\<rparr>) ps)"
    using create_positions_rows [OF _ _ c, of pos acc] ok pos_shares by (simp add: sim_db_ok_def)
  ultimately have acc': "mset (acc d') = add_mset ?a (mset (filter (\<lambda>x. sa_TraderID x \<noteq> tid) (acc d)))"
    and pos': "mset (pos d') = mset (filter (\<lambda>r. sp_TraderID r \<noteq> tid) (pos d1)) + mset (map (\<lambda>p. \<lparr>sp_TraderID = tid, sp_Meta = p\<rparr>) ps)"
    using acc1 by simp_all
  have "filter_mset (\<lambda>r. sa_TraderID r = tid) (mset (acc d')) = {#?a#}" by (simp add: acc' filter_filter_mset)
  then have "mset (filter (\<lambda>r. sa_TraderID r = tid) (acc d')) = mset [?a]" by simp
  then have "filter (\<lambda>r. sa_TraderID r = tid) (acc d') = [?a]" by (metis mset_single_iff_right mset.simps)
  moreover have "filter_mset (\<lambda>r. sp_TraderID r = tid) (mset (pos d')) = mset (map (\<lambda>p. \<lparr>sp_TraderID = tid, sp_Meta = p\<rparr>) ps)"
    by (simp add: pos' filter_filter_mset) (simp add: filter_mset_eq_conv)
  ultimately show ?thesis by (simp add: holds_ledger_def)
qed

lemma load_rows_map:
  assumes "distinct (map pm_TokenID ps)" "\<forall>p \<in> set ps. \<not> pm_Shares p \<le> 0 \<and> pm_TokenID p \<noteq> ''''"
  shows "l_cash (load_rows l ps) = l_cash l \<and> l_initial (load_rows l ps) = l_initial l \<and>
    map_of (l_byToken (load_rows l ps)) = map_of (l_byToken l) ++ map_of (map (\<lambda>p. (pm_TokenID p, p)) ps)"
  using assms
proof (induction ps arbitrary: l)
  case (Cons p ps)
  have n: "pm_TokenID p \<notin> dom (map_of (map (\<lambda>p. (pm_TokenID p, p)) ps))"
    using Cons.prems(1) by (simp add: dom_map_of_conv_image_fst image_image)
  show ?case using Cons.IH [of "RestorePosition l p"] Cons.prems n
    by (auto simp: RestorePosition_def map_add_def fun_eq_iff dom_def split: option.splits)
qed simp

lemma load_of_holds:
  assumes ok: "sim_db_ok db acc pos" and h: "holds_ledger acc pos tid cash initial ps d"
    and ps: "distinct (map pm_TokenID ps)" "\<forall>p \<in> set ps. \<not> pm_Shares p \<le> 0 \<and> pm_TokenID p \<noteq> ''''"
    and l0: "l_byToken l0 = []" "0 < initial" "tid \<noteq> ''''"
    and ld: "LoadLedgerFromStore True db tid d l0 = (None, l)"
  shows "l_cash l = cash \<and> l_initial l = initial \<and> map_of (l_byToken l) = map_of (map (\<lambda>p. (pm_TokenID p, p)) ps)"
proof -
  let ?a = "\<lparr>sa_TraderID = tid, sa_CashUsdc = cash, sa_InitialBalance = initial\<rparr>"
  have fst_law: "first_law (pd_accounts db) acc" and fnd: "find_law (pd_positions db) pos" using ok by (auto simp: sim_db_ok_def)
  have acc: "x \<in> set (acc d) \<and> sa_TraderID x = tid \<longleftrightarrow> x = ?a" for x
  proof -
    have "set (filter (\<lambda>r. sa_TraderID r = tid) (acc d)) = {?a}" using h by (simp add: holds_ledger_def)
    then show ?thesis by (simp only: set_filter) blast
  qed
  have "LoadSimAccount db tid d = Inr (Some (cash, initial)) \<or> (\<exists>e. LoadSimAccount db tid d = Inl e)"
  proof (cases "tb_First (pd_accounts db) d (\<lambda>r. sa_TraderID r = tid)")
    case (Inr r)
    then have "case r of None \<Rightarrow> \<forall>x \<in> set (acc d). sa_TraderID x \<noteq> tid | Some x \<Rightarrow> x \<in> set (acc d) \<and> sa_TraderID x = tid"
      using fst_law by (simp add: first_law_def)
    then have "r = Some ?a" using acc by (cases r) auto
    then show ?thesis using Inr by (simp add: LoadSimAccount_def)
  qed (simp add: LoadSimAccount_def)
  then have a: "LoadSimAccount db tid d = Inr (Some (cash, initial))"
    using ld l0 by (auto simp: LoadLedgerFromStore_def)
  obtain rows where rows: "ListSimPositions db tid d = Inr rows"
      "l = load_rows (setInitial (SetCash l0 cash) initial) rows"
    using ld l0 a by (auto simp: LoadLedgerFromStore_def Let_def split: sum.splits)
  obtain rs where rs: "tb_Find (pd_positions db) d (\<lambda>r. sp_TraderID r = tid) = Inr rs" "rows = map sp_Meta rs"
    using rows(1) by (cases "tb_Find (pd_positions db) d (\<lambda>r. sp_TraderID r = tid)") (auto simp: ListSimPositions_def)
  have "mset rs = mset (map (\<lambda>p. \<lparr>sp_TraderID = tid, sp_Meta = p\<rparr>) ps)"
    using fnd rs(1) h by (auto simp: find_law_def holds_ledger_def)
  then have m: "mset rows = mset ps" unfolding rs(2) by (metis (no_types, lifting) comp_def map_idI map_map mset_map sim_position.select_convs(2))
  have d: "distinct (map pm_TokenID rows)" using ps(1) m by (metis mset_eq_imp_distinct_iff mset_map)
  have s: "set rows = set ps" using m by (rule mset_eq_setD)
  have "map_of (map (\<lambda>p. (pm_TokenID p, p)) rows) = map_of (map (\<lambda>p. (pm_TokenID p, p)) ps)"
  proof (rule map_of_inject_set [THEN iffD2])
    show "distinct (map fst (map (\<lambda>p. (pm_TokenID p, p)) rows))" "distinct (map fst (map (\<lambda>p. (pm_TokenID p, p)) ps))"
      using d ps(1) by (simp_all add: comp_def)
  qed (simp add: s)
  moreover have "setInitial (SetCash l0 cash) initial = l0\<lparr>l_cash := cash, l_initial := initial\<rparr>"
    using l0 by (simp add: setInitial_def SetCash_def)
  ultimately show ?thesis using load_rows_map [OF d, of "l0\<lparr>l_cash := cash, l_initial := initial\<rparr>"] ps(2) rows(2) l0(1)
    by (simp add: s)
qed

lemma Positions_wf:
  assumes "wf_ledger l" "range_order rng" "'''' \<notin> fst ` set (l_byToken l)"
  shows "distinct (map pm_TokenID (Positions rng l))"
    and "\<forall>p \<in> set (Positions rng l). \<not> pm_Shares p \<le> 0 \<and> pm_TokenID p \<noteq> ''''"
    and "map_of (map (\<lambda>p. (pm_TokenID p, p)) (Positions rng l)) tok = LedgerPosition l tok"
proof -
  have wf: "wf_map (l_byToken l)" and ent: "(k, p) \<in> set (l_byToken l) \<Longrightarrow> pm_TokenID p = k \<and> 0 < pm_Shares p" for k p
    using assms(1) by (auto simp: wf_ledger_def)
  have sr: "set (rng (l_byToken l)) = set (l_byToken l)" using assms(2) by (rule set_range_order)
  have "mset (map fst (rng (l_byToken l))) = mset (map fst (l_byToken l))" using assms(2) by (simp add: range_order_def)
  from mset_eq_imp_distinct_iff [OF this] have "distinct (map fst (rng (l_byToken l)))" using wf by (simp add: wf_map_def)
  moreover have "map fst (rng (l_byToken l)) = map pm_TokenID (map snd (rng (l_byToken l)))" using ent sr by auto
  ultimately have "distinct (map pm_TokenID (map snd (rng (l_byToken l))))" by simp
  then show dis: "distinct (map pm_TokenID (Positions rng l))" unfolding Positions_def by (rule distinct_map_filter)
  show "\<forall>p \<in> set (Positions rng l). \<not> pm_Shares p \<le> 0 \<and> pm_TokenID p \<noteq> ''''"
  proof
    fix p assume "p \<in> set (Positions rng l)"
    then obtain k where k: "(k, p) \<in> set (l_byToken l)" using sr by (auto simp: Positions_def)
    then have "k \<noteq> ''''" using assms(3) by force
    then show "\<not> pm_Shares p \<le> 0 \<and> pm_TokenID p \<noteq> ''''" using ent [OF k] f64_less_not_le by blast
  qed
  have iff: "p \<in> set (Positions rng l) \<and> pm_TokenID p = tok \<longleftrightarrow> map_of (l_byToken l) tok = Some p \<and> pm_Shares p > eps9" for p
  proof -
    have "p \<in> set (Positions rng l) \<longleftrightarrow> (\<exists>k. (k, p) \<in> set (l_byToken l)) \<and> eps9 < pm_Shares p"
      using sr by (auto simp: Positions_def intro: rev_image_eqI)
    then show ?thesis using ent [of _ p] by (auto simp: wf_map_in_set [OF wf])
  qed
  have "is64 (pm_Shares p) \<Longrightarrow> 0 < pm_Shares p \<Longrightarrow> pm_Shares p \<le> eps9 \<longleftrightarrow> \<not> eps9 < pm_Shares p" for p
    using f64_not_less [of eps9 "pm_Shares p"] f64_not_NaN(2) f64_less_not_le by auto
  then have le: "map_of (l_byToken l) tok = Some p \<Longrightarrow> pm_Shares p \<le> eps9 \<longleftrightarrow> \<not> eps9 < pm_Shares p" for p
    using assms(1) map_of_SomeD [of "l_byToken l" tok p] by (auto simp: wf_ledger_def)
  show "map_of (map (\<lambda>p. (pm_TokenID p, p)) (Positions rng l)) tok = LedgerPosition l tok"
  proof (cases "LedgerPosition l tok")
    case None
    then have "\<nexists>p. p \<in> set (Positions rng l) \<and> pm_TokenID p = tok"
      using iff le by (auto simp: LedgerPosition_def split: option.splits if_splits)
    then show ?thesis using None by (auto simp: map_of_eq_None_iff)
  next
    case (Some p)
    then have "p \<in> set (Positions rng l) \<and> pm_TokenID p = tok"
      using iff le by (auto simp: LedgerPosition_def split: option.splits if_splits)
    then show ?thesis using dis Some by (auto intro!: map_of_is_SomeI simp: comp_def)
  qed
qed

section \<open>A database of lists\<close>

text \<open>Tables kept as lists, to show that the laws can hold.\<close>

definition list_table :: "('d \<Rightarrow> 'r list) \<Rightarrow> ('r list \<Rightarrow> 'd \<Rightarrow> 'd) \<Rightarrow> ('r \<Rightarrow> int) \<Rightarrow> ('r \<Rightarrow> 'k) \<Rightarrow> ('d \<Rightarrow> 'r \<Rightarrow> 'r) \<Rightarrow> ('d, 'r) table" where
  "list_table get put time key fill =
     \<lparr>tb_Find = (\<lambda>d p. Inr (filter p (get d))),
      tb_List = (\<lambda>d p desc off lim.
        let ss = (if desc then rev else id) (sort_key time (filter p (get d)));
            xs = drop (nat off) ss
        in Inr (case lim of None \<Rightarrow> xs | Some n \<Rightarrow> take (nat n) xs)),
      tb_First = (\<lambda>d p. Inr (find p (get d))),
      tb_Create = (\<lambda>d r. (None, put (get d @ [fill d r]) d)),
      tb_Save = (\<lambda>d r. (None, put (filter (\<lambda>x. key x \<noteq> key r) (get d) @ [r]) d)),
      tb_Update = (\<lambda>d p u. (None, put (map (\<lambda>x. if p x then u x else x) (get d)) d)),
      tb_Delete = (\<lambda>d p. (None, put (filter (\<lambda>x. \<not> p x) (get d)) d))\<rparr>"

lemma list_table_laws:
  assumes "\<And>xs d. get (put xs d) = xs"
  shows "find_law (list_table get put time key fill) get" "list_law (list_table get put time key fill) get time"
    "first_law (list_table get put time key fill) get" "create_law (list_table get put time key fill) get fill"
    "save_law (list_table get put time key fill) get key" "delete_law (list_table get put time key fill) get"
    "update_law (list_table get put time key fill) get"
proof -
  show "list_law (list_table get put time key fill) get time"
    unfolding list_law_def
  proof (intro allI impI)
    fix d p desc off lim rs
    assume "tb_List (list_table get put time key fill) d p desc off lim = Inr rs"
    then show "\<exists>ss. mset ss = mset (filter p (get d)) \<and> sorted (map time (if desc then rev ss else ss)) \<and>
       rs = (case lim of None \<Rightarrow> drop (nat off) ss | Some n \<Rightarrow> take (nat n) (drop (nat off) ss))"
      by (intro exI [of _ "(if desc then rev else id) (sort_key time (filter p (get d)))"])
        (auto simp: list_table_def Let_def)
  qed
  show "first_law (list_table get put time key fill) get"
    by (auto simp: first_law_def list_table_def find_None_iff find_Some_iff split: option.splits)
qed (use assms in \<open>auto simp: find_law_def create_law_def save_law_def delete_law_def update_law_def list_table_def
    image_mset.compositionality\<close>)

record list_tables =
  lt_traders :: "trader_row list"
  lt_decisions :: "decision_record db_row list"
  lt_audit :: "audit_record db_row list"
  lt_orders :: "order_record db_row list"
  lt_risk :: "risk_row list"
  lt_accounts :: "sim_account list"
  lt_positions :: "sim_position list"
  lt_fills :: "sim_fill db_row list"
  lt_snapshots :: "sim_snapshot db_row list"

text \<open>A new key is one more than the largest so far.\<close>

definition next_id :: "'a db_row list \<Rightarrow> 'a db_row \<Rightarrow> 'a db_row" where
  "next_id rows r = r\<lparr>db_ID := 1 + sum_list (map (\<lambda>x. \<bar>db_ID x\<bar>) rows)\<rparr>"

definition list_db :: "list_tables pred_db" where
  "list_db = \<lparr>
     pd_traders = list_table lt_traders (\<lambda>xs d. d\<lparr>lt_traders := xs\<rparr>) tr_CreatedAt tr_ID (\<lambda>_. trader_defaults),
     pd_decisions = list_table lt_decisions (\<lambda>xs d. d\<lparr>lt_decisions := xs\<rparr>) db_Time db_ID (\<lambda>d. next_id (lt_decisions d)),
     pd_audit = list_table lt_audit (\<lambda>xs d. d\<lparr>lt_audit := xs\<rparr>) db_Time db_ID (\<lambda>d. next_id (lt_audit d)),
     pd_orders = list_table lt_orders (\<lambda>xs d. d\<lparr>lt_orders := xs\<rparr>) db_Time db_ID (\<lambda>d. next_id (lt_orders d)),
     pd_risk = list_table lt_risk (\<lambda>xs d. d\<lparr>lt_risk := xs\<rparr>) (\<lambda>_. 0) rk_TraderID (\<lambda>_ r. r),
     pd_accounts = list_table lt_accounts (\<lambda>xs d. d\<lparr>lt_accounts := xs\<rparr>) (\<lambda>_. 0) sa_TraderID (\<lambda>_ r. r),
     pd_positions = list_table lt_positions (\<lambda>xs d. d\<lparr>lt_positions := xs\<rparr>) (\<lambda>_. 0)
       (\<lambda>r. (sp_TraderID r, pm_TokenID (sp_Meta r))) (\<lambda>_ r. r),
     pd_fills = list_table lt_fills (\<lambda>xs d. d\<lparr>lt_fills := xs\<rparr>) db_Time db_ID (\<lambda>d. next_id (lt_fills d)),
     pd_snapshots = list_table lt_snapshots (\<lambda>xs d. d\<lparr>lt_snapshots := xs\<rparr>) db_Time db_ID (\<lambda>d. next_id (lt_snapshots d)),
     pd_Transaction = (\<lambda>f d. case f d of (None, d') \<Rightarrow> (None, d') | (Some e, _) \<Rightarrow> (Some e, d))\<rparr>"

definition empty_tables :: list_tables where
  "empty_tables = \<lparr>lt_traders = [], lt_decisions = [], lt_audit = [], lt_orders = [], lt_risk = [], lt_accounts = [],
     lt_positions = [], lt_fills = [], lt_snapshots = []\<rparr>"

lemma list_db_ok: "sim_db_ok list_db lt_accounts lt_positions"
proof -
  have "f d = (None, d')" if "(case f d of (None, d') \<Rightarrow> (None, d') | (Some e, _) \<Rightarrow> (Some e, d)) = (None, d')"
    for f :: "list_tables \<Rightarrow> perr option \<times> list_tables" and d d'
    using that by (auto split: prod.splits option.splits)
  then show ?thesis
    by (simp add: sim_db_ok_def list_db_def list_table_laws) (simp add: list_table_def)
qed

lemma list_db_tx: "pd_Transaction list_db f d = (case f d of (None, d') \<Rightarrow> (None, d') | (Some e, _) \<Rightarrow> (Some e, d))"
  by (simp add: list_db_def)

lemma list_db_never_fails:
  "\<exists>d'. saveLedger list_db rng tid l d = (None, d')" "\<exists>l'. LoadLedgerFromStore True list_db tid d l = (None, l')"
proof -
  have "\<exists>d'. create_positions list_db tid ps d = (None, d')" for ps d
    by (induction ps arbitrary: d) (auto simp: list_db_def list_table_def)
  then have "\<exists>d'. save_sim_tx list_db tid c i ps d = (None, d')" for c i ps d
    by (simp add: save_sim_tx_def) (simp add: list_db_def list_table_def)
  then show "\<exists>d'. saveLedger list_db rng tid l d = (None, d')"
  proof -
    obtain d' where "save_sim_tx list_db tid (l_cash l) (l_initial l) (Positions rng l) d = (None, d')"
      using \<open>\<And>ps i d c. \<exists>d'. save_sim_tx list_db tid c i ps d = (None, d')\<close> by blast
    then show ?thesis by (simp add: saveLedger_def SaveSimState_def list_db_tx)
  qed
  have "\<exists>x. LoadSimAccount list_db tid d = Inr x" "\<exists>rows. ListSimPositions list_db tid d = Inr rows"
    by (auto simp: LoadSimAccount_def ListSimPositions_def list_db_def list_table_def split: option.split)
  then show "\<exists>l'. LoadLedgerFromStore True list_db tid d l = (None, l')"
    by (auto simp: LoadLedgerFromStore_def Let_def split: option.split)
qed

definition one_position :: ledger where
  "one_position = \<lparr>l_cash = 1, l_initial = 1, l_byToken = [(''7'', \<lparr>pm_TokenID = ''7'', pm_MarketSlug = ''m'', pm_Outcome = ''YES'',
     pm_ConditionID = ''c'', pm_NegRisk = False, pm_Shares = 1, pm_AvgCost = 1\<rparr>)]\<rparr>"

text \<open>
  C40: a ledger survives a restart.  Whatever was stored for the trader before, if saving a ledger
  succeeds and a fresh ledger is then loaded from the database without an error, the loaded one has
  the same cash, the same starting balance and, token for token, the same positions, in whatever
  order Go visits its map and the database returns its rows.
\<close>

theorem ledger_survives_restart:
  assumes ok: "sim_db_ok db acc pos" and rng: "range_order rng" and tid: "tid \<noteq> ''''"
    and l: "wf_ledger l" "'''' \<notin> fst ` set (l_byToken l)" "0 < l_initial l"
    and save: "saveLedger db rng tid l d = (None, d')"
    and load: "LoadLedgerFromStore True db tid d' (NewLedger initial) = (None, l')"
  shows "l_cash l' = l_cash l \<and> l_initial l' = l_initial l \<and> (\<forall>tok. map_of (l_byToken l') tok = LedgerPosition l tok)"
proof -
  note P = Positions_wf [OF l(1) rng l(2)]
  have "holds_ledger acc pos tid (l_cash l) (l_initial l) (Positions rng l) d'"
    using SaveSimState_holds [OF ok] save P(2) by (simp add: saveLedger_def)
  from load_of_holds [OF ok this P(1,2) _ l(3) tid load] show ?thesis
    using P(3) by (simp add: NewLedger_def Let_def)
qed

theorem ledger_survives_restart_witness:
  "\<exists>d' l'. saveLedger list_db id ''t'' one_position empty_tables = (None, d') \<and>
     LoadLedgerFromStore True list_db ''t'' d' (NewLedger 0) = (None, l') \<and> l_cash l' = 1 \<and>
     map_option pm_Shares (map_of (l_byToken l') ''7'') = Some 1"
proof -
  obtain d' l' where sl: "saveLedger list_db id ''t'' one_position empty_tables = (None, d')"
      "LoadLedgerFromStore True list_db ''t'' d' (NewLedger 0) = (None, l')"
    using list_db_never_fails by metis
  have wf: "wf_ledger one_position" "'''' \<notin> fst ` set (l_byToken one_position)" "0 < l_initial one_position"
    by (auto simp: wf_ledger_def one_position_def wf_map_def)
  have "\<not> (1 :: f64) \<le> eps9" by (simp add: eps9_def one_f64_def f64_eval)
  then have "map_option pm_Shares (LedgerPosition one_position ''7'') = Some 1" "l_cash one_position = 1"
    by (simp_all add: LedgerPosition_def one_position_def)
  with ledger_survives_restart [OF list_db_ok range_order_id _ wf sl] show ?thesis
    using sl by (intro exI [of _ d'] exI [of _ l']) simp
qed

section \<open>Pages\<close>

lemma sorted_rev_take: "sorted (map f (rev ss)) \<Longrightarrow> sorted (map f (rev (take n (drop m ss))))"
  by (metis (no_types, lifting) rev_map sorted_wrt_drop sorted_wrt_take sorted_wrt_rev take_map drop_map rev_rev_ident)

text \<open>
  a page is a page.  With the answer of the database, a page of decisions holds as many of the
  trader's newest rows as the clamped limit and offset leave, never more than a hundred, in
  descending order of time, and says that there are more exactly when there are.
\<close>

theorem page_exact:
  fixes limit offset :: int
  assumes "list_law (pd_decisions db) rows db_Time"
    and "ListDecisionsPage db tid limit offset d = Inr (page, further)"
  defines "mine \<equiv> filter (\<lambda>r. db_TraderID r = tid) (rows d)"
    and "L \<equiv> clampPageLimit limit" and "off \<equiv> clampPageOffset offset"
  shows "1 \<le> L \<and> L \<le> 100 \<and> int (length page) = max 0 (min L (int (length mine) - off)) \<and>
    (further \<longleftrightarrow> off + L < int (length mine)) \<and> mset page \<subseteq># mset mine \<and> sorted (map db_Time (rev page))"
proof -
  have L: "1 \<le> L" "L \<le> 100" by (auto simp: L_def clampPageLimit_def)
  have O: "0 \<le> off" by (simp add: off_def clampPageOffset_def)
  obtain rs where q: "tb_List (pd_decisions db) d (\<lambda>r. db_TraderID r = tid) True off (Some (L + 1)) = Inr rs"
    and pg: "(page, further) = (if int (length rs) > L then (take (nat L) rs, True) else (rs, False))"
    using assms(2) by (auto simp: ListDecisionsPage_def list_page_def L_def off_def Let_def split: sum.splits if_split_asm)
  obtain ss where ss: "mset ss = mset mine" "sorted (map db_Time (rev ss))" "rs = take (nat (L + 1)) (drop (nat off) ss)"
    using assms(1) q unfolding list_law_def mine_def by fastforce
  have len: "length ss = length mine" using ss(1) by (metis size_mset)
  have page: "page = take (nat L) (drop (nat off) ss)" and further: "further \<longleftrightarrow> L < int (length rs)"
    using pg L by (auto simp: ss(3) min_def split: if_splits)
  have "mset page \<subseteq># mset ss"
    by (metis (no_types, lifting) append_take_drop_id mset_append mset_subset_eq_add_left mset_subset_eq_add_right page subset_mset.order_trans)
  moreover have "int (length page) = max 0 (min L (int (length mine) - off))"
    using L O by (simp add: page len [symmetric] min_def max_def) linarith
  moreover have "further \<longleftrightarrow> off + L < int (length mine)"
    using L O by (simp add: further ss(3) len [symmetric] min_def) linarith
  ultimately show ?thesis using L sorted_rev_take [OF ss(2)] by (simp add: page ss(1))
qed


definition blank_decision :: decision_record where
  "blank_decision = \<lparr>dr_CycleNumber = 1, dr_Timestamp = 5, dr_CoTTrace = '''', dr_Decisions = [], dr_Executions = [],
     dr_RawResponse = '''', dr_Success = True, dr_ErrorMessage = None, dr_AIRequestDurationMs = 0\<rparr>"

theorem page_exact_witness:
  "\<exists>page further. ListDecisionsPage list_db ''t'' 0 (- 3) (empty_tables\<lparr>lt_decisions := [new_row ''t'' 5 blank_decision, new_row ''u'' 6 blank_decision]\<rparr>)
     = Inr (page, further) \<and> length page = 1 \<and> \<not> further"
proof -
  let ?d = "empty_tables\<lparr>lt_decisions := [new_row ''t'' 5 blank_decision, new_row ''u'' 6 blank_decision]\<rparr>"
  have law: "list_law (pd_decisions list_db) lt_decisions db_Time" by (simp add: list_db_def list_table_laws)
  have "\<exists>page further. ListDecisionsPage list_db ''t'' 0 (- 3) ?d = Inr (page, further)"
    by (simp add: ListDecisionsPage_def list_page_def Let_def list_db_def list_table_def new_row_def
        clampPageLimit_def clampPageOffset_def) blast
  then obtain page further where p: "ListDecisionsPage list_db ''t'' 0 (- 3) ?d = Inr (page, further)" by blast
  from page_exact [OF law p] show ?thesis using p
    by (intro exI [of _ page] exI [of _ further]) (simp add: clampPageLimit_def clampPageOffset_def new_row_def)
qed

section \<open>Order records\<close>

text \<open>A new order row gets a key of its own and keeps its data.\<close>

definition fresh_fill :: "('d \<Rightarrow> 'a db_row list) \<Rightarrow> ('d \<Rightarrow> 'a db_row \<Rightarrow> 'a db_row) \<Rightarrow> bool" where
  "fresh_fill rows fill \<longleftrightarrow> (\<forall>d r. db_ID (fill d r) \<notin> db_ID ` set (rows d) \<and>
     db_TraderID (fill d r) = db_TraderID r \<and> db_Data (fill d r) = db_Data r)"

definition order_table_ok :: "'d pred_db \<Rightarrow> ('d \<Rightarrow> order_record db_row list) \<Rightarrow> bool" where
  "order_table_ok db rows \<longleftrightarrow> first_law (pd_orders db) rows \<and> update_law (pd_orders db) rows \<and>
     (\<exists>fill. create_law (pd_orders db) rows fill \<and> fresh_fill rows fill)"

definition orders_unique :: "order_record db_row list \<Rightarrow> bool" where
  "orders_unique rows \<longleftrightarrow> distinct (map (\<lambda>r. (db_TraderID r, od_OrderID (db_Data r))) rows) \<and> distinct (map db_ID rows)"

text \<open>The part of an order row that saving leaves alone.\<close>

abbreviation order_id :: "order_record db_row \<Rightarrow> gostring \<times> gostring" where
  "order_id x \<equiv> (db_TraderID x, od_OrderID (db_Data x))"

lemma unique_mset: "mset (map f ys) = mset (map f xs) \<Longrightarrow> distinct (map f xs) \<Longrightarrow> distinct (map f ys)"
  using mset_eq_imp_distinct_iff by blast

lemma update_lawD:
  "update_law T rows \<Longrightarrow> tb_Update T d p u = (None, d') \<Longrightarrow> mset (rows d') = mset (map (\<lambda>x. if p x then u x else x) (rows d))"
  by (auto simp: update_law_def)

lemma orders_unique_mset:
  "orders_unique xs \<Longrightarrow> mset (map order_id ys) = mset (map order_id xs) \<Longrightarrow> mset (map db_ID ys) = mset (map db_ID xs) \<Longrightarrow>
   orders_unique ys"
  unfolding orders_unique_def using unique_mset [of order_id ys xs] unique_mset [of db_ID ys xs] by blast

lemma mset_map_keep: "mset ys = mset (map g xs) \<Longrightarrow> (\<And>x. f (g x) = f x) \<Longrightarrow> mset (map f ys) = mset (map f xs)"
  by (simp add: image_mset.compositionality comp_def)

lemma filter_map_same:
  "(\<And>x. x \<in> set xs \<Longrightarrow> P (g x) = P x) \<Longrightarrow> (\<And>x. x \<in> set xs \<Longrightarrow> P x \<Longrightarrow> g x = x) \<Longrightarrow>
   filter P (map g xs) = filter P xs"
  by (induction xs) auto

lemma same_row: "distinct (map db_ID xs) \<Longrightarrow> x \<in> set xs \<Longrightarrow> y \<in> set xs \<Longrightarrow> db_ID x = db_ID y \<Longrightarrow> x = y"
  by (metis (no_types, lifting) distinct_map inj_on_contraD)

lemma same_order: "distinct (map order_id xs) \<Longrightarrow> x \<in> set xs \<Longrightarrow> y \<in> set xs \<Longrightarrow> order_id x = order_id y \<Longrightarrow> x = y"
  by (metis (no_types, lifting) distinct_map inj_on_contraD)

text \<open>
  saving an order twice keeps one row.  As long as a trader's order ids are distinct they stay
  distinct: saving a record that is there updates it in place, and one that is not adds it; the
  row found afterwards has the new status, wire and preview flag, and no other row changes.
\<close>

theorem order_saved_once:
  assumes ok: "order_table_ok db rows" and u: "orders_unique (rows d)"
    and sv: "SaveOrderRecord db tid r d = (None, d')" "tid \<noteq> ''''" "od_OrderID r \<noteq> ''''"
  shows "orders_unique (rows d') \<and>
    (\<forall>x. GetOrderRecord db tid (od_OrderID r) d' = Inr x \<longrightarrow>
       order_key tid (od_OrderID r) x \<and> od_Status (db_Data x) = od_Status r \<and>
       od_PreviewWire (db_Data x) = od_PreviewWire r \<and> od_IsPreview (db_Data x) = od_IsPreview r) \<and>
    mset (filter (\<lambda>x. \<not> order_key tid (od_OrderID r) x) (rows d')) =
      mset (filter (\<lambda>x. \<not> order_key tid (od_OrderID r) x) (rows d))"
proof -
  let ?k = "order_key tid (od_OrderID r)"
  obtain fill where laws: "first_law (pd_orders db) rows" "update_law (pd_orders db) rows"
      "create_law (pd_orders db) rows fill" "fresh_fill rows fill"
    using ok by (auto simp: order_table_ok_def)
  have du: "distinct (map order_id (rows d))" "distinct (map db_ID (rows d))" using u by (auto simp: orders_unique_def)
  have found: "x \<in> set (rows d') \<and> ?k x" if "GetOrderRecord db tid (od_OrderID r) d' = Inr x" for x
    using that laws(1) by (fastforce simp: GetOrderRecord_def first_law_def split: sum.splits option.splits)
  obtain q where q: "tb_First (pd_orders db) d ?k = Inr q"
    using sv by (auto simp: SaveOrderRecord_def split: sum.splits)
  show ?thesis
  proof (cases q)
    case None
    let ?n = "fill d (new_row tid 0 r)"
    have none: "\<forall>x \<in> set (rows d). \<not> ?k x" using laws(1) q None by (fastforce simp: first_law_def)
    have "mset (rows d') = add_mset ?n (mset (rows d))"
      using laws(3) sv q None by (force simp: SaveOrderRecord_def create_law_def)
    then have m: "mset (rows d') = mset (?n # rows d)" by simp
    have n: "order_id ?n = (tid, od_OrderID r)" "db_Data ?n = r" "db_ID ?n \<notin> db_ID ` set (rows d)"
      using laws(4) by (simp_all add: fresh_fill_def new_row_def)
    have "orders_unique (?n # rows d)"
      using du n none by (auto simp: orders_unique_def order_key_def)
    moreover have "mset (map order_id (rows d')) = mset (map order_id (?n # rows d))"
      "mset (map db_ID (rows d')) = mset (map db_ID (?n # rows d))" using m by (simp_all only: mset_map)
    ultimately have "orders_unique (rows d')" using orders_unique_mset [of "?n # rows d" "rows d'"] by (simp del: mset_map)
    moreover have "x = ?n" if "x \<in> set (rows d')" "?k x" for x
    proof -
      have "set (rows d') = insert ?n (set (rows d))" using mset_eq_setD [OF m] by (simp only: list.set)
      then show ?thesis using that none by blast
    qed
    note only = this
    have "od_Status (db_Data x) = od_Status r \<and> od_PreviewWire (db_Data x) = od_PreviewWire r \<and>
       od_IsPreview (db_Data x) = od_IsPreview r \<and> ?k x"
      if "GetOrderRecord db tid (od_OrderID r) d' = Inr x" for x
      using only [of x] found [OF that] n(2) by metis
    moreover have "mset (filter (\<lambda>x. \<not> ?k x) (rows d')) = mset (filter (\<lambda>x. \<not> ?k x) (rows d))"
    proof -
      have "?k ?n" using n(1) by (simp add: order_key_def)
      then show ?thesis using arg_cong [OF m, of "filter_mset (\<lambda>x. \<not> ?k x)"] by simp
    qed
    ultimately show ?thesis by blast
  next
    case (Some old)
    let ?g = "\<lambda>x. if db_ID x = db_ID old then x\<lparr>db_Data := order_updates r (db_Data x)\<rparr> else x"
    have old: "old \<in> set (rows d)" "?k old" using laws(1) q Some by (fastforce simp: first_law_def)+
    have "tb_Update (pd_orders db) d (\<lambda>x. db_ID x = db_ID old) (\<lambda>x. x\<lparr>db_Data := order_updates r (db_Data x)\<rparr>) = (None, d')"
      using sv q Some by (simp add: SaveOrderRecord_def)
    then have m: "mset (rows d') = mset (map ?g (rows d))" by (rule update_lawD [OF laws(2)])
    have keep: "order_id (?g x) = order_id x" "db_ID (?g x) = db_ID x" for x by (simp_all add: order_updates_def)
    have "orders_unique (rows d')"
      using orders_unique_mset [OF u] mset_map_keep [OF m, of order_id] mset_map_keep [OF m, of db_ID] keep by blast
    moreover have "\<exists>y. x = y\<lparr>db_Data := order_updates r (db_Data y)\<rparr>" if "x \<in> set (rows d')" "?k x" for x
    proof -
      have "x \<in> ?g ` set (rows d)" using that(1) mset_eq_setD [OF m] by (simp only: set_map)
      then obtain y where y: "y \<in> set (rows d)" "x = ?g y" by blast
      then have "order_id y = order_id old" using keep(1) [of y] that(2) old(2) by (simp add: order_key_def)
      then have "y = old" using same_order [OF du(1) y(1) old(1)] by blast
      then show ?thesis using y(2) by (intro exI [of _ old]) simp
    qed
    moreover have "mset (filter (\<lambda>x. \<not> ?k x) (rows d')) = mset (filter (\<lambda>x. \<not> ?k x) (rows d))"
    proof -
      have "filter (\<lambda>x. \<not> ?k x) (map ?g (rows d)) = filter (\<lambda>x. \<not> ?k x) (rows d)"
      proof (rule filter_map_same)
        fix x assume x: "x \<in> set (rows d)"
        show "(\<not> ?k (?g x)) = (\<not> ?k x)" using keep(1) [of x] by (simp add: order_key_def)
        show "?g x = x" if n: "\<not> ?k x"
        proof -
          have "db_ID x \<noteq> db_ID old" using n old x same_row [OF du(2) x old(1)] by blast
          then show ?thesis by simp
        qed
      qed
      then show ?thesis using arg_cong [OF m, of "filter_mset (\<lambda>x. \<not> ?k x)"] by (simp only: mset_filter [symmetric])
    qed
    moreover have "od_Status (order_updates r x) = od_Status r \<and> od_PreviewWire (order_updates r x) = od_PreviewWire r \<and>
      od_IsPreview (order_updates r x) = od_IsPreview r" for x by (simp add: order_updates_def)
    ultimately show ?thesis using found by (metis (no_types, lifting) db_row.select_convs(4) db_row.surjective db_row.update_convs(4))
  qed
qed

definition blank_order :: "gostring \<Rightarrow> order_record" where
  "blank_order status = \<lparr>od_OrderID = ''o1'', od_CycleNumber = 1, od_MarketSlug = ''m'', od_TokenID = ''7'', od_Side = ''BUY'',
     od_Price = 1, od_Size = 1, od_Status = status, od_PreviewWire = '''', od_IsPreview = False\<rparr>"

lemma list_orders_ok: "order_table_ok list_db lt_orders"
proof -
  have "fresh_fill (lt_orders :: list_tables \<Rightarrow> _) (\<lambda>d. next_id (lt_orders d))"
  proof (unfold fresh_fill_def, intro allI conjI)
    fix d :: list_tables and r
    have "db_ID x \<le> sum_list (map (\<lambda>x. \<bar>db_ID x\<bar>) xs)" if "x \<in> set xs" for x and xs :: "order_record db_row list"
    proof -
      have "\<bar>db_ID x\<bar> \<le> sum_list (map (\<lambda>x. \<bar>db_ID x\<bar>) xs)" using that by (intro member_le_sum_list) auto
      then show ?thesis by simp
    qed
    then show "db_ID (next_id (lt_orders d) r) \<notin> db_ID ` set (lt_orders d)" by (fastforce simp: next_id_def)
  qed (simp_all add: next_id_def)
  then show ?thesis unfolding order_table_ok_def
    by (intro conjI exI [of _ "\<lambda>d. next_id (lt_orders d)"]) (simp_all add: list_db_def list_table_laws)
qed

theorem order_saved_once_witness:
  "\<exists>d1 d2. SaveOrderRecord list_db ''t'' (blank_order ''posted'') empty_tables = (None, d1) \<and>
     SaveOrderRecord list_db ''t'' (blank_order ''filled'') d1 = (None, d2) \<and> orders_unique (lt_orders d2) \<and>
     (\<forall>x. GetOrderRecord list_db ''t'' ''o1'' d2 = Inr x \<longrightarrow> od_Status (db_Data x) = ''filled'')"
proof -
  have "\<exists>d'. SaveOrderRecord list_db ''t'' (blank_order st) d = (None, d')" for st d
    by (simp add: SaveOrderRecord_def blank_order_def list_db_def list_table_def split: option.split)
  then obtain d1 d2 where s: "SaveOrderRecord list_db ''t'' (blank_order ''posted'') empty_tables = (None, d1)"
      "SaveOrderRecord list_db ''t'' (blank_order ''filled'') d1 = (None, d2)" by meson
  have u: "orders_unique (lt_orders empty_tables)" by (simp add: orders_unique_def empty_tables_def)
  have ids: "od_OrderID (blank_order st) = ''o1''" "od_Status (blank_order st) = st" for st by (simp_all add: blank_order_def)
  have "orders_unique (lt_orders d1)" using order_saved_once [OF list_orders_ok u s(1)] by (simp add: ids)
  from order_saved_once [OF list_orders_ok this s(2)] s show ?thesis
    by (intro exI [of _ d1] exI [of _ d2]) (simp add: ids)
qed

section \<open>Two venues on one account\<close>

text \<open>
  the last venue to save wins.  The API redeems through a venue of its own, loaded from the
  database, while the trader keeps the ledger it loaded when it started.  Whatever the API's venue
  stored in between, once the trader's venue saves, the database holds the trader's cash and
  positions again: a position the API redeemed is back and its payout is gone.
\<close>

theorem running_venue_overwrites:
  assumes ok: "sim_db_ok db acc pos" and rng: "range_order rng" and tid: "tid \<noteq> ''''"
    and l: "wf_ledger (sv_ledger v)" "'''' \<notin> fst ` set (l_byToken (sv_ledger v))" "0 < l_initial (sv_ledger v)"
    and api: "run_effects db rng tid (sv_trace api) d = d1"
    and own: "saveLedger db rng tid (sv_ledger v) d1 = (None, d2)"
    and load: "LoadLedgerFromStore True db tid d2 (NewLedger initial) = (None, l')"
    and held: "LedgerPosition (sv_ledger v) tok = Some p"
  shows "map_of (l_byToken l') tok = Some p \<and> l_cash l' = l_cash (sv_ledger v)"
proof -
  note P = Positions_wf [OF l(1) rng l(2)]
  have "holds_ledger acc pos tid (l_cash (sv_ledger v)) (l_initial (sv_ledger v)) (Positions rng (sv_ledger v)) d2"
    using SaveSimState_holds [OF ok] own P(2) by (simp add: saveLedger_def)
  from load_of_holds [OF ok this P(1,2) _ l(3) tid load] show ?thesis
    using P(3) held by (simp add: NewLedger_def Let_def)
qed

text \<open>The trader's venue holds a position; the API's venue has redeemed it and saved the dollar it paid.\<close>

definition trader_venue :: sim_venue where
  "trader_venue = (NewVenue SimDefaultConfig None)\<lparr>sv_ledger := one_position\<rparr>"

definition api_venue :: sim_venue where
  "api_venue = (NewVenue SimDefaultConfig None)\<lparr>sv_trace := [SaveLedger (NewLedger (fl 2))]\<rparr>"

theorem running_venue_overwrites_witness:
  "\<exists>d2 l'. saveLedger list_db id ''t'' one_position (run_effects list_db id ''t'' (sv_trace api_venue) empty_tables) = (None, d2) \<and>
     LoadLedgerFromStore True list_db ''t'' d2 (NewLedger 0) = (None, l') \<and> l_cash l' = 1 \<and>
     map_option pm_Shares (map_of (l_byToken l') ''7'') = Some 1"
proof -
  obtain d2 l' where sl: "saveLedger list_db id ''t'' (sv_ledger trader_venue)
        (run_effects list_db id ''t'' (sv_trace api_venue) empty_tables) = (None, d2)"
      "LoadLedgerFromStore True list_db ''t'' d2 (NewLedger 0) = (None, l')"
    using list_db_never_fails by metis
  have v: "sv_ledger trader_venue = one_position" by (simp add: trader_venue_def)
  have wf: "wf_ledger (sv_ledger trader_venue)" "'''' \<notin> fst ` set (l_byToken (sv_ledger trader_venue))"
      "0 < l_initial (sv_ledger trader_venue)"
    unfolding v by (auto simp: wf_ledger_def one_position_def wf_map_def)
  have "\<not> (1 :: f64) \<le> eps9" by (simp add: eps9_def one_f64_def f64_eval)
  then have held: "\<exists>p. LedgerPosition (sv_ledger trader_venue) ''7'' = Some p \<and> pm_Shares p = 1" "l_cash one_position = 1"
    by (simp_all add: v LedgerPosition_def one_position_def)
  then obtain p where p: "LedgerPosition (sv_ledger trader_venue) ''7'' = Some p" "pm_Shares p = 1" by blast
  from running_venue_overwrites [OF list_db_ok range_order_id _ wf refl sl p(1)] show ?thesis
    using sl held(2) p(2) v by (intro exI [of _ d2] exI [of _ l']) simp
qed

end
