(* ===== verification/Trader_Books.thy ===== *)
theory Trader_Books
  imports Trader_Sell Sim_Persist
begin

text \<open>
  The trader across calls: what survives a restart, what a cycle leaves unchanged, how partly
  filled orders are booked, and what an AI redemption does to an open market on the simulated
  venue.
\<close>

section \<open>Volume across restarts\<close>

text \<open>
  The trader with its store: the risk state is read and written by the store's own operations, on a
  database that is a part of the world.
\<close>

definition stored_env :: "'d pred_db \<Rightarrow> ('x \<times> 'd) env \<Rightarrow> ('x \<times> 'd) env" where
  "stored_env db env = env\<lparr>w_LoadRiskState := \<lambda>(x, d) tid. LoadRiskState db tid d,
     w_SaveRiskState := \<lambda>(x, d) tid day v. (x, snd (SaveRiskState db tid day v d))\<rparr>"

lemma stored_env_simps [simp]:
  "w_LoadRiskState (stored_env db env) (x, d) tid = LoadRiskState db tid d"
  "w_SaveRiskState (stored_env db env) (x, d) tid day v = (x, snd (SaveRiskState db tid day v d))"
  "w_now (stored_env db env) = w_now env"
  by (simp_all add: stored_env_def)

definition risk_rows :: "('d \<Rightarrow> risk_row list) \<Rightarrow> gostring \<Rightarrow> 'd \<Rightarrow> risk_row set" where
  "risk_rows rows tid d = {r \<in> set (rows d). rk_TraderID r = tid}"

lemma saved_risk_row:
  assumes "save_law (pd_risk db) rows rk_TraderID" "fst (SaveRiskState db tid day v d) = None"
  shows "risk_rows rows tid (snd (SaveRiskState db tid day v d)) = {\<lparr>rk_TraderID = tid, rk_VolumeDay = day, rk_DailyVolumeUsd = v\<rparr>}"
proof -
  let ?r = "\<lparr>rk_TraderID = tid, rk_VolumeDay = day, rk_DailyVolumeUsd = v\<rparr>"
  obtain d' where s: "tb_Save (pd_risk db) d ?r = (None, d')" using assms(2) by (metis SaveRiskState_def prod.collapse)
  have "mset (rows d') = add_mset ?r (mset (filter (\<lambda>x. rk_TraderID x \<noteq> tid) (rows d)))"
    using assms(1) [unfolded save_law_def, rule_format, OF s] by simp
  then have "set (rows d') = insert ?r {x \<in> set (rows d). rk_TraderID x \<noteq> tid}" by (metis set_mset_mset set_mset_add_mset_insert set_filter)
  then show ?thesis using s by (auto simp: risk_rows_def SaveRiskState_def)
qed

lemma loaded_risk_row:
  assumes "first_law (pd_risk db) rows" "LoadRiskState db tid d = Inr a" "risk_rows rows tid d = {r}"
  shows "a = (rk_DailyVolumeUsd r, rk_VolumeDay r)"
proof -
  obtain q where q: "tb_First (pd_risk db) d (\<lambda>r. rk_TraderID r = tid) = Inr q"
    using assms(2) by (auto simp: LoadRiskState_def split: sum.splits)
  have "case q of None \<Rightarrow> \<forall>x \<in> set (rows d). rk_TraderID x \<noteq> tid | Some x \<Rightarrow> x \<in> set (rows d) \<and> rk_TraderID x = tid"
    using assms(1) [unfolded first_law_def, rule_format, OF q] by (simp split: option.split)
  then have "q = Some r" using assms(3) by (auto simp: risk_rows_def split: option.splits)
  then show ?thesis using assms(2) q by (simp add: LoadRiskState_def)
qed

text \<open>
  C33: the day's volume survives a restart.  A fill is recorded and its volume is saved.  Whatever happens
  afterwards to the rest of the database and the world, a trader that starts afresh with the same id, whatever
  volume it held, and can read its row, has exactly the volume including that fill while the UTC day
  lasts, and zero once another day has begun.
\<close>

theorem volume_survives_restart:
  assumes gorm: "first_law (pd_risk db) rows" "save_law (pd_risk db) rows rk_TraderID"
    and clock: "\<And>x d. w_now env (x, d) = clock x"
    and fill: "stored t" "recordFillVolume (stored_env db env) usd (t, (x, d)) = (t1, (x1, d1))" "\<not> usd \<le> 0"
    and saved: "fst (SaveRiskState db (t_dbid t) (date_string (clock x)) (t_dailyVolume t + usd) d) = None"
    and kept: "risk_rows rows (t_dbid t) d2 = risk_rows rows (t_dbid t) d1"
    and fresh: "stored t2" "t_dbid t2 = t_dbid t" "LoadRiskState db (t_dbid t) d2 = Inr a"
  shows "t_dailyVolume t1 = t_dailyVolume t + usd \<and>
    t_dailyVolume (syncDailyVolumeFromStore (stored_env db env) (x2, d2) t2) =
      (if date_string (clock x2) = date_string (clock x) then t_dailyVolume t + usd else 0)"
proof -
  have d1: "d1 = snd (SaveRiskState db (t_dbid t) (date_string (clock x)) (t_dailyVolume t + usd) d)"
    and t1: "t_dailyVolume t1 = t_dailyVolume t + usd"
    using fill clock by (auto simp: recordFillVolume_def persistDailyVolume_def Let_def)
  have "a = (t_dailyVolume t + usd, date_string (clock x))"
    using loaded_risk_row [OF gorm(1) fresh(3)] saved_risk_row [OF gorm(2) saved] kept d1 by simp
  then show ?thesis using fresh t1 clock by (auto simp: syncDailyVolumeFromStore_def)
qed

text \<open>A world that is the time and a database of lists.\<close>

definition row_env :: "(int \<times> list_tables) env" where
  "row_env = (plain_env (undefined :: (int \<times> list_tables) venue_ops))\<lparr>w_now := fst\<rparr>"

theorem volume_survives_restart_witness:
  "let t = ex_trader\<lparr>t_hasStore := True, t_dbid := ''p''\<rparr>; env = stored_env list_db row_env;
       (t1, (x1, d1)) = recordFillVolume env (fl 20) (t, (0, empty_tables))
   in t_dailyVolume (syncDailyVolumeFromStore env (1000, d1) (t\<lparr>t_dailyVolume := 1\<rparr>)) = 0 + fl 20 \<and>
      t_dailyVolume (syncDailyVolumeFromStore env (86400000000000, d1) (t\<lparr>t_dailyVolume := 1\<rparr>)) = 0"
proof -
  let ?t = "ex_trader\<lparr>t_hasStore := True, t_dbid := ''p''\<rparr>"
  let ?env = "stored_env list_db row_env"
  obtain t1 x1 d1 where r: "recordFillVolume ?env (fl 20) (?t, (0, empty_tables)) = (t1, (x1, d1))" by (rule prod_cases3)
  have laws: "first_law (pd_risk list_db) lt_risk" "save_law (pd_risk list_db) lt_risk rk_TraderID"
    by (simp_all add: list_db_def list_table_laws)
  have c: "w_now row_env (x, d) = x" for x d by (simp add: row_env_def)
  have pos: "\<not> fl 20 \<le> 0" by (simp add: f64_eval zero_f64_def)
  have s: "fst (SaveRiskState list_db i day v d) = None" for i day v d by (simp add: SaveRiskState_def list_db_def list_table_def)
  have "\<exists>a. LoadRiskState list_db i d = Inr a" for i d
    by (simp add: LoadRiskState_def list_db_def list_table_def split: option.split)
  then obtain a where a: "LoadRiskState list_db (t_dbid ?t) d1 = Inr a" by blast
  have days: "date_string 1000 = date_string 0" "date_string 86400000000000 \<noteq> date_string 0" by code_simp+
  have st: "stored ?t" "stored (?t\<lparr>t_dailyVolume := 1\<rparr>)" "t_dbid (?t\<lparr>t_dailyVolume := 1\<rparr>) = t_dbid ?t" by simp_all
  have "t_dailyVolume ?t = 0" by (simp add: ex_trader_def)
  then show ?thesis
    using volume_survives_restart [OF laws c st(1) r pos s refl st(2,3) a, of 1000]
      volume_survives_restart [OF laws c st(1) r pos s refl st(2,3) a, of 86400000000000] days r by (simp add: Let_def)
qed

section \<open>What a cycle does not change\<close>

definition flags_agree :: "trader \<Rightarrow> bool" where
  "flags_agree t \<longleftrightarrow> t_loopActive t = t_isRunning t"

lemma flags_update [simp]:
  "flags_agree (t\<lparr>t_callCount := n\<rparr>) = flags_agree t" "flags_agree (t\<lparr>t_recent := ds\<rparr>) = flags_agree t"
  "flags_agree (t\<lparr>t_gate := g\<rparr>) = flags_agree t"
  by (simp_all add: flags_agree_def)

lemma flags_control: "flags_agree t \<Longrightarrow> flags_agree (control_step t c)"
  by (cases c) (auto simp: flags_agree_def run_begin_def stop_run_def)

lemma flags_controlled: "flags_agree t \<Longrightarrow> flags_agree (controlled env s t)"
proof -
  have "flags_agree (foldl control_step t cs)" if "flags_agree t" for cs
    using that by (induction cs arbitrary: t) (simp_all add: flags_control)
  then show "flags_agree t \<Longrightarrow> flags_agree (controlled env s t)" by (simp add: controlled_def)
qed

lemma flags_no_abort: "flags_agree t \<Longrightarrow> \<not> shouldAbortExecution t"
  by (simp add: flags_agree_def shouldAbortExecution_def)

text \<open>The flags only move by \<open>Run\<close> and \<open>Stop\<close>, which move them together.\<close>

definition frozen :: "trader \<Rightarrow> trader \<Rightarrow> bool" where
  "frozen t t' \<longleftrightarrow> t_cfg t' = t_cfg t \<and> g_cfg (t_gate t') = g_cfg (t_gate t) \<and> t_callCount t' = t_callCount t \<and>
     t_recent t' = t_recent t \<and> (flags_agree t \<longrightarrow> flags_agree t') \<and>
     t_hasStore t' = t_hasStore t \<and> t_dbid t' = t_dbid t \<and> t_hasAI t' = t_hasAI t \<and> t_startTime t' = t_startTime t"

lemma frozen_refl [simp]: "frozen t t" and frozen_trans: "frozen t t' \<Longrightarrow> frozen t' t'' \<Longrightarrow> frozen t t''"
  by (auto simp: frozen_def)

lemma frozen_recordFillVolume: "frozen (fst ts) (fst (recordFillVolume env usd ts))"
  by (simp add: recordFillVolume_def frozen_def flags_agree_def Let_def)

lemma frozen_book_fill: "frozen (fst ts) (fst (snd (book_fill env d r usd out ts)))"
  by (simp add: book_fill_trader frozen_def flags_agree_def)

lemma frozen_trade_result: "frozen t (fst (snd (trade_result env d r out (t, s))))"
  using frozen_book_fill [where ts = "(t, _)"]
  by (auto simp: trade_result_def Let_def split: prod.splits option.splits)

lemma frozen_executeTrade: "frozen (fst ts) (fst (snd (executeTradeOutcome env d ts)))"
  by (cases ts) (auto simp: executeTradeOutcome_def Let_def frozen_trade_result
      split: prod.splits sum.splits option.splits)

lemma frozen_executeDecision: "frozen (fst ts) (fst (snd (executeDecisionWithOutcome env d ts)))"
proof (cases "is_buy (d_Action d) \<or> d_Action d = ActionSell")
  case True
  then show ?thesis by (simp add: executeDecision_trade frozen_executeTrade split: sum.split option.split)
next
  case False
  then show ?thesis by (cases ts; cases "d_Action d")
      (auto simp: is_buy_def executeDecisionWithOutcome_def Let_def split: option.split prod.split)
qed

lemma frozen_execute_all: "frozen (fst ts) (fst (snd (execute_all env ds ts)))"
proof (induction ds arbitrary: ts)
  case (Cons d ds)
  define ts0 where "ts0 = (controlled env (snd ts) (fst ts), snd ts)"
  have c: "frozen (fst ts) (fst ts0)" by (simp add: ts0_def frozen_def flags_controlled)
  obtain out t s where e: "executeDecisionWithOutcome env d ts0 = (out, t, s)" by (rule prod_cases3)
  have "frozen (fst ts) t" using frozen_trans [OF c frozen_executeDecision [of ts0 env d]] e by simp
  then show ?case using Cons.IH [of "(t, auditExecution env t out s)"] c e
    by (auto simp: ts0_def [symmetric] split: prod.splits intro: frozen_trans)
qed simp

lemma frozen_sync_row: "frozen (fst ts) (fst (sync_row env ts r))"
proof -
  have f: "frozen t (fst (recordFillVolume env usd (t, s)))" for t s usd
    using frozen_recordFillVolume [of "(t, s)"] by simp
  show ?thesis by (cases ts) (auto simp: sync_row_def Let_def f split: prod.splits sum.splits option.splits)
qed

lemma frozen_sync_rows: "frozen (fst ts) (fst (foldl (sync_row env) ts rs))"
proof (induction rs arbitrary: ts)
  case (Cons r rs)
  show ?case using frozen_trans [OF frozen_sync_row Cons.IH] by simp
qed simp

lemma frozen_syncOrders: "frozen (fst ts) (fst (syncOrdersAfterCycle env ts))"
  using frozen_sync_rows [of ts env "w_ListOrderRecords env (snd ts) (t_dbid (fst ts)) 100"]
  by (auto simp: syncOrdersAfterCycle_def SyncOrderRecordsFromCLOB_def split: prod.splits sum.splits)

lemma frozen_cycleTelemetry: "frozen (fst ts) (fst (recordCycleTelemetry env n m err ts))"
  by (simp add: recordCycleTelemetry_def frozen_def flags_agree_def Let_def split: prod.splits)

lemma frozen_syncVolume: "frozen t (syncDailyVolumeFromStore env s t)"
  by (auto simp: syncDailyVolumeFromStore_def maybeResetDailyVolumeLocal_def frozen_def flags_agree_def split: sum.splits)

lemma frozen_load_gate: "frozen t (load_gate env (t, s))"
  by (simp add: load_gate_def frozen_def flags_agree_def)

lemma begin_cycle_frozen:
  "frozen ((fst ts)\<lparr>t_callCount := t_callCount (fst ts) + 1\<rparr>) (fst (begin_cycle env ts))"
  by (cases ts) (simp add: begin_cycle_def Let_def frozen_syncVolume)

definition remembers :: "trader \<Rightarrow> trader \<Rightarrow> bool" where
  "remembers t t' \<longleftrightarrow> (\<exists>ds. t_recent t' = remember (t_recent t) ds) \<or> t_recent t' = t_recent t"

lemma finish_cycle_frozen:
  "frozen (fst ts) ((fst (snd (finish_cycle env f ts)))\<lparr>t_recent := t_recent (fst ts)\<rparr>) \<and>
   remembers (fst ts) (fst (snd (finish_cycle env f ts)))"
proof -
  define f' where "f' = f\<lparr>fd_Executions := fst (execute_all env (sortDecisions (fd_Decisions f)) ts)\<rparr>"
  define ts1 where "ts1 = snd (execute_all env (sortDecisions (fd_Decisions f)) ts)"
  define ts2 where "ts2 = syncOrdersAfterCycle env (fst ts1, saveDecisionRecord env (fst ts1) (Some f') None (snd ts1))"
  define ts3 where "ts3 = recordCycleTelemetry env (length (fd_Decisions f')) (length (fd_Executions f')) None ts2"
  have "frozen (fst ts) (fst ts1)" unfolding ts1_def by (rule frozen_execute_all)
  moreover have "frozen (fst ts1) (fst ts2)"
    unfolding ts2_def using frozen_syncOrders [of "(fst ts1, _)"] by simp
  moreover have "frozen (fst ts2) (fst ts3)" unfolding ts3_def by (rule frozen_cycleTelemetry)
  ultimately have fr: "frozen (fst ts) (fst ts3)" by (blast intro: frozen_trans)
  have "fst (snd (finish_cycle env f ts)) = (fst ts3)\<lparr>t_recent := remember (t_recent (fst ts3)) (fd_Decisions f)\<rparr>"
    by (simp add: finish_cycle_def ts3_def ts2_def ts1_def f'_def Let_def split: prod.splits)
  then show ?thesis using fr by (auto simp: frozen_def remembers_def)
qed

definition cycle_frame :: "trader \<Rightarrow> trader \<Rightarrow> bool" where
  "cycle_frame t t' \<longleftrightarrow> (flags_agree t \<longrightarrow> flags_agree t') \<and> t_cfg t' = t_cfg t \<and> g_cfg (t_gate t') = g_cfg (t_gate t) \<and>
     t_callCount t' = t_callCount t + 1 \<and>
     remembers t t'"

lemma cycle_frame_frozen:
  "frozen (t\<lparr>t_callCount := t_callCount t + 1\<rparr>) t' \<Longrightarrow> cycle_frame t t'"
  by (simp add: frozen_def cycle_frame_def remembers_def)

lemma cycle_body_frame: "cycle_frame (fst ts) (fst (snd (cycle_body env ts)))"
proof -
  define t0 where "t0 = (fst ts)\<lparr>t_callCount := t_callCount (fst ts) + 1\<rparr>"
  obtain t s where b: "begin_cycle env ts = (t, s)" by (rule prod.exhaust)
  have t: "frozen t0 t" using begin_cycle_frozen [of ts env] b by (simp add: t0_def)
  have tel: "frozen t0 (fst (recordCycleTelemetry env n m err (t', s')))" if "frozen t0 t'" for n m err t' s'
    using frozen_trans [OF that] frozen_cycleTelemetry [of "(t', s')"] by simp
  define tg where "tg = load_gate env (t, s)"
  have tg: "frozen t0 tg" unfolding tg_def by (rule frozen_trans [OF t frozen_load_gate])
  have fin: "cycle_frame (fst ts) (fst (snd (finish_cycle env f (tg, s))))" for f
    using finish_cycle_frozen [of "(tg, s)" env f] tg
    by (auto simp: frozen_def cycle_frame_def remembers_def t0_def)
  define rt where "rt = trunc_int (duration_minutes (time_since (t_startTime t) (w_now env s)))"
  show ?thesis
  proof (cases "BuildContext (w_FetchQuote env s) (w_venue env) s (strat_of t) (w_now env s) (t_callCount t) rt (t_recent t)")
    case (Inl e)
    then show ?thesis using tel [OF t] cycle_frame_frozen
      by (simp add: cycle_body_def b Let_def rt_def [symmetric] t0_def)
  next
    case (Inr ctx)
    obtain fd err where d: "decide env s tg ctx = (fd, err)" by (rule prod.exhaust)
    show ?thesis
    proof (cases err)
      case (Some e)
      then show ?thesis using tel [OF tg] cycle_frame_frozen
        by (cases fd) (simp_all add: cycle_body_def b Let_def rt_def [symmetric] Inr tg_def [symmetric] d t0_def)
    next
      case None
      show ?thesis
      proof (cases fd)
        case None
        then show ?thesis using \<open>err = None\<close> tel [OF tg] cycle_frame_frozen
          by (simp add: cycle_body_def b Let_def rt_def [symmetric] Inr tg_def [symmetric] d t0_def)
      next
        case (Some f)
        obtain f' t' s' where "finish_cycle env f (tg, s) = (f', t', s')" by (rule prod_cases3)
        then show ?thesis using Some \<open>err = None\<close> fin [of f]
          by (simp add: cycle_body_def b Let_def rt_def [symmetric] Inr tg_def [symmetric] d)
      qed
    qed
  qed
qed

text \<open>
  a cycle, whatever the venue, the AI and the database do in it, counts itself exactly once,
  leaves the configuration and the limits of the gate alone, and remembers at most the last twenty
  decisions.
\<close>

theorem cycle_bookkeeping:
  "let t' = fst (snd (runCycle env (t, s))) in
     t_callCount t' = t_callCount t + 1 \<and> t_cfg t' = t_cfg t \<and> g_cfg (t_gate t') = g_cfg (t_gate t) \<and>
     length (t_recent t') \<le> max 20 (length (t_recent t))"
proof -
  have "fst (snd (runCycle env (t, s))) = fst (snd (cycle_body env (t, s)))"
    by (simp add: runCycle_def split: prod.splits)
  then show ?thesis using cycle_body_frame [of "(t, s)" env]
    by (auto simp: cycle_frame_def remembers_def remember_def Let_def)
qed

section \<open>Stopping a trader\<close>

text \<open>
  The traders a program can hold: a new one, moved by \<open>SetStore\<close>, by \<open>Run\<close> and \<open>Stop\<close> calls, by
  cycles and by manual sells.
\<close>

inductive trader_reach :: "'s env \<Rightarrow> trader \<Rightarrow> bool" for env where
  new: "NewPredictionTrader cfg hasClient now = Inr t \<Longrightarrow> trader_reach env t"
| store: "trader_reach env t \<Longrightarrow> trader_reach env (SetStore hasStore dbid t)"
| control: "trader_reach env t \<Longrightarrow> trader_reach env (control_step t c)"
| cycle: "trader_reach env t \<Longrightarrow> trader_reach env (fst (snd (runCycle env (t, s))))"
| sell: "trader_reach env t \<Longrightarrow> trader_reach env (fst (snd (SellPosition env tok usd limit (t, s))))"

lemma execute_all_length:
  "flags_agree (fst ts) \<Longrightarrow> length (fst (execute_all env ds ts)) = length ds"
proof (induction ds arbitrary: ts)
  case (Cons d ds)
  define ts0 where "ts0 = (controlled env (snd ts) (fst ts), snd ts)"
  have f: "flags_agree (fst ts0)" using Cons.prems by (simp add: ts0_def flags_controlled)
  obtain out t s where e: "executeDecisionWithOutcome env d ts0 = (out, t, s)" by (rule prod_cases3)
  have "flags_agree t" using f frozen_executeDecision [of ts0 env d] e by (simp add: frozen_def)
  then show ?case using Cons.IH [of "(t, auditExecution env t out s)"] e flags_no_abort [OF f]
    by (auto simp: ts0_def [symmetric] split: prod.splits)
qed simp

lemma reach_flags: "trader_reach env t \<Longrightarrow> flags_agree t"
proof (induction rule: trader_reach.induct)
  case (new cfg hasClient now t)
  then show ?case by (auto simp: NewPredictionTrader_def flags_agree_def Let_def split: if_split_asm)
next
  case (cycle t s)
  have "fst (snd (runCycle env (t, s))) = fst (snd (cycle_body env (t, s)))"
    by (simp add: runCycle_def split: prod.splits)
  then show ?case using cycle_body_frame [of "(t, s)" env] cycle.IH by (simp add: cycle_frame_def)
next
  case (sell t tok usd limit s)
  have "frozen t' (fst (snd (executeDecisionWithOutcome env d (t', s'))))" for t' s' d
    using frozen_executeDecision [of "(t', s')"] by simp
  then have "flags_agree t' \<Longrightarrow> flags_agree (fst (snd (executeDecisionWithOutcome env d (t', s'))))" for t' s' d
    by (simp add: frozen_def)
  then show ?case using sell.IH
    by (auto simp: SellPosition_def flags_agree_def Let_def split: sum.split list.split)
qed (simp_all add: flags_control, simp add: SetStore_def flags_agree_def)

text \<open>
  C19: stopping a trader does not stop its cycle.  In every trader the program can reach, the check
  between two decisions never aborts: however often \<open>Stop\<close> (or \<open>Run\<close>) is called while a cycle runs,
  every decision of the cycle is executed and reported, since \<open>Stop\<close> clears \<open>loopActive\<close> together
  with \<open>isRunning\<close>.
\<close>

theorem stop_does_not_abort:
  assumes "trader_reach env t"
  shows "length (fst (execute_all env ds (t, s))) = length ds \<and> \<not> shouldAbortExecution (controlled env s t)"
  using execute_all_length [of "(t, s)"] flags_no_abort [OF flags_controlled] reach_flags [OF assms] by simp_all

theorem stop_does_not_abort_witness:
  "\<exists>t. NewPredictionTrader ex_cfg False 0 = Inr t \<and>
     length (fst (execute_all ((plain_env preview_ops)\<lparr>w_control := \<lambda>_. [StopCall]\<rparr>) [ex_ai_buy, ex_buy]
       (control_step t RunCall, []))) = 2"
proof -
  have "ModeRules \<noteq> ''''" "ModeRules \<noteq> ModeAI" "ModeRules \<noteq> ModeHybrid"
    by (simp_all add: ModeRules_def ModeAI_def ModeHybrid_def)
  then obtain t where t: "NewPredictionTrader ex_cfg False 0 = Inr t"
    by (cases "feq (rc_MaxOrderUsd (st_Risk DefaultStrategyConfig)) 0") (auto simp: NewPredictionTrader_def ex_cfg_def Let_def)
  let ?env = "(plain_env preview_ops)\<lparr>w_control := \<lambda>_. [StopCall]\<rparr>"
  have "trader_reach ?env (control_step t RunCall)"
    by (rule trader_reach.control [OF trader_reach.new [OF t]])
  from stop_does_not_abort [OF this] t show ?thesis
    by (simp del: execute_all.simps control_step.simps)
qed

section \<open>Partly filled orders\<close>

text \<open>
  the rest of a partly filled order is never counted.  When the first poll of a new order
  reports a part of it matched, the trader books that part, but saves the order row as filled;
  the synchronisation skips such a row for good, so what fills later never reaches the day's
  volume.
\<close>

theorem partial_fill_is_final:
  assumes live: "or_Status r \<noteq> ''preview''" "or_Status r \<noteq> ''matched''" "\<not> or_FilledShares r > 0"
      "or_OrderID r \<noteq> ''''" "\<not> has_prefix (or_OrderID r) ''preview-''"
    and poll: "vn_GetOrderStatus (w_venue env) s (or_OrderID r) = (Inr (Some st), s1)"
      "0 < os_SizeMatched st" "os_SizeMatched st < os_OriginalSize st"
    and store: "stored t"
  shows "\<exists>out' t' s2 rec. trade_result env d r out (t, s) = (out', t', w_SaveOrderRecord env s2 (t_dbid t) rec) \<and>
    eo_Status out' = ''filled'' \<and> eo_FillUsd out' = d_SizeUsd d * (os_SizeMatched st / os_OriginalSize st) \<and>
    od_OrderID rec = or_OrderID r \<and> (\<forall>ts. sync_row env' ts rec = ts)"
proof -
  have o: "0 < os_OriginalSize st" "\<not> os_SizeMatched st \<le> 0"
    by (rule f64_le_less_trans [OF f64_less_imp_le [OF poll(2)] poll(3)], rule f64_less_not_le [OF poll(2)])
  let ?usd = "d_SizeUsd d * (os_SizeMatched st / os_OriginalSize st)"
  have c: "confirmedFillUsd env d r s = (Some ?usd, s1)"
    using live(4,5) poll(1) o by (simp add: confirmedFillUsd_def numeral_eq_Suc)
  have tr: "trade_result env d r out (t, s) = book_fill env d r ?usd (out\<lparr>eo_OrderID := or_OrderID r\<rparr>) (t, s1)"
    using live c by (simp add: trade_result_def)
  define o' where "o' = (out\<lparr>eo_OrderID := or_OrderID r\<rparr>)\<lparr>eo_Status := ''filled'', eo_FillUsd := ?usd, eo_Message := FilledMsg ?usd\<rparr>"
  obtain t1 s2 where rv: "recordFillVolume env ?usd (t\<lparr>t_gate := RecordFill (t_gate t) ?usd\<rparr>, s1) = (t1, s2)"
    by (rule prod.exhaust)
  have t1: "t_hasStore t1 = t_hasStore t" "t_dbid t1 = t_dbid t"
    using rv by (auto simp: recordFillVolume_def Let_def split: if_split_asm)
  define t' where "t' = t1\<lparr>t_gate := applyFillExposure (t_gate t1) d ?usd\<rparr>"
  have b: "book_fill env d r ?usd (out\<lparr>eo_OrderID := or_OrderID r\<rparr>) (t, s1) = (o', saveOrderRecord env d r o' (t', s2))"
      "t_hasStore t' = t_hasStore t" "t_dbid t' = t_dbid t"
    by (simp_all add: book_fill_def Let_def o'_def rv t'_def t1)
  define rec where "rec = \<lparr>od_OrderID = or_OrderID r, od_CycleNumber = t_callCount t', od_MarketSlug = d_MarketSlug d,
     od_TokenID = d_TokenID d, od_Side = side_of (d_Action d), od_Price = d_LimitPrice d,
     od_Size = d_SizeUsd d / d_LimitPrice d, od_Status = eo_Status o', od_PreviewWire = or_PreviewWire r,
     od_IsPreview = (eo_Status o' = ''preview'' \<or> has_prefix (or_OrderID r) ''preview-'')\<rparr>"
  have save: "saveOrderRecord env d r o' (t', s2) = (t', w_SaveOrderRecord env s2 (t_dbid t) rec)"
    using b(2,3) store live(4) by (simp add: saveOrderRecord_def rec_def)
  have "to_lower ''filled'' = ''filled''" by code_simp
  then have "sync_final rec" by (simp add: sync_final_def rec_def o'_def)
  then have "\<forall>ts. sync_row env' ts rec = ts" by (simp add: sync_row_def split: prod.splits)
  moreover have "eo_Status o' = ''filled''" "eo_FillUsd o' = ?usd" "od_OrderID rec = or_OrderID r"
    by (simp_all add: o'_def rec_def)
  moreover have "trade_result env d r out (t, s) = (o', t', w_SaveOrderRecord env s2 (t_dbid t) rec)"
    by (simp only: tr b(1) save)
  ultimately show ?thesis by (intro exI conjI)
qed

theorem partial_fill_is_final_witness:
  "\<exists>out' t' rec. trade_result (plain_env half_filled) ex_sell (empty_order_result\<lparr>or_OrderID := ''x'', or_Status := ''live''\<rparr>)
       (outcome_of ex_sell) (ex_trader\<lparr>t_hasStore := True, t_dbid := ''p''\<rparr>, ()) = (out', t', ()) \<and>
     eo_Status out' = ''filled'' \<and> eo_FillUsd out' = fl 3 * (fl 5 / fl 10) \<and>
     (\<forall>ts. sync_row (plain_env half_filled) ts rec = ts)"
proof -
  let ?st = "\<lparr>os_OrderID = ''x'', os_SizeMatched = fl 5, os_OriginalSize = fl 10, os_Status = ''live'', os_Terminal = False\<rparr>"
  have n: "0 < fl 5" "fl 5 < fl 10" by (simp_all add: f64_eval zero_f64_def)
  have p: "\<not> has_prefix ''x'' ''preview-''" by code_simp
  show ?thesis
    using partial_fill_is_final [of "empty_order_result\<lparr>or_OrderID := ''x'', or_Status := ''live''\<rparr>" "plain_env half_filled" "()" ?st "()"
        "ex_trader\<lparr>t_hasStore := True, t_dbid := ''p''\<rparr>" ex_sell "outcome_of ex_sell" "plain_env half_filled"] n p
    by (auto simp: plain_env_def half_filled_def empty_order_result_def ex_sell_def)
qed

section \<open>Redeeming an open market\<close>

text \<open>
  an AI redemption destroys a live position.  On the simulated venue the decision \<open>redeem\<close> for
  a market that is still open, unresolved and quoted below 0.95 is not blocked by the gate: it
  reports success, the position is deleted and cash grows by its shares times zero.
\<close>

theorem ai_redeem_forfeits_open_position:
  assumes venue: "w_venue env = sim_ops now rng orng mr" "range_order rng" "wf_ledger (sv_ledger v)"
    and d: "d_Action d = ActionRedeem" "d_MarketSlug d \<noteq> ''''"
    and p: "p \<in> set (Positions rng (sv_ledger v))" "pm_ConditionID p = m_ConditionID m" "m_ConditionID m \<noteq> ''''"
    and only: "\<forall>q \<in> set (Positions rng (sv_ledger v)). pm_ConditionID q = m_ConditionID m \<longrightarrow> q = p"
    and open_market: "mr_GetMarketBySlug mr (d_MarketSlug d) = Inr (Some m)" "pm_MarketSlug p = d_MarketSlug d"
      "\<not> m_Closed m" "WinningOutcome m = ''''"
    and mid: "mr_GetMidPrice mr (pm_TokenID p) = Inr mid" "mid < fl (95 / 100)"
  shows "\<exists>out v'. executeDecisionWithOutcome env d (t, v) = (out, t, v') \<and> eo_Status out = ''redeem'' \<and>
    map_of (l_byToken (sv_ledger v')) (pm_TokenID p) = None \<and>
    l_cash (sv_ledger v') = l_cash (sv_ledger v) + pm_Shares p * 0"
proof -
  obtain r v' where red: "RedeemCondition now now rng mr v (m_ConditionID m) (m_NegRisk m) = (Inr r, v')"
      "map_of (l_byToken (sv_ledger v')) (pm_TokenID p) = None"
      "l_cash (sv_ledger v') = l_cash (sv_ledger v) + pm_Shares p * 0"
    using redeem_open_market [OF venue(3,2) p(1,2,3) only _ open_market(3,4) mid, of now now "m_NegRisk m"] open_market(1,2)
    by auto
  have ops: "vn_GetMarketBySlug (w_venue env) v (d_MarketSlug d) = Inr m"
    "vn_RedeemCondition (w_venue env) v (m_ConditionID m) (m_NegRisk m) = (Inr r, v')"
    using open_market(1) red(1) by (simp_all add: venue(1) sim_ops_def sim_market_def)
  show ?thesis using d p(3) ops red(2,3)
    by (simp add: executeDecisionWithOutcome_def CheckDecision_def executeRedeem_def Let_def)
qed

theorem ai_redeem_forfeits_open_position_witness:
  "\<exists>out v'. executeDecisionWithOutcome (plain_env (sim_ops 0 id id ex_reader))
      (empty_decision\<lparr>d_MarketSlug := ''rain'', d_Action := ActionRedeem\<rparr>) (ex_trader, ex_holding) = (out, ex_trader, v') \<and>
     eo_Status out = ''redeem'' \<and> map_of (l_byToken (sv_ledger v')) ''tok'' = None"
proof -
  have m: "mr_GetMarketBySlug ex_reader ''rain'' = Inr (Some ex_market)" "\<not> m_Closed ex_market"
    "m_ConditionID ex_market = ''c1''" "mr_GetMidPrice ex_reader ''tok'' = Inr (fl (49 / 100))"
    by (simp_all add: ex_reader_def ex_market_def)
  have w: "WinningOutcome ex_market = ''''" "fl (49 / 100) < fl (19 / 20)"
    by (simp_all add: WinningOutcome_def ex_market_def f64_eval)
  have p: "pm_ConditionID ex_meta = ''c1''" "pm_TokenID ex_meta = ''tok''" "pm_MarketSlug ex_meta = ''rain''"
    by (simp_all add: ex_meta_def)
  have env: "w_venue (plain_env (sim_ops 0 id id ex_reader)) = sim_ops 0 id id ex_reader" by (simp add: plain_env_def)
  show ?thesis
    using ai_redeem_forfeits_open_position [OF env range_order_id ex_holding_positions(2),
        of "empty_decision\<lparr>d_MarketSlug := ''rain'', d_Action := ActionRedeem\<rparr>" ex_meta ex_market "fl (49 / 100)" ex_trader]
    by (auto simp: ex_holding_positions(1) m w p)
qed

end
