(* ===== verification/Telemetry.thy ===== *)
theory Telemetry
  imports Prelude
begin

text \<open>
  \<open>prediction/telemetry/feed.go\<close>: the in-memory activity feed, a bounded list of events with
  increasing ids, and the last result of each API probe.  The package's global variables are the
  record \<open>feed\<close>; its lock makes each operation one step.  An event's metadata is opaque (\<open>'m\<close>).
\<close>

section \<open>State\<close>

record 'm event =
  ev_ID :: int
  ev_Timestamp :: "int option"
  ev_Category :: gostring
  ev_Level :: gostring
  ev_TraderID :: gostring
  ev_TraderName :: gostring
  ev_Message :: gostring
  ev_Detail :: gostring
  ev_DurationMs :: int
  ev_Meta :: 'm

record connectivity =
  cn_GammaOK :: bool
  cn_GammaLatencyMs :: int
  cn_GammaError :: gostring
  cn_GammaCheckedAt :: "int option"
  cn_ClobOK :: bool
  cn_ClobLatencyMs :: int
  cn_ClobError :: gostring
  cn_ClobCheckedAt :: "int option"

record 'm feed =
  fd_events :: "'m event list"
  fd_nextID :: int
  fd_connectivity :: connectivity

definition maxEvents :: nat where
  "maxEvents = 300"

definition no_connectivity :: connectivity where
  "no_connectivity = \<lparr>cn_GammaOK = False, cn_GammaLatencyMs = 0, cn_GammaError = '''', cn_GammaCheckedAt = None,
     cn_ClobOK = False, cn_ClobLatencyMs = 0, cn_ClobError = '''', cn_ClobCheckedAt = None\<rparr>"

definition empty_feed :: "'m feed" where
  "empty_feed = \<lparr>fd_events = [], fd_nextID = 0, fd_connectivity = no_connectivity\<rparr>"

section \<open>Operations\<close>

definition keep_last :: "nat \<Rightarrow> 'a list \<Rightarrow> 'a list" where
  "keep_last n xs = (if n < length xs then drop (length xs - n) xs else xs)"

definition event_defaults :: "int \<Rightarrow> 'm event \<Rightarrow> 'm event" where
  "event_defaults now e =
     (let e = (if ev_Timestamp e = None then e\<lparr>ev_Timestamp := Some now\<rparr> else e);
          e = (if ev_Level e = '''' then e\<lparr>ev_Level := ''info''\<rparr> else e)
      in if ev_Category e = '''' then e\<lparr>ev_Category := ''system''\<rparr> else e)"

definition Record :: "int \<Rightarrow> 'm event \<Rightarrow> 'm feed \<Rightarrow> 'm feed" where
  "Record now e f =
     (let n = fd_nextID f + 1;
          e = (event_defaults now e)\<lparr>ev_ID := n\<rparr>
      in f\<lparr>fd_nextID := n, fd_events := keep_last maxEvents (fd_events f @ [e])\<rparr>)"

definition RecordTrader ::
  "int \<Rightarrow> gostring \<Rightarrow> gostring \<Rightarrow> gostring \<Rightarrow> gostring \<Rightarrow> gostring \<Rightarrow> gostring \<Rightarrow> 'm \<Rightarrow> 'm feed \<Rightarrow> 'm feed" where
  "RecordTrader now traderID traderName category level msg detail meta f =
     Record now \<lparr>ev_ID = 0, ev_Timestamp = None, ev_Category = category, ev_Level = level, ev_TraderID = traderID,
       ev_TraderName = traderName, ev_Message = msg, ev_Detail = detail, ev_DurationMs = 0, ev_Meta = meta\<rparr> f"

definition updateConnectivity :: "int \<Rightarrow> gostring \<Rightarrow> bool \<Rightarrow> int \<Rightarrow> gostring \<Rightarrow> 'm feed \<Rightarrow> 'm feed" where
  "updateConnectivity now category ok durationMs errMsg f =
     (let c = fd_connectivity f; err = (if \<not> ok then errMsg else '''') in
      if category = ''gamma'' then
        f\<lparr>fd_connectivity := c\<lparr>cn_GammaOK := ok, cn_GammaLatencyMs := durationMs, cn_GammaError := err,
            cn_GammaCheckedAt := Some now\<rparr>\<rparr>
      else if category = ''clob'' then
        f\<lparr>fd_connectivity := c\<lparr>cn_ClobOK := ok, cn_ClobLatencyMs := durationMs, cn_ClobError := err,
            cn_ClobCheckedAt := Some now\<rparr>\<rparr>
      else f)"

text \<open>The separator is the UTF-8 encoding of a middle dot between spaces.\<close>

definition middle_dot :: gostring where
  "middle_dot = [CHR 0x20, CHR 0xC2, CHR 0xB7, CHR 0x20]"

definition formatHTTPMessage :: "gostring \<Rightarrow> gostring \<Rightarrow> gostring \<Rightarrow> int \<Rightarrow> gostring" where
  "formatHTTPMessage category meth msg bodyLen =
     (let prefix = to_upper category;
          prefix = (if meth \<noteq> '''' then prefix @ '' '' @ meth else prefix)
      in if msg = ''OK'' \<and> bodyLen > 0 then prefix @ middle_dot @ itoa bodyLen @ '' bytes''
         else prefix @ middle_dot @ msg)"

definition ellipsis :: gostring where
  "ellipsis = [CHR 0xE2, CHR 0x80, CHR 0xA6]"

definition truncate :: "gostring \<Rightarrow> nat \<Rightarrow> gostring" where
  "truncate s n = (if length s \<le> n then s else take n s @ ellipsis)"

text \<open>\<open>meta\<close> packs the metadata map from the method, the cut URL, the status and the length.\<close>

definition RecordHTTP ::
  "(gostring \<Rightarrow> gostring \<Rightarrow> int \<Rightarrow> int \<Rightarrow> 'm) \<Rightarrow> int \<Rightarrow> gostring \<Rightarrow> gostring \<Rightarrow> gostring \<Rightarrow> int \<Rightarrow> gostring option \<Rightarrow>
   int \<Rightarrow> int \<Rightarrow> 'm feed \<Rightarrow> 'm feed" where
  "RecordHTTP meta now category meth rawURL durationMs err statusCode bodyLen f =
     (let (level, msg, detail) =
            (case err of
               Some e \<Rightarrow> (''error'', e, '''')
             | None \<Rightarrow> if statusCode \<ge> 400 then (''error'', ''HTTP error'', trim_space rawURL)
                       else (''info'', ''OK'', ''''));
          f = (if category = ''gamma'' \<or> category = ''clob''
               then updateConnectivity now category (err = None \<and> statusCode < 400) durationMs msg f else f)
      in Record now \<lparr>ev_ID = 0, ev_Timestamp = None, ev_Category = category, ev_Level = level, ev_TraderID = '''',
           ev_TraderName = '''', ev_Message = formatHTTPMessage category meth msg bodyLen, ev_Detail = detail,
           ev_DurationMs = durationMs, ev_Meta = meta meth (truncate rawURL 240) statusCode bodyLen\<rparr> f)"

definition list_limit :: "int \<Rightarrow> nat" where
  "list_limit limit = nat (if limit \<le> 0 then 50 else if limit > 200 then 200 else limit)"

definition listed :: "gostring \<Rightarrow> int \<Rightarrow> 'm event \<Rightarrow> bool" where
  "listed traderID sinceID e \<longleftrightarrow>
     \<not> (sinceID > 0 \<and> ev_ID e \<le> sinceID) \<and> \<not> (traderID \<noteq> '''' \<and> ev_TraderID e \<noteq> '''' \<and> ev_TraderID e \<noteq> traderID)"

text \<open>The loop from the newest event, with the number of places left, and its reversal.\<close>

fun list_newest :: "('m event \<Rightarrow> bool) \<Rightarrow> nat \<Rightarrow> 'm event list \<Rightarrow> 'm event list" where
  "list_newest p room [] = []"
| "list_newest p 0 (e # es) = []"
| "list_newest p (Suc room) (e # es) = (if p e then e # list_newest p room es else list_newest p (Suc room) es)"

definition List :: "gostring \<Rightarrow> int \<Rightarrow> int \<Rightarrow> 'm feed \<Rightarrow> 'm event list" where
  "List traderID limit sinceID f =
     rev (list_newest (listed traderID sinceID) (list_limit limit) (rev (fd_events f)))"

section \<open>Invariant\<close>

text \<open>The feed holds the events with the last ids, at most 300 of them, in order.\<close>

definition wf_feed :: "'m feed \<Rightarrow> bool" where
  "wf_feed f \<longleftrightarrow> length (fd_events f) \<le> maxEvents \<and> 0 \<le> fd_nextID f \<and>
     map ev_ID (fd_events f) = [fd_nextID f - int (length (fd_events f)) + 1 .. fd_nextID f]"

lemma keep_last_length: "length (keep_last n xs) = min n (length xs)"
  by (auto simp: keep_last_def)

lemma map_keep_last: "map g (keep_last n xs) = keep_last n (map g xs)"
  by (simp add: keep_last_def drop_map)

lemma drop_upto: "drop n [i..j] = [i + int n..j]"
proof (induction n arbitrary: i)
  case (Suc n)
  then show ?case by (cases "i \<le> j") (simp_all add: upto.simps [of i j] add.commute add.left_commute)
qed simp

lemma upto_snoc: "i \<le> j + 1 \<Longrightarrow> [i..j] @ [j + 1] = [i..j + 1]"
  using upto_rec2 [of i "j + 1"] by simp

lemma keep_last_upto:
  "map g xs = [j - int (length xs) + 1..j] \<Longrightarrow> map g (keep_last m xs) = [j - int (length (keep_last m xs)) + 1..j]"
  by (auto simp: map_keep_last keep_last_length) (auto simp: keep_last_def drop_upto min_def algebra_simps)

lemma wf_feed_Record: "wf_feed f \<Longrightarrow> wf_feed (Record now e f)"
proof -
  assume wf: "wf_feed f"
  let ?n = "fd_nextID f" and ?es = "fd_events f"
  define e' where "e' = (event_defaults now e)\<lparr>ev_ID := ?n + 1\<rparr>"
  have e': "ev_ID e' = ?n + 1"
    "fd_events (Record now e f) = keep_last maxEvents (?es @ [e'])" "fd_nextID (Record now e f) = ?n + 1"
    by (simp_all add: Record_def Let_def e'_def)
  have "map ev_ID (?es @ [e']) = [?n + 1 - int (length (?es @ [e'])) + 1 .. ?n + 1]"
    using wf e'(1) upto_snoc [of "?n - int (length ?es) + 1" ?n] by (simp add: wf_feed_def algebra_simps)
  from keep_last_upto [OF this, of maxEvents] show ?thesis
    using wf e' by (simp add: wf_feed_def keep_last_length)
qed

lemma updateConnectivity_events [simp]:
  "fd_events (updateConnectivity now c ok ms err f) = fd_events f"
  "fd_nextID (updateConnectivity now c ok ms err f) = fd_nextID f"
  by (simp_all add: updateConnectivity_def Let_def)

lemma wf_feed_update: "wf_feed (updateConnectivity now c ok ms err f) \<longleftrightarrow> wf_feed f"
  by (simp add: wf_feed_def)

text \<open>What the rest of the program does to the feed.\<close>

datatype (plugins only: code size) 'm feed_op =
    FTrader int gostring gostring gostring gostring gostring gostring 'm
  | FHTTP "gostring \<Rightarrow> gostring \<Rightarrow> int \<Rightarrow> int \<Rightarrow> 'm" int gostring gostring gostring int "gostring option" int int

fun feed_step :: "'m feed \<Rightarrow> 'm feed_op \<Rightarrow> 'm feed" where
  "feed_step f (FTrader now tid tn cat lvl msg det meta) = RecordTrader now tid tn cat lvl msg det meta f"
| "feed_step f (FHTTP meta now cat meth url ms err code len) = RecordHTTP meta now cat meth url ms err code len f"

lemma wf_feed_step: "wf_feed f \<Longrightarrow> wf_feed (feed_step f op)"
  by (cases op) (auto simp: RecordTrader_def RecordHTTP_def Let_def wf_feed_Record wf_feed_update split: prod.splits)

interpretation feed: guarded_ops feed_step wf_feed "\<lambda>_. True"
  by unfold_locales (rule wf_feed_step)

lemma list_newest_filter: "list_newest p n es = take n (filter p es)"
  by (induction p n es rule: list_newest.induct) auto

lemma rev_take_rev: "rev (take n (rev xs)) = drop (length xs - n) xs"
  by (simp add: rev_take)

text \<open>
  the feed never holds more than 300 events and their ids are the last consecutive ones, and
  a page is exactly the newest events that match the filter, oldest first, at most the asked
  limit and never more than 200.
\<close>

theorem feed_pages:
  fixes ops :: "'m feed_op list"
  defines "f \<equiv> foldl feed_step empty_feed ops"
  shows "length (fd_events f) \<le> 300 \<and>
     map ev_ID (fd_events f) = [fd_nextID f - int (length (fd_events f)) + 1 .. fd_nextID f] \<and>
     (\<exists>older. filter (listed traderID sinceID) (fd_events f) = older @ List traderID limit sinceID f) \<and>
     length (List traderID limit sinceID f) =
       min (list_limit limit) (length (filter (listed traderID sinceID) (fd_events f))) \<and>
     list_limit limit \<le> 200"
proof -
  have wf: "wf_feed f" unfolding f_def
    by (rule feed.run_inv) (simp_all add: wf_feed_def empty_feed_def list_all_iff)
  let ?m = "filter (listed traderID sinceID) (fd_events f)"
  have page: "List traderID limit sinceID f = drop (length ?m - list_limit limit) ?m"
    by (simp add: List_def list_newest_filter rev_filter [symmetric] rev_take_rev)
  have "?m = take (length ?m - list_limit limit) ?m @ List traderID limit sinceID f"
    unfolding page by simp
  then have older: "\<exists>older. ?m = older @ List traderID limit sinceID f" ..
  have "length (List traderID limit sinceID f) = min (list_limit limit) (length ?m)"
    unfolding page by simp
  moreover have "list_limit limit \<le> 200" by (auto simp: list_limit_def)
  ultimately show ?thesis using wf older by (simp add: wf_feed_def maxEvents_def)
qed

end
