(* ===== verification/Go_Net.thy ===== *)
theory Go_Net
  imports Go_Strconv "HOL-Library.Word"
begin

text \<open>
  What the HTTP clients use of \<open>strconv\<close>, \<open>encoding/hex\<close>, \<open>encoding/binary\<close>, \<open>net/url\<close> and
  \<open>strings\<close>: integers in base 10 and 16 with Go's range errors, hexadecimal text of byte slices,
  big-endian words, query escaping, splitting and trimming by a cutset.
\<close>

type_synonym bytes = "8 word list"

section \<open>Integers\<close>

definition hex_val :: "char \<Rightarrow> nat option" where
  "hex_val c =
     (let n = of_char c :: nat in
      if 48 \<le> n \<and> n \<le> 57 then Some (n - 48)
      else if 97 \<le> n \<and> n \<le> 102 then Some (n - 87)
      else if 65 \<le> n \<and> n \<le> 70 then Some (n - 55) else None)"

fun hex_acc :: "nat \<Rightarrow> gostring \<Rightarrow> nat option" where
  "hex_acc acc [] = Some acc"
| "hex_acc acc (c # cs) = (case hex_val c of None \<Rightarrow> None | Some d \<Rightarrow> hex_acc (16 * acc + d) cs)"

text \<open>\<open>ParseUint\<close> for 64 bits: a syntax error gives 0, a value out of range the largest word.\<close>

definition parse_uint :: "bool \<Rightarrow> gostring \<Rightarrow> nat \<times> parse_err option" where
  "parse_uint hex s =
     (case (if s = '''' then None else if hex then hex_acc 0 s else dec_acc 0 s) of
        None \<Rightarrow> (0, Some SyntaxErr)
      | Some n \<Rightarrow> if n < 2 ^ 64 then (n, None) else (2 ^ 64 - 1, Some RangeErr))"

text \<open>\<open>ParseInt\<close> and \<open>Atoi\<close> for 64 bits: an optional sign, then digits.\<close>

definition parse_int :: "bool \<Rightarrow> gostring \<Rightarrow> int option" where
  "parse_int hex s =
     (let (sg, r) = sign_of s in
      case (if r = '''' then None else if hex then hex_acc 0 r else dec_acc 0 r) of
        None \<Rightarrow> None
      | Some n \<Rightarrow>
          if sg < 0 then (if n \<le> 2 ^ 63 then Some (- int n) else None)
          else if n < 2 ^ 63 then Some (int n) else None)"

abbreviation atoi :: "gostring \<Rightarrow> int option" where
  "atoi \<equiv> parse_int False"

text \<open>\<open>new(big.Int).SetString(s, 10)\<close>: no range limit.\<close>

definition big_int_of :: "gostring \<Rightarrow> int option" where
  "big_int_of s =
     (let (sg, r) = sign_of s in
      if r = '''' then None
      else map_option (\<lambda>n. if sg < 0 then - int n else int n) (dec_acc 0 r))"

section \<open>Bytes\<close>

fun hex_decode :: "gostring \<Rightarrow> bytes option" where
  "hex_decode [] = Some []"
| "hex_decode [c] = None"
| "hex_decode (c # d # cs) =
     (case (hex_val c, hex_val d, hex_decode cs) of
        (Some a, Some b, Some bs) \<Rightarrow> Some (of_nat (16 * a + b) # bs)
      | _ \<Rightarrow> None)"

definition hex_digit :: "nat \<Rightarrow> char" where
  "hex_digit n = char_of (if n < 10 then n + 48 else n + 87)"

fun hex_encode :: "bytes \<Rightarrow> gostring" where
  "hex_encode [] = []"
| "hex_encode (b # bs) = hex_digit (unat b div 16) # hex_digit (unat b mod 16) # hex_encode bs"

text \<open>\<open>k\<close> bytes of a natural number, most significant first.\<close>

fun be_bytes :: "nat \<Rightarrow> nat \<Rightarrow> bytes" where
  "be_bytes 0 n = []"
| "be_bytes (Suc k) n = be_bytes k (n div 256) @ [of_nat (n mod 256)]"

definition be_value :: "bytes \<Rightarrow> nat" where
  "be_value bs = foldl (\<lambda>a b. 256 * a + unat b) 0 bs"

section \<open>Text\<close>

definition query_unreserved :: "char \<Rightarrow> bool" where
  "query_unreserved c =
     (let n = of_char c :: nat in
      48 \<le> n \<and> n \<le> 57 \<or> 65 \<le> n \<and> n \<le> 90 \<or> 97 \<le> n \<and> n \<le> 122 \<or> c \<in> set ''-_.~'')"

definition query_escape :: "gostring \<Rightarrow> gostring" where
  "query_escape s =
     concat (map (\<lambda>c. if query_unreserved c then [c] else if c = CHR '' '' then ''+''
        else CHR ''%'' # to_upper (hex_encode [of_nat (of_char c)])) s)"

fun split_comma :: "gostring \<Rightarrow> gostring list" where
  "split_comma [] = [[]]"
| "split_comma (c # cs) =
     (if c = CHR '','' then [] # split_comma cs
      else case split_comma cs of [] \<Rightarrow> [[c]] | p # ps \<Rightarrow> (c # p) # ps)"

text \<open>\<open>strings.Trim(s, `" `)\<close>.\<close>

definition trim_quotes :: "gostring \<Rightarrow> gostring" where
  "trim_quotes = trim_by (\<lambda>c. c = CHR 34 \<or> c = CHR '' '')"

definition trim_right_slash :: "gostring \<Rightarrow> gostring" where
  "trim_right_slash s = rev (dropWhile (\<lambda>c. c = CHR ''/'') (rev s))"


section \<open>Base 64\<close>

text \<open>The alphabet: \<open>c62\<close> and \<open>c63\<close> are \<open>+/\<close> (standard) or \<open>-_\<close> (URL).\<close>

definition b64_char :: "bool \<Rightarrow> nat \<Rightarrow> char" where
  "b64_char url n =
     (if n < 26 then char_of (65 + n) else if n < 52 then char_of (71 + n)
      else if n < 62 then char_of (n - 4)
      else if n = 62 then (if url then CHR ''-'' else CHR ''+'')
      else if url then CHR ''_'' else CHR ''/'')"

definition b64_val :: "bool \<Rightarrow> char \<Rightarrow> nat option" where
  "b64_val url c =
     (let n = of_char c :: nat in
      if 65 \<le> n \<and> n \<le> 90 then Some (n - 65) else if 97 \<le> n \<and> n \<le> 122 then Some (n - 71)
      else if 48 \<le> n \<and> n \<le> 57 then Some (n + 4)
      else if c = (if url then CHR ''-'' else CHR ''+'') then Some 62
      else if c = (if url then CHR ''_'' else CHR ''/'') then Some 63 else None)"

fun b64_encode :: "bool \<Rightarrow> bytes \<Rightarrow> gostring" where
  "b64_encode url [] = []"
| "b64_encode url [a] = (let n = unat a * 16 in [b64_char url (n div 64), b64_char url (n mod 64), CHR ''='', CHR ''=''])"
| "b64_encode url [a, b] =
     (let n = (unat a * 256 + unat b) * 4 in
      [b64_char url (n div 4096), b64_char url (n div 64 mod 64), b64_char url (n mod 64), CHR ''=''])"
| "b64_encode url (a # b # c # bs) =
     (let n = (unat a * 256 + unat b) * 256 + unat c in
      b64_char url (n div 262144) # b64_char url (n div 4096 mod 64) # b64_char url (n div 64 mod 64) #
      b64_char url (n mod 64) # b64_encode url bs)"

text \<open>
  \<open>DecodeString\<close>: the bytes decoded before the first error and whether there was none.  Newlines
  are skipped; trailing text after the padding is an error that keeps the decoded bytes.
\<close>

fun b64_quads :: "bool \<Rightarrow> gostring \<Rightarrow> bytes \<times> bool" where
  "b64_quads url [] = ([], True)"
| "b64_quads url (a # b # c # d # cs) =
     (case (b64_val url a, b64_val url b) of
        (Some x, Some y) \<Rightarrow>
          (case (b64_val url c, b64_val url d) of
             (Some z, Some w) \<Rightarrow>
               (let n = ((x * 64 + y) * 64 + z) * 64 + w; (bs, ok) = b64_quads url cs
                in (of_nat (n div 65536) # of_nat (n div 256 mod 256) # of_nat (n mod 256) # bs, ok))
           | (Some z, None) \<Rightarrow>
               if d = CHR ''='' then
                 (let n = (x * 64 + y) * 64 + z in ([of_nat (n div 1024), of_nat (n div 4 mod 256)], cs = []))
               else ([], False)
           | (None, _) \<Rightarrow>
               if c = CHR ''='' \<and> d = CHR ''='' then ([of_nat ((x * 64 + y) div 16)], cs = []) else ([], False))
      | _ \<Rightarrow> ([], False))"
| "b64_quads url cs = ([], False)"

definition b64_decode :: "bool \<Rightarrow> gostring \<Rightarrow> bytes \<times> bool" where
  "b64_decode url s = b64_quads url (filter (\<lambda>c. c \<noteq> CHR 10 \<and> c \<noteq> CHR 13) s)"

section \<open>Round trips\<close>

lemma hex_val_digit: "n < 16 \<Longrightarrow> hex_val (hex_digit n) = Some n"
  by (auto simp: hex_val_def hex_digit_def Let_def)

lemma hex_decode_encode [simp]: "hex_decode (hex_encode bs) = Some bs"
proof (induction bs)
  case (Cons b bs)
  have "unat b div 16 < 16" using unsigned_less [of b, where 'a = nat] by simp
  moreover have "word_of_nat (16 * (unat b div 16) + unat b mod 16) = b"
    by (subst mult_div_mod_eq) simp
  ultimately show ?case using Cons.IH by (simp add: hex_val_digit)
qed simp

lemma hex_encode_length [simp]: "length (hex_encode bs) = 2 * length bs"
  by (induction bs) simp_all

lemma hex_decode_length: "hex_decode s = Some bs \<Longrightarrow> length s = 2 * length bs"
  by (induction s arbitrary: bs rule: hex_decode.induct) (auto split: option.splits)

lemma be_bytes_length [simp]: "length (be_bytes k n) = k"
  by (induction k arbitrary: n) simp_all

lemma be_value_snoc: "be_value (bs @ [b]) = 256 * be_value bs + unat b"
  by (simp add: be_value_def)

lemma be_value_bytes: "be_value (be_bytes k n) = n mod 256 ^ k"
proof (induction k arbitrary: n)
  case (Suc k)
  have u: "unat (of_nat (n mod 256) :: 8 word) = n mod 256"
    by (simp add: unat_of_nat)
  have "be_value (be_bytes (Suc k) n) = 256 * (n div 256 mod 256 ^ k) + n mod 256"
    by (simp only: be_bytes.simps be_value_snoc Suc.IH u)
  also have "\<dots> = n mod 256 ^ Suc k"
    using mod_mult2_eq [of n 256 "256 ^ k"] by simp
  finally show ?case .
qed (simp add: be_value_def)

lemma be_value_zeros: "be_value (replicate k 0 @ bs) = be_value bs"
  by (induction k) (simp_all add: be_value_def)

section \<open>Hexadecimal text\<close>

lemma char_of_eq: "a < 256 \<Longrightarrow> b < 256 \<Longrightarrow> char_of a = (char_of b :: char) \<longleftrightarrow> a = (b :: nat)"
  by (metis of_char_of mod_less)

lemma hex_val_iff: "hex_val c = Some n \<longleftrightarrow> n < 16 \<and> char_lower c = hex_digit n"
proof -
  define k where "k = (of_char c :: nat)"
  have c: "c = char_of k" and k: "k < 256" by (simp_all add: k_def)
  show ?thesis
    unfolding c hex_val_def char_lower_def hex_digit_def Let_def of_char_of mod_less [OF k]
    using k by (auto simp: char_of_eq split: if_split)
qed

lemma hex_val_lower: "hex_val (char_lower c) = hex_val c"
proof -
  have "char_lower (char_lower c) = char_lower c"
  proof -
    define k where "k = (of_char c :: nat)"
    have c: "c = char_of k" and k: "k < 256" by (simp_all add: k_def)
    show ?thesis unfolding c char_lower_def Let_def using k by (simp add: of_char_of)
  qed
  then have "hex_val (char_lower c) = Some n \<longleftrightarrow> hex_val c = Some n" for n by (simp add: hex_val_iff)
  then show ?thesis by (metis option.exhaust)
qed

lemma hex_decode_lower: "hex_decode (to_lower s) = hex_decode s"
  unfolding to_lower_def by (induction s rule: hex_decode.induct) (simp_all add: hex_val_lower)

lemma hex_decode_lower_text: "hex_decode s = Some bs \<Longrightarrow> to_lower s = hex_encode bs"
proof (induction s arbitrary: bs rule: hex_decode.induct)
  case (3 c d cs)
  then obtain a b bs' where *: "hex_val c = Some a" "hex_val d = Some b" "hex_decode cs = Some bs'"
      "bs = of_nat (16 * a + b) # bs'"
    by (auto split: option.splits)
  then have ab: "a < 16" "b < 16" "char_lower c = hex_digit a" "char_lower d = hex_digit b"
    by (simp_all add: hex_val_iff)
  then have "unat (of_nat (16 * a + b) :: 8 word) = 16 * a + b" by (simp only: unat_of_nat) simp
  then have "hex_encode bs = hex_digit a # hex_digit b # hex_encode bs'" using ab *(4) by simp
  with ab show ?case using "3.IH" [OF *(3)] by (simp add: to_lower_def)
qed (simp_all add: to_lower_def)

lemma hex_decode_iff: "hex_decode s = Some bs \<longleftrightarrow> to_lower s = hex_encode bs"
  by (metis hex_decode_encode hex_decode_lower hex_decode_lower_text)

end
