(* ===== verification/PM_Config.thy ===== *)
theory PM_Config
  imports Pred_Types Go_Net
begin

text \<open>
  \<open>prediction/polymarket/config.go\<close>, \<open>contracts.go\<close> and \<open>http.go\<close>: the settings of the live
  client, how the environment completes them, which signature type an order gets, and the two
  HTTP helpers every request goes through.

  The process environment is a function from names to values (an unset variable is empty, as
  \<open>os.Getenv\<close> has it).  The network, the clock and the telemetry feed are the world \<open>'s\<close>, reached
  through the record \<open>web\<close>.
\<close>

section \<open>Settings\<close>

record pm_config =
  pc_GammaURL :: gostring
  pc_ClobURL :: gostring
  pc_DataURL :: gostring
  pc_ChainID :: int
  pc_PrivateKey :: gostring
  pc_ProxyAddress :: gostring
  pc_SignatureType :: int
  pc_PreviewMode :: bool
  pc_PolygonRPCURL :: gostring
  pc_RelayerURL :: gostring
  pc_BuilderAPIKey :: gostring
  pc_BuilderSecret :: gostring
  pc_BuilderPassphrase :: gostring
  pc_RedeemUSDCe :: bool

definition ExchangeV2Standard :: gostring where
  "ExchangeV2Standard = ''0xE111180000d2663C0091e4f400237545B87B996B''"

definition ExchangeV2NegRisk :: gostring where
  "ExchangeV2NegRisk = ''0xe2222d279d744050d28e00520010520000310F59''"

definition usdcAddress :: gostring where "usdcAddress = ''0x2791Bca1f2de4661ED88A30C99A7a9449Aa84174''"
definition ctfAddress :: gostring where "ctfAddress = ''0x4D97DCd97eC945f40cF65F87097ACe5EA0476045''"
definition negRiskAdapterAddress :: gostring where
  "negRiskAdapterAddress = ''0xd91E80cF2E7be2e162c6513ceD06f1dD0dA35296''"
definition ctfCollateralAdapter :: gostring where
  "ctfCollateralAdapter = ''0xAdA100Db00Ca00073811820692005400218FcE1f''"
definition negRiskCollateralAdapter :: gostring where
  "negRiskCollateralAdapter = ''0xadA2005600Dec949baf300f4C6120000bDB6eAab''"
definition proxyFactoryAddress :: gostring where
  "proxyFactoryAddress = ''0xaB45c5A4B0c941a2F231C04C3f49182e1A254052''"
definition relayHubAddress :: gostring where "relayHubAddress = ''0xD216153c06E857cD7f72665E0aF1d7D82172F494''"
definition safeFactoryAddress :: gostring where
  "safeFactoryAddress = ''0xaacFeEa03eb1561C4e67d661e40682Bd20E3541b''"
definition defaultRelayerURL :: gostring where "defaultRelayerURL = ''https://relayer-v2.polymarket.com''"
definition defaultPolygonRPCURL :: gostring where "defaultPolygonRPCURL = ''https://polygon-rpc.com''"
definition safeInitCodeHash :: gostring where
  "safeInitCodeHash = ''2bce2127ff07fb632d16c8347c4ebf501f4841168bed00d9e6ef715ddb6fcecf''"
definition proxyInitCodeHash :: gostring where
  "proxyInitCodeHash = ''d21df8dc65880a8606f09fe0ce3df9b8869287ab0b058be05aa9e8af6330a00b''"
definition relayerTxTypeSafe :: gostring where "relayerTxTypeSafe = ''SAFE''"
definition relayerTxTypeProxy :: gostring where "relayerTxTypeProxy = ''PROXY''"

section \<open>The environment\<close>

type_synonym getenv = "gostring \<Rightarrow> gostring"

definition EnvSignatureType :: "getenv \<Rightarrow> int option" where
  "EnvSignatureType env =
     (let v = trim_space (env ''POLYMARKET_SIGNATURE_TYPE'') in
      if v = '''' then None
      else case atoi v of None \<Rightarrow> None | Some n \<Rightarrow> if n < 0 \<or> n > 3 then None else Some n)"

definition ResolveSignatureType :: "getenv \<Rightarrow> int \<Rightarrow> gostring \<Rightarrow> int" where
  "ResolveSignatureType env row proxy =
     (if row \<noteq> 0 then row
      else case EnvSignatureType env of
        Some st \<Rightarrow> st
      | None \<Rightarrow> if trim_space proxy \<noteq> '''' then 2 else 0)"

definition EnvPrivateKey :: "getenv \<Rightarrow> gostring" where
  "EnvPrivateKey env = trim_space (env ''POLYMARKET_PRIVATE_KEY'')"

definition ServerWalletConfigured :: "getenv \<Rightarrow> bool" where
  "ServerWalletConfigured env \<longleftrightarrow> EnvPrivateKey env \<noteq> ''''"

text \<open>A setting that is blank takes the trimmed value of a variable.\<close>

definition env_or :: "getenv \<Rightarrow> gostring \<Rightarrow> gostring \<Rightarrow> gostring" where
  "env_or env name cur = (if trim_space cur = '''' then trim_space (env name) else cur)"

text \<open>The same, but an unset variable leaves the blank setting as it is.\<close>

definition env_if_set :: "getenv \<Rightarrow> gostring \<Rightarrow> gostring \<Rightarrow> gostring" where
  "env_if_set env name cur =
     (if trim_space cur = '''' \<and> trim_space (env name) \<noteq> '''' then trim_space (env name) else cur)"

definition MergeEnvConfig :: "getenv \<Rightarrow> pm_config \<Rightarrow> pm_config" where
  "MergeEnvConfig env cfg =
     (let relayer = (if trim_space (pc_RelayerURL cfg) \<noteq> '''' then pc_RelayerURL cfg
                     else if trim_space (env ''POLYMARKET_RELAYER_URL'') \<noteq> ''''
                          then trim_space (env ''POLYMARKET_RELAYER_URL'') else defaultRelayerURL);
          usdce = trim_space (env ''POLYMARKET_REDEEM_USDCE'')
      in cfg\<lparr>pc_RelayerURL := relayer,
             pc_PolygonRPCURL := env_if_set env ''POLYGON_RPC_URL'' (pc_PolygonRPCURL cfg),
             pc_BuilderAPIKey := env_or env ''POLYMARKET_BUILDER_API_KEY'' (pc_BuilderAPIKey cfg),
             pc_BuilderSecret := env_or env ''POLYMARKET_BUILDER_SECRET'' (pc_BuilderSecret cfg),
             pc_BuilderPassphrase := env_or env ''POLYMARKET_BUILDER_PASSPHRASE'' (pc_BuilderPassphrase cfg),
             pc_RedeemUSDCe := (if usdce \<noteq> '''' then equal_fold usdce ''true'' \<or> usdce = ''1'' else pc_RedeemUSDCe cfg),
             pc_PrivateKey := (if trim_space (pc_PrivateKey cfg) = '''' then EnvPrivateKey env else pc_PrivateKey cfg),
             pc_ProxyAddress := env_if_set env ''POLYMARKET_PROXY_ADDRESS'' (pc_ProxyAddress cfg),
             pc_SignatureType := (case EnvSignatureType env of
                Some st \<Rightarrow> if pc_SignatureType cfg = 0 then st else pc_SignatureType cfg
              | None \<Rightarrow> pc_SignatureType cfg)\<rparr>)"

definition PMDefaultConfig :: "getenv \<Rightarrow> pm_config" where
  "PMDefaultConfig env = MergeEnvConfig env
     \<lparr>pc_GammaURL = ''https://gamma-api.polymarket.com'', pc_ClobURL = ''https://clob.polymarket.com'',
      pc_DataURL = ''https://data-api.polymarket.com'', pc_ChainID = 137, pc_PrivateKey = '''',
      pc_ProxyAddress = '''', pc_SignatureType = 0, pc_PreviewMode = True, pc_PolygonRPCURL = '''',
      pc_RelayerURL = defaultRelayerURL, pc_BuilderAPIKey = '''', pc_BuilderSecret = '''',
      pc_BuilderPassphrase = '''', pc_RedeemUSDCe = False\<rparr>"

text \<open>\<open>NewClient\<close>: without a Gamma URL the default configuration replaces the given one.\<close>

definition NewClient :: "getenv \<Rightarrow> pm_config \<Rightarrow> pm_config" where
  "NewClient env cfg = (if pc_GammaURL cfg = '''' then PMDefaultConfig env else cfg)"

definition SignatureTypeForOrder :: "pm_config \<Rightarrow> int" where
  "SignatureTypeForOrder cfg =
     (if trim_space (pc_ProxyAddress cfg) = '''' then 0
      else if pc_SignatureType cfg < 0 \<or> pc_SignatureType cfg > 3 then 0
      else pc_SignatureType cfg)"

section \<open>The relayer's settings\<close>

definition relayer_base :: "pm_config \<Rightarrow> gostring" where
  "relayer_base cfg =
     (let base = trim_right_slash (trim_space (pc_RelayerURL cfg)) in
      if base = '''' then defaultRelayerURL else base)"

definition hasCreds :: "pm_config \<Rightarrow> bool" where
  "hasCreds cfg \<longleftrightarrow> trim_space (pc_BuilderAPIKey cfg) \<noteq> '''' \<and> trim_space (pc_BuilderSecret cfg) \<noteq> '''' \<and>
     trim_space (pc_BuilderPassphrase cfg) \<noteq> ''''"

definition needsRelayer :: "pm_config \<Rightarrow> bool" where
  "needsRelayer cfg \<longleftrightarrow> trim_space (pc_ProxyAddress cfg) \<noteq> '''' \<or> pc_SignatureType cfg = 1 \<or> pc_SignatureType cfg = 2"

definition liveRedeemReady :: "pm_config \<Rightarrow> bool" where
  "liveRedeemReady cfg \<longleftrightarrow>
     \<not> (pc_PreviewMode cfg \<or> trim_space (pc_PrivateKey cfg) = '''') \<and> (if needsRelayer cfg then hasCreds cfg else True)"

definition LiveRedeemConfigured :: "getenv \<Rightarrow> pm_config \<Rightarrow> bool" where
  "LiveRedeemConfigured env cfg \<longleftrightarrow>
     (let cfg = MergeEnvConfig env cfg in
      hasCreds cfg \<or> trim_space (pc_PolygonRPCURL cfg) \<noteq> '''' \<or> defaultPolygonRPCURL \<noteq> '''')"

definition polygonRPC :: "pm_config \<Rightarrow> gostring" where
  "polygonRPC cfg = (if trim_space (pc_PolygonRPCURL cfg) \<noteq> '''' then pc_PolygonRPCURL cfg else defaultPolygonRPCURL)"

section \<open>HTTP\<close>

record http_request =
  hq_Method :: gostring
  hq_URL :: gostring
  hq_Headers :: "(gostring \<times> gostring) list"
  hq_Body :: gostring

text \<open>\<open>Do\<close>: no response at all, or a status with the body as it was read.\<close>

datatype http_result = NoResponse perr | Response int "perr + gostring"

text \<open>The arguments of \<open>telemetry.RecordHTTP\<close>, the duration aside.\<close>

record http_event =
  hv_Category :: gostring
  hv_Method :: gostring
  hv_URL :: gostring
  hv_Err :: "perr option"
  hv_Status :: int
  hv_BodyLen :: int

record 's web =
  wb_NewRequest :: "gostring \<Rightarrow> gostring \<Rightarrow> perr option"
  wb_Do :: "'s \<Rightarrow> http_request \<Rightarrow> http_result \<times> 's"
  wb_Record :: "'s \<Rightarrow> http_event \<Rightarrow> 's"
  wb_now :: "'s \<Rightarrow> int"

definition httpCategory :: "gostring \<Rightarrow> gostring" where
  "httpCategory u = (if contains (to_lower u) ''clob'' then ''clob'' else ''gamma'')"

definition pm_truncate :: "gostring \<Rightarrow> nat \<Rightarrow> gostring" where
  "pm_truncate s n = (if length s \<le> n then s else take n s @ ''...'')"

definition http_error :: "int \<Rightarrow> gostring \<Rightarrow> nat \<Rightarrow> perr" where
  "http_error status body n = OtherErr (''HTTP '' @ itoa status @ '': '' @ pm_truncate body n)"

text \<open>What both helpers do with a result: the answer, and the event they record.\<close>

definition http_answer :: "gostring \<Rightarrow> gostring \<Rightarrow> gostring \<Rightarrow> nat \<Rightarrow> http_result \<Rightarrow> (perr + gostring) \<times> http_event" where
  "http_answer cat method u n r =
     (let ev = \<lparr>hv_Category = cat, hv_Method = method, hv_URL = u, hv_Err = None, hv_Status = 0, hv_BodyLen = 0\<rparr> in
      case r of
        NoResponse e \<Rightarrow> (Inl e, ev\<lparr>hv_Err := Some e\<rparr>)
      | Response st (Inl e) \<Rightarrow> (Inl e, ev\<lparr>hv_Err := Some e, hv_Status := st\<rparr>)
      | Response st (Inr body) \<Rightarrow>
          if st \<ge> 400
          then (Inl (http_error st body n), ev\<lparr>hv_Err := Some (http_error st body n), hv_Status := st, hv_BodyLen := int (length body)\<rparr>)
          else (Inr body, ev\<lparr>hv_Status := st, hv_BodyLen := int (length body)\<rparr>))"

definition http_call :: "'s web \<Rightarrow> gostring \<Rightarrow> nat \<Rightarrow> http_request \<Rightarrow> 's \<Rightarrow> (perr + gostring) \<times> 's" where
  "http_call w cat n req s =
     (let (r, s) = wb_Do w s req;
          (ans, ev) = http_answer cat (hq_Method req) (hq_URL req) n r
      in (ans, wb_Record w s ev))"

definition getJSON :: "'s web \<Rightarrow> gostring \<Rightarrow> 's \<Rightarrow> (perr + gostring) \<times> 's" where
  "getJSON w u s =
     (case wb_NewRequest w ''GET'' u of
        Some e \<Rightarrow> (Inl e, s)
      | None \<Rightarrow> http_call w (httpCategory u) 200
          \<lparr>hq_Method = ''GET'', hq_URL = u, hq_Headers = [(''User-Agent'', ''nofx-prediction/0.2'')], hq_Body = ''''\<rparr> s)"

section \<open>What the settings decide\<close>

lemma SignatureTypeForOrder_range: "0 \<le> SignatureTypeForOrder cfg \<and> SignatureTypeForOrder cfg \<le> 3"
  by (auto simp: SignatureTypeForOrder_def)

lemma EnvSignatureType_range: "EnvSignatureType env = Some n \<Longrightarrow> 0 \<le> n \<and> n \<le> 3"
  by (auto simp: EnvSignatureType_def Let_def split: option.splits if_split_asm)

lemma LiveRedeemConfigured_always: "LiveRedeemConfigured env cfg"
  by (simp add: LiveRedeemConfigured_def defaultPolygonRPCURL_def Let_def)

lemma env_or_idem [simp]: "env_or env n (env_or env n cur) = env_or env n cur"
  by (simp add: env_or_def)

lemma env_if_set_idem [simp]: "env_if_set env n (env_if_set env n cur) = env_if_set env n cur"
  by (simp add: env_if_set_def)

lemma EnvPrivateKey_trim [simp]: "trim_space (EnvPrivateKey env) = EnvPrivateKey env"
  by (simp add: EnvPrivateKey_def)

lemma defaultRelayerURL_not_blank [simp]: "trim_space defaultRelayerURL = defaultRelayerURL"
  unfolding defaultRelayerURL_def by code_simp

text \<open>
  completing a configuration from the environment is idempotent, keeps every credential and
  address that was configured, and leaves a relayer address; so \<open>LiveRedeemConfigured\<close>, which
  completes it once more, looks at the settings the client runs with.
\<close>

theorem merge_env_idempotent:
  "MergeEnvConfig env (MergeEnvConfig env cfg) = MergeEnvConfig env cfg \<and>
   trim_space (pc_RelayerURL (MergeEnvConfig env cfg)) \<noteq> '''' \<and>
   pc_PrivateKey (MergeEnvConfig env cfg) =
     (if trim_space (pc_PrivateKey cfg) = '''' then EnvPrivateKey env else pc_PrivateKey cfg) \<and>
   pc_PreviewMode (MergeEnvConfig env cfg) = pc_PreviewMode cfg \<and>
   hasCreds (MergeEnvConfig env cfg) =
     (trim_space (env_or env ''POLYMARKET_BUILDER_API_KEY'' (pc_BuilderAPIKey cfg)) \<noteq> '''' \<and>
      trim_space (env_or env ''POLYMARKET_BUILDER_SECRET'' (pc_BuilderSecret cfg)) \<noteq> '''' \<and>
      trim_space (env_or env ''POLYMARKET_BUILDER_PASSPHRASE'' (pc_BuilderPassphrase cfg)) \<noteq> '''')"
proof -
  have relayer: "defaultRelayerURL \<noteq> ''''" by (simp add: defaultRelayerURL_def)
  have "trim_space (pc_RelayerURL (MergeEnvConfig env cfg)) \<noteq> ''''"
    using relayer by (simp add: MergeEnvConfig_def Let_def)
  moreover have "MergeEnvConfig env (MergeEnvConfig env cfg) = MergeEnvConfig env cfg"
    using relayer by (simp add: MergeEnvConfig_def Let_def split: option.split)
  ultimately show ?thesis by (simp add: MergeEnvConfig_def hasCreds_def Let_def)
qed

end
