(* ===== verification/Pred_Manager.thy ===== *)
theory Pred_Manager
  imports Sim_Persist PM_Config
begin

text \<open>
  \<open>manager/prediction_venue.go\<close> and \<open>manager/prediction_manager.go\<close>: from the row of a trader to the
  venue it trades on and the object that runs, and the set of the objects a server holds.

  A trader object is shared by pointer between the manager's map, the goroutine that runs it and
  the handlers, so objects live in a heap and the map holds their addresses.  A goroutine is a task:
  first \<open>Pending\<close>, before it has called \<open>Run\<close>, then \<open>Looping\<close>, between its cycles.
\<close>

section \<open>AI models\<close>

record ai_model =
  am_ID :: gostring
  am_UserID :: gostring
  am_Provider :: gostring
  am_Enabled :: bool
  am_APIKey :: gostring
  am_CustomAPIURL :: gostring
  am_CustomModelName :: gostring

definition model_candidates :: "gostring \<Rightarrow> gostring list" where
  "model_candidates uid =
     (let c = (if uid \<noteq> '''' then [uid] else []) @ (if uid \<noteq> ''default'' then [''default''] else [])
      in if c = [] then [''default''] else c)"

fun first_model :: "('d, ai_model) table \<Rightarrow> 'd \<Rightarrow> gostring \<Rightarrow> gostring list \<Rightarrow> perr + ai_model" where
  "first_model T d mid [] = Inl not_found"
| "first_model T d mid (uid # uids) =
     (case tb_First T d (\<lambda>m. am_UserID m = uid \<and> am_ID m = mid) of
        Inl e \<Rightarrow> Inl e | Inr (Some m) \<Rightarrow> Inr m | Inr None \<Rightarrow> first_model T d mid uids)"

definition GetAIModel :: "('d, ai_model) table \<Rightarrow> 'd \<Rightarrow> gostring \<Rightarrow> gostring \<Rightarrow> perr + ai_model" where
  "GetAIModel T d uid mid =
     (if mid = '''' then Inl (OtherErr ''model ID cannot be empty'')
      else first_model T d mid (model_candidates uid))"

section \<open>The server's surroundings\<close>

text \<open>
  The tables, the environment variables, the two security settings (nothing while the configuration
  is not loaded), the clock and the source of new ids, the JSON codec for the two configurations in
  a row (\<open>se_SimBalance\<close> prints a simulation configuration with another starting balance), which providers have a client, the public market data, and the Polymarket venue of a
  configuration, read in the state it is in.
\<close>

record ('d, 'w) server_env =
  se_db :: "'d pred_db"
  se_models :: "('d, ai_model) table"
  se_getenv :: getenv
  se_security :: "(bool \<times> bool) option"
  se_now :: int
  se_uuid :: "'d \<Rightarrow> gostring"
  se_Strategy :: "strategy \<Rightarrow> gostring \<Rightarrow> perr option \<times> strategy"
  se_StrategyText :: "strategy \<Rightarrow> gostring"
  se_SimConfig :: "sim_config \<Rightarrow> gostring \<Rightarrow> perr option \<times> sim_config"
  se_SimBalance :: "gostring \<Rightarrow> f64 \<Rightarrow> gostring"
  se_HasClient :: "gostring \<Rightarrow> bool"
  se_reader :: market_reader
  se_range :: token_range
  se_poly :: "pm_config \<Rightarrow> 'w venue_ops"
  se_world :: 'w

section \<open>Venues\<close>

datatype venue = SimVenue sim_venue | PolyVenue pm_config

definition effectivePrivateKey :: "('d, 'w) server_env \<Rightarrow> trader_row option \<Rightarrow> gostring" where
  "effectivePrivateKey env row =
     (case row of None \<Rightarrow> EnvPrivateKey (se_getenv env)
      | Some r \<Rightarrow> if tr_PrivateKey r \<noteq> '''' then tr_PrivateKey r else EnvPrivateKey (se_getenv env))"

definition buildPolymarketVenue :: "('d, 'w) server_env \<Rightarrow> trader_row \<Rightarrow> pm_config" where
  "buildPolymarketVenue env row =
     (let cfg = MergeEnvConfig (se_getenv env) (PMDefaultConfig (se_getenv env));
          cfg = cfg\<lparr>pc_PreviewMode := (EffectiveTradingMode row \<noteq> ''live'')\<rparr>;
          cfg = cfg\<lparr>pc_PrivateKey := effectivePrivateKey env (Some row)\<rparr>;
          cfg = (if trim_space (tr_ProxyAddress row) \<noteq> '''' then cfg\<lparr>pc_ProxyAddress := tr_ProxyAddress row\<rparr> else cfg);
          cfg = cfg\<lparr>pc_SignatureType := ResolveSignatureType (se_getenv env) (tr_SignatureType row) (pc_ProxyAddress cfg)\<rparr>
      in NewClient (se_getenv env) cfg)"

text \<open>The start row and the stored ledger are used when there is a store; their errors are ignored.\<close>

definition buildSimVenue :: "('d, 'w) server_env \<Rightarrow> bool \<Rightarrow> trader_row \<Rightarrow> 'd \<Rightarrow> sim_venue \<times> 'd" where
  "buildSimVenue env has_store row d =
     (let cfg = snd (ParseSimConfigJSON (se_SimConfig env) (tr_SimConfigJSON row) SimDefaultConfig);
          l = NewLedger (sc_InitialBalanceUsd cfg);
          d = snd (InitLedgerInStore has_store (se_db env) (se_now env) (tr_ID row) cfg d);
          l = snd (LoadLedgerFromStore has_store (se_db env) (tr_ID row) d l)
      in (BindStore has_store (tr_ID row) (NewVenue cfg (Some l)), d))"

definition BuildVenueForTrader :: "('d, 'w) server_env \<Rightarrow> bool \<Rightarrow> trader_row \<Rightarrow> 'd \<Rightarrow> venue \<times> 'd" where
  "BuildVenueForTrader env has_store row d =
     (if EffectiveTradingMode row = ''simulation'' then map_prod SimVenue id (buildSimVenue env has_store row d)
      else (PolyVenue (buildPolymarketVenue env row), d))"

definition BuildVenueForTraderLegacy :: "('d, 'w) server_env \<Rightarrow> trader_row \<Rightarrow> 'd \<Rightarrow> venue \<times> 'd" where
  "BuildVenueForTraderLegacy env = BuildVenueForTrader env False"

text \<open>Two reads of a venue, through the interface it implements.\<close>

definition venue_collateral :: "('d, 'w) server_env \<Rightarrow> venue \<Rightarrow> perr + f64 \<times> f64" where
  "venue_collateral env v =
     (case v of SimVenue sv \<Rightarrow> Inr (GetCollateral (se_range env) (se_range env) (se_reader env) sv)
      | PolyVenue cfg \<Rightarrow> vn_GetCollateral (se_poly env cfg) (se_world env))"

definition venue_outcome_positions :: "('d, 'w) server_env \<Rightarrow> venue \<Rightarrow> perr + outcome_position list" where
  "venue_outcome_positions env v =
     (case v of SimVenue sv \<Rightarrow> Inr (GetOutcomePositions (se_range env) (se_range env) (se_reader env) sv)
      | PolyVenue cfg \<Rightarrow> vn_GetOutcomePositions (se_poly env cfg) (se_world env))"

section \<open>Loading a trader\<close>

datatype (plugins only: code size) load_err =
  AlreadyLoaded | AIModelErr gostring perr | AIModelDisabled gostring | LiveKeyMissing | PreviewKeyMissing
| BadTrader engine_err

definition ValidatePredictionTraderRow :: "('d, 'w) server_env \<Rightarrow> trader_row \<Rightarrow> load_err option" where
  "ValidatePredictionTraderRow env row =
     (let mode = EffectiveTradingMode row in
      if mode = ''live'' then (if effectivePrivateKey env (Some row) = '''' then Some LiveKeyMissing else None)
      else if mode = ''preview'' then (if effectivePrivateKey env (Some row) = '''' then Some PreviewKeyMissing else None)
      else None)"

text \<open>The strategy a row runs: its preview flag follows the mode of the row.\<close>

definition loaded_strategy :: "('d, 'w) server_env \<Rightarrow> trader_row \<Rightarrow> strategy" where
  "loaded_strategy env row =
     (let strat = WithDefaults (snd (ParseStrategyJSON (se_Strategy env) (tr_StrategyJSON row) DefaultStrategyConfig));
          mode = EffectiveTradingMode row
      in strat\<lparr>st_Risk := (st_Risk strat)\<lparr>rc_PreviewMode := (mode \<noteq> ''live'' \<and> mode \<noteq> ''simulation'')\<rparr>\<rparr>)"

text \<open>The configuration of a trader, with the model of its user when its mode asks for one.\<close>

definition trader_setup :: "('d, 'w) server_env \<Rightarrow> trader_row \<Rightarrow> 'd \<Rightarrow> load_err + trader_config \<times> bool" where
  "trader_setup env row d =
     (let strat = loaded_strategy env row;
          cfg = \<lparr>tc_ID = tr_ID row, tc_Name = tr_Name row, tc_AIModel = '''', tc_APIKey = '''', tc_CustomURL = '''',
                 tc_CustomModel = '''', tc_ScanInterval = tr_ScanIntervalMinutes row, tc_Strategy = strat\<rparr>
      in if st_Mode strat = ModeRules then Inr (cfg, False)
         else case GetAIModel (se_models env) d (tr_UserID row) (tr_AIModelID row) of
           Inl e \<Rightarrow> Inl (AIModelErr (tr_AIModelID row) e)
         | Inr m \<Rightarrow>
             if \<not> am_Enabled m then Inl (AIModelDisabled (tr_AIModelID row))
             else let cfg = cfg\<lparr>tc_AIModel := am_Provider m, tc_APIKey := am_APIKey m\<rparr>;
                      cfg = (if am_Provider m = ''qwen'' \<or> am_Provider m = ''deepseek'' then cfg
                             else cfg\<lparr>tc_CustomURL := am_CustomAPIURL m, tc_CustomModel := am_CustomModelName m\<rparr>)
                  in Inr (cfg, se_HasClient env (am_Provider m)))"

section \<open>The server\<close>

record object =
  ob_ID :: gostring
  ob_UserID :: gostring
  ob_Venue :: venue
  ob_Trader :: trader

text \<open>
  A task of the start handler is marked, for it clears the row's flag when it ends; the last flag
  of a loop says that the channel it waits on is closed.
\<close>

datatype task = Pending bool nat | Looping bool nat bool

fun task_addr :: "task \<Rightarrow> nat" where
  "task_addr (Pending h a) = a"
| "task_addr (Looping h a c) = a"

record 'd server =
  sr_DB :: 'd
  sr_Heap :: "object list"
  sr_Traders :: "gostring \<rightharpoonup> nat"
  sr_LoadErrors :: "gostring \<rightharpoonup> load_err"
  sr_Tasks :: "task list"

definition NewPredictionManager :: "'d \<Rightarrow> 'd server" where
  "NewPredictionManager d = \<lparr>sr_DB = d, sr_Heap = [], sr_Traders = Map.empty, sr_LoadErrors = Map.empty, sr_Tasks = []\<rparr>"

definition GetTraderObject :: "gostring \<Rightarrow> 'd server \<Rightarrow> nat option" where
  "GetTraderObject tid s = sr_Traders s tid"

definition GetLoadError :: "gostring \<Rightarrow> 'd server \<Rightarrow> load_err option" where
  "GetLoadError tid s = sr_LoadErrors s tid"

definition RuntimeStatusFor :: "int \<Rightarrow> gostring \<Rightarrow> 'd server \<Rightarrow> runtime_status option" where
  "RuntimeStatusFor now tid s = map_option (\<lambda>a. RuntimeStatus now (ob_Trader (sr_Heap s ! a))) (sr_Traders s tid)"

definition set_trader :: "nat \<Rightarrow> trader \<Rightarrow> 'd server \<Rightarrow> 'd server" where
  "set_trader a t s = s\<lparr>sr_Heap := (sr_Heap s)[a := (sr_Heap s ! a)\<lparr>ob_Trader := t\<rparr>]\<rparr>"

text \<open>\<open>Stop\<close> closes the channel the trader's loops wait on, if it was running.\<close>

fun see_closed :: "nat \<Rightarrow> task \<Rightarrow> task" where
  "see_closed a (Looping h b c) = Looping h b (c \<or> b = a)"
| "see_closed a (Pending h b) = Pending h b"

definition stop_object :: "nat \<Rightarrow> 'd server \<Rightarrow> 'd server" where
  "stop_object a s =
     (let t = ob_Trader (sr_Heap s ! a) in
      if \<not> t_isRunning t then s
      else (set_trader a (stop_run t) s)\<lparr>sr_Tasks := map (see_closed a) (sr_Tasks s)\<rparr>)"

definition RemoveTrader :: "gostring \<Rightarrow> 'd server \<Rightarrow> 'd server" where
  "RemoveTrader tid s =
     (let s = (case sr_Traders s tid of None \<Rightarrow> s
               | Some a \<Rightarrow> (stop_object a s)\<lparr>sr_Traders := (sr_Traders s)(tid := None)\<rparr>)
      in s\<lparr>sr_LoadErrors := (sr_LoadErrors s)(tid := None)\<rparr>)"

definition addTraderFromStore :: "('d, 'w) server_env \<Rightarrow> trader_row \<Rightarrow> 'd server \<Rightarrow> load_err option \<times> 'd server" where
  "addTraderFromStore env row s =
     (if sr_Traders s (tr_ID row) \<noteq> None then (Some AlreadyLoaded, s)
      else case trader_setup env row (sr_DB s) of
        Inl e \<Rightarrow> (Some e, s)
      | Inr (cfg, hasClient) \<Rightarrow>
         (case ValidatePredictionTraderRow env row of
            Some e \<Rightarrow> (Some e, s)
          | None \<Rightarrow>
             (let (v, d) = BuildVenueForTrader env True row (sr_DB s); s = s\<lparr>sr_DB := d\<rparr> in
              case NewPredictionTrader cfg hasClient (se_now env) of
                Inl e \<Rightarrow> (Some (BadTrader e), s)
              | Inr t \<Rightarrow>
                  let a = length (sr_Heap s);
                      ob = \<lparr>ob_ID = tr_ID row, ob_UserID = tr_UserID row, ob_Venue = v,
                            ob_Trader = SetStore True (tr_ID row) t\<rparr>
                  in (None, s\<lparr>sr_Heap := sr_Heap s @ [ob], sr_Traders := (sr_Traders s)(tr_ID row \<mapsto> a),
                              sr_Tasks := sr_Tasks s @ (if tr_IsRunning row then [Pending False a] else [])\<rparr>))))"

text \<open>A row that is loaded is skipped; a load that succeeds clears an older error.\<close>

fun load_user_rows :: "('d, 'w) server_env \<Rightarrow> trader_row list \<Rightarrow> 'd server \<Rightarrow> 'd server" where
  "load_user_rows env [] s = s"
| "load_user_rows env (r # rs) s =
     load_user_rows env rs
       (if sr_Traders s (tr_ID r) \<noteq> None then s
        else case addTraderFromStore env r s of
          (Some e, s) \<Rightarrow> s\<lparr>sr_LoadErrors := (sr_LoadErrors s)(tr_ID r \<mapsto> e)\<rparr>
        | (None, s) \<Rightarrow> s\<lparr>sr_LoadErrors := (sr_LoadErrors s)(tr_ID r := None)\<rparr>)"

definition LoadUserTradersFromStore :: "('d, 'w) server_env \<Rightarrow> gostring \<Rightarrow> 'd server \<Rightarrow> perr option \<times> 'd server" where
  "LoadUserTradersFromStore env uid s =
     (case ListTraders (se_db env) uid (sr_DB s) of Inl e \<Rightarrow> (Some e, s) | Inr rows \<Rightarrow> (None, load_user_rows env rows s))"

fun load_all_rows :: "('d, 'w) server_env \<Rightarrow> trader_row list \<Rightarrow> 'd server \<Rightarrow> 'd server" where
  "load_all_rows env [] s = s"
| "load_all_rows env (r # rs) s =
     load_all_rows env rs
       (if sr_Traders s (tr_ID r) \<noteq> None then s
        else case addTraderFromStore env r s of
          (Some e, s) \<Rightarrow> s\<lparr>sr_LoadErrors := (sr_LoadErrors s)(tr_ID r \<mapsto> e)\<rparr>
        | (None, s) \<Rightarrow> s)"

definition LoadTradersFromStore :: "('d, 'w) server_env \<Rightarrow> 'd server \<Rightarrow> perr option \<times> 'd server" where
  "LoadTradersFromStore env s =
     (case ListAllTraders (se_db env) (sr_DB s) of Inl e \<Rightarrow> (Some e, s) | Inr rows \<Rightarrow> (None, load_all_rows env rows s))"

section \<open>Goroutines\<close>

text \<open>
  A pending goroutine calls \<open>Run\<close>.  A trader that runs already is refused, and the goroutine clears the
  row's flag; otherwise it loops.  A loop whose channel is closed ends, and clears the flag if the
  start handler made it; a loop that comes back from a cycle waits on the channel the trader has now.
\<close>

definition remove_at :: "nat \<Rightarrow> 'a list \<Rightarrow> 'a list" where
  "remove_at i xs = take i xs @ drop (Suc i) xs"

definition mark_stopped :: "('d, 'w) server_env \<Rightarrow> nat \<Rightarrow> 'd server \<Rightarrow> 'd server" where
  "mark_stopped env a s =
     (let ob = sr_Heap s ! a in s\<lparr>sr_DB := snd (UpdateStatus (se_db env) (ob_UserID ob) (ob_ID ob) False (sr_DB s))\<rparr>)"

definition begin_task :: "('d, 'w) server_env \<Rightarrow> nat \<Rightarrow> 'd server \<Rightarrow> 'd server" where
  "begin_task env i s =
     (case sr_Tasks s ! i of
        Pending h a \<Rightarrow>
         (case run_begin (ob_Trader (sr_Heap s ! a)) of
            Inl _ \<Rightarrow> mark_stopped env a (s\<lparr>sr_Tasks := remove_at i (sr_Tasks s)\<rparr>)
          | Inr t \<Rightarrow> (set_trader a t s)\<lparr>sr_Tasks := (sr_Tasks s)[i := Looping h a False]\<rparr>)
      | _ \<Rightarrow> s)"

definition end_task :: "('d, 'w) server_env \<Rightarrow> nat \<Rightarrow> 'd server \<Rightarrow> 'd server" where
  "end_task env i s =
     (case sr_Tasks s ! i of
        Looping h a True \<Rightarrow>
          (let s = s\<lparr>sr_Tasks := remove_at i (sr_Tasks s)\<rparr> in if h then mark_stopped env a s else s)
      | _ \<Rightarrow> s)"

definition reselect_task :: "nat \<Rightarrow> 'd server \<Rightarrow> 'd server" where
  "reselect_task i s =
     (case sr_Tasks s ! i of
        Looping h a c \<Rightarrow> s\<lparr>sr_Tasks := (sr_Tasks s)[i := Looping h a (\<not> t_isRunning (ob_Trader (sr_Heap s ! a)))]\<rparr>
      | _ \<Rightarrow> s)"

end
