(* ===== verification/Pred_Api.thy ===== *)
theory Pred_Api
  imports Pred_Manager Sim_Ops
begin

text \<open>
  \<open>api/prediction_guard.go\<close>, \<open>api/prediction_redact.go\<close> and the handlers of \<open>api/handler_prediction.go\<close>
  that change the server: which requests it refuses, and what the others do to the rows, the
  trader objects and the goroutines.  A handler returns its answer and the server afterwards; the
  user of a request is who the authentication middleware says.
\<close>

section \<open>Guards\<close>

definition predictionSecurity :: "('d, 'w) server_env \<Rightarrow> bool \<times> bool" where
  "predictionSecurity env = (case se_security env of None \<Rightarrow> (False, False) | Some p \<Rightarrow> p)"

abbreviation live_enabled :: "('d, 'w) server_env \<Rightarrow> bool" where
  "live_enabled env \<equiv> fst (predictionSecurity env)"

definition predictionLiveRedeemEnabled :: "('d, 'w) server_env \<Rightarrow> bool" where
  "predictionLiveRedeemEnabled env \<longleftrightarrow>
     live_enabled env \<and> LiveRedeemConfigured (se_getenv env) (PMDefaultConfig (se_getenv env))"

definition ownedPredictionTrader :: "('d, 'w) server_env \<Rightarrow> gostring \<Rightarrow> gostring \<Rightarrow> 'd server \<Rightarrow> trader_row option" where
  "ownedPredictionTrader env uid tid s =
     (case GetTrader (se_db env) uid tid (sr_DB s) of Inl _ \<Rightarrow> None | Inr row \<Rightarrow> Some row)"

definition denyLiveTradingDisabled :: "('d, 'w) server_env \<Rightarrow> trader_row option \<Rightarrow> bool" where
  "denyLiveTradingDisabled env row \<longleftrightarrow>
     (case row of None \<Rightarrow> False | Some r \<Rightarrow> EffectiveTradingMode r = ''live'' \<and> \<not> live_enabled env)"

definition denyLiveModeRequest :: "('d, 'w) server_env \<Rightarrow> gostring \<Rightarrow> bool" where
  "denyLiveModeRequest env tm \<longleftrightarrow> trim_space tm = ''live'' \<and> \<not> live_enabled env"

definition rejectLiveBrowserPrivateKey :: "('d, 'w) server_env \<Rightarrow> gostring \<Rightarrow> gostring \<Rightarrow> bool" where
  "rejectLiveBrowserPrivateKey env tm key \<longleftrightarrow>
     trim_space key \<noteq> '''' \<and> trim_space tm = ''live'' \<and> \<not> snd (predictionSecurity env)"

definition rejectLiveWithoutPrivateKey :: "('d, 'w) server_env \<Rightarrow> trader_row option \<Rightarrow> gostring \<Rightarrow> bool" where
  "rejectLiveWithoutPrivateKey env row key \<longleftrightarrow>
     (case row of None \<Rightarrow> False
      | Some r \<Rightarrow> EffectiveTradingMode r = ''live'' \<and>
          \<not> (tr_PrivateKey r \<noteq> '''' \<or> trim_space key \<noteq> '''' \<or> EnvPrivateKey (se_getenv env) \<noteq> ''''))"

definition rejectPreviewWithoutPrivateKey :: "gostring \<Rightarrow> trader_row option \<Rightarrow> gostring \<Rightarrow> bool" where
  "rejectPreviewWithoutPrivateKey tm row key \<longleftrightarrow>
     (let mode = trim_space tm;
          mode = (case row of Some r \<Rightarrow> if mode = '''' then EffectiveTradingMode r else mode | None \<Rightarrow> mode)
      in mode = ''preview'' \<and>
         \<not> ((case row of Some r \<Rightarrow> tr_PrivateKey r \<noteq> '''' | None \<Rightarrow> False) \<or> trim_space key \<noteq> ''''))"

definition predictionWalletConfigured :: "trader_row option \<Rightarrow> bool" where
  "predictionWalletConfigured row \<longleftrightarrow>
     (case row of None \<Rightarrow> False
      | Some r \<Rightarrow> EffectiveTradingMode r = ''simulation'' \<or> tr_PrivateKey r \<noteq> '''' \<or> trim_space (tr_ProxyAddress r) \<noteq> '''')"

section \<open>Redaction\<close>

text \<open>
  The wire of an order is a JSON object; \<open>unmarshal\<close> gives its fields, a string field as \<open>Inl\<close> and any
  other value as \<open>Inr\<close>, and \<open>marshal\<close> prints it again.  The mark is cut to ASCII: the code writes
  an ellipsis character in front of it.
\<close>

type_synonym json_object = "(gostring, gostring + gostring) gomap"

definition redacted_mark :: gostring where
  "redacted_mark = ''...[redacted]''"

definition redactPreviewWireJSON ::
  "(gostring \<Rightarrow> json_object option) \<Rightarrow> (json_object \<Rightarrow> gostring) \<Rightarrow> gostring \<Rightarrow> gostring" where
  "redactPreviewWireJSON unmarshal marshal wire =
     (if wire = '''' then ''''
      else case unmarshal wire of
        None \<Rightarrow> if length wire > 32 then take 16 wire @ redacted_mark else ''[redacted]''
      | Some obj \<Rightarrow> marshal
          (case map_of obj ''signature'' of
             Some (Inl sig) \<Rightarrow> if length sig > 16 then mput ''signature'' (Inl (take 10 sig @ redacted_mark)) obj else obj
           | _ \<Rightarrow> obj))"

definition redactExecutionOutcomes :: "(gostring \<Rightarrow> gostring) \<Rightarrow> execution_outcome list \<Rightarrow> execution_outcome list" where
  "redactExecutionOutcomes redact =
     map (\<lambda>x. if eo_PreviewWire x \<noteq> '''' then x\<lparr>eo_PreviewWire := redact (eo_PreviewWire x)\<rparr> else x)"

definition includeFullPreviewWire :: "gostring \<Rightarrow> bool" where
  "includeFullPreviewWire q \<longleftrightarrow> equal_fold (trim_space q) ''true''"

section \<open>Paging\<close>

text \<open>A query parameter that is absent takes its default; one that is not a number counts as 0.\<close>

definition query_number :: "gostring option \<Rightarrow> int \<Rightarrow> int" where
  "query_number q def = (case q of None \<Rightarrow> def | Some t \<Rightarrow> (case atoi t of None \<Rightarrow> 0 | Some n \<Rightarrow> n))"

definition parseListPage :: "gostring option \<Rightarrow> gostring option \<Rightarrow> int \<Rightarrow> int \<times> int" where
  "parseListPage limit_q offset_q def =
     (let limit = query_number limit_q def; offset = query_number offset_q 0;
          limit = (if limit \<le> 0 then def else limit);
          limit = (if limit > 100 then 100 else limit);
          offset = (if offset < 0 then 0 else offset)
      in (limit, offset))"

section \<open>Answers\<close>

datatype answer =
  ErrText gostring | ErrVal perr | ErrLoad load_err
| Created gostring gostring | Success | Updated
| Redeemed "(gostring \<times> (perr + redeem_result)) list"
| Positions "f64 \<times> f64 \<times> outcome_position list \<times> bool"
| Cancelled gostring gostring
| Reset f64

type_synonym reply = "int \<times> answer"

definition live_disabled :: reply where
  "live_disabled = (403, ErrText ''live prediction trading is disabled on this server (set PREDICTION_LIVE_ENABLED=true to enable)'')"

definition browser_keys_disabled :: gostring where
  "browser_keys_disabled = ''uploading private keys for live trading via API is disabled; configure keys server-side or set PREDICTION_ALLOW_BROWSER_PRIVATE_KEY=true for development only''"

text \<open>The error of \<open>GetTrader\<close>, with the id in single quotes.\<close>

definition not_loaded :: "gostring \<Rightarrow> answer" where
  "not_loaded tid = ErrText (''prediction trader '' @ CHR 0x27 # tid @ CHR 0x27 # '' not loaded'')"

definition trader_not_found :: reply where
  "trader_not_found = (404, ErrText ''trader not found'')"

section \<open>Creating and changing traders\<close>

record create_req =
  cq_Name :: gostring
  cq_AIModelID :: gostring
  cq_Venue :: gostring
  cq_PrivateKey :: gostring
  cq_ProxyAddress :: gostring
  cq_SignatureType :: int
  cq_ScanIntervalMinutes :: int
  cq_PreviewMode :: "bool option"
  cq_TradingMode :: gostring
  cq_SimConfig :: gostring
  cq_Strategy :: strategy

record update_req =
  uq_Name :: gostring
  uq_AIModelID :: gostring
  uq_ProxyAddress :: gostring
  uq_SignatureType :: int
  uq_ScanIntervalMinutes :: int
  uq_PreviewMode :: "bool option"
  uq_TradingMode :: gostring
  uq_SimConfig :: "gostring option"
  uq_Strategy :: strategy
  uq_PrivateKey :: gostring

definition create_mode :: "create_req \<Rightarrow> gostring" where
  "create_mode req =
     (let preview = (case cq_PreviewMode req of None \<Rightarrow> False | Some b \<Rightarrow> b); tm = trim_space (cq_TradingMode req)
      in if tm = '''' then (if preview then ''preview'' else ''live'') else tm)"

definition mode_strategy :: "gostring \<Rightarrow> strategy \<Rightarrow> strategy" where
  "mode_strategy tm strat0 =
     (let strat = WithDefaults strat0
      in strat\<lparr>st_Risk := (st_Risk strat)\<lparr>rc_PreviewMode := (tm \<noteq> ''live'' \<and> tm \<noteq> ''simulation'')\<rparr>\<rparr>)"

definition create_row :: "('d, 'w) server_env \<Rightarrow> gostring \<Rightarrow> gostring \<Rightarrow> create_req \<Rightarrow> trader_row" where
  "create_row env uid tid req =
     (let tm = create_mode req; proxy = trim_space (cq_ProxyAddress req)
      in \<lparr>tr_ID = tid, tr_UserID = uid, tr_Name = trim_space (cq_Name req), tr_AIModelID = cq_AIModelID req,
          tr_Venue = (if cq_Venue req = '''' then ''polymarket'' else cq_Venue req),
          tr_PrivateKey = trim_space (cq_PrivateKey req), tr_ProxyAddress = proxy,
          tr_SignatureType = ResolveSignatureType (se_getenv env) (cq_SignatureType req) proxy,
          tr_StrategyJSON = se_StrategyText env (mode_strategy tm (cq_Strategy req)),
          tr_ScanIntervalMinutes = (if cq_ScanIntervalMinutes req \<le> 0 then 5 else cq_ScanIntervalMinutes req),
          tr_PreviewMode = (tm \<noteq> ''live''), tr_TradingMode = tm, tr_SimConfigJSON = cq_SimConfig req,
          tr_IsRunning = False, tr_ShowInCompetition = False, tr_CreatedAt = 0\<rparr>)"

definition create_refusal :: "('d, 'w) server_env \<Rightarrow> create_req \<Rightarrow> reply option" where
  "create_refusal env req =
     (let tm = create_mode req; live = (tm = ''live'') in
      if live \<and> denyLiveModeRequest env tm then Some live_disabled
      else if live \<and> trim_space (cq_PrivateKey req) = '''' \<and> EnvPrivateKey (se_getenv env) = '''' then
        Some (400, ErrText ''private_key required for live trading (or set POLYMARKET_PRIVATE_KEY on server)'')
      else if live \<and> rejectLiveBrowserPrivateKey env tm (cq_PrivateKey req) then
        Some (403, ErrText browser_keys_disabled)
      else if \<not> IsValidTradingMode tm then Some (400, ErrText ''invalid trading_mode; use simulation, preview, or live'')
      else if rejectPreviewWithoutPrivateKey tm None (cq_PrivateKey req) then
        Some (400, ErrText ''private_key required for preview signing'')
      else None)"

definition handleCreatePredictionTrader ::
  "('d, 'w) server_env \<Rightarrow> gostring \<Rightarrow> perr + create_req \<Rightarrow> 'd server \<Rightarrow> reply \<times> 'd server" where
  "handleCreatePredictionTrader env uid breq s =
     (case breq of Inl e \<Rightarrow> ((400, ErrVal e), s)
      | Inr req \<Rightarrow>
          case GetAIModel (se_models env) (sr_DB s) uid (cq_AIModelID req) of
            Inl _ \<Rightarrow> ((400, ErrText ''invalid ai_model_id''), s)
          | Inr _ \<Rightarrow>
              case create_refusal env req of Some r \<Rightarrow> (r, s)
              | None \<Rightarrow>
                  let row = create_row env uid (se_uuid env (sr_DB s)) req in
                  case CreateTrader (se_db env) row (sr_DB s) of
                    (Some e, d) \<Rightarrow> ((500, ErrVal e), s\<lparr>sr_DB := d\<rparr>)
                  | (None, d) \<Rightarrow> ((201, Created (tr_ID row) (tr_Name row)), snd (LoadUserTradersFromStore env uid (s\<lparr>sr_DB := d\<rparr>))))"

text \<open>The mode of an update: what the request names, or what it says of preview.\<close>

definition update_mode :: "('d, 'w) server_env \<Rightarrow> update_req \<Rightarrow> trader_row \<Rightarrow> reply + trader_row" where
  "update_mode env req row =
     (let tm = trim_space (uq_TradingMode req) in
      if tm \<noteq> '''' then
        if \<not> IsValidTradingMode tm then Inl (400, ErrText ''invalid trading_mode; use simulation, preview, or live'')
        else if tm = ''live'' \<and> denyLiveModeRequest env tm then Inl live_disabled
        else Inr (row\<lparr>tr_TradingMode := tm, tr_PreviewMode := (tm \<noteq> ''live'')\<rparr>)
      else case uq_PreviewMode req of None \<Rightarrow> Inr row
        | Some p \<Rightarrow>
            if tr_TradingMode row = ''simulation'' then Inr row
            else if p then Inr (row\<lparr>tr_PreviewMode := True, tr_TradingMode := ''preview''\<rparr>)
            else if denyLiveModeRequest env ''live'' then Inl live_disabled
            else Inr (row\<lparr>tr_PreviewMode := False, tr_TradingMode := ''live''\<rparr>))"

definition has_strategy :: "strategy \<Rightarrow> bool" where
  "has_strategy st \<longleftrightarrow> st_Mode st \<noteq> '''' \<or> st_StaticSlugs st \<noteq> [] \<or> ms_Type (st_MarketSource st) \<noteq> '''' \<or>
     ms_Tag (st_MarketSource st) \<noteq> '''' \<or> 0 < rc_MaxOrderUsd (st_Risk st) \<or> st_FastLoopSec st > 0"

definition update_basics :: "update_req \<Rightarrow> trader_row \<Rightarrow> trader_row" where
  "update_basics req row =
     row\<lparr>tr_Name := uq_Name req, tr_AIModelID := uq_AIModelID req, tr_ProxyAddress := trim_space (uq_ProxyAddress req),
         tr_SignatureType := uq_SignatureType req,
         tr_ScanIntervalMinutes := (if uq_ScanIntervalMinutes req > 0 then uq_ScanIntervalMinutes req else tr_ScanIntervalMinutes row)\<rparr>"

definition update_config :: "('d, 'w) server_env \<Rightarrow> update_req \<Rightarrow> trader_row \<Rightarrow> trader_row" where
  "update_config env req row =
     (let row = (case uq_SimConfig req of None \<Rightarrow> row | Some t \<Rightarrow> row\<lparr>tr_SimConfigJSON := t\<rparr>) in
      if has_strategy (uq_Strategy req)
      then row\<lparr>tr_StrategyJSON := se_StrategyText env (mode_strategy (EffectiveTradingMode row) (uq_Strategy req))\<rparr>
      else row)"

definition update_refusal :: "('d, 'w) server_env \<Rightarrow> update_req \<Rightarrow> trader_row \<Rightarrow> reply option" where
  "update_refusal env req row =
     (if rejectLiveBrowserPrivateKey env (EffectiveTradingMode row) (uq_PrivateKey req) then
        Some (403, ErrText browser_keys_disabled)
      else if rejectLiveWithoutPrivateKey env (Some row) (uq_PrivateKey req) then
        Some (400, ErrText ''private key required for live trading'')
      else if rejectPreviewWithoutPrivateKey (tr_TradingMode row) (Some row) (uq_PrivateKey req) then
        Some (400, ErrText ''private_key required for preview signing'')
      else None)"

definition handleUpdatePredictionTrader ::
  "('d, 'w) server_env \<Rightarrow> gostring \<Rightarrow> gostring \<Rightarrow> perr + update_req \<Rightarrow> 'd server \<Rightarrow> reply \<times> 'd server" where
  "handleUpdatePredictionTrader env uid tid breq s =
     (case breq of Inl e \<Rightarrow> ((400, ErrVal e), s)
      | Inr req \<Rightarrow>
          case ownedPredictionTrader env uid tid s of None \<Rightarrow> (trader_not_found, s)
          | Some row0 \<Rightarrow>
              case GetAIModel (se_models env) (sr_DB s) uid (uq_AIModelID req) of
                Inl _ \<Rightarrow> ((400, ErrText ''invalid ai_model_id''), s)
              | Inr _ \<Rightarrow>
                  case update_mode env req (update_basics req row0) of Inl r \<Rightarrow> (r, s)
                  | Inr row1 \<Rightarrow>
                      let row = update_config env req row1 in
                      case update_refusal env req row of Some r \<Rightarrow> (r, s)
                      | None \<Rightarrow>
                          case UpdateTrader (se_db env) row (sr_DB s) of
                            (Some e, d) \<Rightarrow> ((500, ErrVal e), s\<lparr>sr_DB := d\<rparr>)
                          | (None, d) \<Rightarrow>
                              let d = (if uq_PrivateKey req \<noteq> '''' then snd (UpdatePrivateKey (se_db env) uid tid (uq_PrivateKey req) d) else d);
                                  s = RemoveTrader tid (s\<lparr>sr_DB := d\<rparr>);
                                  s = (if tr_IsRunning row0 then s\<lparr>sr_DB := snd (UpdateStatus (se_db env) uid tid False (sr_DB s))\<rparr> else s)
                              in ((200, Updated), snd (LoadUserTradersFromStore env uid s)))"

definition stop_loaded :: "gostring \<Rightarrow> 'd server \<Rightarrow> 'd server" where
  "stop_loaded tid s = (case GetTraderObject tid s of None \<Rightarrow> s | Some a \<Rightarrow> stop_object a s)"

definition handleDeletePredictionTrader ::
  "('d, 'w) server_env \<Rightarrow> gostring \<Rightarrow> gostring \<Rightarrow> 'd server \<Rightarrow> reply \<times> 'd server" where
  "handleDeletePredictionTrader env uid tid s =
     (case ownedPredictionTrader env uid tid s of None \<Rightarrow> (trader_not_found, s)
      | Some _ \<Rightarrow>
          let s = RemoveTrader tid (stop_loaded tid s) in
          case DeleteTrader (se_db env) uid tid (sr_DB s) of
            (Some e, d) \<Rightarrow> ((500, ErrVal e), s\<lparr>sr_DB := d\<rparr>)
          | (None, d) \<Rightarrow> ((200, Success), s\<lparr>sr_DB := d\<rparr>))"

section \<open>Starting and stopping\<close>

definition set_status :: "('d, 'w) server_env \<Rightarrow> gostring \<Rightarrow> gostring \<Rightarrow> bool \<Rightarrow> 'd server \<Rightarrow> 'd server" where
  "set_status env uid tid b s = s\<lparr>sr_DB := snd (UpdateStatus (se_db env) uid tid b (sr_DB s))\<rparr>"

text \<open>
  The row is read before the traders are loaded.  A row marked as running without a running object is
  corrected first, so the second test of the row's flag never holds.
\<close>

definition handleStartPredictionTrader ::
  "('d, 'w) server_env \<Rightarrow> gostring \<Rightarrow> gostring \<Rightarrow> 'd server \<Rightarrow> reply \<times> 'd server" where
  "handleStartPredictionTrader env uid tid s =
     (case ownedPredictionTrader env uid tid s of None \<Rightarrow> (trader_not_found, s)
      | Some row \<Rightarrow>
          if denyLiveTradingDisabled env (Some row) then (live_disabled, s)
          else
            let s = snd (LoadUserTradersFromStore env uid s);
                pt = GetTraderObject tid s;
                running = (case pt of None \<Rightarrow> False | Some a \<Rightarrow> t_isRunning (ob_Trader (sr_Heap s ! a)));
                (s, marked) = (if tr_IsRunning row \<and> \<not> running then (set_status env uid tid False s, False) else (s, tr_IsRunning row))
            in if running then ((409, ErrText ''trader is already running''), if \<not> marked then set_status env uid tid True s else s)
               else if marked then ((409, ErrText ''trader is already running''), s)
               else case pt of
                 None \<Rightarrow> (case GetLoadError tid s of
                     Some e \<Rightarrow> ((400, ErrLoad e), s)
                   | None \<Rightarrow> ((400, not_loaded tid), s))
               | Some a \<Rightarrow>
                   let s = set_status env uid tid True s
                   in ((200, Success), s\<lparr>sr_Tasks := sr_Tasks s @ [Pending True a]\<rparr>))"

definition handleStopPredictionTrader ::
  "('d, 'w) server_env \<Rightarrow> gostring \<Rightarrow> gostring \<Rightarrow> 'd server \<Rightarrow> reply \<times> 'd server" where
  "handleStopPredictionTrader env uid tid s =
     (case ownedPredictionTrader env uid tid s of None \<Rightarrow> (trader_not_found, s)
      | Some _ \<Rightarrow> ((200, Success), set_status env uid tid False (stop_loaded tid s)))"

text \<open>
  A listing loads the user's traders first, and with them starts the ones marked as running.
\<close>

definition handlePredictionTraderList ::
  "('d, 'w) server_env \<Rightarrow> gostring \<Rightarrow> 'd server \<Rightarrow> (perr + (trader_row \<times> load_err option) list) \<times> 'd server" where
  "handlePredictionTraderList env uid s0 =
     (let s = snd (LoadUserTradersFromStore env uid s0)
      in (map_sum id (map (\<lambda>r. (r, GetLoadError (tr_ID r) s))) (ListTraders (se_db env) uid (sr_DB s)), s))"

text \<open>\<open>run-once\<close> and \<open>sell\<close> act on the object that is loaded; this is which, or why none.\<close>

definition action_target ::
  "('d, 'w) server_env \<Rightarrow> gostring \<Rightarrow> gostring \<Rightarrow> 'd server \<Rightarrow> (reply + nat) \<times> 'd server" where
  "action_target env uid tid s =
     (case ownedPredictionTrader env uid tid s of None \<Rightarrow> (Inl trader_not_found, s)
      | Some row \<Rightarrow>
          if denyLiveTradingDisabled env (Some row) then (Inl live_disabled, s)
          else
            let s = snd (LoadUserTradersFromStore env uid s)
            in (case GetTraderObject tid s of
                  None \<Rightarrow> Inl (400, not_loaded tid) | Some a \<Rightarrow> Inr a, s))"

section \<open>Requests that act on a venue of their own\<close>

text \<open>
  These handlers build a venue from the row for themselves; the object a running trader holds does not
  see it.  \<open>w\<close> is the state of Polymarket's servers.
\<close>

definition handlePredictionPositions ::
  "('d, 'w) server_env \<Rightarrow> gostring \<Rightarrow> gostring \<Rightarrow> 'd server \<Rightarrow> reply \<times> 'd server" where
  "handlePredictionPositions env uid tid s =
     (case ownedPredictionTrader env uid tid s of None \<Rightarrow> (trader_not_found, s)
      | Some row \<Rightarrow>
          if \<not> predictionWalletConfigured (Some row) then ((200, Positions (0, 0, [], False)), s)
          else
            let (v, d) = BuildVenueForTrader env True row (sr_DB s); s = s\<lparr>sr_DB := d\<rparr>;
                (avail, equity) = (case venue_collateral env v of Inl _ \<Rightarrow> (0, 0) | Inr c \<Rightarrow> c)
            in (case venue_outcome_positions env v of
                  Inl e \<Rightarrow> (502, ErrVal e) | Inr ps \<Rightarrow> (200, Positions (avail, equity, ps, True)), s))"

text \<open>An item that fails does not stop the others.\<close>

fun redeem_items ::
  "'s venue_ops \<Rightarrow> redeemable_position list \<Rightarrow> 's \<Rightarrow> (gostring \<times> (perr + redeem_result)) list \<times> 's" where
  "redeem_items ops [] s = ([], s)"
| "redeem_items ops (it # its) s =
     (let (r, s) = vn_RedeemCondition ops s (rp_ConditionID it) (rp_NegRisk it); (rs, s) = redeem_items ops its s
      in ((rp_ConditionID it, r) # rs, s))"

definition redeem_all ::
  "'s venue_ops \<Rightarrow> 's \<Rightarrow> reply \<times> 's" where
  "redeem_all ops s =
     (case vn_FindRedeemablePositions ops s of Inl e \<Rightarrow> ((502, ErrVal e), s)
      | Inr items \<Rightarrow>
          let (rs, s) = redeem_items ops items s in ((200, Redeemed rs), vn_RecordEquitySnapshot ops s 0))"

definition handlePredictionRedeem ::
  "('d, 'w) server_env \<Rightarrow> ((gostring \<times> stored_order) list \<Rightarrow> (gostring \<times> stored_order) list) \<Rightarrow>
   gostring \<Rightarrow> gostring \<Rightarrow> 'd server \<times> 'w \<Rightarrow> reply \<times> 'd server \<times> 'w" where
  "handlePredictionRedeem env orng uid tid sw =
     (let (s, w) = sw in
      case ownedPredictionTrader env uid tid s of None \<Rightarrow> (trader_not_found, s, w)
      | Some row \<Rightarrow>
          if denyLiveTradingDisabled env (Some row) then (live_disabled, s, w)
          else if EffectiveTradingMode row = ''live'' \<and> \<not> predictionLiveRedeemEnabled env then
            ((501, ErrText ''live redeem is not configured; set POLYMARKET_BUILDER_* and POLYGON_RPC_URL''), s, w)
          else
            (case BuildVenueForTrader env True row (sr_DB s) of
               (PolyVenue cfg, d) \<Rightarrow>
                 (let (r, w) = redeem_all (se_poly env cfg) w in (r, s\<lparr>sr_DB := d\<rparr>, w))
             | (SimVenue sv, d) \<Rightarrow>
                 (let (r, sv) = redeem_all (sim_ops (se_now env) (se_range env) orng (se_reader env)) sv
                  in (r, s\<lparr>sr_DB := run_effects (se_db env) (se_range env) tid (sv_trace sv) d\<rparr>, w))))"

definition order_over :: "gostring \<Rightarrow> bool" where
  "order_over st \<longleftrightarrow> st \<in> {''filled'', ''cancelled'', ''canceled''}"

definition handlePredictionCancelOrder ::
  "('d, 'w) server_env \<Rightarrow> gostring \<Rightarrow> gostring \<Rightarrow> gostring \<Rightarrow> 'd server \<times> 'w \<Rightarrow> reply \<times> 'd server \<times> 'w" where
  "handlePredictionCancelOrder env uid tid oid0 sw =
     (let (s, w) = sw; oid = trim_space oid0 in
      if oid = '''' then ((400, ErrText ''order_id required''), s, w)
      else case ownedPredictionTrader env uid tid s of None \<Rightarrow> (trader_not_found, s, w)
      | Some row \<Rightarrow>
          if EffectiveTradingMode row = ''simulation'' then ((400, ErrText ''cancel is for preview/live orders only''), s, w)
          else case GetOrderRecord (se_db env) tid oid (sr_DB s) of
            Inl _ \<Rightarrow> ((404, ErrText ''order not found for this trader''), s, w)
          | Inr rec \<Rightarrow>
              if order_over (od_Status (db_Data rec)) then
                ((400, ErrText (''order is already terminal: '' @ od_Status (db_Data rec))), s, w)
              else case vn_CancelOrder (se_poly env (buildPolymarketVenue env row)) w oid of
                (Inl e, w) \<Rightarrow> ((502, ErrVal e), s, w)
              | (Inr _, w) \<Rightarrow>
                  let status = (if od_IsPreview (db_Data rec) then ''preview'' else ''cancelled'')
                  in ((200, Cancelled oid status),
                      s\<lparr>sr_DB := snd (UpdateOrderStatus (se_db env) tid oid status (sr_DB s))\<rparr>, w))"

text \<open>
  A reset wipes and reinitialises the account and replaces the object; the row keeps its flag, so a
  trader that was running is started again.
\<close>

definition reset_account :: "('d, 'w) server_env \<Rightarrow> gostring \<Rightarrow> trader_row \<Rightarrow> 'd server \<Rightarrow> reply \<times> 'd server" where
  "reset_account env uid row s =
     (let cfg = snd (ParseSimConfigJSON (se_SimConfig env) (tr_SimConfigJSON row) SimDefaultConfig) in
      case ResetSimAccount True (se_db env) (se_now env) (tr_ID row) cfg (sr_DB s) of
        (Some e, d) \<Rightarrow> ((500, ErrVal e), s\<lparr>sr_DB := d\<rparr>)
      | (None, d) \<Rightarrow>
          ((200, Reset (sc_InitialBalanceUsd cfg)),
           snd (LoadUserTradersFromStore env uid (RemoveTrader (tr_ID row) (s\<lparr>sr_DB := d\<rparr>)))))"

definition handlePredictionSimReset ::
  "('d, 'w) server_env \<Rightarrow> gostring \<Rightarrow> gostring \<Rightarrow> f64 \<Rightarrow> 'd server \<Rightarrow> reply \<times> 'd server" where
  "handlePredictionSimReset env uid tid initial s =
     (case ownedPredictionTrader env uid tid s of None \<Rightarrow> (trader_not_found, s)
      | Some row \<Rightarrow>
          if EffectiveTradingMode row \<noteq> ''simulation'' then ((400, ErrText ''trader is not in simulation mode''), s)
          else if 0 < initial then
            let row = row\<lparr>tr_SimConfigJSON := se_SimBalance env (tr_SimConfigJSON row) initial\<rparr> in
            (case UpdateTrader (se_db env) row (sr_DB s) of
               (Some e, d) \<Rightarrow> ((500, ErrVal e), s\<lparr>sr_DB := d\<rparr>)
             | (None, d) \<Rightarrow> reset_account env uid row (s\<lparr>sr_DB := d\<rparr>))
          else reset_account env uid row s)"

definition handlePredictionShowInCompetition ::
  "('d, 'w) server_env \<Rightarrow> gostring \<Rightarrow> gostring \<Rightarrow> perr + bool \<Rightarrow> 'd server \<Rightarrow> reply \<times> 'd server" where
  "handlePredictionShowInCompetition env uid tid breq s =
     (case breq of Inl e \<Rightarrow> ((400, ErrVal e), s)
      | Inr sh \<Rightarrow>
          case ownedPredictionTrader env uid tid s of None \<Rightarrow> (trader_not_found, s)
          | Some _ \<Rightarrow>
              (case UpdateShowInCompetition (se_db env) uid tid sh (sr_DB s) of
                 (Some e, d) \<Rightarrow> ((500, ErrVal e), s\<lparr>sr_DB := d\<rparr>)
               | (None, d) \<Rightarrow> ((200, Success), s\<lparr>sr_DB := d\<rparr>)))"

end
