(* ===== verification/Api_Correct.thy ===== *)
theory Api_Correct
  imports Pred_Api
begin

text \<open>
  The server as a state machine.  Its events are the requests of users and the steps of its
  goroutines; the theorems say what no sequence of events can do (make a live trader on a server
  with live trading switched off, touch another user's traders) and what one can (keep a deleted
  trader running).
\<close>

section \<open>What the handlers rely on of the database\<close>

text \<open>
  \<open>rows d\<close> are the trader rows of the database \<open>d\<close>: the table of traders obeys the laws of a table,
  creating fills in the column defaults and the time, and no operation on another table changes
  them, in a transaction or not.
\<close>

definition keeps_rows :: "('d \<Rightarrow> 'r list) \<Rightarrow> ('d \<Rightarrow> 'a \<times> 'd) \<Rightarrow> bool" where
  "keeps_rows rows f \<longleftrightarrow> (\<forall>d. rows (snd (f d)) = rows d)"

definition frame_law :: "('d \<Rightarrow> 'r list) \<Rightarrow> ('d, 'q) table \<Rightarrow> bool" where
  "frame_law rows T \<longleftrightarrow> (\<forall>r. keeps_rows rows (\<lambda>d. tb_Create T d r)) \<and> (\<forall>r. keeps_rows rows (\<lambda>d. tb_Save T d r)) \<and>
     (\<forall>p u. keeps_rows rows (\<lambda>d. tb_Update T d p u)) \<and> (\<forall>p. keeps_rows rows (\<lambda>d. tb_Delete T d p))"

definition created_row :: "trader_row \<Rightarrow> trader_row \<Rightarrow> bool" where
  "created_row r x \<longleftrightarrow> (\<exists>t. x = (trader_defaults r)\<lparr>tr_CreatedAt := t\<rparr>)"

definition traders_ok :: "'d pred_db \<Rightarrow> ('d \<Rightarrow> trader_row list) \<Rightarrow> bool" where
  "traders_ok db rows \<longleftrightarrow>
     first_law (pd_traders db) rows \<and> list_law (pd_traders db) rows tr_CreatedAt \<and>
     (\<exists>fill. create_law (pd_traders db) rows fill \<and> (\<forall>d r. created_row r (fill d r))) \<and>
     save_law (pd_traders db) rows tr_ID \<and> update_law (pd_traders db) rows \<and> delete_law (pd_traders db) rows \<and>
     frame_law rows (pd_decisions db) \<and> frame_law rows (pd_audit db) \<and> frame_law rows (pd_orders db) \<and>
     frame_law rows (pd_risk db) \<and> frame_law rows (pd_accounts db) \<and> frame_law rows (pd_positions db) \<and>
     frame_law rows (pd_fills db) \<and> frame_law rows (pd_snapshots db) \<and>
     (\<forall>f. keeps_rows rows f \<longrightarrow> keeps_rows rows (pd_Transaction db f))"

named_theorems frame

lemma frame_lawD [frame]:
  "frame_law rows T \<Longrightarrow> rows (snd (tb_Create T d r)) = rows d"
  "frame_law rows T \<Longrightarrow> rows (snd (tb_Save T d r)) = rows d"
  "frame_law rows T \<Longrightarrow> rows (snd (tb_Update T d p u)) = rows d"
  "frame_law rows T \<Longrightarrow> rows (snd (tb_Delete T d p)) = rows d"
  by (simp_all add: frame_law_def keeps_rows_def)

lemma traders_okD:
  assumes "traders_ok db rows"
  shows "frame_law rows (pd_decisions db)" "frame_law rows (pd_audit db)" "frame_law rows (pd_orders db)"
    "frame_law rows (pd_risk db)" "frame_law rows (pd_accounts db)" "frame_law rows (pd_positions db)"
    "frame_law rows (pd_fills db)" "frame_law rows (pd_snapshots db)"
    "first_law (pd_traders db) rows" "list_law (pd_traders db) rows tr_CreatedAt"
    "save_law (pd_traders db) rows tr_ID" "update_law (pd_traders db) rows" "delete_law (pd_traders db) rows"
  using assms by (simp_all add: traders_ok_def)

lemma tx_keeps: "traders_ok db rows \<Longrightarrow> (\<And>d. rows (snd (f d)) = rows d) \<Longrightarrow> rows (snd (pd_Transaction db f d)) = rows d"
  by (auto simp: traders_ok_def keeps_rows_def)

section \<open>Operations that leave the trader rows alone\<close>

lemma create_positions_frame:
  "frame_law rows (pd_positions db) \<Longrightarrow> rows (snd (create_positions db tid ps d)) = rows d"
proof (induction ps arbitrary: d)
  case (Cons p ps)
  then show ?case using frame_lawD(1) [OF Cons.prems, of d "\<lparr>sp_TraderID = tid, sp_Meta = p\<rparr>"]
    by (auto split: prod.split option.split)
qed simp

lemma until_error_frame: "(\<And>f d. f \<in> set fs \<Longrightarrow> rows (snd (f d)) = rows d) \<Longrightarrow> rows (snd (until_error fs d)) = rows d"
proof (induction fs arbitrary: d)
  case (Cons f fs)
  obtain e d' where f: "f d = (e, d')" by fastforce
  have "rows (snd (f d)) = rows d" by (rule Cons.prems) simp
  moreover have "rows (snd (until_error fs d')) = rows d'" by (rule Cons.IH) (simp add: Cons.prems)
  ultimately show ?case using f by (cases e) simp_all
qed simp

lemma SaveSimState_frame:
  assumes ok: "traders_ok db rows"
  shows "rows (snd (SaveSimState db tid cash initial ps d)) = rows d"
proof -
  note F = traders_okD [OF ok]
  have "rows (snd (save_sim_tx db tid cash initial ps d)) = rows d" for d
    using frame_lawD(2) [OF F(5), of d "\<lparr>sa_TraderID = tid, sa_CashUsdc = cash, sa_InitialBalance = initial\<rparr>"]
      frame_lawD(4) [OF F(6)] create_positions_frame [OF F(6)]
    by (auto simp: save_sim_tx_def split: prod.split option.split) (metis snd_conv)+
  then show ?thesis unfolding SaveSimState_def by (rule tx_keeps [OF ok])
qed

lemma delete_rows_frame:
  assumes ok: "traders_ok db rows"
  shows "rows (snd (DeleteDecisions db tid d)) = rows d" "rows (snd (DeleteSimData db tid d)) = rows d"
    "rows (snd (DeleteOrderRecords db tid d)) = rows d" "rows (snd (DeleteRiskState db tid d)) = rows d"
    "rows (snd (DeleteAuditLogs db tid d)) = rows d"
proof -
  note F = traders_okD(1-8) [OF ok]
  show "rows (snd (DeleteSimData db tid d)) = rows d"
    unfolding DeleteSimData_def by (rule until_error_frame) (use F in \<open>auto simp: frame\<close>)
qed (simp_all add: DeleteDecisions_def DeleteOrderRecords_def DeleteRiskState_def DeleteAuditLogs_def frame traders_okD(1-8) [OF ok])

lemma start_account_frame:
  assumes ok: "traders_ok db rows"
  shows "rows (snd (start_account db now tid cfg d)) = rows d"
  using SaveSimState_frame [OF ok] frame_lawD(1) [OF traders_okD(8) [OF ok]]
  by (auto simp: start_account_def SaveSimSnapshotRow_def Let_def split: prod.split option.split) (metis snd_conv)+

lemma sim_account_frame:
  assumes ok: "traders_ok db rows"
  shows "rows (snd (InitLedgerInStore has_store db now tid cfg d)) = rows d"
    "rows (snd (ResetSimAccount has_store db now tid cfg d)) = rows d"
proof -
  show "rows (snd (InitLedgerInStore has_store db now tid cfg d)) = rows d"
    using start_account_frame [OF ok] by (auto simp: InitLedgerInStore_def split: sum.split option.split)
  have "rows d' = rows d" if "DeleteSimData db tid d = (e, d')" for e d'
    using delete_rows_frame(2) [OF ok, of tid d] that by simp
  then show "rows (snd (ResetSimAccount has_store db now tid cfg d)) = rows d"
    using start_account_frame [OF ok] delete_rows_frame [OF ok]
    by (auto simp: ResetSimAccount_def Let_def split: prod.split option.split)
qed

lemma BuildVenue_frame:
  "traders_ok (se_db env) rows \<Longrightarrow> rows (snd (BuildVenueForTrader env has_store row d)) = rows d"
  using sim_account_frame(1)
  by (auto simp: BuildVenueForTrader_def buildSimVenue_def Let_def)

lemma run_effects_frame:
  assumes ok: "traders_ok db rows"
  shows "rows (run_effects db rng tid es d) = rows d"
proof (induction es arbitrary: d)
  case (Cons e es)
  have "rows (run_effect db rng tid e d) = rows d"
    using SaveSimState_frame [OF ok] traders_okD [OF ok]
    by (cases e) (simp_all add: SaveSimFillRow_def SaveSimSnapshotRow_def saveLedger_def frame)
  then show ?case using Cons by simp
qed simp

section \<open>Operations on the trader rows\<close>

text \<open>An update of the rows of one user's trader, as the set of rows sees it.\<close>

lemma GetTrader_row:
  "traders_ok db rows \<Longrightarrow> GetTrader db uid tid d = Inr r \<Longrightarrow> r \<in> set (rows d) \<and> tr_ID r = tid \<and> tr_UserID r = uid"
  using traders_okD(9) [of db rows]
  by (fastforce simp: GetTrader_def first_law_def owned_row_def split: sum.splits option.splits)

lemma owned_row_in:
  "traders_ok (se_db env) rows \<Longrightarrow> ownedPredictionTrader env uid tid s = Some r \<Longrightarrow>
   r \<in> set (rows (sr_DB s)) \<and> tr_ID r = tid \<and> tr_UserID r = uid"
  using GetTrader_row [of "se_db env" rows uid tid "sr_DB s" r] by (auto simp: ownedPredictionTrader_def split: sum.splits)

lemma tb_Update_rows:
  "traders_ok db rows \<Longrightarrow>
   mset (rows (snd (tb_Update (pd_traders db) d p u))) = mset (rows d) \<or>
   mset (rows (snd (tb_Update (pd_traders db) d p u))) = image_mset (\<lambda>x. if p x then u x else x) (mset (rows d))"
  using traders_okD(12) [of db rows] unfolding update_law_def by (metis prod.collapse)

lemma UpdatePrivateKey_rows:
  assumes ok: "traders_ok db rows"
  shows "mset (rows (snd (UpdatePrivateKey db uid tid key d))) = mset (rows d) \<or>
    (\<exists>r. r \<in> set (rows d) \<and> owned_row uid tid r \<and>
      mset (rows (snd (UpdatePrivateKey db uid tid key d))) =
        add_mset (r\<lparr>tr_PrivateKey := key\<rparr>) (mset (filter (\<lambda>x. tr_ID x \<noteq> tid) (rows d))))"
proof (cases "tb_First (pd_traders db) d (owned_row uid tid)")
  case (Inr q)
  show ?thesis
  proof (cases q)
    case (Some r)
    have r: "r \<in> set (rows d)" "owned_row uid tid r"
      using traders_okD(9) [OF ok] Inr Some by (fastforce simp: first_law_def)+
    obtain e d' where sv: "tb_Save (pd_traders db) d (r\<lparr>tr_PrivateKey := key\<rparr>) = (e, d')" by fastforce
    then have "mset (rows d') = (if e = None then add_mset (r\<lparr>tr_PrivateKey := key\<rparr>) (mset (filter (\<lambda>x. tr_ID x \<noteq> tid) (rows d)))
        else mset (rows d))"
      using traders_okD(11) [OF ok] r(2) by (auto simp: save_law_def owned_row_def)
    then show ?thesis using r sv Inr Some by (auto simp: UpdatePrivateKey_def split: if_splits)
  qed (use Inr in \<open>simp add: UpdatePrivateKey_def\<close>)
qed (simp add: UpdatePrivateKey_def)

lemma DeleteTrader_rows:
  assumes ok: "traders_ok db rows"
  shows "mset (rows (snd (DeleteTrader db uid tid d))) = mset (rows d) \<or>
    mset (rows (snd (DeleteTrader db uid tid d))) = mset (filter (\<lambda>x. \<not> owned_row uid tid x) (rows d))"
proof -
  let ?d = "snd (DeleteAuditLogs db tid (snd (DeleteRiskState db tid (snd (DeleteOrderRecords db tid
    (snd (DeleteSimData db tid (snd (DeleteDecisions db tid d)))))))))"
  have "rows ?d = rows d" by (simp add: delete_rows_frame [OF ok])
  moreover have "DeleteTrader db uid tid d = tb_Delete (pd_traders db) ?d (owned_row uid tid)"
    by (simp add: DeleteTrader_def Let_def)
  moreover obtain e d' where "tb_Delete (pd_traders db) ?d (owned_row uid tid) = (e, d')" by fastforce
  ultimately show ?thesis using traders_okD(13) [OF ok] unfolding delete_law_def by (metis snd_conv)
qed

lemma CreateTrader_rows:
  assumes ok: "traders_ok db rows"
  shows "mset (rows (snd (CreateTrader db r d))) = mset (rows d) \<or>
    (\<exists>x. created_row r x \<and> mset (rows (snd (CreateTrader db r d))) = add_mset x (mset (rows d)))"
proof -
  obtain fill where f: "create_law (pd_traders db) rows fill" "\<And>d r. created_row r (fill d r)"
    using ok by (auto simp: traders_ok_def)
  obtain e d' where "tb_Create (pd_traders db) d r = (e, d')" by fastforce
  then show ?thesis using f unfolding CreateTrader_def create_law_def by (metis snd_conv)
qed

lemma ListTraders_rows:
  assumes ok: "traders_ok db rows" and l: "ListTraders db uid d = Inr rs" and r: "r \<in> set rs"
  shows "r \<in> set (rows d) \<and> tr_UserID r = uid"
proof -
  obtain ss where "mset ss = mset (filter (\<lambda>r. tr_UserID r = uid) (rows d))" "rs = drop (nat 0) ss"
    using traders_okD(10) [OF ok] l unfolding list_law_def ListTraders_def by fastforce
  then have "set rs = {x \<in> set (rows d). tr_UserID x = uid}" using mset_eq_setD [of ss "filter (\<lambda>r. tr_UserID r = uid) (rows d)"] by simp
  then show ?thesis using r by blast
qed

section \<open>One user's step\<close>

text \<open>
  \<open>registered\<close>: an object in the map belongs to the user of the rows with its id, and an id has one
  user.  \<open>others_kept\<close>: the rows, the objects and the map entries of everyone but \<open>u\<close> are as they were.
  \<open>no_live\<close>: no row is live and no object trades for real.
\<close>

definition owned_by :: "(gostring \<Rightarrow> gostring) \<Rightarrow> trader_row set \<Rightarrow> (gostring \<rightharpoonup> nat) \<Rightarrow> object list \<Rightarrow> task list \<Rightarrow> bool" where
  "owned_by owner R traders heap tasks \<longleftrightarrow>
     (\<forall>r \<in> R. tr_UserID r = owner (tr_ID r)) \<and>
     (\<forall>tid a. traders tid = Some a \<longrightarrow> a < length heap \<and> ob_UserID (heap ! a) = owner tid) \<and>
     (\<forall>t \<in> set tasks. task_addr t < length heap)"

definition registered :: "('d \<Rightarrow> trader_row list) \<Rightarrow> 'd server \<Rightarrow> bool" where
  "registered rows s \<longleftrightarrow> (\<exists>owner. owned_by owner (set (rows (sr_DB s))) (sr_Traders s) (sr_Heap s) (sr_Tasks s))"

definition other_rows :: "gostring \<Rightarrow> trader_row list \<Rightarrow> trader_row multiset" where
  "other_rows u xs = mset (filter (\<lambda>r. tr_UserID r \<noteq> u) xs)"

definition other_objects :: "gostring \<Rightarrow> 'd server \<Rightarrow> 'd server \<Rightarrow> bool" where
  "other_objects u s s' \<longleftrightarrow>
     length (sr_Heap s) \<le> length (sr_Heap s') \<and>
     (\<forall>a < length (sr_Heap s). ob_UserID (sr_Heap s' ! a) = ob_UserID (sr_Heap s ! a) \<and>
        (ob_UserID (sr_Heap s ! a) \<noteq> u \<longrightarrow> sr_Heap s' ! a = sr_Heap s ! a)) \<and>
     (\<forall>tid a. sr_Traders s tid = Some a \<and> ob_UserID (sr_Heap s ! a) \<noteq> u \<longrightarrow> sr_Traders s' tid = Some a)"

definition others_kept :: "('d \<Rightarrow> trader_row list) \<Rightarrow> gostring \<Rightarrow> 'd server \<Rightarrow> 'd server \<Rightarrow> bool" where
  "others_kept rows u s s' \<longleftrightarrow>
     other_rows u (rows (sr_DB s')) = other_rows u (rows (sr_DB s)) \<and> other_objects u s s'"

fun live_venue :: "venue \<Rightarrow> bool" where
  "live_venue (SimVenue sv) = False"
| "live_venue (PolyVenue cfg) = (\<not> pc_PreviewMode cfg)"

definition no_live :: "('d \<Rightarrow> trader_row list) \<Rightarrow> 'd server \<Rightarrow> bool" where
  "no_live rows s \<longleftrightarrow> \<not> (\<exists>r \<in> set (rows (sr_DB s)). EffectiveTradingMode r = ''live'') \<and>
     \<not> (\<exists>ob \<in> set (sr_Heap s). live_venue (ob_Venue ob))"

text \<open>An object that no id leads to any more, and that runs.\<close>

definition orphan :: "nat \<Rightarrow> 'd server \<Rightarrow> bool" where
  "orphan a s \<longleftrightarrow> a < length (sr_Heap s) \<and> a \<notin> ran (sr_Traders s) \<and> t_isRunning (ob_Trader (sr_Heap s ! a))"

definition good :: "('d \<Rightarrow> trader_row list) \<Rightarrow> ('d, 'w) server_env \<Rightarrow> gostring \<Rightarrow> 'd server \<Rightarrow> 'd server \<Rightarrow> bool" where
  "good rows env u s s' \<longleftrightarrow> (registered rows s \<longrightarrow>
     registered rows s' \<and> others_kept rows u s s' \<and> (\<not> live_enabled env \<and> no_live rows s \<longrightarrow> no_live rows s') \<and>
     (\<forall>a. orphan a s \<longrightarrow> orphan a s'))"

text \<open>What \<open>u\<close> may do to the object under an id: it is nobody else's.\<close>

definition mine :: "gostring \<Rightarrow> gostring \<Rightarrow> 'd server \<Rightarrow> bool" where
  "mine u tid s \<longleftrightarrow> (\<forall>a. sr_Traders s tid = Some a \<longrightarrow> a < length (sr_Heap s) \<and> ob_UserID (sr_Heap s ! a) = u)"

lemma other_objects_refl [simp]: "other_objects u s s" "other_objects u s (s\<lparr>sr_DB := d\<rparr>)"
  by (simp_all add: other_objects_def)

lemma good_refl [simp]: "good rows env u s s"
  by (simp add: good_def others_kept_def)

lemma other_objects_trans:
  assumes r: "registered rows s" and a: "other_objects u s s1" and b: "other_objects u s1 s2"
  shows "other_objects u s s2"
proof -
  have "sr_Traders s2 tid = Some x" if t: "sr_Traders s tid = Some x" "ob_UserID (sr_Heap s ! x) \<noteq> u" for tid x
  proof -
    have "x < length (sr_Heap s)" using r t(1) by (auto simp: registered_def owned_by_def)
    then have "ob_UserID (sr_Heap s1 ! x) = ob_UserID (sr_Heap s ! x)" "sr_Traders s1 tid = Some x"
      using a t by (simp_all add: other_objects_def)
    then show ?thesis using b t(2) by (simp add: other_objects_def)
  qed
  moreover have "ob_UserID (sr_Heap s2 ! x) = ob_UserID (sr_Heap s ! x) \<and> (ob_UserID (sr_Heap s ! x) \<noteq> u \<longrightarrow> sr_Heap s2 ! x = sr_Heap s ! x)"
    if x: "x < length (sr_Heap s)" for x
  proof -
    have "x < length (sr_Heap s1)" using a x by (simp add: other_objects_def)
    then show ?thesis using a b x by (auto simp: other_objects_def)
  qed
  moreover have "length (sr_Heap s) \<le> length (sr_Heap s2)" using a b by (simp add: other_objects_def)
  ultimately show ?thesis by (simp add: other_objects_def)
qed

lemma others_kept_trans:
  "registered rows s \<Longrightarrow> others_kept rows u s s1 \<Longrightarrow> others_kept rows u s1 s2 \<Longrightarrow> others_kept rows u s s2"
  using other_objects_trans [of rows s u s1 s2] by (simp add: others_kept_def)

lemma good_trans: "good rows env u s s1 \<Longrightarrow> (registered rows s \<Longrightarrow> good rows env u s1 s2) \<Longrightarrow> good rows env u s s2"
  unfolding good_def using others_kept_trans [of rows s u s1 s2] by blast

lemma goodI:
  assumes "registered rows s \<Longrightarrow> registered rows s'" "registered rows s \<Longrightarrow> others_kept rows u s s'"
    "registered rows s \<Longrightarrow> \<not> live_enabled env \<Longrightarrow> no_live rows s \<Longrightarrow> no_live rows s'"
    "\<And>a. registered rows s \<Longrightarrow> orphan a s \<Longrightarrow> orphan a s'"
  shows "good rows env u s s'"
  using assms by (auto simp: good_def)

subsection \<open>Steps on the database\<close>

text \<open>A step on the database alone is good if the new set of rows has the owners it should.\<close>

lemma good_db:
  assumes "\<And>owner. owned_by owner (set (rows (sr_DB s))) (sr_Traders s) (sr_Heap s) (sr_Tasks s) \<Longrightarrow>
      \<exists>owner'. owned_by owner' (set (rows d)) (sr_Traders s) (sr_Heap s) (sr_Tasks s)"
    and "registered rows s \<Longrightarrow> other_rows u (rows d) = other_rows u (rows (sr_DB s))"
    and "\<not> live_enabled env \<Longrightarrow> \<not> (\<exists>r \<in> set (rows (sr_DB s)). EffectiveTradingMode r = ''live'') \<Longrightarrow>
      \<not> (\<exists>r \<in> set (rows d). EffectiveTradingMode r = ''live'')"
  shows "good rows env u s (s\<lparr>sr_DB := d\<rparr>)"
proof (rule goodI)
  assume r: "registered rows s"
  then show "registered rows (s\<lparr>sr_DB := d\<rparr>)" using assms(1) by (auto simp: registered_def)
  show "others_kept rows u s (s\<lparr>sr_DB := d\<rparr>)" using assms(2) [OF r] by (simp add: others_kept_def)
next
  show "no_live rows (s\<lparr>sr_DB := d\<rparr>)" if "\<not> live_enabled env" "no_live rows s"
    using that assms(3) by (simp add: no_live_def)
qed (simp add: orphan_def)

lemma good_quiet:
  assumes "mset (rows d) = mset (rows (sr_DB s))"
  shows "good rows env u s (s\<lparr>sr_DB := d\<rparr>)"
proof -
  have "set (rows d) = set (rows (sr_DB s))" using assms mset_eq_setD by blast
  moreover have "other_rows u (rows d) = other_rows u (rows (sr_DB s))" by (simp add: other_rows_def assms)
  ultimately show ?thesis by (intro good_db) auto
qed

text \<open>Rewriting the rows of one trader of \<open>u\<close>, to a mode that is not live unless a row already was.\<close>

lemma good_rewrite:
  assumes f: "\<And>x. tr_ID (f x) = tr_ID x" "\<And>x. tr_UserID (f x) = tr_UserID x"
    and live: "\<And>x. x \<in> set (rows (sr_DB s)) \<Longrightarrow> EffectiveTradingMode (f x) = ''live'' \<Longrightarrow>
        live_enabled env \<or> (\<exists>r \<in> set (rows (sr_DB s)). EffectiveTradingMode r = ''live'')"
    and m: "mset (rows d) = mset (rows (sr_DB s)) \<or>
        mset (rows d) = image_mset (\<lambda>x. if owned_row u tid x then f x else x) (mset (rows (sr_DB s)))"
  shows "good rows env u s (s\<lparr>sr_DB := d\<rparr>)"
  using m
proof
  define g where "g = (\<lambda>x. if owned_row u tid x then f x else x)"
  assume "mset (rows d) = image_mset (\<lambda>x. if owned_row u tid x then f x else x) (mset (rows (sr_DB s)))"
  then have e: "mset (rows d) = mset (map g (rows (sr_DB s)))" by (simp add: g_def)
  have st: "set (rows d) = g ` set (rows (sr_DB s))" using mset_eq_setD [OF e] by (simp only: set_map)
  have ids: "tr_ID (g x) = tr_ID x" "tr_UserID (g x) = tr_UserID x" for x using f by (simp_all add: g_def)
  show ?thesis
  proof (rule good_db)
    fix owner assume "owned_by owner (set (rows (sr_DB s))) (sr_Traders s) (sr_Heap s) (sr_Tasks s)"
    then show "\<exists>owner'. owned_by owner' (set (rows d)) (sr_Traders s) (sr_Heap s) (sr_Tasks s)"
      by (intro exI [of _ owner]) (simp add: owned_by_def st ids)
  next
    have "filter (\<lambda>r. tr_UserID r \<noteq> u) (map g xs) = filter (\<lambda>r. tr_UserID r \<noteq> u) xs" for xs
      by (rule filter_map_same) (simp_all add: ids, simp add: g_def owned_row_def)
    then show "other_rows u (rows d) = other_rows u (rows (sr_DB s))"
      using arg_cong [OF e, of "filter_mset (\<lambda>r. tr_UserID r \<noteq> u)"] by (simp add: other_rows_def mset_filter [symmetric] del: mset_filter mset_map)
  next
    assume "\<not> live_enabled env" "\<not> (\<exists>r \<in> set (rows (sr_DB s)). EffectiveTradingMode r = ''live'')"
    then show "\<not> (\<exists>r \<in> set (rows d). EffectiveTradingMode r = ''live'')" using live unfolding st g_def by auto
  qed
qed (rule good_quiet)

lemma EffectiveTradingMode_cong:
  "tr_TradingMode x = tr_TradingMode y \<Longrightarrow> tr_PreviewMode x = tr_PreviewMode y \<Longrightarrow> EffectiveTradingMode x = EffectiveTradingMode y"
  by (simp add: EffectiveTradingMode_def)

lemma EffectiveTradingMode_flags [simp]:
  "EffectiveTradingMode (x\<lparr>tr_IsRunning := b\<rparr>) = EffectiveTradingMode x"
  "EffectiveTradingMode (x\<lparr>tr_ShowInCompetition := b\<rparr>) = EffectiveTradingMode x"
  "EffectiveTradingMode (x\<lparr>tr_PrivateKey := key\<rparr>) = EffectiveTradingMode x"
  "EffectiveTradingMode (x\<lparr>tr_SimConfigJSON := j\<rparr>) = EffectiveTradingMode x"
  "EffectiveTradingMode (x\<lparr>tr_StrategyJSON := j\<rparr>) = EffectiveTradingMode x"
  by (simp_all add: EffectiveTradingMode_def)

lemma good_status:
  assumes "traders_ok (se_db env) rows"
  shows "good rows env u s (s\<lparr>sr_DB := snd (UpdateStatus (se_db env) u tid b (sr_DB s))\<rparr>)"
proof (rule good_rewrite [where f = "\<lambda>r. r\<lparr>tr_IsRunning := b\<rparr>" and tid = tid])
  show "mset (rows (snd (UpdateStatus (se_db env) u tid b (sr_DB s)))) = mset (rows (sr_DB s)) \<or>
    mset (rows (snd (UpdateStatus (se_db env) u tid b (sr_DB s)))) =
      image_mset (\<lambda>x. if owned_row u tid x then x\<lparr>tr_IsRunning := b\<rparr> else x) (mset (rows (sr_DB s)))"
    unfolding UpdateStatus_def by (rule tb_Update_rows [OF assms])
  show "live_enabled env \<or> (\<exists>r \<in> set (rows (sr_DB s)). EffectiveTradingMode r = ''live'')"
    if "x \<in> set (rows (sr_DB s))" "EffectiveTradingMode (x\<lparr>tr_IsRunning := b\<rparr>) = ''live''" for x
    using that by (simp only: EffectiveTradingMode_flags) blast
qed simp_all

lemma good_show:
  assumes "traders_ok (se_db env) rows"
  shows "good rows env u s (s\<lparr>sr_DB := snd (UpdateShowInCompetition (se_db env) u tid b (sr_DB s))\<rparr>)"
proof (rule good_rewrite [where f = "\<lambda>r. r\<lparr>tr_ShowInCompetition := b\<rparr>" and tid = tid])
  show "mset (rows (snd (UpdateShowInCompetition (se_db env) u tid b (sr_DB s)))) = mset (rows (sr_DB s)) \<or>
    mset (rows (snd (UpdateShowInCompetition (se_db env) u tid b (sr_DB s)))) =
      image_mset (\<lambda>x. if owned_row u tid x then x\<lparr>tr_ShowInCompetition := b\<rparr> else x) (mset (rows (sr_DB s)))"
    unfolding UpdateShowInCompetition_def by (rule tb_Update_rows [OF assms])
  show "live_enabled env \<or> (\<exists>r \<in> set (rows (sr_DB s)). EffectiveTradingMode r = ''live'')"
    if "x \<in> set (rows (sr_DB s))" "EffectiveTradingMode (x\<lparr>tr_ShowInCompetition := b\<rparr>) = ''live''" for x
    using that by (simp only: EffectiveTradingMode_flags) blast
qed simp_all

lemma good_update:
  assumes "traders_ok (se_db env) rows" "tr_UserID row = u"
    and live: "EffectiveTradingMode row = ''live'' \<Longrightarrow> live_enabled env \<or> (\<exists>r \<in> set (rows (sr_DB s)). EffectiveTradingMode r = ''live'')"
  shows "good rows env u s (s\<lparr>sr_DB := snd (UpdateTrader (se_db env) row (sr_DB s))\<rparr>)"
proof -
  let ?f = "\<lambda>r. r\<lparr>tr_Name := tr_Name row, tr_AIModelID := tr_AIModelID row, tr_Venue := tr_Venue row,
            tr_ProxyAddress := tr_ProxyAddress row, tr_SignatureType := tr_SignatureType row,
            tr_StrategyJSON := tr_StrategyJSON row, tr_ScanIntervalMinutes := tr_ScanIntervalMinutes row,
            tr_PreviewMode := tr_PreviewMode row, tr_TradingMode := tr_TradingMode row,
            tr_SimConfigJSON := tr_SimConfigJSON row\<rparr>"
  have "EffectiveTradingMode (?f x) = EffectiveTradingMode row" for x by (rule EffectiveTradingMode_cong) simp_all
  moreover have "mset (rows (snd (UpdateTrader (se_db env) row (sr_DB s)))) = mset (rows (sr_DB s)) \<or>
      mset (rows (snd (UpdateTrader (se_db env) row (sr_DB s)))) =
        image_mset (\<lambda>x. if owned_row u (tr_ID row) x then ?f x else x) (mset (rows (sr_DB s)))"
    using tb_Update_rows [OF assms(1)] by (simp only: UpdateTrader_def assms(2))
  ultimately show ?thesis using live
    by (intro good_rewrite [where f = ?f and tid = "tr_ID row"]) simp_all
qed

lemma good_key:
  assumes ok: "traders_ok (se_db env) rows"
  shows "good rows env u s (s\<lparr>sr_DB := snd (UpdatePrivateKey (se_db env) u tid key (sr_DB s))\<rparr>)"
  using UpdatePrivateKey_rows [OF ok, of u tid key "sr_DB s"]
proof (elim disjE exE conjE)
  let ?d = "snd (UpdatePrivateKey (se_db env) u tid key (sr_DB s))"
  fix r assume r: "r \<in> set (rows (sr_DB s))" "owned_row u tid r"
    and m: "mset (rows ?d) = add_mset (r\<lparr>tr_PrivateKey := key\<rparr>) (mset (filter (\<lambda>x. tr_ID x \<noteq> tid) (rows (sr_DB s))))"
  define q where "q = r\<lparr>tr_PrivateKey := key\<rparr>"
  have q: "tr_ID q = tid" "tr_UserID q = u" "EffectiveTradingMode q = EffectiveTradingMode r"
    using r(2) by (simp_all add: q_def owned_row_def)
  have m: "mset (rows ?d) = mset (q # filter (\<lambda>x. tr_ID x \<noteq> tid) (rows (sr_DB s)))" using m by (simp add: q_def)
  from mset_eq_setD [OF m] have st: "set (rows ?d) = insert q {x \<in> set (rows (sr_DB s)). tr_ID x \<noteq> tid}" by simp
  show ?thesis
  proof (rule good_db)
    fix owner assume "owned_by owner (set (rows (sr_DB s))) (sr_Traders s) (sr_Heap s) (sr_Tasks s)"
    then show "\<exists>owner'. owned_by owner' (set (rows ?d)) (sr_Traders s) (sr_Heap s) (sr_Tasks s)"
      using r q by (intro exI [of _ owner]) (auto simp: owned_by_def st owned_row_def)
  next
    assume reg: "registered rows s"
    have "tr_UserID x = u" if "x \<in> set (rows (sr_DB s))" "tr_ID x = tid" for x
      using reg that r by (fastforce simp: registered_def owned_by_def owned_row_def)
    then have "filter (\<lambda>x. tr_UserID x \<noteq> u) (filter (\<lambda>x. tr_ID x \<noteq> tid) (rows (sr_DB s))) = filter (\<lambda>x. tr_UserID x \<noteq> u) (rows (sr_DB s))"
      unfolding filter_filter by (intro filter_cong) auto
    then have "mset (filter (\<lambda>x. tr_UserID x \<noteq> u) (q # filter (\<lambda>x. tr_ID x \<noteq> tid) (rows (sr_DB s)))) = other_rows u (rows (sr_DB s))"
      using q(2) unfolding other_rows_def by simp
    then show "other_rows u (rows ?d) = other_rows u (rows (sr_DB s))"
      using arg_cong [OF m, of "filter_mset (\<lambda>x. tr_UserID x \<noteq> u)"] unfolding other_rows_def mset_filter by simp
  qed (use q r in \<open>auto simp: st\<close>)
qed (rule good_quiet)

lemma good_delete:
  assumes ok: "traders_ok (se_db env) rows"
  shows "good rows env u s (s\<lparr>sr_DB := snd (DeleteTrader (se_db env) u tid (sr_DB s))\<rparr>)"
  using DeleteTrader_rows [OF ok, of u tid "sr_DB s"]
proof
  let ?d = "snd (DeleteTrader (se_db env) u tid (sr_DB s))"
  assume m: "mset (rows ?d) = mset (filter (\<lambda>x. \<not> owned_row u tid x) (rows (sr_DB s)))"
  from mset_eq_setD [OF m] have st: "set (rows ?d) = {x \<in> set (rows (sr_DB s)). \<not> owned_row u tid x}" by simp
  show ?thesis
  proof (rule good_db)
    have "filter (\<lambda>x. tr_UserID x \<noteq> u) (filter (\<lambda>x. \<not> owned_row u tid x) (rows (sr_DB s))) = filter (\<lambda>x. tr_UserID x \<noteq> u) (rows (sr_DB s))"
      unfolding filter_filter by (rule filter_cong) (auto simp: owned_row_def)
    then show "other_rows u (rows ?d) = other_rows u (rows (sr_DB s))"
      using arg_cong [OF m, of "filter_mset (\<lambda>x. tr_UserID x \<noteq> u)"] unfolding other_rows_def by (metis mset_filter)
  next
    fix owner assume "owned_by owner (set (rows (sr_DB s))) (sr_Traders s) (sr_Heap s) (sr_Tasks s)"
    then show "\<exists>owner'. owned_by owner' (set (rows ?d)) (sr_Traders s) (sr_Heap s) (sr_Tasks s)"
      by (intro exI [of _ owner]) (simp add: owned_by_def st)
  qed (auto simp: st)
qed (rule good_quiet)

lemma good_create:
  assumes ok: "traders_ok (se_db env) rows" and u: "tr_UserID row = u"
    and fresh: "tr_ID row \<notin> tr_ID ` set (rows (sr_DB s))" "sr_Traders s (tr_ID row) = None"
    and live: "\<And>x. created_row row x \<Longrightarrow> EffectiveTradingMode x = ''live'' \<Longrightarrow> live_enabled env"
  shows "good rows env u s (s\<lparr>sr_DB := snd (CreateTrader (se_db env) row (sr_DB s))\<rparr>)"
  using CreateTrader_rows [OF ok, of row "sr_DB s"]
proof (elim disjE exE conjE)
  let ?d = "snd (CreateTrader (se_db env) row (sr_DB s))"
  fix x assume x: "created_row row x" and "mset (rows ?d) = add_mset x (mset (rows (sr_DB s)))"
  then have m: "mset (rows ?d) = mset (x # rows (sr_DB s))" by simp
  from mset_eq_setD [OF m] have st: "set (rows ?d) = insert x (set (rows (sr_DB s)))" by simp
  have n: "tr_ID r \<noteq> tr_ID row" if "r \<in> set (rows (sr_DB s))" for r using fresh(1) that by (metis imageI)
  have ids: "tr_ID x = tr_ID row" "tr_UserID x = u" using x u by (auto simp: created_row_def trader_defaults_def)
  show ?thesis
  proof (rule good_db)
    fix owner assume "owned_by owner (set (rows (sr_DB s))) (sr_Traders s) (sr_Heap s) (sr_Tasks s)"
    then show "\<exists>owner'. owned_by owner' (set (rows ?d)) (sr_Traders s) (sr_Heap s) (sr_Tasks s)"
      using fresh(2) n ids by (intro exI [of _ "owner(tr_ID row := u)"]) (auto simp: owned_by_def st)
  next
    show "other_rows u (rows ?d) = other_rows u (rows (sr_DB s))"
      using arg_cong [OF m, of "filter_mset (\<lambda>x. tr_UserID x \<noteq> u)"] ids by (simp add: other_rows_def)
  qed (use live [OF x] in \<open>auto simp: st\<close>)
qed (rule good_quiet)

subsection \<open>Steps on the objects\<close>

lemma owned_by_heap:
  assumes "owned_by owner R traders heap tasks" "length heap \<le> length heap'"
    and "\<And>a. a < length heap \<Longrightarrow> ob_UserID (heap' ! a) = ob_UserID (heap ! a)"
    and "\<And>tid a. traders' tid = Some a \<Longrightarrow> traders tid = Some a \<or> (a < length heap' \<and> ob_UserID (heap' ! a) = owner tid)"
    and "\<And>t. t \<in> set tasks' \<Longrightarrow> task_addr t < length heap'"
  shows "owned_by owner R traders' heap' tasks'"
  unfolding owned_by_def
proof (intro conjI allI impI ballI)
  show "tr_UserID r = owner (tr_ID r)" if "r \<in> R" for r using assms(1) that by (simp add: owned_by_def)
  show "task_addr t < length heap'" if "t \<in> set tasks'" for t by (rule assms(5) [OF that])
  fix tid a assume t: "traders' tid = Some a"
  have "traders tid = Some a \<Longrightarrow> a < length heap \<and> ob_UserID (heap ! a) = owner tid"
    using assms(1) by (simp add: owned_by_def)
  then show "a < length heap'" "ob_UserID (heap' ! a) = owner tid"
    using assms(4) [OF t] assms(2) assms(3) [of a] by auto
qed

text \<open>A step that keeps the database, and the objects and entries of the others.\<close>

lemma good_objects:
  assumes db: "sr_DB s' = sr_DB s" and oth: "registered rows s \<Longrightarrow> other_objects u s s'"
    and t: "\<And>owner tid a. owned_by owner (set (rows (sr_DB s))) (sr_Traders s) (sr_Heap s) (sr_Tasks s) \<Longrightarrow>
        sr_Traders s' tid = Some a \<Longrightarrow> sr_Traders s tid = Some a \<or> (a < length (sr_Heap s') \<and> ob_UserID (sr_Heap s' ! a) = owner tid)"
    and k: "\<And>t. registered rows s \<Longrightarrow> t \<in> set (sr_Tasks s') \<Longrightarrow> task_addr t < length (sr_Heap s')"
    and live: "\<And>ob. \<not> live_enabled env \<Longrightarrow> no_live rows s \<Longrightarrow> ob \<in> set (sr_Heap s') \<Longrightarrow> \<not> live_venue (ob_Venue ob)"
    and orph: "\<And>a. registered rows s \<Longrightarrow> orphan a s \<Longrightarrow> orphan a s'"
  shows "good rows env u s s'"
proof (rule goodI)
  assume r: "registered rows s"
  then obtain owner where ow: "owned_by owner (set (rows (sr_DB s))) (sr_Traders s) (sr_Heap s) (sr_Tasks s)"
    by (auto simp: registered_def)
  note oo = oth [OF r, unfolded other_objects_def]
  have "owned_by owner (set (rows (sr_DB s))) (sr_Traders s') (sr_Heap s') (sr_Tasks s')"
    by (rule owned_by_heap [OF ow]) (use oo t [OF ow] k [OF r] in auto)
  then show "registered rows s'" using db by (auto simp: registered_def)
  show "others_kept rows u s s'" using oth [OF r] db by (simp add: others_kept_def)
next
  show "no_live rows s'" if "\<not> live_enabled env" "no_live rows s"
    using live [OF that] that(2) db by (auto simp: no_live_def)
qed (rule orph)

lemma see_closed_addr [simp]: "task_addr (see_closed a t) = task_addr t"
  by (cases t) simp_all

lemma registered_task: "registered rows s \<Longrightarrow> t \<in> set (sr_Tasks s) \<Longrightarrow> task_addr t < length (sr_Heap s)"
  by (auto simp: registered_def owned_by_def)

lemma set_trader_heap: "a < length (sr_Heap s) \<Longrightarrow> sr_Heap (set_trader a t s) ! b = (if b = a then (sr_Heap s ! a)\<lparr>ob_Trader := t\<rparr> else sr_Heap s ! b)"
  by (simp add: set_trader_def nth_list_update)

lemma set_trader_fields [simp]:
  "sr_DB (set_trader a t s) = sr_DB s" "sr_Traders (set_trader a t s) = sr_Traders s"
  "sr_Tasks (set_trader a t s) = sr_Tasks s" "sr_LoadErrors (set_trader a t s) = sr_LoadErrors s"
  "length (sr_Heap (set_trader a t s)) = length (sr_Heap s)"
  by (simp_all add: set_trader_def)

lemma set_trader_venues:
  "ob \<in> set (sr_Heap (set_trader a t s)) \<Longrightarrow> \<exists>q \<in> set (sr_Heap s). ob_Venue ob = ob_Venue q"
proof -
  assume "ob \<in> set (sr_Heap (set_trader a t s))"
  then obtain b where b: "b < length (sr_Heap s)" "ob = sr_Heap (set_trader a t s) ! b" by (auto simp: in_set_conv_nth)
  then have "ob_Venue ob = ob_Venue (sr_Heap s ! b)"
    by (cases "a < length (sr_Heap s)") (auto simp: set_trader_heap, simp add: set_trader_def)
  then show ?thesis using b(1) nth_mem by blast
qed

lemma good_set_trader:
  assumes a: "a < length (sr_Heap s)" "ob_UserID (sr_Heap s ! a) = u"
    and k: "\<And>t. registered rows s \<Longrightarrow> t \<in> set ts \<Longrightarrow> task_addr t < length (sr_Heap s)"
    and mapped: "a \<in> ran (sr_Traders s) \<or> t_isRunning t"
  shows "good rows env u s ((set_trader a t s)\<lparr>sr_Tasks := ts\<rparr>)"
proof (rule good_objects)
  show "other_objects u s ((set_trader a t s)\<lparr>sr_Tasks := ts\<rparr>)"
    using a by (auto simp: other_objects_def set_trader_heap)
  show "\<not> live_venue (ob_Venue ob)" if "no_live rows s" "ob \<in> set (sr_Heap ((set_trader a t s)\<lparr>sr_Tasks := ts\<rparr>))" for ob
    using that set_trader_venues [of ob a t s] by (auto simp: no_live_def)
  show "orphan b ((set_trader a t s)\<lparr>sr_Tasks := ts\<rparr>)" if "orphan b s" for b
    using that mapped a by (auto simp: orphan_def set_trader_heap)
qed (use k in simp_all)

lemma good_stop_object:
  assumes "a < length (sr_Heap s)" "ob_UserID (sr_Heap s ! a) = u" "sr_Traders s tid = Some a"
  shows "good rows env u s (stop_object a s)"
proof (cases "t_isRunning (ob_Trader (sr_Heap s ! a))")
  case True
  have "a \<in> ran (sr_Traders s)" using assms(3) by (rule ranI)
  then show ?thesis using True good_set_trader [OF assms(1,2), of rows "map (see_closed a) (sr_Tasks s)"] registered_task
    by (fastforce simp: stop_object_def)
qed (simp add: stop_object_def)

lemma good_tasks:
  assumes "\<And>t. registered rows s \<Longrightarrow> t \<in> set ts \<Longrightarrow> task_addr t < length (sr_Heap s)"
  shows "good rows env u s (s\<lparr>sr_Tasks := ts\<rparr>)"
  by (rule good_objects) (use assms in \<open>auto simp: other_objects_def no_live_def orphan_def\<close>)

lemma good_errors: "good rows env u s (s\<lparr>sr_LoadErrors := e\<rparr>)"
  by (rule good_objects) (auto simp: other_objects_def no_live_def orphan_def dest: registered_task)

lemma good_unmap:
  assumes "mine u tid s"
  shows "good rows env u s (s\<lparr>sr_Traders := (sr_Traders s)(tid := None)\<rparr>)"
  by (rule good_objects) (use assms in \<open>auto simp: other_objects_def no_live_def mine_def orphan_def ran_def dest: registered_task split: if_splits\<close>)

lemma stop_object_fields [simp]:
  "sr_DB (stop_object a s) = sr_DB s" "sr_Traders (stop_object a s) = sr_Traders s"
  "length (sr_Heap (stop_object a s)) = length (sr_Heap s)"
  by (simp_all add: stop_object_def Let_def)

lemma stop_object_user: "a < length (sr_Heap s) \<Longrightarrow> ob_UserID (sr_Heap (stop_object b s) ! a) = ob_UserID (sr_Heap s ! a)"
  by (cases "b < length (sr_Heap s)") (auto simp: stop_object_def set_trader_heap Let_def, simp add: set_trader_def)

lemma mine_stop [simp]: "mine u tid (stop_object a s) \<longleftrightarrow> mine u tid s"
  using stop_object_user [of _ s a] by (auto simp: mine_def)

lemma good_stop_loaded:
  assumes "mine u tid s"
  shows "good rows env u s (stop_loaded tid s)"
proof (cases "sr_Traders s tid")
  case (Some a)
  then have "good rows env u s (stop_object a s)" using assms by (intro good_stop_object [where tid = tid]) (auto simp: mine_def)
  then show ?thesis using Some by (simp add: stop_loaded_def GetTraderObject_def)
qed (simp add: stop_loaded_def GetTraderObject_def)

lemma mine_stop_loaded: "mine u tid s \<Longrightarrow> mine u tid (stop_loaded tid s)"
  by (simp add: stop_loaded_def split: option.split)

lemma good_RemoveTrader:
  assumes m: "mine u tid s"
  shows "good rows env u s (RemoveTrader tid s)"
proof (cases "sr_Traders s tid")
  case (Some a)
  let ?s = "stop_object a s"
  have "good rows env u s ?s" using m Some by (intro good_stop_object [where tid = tid]) (auto simp: mine_def)
  moreover have "good rows env u ?s (?s\<lparr>sr_Traders := (sr_Traders ?s)(tid := None)\<rparr>)"
    by (rule good_unmap) (simp add: m)
  moreover have "RemoveTrader tid s = (?s\<lparr>sr_Traders := (sr_Traders ?s)(tid := None)\<rparr>)\<lparr>sr_LoadErrors :=
      (sr_LoadErrors ?s)(tid := None)\<rparr>" using Some by (simp add: RemoveTrader_def Let_def)
  ultimately show ?thesis using good_trans good_errors by (metis (no_types))
next
  case None
  then have "RemoveTrader tid s = s\<lparr>sr_LoadErrors := (sr_LoadErrors s)(tid := None)\<rparr>" by (simp add: RemoveTrader_def)
  then show ?thesis by (simp only: good_errors)
qed

text \<open>A request finds that what it owns is its own.\<close>

lemma registered_mine:
  assumes "registered rows s" "r \<in> set (rows (sr_DB s))" "tr_ID r = tid" "tr_UserID r = u"
  shows "mine u tid s"
  using assms by (auto simp: registered_def owned_by_def mine_def)

lemma mine_db [simp]: "mine u tid (s\<lparr>sr_DB := d\<rparr>) \<longleftrightarrow> mine u tid s"
  by (simp add: mine_def)

subsection \<open>Loading\<close>

lemma built_venue_mode:
  assumes "BuildVenueForTrader env has_store row d = (v, d')" "live_venue v"
  shows "EffectiveTradingMode row = ''live''"
proof -
  have "pc_PreviewMode (PMDefaultConfig e)" for e by (simp add: PMDefaultConfig_def MergeEnvConfig_def Let_def)
  then have "\<not> pc_PreviewMode (buildPolymarketVenue env row) \<Longrightarrow> EffectiveTradingMode row = ''live''"
    by (auto simp: buildPolymarketVenue_def NewClient_def Let_def split: if_splits)
  then show ?thesis using assms by (cases "buildSimVenue env has_store row d") (auto simp: BuildVenueForTrader_def split: if_splits)
qed

lemma good_add_object:
  assumes row: "row \<in> set (rows (sr_DB s))" "tr_UserID row = u" "sr_Traders s (tr_ID row) = None"
    and ob: "ob_UserID ob = u" "live_venue (ob_Venue ob) \<Longrightarrow> EffectiveTradingMode row = ''live''"
    and ts: "\<And>t. t \<in> set ts \<Longrightarrow> task_addr t = length (sr_Heap s)"
  shows "good rows env u s (s\<lparr>sr_Heap := sr_Heap s @ [ob], sr_Traders := (sr_Traders s)(tr_ID row \<mapsto> length (sr_Heap s)),
    sr_Tasks := sr_Tasks s @ ts\<rparr>)" (is "good rows env u s ?s'")
proof (rule good_objects)
  assume r: "registered rows s"
  then have m: "a < length (sr_Heap s)" if "sr_Traders s tid = Some a" for tid a
    using that by (auto simp: registered_def owned_by_def)
  then show "other_objects u s ?s'" using row(3) by (auto simp: other_objects_def nth_append)
  show "task_addr t < length (sr_Heap ?s')" if "t \<in> set (sr_Tasks ?s')" for t
    using that registered_task [OF r, of t] ts [of t] by auto
next
  fix owner tid a
  assume "owned_by owner (set (rows (sr_DB s))) (sr_Traders s) (sr_Heap s) (sr_Tasks s)" "sr_Traders ?s' tid = Some a"
  then show "sr_Traders s tid = Some a \<or> (a < length (sr_Heap ?s') \<and> ob_UserID (sr_Heap ?s' ! a) = owner tid)"
    using row ob(1) by (auto simp: owned_by_def split: if_splits)
next
  show "\<not> live_venue (ob_Venue x)" if "no_live rows s" "x \<in> set (sr_Heap ?s')" for x
    using that row(1) ob(2) by (auto simp: no_live_def)
  show "orphan a ?s'" if "orphan a s" for a
    using that by (auto simp: orphan_def ran_def nth_append split: if_splits)
qed simp

lemma addTrader_good:
  assumes ok: "traders_ok (se_db env) rows" and row: "row \<in> set (rows (sr_DB s))" "tr_UserID row = u"
    and ad: "addTraderFromStore env row s = (e, s')"
  shows "good rows env u s s' \<and> rows (sr_DB s') = rows (sr_DB s)"
proof -
  obtain v d where v: "BuildVenueForTrader env True row (sr_DB s) = (v, d)" by fastforce
  have d: "rows d = rows (sr_DB s)" using BuildVenue_frame [OF ok, of True row "sr_DB s"] v by simp
  have q: "good rows env u s (s\<lparr>sr_DB := d\<rparr>)" by (rule good_quiet) (simp add: d)
  consider "s' = s" | "s' = s\<lparr>sr_DB := d\<rparr>"
    | ob ts where "sr_Traders s (tr_ID row) = None" "ob_UserID ob = u" "ob_Venue ob = v" "\<forall>t \<in> set ts. task_addr t = length (sr_Heap s)"
      "s' = (s\<lparr>sr_DB := d\<rparr>)\<lparr>sr_Heap := sr_Heap (s\<lparr>sr_DB := d\<rparr>) @ [ob],
          sr_Traders := (sr_Traders (s\<lparr>sr_DB := d\<rparr>))(tr_ID row \<mapsto> length (sr_Heap (s\<lparr>sr_DB := d\<rparr>))),
          sr_Tasks := sr_Tasks (s\<lparr>sr_DB := d\<rparr>) @ ts\<rparr>"
  proof -
    have "s' = s \<or> s' = s\<lparr>sr_DB := d\<rparr> \<or> (sr_Traders s (tr_ID row) = None \<and> (\<exists>t. s' = s\<lparr>sr_DB := d,
        sr_Heap := sr_Heap s @ [\<lparr>ob_ID = tr_ID row, ob_UserID = tr_UserID row, ob_Venue = v, ob_Trader = t\<rparr>],
        sr_Traders := (sr_Traders s)(tr_ID row \<mapsto> length (sr_Heap s)),
        sr_Tasks := sr_Tasks s @ (if tr_IsRunning row then [Pending False (length (sr_Heap s))] else [])\<rparr>))"
      using ad v by (auto simp: addTraderFromStore_def Let_def split: if_splits sum.splits option.splits prod.splits)
    then show ?thesis
    proof (elim disjE conjE exE)
      fix t assume "sr_Traders s (tr_ID row) = None" and s': "s' = s\<lparr>sr_DB := d,
        sr_Heap := sr_Heap s @ [\<lparr>ob_ID = tr_ID row, ob_UserID = tr_UserID row, ob_Venue = v, ob_Trader = t\<rparr>],
        sr_Traders := (sr_Traders s)(tr_ID row \<mapsto> length (sr_Heap s)),
        sr_Tasks := sr_Tasks s @ (if tr_IsRunning row then [Pending False (length (sr_Heap s))] else [])\<rparr>"
      then show ?thesis using row(2)
        by (intro that(3) [of "\<lparr>ob_ID = tr_ID row, ob_UserID = tr_UserID row, ob_Venue = v, ob_Trader = t\<rparr>"
              "if tr_IsRunning row then [Pending False (length (sr_Heap s))] else []"]) simp_all
    qed (use that in blast)+
  qed
  then show ?thesis
  proof cases
    case (3 ob ts)
    have "good rows env u (s\<lparr>sr_DB := d\<rparr>) s'"
      unfolding 3(5) by (rule good_add_object) (use row 3 d built_venue_mode [OF v] in auto)
    then show ?thesis using good_trans [OF q] 3(5) d by auto
  qed (use q d in auto)
qed

lemma load_user_rows_good:
  assumes ok: "traders_ok (se_db env) rows"
  shows "(\<And>r. r \<in> set rs \<Longrightarrow> r \<in> set (rows (sr_DB s)) \<and> tr_UserID r = u) \<Longrightarrow> good rows env u s (load_user_rows env rs s)"
proof (induction rs arbitrary: s)
  case (Cons r rs)
  have r: "r \<in> set (rows (sr_DB s))" "tr_UserID r = u" using Cons.prems [of r] by simp_all
  obtain e s1 where ad: "addTraderFromStore env r s = (e, s1)" by fastforce
  note g = addTrader_good [OF ok r ad]
  define s2 where "s2 = (if sr_Traders s (tr_ID r) \<noteq> None then s
      else s1\<lparr>sr_LoadErrors := (sr_LoadErrors s1)(tr_ID r := e)\<rparr>)"
  have "load_user_rows env (r # rs) s = load_user_rows env rs s2"
    by (cases e) (simp_all add: s2_def ad)
  moreover have "good rows env u s s2" "rows (sr_DB s2) = rows (sr_DB s)"
    using g good_trans [OF conjunct1 [OF g] good_errors] by (simp_all add: s2_def)
  moreover have "good rows env u s2 (load_user_rows env rs s2)"
    using Cons.prems calculation(3) by (intro Cons.IH) simp
  ultimately show ?case using good_trans by metis
qed simp

lemma good_load:
  assumes ok: "traders_ok (se_db env) rows"
  shows "good rows env u s (snd (LoadUserTradersFromStore env u s))"
  using load_user_rows_good [OF ok] ListTraders_rows [OF ok, of u "sr_DB s"]
  by (auto simp: LoadUserTradersFromStore_def split: sum.split)

section \<open>The handlers\<close>

text \<open>Everything a handler does is a sequence of such steps.\<close>

lemma created_mode:
  assumes ref: "create_refusal env req = None" and c: "created_row (create_row env u tid req) x" "EffectiveTradingMode x = ''live''"
  shows "live_enabled env"
proof -
  let ?tm = "create_mode req"
  have "trim_space ''preview'' = ''preview''" "trim_space ''live'' = ''live''" by code_simp+
  then have tm: "trim_space ?tm = ?tm" by (simp add: create_mode_def Let_def)
  have ne: "?tm \<noteq> ''''" by (simp add: create_mode_def Let_def)
  have valid: "?tm \<in> {''simulation'', ''preview'', ''live''}"
    using ref tm ne by (auto simp: create_refusal_def IsValidTradingMode_def Let_def split: if_splits)
  obtain t where x: "x = (trader_defaults (create_row env u tid req))\<lparr>tr_CreatedAt := t\<rparr>" using c(1) by (auto simp: created_row_def)
  have "tr_TradingMode x = ?tm" using ne by (simp add: x trader_defaults_def create_row_def Let_def)
  then have "?tm = ''live''" using c(2) valid tm by (auto simp: EffectiveTradingMode_def split: if_splits)
  then show ?thesis using ref tm by (auto simp: create_refusal_def denyLiveModeRequest_def Let_def split: if_splits)
qed

lemma owned_mine:
  assumes "traders_ok (se_db env) rows" "ownedPredictionTrader env u tid s = Some row" "registered rows s"
  shows "mine u tid s"
  using owned_row_in [OF assms(1,2)] registered_mine [OF assms(3), of row tid u] by blast

definition fresh_id :: "('d \<Rightarrow> trader_row list) \<Rightarrow> ('d, 'w) server_env \<Rightarrow> 'd server \<Rightarrow> bool" where
  "fresh_id rows env s \<longleftrightarrow> se_uuid env (sr_DB s) \<notin> tr_ID ` set (rows (sr_DB s)) \<and> sr_Traders s (se_uuid env (sr_DB s)) = None"

lemma good_handleCreate:
  assumes ok: "traders_ok (se_db env) rows" and fresh: "fresh_id rows env s"
  shows "good rows env u s (snd (handleCreatePredictionTrader env u breq s))"
proof -
  have "good rows env u s (snd (handleCreatePredictionTrader env u (Inr req) s))" for req
  proof -
    let ?row = "create_row env u (se_uuid env (sr_DB s)) req"
    let ?s1 = "s\<lparr>sr_DB := snd (CreateTrader (se_db env) ?row (sr_DB s))\<rparr>"
    have id: "tr_ID ?row = se_uuid env (sr_DB s)" "tr_UserID ?row = u" by (simp_all add: create_row_def Let_def)
    have c: "good rows env u s ?s1" if "create_refusal env req = None"
      by (rule good_create [OF ok]) (use created_mode [OF that] fresh in \<open>auto simp: id fresh_id_def\<close>)
    have l: "good rows env u s (snd (LoadUserTradersFromStore env u ?s1))" if "create_refusal env req = None"
      using good_trans [OF c [OF that] good_load [OF ok]] .
    show ?thesis using c l
      by (cases "CreateTrader (se_db env) ?row (sr_DB s)")
        (auto simp: handleCreatePredictionTrader_def Let_def split: sum.split option.split)
  qed
  then show ?thesis by (cases breq) (simp_all add: handleCreatePredictionTrader_def)
qed

lemma update_mode_live:
  assumes "update_mode env req row = Inr row'" "EffectiveTradingMode row' = ''live''" "EffectiveTradingMode row \<noteq> ''live''"
  shows "live_enabled env"
proof -
  have t: "trim_space ''live'' = ''live''" "trim_space ''preview'' = ''preview''" by code_simp+
  let ?tm = "trim_space (uq_TradingMode req)"
  show ?thesis
  proof (cases "?tm = ''''")
    case True
    then show ?thesis using assms t
      by (auto simp: update_mode_def denyLiveModeRequest_def EffectiveTradingMode_def Let_def split: option.splits if_splits)
  next
    case False
    then have "?tm \<in> {''simulation'', ''preview'', ''live''}" "?tm = ''live'' \<Longrightarrow> live_enabled env"
      "row' = row\<lparr>tr_TradingMode := ?tm, tr_PreviewMode := (?tm \<noteq> ''live'')\<rparr>"
      using assms(1) t by (auto simp: update_mode_def IsValidTradingMode_def denyLiveModeRequest_def Let_def split: if_splits)
    then show ?thesis using assms(2) by (auto simp: EffectiveTradingMode_def)
  qed
qed

lemma update_row_facts:
  assumes "update_mode env req (update_basics req row0) = Inr row1"
  shows "tr_ID (update_config env req row1) = tr_ID row0" "tr_UserID (update_config env req row1) = tr_UserID row0"
    "EffectiveTradingMode (update_config env req row1) = EffectiveTradingMode row1"
    "EffectiveTradingMode (update_basics req row0) = EffectiveTradingMode row0"
  using assms
  by (auto simp: update_config_def update_basics_def update_mode_def EffectiveTradingMode_def Let_def split: if_splits option.splits)

text \<open>An update that is accepted: the rows, the key, the object, the flag, then loading.\<close>

definition updated_server :: "('d, 'w) server_env \<Rightarrow> gostring \<Rightarrow> gostring \<Rightarrow> gostring \<Rightarrow> bool \<Rightarrow> trader_row \<Rightarrow> 'd server \<Rightarrow> 'd server" where
  "updated_server env u tid key wasRunning row s =
     (let d = snd (UpdateTrader (se_db env) row (sr_DB s));
          d = (if key \<noteq> '''' then snd (UpdatePrivateKey (se_db env) u tid key d) else d);
          s = RemoveTrader tid (s\<lparr>sr_DB := d\<rparr>);
          s = (if wasRunning then s\<lparr>sr_DB := snd (UpdateStatus (se_db env) u tid False (sr_DB s))\<rparr> else s)
      in snd (LoadUserTradersFromStore env u s))"

lemma good_updated:
  assumes ok: "traders_ok (se_db env) rows" and row: "tr_UserID row = u"
    and live: "EffectiveTradingMode row = ''live'' \<Longrightarrow> live_enabled env \<or> (\<exists>r \<in> set (rows (sr_DB s)). EffectiveTradingMode r = ''live'')"
    and m: "registered rows s \<Longrightarrow> mine u tid s"
  shows "good rows env u s (updated_server env u tid key b row s)"
proof -
  define s1 where "s1 = s\<lparr>sr_DB := snd (UpdateTrader (se_db env) row (sr_DB s))\<rparr>"
  define s2 where "s2 = s1\<lparr>sr_DB := if key \<noteq> '''' then snd (UpdatePrivateKey (se_db env) u tid key (sr_DB s1)) else sr_DB s1\<rparr>"
  define s3 where "s3 = RemoveTrader tid s2"
  define s4 where "s4 = (if b then s3\<lparr>sr_DB := snd (UpdateStatus (se_db env) u tid False (sr_DB s3))\<rparr> else s3)"
  have 1: "good rows env u s s1" unfolding s1_def by (rule good_update [OF ok row live])
  have 2: "good rows env u s1 s2" using good_key [OF ok, of u s1 tid key] by (simp add: s2_def)
  have 3: "good rows env u s2 s3" if "registered rows s"
    unfolding s3_def by (rule good_RemoveTrader) (use m [OF that] in \<open>simp add: s2_def s1_def\<close>)
  have 4: "good rows env u s3 s4" using good_status [OF ok, of u s3 tid False] by (simp add: s4_def)
  have eq: "updated_server env u tid key b row s = snd (LoadUserTradersFromStore env u s4)"
    by (simp add: updated_server_def s4_def s3_def s2_def s1_def Let_def)
  have "good rows env u s s4" if "registered rows s"
    using good_trans [OF good_trans [OF good_trans [OF 1 2] 3 [OF that]] 4] .
  then have "good rows env u s s4" by (simp add: good_def)
  from good_trans [OF this good_load [OF ok]] show ?thesis by (simp only: eq)
qed

lemma handleUpdate_cases:
  obtains "snd (handleUpdatePredictionTrader env u tid breq s) = s"
  | req row0 row1 d where "ownedPredictionTrader env u tid s = Some row0" "update_mode env req (update_basics req row0) = Inr row1"
      "d = snd (UpdateTrader (se_db env) (update_config env req row1) (sr_DB s))"
      "snd (handleUpdatePredictionTrader env u tid breq s) = s\<lparr>sr_DB := d\<rparr>"
  | req row0 row1 where "ownedPredictionTrader env u tid s = Some row0" "update_mode env req (update_basics req row0) = Inr row1"
      "snd (handleUpdatePredictionTrader env u tid breq s) =
         updated_server env u tid (uq_PrivateKey req) (tr_IsRunning row0) (update_config env req row1) s"
proof (cases "\<exists>req row0 m row1. breq = Inr req \<and> ownedPredictionTrader env u tid s = Some row0 \<and>
    GetAIModel (se_models env) (sr_DB s) u (uq_AIModelID req) = Inr m \<and>
    update_mode env req (update_basics req row0) = Inr row1 \<and> update_refusal env req (update_config env req row1) = None")
  case True
  then obtain req row0 m row1 where h: "breq = Inr req" "ownedPredictionTrader env u tid s = Some row0"
    "GetAIModel (se_models env) (sr_DB s) u (uq_AIModelID req) = Inr m" "update_mode env req (update_basics req row0) = Inr row1"
    "update_refusal env req (update_config env req row1) = None" by blast
  obtain e d where up: "UpdateTrader (se_db env) (update_config env req row1) (sr_DB s) = (e, d)" by fastforce
  show ?thesis
  proof (cases e)
    case None
    have "snd (handleUpdatePredictionTrader env u tid breq s) =
        updated_server env u tid (uq_PrivateKey req) (tr_IsRunning row0) (update_config env req row1) s"
      by (simp only: handleUpdatePredictionTrader_def updated_server_def h up None Let_def sum.case option.case prod.case snd_conv)
    then show ?thesis using that(3) h by blast
  next
    case (Some x)
    have "snd (handleUpdatePredictionTrader env u tid breq s) = s\<lparr>sr_DB := d\<rparr>"
      by (simp only: handleUpdatePredictionTrader_def h up Some Let_def sum.case option.case prod.case snd_conv)
    then show ?thesis using that(2) [OF h(2,4), of d] up by simp
  qed
next
  case False
  then have "snd (handleUpdatePredictionTrader env u tid breq s) = s"
    unfolding handleUpdatePredictionTrader_def Let_def by (auto split: sum.split option.split)
  then show ?thesis by (rule that(1))
qed

lemma good_handleUpdate:
  assumes ok: "traders_ok (se_db env) rows"
  shows "good rows env u s (snd (handleUpdatePredictionTrader env u tid breq s))"
proof -
  have row: "tr_UserID (update_config env req row1) = u \<and>
      (EffectiveTradingMode (update_config env req row1) = ''live'' \<longrightarrow>
       live_enabled env \<or> (\<exists>r \<in> set (rows (sr_DB s)). EffectiveTradingMode r = ''live''))"
    if "ownedPredictionTrader env u tid s = Some row0" "update_mode env req (update_basics req row0) = Inr row1" for req row0 row1
    using update_row_facts [OF that(2)] update_mode_live [OF that(2)] owned_row_in [OF ok that(1)] by auto
  show ?thesis
  proof (cases rule: handleUpdate_cases [of env u tid breq s])
    case (2 req row0 row1 d)
    show ?thesis unfolding 2(4) 2(3) by (rule good_update [OF ok]) (use row [OF 2(1,2)] in blast)+
  next
    case (3 req row0 row1)
    show ?thesis unfolding 3(3) by (rule good_updated [OF ok]) (use row [OF 3(1,2)] owned_mine [OF ok 3(1)] in blast)+
  qed simp
qed

lemma good_handleDelete:
  assumes ok: "traders_ok (se_db env) rows"
  shows "good rows env u s (snd (handleDeletePredictionTrader env u tid s))"
proof (cases "ownedPredictionTrader env u tid s")
  case (Some row)
  let ?s1 = "stop_loaded tid s" and ?s2 = "RemoveTrader tid (stop_loaded tid s)"
  have "good rows env u s ?s2" if r: "registered rows s"
  proof -
    have m: "mine u tid s" by (rule owned_mine [OF ok Some r])
    show ?thesis using good_trans [OF good_stop_loaded [OF m] good_RemoveTrader [OF mine_stop_loaded [OF m]]] .
  qed
  then have "good rows env u s ?s2" by (simp add: good_def)
  from good_trans [OF this good_delete [OF ok]]
  have "good rows env u s (?s2\<lparr>sr_DB := snd (DeleteTrader (se_db env) u tid (sr_DB ?s2))\<rparr>)" .
  then show ?thesis using Some
    by (cases "DeleteTrader (se_db env) u tid (sr_DB ?s2)") (auto simp: handleDeletePredictionTrader_def Let_def split: option.split)
qed (simp add: handleDeletePredictionTrader_def)

lemma good_set_status: "traders_ok (se_db env) rows \<Longrightarrow> good rows env u s (set_status env u tid b s)"
  unfolding set_status_def by (rule good_status)

lemma good_handleStop:
  assumes ok: "traders_ok (se_db env) rows"
  shows "good rows env u s (snd (handleStopPredictionTrader env u tid s))"
proof (cases "ownedPredictionTrader env u tid s")
  case (Some row)
  have "good rows env u s (stop_loaded tid s)" if r: "registered rows s"
    by (rule good_stop_loaded [OF owned_mine [OF ok Some r]])
  then have "good rows env u s (stop_loaded tid s)" by (simp add: good_def)
  from good_trans [OF this good_set_status [OF ok]] show ?thesis using Some by (simp add: handleStopPredictionTrader_def)
qed (simp add: handleStopPredictionTrader_def)

lemma good_handleStart:
  assumes ok: "traders_ok (se_db env) rows"
  shows "good rows env u s (snd (handleStartPredictionTrader env u tid s))"
proof -
  let ?s1 = "snd (LoadUserTradersFromStore env u s)"
  have 1: "good rows env u s ?s1" by (rule good_load [OF ok])
  have st: "good rows env u s (set_status env u tid b x)" if "good rows env u s x" for b x
    using good_trans [OF that good_set_status [OF ok]] .
  have tk: "good rows env u s (x\<lparr>sr_Tasks := sr_Tasks x @ [Pending True a]\<rparr>)"
    if x: "good rows env u s x" "sr_Traders x tid = Some a" for x a
    by (rule good_trans [OF x(1) good_tasks]) (use x(2) in \<open>auto simp: registered_def owned_by_def\<close>)
  have tr: "sr_Traders (set_status env u tid b x) = sr_Traders x" for b x by (simp add: set_status_def)
  show ?thesis
    by (auto simp: handleStartPredictionTrader_def GetTraderObject_def Let_def tr 1 st tk split: option.split)
qed

lemma good_set_db_frame:
  assumes "rows d = rows (sr_DB s)" shows "good rows env u s (s\<lparr>sr_DB := d\<rparr>)"
  by (rule good_quiet) (simp add: assms)

lemma good_reset_account:
  assumes ok: "traders_ok (se_db env) rows" and m: "registered rows s \<Longrightarrow> mine u (tr_ID row) s"
  shows "good rows env u s (snd (reset_account env u row s))"
proof -
  obtain e d where r: "ResetSimAccount True (se_db env) (se_now env) (tr_ID row)
      (snd (ParseSimConfigJSON (se_SimConfig env) (tr_SimConfigJSON row) SimDefaultConfig)) (sr_DB s) = (e, d)" by fastforce
  have "rows d = rows (sr_DB s)"
    using sim_account_frame(2) [OF ok, of True "se_now env" "tr_ID row"
        "snd (ParseSimConfigJSON (se_SimConfig env) (tr_SimConfigJSON row) SimDefaultConfig)" "sr_DB s"] r by simp
  then have 1: "good rows env u s (s\<lparr>sr_DB := d\<rparr>)" by (rule good_set_db_frame)
  have "good rows env u s (RemoveTrader (tr_ID row) (s\<lparr>sr_DB := d\<rparr>))" if reg: "registered rows s"
    using good_trans [OF 1 good_RemoveTrader] m [OF reg] by simp
  then have "good rows env u s (RemoveTrader (tr_ID row) (s\<lparr>sr_DB := d\<rparr>))" by (simp add: good_def)
  from good_trans [OF this good_load [OF ok]]
  show ?thesis using r 1 by (cases e) (simp_all add: reset_account_def Let_def)
qed

lemma good_handleReset:
  assumes ok: "traders_ok (se_db env) rows"
  shows "good rows env u s (snd (handlePredictionSimReset env u tid initial s))"
proof (cases "ownedPredictionTrader env u tid s")
  case (Some row)
  note own = owned_row_in [OF ok Some]
  let ?row = "row\<lparr>tr_SimConfigJSON := se_SimBalance env (tr_SimConfigJSON row) initial\<rparr>"
  let ?s1 = "s\<lparr>sr_DB := snd (UpdateTrader (se_db env) ?row (sr_DB s))\<rparr>"
  have m: "mine u tid s" if "registered rows s" by (rule owned_mine [OF ok Some that])
  have 0: "good rows env u s (snd (reset_account env u row s))" using good_reset_account [OF ok] m own by simp
  have 1: "good rows env u s ?s1" by (rule good_update [OF ok]) (use own in auto)
  have "good rows env u ?s1 (snd (reset_account env u ?row ?s1))" if "registered rows s"
    by (rule good_reset_account [OF ok]) (use m [OF that] own in simp)
  then have 2: "good rows env u s (snd (reset_account env u ?row ?s1))" using good_trans [OF 1] by blast
  show ?thesis using Some 0 1 2
    by (cases "UpdateTrader (se_db env) ?row (sr_DB s)") (auto simp: handlePredictionSimReset_def Let_def split: option.split)
qed (simp add: handlePredictionSimReset_def)

lemma good_own_venue:
  assumes ok: "traders_ok (se_db env) rows"
  shows "good rows env u s (snd (handlePredictionPositions env u tid s))"
    "good rows env u s (fst (snd (handlePredictionRedeem env orng u tid (s, w))))"
    "good rows env u s (fst (snd (handlePredictionCancelOrder env u tid oid (s, w))))"
proof -
  have b: "rows d = rows (sr_DB s)" if "BuildVenueForTrader env True row (sr_DB s) = (v, d)" for row v d
    using BuildVenue_frame [OF ok, of True row "sr_DB s"] that by simp
  show "good rows env u s (snd (handlePredictionPositions env u tid s))"
    using b by (auto simp: handlePredictionPositions_def Let_def split: option.split prod.split sum.split intro: good_set_db_frame)
  show "good rows env u s (fst (snd (handlePredictionRedeem env orng u tid (s, w))))"
    using b run_effects_frame [OF ok]
    by (auto simp: handlePredictionRedeem_def Let_def split: option.split prod.split venue.split intro: good_set_db_frame)
  have "rows (snd (UpdateOrderStatus (se_db env) tid x st (sr_DB s))) = rows (sr_DB s)" for x st
    unfolding UpdateOrderStatus_def by (rule frame_lawD(3) [OF traders_okD(3) [OF ok]])
  then show "good rows env u s (fst (snd (handlePredictionCancelOrder env u tid oid (s, w))))"
    by (auto simp: handlePredictionCancelOrder_def Let_def split: option.split prod.split sum.split intro: good_set_db_frame)
qed

lemma good_other_requests:
  assumes ok: "traders_ok (se_db env) rows"
  shows "good rows env u s (snd (handlePredictionTraderList env u s))"
    "good rows env u s (snd (action_target env u tid s))"
    "good rows env u s (snd (handlePredictionShowInCompetition env u tid breq s))"
proof -
  show "good rows env u s (snd (handlePredictionTraderList env u s))"
    by (simp add: handlePredictionTraderList_def Let_def good_load [OF ok])
  show "good rows env u s (snd (action_target env u tid s))"
    by (simp add: action_target_def Let_def good_load [OF ok] split: option.split)
  have sh: "good rows env u s (s\<lparr>sr_DB := d\<rparr>)" if "UpdateShowInCompetition (se_db env) u tid b (sr_DB s) = (e, d)" for b e d
    using good_show [OF ok, of u s tid b] that by simp
  then show "good rows env u s (snd (handlePredictionShowInCompetition env u tid breq s))"
    by (auto simp: handlePredictionShowInCompetition_def split: sum.split option.split prod.split)
qed

subsection \<open>Goroutines\<close>

lemma set_remove_at: "set (remove_at i xs) \<subseteq> set xs"
  by (auto simp: remove_at_def dest: in_set_takeD in_set_dropD)

lemma mark_stopped_good:
  "traders_ok (se_db env) rows \<Longrightarrow> ob_UserID (sr_Heap s ! a) = u \<Longrightarrow> good rows env u s (mark_stopped env a s)"
  using good_status [of env rows u s "ob_ID (sr_Heap s ! a)" False] by (auto simp: mark_stopped_def Let_def)

lemma good_remove_task: "good rows env u s (s\<lparr>sr_Tasks := remove_at i (sr_Tasks s)\<rparr>)"
  by (rule good_tasks) (use set_remove_at [of i "sr_Tasks s"] registered_task in blast)

lemma good_replace_task:
  "task_addr t = task_addr (sr_Tasks s ! i) \<Longrightarrow> i < length (sr_Tasks s) \<Longrightarrow>
   good rows env u s (s\<lparr>sr_Tasks := (sr_Tasks s)[i := t]\<rparr>)"
  by (rule good_tasks) (metis nth_mem registered_task set_update_subset_insert insertE subsetD)

lemma good_task_steps:
  assumes ok: "traders_ok (se_db env) rows" and i: "i < length (sr_Tasks s)"
    and u: "ob_UserID (sr_Heap s ! task_addr (sr_Tasks s ! i)) = u"
  shows "good rows env u s (begin_task env i s)" "good rows env u s (end_task env i s)" "good rows env u s (reselect_task i s)"
proof -
  let ?r = "s\<lparr>sr_Tasks := remove_at i (sr_Tasks s)\<rparr>"
  have ms: "good rows env u s (mark_stopped env (task_addr (sr_Tasks s ! i)) ?r)"
    by (rule good_trans [OF good_remove_task mark_stopped_good [OF ok]]) (use u in simp)
  show "good rows env u s (reselect_task i s)"
    by (cases "sr_Tasks s ! i") (use i in \<open>auto simp: reselect_task_def intro: good_replace_task\<close>)
  show "good rows env u s (end_task env i s)"
    using ms good_remove_task by (cases "sr_Tasks s ! i") (auto simp: end_task_def Let_def split: bool.split)
  show "good rows env u s (begin_task env i s)"
  proof (cases "sr_Tasks s ! i")
    case (Pending h a)
    have "good rows env u s ((set_trader a t s)\<lparr>sr_Tasks := (sr_Tasks s)[i := Looping h a False]\<rparr>)"
      if r: "registered rows s" and run: "t_isRunning t" for t
    proof (rule good_set_trader)
      show "a < length (sr_Heap s)" using registered_task [OF r nth_mem [OF i]] Pending by simp
      then show "task_addr x < length (sr_Heap s)" if "x \<in> set ((sr_Tasks s)[i := Looping h a False])" for x
        using that registered_task [OF r, of x] set_update_subset_insert [of "sr_Tasks s" i "Looping h a False"] by fastforce
    qed (use u Pending run in simp_all)
    then have "good rows env u s ((set_trader a t s)\<lparr>sr_Tasks := (sr_Tasks s)[i := Looping h a False]\<rparr>)" if "t_isRunning t" for t
      using that by (simp add: good_def)
    then show ?thesis using Pending ms by (auto simp: begin_task_def run_begin_def split: sum.split)
  qed (simp add: begin_task_def)
qed

section \<open>The state machine\<close>

datatype event =
  ListReq gostring | CreateReq gostring "perr + create_req" | UpdateReq gostring gostring "perr + update_req"
| DeleteReq gostring gostring | StartReq gostring gostring | StopReq gostring gostring
| ActionReq gostring gostring | PositionsReq gostring gostring | RedeemReq gostring gostring
| CancelReq gostring gostring gostring | ResetReq gostring gostring f64 | ShowReq gostring gostring "perr + bool"
| BeginTask nat | EndTask nat | ReselectTask nat

text \<open>The goroutines that are there may take a step; every other event is a request.\<close>

fun server_step :: "('d, 'w) server_env \<Rightarrow> event \<Rightarrow> 'd server \<Rightarrow> 'd server" where
  "server_step env (ListReq u) s = snd (handlePredictionTraderList env u s)"
| "server_step env (CreateReq u req) s = snd (handleCreatePredictionTrader env u req s)"
| "server_step env (UpdateReq u tid req) s = snd (handleUpdatePredictionTrader env u tid req s)"
| "server_step env (DeleteReq u tid) s = snd (handleDeletePredictionTrader env u tid s)"
| "server_step env (StartReq u tid) s = snd (handleStartPredictionTrader env u tid s)"
| "server_step env (StopReq u tid) s = snd (handleStopPredictionTrader env u tid s)"
| "server_step env (ActionReq u tid) s = snd (action_target env u tid s)"
| "server_step env (PositionsReq u tid) s = snd (handlePredictionPositions env u tid s)"
| "server_step env (RedeemReq u tid) s = fst (snd (handlePredictionRedeem env id u tid (s, se_world env)))"
| "server_step env (CancelReq u tid oid) s = fst (snd (handlePredictionCancelOrder env u tid oid (s, se_world env)))"
| "server_step env (ResetReq u tid b) s = snd (handlePredictionSimReset env u tid b s)"
| "server_step env (ShowReq u tid req) s = snd (handlePredictionShowInCompetition env u tid req s)"
| "server_step env (BeginTask i) s = (if i < length (sr_Tasks s) then begin_task env i s else s)"
| "server_step env (EndTask i) s = (if i < length (sr_Tasks s) then end_task env i s else s)"
| "server_step env (ReselectTask i) s = (if i < length (sr_Tasks s) then reselect_task i s else s)"

fun task_user :: "nat \<Rightarrow> 'd server \<Rightarrow> gostring" where
  "task_user i s = ob_UserID (sr_Heap s ! task_addr (sr_Tasks s ! i))"

text \<open>Who acts: the user of the request, or the owner of the goroutine's trader.\<close>

fun event_user :: "event \<Rightarrow> 'd server \<Rightarrow> gostring" where
  "event_user (ListReq u) s = u"
| "event_user (CreateReq u req) s = u"
| "event_user (UpdateReq u tid req) s = u"
| "event_user (DeleteReq u tid) s = u"
| "event_user (StartReq u tid) s = u"
| "event_user (StopReq u tid) s = u"
| "event_user (ActionReq u tid) s = u"
| "event_user (PositionsReq u tid) s = u"
| "event_user (RedeemReq u tid) s = u"
| "event_user (CancelReq u tid oid) s = u"
| "event_user (ResetReq u tid b) s = u"
| "event_user (ShowReq u tid req) s = u"
| "event_user (BeginTask i) s = task_user i s"
| "event_user (EndTask i) s = task_user i s"
| "event_user (ReselectTask i) s = task_user i s"

lemma step_good:
  assumes "traders_ok (se_db env) rows" "fresh_id rows env s"
  shows "good rows env (event_user e s) s (server_step env e s)"
  using assms good_task_steps [OF assms(1)]
  by (cases e) (simp_all add: good_other_requests good_handleCreate good_handleUpdate good_handleDelete good_handleStart
      good_handleStop good_own_venue good_handleReset)

text \<open>
  A run of the server: the surroundings (the clock, Polymarket, the environment) may change from one
  event to the next, the laws of the database and the freshness of new ids may not.
\<close>

inductive server_run :: "('d \<Rightarrow> trader_row list) \<Rightarrow> (('d, 'w) server_env \<Rightarrow> event \<Rightarrow> 'd server \<Rightarrow> bool) \<Rightarrow> 'd server \<Rightarrow> 'd server \<Rightarrow> bool"
  for rows allowed s where
  run_start: "server_run rows allowed s s"
| run_step: "server_run rows allowed s s1 \<Longrightarrow> traders_ok (se_db env) rows \<Longrightarrow> fresh_id rows env s1 \<Longrightarrow> allowed env e s1 \<Longrightarrow>
    server_run rows allowed s (server_step env e s1)"

lemma run_registered: "server_run rows allowed s0 s \<Longrightarrow> registered rows s0 \<Longrightarrow> registered rows s"
proof (induction rule: server_run.induct)
  case (run_step s1 env e)
  then show ?case using step_good [OF run_step.hyps(2,3), of e] by (simp add: good_def)
qed

text \<open>
  C2: a server with live trading switched off stays without live trading.  If no row is in live mode and
  no object trades for real, then whatever users request and however the goroutines interleave, as
  long as the switch is off no row becomes live and no object is ever built that posts orders.
\<close>

theorem live_off_stays_off:
  assumes run: "server_run rows (\<lambda>env e s. \<not> live_enabled env) s0 s"
    and start: "registered rows s0" "no_live rows s0"
  shows "registered rows s \<and> no_live rows s"
  using run
proof induction
  case (run_step s1 env e)
  then show ?case using step_good [OF run_step.hyps(2,3), of e] by (simp add: good_def)
qed (use start in simp)

lemma filter_user: "u \<noteq> v \<Longrightarrow> mset (filter (\<lambda>r. tr_UserID r = v) zs) = filter_mset (\<lambda>r. tr_UserID r = v) (other_rows u zs)"
  by (induction zs) (auto simp: other_rows_def)

lemma step_other:
  assumes "traders_ok (se_db env) rows" "fresh_id rows env s" "registered rows s" "event_user e s \<noteq> v"
  shows "registered rows (server_step env e s)"
    "mset (filter (\<lambda>r. tr_UserID r = v) (rows (sr_DB (server_step env e s)))) = mset (filter (\<lambda>r. tr_UserID r = v) (rows (sr_DB s)))"
    "a < length (sr_Heap s) \<Longrightarrow> a < length (sr_Heap (server_step env e s))"
    "a < length (sr_Heap s) \<Longrightarrow> ob_UserID (sr_Heap (server_step env e s) ! a) = ob_UserID (sr_Heap s ! a)"
    "a < length (sr_Heap s) \<Longrightarrow> ob_UserID (sr_Heap s ! a) = v \<Longrightarrow> sr_Heap (server_step env e s) ! a = sr_Heap s ! a"
    "sr_Traders s tid = Some a \<Longrightarrow> ob_UserID (sr_Heap s ! a) = v \<Longrightarrow> sr_Traders (server_step env e s) tid = Some a"
proof -
  have g: "registered rows (server_step env e s)" "others_kept rows (event_user e s) s (server_step env e s)"
    using step_good [OF assms(1,2), of e] assms(3) by (simp_all add: good_def)
  show "registered rows (server_step env e s)" by (rule g(1))
  show "mset (filter (\<lambda>r. tr_UserID r = v) (rows (sr_DB (server_step env e s)))) = mset (filter (\<lambda>r. tr_UserID r = v) (rows (sr_DB s)))"
    using g(2) by (simp only: filter_user [OF assms(4)] others_kept_def)
  note o = g(2) [unfolded others_kept_def other_objects_def]
  show "a < length (sr_Heap s) \<Longrightarrow> a < length (sr_Heap (server_step env e s))" using o by linarith
  show "a < length (sr_Heap s) \<Longrightarrow> ob_UserID (sr_Heap (server_step env e s) ! a) = ob_UserID (sr_Heap s ! a)" using o by blast
  show "a < length (sr_Heap s) \<Longrightarrow> ob_UserID (sr_Heap s ! a) = v \<Longrightarrow> sr_Heap (server_step env e s) ! a = sr_Heap s ! a"
    using o assms(4) by metis
  show "sr_Traders s tid = Some a \<Longrightarrow> ob_UserID (sr_Heap s ! a) = v \<Longrightarrow> sr_Traders (server_step env e s) tid = Some a"
    using o assms(4) by metis
qed

definition user_kept :: "('d \<Rightarrow> trader_row list) \<Rightarrow> gostring \<Rightarrow> 'd server \<Rightarrow> 'd server \<Rightarrow> bool" where
  "user_kept rows v s s' \<longleftrightarrow>
    mset (filter (\<lambda>r. tr_UserID r = v) (rows (sr_DB s'))) = mset (filter (\<lambda>r. tr_UserID r = v) (rows (sr_DB s))) \<and>
    (\<forall>a < length (sr_Heap s). a < length (sr_Heap s') \<and> ob_UserID (sr_Heap s' ! a) = ob_UserID (sr_Heap s ! a) \<and>
       (ob_UserID (sr_Heap s ! a) = v \<longrightarrow> sr_Heap s' ! a = sr_Heap s ! a)) \<and>
    (\<forall>tid a. sr_Traders s tid = Some a \<and> ob_UserID (sr_Heap s ! a) = v \<longrightarrow> sr_Traders s' tid = Some a)"

lemma user_kept_trans:
  assumes r: "registered rows s" and a: "user_kept rows v s s1" and b: "user_kept rows v s1 s2"
  shows "user_kept rows v s s2"
  unfolding user_kept_def
proof (intro conjI allI impI; (elim conjE)?)
  show "mset (filter (\<lambda>r. tr_UserID r = v) (rows (sr_DB s2))) = mset (filter (\<lambda>r. tr_UserID r = v) (rows (sr_DB s)))"
    using a b unfolding user_kept_def by (elim conjE) (rule trans)
next
  fix x assume "x < length (sr_Heap s)"
  then have 1: "x < length (sr_Heap s1)" "ob_UserID (sr_Heap s1 ! x) = ob_UserID (sr_Heap s ! x)"
    "ob_UserID (sr_Heap s ! x) = v \<longrightarrow> sr_Heap s1 ! x = sr_Heap s ! x" using a unfolding user_kept_def by blast+
  have 2: "x < length (sr_Heap s2)" "ob_UserID (sr_Heap s2 ! x) = ob_UserID (sr_Heap s1 ! x)"
    "ob_UserID (sr_Heap s1 ! x) = v \<longrightarrow> sr_Heap s2 ! x = sr_Heap s1 ! x" using b 1(1) unfolding user_kept_def by blast+
  show "x < length (sr_Heap s2)" "ob_UserID (sr_Heap s2 ! x) = ob_UserID (sr_Heap s ! x)"
    "ob_UserID (sr_Heap s ! x) = v \<Longrightarrow> sr_Heap s2 ! x = sr_Heap s ! x" using 1 2 by auto
next
  fix tid x assume t: "sr_Traders s tid = Some x" "ob_UserID (sr_Heap s ! x) = v"
  have "x < length (sr_Heap s)" using r t(1) by (auto simp: registered_def owned_by_def)
  then have "ob_UserID (sr_Heap s1 ! x) = v" using a t(2) unfolding user_kept_def by blast
  moreover have "sr_Traders s1 tid = Some x" using a t unfolding user_kept_def by blast
  ultimately show "sr_Traders s2 tid = Some x" using b unfolding user_kept_def by blast
qed

text \<open>
  C3: one user cannot touch another's traders.  In any run in which \<open>v\<close> does not act, the rows that
  \<open>v\<close> owns are the same in the end, every object of \<open>v\<close> is in the state it was in, and every id that led to
  one of them still does.
\<close>

theorem tenants_isolated:
  assumes run: "server_run rows (\<lambda>env e s. event_user e s \<noteq> v) s0 s" and start: "registered rows s0"
  shows "registered rows s \<and>
    mset (filter (\<lambda>r. tr_UserID r = v) (rows (sr_DB s))) = mset (filter (\<lambda>r. tr_UserID r = v) (rows (sr_DB s0))) \<and>
    (\<forall>a < length (sr_Heap s0). ob_UserID (sr_Heap s0 ! a) = v \<longrightarrow> sr_Heap s ! a = sr_Heap s0 ! a) \<and>
    (\<forall>tid a. sr_Traders s0 tid = Some a \<and> ob_UserID (sr_Heap s0 ! a) = v \<longrightarrow> sr_Traders s tid = Some a)"
proof -
  have "registered rows s \<and> user_kept rows v s0 s"
    using run
  proof induction
    case run_start
    show ?case using start by (simp add: user_kept_def)
  next
    case (run_step s1 env e)
    note st = step_other [OF run_step.hyps(2,3) conjunct1 [OF run_step.IH] run_step.hyps(4)]
    have "user_kept rows v s1 (server_step env e s1)"
      unfolding user_kept_def using st(2-6) by blast
    then show ?case using st(1) user_kept_trans [OF start conjunct2 [OF run_step.IH]] by blast
  qed
  then show ?thesis unfolding user_kept_def by blast
qed

end
