(* ===== verification/PM_Sign.thy ===== *)
theory PM_Sign
  imports PM_Config
begin

text \<open>
  \<open>prediction/polymarket/eip712.go\<close>, \<open>derive.go\<close>, \<open>abi_encode.go\<close> and \<open>relayer_sign.go\<close>: the
  wallet, the amounts of an order, the typed data that is signed, the derived wallet addresses, the
  redeem calls and the signed requests to the relayer.

  The cryptographic primitives and the go-ethereum encoders are the record \<open>crypto\<close> over a type
  \<open>'k\<close> of private keys: Keccak-256, ECDSA, the EIP-712 struct hashes, the checksummed text of an
  address, the ABI packing of calls and HMAC-SHA256.  What is signed, byte for byte, is modelled.
\<close>

section \<open>Primitives\<close>

type_synonym address = bytes

datatype td_value = TdStr gostring | TdBig "int option" | TdDec int

text \<open>\<open>apitypes.TypedData\<close>: the struct types, the primary type, the domain and the message.\<close>

record typed_data =
  td_Types :: "(gostring \<times> (gostring \<times> gostring) list) list"
  td_Primary :: gostring
  td_Name :: gostring
  td_Version :: gostring
  td_ChainId :: int
  td_Contract :: gostring
  td_Message :: "(gostring \<times> td_value) list"

record 'k crypto =
  cr_HexToECDSA :: "gostring \<Rightarrow> perr + 'k"
  cr_PubkeyToAddress :: "'k \<Rightarrow> address"
  cr_Hex :: "address \<Rightarrow> gostring"
  cr_HexToAddress :: "gostring \<Rightarrow> address"
  cr_Keccak256 :: "bytes \<Rightarrow> bytes"
  cr_TextHash :: "bytes \<Rightarrow> bytes"
  cr_Sign :: "bytes \<Rightarrow> 'k \<Rightarrow> perr + bytes"
  cr_HashDomain :: "typed_data \<Rightarrow> perr + bytes"
  cr_HashMessage :: "typed_data \<Rightarrow> perr + bytes"
  cr_HMAC :: "bytes \<Rightarrow> bytes \<Rightarrow> bytes"
  cr_PackRedeem :: "address \<Rightarrow> bytes \<Rightarrow> bytes \<Rightarrow> int list \<Rightarrow> perr + bytes"
  cr_PackApproval :: "address \<Rightarrow> bool \<Rightarrow> perr + bytes"
  cr_PackIsApproved :: "address \<Rightarrow> address \<Rightarrow> perr + bytes"
  cr_PackProxy :: "(nat \<times> address \<times> int \<times> bytes) list \<Rightarrow> perr + bytes"

record 'k wallet =
  wl_privateKey :: 'k
  wl_address :: address

definition loadWallet :: "'k crypto \<Rightarrow> gostring \<Rightarrow> perr + 'k wallet" where
  "loadWallet cr hex =
     (case cr_HexToECDSA cr (trim_prefix (trim_space hex) ''0x'') of
        Inl e \<Rightarrow> Inl (WrapErr ''invalid private key'' e)
      | Inr k \<Rightarrow> Inr \<lparr>wl_privateKey = k, wl_address = cr_PubkeyToAddress cr k\<rparr>)"

definition signerAddress :: "'k crypto \<Rightarrow> pm_config \<Rightarrow> perr + address" where
  "signerAddress cr cfg =
     (if pc_PrivateKey cfg = '''' then Inl (OtherErr ''polymarket: private key not configured'')
      else map_sum id wl_address (loadWallet cr (pc_PrivateKey cfg)))"

definition makerAddress :: "'k crypto \<Rightarrow> pm_config \<Rightarrow> address \<Rightarrow> address" where
  "makerAddress cr cfg signer =
     (if trim_space (pc_ProxyAddress cfg) \<noteq> '''' then cr_HexToAddress cr (trim_space (pc_ProxyAddress cfg)) else signer)"

definition funderAddr :: "'k crypto \<Rightarrow> pm_config \<Rightarrow> perr + address" where
  "funderAddr cr cfg =
     (if trim_space (pc_ProxyAddress cfg) \<noteq> '''' then Inr (cr_HexToAddress cr (trim_space (pc_ProxyAddress cfg)))
      else signerAddress cr cfg)"

definition funderHex :: "'k crypto \<Rightarrow> pm_config \<Rightarrow> perr + gostring" where
  "funderHex cr cfg =
     (if trim_space (pc_ProxyAddress cfg) \<noteq> '''' then Inr (trim_space (pc_ProxyAddress cfg))
      else map_sum id (cr_Hex cr) (signerAddress cr cfg))"

section \<open>Amounts\<close>

text \<open>
  A \<open>*big.Int\<close> computed from a double: \<open>big.NewFloat\<close> panics on NaN, and an infinity has a nil
  integer.  The product has 53 bits of precision, like a double, without its range limits; a
  product below the normal range truncates to 0 either way, so the rounding of doubles serves.
\<close>

datatype big = BigPanic | BigNil | Big int

definition trunc_rat :: "rat \<Rightarrow> int" where
  "trunc_rat r = (if 0 \<le> r then \<lfloor>r\<rfloor> else \<lceil>r\<rceil>)"

definition usdcAmount :: "f64 \<Rightarrow> big" where
  "usdcAmount usd =
     (case usd of NaN \<Rightarrow> BigPanic | PInf \<Rightarrow> BigNil | NInf \<Rightarrow> BigNil | Fin r \<Rightarrow> Big (trunc_rat (rnd (r * 1000000))))"

definition shareAmount :: "f64 \<Rightarrow> big" where
  "shareAmount shares =
     (case shares of NaN \<Rightarrow> BigPanic | PInf \<Rightarrow> BigNil | NInf \<Rightarrow> BigNil | Fin r \<Rightarrow> Big (trunc_rat (rnd (r * 1000000))))"

text \<open>Maker amount, taker amount and side; 0 buys, 1 sells.\<close>

definition buildOrderAmounts :: "gostring \<Rightarrow> f64 \<Rightarrow> f64 \<Rightarrow> big \<times> big \<times> nat" where
  "buildOrderAmounts side price shares =
     (if equal_fold side ''SELL'' then (shareAmount shares, usdcAmount (price * shares), 1)
      else (usdcAmount (price * shares), shareAmount shares, 0))"

fun big_value :: "big \<Rightarrow> int option" where
  "big_value (Big i) = Some i" | "big_value _ = None"

definition big_text :: "int option \<Rightarrow> gostring" where
  "big_text b = (case b of None \<Rightarrow> ''<nil>'' | Some i \<Rightarrow> itoa i)"

section \<open>Typed data\<close>

definition clobAuthMessage :: gostring where
  "clobAuthMessage = ''This message attests that I control the given wallet''"

definition clob_auth_data :: "gostring \<Rightarrow> int \<Rightarrow> gostring \<Rightarrow> nat \<Rightarrow> typed_data" where
  "clob_auth_data addr chainID timestamp nonce =
     \<lparr>td_Types =
        [(''EIP712Domain'', [(''name'', ''string''), (''version'', ''string''), (''chainId'', ''uint256'')]),
         (''ClobAuth'', [(''address'', ''address''), (''timestamp'', ''string''), (''nonce'', ''uint256''),
            (''message'', ''string'')])],
      td_Primary = ''ClobAuth'', td_Name = ''ClobAuthDomain'', td_Version = ''1'', td_ChainId = chainID,
      td_Contract = '''',
      td_Message = [(''address'', TdStr addr), (''timestamp'', TdStr timestamp),
        (''nonce'', TdStr (nat_digits nonce)), (''message'', TdStr clobAuthMessage)]\<rparr>"

record signed_order =
  sg_Salt :: int
  sg_Maker :: address
  sg_Signer :: address
  sg_TokenID :: int
  sg_MakerAmount :: "int option"
  sg_TakerAmount :: "int option"
  sg_Side :: nat
  sg_SignatureType :: "8 word"
  sg_Timestamp :: int
  sg_Metadata :: bytes
  sg_Builder :: bytes

definition order_data :: "'k crypto \<Rightarrow> int \<Rightarrow> bool \<Rightarrow> signed_order \<Rightarrow> typed_data" where
  "order_data cr chainID negRisk ord =
     \<lparr>td_Types =
        [(''EIP712Domain'', [(''name'', ''string''), (''version'', ''string''), (''chainId'', ''uint256''),
            (''verifyingContract'', ''address'')]),
         (''Order'', [(''salt'', ''uint256''), (''maker'', ''address''), (''signer'', ''address''),
            (''tokenId'', ''uint256''), (''makerAmount'', ''uint256''), (''takerAmount'', ''uint256''),
            (''side'', ''uint8''), (''signatureType'', ''uint8''), (''timestamp'', ''uint256''),
            (''metadata'', ''bytes32''), (''builder'', ''bytes32'')])],
      td_Primary = ''Order'', td_Name = ''Polymarket CTF Exchange'', td_Version = ''2'', td_ChainId = chainID,
      td_Contract = (if negRisk then ExchangeV2NegRisk else ExchangeV2Standard),
      td_Message = [(''salt'', TdBig (Some (sg_Salt ord))), (''maker'', TdStr (cr_Hex cr (sg_Maker ord))),
        (''signer'', TdStr (cr_Hex cr (sg_Signer ord))), (''tokenId'', TdBig (Some (sg_TokenID ord))),
        (''makerAmount'', TdBig (sg_MakerAmount ord)), (''takerAmount'', TdBig (sg_TakerAmount ord)),
        (''side'', TdDec (int (sg_Side ord))), (''signatureType'', TdDec (uint (sg_SignatureType ord))),
        (''timestamp'', TdBig (Some (sg_Timestamp ord))),
        (''metadata'', TdStr (''0x'' @ hex_encode (sg_Metadata ord))),
        (''builder'', TdStr (''0x'' @ hex_encode (sg_Builder ord)))]\<rparr>"

text \<open>The recovery byte of a signature is raised to 27 or 28.\<close>

definition raise_v :: "bytes \<Rightarrow> bytes" where
  "raise_v sig = (case drop 64 sig of v # _ \<Rightarrow> if v < 27 then sig[64 := v + 27] else sig | [] \<Rightarrow> sig)"

definition eip712Digest :: "'k crypto \<Rightarrow> typed_data \<Rightarrow> perr + bytes" where
  "eip712Digest cr td =
     (case cr_HashDomain cr td of
        Inl e \<Rightarrow> Inl e
      | Inr separator \<Rightarrow>
         (case cr_HashMessage cr td of
            Inl e \<Rightarrow> Inl e
          | Inr msg \<Rightarrow> Inr (cr_Keccak256 cr ([0x19, 0x01] @ separator @ msg))))"

definition sign_hash :: "'k crypto \<Rightarrow> 'k \<Rightarrow> bytes \<Rightarrow> perr + gostring" where
  "sign_hash cr key hash =
     (case cr_Sign cr hash key of Inl e \<Rightarrow> Inl e | Inr sig \<Rightarrow> Inr (''0x'' @ hex_encode (raise_v sig)))"

definition signTypedData :: "'k crypto \<Rightarrow> 'k \<Rightarrow> typed_data \<Rightarrow> perr + gostring" where
  "signTypedData cr key td = (case eip712Digest cr td of Inl e \<Rightarrow> Inl e | Inr hash \<Rightarrow> sign_hash cr key hash)"

definition signClobAuth :: "'k crypto \<Rightarrow> 'k wallet \<Rightarrow> int \<Rightarrow> gostring \<Rightarrow> nat \<Rightarrow> perr + gostring" where
  "signClobAuth cr w chainID timestamp nonce =
     signTypedData cr (wl_privateKey w) (clob_auth_data (cr_Hex cr (wl_address w)) chainID timestamp nonce)"

definition signOrderV2 :: "'k crypto \<Rightarrow> 'k wallet \<Rightarrow> int \<Rightarrow> bool \<Rightarrow> signed_order \<Rightarrow> perr + gostring" where
  "signOrderV2 cr w chainID negRisk ord = signTypedData cr (wl_privateKey w) (order_data cr chainID negRisk ord)"

definition signPersonalDigest :: "'k crypto \<Rightarrow> 'k \<Rightarrow> bytes \<Rightarrow> perr + gostring" where
  "signPersonalDigest cr key digest = sign_hash cr key (cr_TextHash cr digest)"

section \<open>Derived wallets\<close>

definition hash_const :: "gostring \<Rightarrow> bytes" where
  "hash_const h = (case hex_decode h of Some bs \<Rightarrow> bs | None \<Rightarrow> [])"

definition encodeABIAddress :: "address \<Rightarrow> bytes" where
  "encodeABIAddress addr = replicate 12 0 @ addr"

definition encodeU256 :: "nat \<Rightarrow> bytes" where
  "encodeU256 v = replicate 24 0 @ be_bytes 8 v"

definition deriveCreate2Address :: "'k crypto \<Rightarrow> address \<Rightarrow> bytes \<Rightarrow> bytes \<Rightarrow> address" where
  "deriveCreate2Address cr factory salt codehash =
     drop 12 (cr_Keccak256 cr ([0xff] @ factory @ salt @ codehash))"

definition deriveSafeAddress :: "'k crypto \<Rightarrow> address \<Rightarrow> address" where
  "deriveSafeAddress cr owner =
     deriveCreate2Address cr (cr_HexToAddress cr safeFactoryAddress) (cr_Keccak256 cr (encodeABIAddress owner))
       (hash_const safeInitCodeHash)"

definition deriveProxyAddress :: "'k crypto \<Rightarrow> address \<Rightarrow> address" where
  "deriveProxyAddress cr owner =
     deriveCreate2Address cr (cr_HexToAddress cr proxyFactoryAddress) (cr_Keccak256 cr owner)
       (hash_const proxyInitCodeHash)"

section \<open>Redeem calls\<close>

definition parseConditionID :: "gostring \<Rightarrow> perr + bytes" where
  "parseConditionID raw0 =
     (let raw = trim_prefix (trim_space raw0) ''0x'' in
      if length raw \<noteq> 64 then Inl (OtherErr ''invalid condition_id length'')
      else case hex_decode raw of
        None \<Rightarrow> Inl (WrapErr ''invalid condition_id'' (OtherErr ''hex''))
      | Some b \<Rightarrow> Inr b)"

record chain_call =
  cc_To :: address
  cc_Data :: bytes

definition redeemTarget :: "'k crypto \<Rightarrow> bool \<Rightarrow> bool \<Rightarrow> address" where
  "redeemTarget cr negRisk usdce = cr_HexToAddress cr
     (if usdce then (if negRisk then negRiskAdapterAddress else ctfAddress)
      else if negRisk then negRiskCollateralAdapter else ctfCollateralAdapter)"

definition encodeRedeem4Arg :: "'k crypto \<Rightarrow> bytes \<Rightarrow> perr + bytes" where
  "encodeRedeem4Arg cr cid = cr_PackRedeem cr (cr_HexToAddress cr usdcAddress) (replicate 32 0) cid [1, 2]"

definition buildRedeemCall :: "'k crypto \<Rightarrow> gostring \<Rightarrow> bool \<Rightarrow> bool \<Rightarrow> perr + chain_call" where
  "buildRedeemCall cr conditionID negRisk usdce =
     (case parseConditionID conditionID of
        Inl e \<Rightarrow> Inl e
      | Inr cid \<Rightarrow>
         (case encodeRedeem4Arg cr cid of
            Inl e \<Rightarrow> Inl e
          | Inr data \<Rightarrow> Inr \<lparr>cc_To = redeemTarget cr negRisk usdce, cc_Data = data\<rparr>))"

definition buildApproveCall :: "'k crypto \<Rightarrow> address \<Rightarrow> perr + chain_call" where
  "buildApproveCall cr adapter =
     (case cr_PackApproval cr adapter True of
        Inl e \<Rightarrow> Inl e | Inr data \<Rightarrow> Inr \<lparr>cc_To = cr_HexToAddress cr ctfAddress, cc_Data = data\<rparr>)"

definition encodeProxyCalls :: "'k crypto \<Rightarrow> chain_call list \<Rightarrow> perr + bytes" where
  "encodeProxyCalls cr calls = cr_PackProxy cr (map (\<lambda>c. (1, cc_To c, 0, cc_Data c)) calls)"

section \<open>Signed requests to the relayer\<close>

record relayer_params =
  rlp_GasPrice :: gostring
  rlp_Operation :: gostring
  rlp_SafeTxnGas :: gostring
  rlp_BaseGas :: gostring
  rlp_GasToken :: gostring
  rlp_RefundReceiver :: gostring
  rlp_GasLimit :: gostring
  rlp_RelayerFee :: gostring
  rlp_RelayHub :: gostring
  rlp_Relay :: gostring

record relayer_request =
  rq_From :: gostring
  rq_To :: gostring
  rq_ProxyWallet :: gostring
  rq_Data :: gostring
  rq_Nonce :: gostring
  rq_Signature :: gostring
  rq_Params :: relayer_params
  rq_Type :: gostring
  rq_Metadata :: gostring

definition no_params :: relayer_params where
  "no_params = \<lparr>rlp_GasPrice = '''', rlp_Operation = '''', rlp_SafeTxnGas = '''', rlp_BaseGas = '''', rlp_GasToken = '''',
     rlp_RefundReceiver = '''', rlp_GasLimit = '''', rlp_RelayerFee = '''', rlp_RelayHub = '''', rlp_Relay = ''''\<rparr>"

text \<open>The recovery value of a Safe signature over a prefixed hash: 31 or 32.\<close>

definition packed_v :: "int \<Rightarrow> int option" where
  "packed_v v = (if v = 0 \<or> v = 1 then Some (v + 31) else if v = 27 \<or> v = 28 then Some (v + 4) else None)"

definition splitAndPackSig :: "gostring \<Rightarrow> perr + gostring" where
  "splitAndPackSig sig0 =
     (let sigHex = trim_prefix (trim_space sig0) ''0x'' in
      if length sigHex \<noteq> 130 then Inl (OtherErr ''invalid signature length'')
      else case parse_int True (drop 128 sigHex) of
        None \<Rightarrow> Inl (OtherErr ''strconv.ParseInt'')
      | Some v \<Rightarrow>
         (case packed_v v of
            None \<Rightarrow> Inl (OtherErr (''invalid signature v='' @ itoa v))
          | Some v' \<Rightarrow>
             (case hex_decode (take 64 sigHex) of
                None \<Rightarrow> Inl (OtherErr ''encoding/hex'')
              | Some rb \<Rightarrow>
                 (case hex_decode (take 64 (drop 64 sigHex)) of
                    None \<Rightarrow> Inl (OtherErr ''encoding/hex'')
                  | Some sb \<Rightarrow> Inr (''0x'' @ hex_encode (rb @ sb @ [of_int v']))))))"

definition zero_address :: address where
  "zero_address = replicate 20 0"

definition safe_tx_data :: "'k crypto \<Rightarrow> address \<Rightarrow> chain_call \<Rightarrow> int \<Rightarrow> gostring \<Rightarrow> typed_data" where
  "safe_tx_data cr safe call chainID nonce =
     \<lparr>td_Types =
        [(''EIP712Domain'', [(''chainId'', ''uint256''), (''verifyingContract'', ''address'')]),
         (''SafeTx'', [(''to'', ''address''), (''value'', ''uint256''), (''data'', ''bytes''), (''operation'', ''uint8''),
            (''safeTxGas'', ''uint256''), (''baseGas'', ''uint256''), (''gasPrice'', ''uint256''),
            (''gasToken'', ''address''), (''refundReceiver'', ''address''), (''nonce'', ''uint256'')])],
      td_Primary = ''SafeTx'', td_Name = '''', td_Version = '''', td_ChainId = chainID, td_Contract = cr_Hex cr safe,
      td_Message = [(''to'', TdStr (cr_Hex cr (cc_To call))), (''value'', TdStr ''0''),
        (''data'', TdStr (''0x'' @ hex_encode (cc_Data call))), (''operation'', TdStr ''0''), (''safeTxGas'', TdStr ''0''),
        (''baseGas'', TdStr ''0''), (''gasPrice'', TdStr ''0''), (''gasToken'', TdStr (cr_Hex cr zero_address)),
        (''refundReceiver'', TdStr (cr_Hex cr zero_address)), (''nonce'', TdStr nonce)]\<rparr>"

definition buildSafeSubmitRequest ::
  "'k crypto \<Rightarrow> 'k \<Rightarrow> address \<Rightarrow> address \<Rightarrow> chain_call \<Rightarrow> int \<Rightarrow> gostring \<Rightarrow> gostring \<Rightarrow> perr + relayer_request" where
  "buildSafeSubmitRequest cr key owner safe call chainID nonce metadata =
     (case eip712Digest cr (safe_tx_data cr safe call chainID nonce) of
        Inl e \<Rightarrow> Inl e
      | Inr digest \<Rightarrow>
         (case signPersonalDigest cr key digest of
            Inl e \<Rightarrow> Inl e
          | Inr sig \<Rightarrow>
             (case splitAndPackSig sig of
                Inl e \<Rightarrow> Inl e
              | Inr packed \<Rightarrow> Inr
                 \<lparr>rq_From = cr_Hex cr owner, rq_To = cr_Hex cr (cc_To call), rq_ProxyWallet = cr_Hex cr safe,
                  rq_Data = ''0x'' @ hex_encode (cc_Data call), rq_Nonce = nonce, rq_Signature = packed,
                  rq_Params = no_params\<lparr>rlp_GasPrice := ''0'', rlp_Operation := ''0'', rlp_SafeTxnGas := ''0'',
                    rlp_BaseGas := ''0'', rlp_GasToken := cr_Hex cr zero_address,
                    rlp_RefundReceiver := cr_Hex cr zero_address\<rparr>,
                  rq_Type = relayerTxTypeSafe, rq_Metadata = metadata\<rparr>)))"

definition parseUint64 :: "gostring \<Rightarrow> nat" where
  "parseUint64 s0 =
     (let s = trim_space s0 in
      if s = '''' then 0
      else if has_prefix s ''0x'' then fst (parse_uint True (trim_prefix s ''0x''))
      else fst (parse_uint False s))"

definition proxy_gas_limit :: nat where
  "proxy_gas_limit = 10000000"

text \<open>The bytes a proxy request signs the hash of.\<close>

definition proxy_preimage :: "'k crypto \<Rightarrow> address \<Rightarrow> bytes \<Rightarrow> nat \<Rightarrow> address \<Rightarrow> bytes" where
  "proxy_preimage cr owner data nonce relay =
     concat [map (\<lambda>c. of_nat (of_char c)) ''rlx:'', owner, cr_HexToAddress cr proxyFactoryAddress, data,
       encodeU256 0, encodeU256 0, encodeU256 proxy_gas_limit, encodeU256 nonce,
       cr_HexToAddress cr relayHubAddress, relay]"

definition buildProxySubmitRequest ::
  "'k crypto \<Rightarrow> 'k \<Rightarrow> address \<Rightarrow> address \<Rightarrow> chain_call list \<Rightarrow> address \<Rightarrow> gostring \<Rightarrow> gostring \<Rightarrow> perr + relayer_request" where
  "buildProxySubmitRequest cr key owner proxy calls relay nonce metadata =
     (case encodeProxyCalls cr calls of
        Inl e \<Rightarrow> Inl e
      | Inr data \<Rightarrow>
         (case signPersonalDigest cr key (cr_Keccak256 cr (proxy_preimage cr owner data (parseUint64 nonce) relay)) of
            Inl e \<Rightarrow> Inl e
          | Inr sig \<Rightarrow> Inr
             \<lparr>rq_From = cr_Hex cr owner, rq_To = cr_Hex cr (cr_HexToAddress cr proxyFactoryAddress),
              rq_ProxyWallet = cr_Hex cr proxy, rq_Data = ''0x'' @ hex_encode data, rq_Nonce = nonce,
              rq_Signature = sig,
              rq_Params = no_params\<lparr>rlp_GasPrice := ''0'', rlp_GasLimit := nat_digits proxy_gas_limit,
                rlp_RelayerFee := ''0'', rlp_RelayHub := cr_Hex cr (cr_HexToAddress cr relayHubAddress),
                rlp_Relay := cr_Hex cr relay\<rparr>,
              rq_Type = relayerTxTypeProxy, rq_Metadata = metadata\<rparr>))"

section \<open>Encodings\<close>

lemma encodeU256_length [simp]: "length (encodeU256 v) = 32"
  by (simp add: encodeU256_def)

lemma encodeU256_value: "v < 2 ^ 64 \<Longrightarrow> be_value (encodeU256 v) = v"
  by (simp add: encodeU256_def be_value_zeros be_value_bytes)

lemma parseUint64_bound: "parseUint64 s < 2 ^ 64"
  by (auto simp: parseUint64_def parse_uint_def Let_def split: option.splits)

lemma parseUint64_nonce: "be_value (encodeU256 (parseUint64 s)) = parseUint64 s"
  by (rule encodeU256_value [OF parseUint64_bound])

text \<open>
  a condition id is accepted exactly when its text, trimmed and without \<open>0x\<close>, is the hexadecimal
  text of 32 bytes in either case, and then it is those bytes: what is signed on chain is what the
  market data named.
\<close>

theorem condition_id_exact:
  "parseConditionID s = Inr bs \<longleftrightarrow>
     length bs = 32 \<and> to_lower (trim_prefix (trim_space s) ''0x'') = hex_encode bs"
proof -
  have "length raw = 64 \<and> hex_decode raw = Some bs \<longleftrightarrow> length bs = 32 \<and> hex_decode raw = Some bs" for raw
    using hex_decode_length [of raw bs] by auto
  then show ?thesis
    by (auto simp: parseConditionID_def Let_def hex_decode_iff [symmetric] split: option.splits)
qed

lemma raise_v_split: "length sig = 65 \<Longrightarrow> sig ! 64 < 27 \<Longrightarrow> raise_v sig = take 64 sig @ [sig ! 64 + 27]"
proof -
  assume l: "length sig = 65" and v: "sig ! 64 < 27"
  have d: "drop 64 sig = [sig ! 64]" using l by (simp add: Cons_nth_drop_Suc [symmetric])
  have "sig[64 := x] = take 64 sig @ [x]" for x
    using l by (simp add: upd_conv_take_nth_drop)
  then show ?thesis using d v by (simp add: raise_v_def)
qed

lemma no_space_hex: "trim_space (''0x'' @ hex_encode bs) = ''0x'' @ hex_encode bs"
proof (rule trim_space_id, intro disjI2 conjI)
  show "\<not> is_space (hd (''0x'' @ hex_encode bs))" by (simp add: is_space_def)
  have digit: "\<not> is_space (hex_digit n)" if "n < 16" for n
    using that by (auto simp: is_space_def hex_digit_def Let_def)
  have "c \<in> set (hex_encode bs) \<Longrightarrow> \<not> is_space c" for c
  proof (induction bs)
    case (Cons b bs)
    have "unat b div 16 < 16" "unat b mod 16 < 16" using unsigned_less [of b, where 'a = nat] by auto
    then show ?case using Cons digit by auto
  qed simp
  then show "\<not> is_space (last (''0x'' @ hex_encode bs))"
    by (cases "hex_encode bs") (auto simp: is_space_def split: if_splits)
qed

lemma hex_encode_append [simp]: "hex_encode (as @ bs) = hex_encode as @ hex_encode bs"
  by (induction as) simp_all

lemma parse_recovery:
  "parse_int True (hex_encode [27]) = Some 27" "parse_int True (hex_encode [28]) = Some 28"
proof -
  have "hex_encode [27] = ''1b''" "hex_encode [28] = ''1c''" "hex_acc 0 ''1b'' = Some 27" "hex_acc 0 ''1c'' = Some 28"
    by code_simp+
  then show "parse_int True (hex_encode [27]) = Some 27" "parse_int True (hex_encode [28]) = Some 28"
    by (simp_all add: parse_int_def sign_of_def del: hex_acc.simps hex_encode.simps)
qed

lemma take_64: "take 32 xs @ take 32 (drop 32 xs) = take 64 xs"
  using take_add [of 32 32 xs] by simp

text \<open>
  the signature of a Safe transaction reaches the relayer with its two halves untouched and a
  recovery byte of 31 or 32: signing a digest and packing the signature never fails once the
  primitive gave a recovery bit, and loses nothing.
\<close>

theorem safe_signature_packed:
  assumes sig: "cr_Sign cr (cr_TextHash cr digest) key = Inr sig" "length sig = 65"
    and v: "sig ! 64 = of_nat b" "b < 2"
  shows "\<exists>sigText. signPersonalDigest cr key digest = Inr sigText \<and>
    splitAndPackSig sigText = Inr (''0x'' @ hex_encode (take 64 sig @ [of_nat (b + 31)]))"
proof -
  have b: "b = 0 \<or> b = 1" using v(2) by auto
  then have lt: "sig ! 64 < 27" using v(1) by auto
  define sigText where "sigText = ''0x'' @ hex_encode (take 64 sig @ [sig ! 64 + 27])"
  have s: "signPersonalDigest cr key digest = Inr sigText"
    using sig(1) raise_v_split [OF sig(2) lt] by (simp add: signPersonalDigest_def sign_hash_def sigText_def)
  define h where "h = hex_encode (take 64 sig @ [sig ! 64 + 27])"
  have t: "trim_prefix (trim_space sigText) ''0x'' = h"
    unfolding sigText_def no_space_hex h_def by (simp add: trim_prefix_def has_prefix_def)
  have len: "length h = 130" using sig(2) by (simp add: h_def)
  have parts: "take 64 h = hex_encode (take 32 sig)" "take 64 (drop 64 h) = hex_encode (take 32 (drop 32 sig))"
    "drop 128 h = hex_encode [sig ! 64 + 27]"
  proof -
    have "h = hex_encode (take 32 sig) @ hex_encode (take 32 (drop 32 sig)) @ hex_encode [sig ! 64 + 27]"
      by (simp add: h_def take_64 [symmetric])
    then show "take 64 h = hex_encode (take 32 sig)" "take 64 (drop 64 h) = hex_encode (take 32 (drop 32 sig))"
      "drop 128 h = hex_encode [sig ! 64 + 27]" using sig(2) by simp_all
  qed
  have "parse_int True (hex_encode [sig ! 64 + 27]) = Some (int b + 27)"
    using b v(1) parse_recovery by auto
  then have "splitAndPackSig sigText = Inr (''0x'' @ hex_encode (take 32 sig @ take 32 (drop 32 sig) @ [of_nat (b + 31)]))"
    using b by (auto simp: splitAndPackSig_def Let_def t len parts packed_v_def)
  moreover have "take 32 sig @ take 32 (drop 32 sig) @ ys = take 64 sig @ ys" for ys
    using take_64 [of sig] by (metis append.assoc)
  ultimately show ?thesis using s by simp
qed

definition flat_crypto :: "nat crypto" where
  "flat_crypto = \<lparr>cr_HexToECDSA = (\<lambda>s. if length s = 4 then Inr (length s) else Inl (OtherErr ''length'')),
     cr_PubkeyToAddress = (\<lambda>k. replicate 20 (of_nat k)), cr_Hex = (\<lambda>a. ''0x'' @ hex_encode a),
     cr_HexToAddress = (\<lambda>s. case hex_decode (trim_prefix s ''0x'') of Some a \<Rightarrow> a | None \<Rightarrow> replicate 20 0),
     cr_Keccak256 = (\<lambda>_. replicate 32 7), cr_TextHash = id, cr_Sign = (\<lambda>h k. Inr (replicate 64 9 @ [1])),
     cr_HashDomain = (\<lambda>_. Inr (replicate 32 1)), cr_HashMessage = (\<lambda>_. Inr (replicate 32 2)), cr_HMAC = (\<lambda>_ m. m),
     cr_PackRedeem = (\<lambda>_ _ cid _. Inr cid), cr_PackApproval = (\<lambda>a _. Inr a), cr_PackIsApproved = (\<lambda>a _. Inr a),
     cr_PackProxy = (\<lambda>_. Inr [])\<rparr>"

theorem safe_signature_packed_witness:
  "\<exists>sigText. signPersonalDigest flat_crypto 4 [1] = Inr sigText \<and>
     splitAndPackSig sigText = Inr (''0x'' @ hex_encode (replicate 64 9 @ [32]))"
  using safe_signature_packed [of flat_crypto "[1]" 4 "replicate 64 9 @ [1]" 1]
  by (simp add: flat_crypto_def nth_append)

end
