(* ===== verification/PM_Market.thy ===== *)
theory PM_Market
  imports PM_Sign Pred_Venue Go_Time
begin

text \<open>
  \<open>prediction/polymarket/gamma.go\<close>, \<open>clob_public.go\<close> and \<open>wallet.go\<close>: the read side of the live
  client.  Markets come from the Gamma API, books and midpoints from the CLOB, holdings and
  collateral from the data API.

  \<open>encoding/json\<close> decodes a body into the typed rows below; the record \<open>json\<close> holds its decoders.
  A reading call returns its answer and the world after the HTTP exchanges it made.
\<close>

section \<open>Wire data\<close>

record gamma_market =
  gm_ID :: gostring
  gm_Slug :: gostring
  gm_Question :: gostring
  gm_ConditionID :: gostring
  gm_EndDate :: gostring
  gm_Closed :: bool
  gm_NegRisk :: bool
  gm_ClobTokenIds :: gostring
  gm_OutcomePrices :: gostring
  gm_Volume24hr :: f64
  gm_Liquidity :: f64

record clob_level =
  cl_Price :: gostring
  cl_Size :: gostring

record clob_book_response =
  cb_Bids :: "clob_level list"
  cb_Asks :: "clob_level list"
  cb_Mid :: gostring

record book_meta =
  bm_TickSize :: gostring
  bm_NegRisk :: bool

record data_position =
  dp_Asset :: gostring
  dp_ConditionID :: gostring
  dp_Size :: f64
  dp_AvgPrice :: f64
  dp_Title :: gostring
  dp_Slug :: gostring
  dp_Outcome :: gostring
  dp_CurPrice :: f64

text \<open>Decoding a string array leaves what was decoded before an error.\<close>

record json =
  js_markets :: "gostring \<Rightarrow> perr + gamma_market list"
  js_strings :: "gostring \<Rightarrow> gostring list \<times> perr option"
  js_mid :: "gostring \<Rightarrow> perr + gostring"
  js_book :: "gostring \<Rightarrow> perr + clob_book_response"
  js_meta :: "gostring \<Rightarrow> perr + book_meta"
  js_values :: "gostring \<Rightarrow> perr + f64 list"
  js_value :: "gostring \<Rightarrow> perr + f64"
  js_positions :: "gostring \<Rightarrow> perr + data_position list"

type_synonym ('s, 'a) call = "'s \<Rightarrow> (perr + 'a) \<times> 's"

section \<open>Gamma: markets\<close>

definition parseTokenIDs :: "json \<Rightarrow> gostring \<Rightarrow> gostring \<times> gostring" where
  "parseTokenIDs js raw0 =
     (let raw = trim_space raw0 in
      if raw = '''' then ('''', '''')
      else let ids = (if has_prefix raw ''['' then fst (js_strings js raw) else split_comma raw)
        in (case ids of
              [] \<Rightarrow> ('''', '''')
            | [y] \<Rightarrow> (trim_quotes y, '''')
            | y # n # _ \<Rightarrow> (trim_quotes y, trim_quotes n)))"

fun parse_prices :: "gostring list \<Rightarrow> f64 list" where
  "parse_prices [] = []"
| "parse_prices (p # ps) =
     (let q = trim_quotes p in
      if q = '''' then parse_prices ps
      else case parse_float q of (v, None) \<Rightarrow> v # parse_prices ps | (_, Some _) \<Rightarrow> parse_prices ps)"

definition parseOutcomePrices :: "json \<Rightarrow> gostring \<Rightarrow> f64 list" where
  "parseOutcomePrices js raw0 =
     (let raw = trim_space raw0 in
      if raw = '''' then []
      else if has_prefix raw ''['' then
        (case js_strings js raw of (parts, None) \<Rightarrow> parse_prices parts | (_, Some _) \<Rightarrow> [])
      else parse_prices (split_comma raw))"

definition toMarket :: "json \<Rightarrow> gamma_market \<Rightarrow> market" where
  "toMarket js g =
     (let (y, n) = parseTokenIDs js (gm_ClobTokenIds g);
          end_ns = (if gm_EndDate g = '''' then None
                    else case parse_rfc3339 (gm_EndDate g) of
                      None \<Rightarrow> None | Some t \<Rightarrow> if t = zero_time_ns then None else Some t)
      in \<lparr>m_Venue = ''polymarket'', m_ID = gm_ID g, m_Slug = gm_Slug g, m_Question = gm_Question g,
          m_ConditionID = gm_ConditionID g, m_EndDate = end_ns, m_Closed = gm_Closed g, m_NegRisk = gm_NegRisk g,
          m_YesTokenID = y, m_NoTokenID = n, m_Volume24h = gm_Volume24hr g, m_Liquidity = gm_Liquidity g,
          m_OutcomePrices = parseOutcomePrices js (gm_OutcomePrices g)\<rparr>)"

definition matchKeywords :: "market \<Rightarrow> gostring list \<Rightarrow> bool" where
  "matchKeywords m keywords \<longleftrightarrow>
     keywords = [] \<or>
     list_ex (\<lambda>k. contains (to_lower (m_Question m @ '' '' @ m_Slug m)) (to_lower k)) keywords"

definition pm_GetMarketBySlug :: "'s web \<Rightarrow> json \<Rightarrow> pm_config \<Rightarrow> gostring \<Rightarrow> ('s, market) call" where
  "pm_GetMarketBySlug w js cfg slug0 s =
     (let slug = trim_space slug0 in
      if slug = '''' then (Inl (OtherErr ''empty slug''), s)
      else case getJSON w (pc_GammaURL cfg @ ''/markets?slug='' @ query_escape slug) s of
        (Inl e, s) \<Rightarrow> (Inl e, s)
      | (Inr body, s) \<Rightarrow>
         (case js_markets js body of
            Inl e \<Rightarrow> (Inl e, s)
          | Inr [] \<Rightarrow> (Inl (OtherErr (''market not found: '' @ slug)), s)
          | Inr (row # _) \<Rightarrow> (Inr (toMarket js row), s)))"

text \<open>\<open>url.Values.Encode\<close> sorts by key: \<open>closed\<close>, \<open>limit\<close>, \<open>tag\<close>.\<close>

definition search_url :: "pm_config \<Rightarrow> market_filter \<Rightarrow> gostring" where
  "search_url cfg f =
     (let limit = (if mf_Limit f \<le> 0 then 20 else mf_Limit f);
          closed = (case mf_Closed f of Some True \<Rightarrow> ''true'' | _ \<Rightarrow> ''false'')
      in pc_GammaURL cfg @ ''/markets?closed='' @ closed @ ''&limit='' @ query_escape (itoa limit) @
         (if mf_Tag f \<noteq> '''' then ''&tag='' @ query_escape (mf_Tag f) else ''''))"

definition pm_SearchMarkets :: "'s web \<Rightarrow> json \<Rightarrow> pm_config \<Rightarrow> market_filter \<Rightarrow> ('s, market list) call" where
  "pm_SearchMarkets w js cfg f s =
     (case getJSON w (search_url cfg f) s of
        (Inl e, s) \<Rightarrow> (Inl e, s)
      | (Inr body, s) \<Rightarrow>
         (case js_markets js body of
            Inl e \<Rightarrow> (Inl e, s)
          | Inr rows \<Rightarrow> (Inr (filter (\<lambda>m. matchKeywords m (mf_Keywords f)) (map (toMarket js) rows)), s)))"

section \<open>CLOB: books\<close>

definition pm_GetMidPrice :: "'s web \<Rightarrow> json \<Rightarrow> pm_config \<Rightarrow> gostring \<Rightarrow> 's \<Rightarrow> (f64 \<times> perr option) \<times> 's" where
  "pm_GetMidPrice w js cfg tok s =
     (if tok = '''' then ((0, Some (OtherErr ''empty token_id'')), s)
      else case getJSON w (pc_ClobURL cfg @ ''/midpoint?token_id='' @ query_escape tok) s of
        (Inl e, s) \<Rightarrow> ((0, Some e), s)
      | (Inr body, s) \<Rightarrow>
         (case js_mid js body of
            Inl e \<Rightarrow> ((0, Some e), s)
          | Inr mid \<Rightarrow>
             (case parse_float mid of
                (v, None) \<Rightarrow> ((v, None), s)
              | (v, Some _) \<Rightarrow> ((v, Some (OtherErr ''strconv.ParseFloat'')), s))))"

fun parseBookLevels :: "clob_level list \<Rightarrow> book_level list" where
  "parseBookLevels [] = []"
| "parseBookLevels (lv # lvs) =
     (case (parse_float (cl_Price lv), parse_float (cl_Size lv)) of
        ((p, None), (q, None)) \<Rightarrow> \<lparr>lv_Price = p, lv_Size = q\<rparr> # parseBookLevels lvs
      | _ \<Rightarrow> parseBookLevels lvs)"

definition book_mid :: "book_level list \<Rightarrow> book_level list \<Rightarrow> gostring \<Rightarrow> f64" where
  "book_mid bids asks mid =
     (let m = (if mid \<noteq> '''' then fst (parse_float mid) else 0) in
      if feq m 0 \<and> bids \<noteq> [] \<and> asks \<noteq> [] then (lv_Price (hd bids) + lv_Price (hd asks)) / fl 2 else m)"

definition pm_GetOrderBook :: "'s web \<Rightarrow> json \<Rightarrow> pm_config \<Rightarrow> gostring \<Rightarrow> ('s, order_book) call" where
  "pm_GetOrderBook w js cfg tok s =
     (if tok = '''' then (Inl (OtherErr ''empty token_id''), s)
      else case getJSON w (pc_ClobURL cfg @ ''/book?token_id='' @ query_escape tok) s of
        (Inl e, s) \<Rightarrow> (Inl e, s)
      | (Inr body, s) \<Rightarrow>
         (case js_book js body of
            Inl e \<Rightarrow> (Inl e, s)
          | Inr raw \<Rightarrow>
              let bids = parseBookLevels (cb_Bids raw); asks = parseBookLevels (cb_Asks raw);
                  mid = book_mid bids asks (cb_Mid raw)
              in if feq mid 0 then
                   (let ((m, _), s) = pm_GetMidPrice w js cfg tok s
                    in (Inr \<lparr>ob_TokenID = tok, ob_Bids = bids, ob_Asks = asks, ob_Mid = m\<rparr>, s))
                 else (Inr \<lparr>ob_TokenID = tok, ob_Bids = bids, ob_Asks = asks, ob_Mid = mid\<rparr>, s)))"

definition GetBookMeta :: "'s web \<Rightarrow> json \<Rightarrow> pm_config \<Rightarrow> gostring \<Rightarrow> ('s, book_meta) call" where
  "GetBookMeta w js cfg tok s =
     (case getJSON w (pc_ClobURL cfg @ ''/book?token_id='' @ query_escape tok) s of
        (Inl e, s) \<Rightarrow> (Inl e, s)
      | (Inr body, s) \<Rightarrow> (js_meta js body, s))"

definition roundToTick :: "f64 \<Rightarrow> f64 \<Rightarrow> f64" where
  "roundToTick price tick = (if tick \<le> 0 then price else fround (price / tick) * tick)"

section \<open>Data API: holdings\<close>

fun sum_values :: "f64 \<Rightarrow> f64 list \<Rightarrow> f64" where
  "sum_values acc [] = acc"
| "sum_values acc (v # vs) = sum_values (acc + v) vs"

definition row_price :: "data_position \<Rightarrow> f64" where
  "row_price r = (if dp_CurPrice r \<le> 0 then dp_AvgPrice r else dp_CurPrice r)"

fun notional_of :: "f64 \<Rightarrow> data_position list \<Rightarrow> f64" where
  "notional_of acc [] = acc"
| "notional_of acc (r # rs) =
     (if dp_Size r \<le> 0 \<or> row_price r \<le> 0 then notional_of acc rs
      else notional_of (acc + dp_Size r * row_price r) rs)"

definition positions_url :: "pm_config \<Rightarrow> gostring \<Rightarrow> gostring" where
  "positions_url cfg user = pc_DataURL cfg @ ''/positions?user='' @ query_escape user"

definition positionNotional :: "'s web \<Rightarrow> json \<Rightarrow> pm_config \<Rightarrow> gostring \<Rightarrow> 's \<Rightarrow> f64 \<times> 's" where
  "positionNotional w js cfg user s =
     (case getJSON w (positions_url cfg user) s of
        (Inl _, s) \<Rightarrow> (0, s)
      | (Inr body, s) \<Rightarrow> (case js_positions js body of Inl _ \<Rightarrow> (0, s) | Inr rows \<Rightarrow> (notional_of 0 rows, s)))"

text \<open>The value endpoint answers with an array or with one object.\<close>

definition decode_equity :: "json \<Rightarrow> gostring \<Rightarrow> perr + f64" where
  "decode_equity js body =
     (case js_values js body of
        Inr vs \<Rightarrow> Inr (sum_values 0 vs)
      | Inl e \<Rightarrow> (case js_value js body of Inl _ \<Rightarrow> Inl e | Inr v \<Rightarrow> Inr v))"

definition pm_GetCollateral :: "'s web \<Rightarrow> json \<Rightarrow> 'k crypto \<Rightarrow> pm_config \<Rightarrow> ('s, f64 \<times> f64) call" where
  "pm_GetCollateral w js cr cfg s =
     (case funderHex cr cfg of
        Inl e \<Rightarrow> (Inl e, s)
      | Inr user \<Rightarrow>
         (case getJSON w (pc_DataURL cfg @ ''/value?user='' @ query_escape user) s of
            (Inl e, s) \<Rightarrow> (Inl e, s)
          | (Inr body, s) \<Rightarrow>
             (case decode_equity js body of
                Inl e \<Rightarrow> (Inl e, s)
              | Inr equity \<Rightarrow>
                  let (pv, s) = positionNotional w js cfg user s;
                      avail = equity - pv
                  in (Inr (if avail < 0 then 0 else avail, equity), s))))"

definition outcome_label :: "gostring \<Rightarrow> gostring" where
  "outcome_label raw = (let oc = to_upper (trim_space raw) in if oc = '''' then ''YES'' else oc)"

fun positions_of :: "'s web \<Rightarrow> json \<Rightarrow> pm_config \<Rightarrow> data_position list \<Rightarrow> 's \<Rightarrow> outcome_position list \<times> 's" where
  "positions_of w js cfg [] s = ([], s)"
| "positions_of w js cfg (r # rs) s =
     (if dp_Size r \<le> 0 then positions_of w js cfg rs s
      else
        let (mid, s) = (if feq (dp_CurPrice r) 0 \<and> dp_Asset r \<noteq> ''''
                        then (let ((m, _), s) = pm_GetMidPrice w js cfg (dp_Asset r) s in (m, s))
                        else (dp_CurPrice r, s));
            (ps, s) = positions_of w js cfg rs s
        in (\<lparr>op_TokenID = dp_Asset r, op_MarketSlug = dp_Slug r, op_Outcome = outcome_label (dp_Outcome r),
             op_Shares = dp_Size r, op_AvgCost = dp_AvgPrice r, op_MidPrice = mid\<rparr> # ps, s))"

definition pm_GetOutcomePositions :: "'s web \<Rightarrow> json \<Rightarrow> 'k crypto \<Rightarrow> pm_config \<Rightarrow> ('s, outcome_position list) call" where
  "pm_GetOutcomePositions w js cr cfg s =
     (case funderHex cr cfg of
        Inl e \<Rightarrow> (Inl e, s)
      | Inr user \<Rightarrow>
         (case getJSON w (positions_url cfg user) s of
            (Inl e, s) \<Rightarrow> (Inl e, s)
          | (Inr body, s) \<Rightarrow>
             (case js_positions js body of
                Inl e \<Rightarrow> (Inl e, s)
              | Inr rows \<Rightarrow> map_prod Inr id (positions_of w js cfg rows s))))"

end
