(* ===== verification/PM_Orders.thy ===== *)
theory PM_Orders
  imports PM_Market
begin

text \<open>
  \<open>prediction/polymarket/clob_auth.go\<close> and \<open>clob_orders.go\<close>: the authenticated side of the live
  client.  API credentials are derived (or created) with a wallet signature on first use and kept
  in the client; orders are rounded to the tick, converted to integer amounts, signed and, outside
  preview mode, posted.

  The client's one mutable field is \<open>creds\<close>; the state of these operations is the pair of it and
  the world.
\<close>

section \<open>Credentials\<close>

record api_credentials =
  ac_APIKey :: gostring
  ac_Secret :: gostring
  ac_Passphrase :: gostring

record order_wire =
  ow_Salt :: gostring
  ow_Maker :: gostring
  ow_Signer :: gostring
  ow_TokenID :: gostring
  ow_MakerAmount :: gostring
  ow_TakerAmount :: gostring
  ow_Side :: gostring
  ow_SignatureType :: int
  ow_Timestamp :: gostring
  ow_Metadata :: gostring
  ow_Builder :: gostring
  ow_Signature :: gostring

record post_order_body =
  pb_OrderType :: gostring
  pb_DeferExec :: bool
  pb_Owner :: gostring
  pb_Order :: order_wire

record order_row =
  rw_ID :: gostring
  rw_Status :: gostring
  rw_AssetID :: gostring
  rw_Market :: gostring
  rw_Side :: gostring
  rw_Price :: gostring
  rw_OriginalSize :: gostring
  rw_SizeMatched :: gostring
  rw_CreatedAt :: gostring

record post_order_resp =
  pr_OrderID :: gostring
  pr_Status :: gostring
  pr_Error :: gostring

text \<open>The encoders and decoders of this side; \<open>oj_row\<close> is a single order.\<close>

record order_json =
  oj_creds :: "gostring \<Rightarrow> perr + api_credentials"
  oj_wire :: "order_wire \<Rightarrow> gostring"
  oj_body :: "post_order_body \<Rightarrow> perr + gostring"
  oj_resp :: "gostring \<Rightarrow> perr + post_order_resp"
  oj_row :: "gostring \<Rightarrow> perr + order_row"
  oj_rows :: "gostring \<Rightarrow> perr + order_row list"

type_synonym 's client = "api_credentials option \<times> 's"

definition unix_text :: "int \<Rightarrow> gostring" where
  "unix_text ns = itoa (ns div 1000000000)"

definition l1Headers :: "gostring \<Rightarrow> gostring \<Rightarrow> nat \<Rightarrow> gostring \<Rightarrow> (gostring \<times> gostring) list" where
  "l1Headers addr timestamp nonce sig =
     [(''POLY_ADDRESS'', addr), (''POLY_SIGNATURE'', sig), (''POLY_TIMESTAMP'', timestamp),
      (''POLY_NONCE'', nat_digits nonce)]"

definition l1AuthHeaders :: "'k crypto \<Rightarrow> pm_config \<Rightarrow> 'k wallet \<Rightarrow> int \<Rightarrow> perr + (gostring \<times> gostring) list" where
  "l1AuthHeaders cr cfg wal now =
     (case signClobAuth cr wal (pc_ChainID cfg) (unix_text now) 0 of
        Inl e \<Rightarrow> Inl e
      | Inr sig \<Rightarrow> Inr (l1Headers (cr_Hex cr (wl_address wal)) (unix_text now) 0 sig))"

text \<open>These requests go out without the telemetry of the two HTTP helpers.\<close>

definition auth_request :: "gostring \<Rightarrow> gostring \<Rightarrow> (gostring \<times> gostring) list \<Rightarrow> http_request" where
  "auth_request method u headers = \<lparr>hq_Method = method, hq_URL = u, hq_Headers = headers, hq_Body = ''''\<rparr>"

definition decode_creds :: "order_json \<Rightarrow> perr + gostring \<Rightarrow> perr + api_credentials" where
  "decode_creds oj body = (case body of Inl e \<Rightarrow> Inl e | Inr b \<Rightarrow> oj_creds oj b)"

definition createAPIKey ::
  "'s web \<Rightarrow> order_json \<Rightarrow> 'k crypto \<Rightarrow> pm_config \<Rightarrow> 'k wallet \<Rightarrow> ('s, api_credentials) call" where
  "createAPIKey w oj cr cfg wal s =
     (case l1AuthHeaders cr cfg wal (wb_now w s) of
        Inl e \<Rightarrow> (Inl e, s)
      | Inr headers \<Rightarrow>
          let u = pc_ClobURL cfg @ ''/auth/api-key'' in
          (case wb_NewRequest w ''POST'' u of
             Some e \<Rightarrow> (Inl e, s)
           | None \<Rightarrow>
              (case wb_Do w s (auth_request ''POST'' u headers) of
                 (NoResponse e, s) \<Rightarrow> (Inl e, s)
               | (Response st body, s) \<Rightarrow>
                   if st \<ge> 400 then (Inl (OtherErr (''create api key: HTTP '' @ itoa st)), s)
                   else (decode_creds oj body, s))))"

definition deriveOrCreateAPIKey ::
  "'s web \<Rightarrow> order_json \<Rightarrow> 'k crypto \<Rightarrow> pm_config \<Rightarrow> ('s, api_credentials) call" where
  "deriveOrCreateAPIKey w oj cr cfg s =
     (case loadWallet cr (pc_PrivateKey cfg) of
        Inl e \<Rightarrow> (Inl e, s)
      | Inr wal \<Rightarrow>
         (case l1AuthHeaders cr cfg wal (wb_now w s) of
            Inl e \<Rightarrow> (Inl e, s)
          | Inr headers \<Rightarrow>
              let u = pc_ClobURL cfg @ ''/auth/derive-api-key?nonce=0'' in
              (case wb_NewRequest w ''GET'' u of
                 Some e \<Rightarrow> (Inl e, s)
               | None \<Rightarrow>
                  (case wb_Do w s (auth_request ''GET'' u headers) of
                     (NoResponse e, s) \<Rightarrow> (Inl e, s)
                   | (Response st body, s) \<Rightarrow>
                       if st < 400 then
                         (case decode_creds oj body of
                            Inl e \<Rightarrow> (Inl e, s)
                          | Inr c \<Rightarrow> if ac_APIKey c \<noteq> '''' then (Inr c, s) else createAPIKey w oj cr cfg wal s)
                       else createAPIKey w oj cr cfg wal s))))"

definition ensureCredentials ::
  "'s web \<Rightarrow> order_json \<Rightarrow> 'k crypto \<Rightarrow> pm_config \<Rightarrow> ('s client, api_credentials) call" where
  "ensureCredentials w oj cr cfg c =
     (case c of
        (Some creds, s) \<Rightarrow> (Inr creds, c)
      | (None, s) \<Rightarrow>
          if pc_PrivateKey cfg = ''''
          then (Inl (OtherErr ''polymarket: private key required for authenticated CLOB''), c)
          else (case deriveOrCreateAPIKey w oj cr cfg s of
                  (Inl e, s) \<Rightarrow> (Inl e, (None, s))
                | (Inr creds, s) \<Rightarrow> (Inr creds, (Some creds, s))))"

text \<open>Text as bytes; the secret is URL-safe base 64, or standard when that does not decode.\<close>

definition text_bytes :: "gostring \<Rightarrow> bytes" where
  "text_bytes = map (\<lambda>c. of_nat (of_char c))"

definition buildL2Signature ::
  "'k crypto \<Rightarrow> gostring \<Rightarrow> gostring \<Rightarrow> gostring \<Rightarrow> gostring \<Rightarrow> gostring \<Rightarrow> gostring" where
  "buildL2Signature cr secretB64 timestamp method path body =
     (let (url, ok) = b64_decode True secretB64;
          secret = (if ok then url else fst (b64_decode False secretB64))
      in b64_encode True (cr_HMAC cr secret (text_bytes (timestamp @ method @ path @ body))))"

definition l2Headers ::
  "'k crypto \<Rightarrow> address \<Rightarrow> api_credentials \<Rightarrow> gostring \<Rightarrow> gostring \<Rightarrow> gostring \<Rightarrow> gostring \<Rightarrow> (gostring \<times> gostring) list" where
  "l2Headers cr addr creds ts method path body =
     [(''POLY_ADDRESS'', cr_Hex cr addr), (''POLY_SIGNATURE'', buildL2Signature cr (ac_Secret creds) ts method path body),
      (''POLY_TIMESTAMP'', ts), (''POLY_API_KEY'', ac_APIKey creds), (''POLY_PASSPHRASE'', ac_Passphrase creds)]"

definition applyL2Headers ::
  "'s web \<Rightarrow> order_json \<Rightarrow> 'k crypto \<Rightarrow> pm_config \<Rightarrow> gostring \<Rightarrow> gostring \<Rightarrow> gostring \<Rightarrow>
   ('s client, (gostring \<times> gostring) list) call" where
  "applyL2Headers w oj cr cfg method path body c =
     (case ensureCredentials w oj cr cfg c of
        (Inl e, c) \<Rightarrow> (Inl e, c)
      | (Inr creds, c) \<Rightarrow>
         (case signerAddress cr cfg of
            Inl e \<Rightarrow> (Inl e, c)
          | Inr addr \<Rightarrow> (Inr (l2Headers cr addr creds (unix_text (wb_now w (snd c))) method path body), c)))"

text \<open>Every caller asks for the authenticated form.\<close>

definition doRequest ::
  "'s web \<Rightarrow> order_json \<Rightarrow> 'k crypto \<Rightarrow> pm_config \<Rightarrow> gostring \<Rightarrow> gostring \<Rightarrow> gostring \<Rightarrow> ('s client, gostring) call" where
  "doRequest w oj cr cfg method path body c =
     (let u = pc_ClobURL cfg @ path in
      case wb_NewRequest w method u of
        Some e \<Rightarrow> (Inl e, c)
      | None \<Rightarrow>
         (case applyL2Headers w oj cr cfg method path body c of
            (Inl e, c) \<Rightarrow> (Inl e, c)
          | (Inr headers, (creds, s)) \<Rightarrow>
              let (ans, s) = http_call w ''clob'' 300
                \<lparr>hq_Method = method, hq_URL = u,
                 hq_Headers = [(''User-Agent'', ''nofx-prediction/0.2''), (''Content-Type'', ''application/json'')] @ headers,
                 hq_Body = body\<rparr> s
              in (ans, (creds, s))))"

section \<open>Orders\<close>

definition zeroBytes32 :: gostring where
  "zeroBytes32 = ''0x'' @ replicate 64 CHR ''0''"

text \<open>The salt: eight random bytes, or the error of the random source.\<close>

definition randomOrderSalt :: "perr + bytes \<Rightarrow> perr + nat" where
  "randomOrderSalt rnd8 = map_sum id be_value rnd8"

definition order_maker :: "'k crypto \<Rightarrow> pm_config \<Rightarrow> address \<Rightarrow> address" where
  "order_maker cr cfg signer =
     (if pc_ProxyAddress cfg \<noteq> '''' then cr_HexToAddress cr (pc_ProxyAddress cfg) else makerAddress cr cfg signer)"

text \<open>The order that is signed, and its wire form, from rounded price and amounts.\<close>

definition order_to_sign ::
  "'k crypto \<Rightarrow> pm_config \<Rightarrow> address \<Rightarrow> int \<Rightarrow> nat \<Rightarrow> int \<Rightarrow> big \<times> big \<times> nat \<Rightarrow> signed_order" where
  "order_to_sign cr cfg signer tokenID salt tsMs amounts =
     (let (maker, taker, side) = amounts in
      \<lparr>sg_Salt = int salt, sg_Maker = order_maker cr cfg signer, sg_Signer = signer, sg_TokenID = tokenID,
       sg_MakerAmount = big_value maker, sg_TakerAmount = big_value taker, sg_Side = side,
       sg_SignatureType = of_int (SignatureTypeForOrder cfg), sg_Timestamp = tsMs,
       sg_Metadata = replicate 32 0, sg_Builder = replicate 32 0\<rparr>)"

definition wire_of :: "'k crypto \<Rightarrow> pm_config \<Rightarrow> gostring \<Rightarrow> signed_order \<Rightarrow> gostring \<Rightarrow> order_wire" where
  "wire_of cr cfg tokenID ord sig =
     \<lparr>ow_Salt = itoa (sg_Salt ord), ow_Maker = cr_Hex cr (sg_Maker ord), ow_Signer = cr_Hex cr (sg_Signer ord),
      ow_TokenID = tokenID, ow_MakerAmount = big_text (sg_MakerAmount ord), ow_TakerAmount = big_text (sg_TakerAmount ord),
      ow_Side = (if sg_Side ord = 1 then ''SELL'' else ''BUY''), ow_SignatureType = SignatureTypeForOrder cfg,
      ow_Timestamp = itoa (sg_Timestamp ord), ow_Metadata = zeroBytes32, ow_Builder = zeroBytes32, ow_Signature = sig\<rparr>"

definition post_order ::
  "'s web \<Rightarrow> order_json \<Rightarrow> 'k crypto \<Rightarrow> pm_config \<Rightarrow> order_wire \<Rightarrow> ('s client, order_result option) call" where
  "post_order w oj cr cfg wire c =
     (case ensureCredentials w oj cr cfg c of
        (Inl e, c) \<Rightarrow> (Inl e, c)
      | (Inr creds, c) \<Rightarrow>
         (case oj_body oj \<lparr>pb_OrderType = ''GTC'', pb_DeferExec = False, pb_Owner = ac_APIKey creds, pb_Order = wire\<rparr> of
            Inl e \<Rightarrow> (Inl e, c)
          | Inr body \<Rightarrow>
             (case doRequest w oj cr cfg ''POST'' ''/order'' body c of
                (Inl e, c) \<Rightarrow> (Inl e, c)
              | (Inr resp, c) \<Rightarrow>
                 (case oj_resp oj resp of
                    Inl e \<Rightarrow> (Inl e, c)
                  | Inr r \<Rightarrow>
                      (Inr (Some (empty_order_result\<lparr>or_OrderID := pr_OrderID r, or_Status := pr_Status r,
                         or_Error := (if pr_Error r = '''' then None else Some (OtherErr (pr_Error r)))\<rparr>)), c)))))"

definition preview_result :: "order_json \<Rightarrow> order_wire \<Rightarrow> int \<Rightarrow> order_result" where
  "preview_result oj wire tsMs = empty_order_result\<lparr>or_Status := ''preview'',
     or_OrderID := ''preview-'' @ itoa tsMs, or_PreviewWire := oj_wire oj wire\<rparr>"

text \<open>Rounded price and amounts of a request, for the tick size of the book.\<close>

definition order_amounts :: "limit_order_req \<Rightarrow> gostring \<Rightarrow> big \<times> big \<times> nat" where
  "order_amounts req tickSize =
     buildOrderAmounts (lr_Side req) (roundToTick (lr_Price req) (fst (parse_float tickSize))) (lr_Size req)"

definition sign_and_send ::
  "'s web \<Rightarrow> order_json \<Rightarrow> 'k crypto \<Rightarrow> pm_config \<Rightarrow> perr + bytes \<Rightarrow> limit_order_req \<Rightarrow> int \<Rightarrow> 'k wallet \<Rightarrow> book_meta \<Rightarrow>
   ('s client, order_result option) call" where
  "sign_and_send w oj cr cfg rnd8 req tokenID wal bm c =
     (let amounts = order_amounts req (bm_TickSize bm) in
      if fst amounts = BigPanic \<or> fst (snd amounts) = BigPanic then (Inl (Panic ''NewFloat(NaN)''), c)
      else case randomOrderSalt rnd8 of
        Inl e \<Rightarrow> (Inl (WrapErr ''order salt'' e), c)
      | Inr salt \<Rightarrow>
          let tsMs = wb_now w (snd c) div 1000000;
              ord = order_to_sign cr cfg (wl_address wal) tokenID salt tsMs amounts
          in (case signOrderV2 cr wal (pc_ChainID cfg) (lr_NegRisk req \<or> bm_NegRisk bm) ord of
                Inl e \<Rightarrow> (Inl (WrapErr ''sign order'' e), c)
              | Inr sig \<Rightarrow>
                  let wire = wire_of cr cfg (lr_TokenID req) ord sig in
                  if pc_PreviewMode cfg then (Inr (Some (preview_result oj wire tsMs)), c)
                  else post_order w oj cr cfg wire c))"

definition pm_PlaceLimitOrder ::
  "'s web \<Rightarrow> json \<Rightarrow> order_json \<Rightarrow> 'k crypto \<Rightarrow> pm_config \<Rightarrow> perr + bytes \<Rightarrow> limit_order_req \<Rightarrow>
   ('s client, order_result option) call" where
  "pm_PlaceLimitOrder w js oj cr cfg rnd8 req c =
     (if lr_TokenID req = '''' then (Inl (VenueErr EmptyTokenID), c)
      else if lr_Price req \<le> 0 \<or> lr_Size req \<le> 0 then (Inl (VenueErr InvalidOrder), c)
      else if pc_PrivateKey cfg = '''' then (Inl (OtherErr ''polymarket: private key required to place orders''), c)
      else case big_int_of (lr_TokenID req) of
        None \<Rightarrow> (Inl (OtherErr (''invalid token_id: '' @ lr_TokenID req)), c)
      | Some tokenID \<Rightarrow>
         (case loadWallet cr (pc_PrivateKey cfg) of
            Inl e \<Rightarrow> (Inl e, c)
          | Inr wal \<Rightarrow>
             (case GetBookMeta w js cfg (lr_TokenID req) (snd c) of
                (Inl e, s) \<Rightarrow> (Inl e, (fst c, s))
              | (Inr bm, s) \<Rightarrow> sign_and_send w oj cr cfg rnd8 req tokenID wal bm (fst c, s))))"

definition pm_CancelOrder :: "'s web \<Rightarrow> order_json \<Rightarrow> 'k crypto \<Rightarrow> pm_config \<Rightarrow> gostring \<Rightarrow> ('s client, unit) call" where
  "pm_CancelOrder w oj cr cfg oid c =
     (if oid = '''' then (Inl (VenueErr EmptyOrderID), c)
      else if has_prefix oid ''preview-'' \<or> pc_PreviewMode cfg then (Inr (), c)
      else case doRequest w oj cr cfg ''DELETE'' (''/order/'' @ oid) '''' c of
        (Inl e, c) \<Rightarrow> (Inl e, c) | (Inr _, c) \<Rightarrow> (Inr (), c))"

definition clob_terminal :: "gostring \<Rightarrow> bool" where
  "clob_terminal status \<longleftrightarrow> to_lower status \<in> {''matched'', ''cancelled'', ''canceled'', ''expired''}"

definition pm_GetOrderStatus ::
  "'s web \<Rightarrow> order_json \<Rightarrow> 'k crypto \<Rightarrow> pm_config \<Rightarrow> gostring \<Rightarrow> ('s client, order_status option) call" where
  "pm_GetOrderStatus w oj cr cfg oid c =
     (if oid = '''' then (Inl (VenueErr EmptyOrderID), c)
      else if has_prefix oid ''preview-'' then
        (Inr (Some \<lparr>os_OrderID = oid, os_SizeMatched = 0, os_OriginalSize = 0, os_Status = ''preview'', os_Terminal = True\<rparr>), c)
      else case doRequest w oj cr cfg ''GET'' (''/order/'' @ oid) '''' c of
        (Inl e, c) \<Rightarrow> (Inl e, c)
      | (Inr body, c) \<Rightarrow>
         (case oj_row oj body of
            Inl e \<Rightarrow> (Inl e, c)
          | Inr r \<Rightarrow>
              (Inr (Some \<lparr>os_OrderID = rw_ID r, os_SizeMatched = fst (parse_float (rw_SizeMatched r)),
                 os_OriginalSize = fst (parse_float (rw_OriginalSize r)), os_Status = rw_Status r,
                 os_Terminal = clob_terminal (rw_Status r)\<rparr>), c)))"

definition venue_order_of_row :: "order_row \<Rightarrow> venue_order" where
  "venue_order_of_row r =
     \<lparr>vo_OrderID = rw_ID r, vo_TokenID = rw_AssetID r, vo_MarketID = rw_Market r, vo_Side = rw_Side r,
      vo_Price = fst (parse_float (rw_Price r)), vo_OriginalSize = fst (parse_float (rw_OriginalSize r)),
      vo_SizeMatched = fst (parse_float (rw_SizeMatched r)), vo_Status = rw_Status r, vo_CreatedAt = rw_CreatedAt r\<rparr>"

definition pm_ListOpenOrders ::
  "'s web \<Rightarrow> order_json \<Rightarrow> 'k crypto \<Rightarrow> pm_config \<Rightarrow> ('s client, venue_order list) call" where
  "pm_ListOpenOrders w oj cr cfg c =
     (if pc_PrivateKey cfg = '''' then (Inl (OtherErr ''polymarket: private key required''), c)
      else case ensureCredentials w oj cr cfg c of
        (Inl e, c) \<Rightarrow> (Inl e, c)
      | (Inr _, c) \<Rightarrow>
         (case doRequest w oj cr cfg ''GET'' ''/data/orders'' '''' c of
            (Inl e, c) \<Rightarrow> (Inl e, c)
          | (Inr body, c) \<Rightarrow> (map_sum id (map venue_order_of_row) (oj_rows oj body), c)))"

end
