(* ===== verification/PM_Redeem.thy ===== *)
theory PM_Redeem
  imports PM_Orders
begin

text \<open>
  \<open>prediction/polymarket/redeem.go\<close>, \<open>redeem_live.go\<close> and \<open>relayer.go\<close>: what can be redeemed, and
  the two ways a redemption is carried out: through the relayer for a proxy or Safe wallet, or by
  transactions of the wallet itself.  The chain node is the record \<open>chain\<close> of its calls.
\<close>

section \<open>What can be redeemed\<close>

text \<open>One pass over the held positions; \<open>seen\<close> are the conditions already listed.\<close>

fun gamma_redeemables ::
  "'s web \<Rightarrow> json \<Rightarrow> pm_config \<Rightarrow> outcome_position list \<Rightarrow> gostring list \<Rightarrow> 's \<Rightarrow> redeemable_position list \<times> 's" where
  "gamma_redeemables w js cfg [] seen s = ([], s)"
| "gamma_redeemables w js cfg (p # ps) seen s =
     (if op_Shares p \<le> 0 \<or> op_MarketSlug p = '''' then gamma_redeemables w js cfg ps seen s
      else case pm_GetMarketBySlug w js cfg (op_MarketSlug p) s of
        (Inl _, s) \<Rightarrow> gamma_redeemables w js cfg ps seen s
      | (Inr m, s) \<Rightarrow>
          if \<not> m_Closed m \<or> m_ConditionID m = '''' \<or> m_ConditionID m \<in> set seen
          then gamma_redeemables w js cfg ps seen s
          else let (items, s) = gamma_redeemables w js cfg ps (m_ConditionID m # seen) s
            in (\<lparr>rp_ConditionID = m_ConditionID m, rp_MarketSlug = m_Slug m, rp_Outcome = op_Outcome p,
                 rp_Shares = op_Shares p, rp_NegRisk = m_NegRisk m\<rparr> # items, s))"

definition findRedeemableViaGamma ::
  "'s web \<Rightarrow> json \<Rightarrow> 'k crypto \<Rightarrow> pm_config \<Rightarrow> ('s, redeemable_position list) call" where
  "findRedeemableViaGamma w js cr cfg s =
     (case pm_GetOutcomePositions w js cr cfg s of
        (Inl e, s) \<Rightarrow> (Inl e, s)
      | (Inr ps, s) \<Rightarrow> map_prod Inr id (gamma_redeemables w js cfg ps [] s))"

text \<open>The condition and the risk flag of a data row, completed from the market if it has one.\<close>

definition row_condition ::
  "'s web \<Rightarrow> json \<Rightarrow> pm_config \<Rightarrow> data_position \<Rightarrow> 's \<Rightarrow> (gostring \<times> bool) \<times> 's" where
  "row_condition w js cfg r s =
     (let cid = trim_space (dp_ConditionID r) in
      if dp_Slug r = '''' then ((cid, False), s)
      else case pm_GetMarketBySlug w js cfg (dp_Slug r) s of
        (Inl _, s) \<Rightarrow> ((cid, False), s)
      | (Inr m, s) \<Rightarrow> ((if cid = '''' then m_ConditionID m else cid, m_NegRisk m), s))"

fun data_redeemables ::
  "'s web \<Rightarrow> json \<Rightarrow> pm_config \<Rightarrow> data_position list \<Rightarrow> gostring list \<Rightarrow> 's \<Rightarrow> redeemable_position list \<times> 's" where
  "data_redeemables w js cfg [] seen s = ([], s)"
| "data_redeemables w js cfg (r # rs) seen s =
     (if dp_Size r \<le> 0 then data_redeemables w js cfg rs seen s
      else let ((cid, negRisk), s) = row_condition w js cfg r s in
        if cid = '''' \<or> cid \<in> set seen then data_redeemables w js cfg rs seen s
        else let (items, s) = data_redeemables w js cfg rs (cid # seen) s
          in (\<lparr>rp_ConditionID = cid, rp_MarketSlug = dp_Slug r, rp_Outcome = outcome_label (dp_Outcome r),
               rp_Shares = dp_Size r, rp_NegRisk = negRisk\<rparr> # items, s))"

definition getDataRedeemablePositions ::
  "'s web \<Rightarrow> json \<Rightarrow> 'k crypto \<Rightarrow> pm_config \<Rightarrow> ('s, redeemable_position list) call" where
  "getDataRedeemablePositions w js cr cfg s =
     (case funderHex cr cfg of
        Inl e \<Rightarrow> (Inl e, s)
      | Inr user \<Rightarrow>
         (case getJSON w (positions_url cfg user @ ''&redeemable=true&sizeThreshold=0'') s of
            (Inl e, s) \<Rightarrow> (Inl e, s)
          | (Inr body, s) \<Rightarrow>
             (case js_positions js body of
                Inl e \<Rightarrow> (Inl e, s)
              | Inr rows \<Rightarrow> map_prod Inr id (data_redeemables w js cfg rows [] s))))"

definition pm_FindRedeemablePositions ::
  "'s web \<Rightarrow> json \<Rightarrow> 'k crypto \<Rightarrow> pm_config \<Rightarrow> ('s, redeemable_position list) call" where
  "pm_FindRedeemablePositions w js cr cfg s =
     (case getDataRedeemablePositions w js cr cfg s of
        (Inr (i # is), s) \<Rightarrow> (Inr (i # is), s)
      | (_, s) \<Rightarrow> findRedeemableViaGamma w js cr cfg s)"

section \<open>The relayer\<close>

record relayer_payload =
  ry_Address :: gostring
  ry_Nonce :: gostring

record relayer_submitted =
  ru_TransactionID :: gostring
  ru_State :: gostring
  ru_TransactionHash :: gostring

record relayer_tx =
  rt_State :: gostring
  rt_TransactionHash :: gostring

record relayer_json =
  rj_nonce :: "gostring \<Rightarrow> perr + gostring"
  rj_payload :: "gostring \<Rightarrow> perr + relayer_payload"
  rj_request :: "relayer_request \<Rightarrow> perr + gostring"
  rj_submitted :: "gostring \<Rightarrow> perr + relayer_submitted"
  rj_txs :: "gostring \<Rightarrow> perr + relayer_tx list"

definition buildBuilderHMAC :: "'k crypto \<Rightarrow> gostring \<Rightarrow> int \<Rightarrow> gostring \<Rightarrow> gostring \<Rightarrow> gostring \<Rightarrow> gostring" where
  "buildBuilderHMAC cr secret ts method path body =
     (let key = fst (b64_decode False secret);
          sig = b64_encode False (cr_HMAC cr key (text_bytes (itoa ts @ method @ path @ body)))
      in map (\<lambda>c. if c = CHR ''+'' then CHR ''-'' else if c = CHR ''/'' then CHR ''_'' else c) sig)"

definition builder_headers ::
  "'k crypto \<Rightarrow> pm_config \<Rightarrow> int \<Rightarrow> gostring \<Rightarrow> gostring \<Rightarrow> gostring \<Rightarrow> (gostring \<times> gostring) list" where
  "builder_headers cr cfg ts method u body =
     (let path0 = trim_prefix u (relayer_base cfg); path = (if path0 = '''' then ''/'' else path0)
      in [(''POLY_BUILDER_API_KEY'', pc_BuilderAPIKey cfg), (''POLY_BUILDER_PASSPHRASE'', pc_BuilderPassphrase cfg),
          (''POLY_BUILDER_SIGNATURE'', buildBuilderHMAC cr (pc_BuilderSecret cfg) ts method path body),
          (''POLY_BUILDER_TIMESTAMP'', itoa ts)])"

definition relayer_do ::
  "'s web \<Rightarrow> 'k crypto \<Rightarrow> pm_config \<Rightarrow> gostring \<Rightarrow> gostring \<Rightarrow> gostring \<Rightarrow> bool \<Rightarrow> ('s, gostring) call" where
  "relayer_do w cr cfg method u body authed s =
     (case wb_NewRequest w method u of
        Some e \<Rightarrow> (Inl e, s)
      | None \<Rightarrow>
          if authed \<and> \<not> hasCreds cfg then (Inl (OtherErr ''relayer: builder API credentials required''), s)
          else
            let extra = (if authed then builder_headers cr cfg (wb_now w s div 1000000000) method u body else [])
            in (case wb_Do w s \<lparr>hq_Method = method, hq_URL = u,
                  hq_Headers = [(''User-Agent'', ''nofx-prediction/0.2''), (''Content-Type'', ''application/json'')] @ extra,
                  hq_Body = body\<rparr> of
                  (NoResponse e, s) \<Rightarrow> (Inl e, s)
                | (Response st (Inl e), s) \<Rightarrow> (Inl e, s)
                | (Response st (Inr b), s) \<Rightarrow>
                    if st \<ge> 400 then (Inl (OtherErr (''relayer HTTP '' @ itoa st @ '': '' @ pm_truncate b 300)), s)
                    else (Inr b, s)))"

definition getNonce ::
  "'s web \<Rightarrow> relayer_json \<Rightarrow> 'k crypto \<Rightarrow> pm_config \<Rightarrow> gostring \<Rightarrow> gostring \<Rightarrow> ('s, gostring) call" where
  "getNonce w rj cr cfg owner txType s =
     (case relayer_do w cr cfg ''GET''
         (relayer_base cfg @ ''/nonce?address='' @ query_escape owner @ ''&type='' @ query_escape txType) '''' False s of
        (Inl e, s) \<Rightarrow> (Inl e, s)
      | (Inr body, s) \<Rightarrow>
         (case rj_nonce rj body of
            Inl e \<Rightarrow> (Inl e, s)
          | Inr n \<Rightarrow> (if n = '''' then Inl (OtherErr ''relayer: empty nonce'') else Inr n, s)))"

definition getRelayPayload ::
  "'s web \<Rightarrow> relayer_json \<Rightarrow> 'k crypto \<Rightarrow> pm_config \<Rightarrow> gostring \<Rightarrow> gostring \<Rightarrow> ('s, relayer_payload) call" where
  "getRelayPayload w rj cr cfg owner txType s =
     (case relayer_do w cr cfg ''GET''
         (relayer_base cfg @ ''/relay-payload?address='' @ query_escape owner @ ''&type='' @ query_escape txType) '''' False s of
        (Inl e, s) \<Rightarrow> (Inl e, s)
      | (Inr body, s) \<Rightarrow>
         (case rj_payload rj body of
            Inl e \<Rightarrow> (Inl e, s)
          | Inr p \<Rightarrow> (if ry_Address p = '''' \<or> ry_Nonce p = '''' then Inl (OtherErr ''relayer: invalid relay payload'')
                      else Inr p, s)))"

definition submit ::
  "'s web \<Rightarrow> relayer_json \<Rightarrow> 'k crypto \<Rightarrow> pm_config \<Rightarrow> relayer_request \<Rightarrow> ('s, relayer_submitted) call" where
  "submit w rj cr cfg req s =
     (case rj_request rj req of
        Inl e \<Rightarrow> (Inl e, s)
      | Inr payload \<Rightarrow>
         (case relayer_do w cr cfg ''POST'' (relayer_base cfg @ ''/submit'') payload True s of
            (Inl e, s) \<Rightarrow> (Inl e, s)
          | (Inr body, s) \<Rightarrow>
             (case rj_submitted rj body of
                Inl e \<Rightarrow> (Inl e, s)
              | Inr r \<Rightarrow> (if ru_TransactionID r = '''' then Inl (OtherErr ''relayer: empty transaction id'') else Inr r, s))))"

text \<open>The polls that are left; two seconds pass between polls.\<close>

fun poll_confirmed ::
  "'s web \<Rightarrow> relayer_json \<Rightarrow> 'k crypto \<Rightarrow> pm_config \<Rightarrow> gostring \<Rightarrow> nat \<Rightarrow> ('s, gostring) call" where
  "poll_confirmed w rj cr cfg txID 0 s = (Inl (OtherErr ''relayer: timeout waiting for confirmation''), s)"
| "poll_confirmed w rj cr cfg txID (Suc n) s =
     (case relayer_do w cr cfg ''GET'' (relayer_base cfg @ ''/transaction?id='' @ query_escape txID) '''' False s of
        (Inl e, s) \<Rightarrow> (Inl e, s)
      | (Inr body, s) \<Rightarrow>
         (case rj_txs rj body of
            Inl e \<Rightarrow> (Inl e, s)
          | Inr [] \<Rightarrow> poll_confirmed w rj cr cfg txID n s
          | Inr (tx # _) \<Rightarrow>
              let state = to_upper (rt_State tx) in
              if contains state ''CONFIRMED'' \<or> contains state ''MINED'' then (Inr (rt_TransactionHash tx), s)
              else if contains state ''FAILED'' then (Inl (OtherErr ''relayer transaction failed''), s)
              else poll_confirmed w rj cr cfg txID n s))"

definition waitConfirmed ::
  "'s web \<Rightarrow> relayer_json \<Rightarrow> 'k crypto \<Rightarrow> pm_config \<Rightarrow> gostring \<Rightarrow> int \<Rightarrow> ('s, gostring) call" where
  "waitConfirmed w rj cr cfg txID maxPolls s =
     poll_confirmed w rj cr cfg txID (nat (if maxPolls \<le> 0 then 60 else maxPolls)) s"

section \<open>The chain\<close>

record ('s, 'k) chain =
  ch_Dial :: "'s \<Rightarrow> gostring \<Rightarrow> perr option"
  ch_CallContract :: "'s \<Rightarrow> address \<Rightarrow> bytes \<Rightarrow> perr + bytes"
  ch_UnpackApproved :: "bytes \<Rightarrow> perr + bool list"
  ch_PendingNonce :: "'s \<Rightarrow> address \<Rightarrow> perr + nat"
  ch_SuggestGasPrice :: "'s \<Rightarrow> perr + int"
  ch_EstimateGas :: "'s \<Rightarrow> address \<Rightarrow> address \<Rightarrow> bytes \<Rightarrow> perr + nat"
  ch_SignTx :: "nat \<Rightarrow> address \<Rightarrow> nat \<Rightarrow> int \<Rightarrow> bytes \<Rightarrow> int \<Rightarrow> 'k \<Rightarrow> perr + gostring"
  ch_Send :: "'s \<Rightarrow> gostring \<Rightarrow> perr option \<times> 's"
  ch_Receipt :: "'s \<Rightarrow> gostring \<Rightarrow> (perr + bool) \<times> 's"
  ch_Wait :: "'s \<Rightarrow> perr option \<times> 's"

text \<open>A signed transaction is known by its hash; a receipt is whether the transaction failed.\<close>

definition isAdapterApproved ::
  "('s, 'k) chain \<Rightarrow> 'k crypto \<Rightarrow> pm_config \<Rightarrow> address \<Rightarrow> address \<Rightarrow> 's \<Rightarrow> perr + bool" where
  "isAdapterApproved ch cr cfg account adapter s =
     (case ch_Dial ch s (polygonRPC cfg) of
        Some e \<Rightarrow> Inl e
      | None \<Rightarrow>
         (case cr_PackIsApproved cr account adapter of
            Inl e \<Rightarrow> Inl e
          | Inr data \<Rightarrow>
             (case ch_CallContract ch s (cr_HexToAddress cr ctfAddress) data of
                Inl e \<Rightarrow> Inl e
              | Inr out \<Rightarrow>
                 (case ch_UnpackApproved ch out of
                    Inl e \<Rightarrow> Inl e | Inr [] \<Rightarrow> Inr False | Inr (v # _) \<Rightarrow> Inr v))))"

definition buildRedeemCalls ::
  "('s, 'k) chain \<Rightarrow> 'k crypto \<Rightarrow> pm_config \<Rightarrow> gostring \<Rightarrow> bool \<Rightarrow> 's \<Rightarrow> perr + chain_call list" where
  "buildRedeemCalls ch cr cfg conditionID negRisk s =
     (case buildRedeemCall cr conditionID negRisk (pc_RedeemUSDCe cfg) of
        Inl e \<Rightarrow> Inl e
      | Inr redeem \<Rightarrow>
          if pc_RedeemUSDCe cfg then Inr [redeem]
          else case funderAddr cr cfg of
            Inl e \<Rightarrow> Inl e
          | Inr funder \<Rightarrow>
             (case isAdapterApproved ch cr cfg funder (cc_To redeem) s of
                Inl e \<Rightarrow> Inl e
              | Inr True \<Rightarrow> Inr [redeem]
              | Inr False \<Rightarrow>
                 (case buildApproveCall cr (cc_To redeem) of Inl e \<Rightarrow> Inl e | Inr approve \<Rightarrow> Inr [approve, redeem])))"

definition sendEOATx ::
  "('s, 'k) chain \<Rightarrow> 'k crypto \<Rightarrow> pm_config \<Rightarrow> 'k \<Rightarrow> chain_call \<Rightarrow> ('s, gostring) call" where
  "sendEOATx ch cr cfg key call s =
     (let from_addr = cr_PubkeyToAddress cr key in
      case ch_PendingNonce ch s from_addr of
        Inl e \<Rightarrow> (Inl e, s)
      | Inr nonce \<Rightarrow>
         (case ch_SuggestGasPrice ch s of
            Inl e \<Rightarrow> (Inl e, s)
          | Inr gasPrice \<Rightarrow>
              let gasLimit = (case ch_EstimateGas ch s from_addr (cc_To call) (cc_Data call) of Inl _ \<Rightarrow> 500000 | Inr g \<Rightarrow> g) in
              (case ch_SignTx ch nonce (cc_To call) gasLimit gasPrice (cc_Data call) (pc_ChainID cfg) key of
                 Inl e \<Rightarrow> (Inl e, s)
               | Inr hash \<Rightarrow>
                  (case ch_Send ch s hash of (Some e, s) \<Rightarrow> (Inl e, s) | (None, s) \<Rightarrow> (Inr hash, s)))))"

text \<open>
  \<open>waitMined\<close> asks for the receipt until it has one; between two questions \<open>ch_Wait\<close> either lets
  two seconds pass or reports that the context is done.  \<open>None\<close> is a wait that never ends.
\<close>

partial_function (option) waitMined :: "('s, 'k) chain \<Rightarrow> gostring \<Rightarrow> 's \<Rightarrow> (perr option \<times> 's) option" where
  "waitMined ch hash s =
     (case ch_Receipt ch s hash of
        (Inr failed, s) \<Rightarrow> Some (if failed then Some (OtherErr ''transaction reverted'') else None, s)
      | (Inl _, s) \<Rightarrow>
         (case ch_Wait ch s of
            (Some e, s) \<Rightarrow> Some (Some e, s)
          | (None, s) \<Rightarrow> waitMined ch hash s))"

text \<open>The hash of the last transaction that was sent, with the error that stopped the loop.\<close>

fun send_calls ::
  "('s, 'k) chain \<Rightarrow> 'k crypto \<Rightarrow> pm_config \<Rightarrow> 'k \<Rightarrow> chain_call list \<Rightarrow> gostring \<Rightarrow> 's \<Rightarrow>
   ((gostring \<times> perr option) \<times> 's) option" where
  "send_calls ch cr cfg key [] lastHash s = Some ((lastHash, None), s)"
| "send_calls ch cr cfg key (call # calls) lastHash s =
     (case sendEOATx ch cr cfg key call s of
        (Inl e, s) \<Rightarrow> Some ((lastHash, Some e), s)
      | (Inr hash, s) \<Rightarrow>
         (case waitMined ch hash s of
            None \<Rightarrow> None
          | Some (Some e, s) \<Rightarrow> Some ((hash, Some e), s)
          | Some (None, s) \<Rightarrow> send_calls ch cr cfg key calls hash s))"

definition redeemViaEOA ::
  "('s, 'k) chain \<Rightarrow> 'k crypto \<Rightarrow> pm_config \<Rightarrow> 'k wallet \<Rightarrow> chain_call list \<Rightarrow> 's \<Rightarrow> ((gostring \<times> perr option) \<times> 's) option" where
  "redeemViaEOA ch cr cfg wal calls s =
     (case ch_Dial ch s (polygonRPC cfg) of
        Some e \<Rightarrow> Some (('''', Some e), s)
      | None \<Rightarrow> send_calls ch cr cfg (wl_privateKey wal) calls '''' s)"

definition redeem_metadata :: "gostring \<Rightarrow> gostring" where
  "redeem_metadata conditionID = ''nofx redeem '' @ conditionID"

definition redeem_via_proxy ::
  "'s web \<Rightarrow> relayer_json \<Rightarrow> 'k crypto \<Rightarrow> pm_config \<Rightarrow> 'k wallet \<Rightarrow> chain_call list \<Rightarrow> gostring \<Rightarrow> ('s, gostring) call" where
  "redeem_via_proxy w rj cr cfg wal calls conditionID s =
     (let owner = wl_address wal;
          proxy = (if trim_space (pc_ProxyAddress cfg) \<noteq> '''' then cr_HexToAddress cr (trim_space (pc_ProxyAddress cfg))
                   else deriveProxyAddress cr owner)
      in case getRelayPayload w rj cr cfg (cr_Hex cr owner) relayerTxTypeProxy s of
        (Inl e, s) \<Rightarrow> (Inl e, s)
      | (Inr p, s) \<Rightarrow>
         (case buildProxySubmitRequest cr (wl_privateKey wal) owner proxy calls (cr_HexToAddress cr (ry_Address p))
             (ry_Nonce p) (redeem_metadata conditionID) of
            Inl e \<Rightarrow> (Inl e, s)
          | Inr req \<Rightarrow>
             (case submit w rj cr cfg req s of
                (Inl e, s) \<Rightarrow> (Inl e, s)
              | (Inr r, s) \<Rightarrow> waitConfirmed w rj cr cfg (ru_TransactionID r) 60 s)))"

fun safe_calls ::
  "'s web \<Rightarrow> relayer_json \<Rightarrow> 'k crypto \<Rightarrow> pm_config \<Rightarrow> 'k wallet \<Rightarrow> address \<Rightarrow> gostring \<Rightarrow> chain_call list \<Rightarrow> gostring \<Rightarrow>
   ('s, gostring) call" where
  "safe_calls w rj cr cfg wal safe conditionID [] lastHash s = (Inr lastHash, s)"
| "safe_calls w rj cr cfg wal safe conditionID (call # calls) lastHash s =
     (case getNonce w rj cr cfg (cr_Hex cr (wl_address wal)) relayerTxTypeSafe s of
        (Inl e, s) \<Rightarrow> (Inl e, s)
      | (Inr nonce, s) \<Rightarrow>
         (case buildSafeSubmitRequest cr (wl_privateKey wal) (wl_address wal) safe call (pc_ChainID cfg) nonce
             (redeem_metadata conditionID) of
            Inl e \<Rightarrow> (Inl e, s)
          | Inr req \<Rightarrow>
             (case submit w rj cr cfg req s of
                (Inl e, s) \<Rightarrow> (Inl e, s)
              | (Inr r, s) \<Rightarrow>
                 (case waitConfirmed w rj cr cfg (ru_TransactionID r) 60 s of
                    (Inl e, s) \<Rightarrow> (Inl e, s)
                  | (Inr hash, s) \<Rightarrow> safe_calls w rj cr cfg wal safe conditionID calls hash s))))"

definition redeemViaRelayer ::
  "'s web \<Rightarrow> relayer_json \<Rightarrow> 'k crypto \<Rightarrow> pm_config \<Rightarrow> 'k wallet \<Rightarrow> chain_call list \<Rightarrow> gostring \<Rightarrow> ('s, gostring) call" where
  "redeemViaRelayer w rj cr cfg wal calls conditionID s =
     (if \<not> hasCreds cfg
      then (Inl (OtherErr ''polymarket: POLYMARKET_BUILDER_* credentials required for proxy/safe redeem''), s)
      else if pc_SignatureType cfg = 1 then redeem_via_proxy w rj cr cfg wal calls conditionID s
      else
        let safe = (if trim_space (pc_ProxyAddress cfg) \<noteq> '''' then cr_HexToAddress cr (trim_space (pc_ProxyAddress cfg))
                    else deriveSafeAddress cr (wl_address wal))
        in safe_calls w rj cr cfg wal safe conditionID calls '''' s)"

definition redeem_success :: "gostring \<Rightarrow> gostring \<Rightarrow> redeem_result" where
  "redeem_success conditionID txHash = \<lparr>rr_ConditionID = conditionID, rr_Status = ''success'', rr_TxHash = txHash\<rparr>"

text \<open>\<open>None\<close> only if a wait for a receipt never ends.\<close>

definition redeemConditionLive ::
  "'s web \<Rightarrow> relayer_json \<Rightarrow> ('s, 'k) chain \<Rightarrow> 'k crypto \<Rightarrow> pm_config \<Rightarrow> gostring \<Rightarrow> bool \<Rightarrow> 's \<Rightarrow>
   ((perr + redeem_result) \<times> 's) option" where
  "redeemConditionLive w rj ch cr cfg conditionID negRisk s =
     (case loadWallet cr (pc_PrivateKey cfg) of
        Inl e \<Rightarrow> Some (Inl e, s)
      | Inr wal \<Rightarrow>
         (case buildRedeemCalls ch cr cfg conditionID negRisk s of
            Inl e \<Rightarrow> Some (Inl e, s)
          | Inr calls \<Rightarrow>
              if needsRelayer cfg then
                (case redeemViaRelayer w rj cr cfg wal calls conditionID s of
                   (Inl e, s) \<Rightarrow> Some (Inl e, s)
                 | (Inr hash, s) \<Rightarrow> Some (Inr (redeem_success conditionID hash), s))
              else
                (case redeemViaEOA ch cr cfg wal calls s of
                   None \<Rightarrow> None
                 | Some ((_, Some e), s) \<Rightarrow> Some (Inl e, s)
                 | Some ((hash, None), s) \<Rightarrow> Some (Inr (redeem_success conditionID hash), s))))"

definition pm_RedeemCondition ::
  "'s web \<Rightarrow> relayer_json \<Rightarrow> ('s, 'k) chain \<Rightarrow> 'k crypto \<Rightarrow> pm_config \<Rightarrow> gostring \<Rightarrow> bool \<Rightarrow> 's \<Rightarrow>
   ((perr + redeem_result) \<times> 's) option" where
  "pm_RedeemCondition w rj ch cr cfg conditionID0 negRisk s =
     (let conditionID = trim_space conditionID0 in
      if conditionID = '''' then Some (Inl (VenueErr EmptyConditionID), s)
      else if pc_PreviewMode cfg
      then Some (Inr \<lparr>rr_ConditionID = conditionID, rr_Status = ''preview'', rr_TxHash = ''''\<rparr>, s)
      else if pc_PrivateKey cfg = '''' then Some (Inl (OtherErr ''polymarket: private key required for redeem''), s)
      else if \<not> liveRedeemReady cfg
      then Some (Inl (OtherErr ''polymarket: live redeem not configured''), s)
      else redeemConditionLive w rj ch cr cfg conditionID negRisk s)"

end
