(* ===== verification/PM_Ops.thy ===== *)
theory PM_Ops
  imports PM_Redeem
begin

text \<open>
  The live client as a \<open>PredictionVenue\<close>, and what its orders are: the amounts that are signed, the
  maker that is named, and that preview mode only reads.

  The reads of the interface answer without their effect on the world, which is the telemetry of
  their HTTP exchanges.  \<open>RedeemCondition\<close> waits at most as long as its context of two minutes; a
  node that never answers and a context that never ends would be the error given here.
\<close>

section \<open>The client as a venue\<close>

definition pm_ops ::
  "'s web \<Rightarrow> json \<Rightarrow> order_json \<Rightarrow> relayer_json \<Rightarrow> ('s, 'k) chain \<Rightarrow> 'k crypto \<Rightarrow> ('s \<Rightarrow> perr + bytes) \<Rightarrow> pm_config \<Rightarrow>
   's client venue_ops" where
  "pm_ops w js oj rj ch cr rand8 cfg =
     \<lparr>vn_VenueID = ''polymarket'',
      vn_GetCollateral = (\<lambda>c. fst (pm_GetCollateral w js cr cfg (snd c))),
      vn_GetOutcomePositions = (\<lambda>c. fst (pm_GetOutcomePositions w js cr cfg (snd c))),
      vn_GetMarketBySlug = (\<lambda>c slug. fst (pm_GetMarketBySlug w js cfg slug (snd c))),
      vn_SearchMarkets = (\<lambda>c f. fst (pm_SearchMarkets w js cfg f (snd c))),
      vn_GetOrderBook = (\<lambda>c tok. map_sum id Some (fst (pm_GetOrderBook w js cfg tok (snd c)))),
      vn_GetMidPrice = (\<lambda>c tok. case fst (pm_GetMidPrice w js cfg tok (snd c)) of
         (m, None) \<Rightarrow> Inr m | (_, Some e) \<Rightarrow> Inl e),
      vn_PlaceLimitOrder = (\<lambda>c req. pm_PlaceLimitOrder w js oj cr cfg (rand8 (snd c)) req c),
      vn_CancelOrder = (\<lambda>c oid. pm_CancelOrder w oj cr cfg oid c),
      vn_GetOrderStatus = (\<lambda>c oid. pm_GetOrderStatus w oj cr cfg oid c),
      vn_ListOpenOrders = (\<lambda>c. fst (pm_ListOpenOrders w oj cr cfg c)),
      vn_FindRedeemablePositions = (\<lambda>c. fst (pm_FindRedeemablePositions w js cr cfg (snd c))),
      vn_RedeemCondition = (\<lambda>(creds, s) cid negRisk.
         case pm_RedeemCondition w rj ch cr cfg cid negRisk s of
           Some (r, s') \<Rightarrow> (r, (creds, s')) | None \<Rightarrow> (Inl (OtherErr ''context deadline exceeded''), (creds, s))),
      vn_LiveRedeemReady = (\<lambda>_. liveRedeemReady cfg),
      vn_RecordEquitySnapshot = (\<lambda>c _. c)\<rparr>"

text \<open>The client never reports a fill with its answer: what filled is found out by polling.\<close>

lemma post_order_no_fill:
  "post_order w oj cr cfg wire c = (Inr (Some r), c') \<Longrightarrow> or_FilledShares r = 0 \<and> or_FilledUsd r = 0"
  by (auto simp: post_order_def empty_order_result_def split: prod.splits sum.splits)

lemma sign_and_send_no_fill:
  "sign_and_send w oj cr cfg rnd8 req tok wal bm c = (Inr (Some r), c') \<Longrightarrow> or_FilledShares r = 0 \<and> or_FilledUsd r = 0"
  by (auto simp: sign_and_send_def preview_result_def empty_order_result_def Let_def dest: post_order_no_fill
      split: if_split_asm sum.splits)

lemma pm_no_fill:
  "pm_PlaceLimitOrder w js oj cr cfg rnd8 req c = (Inr (Some r), c') \<Longrightarrow> or_FilledShares r = 0 \<and> or_FilledUsd r = 0"
  by (auto simp: pm_PlaceLimitOrder_def dest: sign_and_send_no_fill
      split: if_split_asm option.splits sum.splits prod.splits)

lemma pm_fill_venue: "fill_venue (pm_ops w js oj rj ch cr rand8 cfg)"
  by unfold_locales (auto simp: pm_ops_def dest: pm_no_fill)

section \<open>Preview mode only reads\<close>

text \<open>
  A property \<open>P\<close> of the world that GET requests and telemetry keep: what a world is like as long as
  nothing is posted, patched or deleted in it.
\<close>

definition read_only :: "'s web \<Rightarrow> ('s \<Rightarrow> bool) \<Rightarrow> bool" where
  "read_only w P \<longleftrightarrow>
     (\<forall>s req. P s \<longrightarrow> hq_Method req = ''GET'' \<longrightarrow> P (snd (wb_Do w s req))) \<and> (\<forall>s ev. P s \<longrightarrow> P (wb_Record w s ev))"

lemma getJSON_reads: "read_only w P \<Longrightarrow> P s \<Longrightarrow> P (snd (getJSON w u s))"
  by (auto simp: read_only_def getJSON_def http_call_def Let_def split: option.split prod.split)
    (metis http_request.select_convs(1) snd_conv)

lemma GetBookMeta_reads: "read_only w P \<Longrightarrow> P s \<Longrightarrow> P (snd (GetBookMeta w js cfg tok s))"
  using getJSON_reads [of w P s] by (auto simp: GetBookMeta_def split: prod.split sum.split) (metis snd_conv)+

lemma sign_and_send_preview:
  "pc_PreviewMode cfg \<Longrightarrow> snd (sign_and_send w oj cr cfg rnd8 req tok wal bm c) = c"
  by (auto simp: sign_and_send_def Let_def split: sum.split)

text \<open>
  preview mode never trades.  Placing an order in preview mode sends only GET requests, so
  every property of the world that reading keeps is kept; it leaves the client without
  credentials if it had none, and its result, if it has one, is a preview.  Cancelling in preview
  mode does nothing at all.
\<close>

lemma preview_only_reads:
  assumes "pc_PreviewMode cfg" "read_only w P" "P s"
    and "pm_PlaceLimitOrder w js oj cr cfg rnd8 req (creds, s) = (res, (creds', s'))"
  shows "P s' \<and> creds' = creds \<and> snd (pm_CancelOrder w oj cr cfg oid (creds, s)) = (creds, s) \<and>
    (case res of Inl _ \<Rightarrow> True | Inr r \<Rightarrow> map_option or_Status r = Some ''preview'')"
proof -
  have send: "fst d = creds \<and> P (snd d) \<and> (case r of Inl _ \<Rightarrow> True | Inr r \<Rightarrow> map_option or_Status r = Some ''preview'')"
    if "sign_and_send w oj cr cfg rnd8 req tok wal bm (creds, t) = (r, d)" "P t" for r d tok wal bm t
    using that assms(1) by (auto simp: sign_and_send_def preview_result_def Let_def split: sum.splits if_split_asm)
  have meta: "P t" if "GetBookMeta w js cfg tok s = (a, t)" for a t tok
    using GetBookMeta_reads [OF assms(2, 3), of js cfg tok] that by simp
  have "snd (pm_CancelOrder w oj cr cfg oid (creds, s)) = (creds, s)"
    using assms(1) by (simp add: pm_CancelOrder_def)
  then show ?thesis
    using assms(3, 4)
    by (auto simp: pm_PlaceLimitOrder_def dest!: send dest: meta
        split: if_split_asm option.split_asm sum.split_asm prod.split_asm)
qed

text \<open>A world that only remembers the requests it saw, and answers each with an empty body.\<close>

definition log_web :: "http_request list web" where
  "log_web = \<lparr>wb_NewRequest = (\<lambda>_ _. None), wb_Do = (\<lambda>s req. (Response 200 (Inr ''''), s @ [req])),
     wb_Record = (\<lambda>s _. s), wb_now = (\<lambda>_. 1700000000000000000)\<rparr>"

definition flat_json :: "gostring \<Rightarrow> json" where
  "flat_json tick = \<lparr>js_markets = (\<lambda>_. Inr []), js_strings = (\<lambda>_. ([], None)), js_mid = (\<lambda>_. Inr ''''),
     js_book = (\<lambda>_. Inr \<lparr>cb_Bids = [], cb_Asks = [], cb_Mid = ''''\<rparr>),
     js_meta = (\<lambda>_. Inr \<lparr>bm_TickSize = tick, bm_NegRisk = False\<rparr>), js_values = (\<lambda>_. Inr []),
     js_value = (\<lambda>_. Inr 0), js_positions = (\<lambda>_. Inr [])\<rparr>"

definition flat_order_json :: order_json where
  "flat_order_json = \<lparr>oj_creds = (\<lambda>_. Inr \<lparr>ac_APIKey = ''k'', ac_Secret = '''', ac_Passphrase = ''p''\<rparr>),
     oj_wire = ow_MakerAmount, oj_body = (\<lambda>_. Inr ''{}''),
     oj_resp = (\<lambda>_. Inr \<lparr>pr_OrderID = ''o1'', pr_Status = ''live'', pr_Error = ''''\<rparr>),
     oj_row = (\<lambda>_. Inl (OtherErr ''json'')), oj_rows = (\<lambda>_. Inr [])\<rparr>"

definition plain_config :: "bool \<Rightarrow> pm_config" where
  "plain_config preview = \<lparr>pc_GammaURL = ''https://g'', pc_ClobURL = ''https://clob'',
      pc_DataURL = ''https://d'', pc_ChainID = 137, pc_PrivateKey = ''abcd'',
      pc_ProxyAddress = '''', pc_SignatureType = 0, pc_PreviewMode = preview, pc_PolygonRPCURL = '''',
      pc_RelayerURL = defaultRelayerURL, pc_BuilderAPIKey = '''', pc_BuilderSecret = '''',
      pc_BuilderPassphrase = '''', pc_RedeemUSDCe = False\<rparr>"

definition buy_req :: "f64 \<Rightarrow> f64 \<Rightarrow> limit_order_req" where
  "buy_req price shares = \<lparr>lr_TokenID = ''7'', lr_Side = ''BUY'', lr_Price = price, lr_Size = shares, lr_NegRisk = False,
     lr_MarketSlug = ''m'', lr_Outcome = ''YES'', lr_CycleNumber = 1, lr_DecisionAction = ''buy_yes'', lr_Reasoning = ''''\<rparr>"

lemma log_web_read_only: "read_only log_web (\<lambda>s. \<forall>req \<in> set s. hq_Method req = ''GET'')"
  by (simp add: read_only_def log_web_def)

text \<open>An order at one dollar, so that its amounts need no rounding.\<close>

lemma rnd_million [simp]: "rnd 1000000 = 1000000"
  using rnd_of_int [of 1000000] by simp

lemma order_amounts_unit: "order_amounts (buy_req 1 1) '''' = (Big 1000000, Big 1000000, 0)"
proof -
  have "fst (parse_float '''') = 0" by code_simp
  moreover have "\<not> equal_fold ''BUY'' ''SELL''" by code_simp
  moreover have "(1 :: f64) * 1 = 1" using fl_1 by (simp add: one_f64_def)
  ultimately show ?thesis
    by (simp add: order_amounts_def buildOrderAmounts_def buy_req_def roundToTick_def shareAmount_def usdcAmount_def
        one_f64_def trunc_rat_def)
qed

lemma flat_wallet: "loadWallet flat_crypto ''abcd'' = Inr \<lparr>wl_privateKey = 4, wl_address = replicate 20 4\<rparr>"
proof -
  have "trim_prefix (trim_space ''abcd'') ''0x'' = ''abcd''" by code_simp
  then show ?thesis by (simp add: loadWallet_def flat_crypto_def)
qed

lemma flat_book: "GetBookMeta log_web (flat_json tick) (plain_config preview) ''7'' s =
  (Inr \<lparr>bm_TickSize = tick, bm_NegRisk = False\<rparr>, s @ [\<lparr>hq_Method = ''GET'', hq_URL = ''https://clob/book?token_id=7'',
     hq_Headers = [(''User-Agent'', ''nofx-prediction/0.2'')], hq_Body = ''''\<rparr>])"
proof -
  have "query_escape ''7'' = ''7''" by code_simp
  then show ?thesis
    by (simp add: GetBookMeta_def getJSON_def http_call_def http_answer_def log_web_def flat_json_def plain_config_def Let_def)
qed

lemma flat_sign: "signOrderV2 flat_crypto wal cid nr ord = Inr (''0x'' @ hex_encode (raise_v (replicate 64 9 @ [1])))"
  by (simp add: signOrderV2_def signTypedData_def sign_hash_def eip712Digest_def flat_crypto_def)

lemma preview_example:
  "\<exists>r s'. pm_PlaceLimitOrder log_web (flat_json '''') flat_order_json flat_crypto (plain_config True) (Inr [1]) (buy_req 1 1)
     (None, []) = (Inr (Some r), (None, s')) \<and> length s' = 1 \<and> or_PreviewWire r = ''1000000'' \<and> or_Status r = ''preview''"
proof -
  have key: "pc_PrivateKey (plain_config True) = ''abcd''" "pc_PreviewMode (plain_config True)"
    by (simp_all add: plain_config_def)
  have tok: "big_int_of ''7'' = Some 7" by code_simp
  have req: "lr_TokenID (buy_req 1 1) = ''7''" "\<not> (lr_Price (buy_req 1 1) \<le> 0 \<or> lr_Size (buy_req 1 1) \<le> 0)"
    by (simp_all add: buy_req_def zero_f64_def one_f64_def)
  have digits: "itoa 1000000 = ''1000000''" by (simp add: itoa_def nat_digits.simps digit_char_def) code_simp
  show ?thesis
    by (simp add: pm_PlaceLimitOrder_def req digits key tok flat_wallet flat_book sign_and_send_def order_amounts_unit flat_sign
       randomOrderSalt_def preview_result_def flat_order_json_def wire_of_def order_to_sign_def big_text_def)
qed

lemma preview_only_reads_witness:
  "\<exists>r s'. pm_PlaceLimitOrder log_web (flat_json '''') flat_order_json flat_crypto (plain_config True) (Inr [1]) (buy_req 1 1)
     (None, []) = (Inr (Some r), (None, s')) \<and> or_PreviewWire r = ''1000000'' \<and> (\<forall>req \<in> set s'. hq_Method req = ''GET'')"
proof -
  obtain r s' where ex: "pm_PlaceLimitOrder log_web (flat_json '''') flat_order_json flat_crypto (plain_config True) (Inr [1])
      (buy_req 1 1) (None, []) = (Inr (Some r), (None, s'))" "or_PreviewWire r = ''1000000''"
    using preview_example by blast
  have "pc_PreviewMode (plain_config True)" by (simp add: plain_config_def)
  then show ?thesis using preview_only_reads [OF _ log_web_read_only _ ex(1)] ex by simp
qed

section \<open>What is signed\<close>

lemma trunc_rat_err: "0 \<le> r \<Longrightarrow> of_int (trunc_rat r) \<le> r \<and> r < of_int (trunc_rat r) + 1 \<and> 0 \<le> trunc_rat r"
  by (simp add: trunc_rat_def) linarith

lemma amount_err:
  assumes "0 \<le> r" "r \<le> 1000000000"
  shows "\<bar>of_int (trunc_rat (rnd (r * 1000000))) - r * 1000000\<bar> \<le> 9 / 8 \<and> 0 \<le> trunc_rat (rnd (r * 1000000))"
proof -
  have p: "0 \<le> rnd (r * 1000000)" using assms by (simp add: rnd_nonneg)
  have "\<bar>r * 1000000\<bar> / 2 ^ 53 \<le> 1000000000 * 1000000 / 2 ^ 53" using assms by (intro divide_right_mono) auto
  then have "\<bar>rnd (r * 1000000) - r * 1000000\<bar> \<le> 1 / 8" using rnd_err_moderate [of "r * 1000000"] by simp
  then show ?thesis using trunc_rat_err [OF p] by linarith
qed

lemma fl_product:
  assumes "0 \<le> p" "0 \<le> s" "p * s \<le> 1000000000"
  shows "Fin p * Fin s = Fin (rnd (p * s))" "0 \<le> rnd (p * s)" "\<bar>rnd (p * s) - p * s\<bar> \<le> 1 / 8000000"
proof -
  have p: "0 \<le> p * s" using assms by simp
  have "\<bar>p * s\<bar> / 2 ^ 53 \<le> 1000000000 / 2 ^ 53" using assms p by (intro divide_right_mono) auto
  then show "\<bar>rnd (p * s) - p * s\<bar> \<le> 1 / 8000000" using rnd_err_moderate [of "p * s"] by simp
  have "\<bar>p * s\<bar> \<le> 2 ^ 60" using assms(3) p by simp
  then show "Fin p * Fin s = Fin (rnd (p * s))" by (simp add: fl_moderate)
  show "0 \<le> rnd (p * s)" using p by (rule rnd_nonneg)
qed

text \<open>
  the integer amounts that are signed are the order's.  Shares and dollars of an order of up to a
  thousand million reach the signature as non-negative integers of millionths, each within two
  millionths of the size asked for and of size times price rounded to the tick; a buy pays dollars
  and takes shares, a sell the other way round.
\<close>

theorem signed_amounts_exact:
  assumes "lr_Size req = Fin s" "roundToTick (lr_Price req) (fst (parse_float tick)) = Fin p"
    and "0 \<le> s" "s \<le> 999999999" "0 \<le> p" "p \<le> 1"
  shows "\<exists>shares dollars.
    order_amounts req tick =
      (if equal_fold (lr_Side req) ''SELL'' then (Big shares, Big dollars, 1) else (Big dollars, Big shares, 0)) \<and>
    0 \<le> shares \<and> 0 \<le> dollars \<and>
    \<bar>of_int shares - s * 1000000\<bar> \<le> 2 \<and> \<bar>of_int dollars - p * s * 1000000\<bar> \<le> 2"
proof -
  have ps: "0 \<le> p * s" "p * s \<le> 999999999"
    using assms mult_mono [of p 1 s 999999999] by auto
  note prod = fl_product [of p s]
  let ?a = "trunc_rat (rnd (s * 1000000))" and ?b = "trunc_rat (rnd (rnd (p * s) * 1000000))"
  have a: "\<bar>of_int ?a - s * 1000000\<bar> \<le> 9 / 8" "0 \<le> ?a" using amount_err [of s] assms by auto
  have near: "\<bar>rnd (p * s) - p * s\<bar> \<le> 1 / 8000000" using prod assms ps by simp
  then have "rnd (p * s) \<le> 1000000000" using ps by linarith
  then have b: "\<bar>of_int ?b - rnd (p * s) * 1000000\<bar> \<le> 9 / 8" "0 \<le> ?b"
    using amount_err [of "rnd (p * s)"] prod assms ps by auto
  have "\<bar>of_int ?b - p * s * 1000000\<bar> \<le> 2" using b(1) near by linarith
  moreover have "order_amounts req tick =
      (if equal_fold (lr_Side req) ''SELL'' then (Big ?a, Big ?b, 1) else (Big ?b, Big ?a, 0))"
    using assms prod(1) ps by (simp add: order_amounts_def buildOrderAmounts_def shareAmount_def usdcAmount_def)
  ultimately show ?thesis using a b(2) by (intro exI [of _ ?a] exI [of _ ?b]) auto
qed

theorem signed_amounts_exact_witness:
  "\<exists>shares dollars. order_amounts (buy_req 1 1) '''' = (Big dollars, Big shares, 0) \<and>
     \<bar>of_int shares - (1000000 :: rat)\<bar> \<le> 2 \<and> \<bar>of_int dollars - (1000000 :: rat)\<bar> \<le> 2"
proof -
  have "fst (parse_float '''') = 0" "\<not> equal_fold ''BUY'' ''SELL''" by code_simp+
  then have "lr_Size (buy_req 1 1) = Fin 1" "roundToTick (lr_Price (buy_req 1 1)) (fst (parse_float '''')) = Fin 1"
    "\<not> equal_fold (lr_Side (buy_req 1 1)) ''SELL''"
    by (simp_all add: buy_req_def one_f64_def roundToTick_def)
  with signed_amounts_exact [of "buy_req 1 1" 1 "''''" 1] show ?thesis by simp blast
qed

lemma half_away: "\<exists>n. fround (Fin x) = Fin (of_int n) \<and> \<bar>of_int n - x\<bar> \<le> 1 / 2 \<and> (0 \<le> x \<longrightarrow> 0 \<le> n)"
proof (cases "0 \<le> x")
  case True
  have "\<bar>of_int \<lfloor>x + 1 / 2\<rfloor> - x\<bar> \<le> 1 / 2 \<and> 0 \<le> \<lfloor>x + 1 / 2\<rfloor>" using True floor_correct [of "x + 1 / 2"] by linarith
  then show ?thesis using True by (intro exI [of _ "\<lfloor>x + 1 / 2\<rfloor>"]) simp
next
  case False
  have "\<bar>of_int (- \<lfloor>- x + 1 / 2\<rfloor>) - x\<bar> \<le> 1 / 2" using floor_correct [of "- x + 1 / 2"] by (simp only: of_int_minus) linarith
  then show ?thesis using False by (intro exI [of _ "- \<lfloor>- x + 1 / 2\<rfloor>"]) simp
qed

text \<open>
  rounding to the tick moves a price by at most half a tick (and 2 to the power of -50, for the
  rounding of the arithmetic).
\<close>

lemma tick_rounding_near:
  assumes "0 \<le> p" "p \<le> 1" "1 / 1000000 \<le> t" "t \<le> 1"
  shows "\<exists>q. roundToTick (Fin p) (Fin t) = Fin q \<and> 0 \<le> q \<and> \<bar>q - p\<bar> \<le> t / 2 + 1 / 2 ^ 50"
proof -
  have t: "0 < t" using assms(3) by linarith
  let ?x = "rnd (p / t)"
  have pt: "0 \<le> p / t" "p / t \<le> 1000000" using assms t by (simp_all add: pos_divide_le_eq)
  then have d: "Fin p / Fin t = Fin ?x" using t by (simp add: fl_moderate)
  have x0: "0 \<le> ?x" using pt by (simp add: rnd_nonneg)
  have ex: "\<bar>?x - p / t\<bar> * t \<le> p / 2 ^ 53 + t / 2 ^ 70"
    using mult_right_mono [OF rnd_err_moderate [of "p / t"], of t] pt(1) t assms(1) by (simp add: distrib_right abs_of_nonneg)
  then have ex': "\<bar>?x * t - p\<bar> \<le> p / 2 ^ 53 + t / 2 ^ 70"
    using t abs_mult [of "?x - p / t" t] by (simp add: left_diff_distrib)
  obtain n where n: "fround (Fin ?x) = Fin (of_int n)" "\<bar>of_int n - ?x\<bar> \<le> 1 / 2" "0 \<le> n"
    using half_away [of ?x] x0 by blast
  have en: "\<bar>of_int n * t - ?x * t\<bar> \<le> t / 2"
    using mult_right_mono [OF n(2), of t] t abs_mult [of "of_int n - ?x" t] by (simp add: left_diff_distrib)
  have nt: "\<bar>of_int n * t - p\<bar> \<le> t / 2 + p / 2 ^ 53 + t / 2 ^ 70" using ex' en by linarith
  have nt0: "0 \<le> of_int n * t" using n(3) t by simp
  have "p / 2 ^ 53 \<le> 1" "t / 2 ^ 70 \<le> 1" using assms by simp_all
  then have "of_int n * t \<le> 4" using nt assms by linarith
  then have small: "\<bar>of_int n * t\<bar> / 2 ^ 53 \<le> 4 / 2 ^ 53" "\<bar>of_int n * t\<bar> \<le> 2 ^ 60"
    using nt0 by (simp_all add: divide_right_mono mult.commute)
  have eq: "Fin (of_int n) * Fin t = Fin (rnd (of_int n * t))" using small(2) by (simp add: fl_moderate)
  have er: "\<bar>rnd (of_int n * t) - of_int n * t\<bar> \<le> 4 / 2 ^ 53 + 1 / 2 ^ 70"
    using rnd_err_moderate [of "of_int n * t"] small(1) by simp
  have "p / 2 ^ 53 \<le> 1 / 2 ^ 53" "t / 2 ^ 70 \<le> 1 / 2 ^ 70" using assms by (simp_all add: divide_right_mono)
  then have "\<bar>rnd (of_int n * t) - p\<bar> \<le> t / 2 + (1 / 2 ^ 53 + 1 / 2 ^ 70 + (4 / 2 ^ 53 + 1 / 2 ^ 70))"
    using nt er by linarith
  also have "\<dots> \<le> t / 2 + 1 / 2 ^ 50" by simp
  finally have "\<bar>rnd (of_int n * t) - p\<bar> \<le> t / 2 + 1 / 2 ^ 50" .
  then show ?thesis
    using eq d n(1) t nt0 rnd_nonneg [OF nt0] by (auto simp: roundToTick_def zero_f64_def)
qed
lemma p01: "fst (parse_float ''0.1'') = fl (1/10)"
proof -
  have "decimal_value ''0.1'' = Some (1/10)" 
    by (simp add: decimal_value_def sign_of_def exponent_of_def digit_val_def Let_def)
  moreover have "special_float ''0.1'' = None" by code_simp
  ultimately show ?thesis by (simp add: parse_float_def)
qed

lemma tick_example: "order_amounts (buy_req (fl (1 / 20)) (fl 200)) ''0.1'' = (Big 20000000, Big 200000000, 0)"
proof -
  have buy: "\<not> equal_fold ''BUY'' ''SELL''" by code_simp
  have "usdcAmount (Fin 20) = Big 20000000" "shareAmount (Fin 200) = Big 200000000"
    using rnd_of_int [of 20000000] rnd_of_int [of 200000000] by (simp_all add: usdcAmount_def shareAmount_def trunc_rat_def)
  then show ?thesis
    by (simp add: order_amounts_def p01 buy_req_def roundToTick_def buildOrderAmounts_def buy) (simp add: f64_eval)
qed

text \<open>
  the tick can cost more than the decision.  A buy of 200 shares at 5 cents is ten dollars, which
  is what the risk gate was asked about; on a book with a tick of 10 cents the order that is signed
  pays twenty.
\<close>

theorem tick_rounding_overspends:
  "lr_Price (buy_req (fl (1 / 20)) (fl 200)) * lr_Size (buy_req (fl (1 / 20)) (fl 200)) = fl 10 \<and>
   (\<exists>r s'. pm_PlaceLimitOrder log_web (flat_json ''0.1'') flat_order_json flat_crypto (plain_config True) (Inr [1])
      (buy_req (fl (1 / 20)) (fl 200)) (None, []) = (Inr (Some r), (None, s')) \<and>
    or_Error r = None \<and> or_PreviewWire r = ''20000000'')"
proof -
  have digits: "itoa 20000000 = ''20000000''" by (simp add: itoa_def nat_digits.simps digit_char_def) code_simp
  have key: "pc_PrivateKey (plain_config True) = ''abcd''" "pc_PreviewMode (plain_config True)"
    by (simp_all add: plain_config_def)
  have tok: "big_int_of ''7'' = Some 7" by code_simp
  have req: "lr_TokenID (buy_req p q) = ''7''" for p q by (simp add: buy_req_def)
  have "\<not> (lr_Price (buy_req (fl (1 / 20)) (fl 200)) \<le> 0 \<or> lr_Size (buy_req (fl (1 / 20)) (fl 200)) \<le> 0)"
    "lr_Price (buy_req (fl (1 / 20)) (fl 200)) * lr_Size (buy_req (fl (1 / 20)) (fl 200)) = fl 10"
    by (simp_all add: buy_req_def zero_f64_def) (simp_all add: f64_eval)
  then show ?thesis
    by (simp add: pm_PlaceLimitOrder_def req digits key tok flat_wallet flat_book sign_and_send_def tick_example flat_sign
       randomOrderSalt_def preview_result_def flat_order_json_def wire_of_def order_to_sign_def big_text_def empty_order_result_def)
qed

end
