(* ===== verification/PM_Correct.thy ===== *)
theory PM_Correct
  imports PM_Ops
begin

text \<open>
  What the live client guarantees beyond single orders: the maker it names, what it offers for
  redemption, that redemptions return after boundedly many requests, and that credentials stay.
\<close>

section \<open>Whose order it is\<close>

text \<open>
  a proxy address of blanks names a stranger.  With a proxy address that is not empty but blank,
  the signature type is the one of a plain wallet and \<open>makerAddress\<close> is the signer, as it should be;
  the maker of the order that is signed is what the blank text parses to.
\<close>

theorem blank_proxy_maker:
  assumes "pc_ProxyAddress cfg \<noteq> ''''" "trim_space (pc_ProxyAddress cfg) = ''''"
  shows "makerAddress cr cfg signer = signer \<and> SignatureTypeForOrder cfg = 0 \<and>
    sg_SignatureType (order_to_sign cr cfg signer tok salt ts amounts) = 0 \<and>
    sg_Maker (order_to_sign cr cfg signer tok salt ts amounts) = cr_HexToAddress cr (pc_ProxyAddress cfg)"
  using assms by (simp add: makerAddress_def SignatureTypeForOrder_def order_to_sign_def order_maker_def split: prod.split)

theorem blank_proxy_maker_witness:
  "let cfg = plain_config True\<lparr>pc_ProxyAddress := '' ''\<rparr> in
    makerAddress flat_crypto cfg [1] = [1] \<and>
    sg_Maker (order_to_sign flat_crypto cfg [1] 7 9 0 (Big 1, Big 1, 0)) = replicate 20 0"
proof -
  let ?cfg = "plain_config True\<lparr>pc_ProxyAddress := '' ''\<rparr>"
  have "pc_ProxyAddress ?cfg \<noteq> ''''" "trim_space (pc_ProxyAddress ?cfg) = ''''" by (simp, code_simp)
  from blank_proxy_maker [OF this, of flat_crypto "[1]" 7 9 0 "(Big 1, Big 1, 0)"]
  have "makerAddress flat_crypto ?cfg [1] = [1]"
    "sg_Maker (order_to_sign flat_crypto ?cfg [1] 7 9 0 (Big 1, Big 1, 0)) = cr_HexToAddress flat_crypto '' ''" by auto
  moreover have "cr_HexToAddress flat_crypto '' '' = replicate 20 0"
    by (simp add: flat_crypto_def trim_prefix_def has_prefix_def)
  ultimately show ?thesis by (simp add: Let_def)
qed

section \<open>What is redeemed, and how long it takes\<close>

definition listed_once :: "gostring list \<Rightarrow> redeemable_position list \<Rightarrow> bool" where
  "listed_once seen items \<longleftrightarrow>
     distinct (map rp_ConditionID items) \<and> (\<forall>it \<in> set items. rp_ConditionID it \<notin> set seen) \<and>
     (\<forall>it \<in> set items. rp_ConditionID it \<noteq> '''' \<and> \<not> rp_Shares it \<le> 0)"

lemma listed_once_Nil [simp]: "listed_once seen []"
  by (simp add: listed_once_def)

lemma listed_once_Cons:
  "listed_once (rp_ConditionID it # seen) items \<Longrightarrow> rp_ConditionID it \<notin> set seen \<Longrightarrow> rp_ConditionID it \<noteq> '''' \<Longrightarrow>
   \<not> rp_Shares it \<le> 0 \<Longrightarrow> listed_once seen (it # items)"
  by (auto simp: listed_once_def)

lemma gamma_redeemables_ok: "gamma_redeemables w js cfg ps seen s = (items, s') \<Longrightarrow> listed_once seen items"
proof (induction ps arbitrary: seen s items s')
  case (Cons p ps)
  then show ?case
    by (auto simp: Let_def intro!: listed_once_Cons split: if_split_asm sum.split_asm prod.split_asm)
qed simp

lemma data_redeemables_ok: "data_redeemables w js cfg rs seen s = (items, s') \<Longrightarrow> listed_once seen items"
proof (induction rs arbitrary: seen s items s')
  case (Cons r rs)
  then show ?case
    by (auto simp: Let_def intro!: listed_once_Cons split: if_split_asm prod.split_asm)
qed simp

lemma map_prod_Inr_eq [simp]: "map_prod Inr id p = (Inr x, s) \<longleftrightarrow> p = (x, s)"
  by (cases p) auto

text \<open>
  what is offered for redemption names every condition once, is never without a condition and is
  always for shares that are held, whichever of the two sources answered.
\<close>

theorem redeemables_distinct:
  assumes "pm_FindRedeemablePositions w js cr cfg s = (Inr items, s')"
  shows "distinct (map rp_ConditionID items) \<and> (\<forall>it \<in> set items. rp_ConditionID it \<noteq> '''' \<and> \<not> rp_Shares it \<le> 0)"
proof -
  consider t where "findRedeemableViaGamma w js cr cfg t = (Inr items, s')"
    | "getDataRedeemablePositions w js cr cfg s = (Inr items, s')"
    using assms by (auto simp: pm_FindRedeemablePositions_def split: prod.splits sum.splits list.splits)
  then have "listed_once [] items"
  proof cases
    case (1 t)
    then show ?thesis
      by (auto simp: findRedeemableViaGamma_def dest: gamma_redeemables_ok split: prod.split_asm sum.split_asm)
  next
    case 2
    then show ?thesis
      by (auto simp: getDataRedeemablePositions_def dest: data_redeemables_ok split: prod.split_asm sum.split_asm)
  qed
  then show ?thesis by (simp add: listed_once_def)
qed

definition twice_json :: json where
  "twice_json = flat_json ''''\<lparr>js_positions := (\<lambda>_.
     let row = \<lparr>dp_Asset = ''1'', dp_ConditionID = ''c'', dp_Size = 1, dp_AvgPrice = 1, dp_Title = '''', dp_Slug = '''',
       dp_Outcome = '''', dp_CurPrice = 1\<rparr> in Inr [row, row\<lparr>dp_Asset := ''2''\<rparr>])\<rparr>"

theorem redeemables_distinct_witness:
  "\<exists>items s'. pm_FindRedeemablePositions log_web twice_json flat_crypto (plain_config True) [] = (Inr items, s') \<and>
     length items = 1 \<and> distinct (map rp_ConditionID items)"
proof -
  have funder: "funderHex flat_crypto (plain_config True) = Inr (''0x'' @ hex_encode (replicate 20 4))"
  proof -
    have "pc_PrivateKey (plain_config True) = ''abcd''" "trim_space (pc_ProxyAddress (plain_config True)) = ''''"
      by (simp_all add: plain_config_def trim_space_def trim_by_def)
    then show ?thesis using flat_wallet by (simp add: funderHex_def signerAddress_def) (simp add: flat_crypto_def)
  qed
  have one: "\<not> (1 :: f64) \<le> 0" by (simp add: zero_f64_def one_f64_def)
  have trim: "trim_space ''c'' = ''c''" "outcome_label '''' = ''YES''" by code_simp+
  have "getDataRedeemablePositions log_web twice_json flat_crypto (plain_config True) [] =
     (Inr [\<lparr>rp_ConditionID = ''c'', rp_MarketSlug = '''', rp_Outcome = ''YES'', rp_Shares = 1, rp_NegRisk = False\<rparr>],
      snd (getDataRedeemablePositions log_web twice_json flat_crypto (plain_config True) []))"
    by (simp add: getDataRedeemablePositions_def funder getJSON_def http_call_def http_answer_def log_web_def twice_json_def
        row_condition_def one trim Let_def)
  then obtain items s' where ex: "pm_FindRedeemablePositions log_web twice_json flat_crypto (plain_config True) [] = (Inr items, s')"
      "length items = 1"
    by (metis (no_types, lifting) pm_FindRedeemablePositions_def case_prod_conv sum.simps(6) list.simps(5) length_Cons list.size(3) One_nat_def)
  show ?thesis using redeemables_distinct [OF ex(1)] ex by (intro exI [of _ items] exI [of _ s']) simp
qed

text \<open>
  What a counter of requests can do: one more with every exchange.
\<close>

definition counts_requests :: "'s web \<Rightarrow> ('s \<Rightarrow> nat) \<Rightarrow> bool" where
  "counts_requests w f \<longleftrightarrow> (\<forall>s req. f (snd (wb_Do w s req)) \<le> f s + 1)"

lemma relayer_do_count: 
  assumes "counts_requests w f" "relayer_do w cr cfg m u b a s = (r, s')"
  shows "f s' \<le> f s + 1"
proof -
  have "f t' \<le> f s + 1" if "wb_Do w s req = (x, t')" for x t' req
    using assms(1) that by (metis counts_requests_def snd_conv)
  then show ?thesis using assms(2)
    by (auto simp: relayer_do_def Let_def split: option.split_asm prod.split_asm http_result.split_asm sum.split_asm if_split_asm)
qed

lemma getNonce_count: "counts_requests w f \<Longrightarrow> getNonce w rj cr cfg owner ty s = (r, s') \<Longrightarrow> f s' \<le> f s + 1"
  by (auto simp: getNonce_def dest: relayer_do_count split: prod.split_asm sum.split_asm)

lemma getRelayPayload_count: "counts_requests w f \<Longrightarrow> getRelayPayload w rj cr cfg owner ty s = (r, s') \<Longrightarrow> f s' \<le> f s + 1"
  by (auto simp: getRelayPayload_def dest: relayer_do_count split: prod.split_asm sum.split_asm)

lemma submit_count: "counts_requests w f \<Longrightarrow> submit w rj cr cfg req s = (r, s') \<Longrightarrow> f s' \<le> f s + 1"
  by (auto simp: submit_def dest: relayer_do_count split: prod.split_asm sum.split_asm)

lemma poll_count:
  assumes c: "counts_requests w f"
  shows "poll_confirmed w rj cr cfg tx n s = (r, s') \<Longrightarrow> f s' \<le> f s + n"
proof (induction n arbitrary: s)
  case (Suc n)
  note step = relayer_do_count [OF c]
  from Suc.prems show ?case
    by (auto simp: Let_def dest!: step dest: Suc.IH split: prod.split_asm sum.split_asm list.split_asm if_split_asm)
qed simp

lemma waitConfirmed_count: "counts_requests w f \<Longrightarrow> waitConfirmed w rj cr cfg tx 60 s = (r, s') \<Longrightarrow> f s' \<le> f s + 60"
  by (auto simp: waitConfirmed_def dest: poll_count)

lemma safe_calls_count:
  assumes c: "counts_requests w f"
  shows "safe_calls w rj cr cfg wal safe cid calls h s = (r, s') \<Longrightarrow> f s' \<le> f s + 62 * length calls"
proof (induction calls arbitrary: h s)
  case (Cons call calls)
  note steps = getNonce_count [OF c] submit_count [OF c] waitConfirmed_count [OF c]
  from Cons.prems show ?case
    by (auto dest!: steps dest: Cons.IH split: prod.split_asm sum.split_asm)
qed simp

lemma buildRedeemCalls_short: "buildRedeemCalls ch cr cfg cid nr s = Inr calls \<Longrightarrow> length calls \<in> {1, 2}"
  by (auto simp: buildRedeemCalls_def split: sum.split_asm if_split_asm bool.split_asm)

text \<open>
  C39: a redemption through the relayer ends.  Whatever the relayer answers, redeeming a condition
  for a proxy or Safe wallet returns, after at most 124 requests: two calls, each with a nonce, a
  submission and sixty polls.
\<close>

theorem relayer_redeem_bounded:
  assumes "counts_requests w f" "needsRelayer cfg"
  shows "\<exists>r s'. pm_RedeemCondition w rj ch cr cfg cid nr s = Some (r, s') \<and> f s' \<le> f s + 124"
proof -
  have via: "f s' \<le> f s + 62 * length calls" if "redeemViaRelayer w rj cr cfg wal calls c s = (r, s')" "calls \<noteq> []" for wal calls c r s'
  proof -
    have "62 \<le> 62 * length calls" using that(2) by (cases calls) auto
    then show ?thesis using that(1)
      by (auto simp: redeemViaRelayer_def redeem_via_proxy_def Let_def dest!: getRelayPayload_count [OF assms(1)]
          submit_count [OF assms(1)] waitConfirmed_count [OF assms(1)] dest: safe_calls_count [OF assms(1)] split: if_split_asm prod.split_asm sum.split_asm)
  qed
  have live: "\<exists>r s'. redeemConditionLive w rj ch cr cfg c nr s = Some (r, s') \<and> f s' \<le> f s + 124" for c
  proof (cases "loadWallet cr (pc_PrivateKey cfg)"; cases "buildRedeemCalls ch cr cfg c nr s")
    fix wal calls
    assume ok: "loadWallet cr (pc_PrivateKey cfg) = Inr wal" "buildRedeemCalls ch cr cfg c nr s = Inr calls"
    obtain r s' where v: "redeemViaRelayer w rj cr cfg wal calls c s = (r, s')" by fastforce
    have "f s' \<le> f s + 124" using via [OF v] buildRedeemCalls_short [OF ok(2)] by (cases calls) auto
    then show ?thesis using ok v assms(2) by (cases r) (auto simp: redeemConditionLive_def)
  qed (auto simp: redeemConditionLive_def)
  show ?thesis using live by (auto simp: pm_RedeemCondition_def Let_def)
qed

definition silent_relayer :: relayer_json where
  "silent_relayer = \<lparr>rj_nonce = (\<lambda>_. Inr ''1''), rj_payload = (\<lambda>_. Inr \<lparr>ry_Address = ''0x'', ry_Nonce = ''1''\<rparr>),
     rj_request = (\<lambda>_. Inr ''{}''), rj_submitted = (\<lambda>_. Inr \<lparr>ru_TransactionID = ''t'', ru_State = '''', ru_TransactionHash = ''''\<rparr>),
     rj_txs = (\<lambda>_. Inr [])\<rparr>"

definition flat_chain :: "('s, nat) chain" where
  "flat_chain = \<lparr>ch_Dial = (\<lambda>_ _. None), ch_CallContract = (\<lambda>_ _ _. Inr []), ch_UnpackApproved = (\<lambda>_. Inr [False]),
     ch_PendingNonce = (\<lambda>_ _. Inr 0), ch_SuggestGasPrice = (\<lambda>_. Inr 1), ch_EstimateGas = (\<lambda>_ _ _ _. Inr 21000),
     ch_SignTx = (\<lambda>_ _ _ _ _ _ _. Inr ''0x1''), ch_Send = (\<lambda>s _. (None, s)), ch_Receipt = (\<lambda>s _. (Inr False, s)),
     ch_Wait = (\<lambda>s. (None, s))\<rparr>"

theorem relayer_redeem_bounded_witness:
  "\<exists>r s'. pm_RedeemCondition log_web silent_relayer flat_chain flat_crypto
       (plain_config False\<lparr>pc_SignatureType := 1, pc_BuilderAPIKey := ''a'', pc_BuilderSecret := ''b'', pc_BuilderPassphrase := ''c''\<rparr>)
       (hex_encode (replicate 32 7)) False [] = Some (r, s') \<and> length s' \<le> 124"
  using relayer_redeem_bounded [of log_web "length" "plain_config False\<lparr>pc_SignatureType := 1, pc_BuilderAPIKey := ''a'',
      pc_BuilderSecret := ''b'', pc_BuilderPassphrase := ''c''\<rparr>" silent_relayer flat_chain flat_crypto
      "hex_encode (replicate 32 7)" False "[]"]
  by (simp add: counts_requests_def log_web_def needsRelayer_def)

section \<open>Credentials\<close>

text \<open>What the client's operations do to its credentials: once there, they stay.\<close>

lemma ensureCredentials_keeps: "ensureCredentials w oj cr cfg (Some k, s) = (Inr k, (Some k, s))"
  by (simp add: ensureCredentials_def)

lemma doRequest_keeps: "doRequest w oj cr cfg m path body (Some k, s) = (r, c) \<Longrightarrow> fst c = Some k"
  by (auto simp: doRequest_def applyL2Headers_def ensureCredentials_keeps Let_def split: option.split_asm sum.split_asm prod.split_asm)

lemma post_order_keeps: "post_order w oj cr cfg wire (Some k, s) = (r, c) \<Longrightarrow> fst c = Some k"
  by (auto simp: post_order_def ensureCredentials_keeps dest: doRequest_keeps split: sum.split_asm prod.split_asm)

lemma sign_and_send_keeps: "sign_and_send w oj cr cfg rnd8 req tok wal bm (Some k, s) = (r, c) \<Longrightarrow> fst c = Some k"
  by (auto simp: sign_and_send_def Let_def dest: post_order_keeps split: sum.split_asm prod.split_asm if_split_asm)

lemma pm_PlaceLimitOrder_keeps: "pm_PlaceLimitOrder w js oj cr cfg rnd8 req (Some k, s) = (r, c) \<Longrightarrow> fst c = Some k"
  by (auto simp: pm_PlaceLimitOrder_def dest: sign_and_send_keeps
      split: option.split_asm sum.split_asm prod.split_asm if_split_asm)

lemma pm_CancelOrder_keeps: "pm_CancelOrder w oj cr cfg oid (Some k, s) = (r, c) \<Longrightarrow> fst c = Some k"
  by (auto simp: pm_CancelOrder_def dest: doRequest_keeps split: sum.split_asm prod.split_asm if_split_asm)

lemma pm_GetOrderStatus_keeps: "pm_GetOrderStatus w oj cr cfg oid (Some k, s) = (r, c) \<Longrightarrow> fst c = Some k"
  by (auto simp: pm_GetOrderStatus_def dest: doRequest_keeps split: sum.split_asm prod.split_asm if_split_asm)

lemma pm_ListOpenOrders_keeps: "pm_ListOpenOrders w oj cr cfg (Some k, s) = (r, c) \<Longrightarrow> fst c = Some k"
  by (auto simp: pm_ListOpenOrders_def ensureCredentials_keeps dest: doRequest_keeps
      split: sum.split_asm prod.split_asm if_split_asm)

section \<open>A redemption returns\<close>

text \<open>
  A deadline: the waits that are left before the context is done.  Sending and asking for a receipt
  do not extend it, and every wait that does not report its end uses one up.
\<close>

definition deadline :: "('s, 'k) chain \<Rightarrow> ('s \<Rightarrow> nat) \<Rightarrow> bool" where
  "deadline ch f \<longleftrightarrow>
     (\<forall>s h. f (snd (ch_Receipt ch s h)) \<le> f s) \<and> (\<forall>s h. f (snd (ch_Send ch s h)) \<le> f s) \<and>
     (\<forall>s s'. ch_Wait ch s = (None, s') \<longrightarrow> f s' < f s)"

lemma waitMined_returns: "deadline ch f \<Longrightarrow> \<exists>r s'. waitMined ch h s = Some (r, s')"
proof (induction "f s" arbitrary: s rule: less_induct)
  case less
  obtain r s1 where rc: "ch_Receipt ch s h = (r, s1)" by fastforce
  obtain e s2 where wt: "ch_Wait ch s1 = (e, s2)" by fastforce
  show ?case
  proof (cases r)
    case (Inl x)
    show ?thesis
    proof (cases e)
      case None
      have "f s2 < f s1" "f s1 \<le> f s" using less(2) rc wt None by (auto simp: deadline_def dest: spec) (metis snd_conv)
      then have "\<exists>r s'. waitMined ch h s2 = Some (r, s')" using less by simp
      then show ?thesis by (subst waitMined.simps) (simp add: rc wt Inl None)
    qed (subst waitMined.simps, simp add: rc wt Inl)
  qed (subst waitMined.simps, simp add: rc)
qed

lemma send_calls_returns:
  assumes d: "deadline ch f"
  shows "send_calls ch cr cfg key calls h s \<noteq> None"
proof (induction calls arbitrary: h s)
  case (Cons call calls)
  have w: "(waitMined ch h' t = None) = False" for h' t using waitMined_returns [OF d, of h' t] by auto
  have c: "(send_calls ch cr cfg key calls h' t = None) = False" for h' t using Cons by blast
  show ?case by (simp add: w c del: not_None_eq split: option.split sum.split prod.split)
qed simp

text \<open>
  a redemption returns.  If the context of the caller ends after finitely many waits, redeeming a
  condition yields a result or an error, through the relayer and through the wallet alike.
\<close>

theorem redeem_returns:
  assumes "deadline ch f"
  shows "\<exists>r s'. pm_RedeemCondition w rj ch cr cfg cid nr s = Some (r, s')"
proof -
  have eoa: "(redeemViaEOA ch cr cfg wal calls t = None) = False" for wal calls t
    using send_calls_returns [OF assms] by (simp add: redeemViaEOA_def split: option.split)
  have live: "redeemConditionLive w rj ch cr cfg c nr s \<noteq> None" for c
    by (simp add: redeemConditionLive_def eoa split: sum.split option.split prod.split)
  show ?thesis using live by (auto simp: pm_RedeemCondition_def Let_def)
qed

text \<open>A chain whose state is the number of waits left.\<close>

definition patient_chain :: "(nat, nat) chain" where
  "patient_chain = flat_chain\<lparr>ch_Receipt := (\<lambda>n _. (Inl (OtherErr ''not found''), n)),
     ch_Wait := (\<lambda>n. if n = 0 then (Some (OtherErr ''context deadline exceeded''), 0) else (None, n - 1))\<rparr>"

definition count_web :: "nat web" where
  "count_web = \<lparr>wb_NewRequest = (\<lambda>_ _. None), wb_Do = (\<lambda>n _. (Response 200 (Inr ''''), n)),
     wb_Record = (\<lambda>n _. n), wb_now = (\<lambda>_. 0)\<rparr>"

theorem redeem_returns_witness:
  "\<exists>r s'. pm_RedeemCondition count_web silent_relayer patient_chain flat_crypto (plain_config False)
     (hex_encode (replicate 32 7)) False 60 = Some (r, s')"
  by (rule redeem_returns [of _ id])
    (auto simp: deadline_def patient_chain_def flat_chain_def split: if_split_asm)

end
