(* ===== verification/Live_Correct.thy ===== *)
theory Live_Correct
  imports Trader_Correct PM_Correct
begin

text \<open>
  The trader on the live client: the two together.  The client keeps the contract of a venue, so
  what the trader proved of such venues holds; and a client in preview mode makes the whole cycle
  read-only.
\<close>

section \<open>Volume\<close>

lemma sync_row_keeps_gate: "t_gate (fst (sync_row env ts r)) = t_gate (fst ts)"
  by (auto simp: sync_row_def recordFillVolume_def Let_def split: prod.split sum.split option.split)

lemma sync_keeps_gate: "t_gate (fst (syncOrdersAfterCycle env ts)) = t_gate (fst ts)"
proof -
  have "t_gate (fst (foldl (sync_row env) ts rs)) = t_gate (fst ts)" for rs
    by (induction rs arbitrary: ts) (simp_all add: sync_row_keeps_gate)
  then show ?thesis
    by (auto simp: syncOrdersAfterCycle_def SyncOrderRecordsFromCLOB_def Let_def split: prod.split sum.split) (metis fst_conv)+
qed

interpretation live: fill_venue "pm_ops w js oj rj ch cr rand8 cfg" for w js oj rj ch cr rand8 cfg
  by (rule pm_fill_venue)

text \<open>
  C36: with the live client the trader and its gate count the same volume.  The gate a cycle has loaded and the trader
  agree before the first decision and after all of them, however the exchange, the chain and the store
  answer.  The synchronisation of orders after the decisions leaves the gate alone.
\<close>

theorem live_cycle_volume_consistent:
  assumes "w_venue env = pm_ops w js oj rj ch cr rand8 cfg" and "is64 (t_dailyVolume t)"
  shows "let t0 = load_gate env (t, c); (t', c') = snd (execute_all env ds (t0, c)) in
     g_dailyVolume (t_gate t0) = t_dailyVolume t \<and> t_dailyVolume t0 = t_dailyVolume t \<and>
     g_dailyVolume (t_gate t') = t_dailyVolume t' \<and> is64 (t_dailyVolume t') \<and>
     t_gate (fst (syncOrdersAfterCycle env (t', c'))) = t_gate t'"
proof -
  let ?t0 = "load_gate env (t, c)"
  have v: "same_volume ?t0" "g_dailyVolume (t_gate ?t0) = t_dailyVolume t" "t_dailyVolume ?t0 = t_dailyVolume t"
    using assms(2) by (simp_all add: load_gate_def same_volume_def SetDailyVolume_def)
  have "same_volume (fst (snd (execute_all env ds (?t0, c))))"
    using live.execute_all_same_volume [OF assms(1), of "(?t0, c)" ds] v(1) by simp
  then show ?thesis using v(2,3) sync_keeps_gate by (simp add: same_volume_def Let_def case_prod_beta)
qed

definition live_ops :: "bool \<Rightarrow> http_request list client venue_ops" where
  "live_ops preview = pm_ops log_web (flat_json '''') flat_order_json silent_relayer flat_chain flat_crypto
     (\<lambda>_. Inr [1]) (plain_config preview)"

theorem live_cycle_volume_consistent_witness:
  "let (t', c') = snd (execute_all (plain_env (live_ops False)) [ex_ai_buy] (load_gate (plain_env (live_ops False)) (ex_trader, (None, [])), (None, [])))
   in g_dailyVolume (t_gate t') = t_dailyVolume t' \<and> is64 (t_dailyVolume t')"
proof -
  have v: "w_venue (plain_env (live_ops False)) = pm_ops log_web (flat_json '''') flat_order_json silent_relayer flat_chain
      flat_crypto (\<lambda>_. Inr [1]) (plain_config False)"
    by (simp add: plain_env_def live_ops_def)
  have "is64 (t_dailyVolume ex_trader)" by (simp add: ex_trader_def)
  from live_cycle_volume_consistent [OF v this, of "(None, [])" "[ex_ai_buy]"] show ?thesis
    by (simp add: Let_def case_prod_beta del: execute_all.simps)
qed

section \<open>Preview\<close>

text \<open>What a cycle writes beside its orders leaves a property of the world alone.\<close>

definition books_keep :: "'s env \<Rightarrow> ('s \<Rightarrow> bool) \<Rightarrow> bool" where
  "books_keep env P \<longleftrightarrow>
     (\<forall>s db r. P s \<longrightarrow> P (w_SaveOrderRecord env s db r)) \<and> (\<forall>s db a. P s \<longrightarrow> P (w_SaveAuditLog env s db a)) \<and>
     (\<forall>s e. P s \<longrightarrow> P (w_Telemetry env s e)) \<and> (\<forall>s out. P s \<longrightarrow> P (w_NotifyExecution env s out)) \<and>
     (\<forall>s db r. P s \<longrightarrow> P (w_SaveDecision env s db r)) \<and> (\<forall>s e. P s \<longrightarrow> P (w_NotifyCycleFailed env s e))"

text \<open>A venue that never trades as long as \<open>P\<close> holds, which it keeps.\<close>

definition preview_venue :: "'s venue_ops \<Rightarrow> ('s \<Rightarrow> bool) \<Rightarrow> bool" where
  "preview_venue ops P \<longleftrightarrow>
     (\<forall>s req r s'. P s \<longrightarrow> vn_PlaceLimitOrder ops s req = (r, s') \<longrightarrow>
        P s' \<and> (\<forall>res. r = Inr (Some res) \<longrightarrow> or_Status res = ''preview'')) \<and>
     (\<forall>s cid nr. P s \<longrightarrow> P (snd (vn_RedeemCondition ops s cid nr)))"

lemma preview_client:
  assumes "pc_PreviewMode cfg" "read_only w P"
  shows "preview_venue (pm_ops w js oj rj ch cr rand8 cfg) (\<lambda>c. P (snd c))"
proof -
  have "snd (vn_RedeemCondition (pm_ops w js oj rj ch cr rand8 cfg) c cid nr) = c" for c cid nr
    using assms(1) by (cases c) (simp add: pm_ops_def pm_RedeemCondition_def Let_def)
  moreover have "P (snd c') \<and> (\<forall>res. r = Inr (Some res) \<longrightarrow> or_Status res = ''preview'')"
    if "P (snd c)" "pm_PlaceLimitOrder w js oj cr cfg x req c = (r, c')" for c c' x req r
    using preview_only_reads [OF assms, of "snd c" js oj cr x req "fst c" r "fst c'" "snd c'" undefined] that
    by (cases r) (auto split: option.splits)
  ultimately show ?thesis by (auto simp: preview_venue_def) (auto simp: pm_ops_def)
qed

lemma auditExecution_keeps: "books_keep env P \<Longrightarrow> P s \<Longrightarrow> P (auditExecution env t out s)"
  by (simp add: auditExecution_def books_keep_def notifyExecution_def Let_def)

lemma trade_result_preview:
  "or_Status r = ''preview'' \<Longrightarrow> trade_result env d r out ts = (res, ts') \<Longrightarrow>
   eo_Status res = ''preview'' \<and> (\<exists>out'. ts' = saveOrderRecord env d r out' ts)"
  by (auto simp: trade_result_def Let_def)

lemma saveOrderRecord_keeps:
  "books_keep env P \<Longrightarrow> P s \<Longrightarrow> saveOrderRecord env d r out (t, s) = (t', s') \<Longrightarrow> t' = t \<and> P s'"
  by (auto simp: saveOrderRecord_def books_keep_def split: if_split_asm)

lemma executeTrade_preview:
  assumes v: "preview_venue (w_venue env) P" and b: "books_keep env P" and p: "P s"
    and e: "executeTradeOutcome env d (t, s) = (out, t', s')"
  shows "P s' \<and> t' = t \<and> eo_Status out \<noteq> ''filled''"
proof -
  define nr where "nr = (case vn_GetMarketBySlug (w_venue env) s (d_MarketSlug d) of Inl _ \<Rightarrow> False | Inr m \<Rightarrow> m_NegRisk m)"
  obtain res s1 where pl: "vn_PlaceLimitOrder (w_venue env) s (order_req t nr d) = (res, s1)" by fastforce
  then have s1: "P s1" "\<And>r. res = Inr (Some r) \<Longrightarrow> or_Status r = ''preview''"
    using v p unfolding preview_venue_def by blast+
  show ?thesis
  proof (cases "\<exists>r. res = Inr (Some r) \<and> or_Error r = None \<and> \<not> (d_TokenID d = '''' \<or> d_LimitPrice d \<le> 0)")
    case True
    then obtain r where r: "res = Inr (Some r)" "or_Error r = None" "d_TokenID d \<noteq> ''''" "\<not> d_LimitPrice d \<le> 0" by blast
    have "trade_result env d r (outcome_of d) (t, s1) = (out, t', s')"
      using e r pl by (simp add: executeTradeOutcome_def Let_def nr_def [symmetric])
    from trade_result_preview [OF s1(2) [OF r(1)] this] obtain out' where
      "eo_Status out = ''preview''" "saveOrderRecord env d r out' (t, s1) = (t', s')" by auto
    then show ?thesis using saveOrderRecord_keeps [OF b s1(1)] by simp
  next
    case False
    then show ?thesis using e pl p s1(1)
      by (auto simp: executeTradeOutcome_def Let_def nr_def [symmetric] failed_def outcome_of_def
          split: if_split_asm sum.split_asm option.split_asm)
  qed
qed

lemma redeem_items_preview: "preview_venue ops P \<Longrightarrow> w_venue env = ops \<Longrightarrow> P s \<Longrightarrow> P (redeem_items env items s)"
  by (induction items arbitrary: s) (simp_all add: preview_venue_def)

lemma executeDecision_preview:
  assumes v: "preview_venue (w_venue env) P" and b: "books_keep env P" and p: "P s"
    and e: "executeDecisionWithOutcome env d (t, s) = (out, t', s')"
  shows "P s' \<and> t' = t \<and> eo_Status out \<noteq> ''filled''"
proof (cases "is_buy (d_Action d) \<or> d_Action d = ActionSell")
  case True
  then show ?thesis using e p executeTrade_preview [OF v b p]
    by (auto simp: executeDecision_trade failed_def outcome_of_def split: sum.split_asm option.split_asm)
next
  case False
  have r: "P s1" if "executeRedeem env d s = (x, s1)" for x s1
  proof -
    have "P (snd (vn_RedeemCondition (w_venue env) s cid nr))" for cid nr using v p by (simp add: preview_venue_def)
    then have one: "P s2" if "vn_RedeemCondition (w_venue env) s cid nr = (y, s2)" for cid nr y s2
      using that by (metis snd_conv)
    show ?thesis using that p redeem_items_preview [OF v refl p]
      by (auto simp: executeRedeem_def dest: one split: if_split_asm sum.split_asm prod.split_asm)
  qed
  show ?thesis using False e p
    by (cases "d_Action d") (auto simp: executeDecisionWithOutcome_def is_buy_def failed_def outcome_of_def Let_def dest: r
        split: option.split_asm prod.split_asm)
qed

lemma preview_execute_all:
  assumes "pc_PreviewMode cfg" "read_only w P"
    and "w_venue env = pm_ops w js oj rj ch cr rand8 cfg" "books_keep env (\<lambda>c. P (snd c))"
  shows "execute_all env ds (t, c) = (outs, t', c') \<Longrightarrow> P (snd c) \<Longrightarrow>
    P (snd c') \<and> t_gate t' = t_gate t \<and> t_dailyVolume t' = t_dailyVolume t \<and> t_cfg t' = t_cfg t \<and>
    (\<forall>out \<in> set outs. eo_Status out \<noteq> ''filled'')"
proof (induction ds arbitrary: t c outs)
  case (Cons d ds)
  note v = preview_client [OF assms(1,2), of js oj rj ch cr rand8, folded assms(3)]
  obtain out t1 c1 where e: "executeDecisionWithOutcome env d (controlled env c t, c) = (out, t1, c1)" by (rule prod_cases3)
  note one = executeDecision_preview [OF v assms(4) Cons.prems(2) e]
  show ?case using Cons.prems Cons.IH [of t1 "auditExecution env t1 out c1"] one e
      auditExecution_keeps [OF assms(4), of c1 t1 out]
    by (auto simp: Let_def split: if_split_asm prod.split_asm)
qed simp

text \<open>The other stages of a cycle.\<close>

lemma books_keepD:
  "books_keep env P \<Longrightarrow> P s \<Longrightarrow> P (w_Telemetry env s e)"
  "books_keep env P \<Longrightarrow> P s \<Longrightarrow> P (w_NotifyCycleFailed env s e')"
  by (simp_all add: books_keep_def)

lemma record_keeps:
  assumes "books_keep env P" "P s"
  shows "P (saveDecisionRecord env t fd e s)" "P (saveFailedCycleRecord env t fd e' s)"
    "recordCycleTelemetry env a b e (t, s) = (t', s') \<Longrightarrow> P s' \<and> t_gate t' = t_gate t \<and> t_dailyVolume t' = t_dailyVolume t"
  using assms by (auto simp: saveDecisionRecord_def saveFailedCycleRecord_def recordCycleTelemetry_def books_keep_def Let_def split: option.split)

lemma sync_volume_keeps [simp]:
  "t_gate (syncDailyVolumeFromStore env s t) = t_gate t"
  by (simp add: syncDailyVolumeFromStore_def maybeResetDailyVolumeLocal_def split: sum.split)

definition counted :: "trader \<Rightarrow> trader" where
  "counted t = t\<lparr>t_callCount := t_callCount t + 1\<rparr>"

text \<open>The volume a cycle starts with: that of the store, or the trader's own, as of today.\<close>

definition volume_at_start :: "'s env \<Rightarrow> trader \<Rightarrow> 's \<Rightarrow> f64" where
  "volume_at_start env t s =
     t_dailyVolume (syncDailyVolumeFromStore env (w_Telemetry env s (CycleStarted (t_callCount t + 1))) (counted t))"

lemma preview_finish:
  assumes preview: "pc_PreviewMode cfg" "rc_PreviewMode (g_cfg (t_gate t))"
    and w: "read_only w P" "w_venue env = pm_ops w js oj rj ch cr rand8 cfg" "books_keep env (\<lambda>c. P (snd c))"
    and P: "P (snd c)" and f: "finish_cycle env f (t, c) = (f', t3, c3)"
  shows "P (snd c3) \<and> t_gate t3 = t_gate t \<and> t_dailyVolume t3 = t_dailyVolume t \<and>
    (\<forall>out \<in> set (fd_Executions f'). eo_Status out \<noteq> ''filled'')"
proof -
  obtain outs t4 c4 where e: "execute_all env (sortDecisions (fd_Decisions f)) (t, c) = (outs, t4, c4)" by (rule prod_cases3)
  note x = preview_execute_all [OF preview(1) w e P]
  have s: "syncOrdersAfterCycle env (t4, d) = (t4, d)" for d
    using x preview(2) by (simp add: syncOrdersAfterCycle_def)
  obtain t5 c5 where r: "recordCycleTelemetry env (length (fd_Decisions f)) (length outs) None
      (t4, saveDecisionRecord env t4 (Some (f\<lparr>fd_Executions := outs\<rparr>)) None c4) = (t5, c5)" by (rule prod.exhaust)
  have "P (snd (saveDecisionRecord env t4 (Some (f\<lparr>fd_Executions := outs\<rparr>)) None c4))"
    by (rule record_keeps(1) [OF w(3)]) (use x in blast)
  from record_keeps(3) [OF w(3) this r] have "P (snd c5) \<and> t_gate t5 = t_gate t4 \<and> t_dailyVolume t5 = t_dailyVolume t4" .
  then show ?thesis using f x e r by (auto simp: finish_cycle_def s Let_def simp del: execute_all.simps)
qed

lemma preview_cycle:
  assumes preview: "pc_PreviewMode cfg" "rc_PreviewMode (g_cfg (t_gate t))"
    and w: "read_only w P" "w_venue env = pm_ops w js oj rj ch cr rand8 cfg" "books_keep env (\<lambda>c. P (snd c))"
    and P: "P (snd c)" and cycle: "runCycle env (t, c) = ((fd, err), t', c')"
  shows "P (snd c') \<and> g_cfg (t_gate t') = g_cfg (t_gate t) \<and> t_dailyVolume t' = volume_at_start env t c \<and>
    (\<forall>f. fd = Some f \<and> err = None \<longrightarrow> (\<forall>out \<in> set (fd_Executions f). eo_Status out \<noteq> ''filled''))"
proof -
  let ?Q = "\<lambda>c. P (snd c)"
  note v = preview_client [OF preview(1) w(1), of js oj rj ch cr rand8, folded w(2)]
  obtain t1 c1 where b: "begin_cycle env (t, c) = (t1, c1)" by (rule prod.exhaust)
  have "?Q (w_Telemetry env c (CycleStarted (t_callCount t + 1)))" by (rule books_keepD(1) [OF w(3) P])
  then have "?Q (tryAutoRedeem env t2 (w_Telemetry env c (CycleStarted (t_callCount t + 1))))" for t2
    using redeem_items_preview [OF v refl] by (simp add: tryAutoRedeem_def split: sum.split)
  then have 1: "?Q c1" "t_gate t1 = t_gate t" "t_dailyVolume t1 = volume_at_start env t c"
    using b by (auto simp: begin_cycle_def Let_def volume_at_start_def counted_def)
  have snap: "vn_RecordEquitySnapshot (w_venue env) c n = c" for c n by (simp add: w(2) pm_ops_def)
  let ?t2 = "load_gate env (t1, c1)"
  have 2: "g_cfg (t_gate ?t2) = g_cfg (t_gate t)" "t_dailyVolume ?t2 = t_dailyVolume t1"
    using 1(2) by (simp_all add: load_gate_def SetDailyVolume_def)
  have gate: "rc_PreviewMode (g_cfg (t_gate ?t2))" using 2 preview(2) by simp
  note fin = preview_finish [OF preview(1) gate w 1(1)]
  have failed: "?Q d \<Longrightarrow> recordCycleTelemetry env a b e (t4, d) = (t5, d') \<Longrightarrow>
      ?Q d' \<and> t_gate t5 = t_gate t4 \<and> t_dailyVolume t5 = t_dailyVolume t4" for a b e t4 t5 d d'
    by (rule record_keeps(3) [OF w(3)])
  have told: "?Q (w_NotifyCycleFailed env (saveFailedCycleRecord env t4 fd e c1) e)" for t4 fd e
    by (rule books_keepD(2) [OF w(3) record_keeps(2) [OF w(3) 1(1)]])
  obtain r t6 c6 where body: "cycle_body env (t, c) = (r, t6, c6)" by (rule prod_cases3)
  have out: "fd = fst r" "err = snd r" "t' = t6" "c' = c6" using cycle by (auto simp: runCycle_def body snap)
  show ?thesis
  proof (cases "BuildContext (w_FetchQuote env c1) (w_venue env) c1 (strat_of t1) (w_now env c1) (t_callCount t1)
      (trunc_int (duration_minutes (time_since (t_startTime t1) (w_now env c1)))) (t_recent t1)")
    case (Inl e)
    then have x: "recordCycleTelemetry env 0 0 (Some e) (t1, c1) = (t6, c6)" "r = (None, Some e)"
      using body by (simp_all add: cycle_body_def b Let_def)
    from failed [OF 1(1) x(1)] show ?thesis using 1 out x(2) by simp
  next
    case (Inr ctx)
    obtain fd' err' where d: "decide env c1 ?t2 ctx = (fd', err')" by (rule prod.exhaust)
    note body = body [unfolded cycle_body_def b Let_def prod.case Inr sum.case d]
    show ?thesis
    proof (cases err')
      case (Some e)
      then have x: "r = (fd', Some e)" "recordCycleTelemetry env (case fd' of None \<Rightarrow> 0 | Some f \<Rightarrow> length (fd_Decisions f)) 0 (Some e)
          (?t2, w_NotifyCycleFailed env (saveFailedCycleRecord env ?t2 fd' e c1) e) = (t6, c6)"
        using body by (cases fd'; simp)+
      from failed [OF told x(2)] show ?thesis using 1 2 out x(1) by simp
    next
      case None
      show ?thesis
      proof (cases fd')
        case None
        then have x: "r = (None, None)" "recordCycleTelemetry env 0 0 None (?t2, c1) = (t6, c6)"
          using body \<open>err' = None\<close> by simp_all
        from failed [OF 1(1) x(2)] show ?thesis using 1 2 out x(1) by simp
      next
        case (Some f)
        obtain f' t3 c3 where g: "finish_cycle env f (?t2, c1) = (f', t3, c3)" by (rule prod_cases3)
        then have x: "r = (Some f', None)" "t3 = t6" "c3 = c6" using body Some \<open>err' = None\<close> by simp_all
        from fin [OF g] show ?thesis using 1 2 out x by simp
      qed
    qed
  qed
qed

text \<open>
  C35: preview mode is read-only through a whole cycle.  With a client in preview mode and a gate that knows it, a
  cycle, with its redemptions, its decisions and its records, keeps whatever GET requests and the trader's own
  books keep: nothing is posted; the limits of the gate are as before, the day's volume is the one the
  cycle started with, and no outcome it records is a fill.
\<close>

theorem preview_cycle_trades_nothing:
  assumes preview: "pc_PreviewMode cfg" "rc_PreviewMode (g_cfg (t_gate t))"
    and w: "read_only w P" "w_venue env = pm_ops w js oj rj ch cr rand8 cfg" "books_keep env (\<lambda>c. P (snd c))"
    and P: "P s" and cycle: "runCycle env (t, (creds, s)) = ((fd, err), t', (creds', s'))"
  shows "P s' \<and> g_cfg (t_gate t') = g_cfg (t_gate t) \<and> t_dailyVolume t' = volume_at_start env t (creds, s) \<and>
    (\<forall>f. fd = Some f \<and> err = None \<longrightarrow> (\<forall>out \<in> set (fd_Executions f). eo_Status out \<noteq> ''filled''))"
  using preview_cycle [OF preview w _ cycle] P by simp

theorem preview_cycle_trades_nothing_witness:
  "let env = plain_env (live_ops True); (res, t', c') = runCycle env (ex_trader, (None, []))
   in (\<forall>req \<in> set (snd c'). hq_Method req = ''GET'') \<and> rc_PreviewMode (g_cfg (t_gate t'))"
proof -
  let ?env = "plain_env (live_ops True)"
  obtain fd err t' creds' s' where e: "runCycle ?env (ex_trader, (None, [])) = ((fd, err), t', (creds', s'))"
    by (metis prod.collapse)
  have b: "books_keep ?env (\<lambda>c. \<forall>req \<in> set (snd c). hq_Method req = ''GET'')"
    by (simp add: books_keep_def plain_env_def)
  have v: "w_venue ?env = pm_ops log_web (flat_json '''') flat_order_json silent_relayer flat_chain
      flat_crypto (\<lambda>_. Inr [1]) (plain_config True)"
    by (simp add: plain_env_def live_ops_def)
  have p: "pc_PreviewMode (plain_config True)" "rc_PreviewMode (g_cfg (t_gate ex_trader))"
    by (simp_all add: plain_config_def ex_trader_def NewGate_def DefaultConfig_def)
  show ?thesis
    using preview_cycle_trades_nothing [OF p log_web_read_only v b _ e] p by (simp add: e Let_def)
qed

end
