(* ===== verification/Server_Claims.thy ===== *)
theory Server_Claims
  imports Api_Correct Live_Correct
begin

text \<open>
  What the state machine of \<open>Api_Correct\<close> shows of orphaned objects, of the start of a server, of keys
  and of redaction, with a small concrete server to run it on.
\<close>

section \<open>A concrete server\<close>

text \<open>Tables of lists, one AI model, a clock at zero; every strategy that is not the default is one of rules.\<close>

definition silent_reader :: market_reader where
  "silent_reader = \<lparr>mr_GetMarketBySlug = (\<lambda>_. Inr None), mr_SearchMarkets = (\<lambda>_. Inr []),
     mr_GetOrderBook = (\<lambda>_. Inr None), mr_GetMidPrice = (\<lambda>_. Inr 0)\<rparr>"

definition silent_ops :: "unit venue_ops" where
  "silent_ops = \<lparr>vn_VenueID = '''', vn_GetCollateral = (\<lambda>_. Inr (0, 0)), vn_GetOutcomePositions = (\<lambda>_. Inr []),
     vn_GetMarketBySlug = (\<lambda>_ _. Inl not_found), vn_SearchMarkets = (\<lambda>_ _. Inr []), vn_GetOrderBook = (\<lambda>_ _. Inr None),
     vn_GetMidPrice = (\<lambda>_ _. Inr 0), vn_PlaceLimitOrder = (\<lambda>s _. (Inr None, s)), vn_CancelOrder = (\<lambda>s _. (Inr (), s)),
     vn_GetOrderStatus = (\<lambda>s _. (Inr None, s)), vn_ListOpenOrders = (\<lambda>_. Inr []), vn_FindRedeemablePositions = (\<lambda>_. Inr []),
     vn_RedeemCondition = (\<lambda>s _ _. (Inl not_found, s)), vn_LiveRedeemReady = (\<lambda>_. False), vn_RecordEquitySnapshot = (\<lambda>s _. s)\<rparr>"

definition only_model :: ai_model where
  "only_model = \<lparr>am_ID = ''m'', am_UserID = ''default'', am_Provider = ''deepseek'', am_Enabled = True, am_APIKey = ''key'',
     am_CustomAPIURL = '''', am_CustomModelName = ''''\<rparr>"

definition flat_env :: "bool \<Rightarrow> bool \<Rightarrow> (list_tables, unit) server_env" where
  "flat_env live browser = \<lparr>se_db = list_db,
     se_models = list_table (\<lambda>_. [only_model]) (\<lambda>_ d. d) (\<lambda>_. 0) am_ID (\<lambda>_ m. m),
     se_getenv = (\<lambda>_. ''''), se_security = Some (live, browser), se_now = 0, se_uuid = (\<lambda>_. ''new''),
     se_Strategy = (\<lambda>s _. (None, s\<lparr>st_Mode := ModeRules\<rparr>)), se_StrategyText = (\<lambda>_. ''rules''),
     se_SimConfig = (\<lambda>c _. (None, c)), se_SimBalance = (\<lambda>t _. t), se_HasClient = (\<lambda>_. True),
     se_reader = silent_reader, se_range = id, se_poly = (\<lambda>_. silent_ops), se_world = ()\<rparr>"

definition one_row :: "gostring \<Rightarrow> gostring \<Rightarrow> bool \<Rightarrow> trader_row" where
  "one_row mode key running = \<lparr>tr_ID = ''a'', tr_UserID = ''u'', tr_Name = ''bot'', tr_AIModelID = ''m'', tr_Venue = ''polymarket'',
     tr_PrivateKey = key, tr_ProxyAddress = '''', tr_SignatureType = 2, tr_StrategyJSON = ''rules'', tr_ScanIntervalMinutes = 5,
     tr_PreviewMode = (mode \<noteq> ''live''), tr_TradingMode = mode, tr_SimConfigJSON = ''{}'', tr_IsRunning = running,
     tr_ShowInCompetition = True, tr_CreatedAt = 0\<rparr>"

definition one_trader :: "gostring \<Rightarrow> gostring \<Rightarrow> bool \<Rightarrow> list_tables" where
  "one_trader mode key running = empty_tables\<lparr>lt_traders := [one_row mode key running]\<rparr>"

lemma list_frame:
  assumes "\<And>xs d. lt_traders (put xs d) = lt_traders d"
  shows "frame_law lt_traders (list_table get put time key fill)"
  using assms by (simp add: frame_law_def keeps_rows_def list_table_def)

lemma list_traders_ok: "traders_ok list_db lt_traders"
proof -
  have f: "created_row r (trader_defaults r)" for r
    by (auto simp: created_row_def intro!: exI [of _ "tr_CreatedAt (trader_defaults r)"])
  have tx: "keeps_rows lt_traders (pd_Transaction list_db f)" if "keeps_rows lt_traders f" for f
    using that by (auto simp: keeps_rows_def list_db_tx split: prod.split option.split) (metis snd_conv)+
  have c: "\<exists>fill. create_law (pd_traders list_db) lt_traders fill \<and> (\<forall>d r. created_row r (fill d r))"
    by (rule exI [of _ "\<lambda>_. trader_defaults"]) (simp add: f list_db_def list_table_laws)
  show ?thesis using c tx by (simp add: traders_ok_def) (simp add: list_db_def list_table_laws list_frame)
qed

lemma flat_env_ok: "traders_ok (se_db (flat_env l b)) lt_traders"
  by (simp add: flat_env_def list_traders_ok)

lemma one_trader_rows [simp]: "lt_traders (one_trader m k r) = [one_row m k r]"
  by (simp add: one_trader_def)

lemmas flat_simps = flat_env_def one_row_def list_db_def list_table_def owned_row_def

lemma one_trader_registered: "registered lt_traders (NewPredictionManager (one_trader m k r))"
  unfolding registered_def by (rule exI [of _ "\<lambda>_. ''u''"]) (simp add: owned_by_def NewPredictionManager_def one_row_def)

section \<open>The start of a server\<close>

lemma rules_mode: "st_Mode (WithDefaults (s\<lparr>st_Mode := ModeRules\<rparr>)) = ModeRules"
proof -
  have "ModeRules \<noteq> ''''" by (simp add: ModeRules_def)
  then show ?thesis by (simp add: WithDefaults_def Let_def)
qed

lemma mode_words [simp]: "trim_space ''live'' = ''live''" "trim_space ''preview'' = ''preview''" "trim_space ''simulation'' = ''simulation''"
  by code_simp+

lemma rules_trader: "st_Mode (tc_Strategy cfg) = ModeRules \<Longrightarrow> \<exists>t. NewPredictionTrader cfg b now = Inr t \<and> \<not> t_isRunning t"
proof -
  have "ModeRules \<noteq> ''''" "ModeRules \<noteq> ModeAI" "ModeRules \<noteq> ModeHybrid"
    by (simp_all add: ModeRules_def ModeAI_def ModeHybrid_def)
  then show "st_Mode (tc_Strategy cfg) = ModeRules \<Longrightarrow> ?thesis" by (auto simp: NewPredictionTrader_def Let_def)
qed

text \<open>Loading a row in live mode with a key of its own, on a server where nothing is loaded.\<close>

lemma load_live_row:
  assumes "key \<noteq> ''''"
  shows "\<exists>ob. \<not> t_isRunning (ob_Trader ob) \<and> ob_ID ob = ''a'' \<and> ob_UserID ob = ''u'' \<and> live_venue (ob_Venue ob) \<and>
    addTraderFromStore (flat_env l b) (one_row ''live'' key r) (NewPredictionManager d) =
      (None, \<lparr>sr_DB = d, sr_Heap = [ob], sr_Traders = [''a'' \<mapsto> 0], sr_LoadErrors = Map.empty,
              sr_Tasks = (if r then [Pending False 0] else [])\<rparr>)"
proof -
  let ?env = "flat_env l b" and ?row = "one_row ''live'' key r"
  have mode: "EffectiveTradingMode ?row = ''live''" by (simp add: EffectiveTradingMode_def one_row_def)
  have strat: "st_Mode (loaded_strategy ?env ?row) = ModeRules"
    using rules_mode [of DefaultStrategyConfig]
    by (simp add: loaded_strategy_def ParseStrategyJSON_def flat_env_def one_row_def Let_def)
  then obtain cfg where cfg: "trader_setup ?env ?row d = Inr (cfg, False)" "st_Mode (tc_Strategy cfg) = ModeRules"
    by (simp add: trader_setup_def Let_def)
  obtain t where t: "NewPredictionTrader cfg False 0 = Inr t" "\<not> t_isRunning t" using rules_trader [OF cfg(2)] by blast
  have key: "effectivePrivateKey ?env (Some ?row) = key" using assms by (simp add: effectivePrivateKey_def one_row_def)
  have v: "BuildVenueForTrader ?env True ?row d = (PolyVenue (buildPolymarketVenue ?env ?row), d)"
    using mode by (simp add: BuildVenueForTrader_def)
  have g: "pc_GammaURL (PMDefaultConfig e) \<noteq> ''''" for e by (simp add: PMDefaultConfig_def MergeEnvConfig_def Let_def)
  have "pc_GammaURL (MergeEnvConfig e (PMDefaultConfig e)) \<noteq> ''''" for e
    using g [of e] by (simp add: MergeEnvConfig_def Let_def)
  then have live: "live_venue (PolyVenue (buildPolymarketVenue ?env ?row))"
    using mode by (simp add: buildPolymarketVenue_def NewClient_def Let_def)
  have "se_now ?env = 0" "tr_ID ?row = ''a''" "tr_UserID ?row = ''u''" "tr_IsRunning ?row = r"
    by (simp_all add: flat_env_def one_row_def)
  then show ?thesis
    using cfg(1) t v live key mode assms
    by (intro exI [of _ "\<lparr>ob_ID = ''a'', ob_UserID = ''u'', ob_Venue = PolyVenue (buildPolymarketVenue ?env ?row),
          ob_Trader = SetStore True ''a'' t\<rparr>"])
      (simp add: addTraderFromStore_def NewPredictionManager_def ValidatePredictionTraderRow_def SetStore_def)
qed

text \<open>
  switching live trading off does not stop a live trader.  A server that starts with
  \<open>PREDICTION_LIVE_ENABLED=false\<close> loads the rows of its database without asking the switch: a
  trader in live mode that was running when the server went down gets an object that trades for
  real, and its loop is started, while the API refuses to start it, to run it once or to sell.
\<close>

theorem boot_revives_live:
  "\<exists>s ob. LoadTradersFromStore (flat_env False False) (NewPredictionManager (one_trader ''live'' ''k'' True)) = (None, s) \<and>
     sr_Heap (server_step (flat_env False False) (BeginTask 0) s) = [ob] \<and> t_isRunning (ob_Trader ob) \<and> live_venue (ob_Venue ob) \<and>
     fst (handleStartPredictionTrader (flat_env False False) ''u'' ''a'' s) = live_disabled \<and>
     fst (action_target (flat_env False False) ''u'' ''a'' s) = Inl live_disabled"
proof -
  let ?env = "flat_env False False" and ?d = "one_trader ''live'' ''k'' True"
  obtain ob where ob: "\<not> t_isRunning (ob_Trader ob)" "ob_ID ob = ''a''" "ob_UserID ob = ''u''" "live_venue (ob_Venue ob)"
    and ad: "addTraderFromStore ?env (one_row ''live'' ''k'' True) (NewPredictionManager ?d) =
      (None, \<lparr>sr_DB = ?d, sr_Heap = [ob], sr_Traders = [''a'' \<mapsto> 0], sr_LoadErrors = Map.empty, sr_Tasks = [Pending False 0]\<rparr>)"
    using load_live_row [of "''k''" False False True ?d] by auto
  let ?s = "\<lparr>sr_DB = ?d, sr_Heap = [ob], sr_Traders = [''a'' \<mapsto> 0], sr_LoadErrors = Map.empty, sr_Tasks = [Pending False 0]\<rparr>"
  have "ListAllTraders (se_db ?env) ?d = Inr [one_row ''live'' ''k'' True]"
    by (simp add: ListAllTraders_def flat_simps)
  then have ld: "LoadTradersFromStore ?env (NewPredictionManager ?d) = (None, ?s)"
    using ad by (simp add: LoadTradersFromStore_def) (simp add: NewPredictionManager_def)
  have own: "ownedPredictionTrader ?env ''u'' ''a'' ?s = Some (one_row ''live'' ''k'' True)"
    by (simp add: ownedPredictionTrader_def GetTrader_def flat_simps)
  have "denyLiveTradingDisabled ?env (Some (one_row ''live'' ''k'' True))"
    by (simp add: denyLiveTradingDisabled_def predictionSecurity_def flat_env_def EffectiveTradingMode_def one_row_def)
  then have "fst (handleStartPredictionTrader ?env ''u'' ''a'' ?s) = live_disabled"
    "fst (action_target ?env ''u'' ''a'' ?s) = Inl live_disabled"
    using own by (simp_all add: handleStartPredictionTrader_def action_target_def)
  moreover have "sr_Heap (server_step ?env (BeginTask 0) ?s) = [ob\<lparr>ob_Trader := (ob_Trader ob)\<lparr>t_isRunning := True, t_loopActive := True\<rparr>\<rparr>]"
    using ob(1) by (simp add: begin_task_def run_begin_def set_trader_def)
  ultimately show ?thesis using ld ob(4)
    by (intro exI [of _ ?s] exI [of _ "ob\<lparr>ob_Trader := (ob_Trader ob)\<lparr>t_isRunning := True, t_loopActive := True\<rparr>\<rparr>"] conjI) simp_all
qed

lemma flat_step:
  "server_run lt_traders allowed s s1 \<Longrightarrow> fresh_id lt_traders (flat_env l b) s1 \<Longrightarrow> allowed (flat_env l b) e s1 \<Longrightarrow>
   server_run lt_traders allowed s (server_step (flat_env l b) e s1)"
  by (rule run_step) (simp_all add: flat_env_ok)

lemma loaded_server:
  obtains ob where "\<not> t_isRunning (ob_Trader ob)" "ob_ID ob = ''a''" "ob_UserID ob = ''u''" "live_venue (ob_Venue ob)"
    "snd (LoadTradersFromStore (flat_env l b) (NewPredictionManager (one_trader ''live'' ''k'' r))) =
      \<lparr>sr_DB = one_trader ''live'' ''k'' r, sr_Heap = [ob], sr_Traders = [''a'' \<mapsto> 0], sr_LoadErrors = Map.empty,
       sr_Tasks = (if r then [Pending False 0] else [])\<rparr>"
proof -
  obtain ob where ob: "\<not> t_isRunning (ob_Trader ob)" "ob_ID ob = ''a''" "ob_UserID ob = ''u''" "live_venue (ob_Venue ob)"
    and ad: "addTraderFromStore (flat_env l b) (one_row ''live'' ''k'' r) (NewPredictionManager (one_trader ''live'' ''k'' r)) =
      (None, \<lparr>sr_DB = one_trader ''live'' ''k'' r, sr_Heap = [ob], sr_Traders = [''a'' \<mapsto> 0], sr_LoadErrors = Map.empty,
              sr_Tasks = (if r then [Pending False 0] else [])\<rparr>)"
    using load_live_row [of "''k''" l b r "one_trader ''live'' ''k'' r"] by auto
  have "ListAllTraders (se_db (flat_env l b)) (one_trader ''live'' ''k'' r) = Inr [one_row ''live'' ''k'' r]"
    by (simp add: ListAllTraders_def flat_simps)
  moreover have "sr_DB (NewPredictionManager d) = d" "sr_Traders (NewPredictionManager d) = Map.empty" for d :: list_tables
    by (simp_all add: NewPredictionManager_def)
  ultimately have "snd (LoadTradersFromStore (flat_env l b) (NewPredictionManager (one_trader ''live'' ''k'' r))) =
      \<lparr>sr_DB = one_trader ''live'' ''k'' r, sr_Heap = [ob], sr_Traders = [''a'' \<mapsto> 0], sr_LoadErrors = Map.empty,
       sr_Tasks = (if r then [Pending False 0] else [])\<rparr>"
    using ad by (simp add: LoadTradersFromStore_def del: if_split)
  then show ?thesis using that ob by blast
qed

definition loaded :: "bool \<Rightarrow> list_tables server" where
  "loaded r = snd (LoadTradersFromStore (flat_env True False) (NewPredictionManager (one_trader ''live'' ''k'' r)))"

lemma loaded_registered: "registered lt_traders (loaded r)" "fresh_id lt_traders (flat_env l b) (loaded r)"
proof -
  obtain ob where ob: "ob_UserID ob = ''u''" "loaded r = \<lparr>sr_DB = one_trader ''live'' ''k'' r, sr_Heap = [ob],
      sr_Traders = [''a'' \<mapsto> 0], sr_LoadErrors = Map.empty, sr_Tasks = (if r then [Pending False 0] else [])\<rparr>"
    using loaded_server [of True False r] unfolding loaded_def by blast
  show "registered lt_traders (loaded r)"
    unfolding registered_def by (rule exI [of _ "\<lambda>_. ''u''"]) (simp add: owned_by_def ob one_row_def)
  show "fresh_id lt_traders (flat_env l b) (loaded r)" by (simp add: fresh_id_def ob(2) flat_env_def one_row_def)
qed

theorem live_off_stays_off_witness:
  "let s = NewPredictionManager (one_trader ''preview'' ''k'' False);
       req = \<lparr>uq_Name = ''bot'', uq_AIModelID = ''m'', uq_ProxyAddress = '''', uq_SignatureType = 2, uq_ScanIntervalMinutes = 5,
              uq_PreviewMode = Some False, uq_TradingMode = ''live'', uq_SimConfig = None, uq_Strategy = DefaultStrategyConfig,
              uq_PrivateKey = ''''\<rparr>
   in no_live lt_traders (server_step (flat_env False False) (UpdateReq ''u'' ''a'' (Inr req)) s)"
proof -
  let ?s = "NewPredictionManager (one_trader ''preview'' ''k'' False)"
  have n: "no_live lt_traders ?s" by (simp add: no_live_def NewPredictionManager_def one_row_def EffectiveTradingMode_def)
  have f: "fresh_id lt_traders (flat_env False False) ?s"
    by (simp add: fresh_id_def NewPredictionManager_def flat_env_def one_row_def)
  have "server_run lt_traders (\<lambda>env e s. \<not> live_enabled (env :: (list_tables, unit) server_env)) ?s (server_step (flat_env False False) e ?s)" for e
    by (rule flat_step [OF run_start f]) (simp add: predictionSecurity_def flat_env_def)
  from live_off_stays_off [OF this one_trader_registered n] show ?thesis by (simp only: Let_def)
qed

theorem tenants_isolated_witness:
  "sr_Heap (server_step (flat_env True False) (DeleteReq ''w'' ''a'') (loaded False)) ! 0 = sr_Heap (loaded False) ! 0 \<and>
   sr_Traders (server_step (flat_env True False) (DeleteReq ''w'' ''a'') (loaded False)) ''a'' = Some 0"
proof -
  obtain ob where ob: "ob_UserID ob = ''u''" "loaded False = \<lparr>sr_DB = one_trader ''live'' ''k'' False, sr_Heap = [ob],
      sr_Traders = [''a'' \<mapsto> 0], sr_LoadErrors = Map.empty, sr_Tasks = []\<rparr>"
    using loaded_server [of True False False] unfolding loaded_def by (metis (full_types))
  have "server_run lt_traders (\<lambda>(env :: (list_tables, unit) server_env) e s. event_user e s \<noteq> ''u'') (loaded False)
      (server_step (flat_env True False) (DeleteReq ''w'' ''a'') (loaded False))"
    by (rule flat_step [OF run_start loaded_registered(2)]) simp
  from tenants_isolated [OF this loaded_registered(1)] show ?thesis using ob by simp
qed

section \<open>Orphans\<close>

text \<open>A trader whose goroutine has not called \<open>Run\<close> yet is not touched by what would stop it.\<close>

lemma stop_loaded_idle: "GetTraderObject tid s = Some a \<Longrightarrow> \<not> t_isRunning (ob_Trader (sr_Heap s ! a)) \<Longrightarrow> stop_loaded tid s = s"
  by (simp add: stop_loaded_def stop_object_def)

lemma stop_request_idle:
  assumes "handleStopPredictionTrader env u tid s0 = ((200, Success), s1)"
    and "GetTraderObject tid s0 = Some a" "\<not> t_isRunning (ob_Trader (sr_Heap s0 ! a))"
  shows "sr_Heap s1 = sr_Heap s0 \<and> sr_Tasks s1 = sr_Tasks s0 \<and> sr_Traders s1 = sr_Traders s0"
  using assms stop_loaded_idle [OF assms(2,3)]
  by (auto simp: handleStopPredictionTrader_def set_status_def trader_not_found_def split: option.splits)

lemma delete_request_idle:
  assumes "handleDeletePredictionTrader env u tid s0 = ((200, Success), s1)"
    and "GetTraderObject tid s0 = Some a" "\<not> t_isRunning (ob_Trader (sr_Heap s0 ! a))"
  shows "sr_Heap s1 = sr_Heap s0 \<and> sr_Tasks s1 = sr_Tasks s0 \<and> sr_Traders s1 = (sr_Traders s0)(tid := None)"
proof -
  have "RemoveTrader tid s0 = s0\<lparr>sr_Traders := (sr_Traders s0)(tid := None), sr_LoadErrors := (sr_LoadErrors s0)(tid := None)\<rparr>"
    using assms(2,3) by (simp add: RemoveTrader_def stop_object_def GetTraderObject_def)
  then show ?thesis using assms(1) stop_loaded_idle [OF assms(2,3)]
    by (auto simp: handleDeletePredictionTrader_def trader_not_found_def Let_def split: option.splits prod.splits)
qed

lemma begin_task_idle:
  assumes "i < length (sr_Tasks s)" "sr_Tasks s ! i = Pending h a" "a < length (sr_Heap s)" "\<not> t_isRunning (ob_Trader (sr_Heap s ! a))"
    and "\<And>j. sr_Traders s j \<noteq> Some a"
  shows "orphan a (server_step env (BeginTask i) s)"
  using assms by (auto simp: begin_task_def run_begin_def orphan_def set_trader_heap ran_def)

text \<open>
  C37: an orphan trades until the server goes down.  A trader is loaded and its goroutine is there, but has
  not called \<open>Run\<close> yet.  Its owner stops it and deletes it, and the server answers both requests with
  success.  When the goroutine starts afterwards, the deleted trader's object runs with no id leading to it, and
  no sequence of requests, the owner's included, and of steps of goroutines ever stops it.
\<close>

theorem orphan_never_stops:
  assumes start: "registered rows s0" "sr_Traders s0 tid = Some a" "\<And>j. sr_Traders s0 j = Some a \<Longrightarrow> j = tid"
    and pending: "i < length (sr_Tasks s0)" "sr_Tasks s0 ! i = Pending h a" "\<not> t_isRunning (ob_Trader (sr_Heap s0 ! a))"
    and db: "traders_ok (se_db e1) rows" "traders_ok (se_db e2) rows" "traders_ok (se_db e3) rows"
    and stop: "handleStopPredictionTrader e1 u tid s0 = ((200, Success), s1)"
    and delete: "handleDeletePredictionTrader e2 u tid s1 = ((200, Success), s2)"
    and run: "server_run rows (\<lambda>_ _ _. True) (server_step e3 (BeginTask i) s2) s"
  shows "orphan a s"
proof -
  have 1: "sr_Heap s1 = sr_Heap s0" "sr_Tasks s1 = sr_Tasks s0" "sr_Traders s1 = sr_Traders s0"
    using stop_request_idle [OF stop] start(2) pending(3) by (simp_all add: GetTraderObject_def)
  have 2: "sr_Heap s2 = sr_Heap s0" "sr_Tasks s2 = sr_Tasks s0" "sr_Traders s2 = (sr_Traders s0)(tid := None)"
    using delete_request_idle [OF delete, of a] start(2) pending(3) 1 by (simp_all add: GetTraderObject_def)
  have "registered rows s1" using good_handleStop [OF db(1), of u s0 tid] start(1) stop by (simp add: good_def)
  then have "registered rows s2" using good_handleDelete [OF db(2), of u s1 tid] delete by (simp add: good_def)
  then have reg: "registered rows (server_step e3 (BeginTask i) s2)"
    using good_task_steps(1) [OF db(3), of i s2] 2(2) pending(1) by (auto simp: good_def)
  have "a < length (sr_Heap s0)" using start(1,2) by (auto simp: registered_def owned_by_def)
  then have orphan: "orphan a (server_step e3 (BeginTask i) s2)"
    by (intro begin_task_idle) (use pending start(3) 2 in \<open>auto split: if_split_asm\<close>)
  show ?thesis using run
  proof induction
    case (run_step s1 env e)
    then show ?case using step_good [OF run_step.hyps(2,3), of e] run_registered [OF run_step.hyps(1) reg]
      by (simp add: good_def)
  qed (rule orphan)
qed

lemma orphan_example:
  "\<exists>s1 s2. handleStopPredictionTrader (flat_env True False) ''u'' ''a'' (loaded True) = ((200, Success), s1) \<and>
     handleDeletePredictionTrader (flat_env True False) ''u'' ''a'' s1 = ((200, Success), s2) \<and>
     lt_traders (sr_DB s2) = [] \<and> sr_Traders s2 = Map.empty"
proof -
  obtain ob where ob: "\<not> t_isRunning (ob_Trader ob)" "loaded True = \<lparr>sr_DB = one_trader ''live'' ''k'' True, sr_Heap = [ob],
      sr_Traders = [''a'' \<mapsto> 0], sr_LoadErrors = Map.empty, sr_Tasks = [Pending False 0]\<rparr>"
    using loaded_server [of True False True] unfolding loaded_def by (metis (full_types))
  define s1 where "s1 = (loaded True)\<lparr>sr_DB := one_trader ''live'' ''k'' False\<rparr>"
  have idle: "GetTraderObject ''a'' s = Some 0" "\<not> t_isRunning (ob_Trader (sr_Heap s ! 0))" if "s = loaded True \<or> s = s1" for s
    using that ob by (auto simp: s1_def GetTraderObject_def)
  have own: "ownedPredictionTrader (flat_env True False) ''u'' ''a'' ((loaded True)\<lparr>sr_DB := one_trader ''live'' ''k'' r\<rparr>) =
      Some (one_row ''live'' ''k'' r)" for r
    by (simp add: ownedPredictionTrader_def GetTrader_def flat_simps)
  have "loaded True = (loaded True)\<lparr>sr_DB := one_trader ''live'' ''k'' True\<rparr>" by (simp add: ob(2))
  then have own_now: "ownedPredictionTrader (flat_env True False) ''u'' ''a'' (loaded True) = Some (one_row ''live'' ''k'' True)"
    using own [of True] by simp
  have "snd (UpdateStatus (se_db (flat_env True False)) ''u'' ''a'' False (one_trader ''live'' ''k'' True)) = one_trader ''live'' ''k'' False"
    by (simp add: UpdateStatus_def flat_simps one_trader_def empty_tables_def)
  then have stop: "handleStopPredictionTrader (flat_env True False) ''u'' ''a'' (loaded True) = ((200, Success), s1)"
    using own_now stop_loaded_idle [OF idle] by (simp add: handleStopPredictionTrader_def set_status_def s1_def) (simp add: ob(2))
  have "\<exists>d. DeleteTrader (se_db (flat_env True False)) ''u'' ''a'' (one_trader ''live'' ''k'' False) = (None, d) \<and> lt_traders d = []"
    by (simp add: DeleteTrader_def DeleteDecisions_def DeleteSimData_def DeleteOrderRecords_def DeleteRiskState_def
        DeleteAuditLogs_def flat_simps one_trader_def empty_tables_def)
  then obtain d where d: "DeleteTrader (se_db (flat_env True False)) ''u'' ''a'' (one_trader ''live'' ''k'' False) = (None, d)"
    "lt_traders d = []" by blast
  have "sr_DB (RemoveTrader ''a'' s1) = one_trader ''live'' ''k'' False \<and> sr_Traders (RemoveTrader ''a'' s1) = Map.empty"
    using ob by (simp add: RemoveTrader_def stop_object_def s1_def fun_eq_iff)
  then have "handleDeletePredictionTrader (flat_env True False) ''u'' ''a'' s1 = ((200, Success), (RemoveTrader ''a'' s1)\<lparr>sr_DB := d\<rparr>) \<and>
      sr_Traders (RemoveTrader ''a'' s1) = Map.empty"
    using own [of False, folded s1_def] d(1) stop_loaded_idle [OF idle, of s1] by (simp add: handleDeletePredictionTrader_def)
  then show ?thesis using stop d(2) by (intro exI [of _ s1] exI [of _ "(RemoveTrader ''a'' s1)\<lparr>sr_DB := d\<rparr>"]) simp
qed

theorem orphan_never_stops_witness:
  "let env = flat_env True False; s1 = server_step env (StopReq ''u'' ''a'') (loaded True); s2 = server_step env (DeleteReq ''u'' ''a'') s1;
       s3 = server_step env (BeginTask 0) s2
   in lt_traders (sr_DB s2) = [] \<and> orphan 0 (server_step env (StopReq ''u'' ''a'') s3)"
proof -
  let ?env = "flat_env True False"
  obtain s1 s2 where s: "handleStopPredictionTrader ?env ''u'' ''a'' (loaded True) = ((200, Success), s1)"
    "handleDeletePredictionTrader ?env ''u'' ''a'' s1 = ((200, Success), s2)" "lt_traders (sr_DB s2) = []" "sr_Traders s2 = Map.empty"
    using orphan_example by blast
  obtain ob where ob: "\<not> t_isRunning (ob_Trader ob)" "loaded True = \<lparr>sr_DB = one_trader ''live'' ''k'' True, sr_Heap = [ob],
      sr_Traders = [''a'' \<mapsto> 0], sr_LoadErrors = Map.empty, sr_Tasks = [Pending False 0]\<rparr>"
    using loaded_server [of True False True] unfolding loaded_def by (metis (full_types))
  let ?s3 = "server_step ?env (BeginTask 0) s2"
  have "sr_DB (begin_task ?env 0 s2) = sr_DB s2 \<or> lt_traders (sr_DB (begin_task ?env 0 s2)) = []"
    "sr_Traders (begin_task ?env 0 s2) = sr_Traders s2"
    by (auto simp: begin_task_def mark_stopped_def UpdateStatus_def flat_simps s(3) Let_def split: task.split sum.split)
  then have "fresh_id lt_traders ?env ?s3" using s(3,4) by (auto simp: fresh_id_def)
  then have run: "server_run lt_traders (\<lambda>(env :: (list_tables, unit) server_env) e s. True) ?s3 (server_step ?env (StopReq ''u'' ''a'') ?s3)"
    by (rule flat_step [OF run_start]) simp
  have "orphan 0 (server_step ?env (StopReq ''u'' ''a'') ?s3)"
    by (rule orphan_never_stops [OF loaded_registered(1) _ _ _ _ _ flat_env_ok flat_env_ok flat_env_ok s(1,2) run])
      (use ob in \<open>auto split: if_split_asm\<close>)
  moreover have "server_step ?env (StopReq ''u'' ''a'') (loaded True) = s1" "server_step ?env (DeleteReq ''u'' ''a'') s1 = s2"
    using s(1,2) by simp_all
  ultimately show ?thesis using s(3) by (simp only: Let_def simp_thms)
qed

section \<open>Only live rows trade\<close>

text \<open>A trader that runs cycle after cycle.\<close>

primrec run_cycles :: "'s env \<Rightarrow> nat \<Rightarrow> trader \<times> 's \<Rightarrow> trader \<times> 's" where
  "run_cycles env 0 ts = ts"
| "run_cycles env (Suc n) ts = snd (runCycle env (run_cycles env n ts))"

lemma preview_cycles:
  assumes preview: "pc_PreviewMode cfg" "rc_PreviewMode (g_cfg (t_gate t))"
    and w: "read_only w P" "w_venue env = pm_ops w js oj rj ch cr rand8 cfg" "books_keep env (\<lambda>c. P (snd c))" and P: "P (snd c)"
  shows "P (snd (snd (run_cycles env n (t, c)))) \<and> g_cfg (t_gate (fst (run_cycles env n (t, c)))) = g_cfg (t_gate t)"
proof (induction n)
  case (Suc n)
  obtain t1 c1 where 1: "run_cycles env n (t, c) = (t1, c1)" by (rule prod.exhaust)
  obtain fd err t2 c2 where 2: "runCycle env (t1, c1) = ((fd, err), t2, c2)" by (metis prod.collapse)
  have "rc_PreviewMode (g_cfg (t_gate t1))" "P (snd c1)" using Suc 1 preview(2) by simp_all
  from preview_cycle [OF preview(1) this(1) w this(2) 2] show ?case using Suc 1 2 by simp
qed (simp add: P)

lemma loaded_object:
  assumes "addTraderFromStore senv row s0 = (None, s1)" "EffectiveTradingMode row \<noteq> ''live''"
  shows "\<exists>ob d. sr_Heap s1 = sr_Heap s0 @ [ob] \<and> BuildVenueForTrader senv True row (sr_DB s0) = (ob_Venue ob, d) \<and>
    (EffectiveTradingMode row \<noteq> ''simulation'' \<longrightarrow> rc_PreviewMode (g_cfg (t_gate (ob_Trader ob))))"
proof -
  obtain cfg hc v d t where b: "trader_setup senv row (sr_DB s0) = Inr (cfg, hc)" "BuildVenueForTrader senv True row (sr_DB s0) = (v, d)"
    "NewPredictionTrader cfg hc (se_now senv) = Inr t"
    "sr_Heap s1 = sr_Heap s0 @ [\<lparr>ob_ID = tr_ID row, ob_UserID = tr_UserID row, ob_Venue = v, ob_Trader = SetStore True (tr_ID row) t\<rparr>]"
    using assms(1) by (auto simp: addTraderFromStore_def Let_def split: if_splits sum.splits prod.splits option.splits)
  have "tc_Strategy cfg = loaded_strategy senv row"
    using b(1) by (auto simp: trader_setup_def Let_def split: if_splits sum.splits)
  then have "EffectiveTradingMode row \<noteq> ''simulation'' \<Longrightarrow> rc_PreviewMode (g_cfg (t_gate t))"
    using b(3) assms(2) by (auto simp: NewPredictionTrader_def loaded_strategy_def NewGate_def DefaultConfig_def Let_def split: if_splits)
  then show ?thesis using b(2,4)
    by (intro exI [of _ "\<lparr>ob_ID = tr_ID row, ob_UserID = tr_UserID row, ob_Venue = v, ob_Trader = SetStore True (tr_ID row) t\<rparr>"]
        exI [of _ d]) (simp add: SetStore_def)
qed

text \<open>
  C4: only a row in live mode trades for real.  The object the manager loads for a row whose effective mode is not
  exactly \<open>live\<close> holds the simulated venue exactly when the mode is \<open>simulation\<close>: a
  ledger whose operations (\<open>sim_ops\<close>) are given no client, only functions that read a market.  Otherwise
  it holds a client of Polymarket, and on it no number of whole cycles does anything but read: no order
  is posted or cancelled and nothing is redeemed.
\<close>

theorem only_live_rows_trade:
  assumes mode: "EffectiveTradingMode row \<noteq> ''live''"
    and loaded: "addTraderFromStore senv row s0 = (None, s1)"
    and w: "read_only w P" "P s" "books_keep env (\<lambda>c. P (snd c))"
  shows "case ob_Venue (last (sr_Heap s1)) of SimVenue sv \<Rightarrow> EffectiveTradingMode row = ''simulation''
    | PolyVenue cfg \<Rightarrow> EffectiveTradingMode row \<noteq> ''simulation'' \<and>
        (w_venue env = pm_ops w js oj rj ch cr rand8 cfg \<longrightarrow>
           P (snd (snd (run_cycles env n (ob_Trader (last (sr_Heap s1)), (creds, s))))))"
proof -
  obtain ob d where ob: "sr_Heap s1 = sr_Heap s0 @ [ob]" "BuildVenueForTrader senv True row (sr_DB s0) = (ob_Venue ob, d)"
    "EffectiveTradingMode row \<noteq> ''simulation'' \<longrightarrow> rc_PreviewMode (g_cfg (t_gate (ob_Trader ob)))"
    using loaded_object [OF loaded mode] by blast
  show ?thesis
  proof (cases "ob_Venue ob")
    case (SimVenue sv)
    then show ?thesis using ob(1,2) by (auto simp: BuildVenueForTrader_def split: if_splits)
  next
    case (PolyVenue cfg)
    have "EffectiveTradingMode row \<noteq> ''simulation''" using ob(2) PolyVenue
      by (cases "buildSimVenue senv True row (sr_DB s0)") (auto simp: BuildVenueForTrader_def)
    moreover have "pc_PreviewMode cfg" using built_venue_mode [OF ob(2)] mode PolyVenue by auto
    ultimately show ?thesis using preview_cycles [of cfg "ob_Trader ob" w P env js oj rj ch cr rand8 "(creds, s)" n] ob(1,3) w PolyVenue by simp
  qed
qed

lemma load_odd_row:
  "\<exists>ob s1. addTraderFromStore (flat_env True False) (one_row '' live'' ''abcd'' True) (NewPredictionManager empty_tables) = (None, s1) \<and>
     sr_Heap s1 = [ob] \<and> ob_Venue ob = PolyVenue (buildPolymarketVenue (flat_env True False) (one_row '' live'' ''abcd'' True))"
proof -
  let ?env = "flat_env True False" and ?row = "one_row '' live'' ''abcd'' True"
  have "trim_space '' live'' = ''live''" by code_simp
  then have mode: "EffectiveTradingMode ?row = '' live''" by (simp add: EffectiveTradingMode_def one_row_def)
  have strat: "st_Mode (loaded_strategy ?env ?row) = ModeRules"
    using rules_mode [of DefaultStrategyConfig]
    by (simp add: loaded_strategy_def ParseStrategyJSON_def flat_env_def one_row_def Let_def)
  then obtain cfg where cfg: "trader_setup ?env ?row empty_tables = Inr (cfg, False)" "st_Mode (tc_Strategy cfg) = ModeRules"
    by (simp add: trader_setup_def Let_def)
  obtain t where t: "NewPredictionTrader cfg False 0 = Inr t" using rules_trader [OF cfg(2)] by blast
  have v: "BuildVenueForTrader ?env True ?row empty_tables = (PolyVenue (buildPolymarketVenue ?env ?row), empty_tables)"
    using mode by (simp add: BuildVenueForTrader_def)
  have "se_now ?env = 0" by (simp add: flat_env_def)
  then show ?thesis using cfg(1) t v mode
    by (simp add: addTraderFromStore_def NewPredictionManager_def ValidatePredictionTraderRow_def)
qed

theorem only_live_rows_trade_witness:
  "let row = one_row '' live'' ''abcd'' True; cfg = buildPolymarketVenue (flat_env True False) row;
       env = plain_env (pm_ops log_web (flat_json '''') flat_order_json silent_relayer flat_chain flat_crypto (\<lambda>_. Inr [1]) cfg)
   in \<exists>ob s1. addTraderFromStore (flat_env True False) row (NewPredictionManager empty_tables) = (None, s1) \<and> sr_Heap s1 = [ob] \<and>
        (\<forall>req \<in> set (snd (snd (run_cycles env 2 (ob_Trader ob, (None, []))))). hq_Method req = ''GET'')"
proof -
  let ?row = "one_row '' live'' ''abcd'' True"
  let ?cfg = "buildPolymarketVenue (flat_env True False) ?row"
  let ?env = "plain_env (pm_ops log_web (flat_json '''') flat_order_json silent_relayer flat_chain flat_crypto (\<lambda>_. Inr [1]) ?cfg)"
  obtain ob s1 where ob: "addTraderFromStore (flat_env True False) ?row (NewPredictionManager empty_tables) = (None, s1)"
    "sr_Heap s1 = [ob]" "ob_Venue ob = PolyVenue ?cfg"
    using load_odd_row by blast
  have "trim_space '' live'' = ''live''" by code_simp
  then have m: "EffectiveTradingMode ?row \<noteq> ''live''" by (simp add: EffectiveTradingMode_def one_row_def)
  have b: "books_keep ?env (\<lambda>c. \<forall>req \<in> set (snd c). hq_Method req = ''GET'')"
    by (simp add: books_keep_def plain_env_def)
  have v: "w_venue ?env = pm_ops log_web (flat_json '''') flat_order_json silent_relayer flat_chain flat_crypto (\<lambda>_. Inr [1]) ?cfg"
    by (simp add: plain_env_def)
  have "\<forall>req \<in> set (snd (snd (run_cycles ?env 2 (ob_Trader ob, (None, []))))). hq_Method req = ''GET''"
    using only_live_rows_trade [OF m ob(1) log_web_read_only _ b, of "[]" "flat_json ''''" flat_order_json silent_relayer
        flat_chain flat_crypto "\<lambda>_. Inr [1]" 2 None] ob(2,3) v by simp
  then show ?thesis using ob(1,2) unfolding Let_def by blast
qed

section \<open>Keys\<close>

text \<open>
  C38: the ban on uploaded keys is one request deep.  With \<open>PREDICTION_ALLOW_BROWSER_PRIVATE_KEY\<close> off, a
  request to create a live trader with a key is refused; the same request in preview mode stores the
  key, and an update to live mode that brings no key is accepted on any row that holds one.
\<close>

theorem browser_key_bypass:
  assumes env: "live_enabled env" "\<not> snd (predictionSecurity env)"
    and req: "trim_space (cq_PrivateKey req) \<noteq> ''''" "cq_TradingMode req = ''live''"
    and up: "uq_TradingMode up = ''live''" "uq_PrivateKey up = ''''"
    and row: "tr_PrivateKey row = trim_space (cq_PrivateKey req)"
  shows "create_refusal env req = Some (403, ErrText browser_keys_disabled) \<and>
    create_refusal env (req\<lparr>cq_TradingMode := ''preview''\<rparr>) = None \<and>
    (\<exists>row'. update_mode env up (update_basics up row) = Inr row' \<and>
       EffectiveTradingMode (update_config env up row') = ''live'' \<and>
       tr_PrivateKey (update_config env up row') = trim_space (cq_PrivateKey req) \<and>
       update_refusal env up (update_config env up row') = None)"
proof (intro conjI)
  have "trim_space '''' = ''''" by code_simp
  note sp = this mode_words
  show "create_refusal env req = Some (403, ErrText browser_keys_disabled)"
    using env req sp by (simp add: create_refusal_def create_mode_def denyLiveModeRequest_def rejectLiveBrowserPrivateKey_def Let_def)
  show "create_refusal env (req\<lparr>cq_TradingMode := ''preview''\<rparr>) = None"
    using req sp by (simp add: create_refusal_def create_mode_def IsValidTradingMode_def rejectPreviewWithoutPrivateKey_def Let_def)
  let ?row = "(update_basics up row)\<lparr>tr_TradingMode := ''live'', tr_PreviewMode := False\<rparr>"
  have m: "update_mode env up (update_basics up row) = Inr ?row"
    using up env sp by (simp add: update_mode_def IsValidTradingMode_def denyLiveModeRequest_def Let_def)
  have c: "tr_TradingMode (update_config env up ?row) = ''live''" "tr_PrivateKey (update_config env up ?row) = tr_PrivateKey row"
    by (simp_all add: update_config_def update_basics_def Let_def split: option.split)
  then have l: "EffectiveTradingMode (update_config env up ?row) = ''live''" by (simp add: EffectiveTradingMode_def)
  have "update_refusal env up (update_config env up ?row) = None"
    using l c row req(1) up(2) sp
    by (simp add: update_refusal_def rejectLiveBrowserPrivateKey_def rejectLiveWithoutPrivateKey_def rejectPreviewWithoutPrivateKey_def Let_def)
  then show "\<exists>row'. update_mode env up (update_basics up row) = Inr row' \<and>
       EffectiveTradingMode (update_config env up row') = ''live'' \<and>
       tr_PrivateKey (update_config env up row') = trim_space (cq_PrivateKey req) \<and>
       update_refusal env up (update_config env up row') = None"
    using m l c(2) row by (intro exI [of _ ?row]) simp
qed

definition key_upload :: create_req where
  "key_upload = \<lparr>cq_Name = ''bot'', cq_AIModelID = ''m'', cq_Venue = '''', cq_PrivateKey = ''k'', cq_ProxyAddress = '''',
     cq_SignatureType = 0, cq_ScanIntervalMinutes = 0, cq_PreviewMode = None, cq_TradingMode = ''live'', cq_SimConfig = '''',
     cq_Strategy = DefaultStrategyConfig\<rparr>"

definition go_live :: update_req where
  "go_live = \<lparr>uq_Name = ''bot'', uq_AIModelID = ''m'', uq_ProxyAddress = '''', uq_SignatureType = 2, uq_ScanIntervalMinutes = 5,
     uq_PreviewMode = None, uq_TradingMode = ''live'', uq_SimConfig = None, uq_Strategy = DefaultStrategyConfig, uq_PrivateKey = ''''\<rparr>"

theorem browser_key_bypass_witness:
  "create_refusal (flat_env True False) key_upload = Some (403, ErrText browser_keys_disabled) \<and>
   create_refusal (flat_env True False) (key_upload\<lparr>cq_TradingMode := ''preview''\<rparr>) = None \<and>
   (\<exists>row. update_mode (flat_env True False) go_live (update_basics go_live (one_row ''preview'' ''k'' False)) = Inr row)"
proof -
  have k: "trim_space ''k'' = ''k''" by code_simp
  have "live_enabled (flat_env True False)" "\<not> snd (predictionSecurity (flat_env True False))"
    by (simp_all add: predictionSecurity_def flat_env_def)
  from browser_key_bypass [OF this, of key_upload go_live "one_row ''preview'' ''k'' False"] show ?thesis
    using k by (auto simp: key_upload_def go_live_def one_row_def)
qed

section \<open>Redaction\<close>

lemma mput_mput: "mput k v (mput k w m) = mput k v m"
  by (induction m) (auto simp: mput_def)

text \<open>
  a redacted wire does not tell the signature.  Two wires that are objects with the same fields, save
  for signatures that are longer than sixteen characters and agree in their first ten, are redacted
  to the same text: what the API answers without \<open>include_wire\<close> determines nothing further of the
  signature.  In an answer of executions this holds for every wire.
\<close>

theorem redaction_hides_signature:
  assumes parse: "unmarshal w1 = Some obj" "unmarshal w2 = Some (mput ''signature'' (Inl sig2) obj)" "w1 \<noteq> ''''" "w2 \<noteq> ''''"
    and sigs: "map_of obj ''signature'' = Some (Inl sig1)" "length sig1 > 16" "length sig2 > 16" "take 10 sig1 = take 10 sig2"
  shows "redactExecutionOutcomes (redactPreviewWireJSON unmarshal marshal) [x\<lparr>eo_PreviewWire := w1\<rparr>] =
    redactExecutionOutcomes (redactPreviewWireJSON unmarshal marshal) [x\<lparr>eo_PreviewWire := w2\<rparr>]"
  using assms by (simp add: redactExecutionOutcomes_def redactPreviewWireJSON_def mput_mput)

theorem redaction_hides_signature_witness:
  "let sig = (\<lambda>c. ''0x12345678'' @ replicate 120 c);
       unmarshal = (\<lambda>w. Some [(''signature'', Inl w)]);
       marshal = (\<lambda>obj. case map_of obj ''signature'' of Some (Inl t) \<Rightarrow> t | _ \<Rightarrow> '''');
       x = \<lparr>eo_MarketSlug = ''m'', eo_Action = ActionBuyYes, eo_Status = ''preview'', eo_Message = NoMsg, eo_OrderID = '''',
            eo_FillUsd = 0, eo_PreviewWire = ''''\<rparr>
   in redactExecutionOutcomes (redactPreviewWireJSON unmarshal marshal) [x\<lparr>eo_PreviewWire := sig (CHR ''a'')\<rparr>] =
      redactExecutionOutcomes (redactPreviewWireJSON unmarshal marshal) [x\<lparr>eo_PreviewWire := sig (CHR ''b'')\<rparr>]"
  unfolding Let_def
  by (rule redaction_hides_signature [where obj = "[(''signature'', Inl (''0x12345678'' @ replicate 120 (CHR ''a'')))]"
        and ?sig2.0 = "''0x12345678'' @ replicate 120 (CHR ''b'')"]) (auto simp: mput_def)

end
