(* ===== verification/Symbols.thy ===== *)
theory Symbols
  imports Prelude
begin

text \<open>
  The names of instruments: \<open>provider/hyperliquid/kline.go\<close> (stocks, forex and commodities of the xyz
  dex), \<open>Normalize\<close> of \<open>market/data.go\<close>, which every part of the futures trader applies before it
  compares symbols, and the fuzzy keys of \<open>trader/auto_trader_loop.go\<close>.
\<close>

section \<open>Strings\<close>

text \<open>\<open>strings.ReplaceAll\<close> for a non-empty text, \<open>strings.TrimSuffix\<close>, \<open>strings.Index\<close>.\<close>

function replace_all :: "gostring \<Rightarrow> gostring \<Rightarrow> gostring \<Rightarrow> gostring" where
  "replace_all p r [] = []"
| "replace_all p r (c # s) =
     (if p \<noteq> [] \<and> has_prefix (c # s) p then r @ replace_all p r (drop (length p) (c # s))
      else c # replace_all p r s)"
  by pat_completeness auto
termination by (relation "measure (\<lambda>(p, r, s). length s)") (auto simp: Suc_diff_le)

definition trim_suffix :: "gostring \<Rightarrow> gostring \<Rightarrow> gostring" where
  "trim_suffix s p = (if has_suffix s p then take (length s - length p) s else s)"

fun str_index :: "gostring \<Rightarrow> gostring \<Rightarrow> nat option" where
  "str_index [] p = (if p = [] then Some 0 else None)"
| "str_index (c # s) p = (if has_prefix (c # s) p then Some 0 else map_option Suc (str_index s p))"

section \<open>The xyz dex\<close>

definition XYZDisplayNameToCoin :: "(gostring, gostring) gomap" where
  "XYZDisplayNameToCoin =
    [(''TESLA'', ''TSLA''), (''NVIDIA'', ''NVDA''), (''ROBINHOOD'', ''HOOD''), (''INTEL'', ''INTC''),
     (''PALANTIR'', ''PLTR''), (''COINBASE'', ''COIN''), (''APPLE'', ''AAPL''), (''MICROSOFT'', ''MSFT''),
     (''ORACLE'', ''ORCL''), (''GOOGLE'', ''GOOGL''), (''ALPHABET'', ''GOOGL''), (''AMAZON'', ''AMZN''),
     (''MICRON'', ''MU''), (''SANDISK'', ''SNDK''), (''MICROSTRATEGY'', ''MSTR''), (''CIRCLE'', ''CRCL''),
     (''NETFLIX'', ''NFLX''), (''COSTCO'', ''COST''), (''ELI-LILLY'', ''LLY''), (''SK-HYNIX'', ''SKHX''),
     (''SKHYNIX'', ''SKHX''), (''TSMC'', ''TSM''), (''RIVIAN'', ''RIVN''), (''ALIBABA'', ''BABA''),
     (''CRUDE-OIL'', ''CL''), (''CRUDEOIL'', ''CL''), (''NATURAL-GAS'', ''NATGAS''), (''NATURALGAS'', ''NATGAS''),
     (''SAMSUNG'', ''SMSN''), (''USA-RARE-EARTH'', ''USAR''), (''USARAREEARTH'', ''USAR''), (''COREWEAVE'', ''CRWV''),
     (''DOLLAR-INDEX'', ''DXY''), (''DOLLARINDEX'', ''DXY''), (''GAMESTOP'', ''GME''), (''KOREA-200'', ''KR200''),
     (''KOREA200'', ''KR200''), (''JAPAN-225'', ''JP225''), (''JAPAN225'', ''JP225''), (''SOUTH-KOREA-ETF'', ''EWY''),
     (''SOUTHKOREAETF'', ''EWY''), (''JAPAN-ETF'', ''EWJ''), (''JAPANETF'', ''EWJ''), (''BRENT-OIL'', ''BRENTOIL''),
     (''BRENTOIL'', ''BRENTOIL''), (''HIMS-HERS'', ''HIMS''), (''HIMSHERS'', ''HIMS''), (''S&P-500'', ''SP500''),
     (''SP-500'', ''SP500''), (''SP500'', ''SP500''), (''DRAFTKINGS'', ''DKNG''), (''LITECOIN'', ''LITE''),
     (''ENERGY-SECTOR-ETF'', ''XLE''), (''ENERGYSECTORETF'', ''XLE''), (''TTF-GAS'', ''TTF''), (''TTFGAS'', ''TTF''),
     (''BLACKSTONE'', ''BX''), (''MARVELL'', ''MRVL''), (''ROCKET-LAB'', ''RKLB''), (''ROCKETLAB'', ''RKLB''),
     (''VOLATILITY'', ''VOL''), (''COINBASE-PRE-IPO'', ''CBRS''), (''COINBASEPREIPO'', ''CBRS''), (''BRAZIL-ETF'', ''EWZ''),
     (''BRAZILETF'', ''EWZ''), (''ZOOM'', ''ZM''), (''NIFTY-50'', ''NIFTY''), (''NIFTY50'', ''NIFTY''),
     (''TAIWAN-ETF'', ''EWT''), (''TAIWANETF'', ''EWT''), (''SPACEX-PRE-IPO'', ''SPCX''), (''SPACEXPREIPO'', ''SPCX''),
     (''IBOVESPA'', ''IBOV'')]"

definition StockPerpsSymbols :: "gostring list" where
  "StockPerpsSymbols =
    [''TSLA'', ''AAPL'', ''NVDA'', ''MSFT'', ''META'', ''AMZN'', ''GOOGL'', ''AMD'', ''COIN'', ''NFLX'',
     ''PLTR'', ''HOOD'', ''INTC'', ''MSTR'', ''TSM'', ''ORCL'', ''MU'', ''RIVN'', ''COST'', ''LLY'',
     ''CRCL'', ''SKHX'', ''SNDK'']"

definition XYZOtherSymbols :: "gostring list" where
  "XYZOtherSymbols = [''GOLD'', ''SILVER'', ''EUR'', ''JPY'', ''XYZ100'']"

text \<open>The \<open>strings.NewReplacer\<close> of \<open>NormalizeXYZAlias\<close>.\<close>

definition compact_char :: "char \<Rightarrow> gostring" where
  "compact_char c = (if c \<in> set '' _./'' then [] else if c = CHR ''&'' then ''AND'' else [c])"

definition NormalizeXYZAlias :: "gostring \<Rightarrow> gostring" where
  "NormalizeXYZAlias base0 =
     (let base = trim_suffix (trim_suffix (trim_prefix (to_upper (trim_space base0)) ''XYZ:'') ''-USDC'') ''-USD''
      in case map_of XYZDisplayNameToCoin base of Some c \<Rightarrow> c
         | None \<Rightarrow> (case map_of XYZDisplayNameToCoin (concat (map compact_char base)) of Some c \<Rightarrow> c | None \<Rightarrow> base))"

definition NormalizeCoinBase :: "gostring \<Rightarrow> gostring" where
  "NormalizeCoinBase symbol0 =
     (let symbol = to_upper (trim_space symbol0) in
      if has_prefix symbol ''XYZ:'' then NormalizeXYZAlias (trim_prefix symbol ''XYZ:'')
      else if has_suffix symbol ''-USDC'' then NormalizeXYZAlias (trim_suffix symbol ''-USDC'')
      else if has_suffix symbol ''USDT'' then trim_suffix symbol ''USDT''
      else if has_suffix symbol ''USD'' then trim_suffix symbol ''USD''
      else NormalizeXYZAlias symbol)"

definition IsStockPerp :: "gostring \<Rightarrow> bool" where
  "IsStockPerp symbol \<longleftrightarrow> NormalizeCoinBase symbol \<in> set StockPerpsSymbols"

definition IsXYZAsset :: "gostring \<Rightarrow> bool" where
  "IsXYZAsset symbol \<longleftrightarrow>
     (let trimmed = to_upper (trim_space symbol) in
      has_prefix (to_lower trimmed) ''xyz:'' \<or> has_suffix trimmed ''-USDC'' \<or>
      (let coin = NormalizeCoinBase symbol
       in coin \<in> set StockPerpsSymbols \<or> coin \<in> set XYZOtherSymbols \<or> coin \<in> snd ` set XYZDisplayNameToCoin))"

definition FormatCoinForAPI :: "gostring \<Rightarrow> gostring" where
  "FormatCoinForAPI symbol =
     (let trimmed = trim_space symbol; base = NormalizeCoinBase symbol in
      if has_prefix (to_lower trimmed) ''xyz:'' \<or> has_suffix (to_upper trimmed) ''-USDC'' \<or> IsXYZAsset base
      then ''xyz:'' @ base else base)"

section \<open>Normalised symbols\<close>

definition xyzDexAssets :: "gostring list" where
  "xyzDexAssets =
    [''TSLA'', ''NVDA'', ''AAPL'', ''MSFT'', ''META'', ''AMZN'', ''GOOGL'', ''AMD'', ''COIN'', ''NFLX'',
     ''PLTR'', ''HOOD'', ''INTC'', ''MSTR'', ''TSM'', ''ORCL'', ''MU'', ''RIVN'', ''COST'', ''LLY'',
     ''CRCL'', ''SKHX'', ''SNDK'', ''EUR'', ''JPY'', ''GOLD'', ''SILVER'', ''XYZ100'']"

text \<open>The suffix loop of \<open>IsXyzDexAsset\<close>: the first that fits is cut off.\<close>

definition strip_quote :: "gostring list \<Rightarrow> gostring \<Rightarrow> gostring" where
  "strip_quote sufs s = (case find (has_suffix s) sufs of None \<Rightarrow> s | Some p \<Rightarrow> trim_suffix s p)"

definition IsXyzDexAsset :: "gostring \<Rightarrow> bool" where
  "IsXyzDexAsset symbol \<longleftrightarrow>
     (let base = to_upper symbol in
      if has_suffix base ''-USDC'' \<or> has_prefix (to_lower base) ''xyz:'' then IsXYZAsset base
      else
        let base = strip_quote [''USDT'', ''USD'', ''-USDC''] (trim_prefix base ''XYZ:'')
        in base \<in> set xyzDexAssets \<or> IsXYZAsset base)"

definition Normalize :: "gostring \<Rightarrow> gostring" where
  "Normalize symbol0 =
     (let symbol = to_upper symbol0 in
      if has_suffix symbol ''-USDC'' \<or> IsXyzDexAsset symbol then FormatCoinForAPI symbol
      else
        let symbol = replace_all ''-'' '''' (replace_all ''-SWAP'' '''' (replace_all ''_'' '''' symbol))
        in if has_suffix symbol ''USDT'' then symbol else symbol @ ''USDT'')"

section \<open>Keys of the trading universe\<close>

definition normalizeUniverseSymbol :: "gostring \<Rightarrow> gostring" where
  "normalizeUniverseSymbol symbol = Normalize (trim_space symbol)"

text \<open>The loop cuts a quote suffix only where something is left before it.\<close>

definition strip_quote_proper :: "gostring list \<Rightarrow> gostring \<Rightarrow> gostring" where
  "strip_quote_proper sufs s =
     (case find (\<lambda>p. has_suffix s p \<and> length s > length p) sufs of None \<Rightarrow> s | Some p \<Rightarrow> trim_suffix s p)"

definition universeBaseKey :: "gostring \<Rightarrow> gostring" where
  "universeBaseKey symbol =
     (let s = to_upper (trim_space symbol) in
      if s = '''' then ''''
      else NormalizeXYZAlias
        (strip_quote_proper [''-USDC'', ''-USDT'', ''USDC'', ''USDT'', ''USD''] (trim_prefix s ''XYZ:'')))"

lemma symbol_examples:
  "Normalize ''btcusdt'' = ''BTCUSDT'' \<and> Normalize ''BTC-USDT-SWAP'' = ''BTCUSDT'' \<and> Normalize ''eth'' = ''ETHUSDT''"
  "Normalize ''TSLA'' = ''xyz:TSLA'' \<and> Normalize ''tesla-usdc'' = ''xyz:TSLA'' \<and> universeBaseKey ''QNT-USDC'' = ''QNT''"
  by code_simp+

lemma Normalize_BTC [simp]: "Normalize ''BTCUSDT'' = ''BTCUSDT''" "Normalize ''ETHUSDT'' = ''ETHUSDT''"
  by code_simp+

end
