(* ===== verification/Fut_Positions.thy ===== *)
theory Fut_Positions
  imports Sim_Persist Symbols
begin

text \<open>
  \<open>store/position.go\<close> and \<open>store/position_builder.go\<close>: the positions of the futures trader as rows of
  \<open>trader_positions\<close>, how a trade opens, enlarges, reduces or closes one, and the rounding applied to
  quantities and prices.  Times are Unix milliseconds; \<open>now\<close> is the clock.
\<close>

section \<open>Rounding\<close>

definition min_magnitude :: "f64 \<Rightarrow> f64 list \<Rightarrow> f64" where
  "min_magnitude price refs = foldl (\<lambda>m r. if r > 0 \<and> r < m then r else m) \<bar>price\<bar> refs"

definition price_multiplier :: "f64 \<Rightarrow> f64" where
  "price_multiplier m =
     (if m < fl (1 / 10 ^ 6) then Fin (10 ^ 15)
      else if m < fl (1 / 10 ^ 4) then Fin (10 ^ 12)
      else if m < fl (1 / 10 ^ 2) then Fin (10 ^ 10)
      else if m < 1 then Fin (10 ^ 8)
      else Fin (10 ^ 6))"

definition adaptivePriceRound :: "f64 \<Rightarrow> f64 list \<Rightarrow> f64" where
  "adaptivePriceRound price refs =
     (if feq price 0 then 0
      else let k = price_multiplier (min_magnitude price refs) in fround (price * k) / k)"

text \<open>Quantities keep four decimals.\<close>

definition round4 :: "f64 \<Rightarrow> f64" where
  "round4 x = fround (x * Fin 10000) / Fin 10000"

definition QUANTITY_TOLERANCE :: f64 where
  "QUANTITY_TOLERANCE = fl (1 / 10000)"

definition quantitiesMatch :: "f64 \<Rightarrow> f64 \<Rightarrow> bool" where
  "quantitiesMatch a b \<longleftrightarrow> \<bar>a - b\<bar> < QUANTITY_TOLERANCE"

section \<open>Rows\<close>

record trader_position =
  po_ID :: int
  po_TraderID :: gostring
  po_ExchangeID :: gostring
  po_ExchangeType :: gostring
  po_ExchangePositionID :: gostring
  po_Symbol :: gostring
  po_Side :: gostring
  po_EntryQuantity :: f64
  po_Quantity :: f64
  po_EntryPrice :: f64
  po_EntryOrderID :: gostring
  po_EntryTime :: int
  po_ExitPrice :: f64
  po_ExitOrderID :: gostring
  po_ExitTime :: int
  po_RealizedPnL :: f64
  po_Fee :: f64
  po_Leverage :: int
  po_Status :: gostring
  po_CloseReason :: gostring
  po_Source :: gostring
  po_CreatedAt :: int
  po_UpdatedAt :: int

definition zero_position :: trader_position where
  "zero_position = \<lparr>po_ID = 0, po_TraderID = '''', po_ExchangeID = '''', po_ExchangeType = '''', po_ExchangePositionID = '''',
     po_Symbol = '''', po_Side = '''', po_EntryQuantity = 0, po_Quantity = 0, po_EntryPrice = 0, po_EntryOrderID = '''',
     po_EntryTime = 0, po_ExitPrice = 0, po_ExitOrderID = '''', po_ExitTime = 0, po_RealizedPnL = 0, po_Fee = 0,
     po_Leverage = 0, po_Status = '''', po_CloseReason = '''', po_Source = '''', po_CreatedAt = 0, po_UpdatedAt = 0\<rparr>"

text \<open>
  The table, whose order is that of the entry times, and the queries that order closed positions by
  their exit times (newest first or oldest first, with a limit).
\<close>

record 'd pos_db =
  px_Rows :: "('d, trader_position) table"
  px_Closed :: "'d \<Rightarrow> (trader_position \<Rightarrow> bool) \<Rightarrow> bool \<Rightarrow> int option \<Rightarrow> perr + trader_position list"

definition wrap :: "gostring \<Rightarrow> perr option \<times> 'd \<Rightarrow> perr option \<times> 'd" where
  "wrap msg r = (map_option (WrapErr msg) (fst r), snd r)"

definition fix_entry :: "trader_position \<Rightarrow> trader_position" where
  "fix_entry p = (if feq (po_EntryQuantity p) 0 then p\<lparr>po_EntryQuantity := po_Quantity p\<rparr> else p)"

section \<open>Operations\<close>

definition CreatePosition :: "'d pos_db \<Rightarrow> trader_position \<Rightarrow> 'd \<Rightarrow> perr option \<times> 'd" where
  "CreatePosition db p d = tb_Create (px_Rows db) d (fix_entry (p\<lparr>po_Status := ''OPEN''\<rparr>))"

definition update_position ::
  "'d pos_db \<Rightarrow> int \<Rightarrow> (trader_position \<Rightarrow> trader_position) \<Rightarrow> 'd \<Rightarrow> perr option \<times> 'd" where
  "update_position db i u d = tb_Update (px_Rows db) d (\<lambda>r. po_ID r = i) u"

definition ClosePosition ::
  "'d pos_db \<Rightarrow> int \<Rightarrow> int \<Rightarrow> f64 \<Rightarrow> gostring \<Rightarrow> f64 \<Rightarrow> f64 \<Rightarrow> gostring \<Rightarrow> 'd \<Rightarrow> perr option \<times> 'd" where
  "ClosePosition db now i price oid pnl fee reason = update_position db i
     (\<lambda>r. r\<lparr>po_ExitPrice := price, po_ExitOrderID := oid, po_ExitTime := now, po_RealizedPnL := pnl, po_Fee := fee,
        po_Status := ''CLOSED'', po_CloseReason := reason, po_UpdatedAt := now\<rparr>)"

text \<open>Operations that read the row first.\<close>

definition with_position ::
  "'d pos_db \<Rightarrow> gostring \<Rightarrow> int \<Rightarrow> (trader_position \<Rightarrow> 'd \<Rightarrow> perr option \<times> 'd) \<Rightarrow> 'd \<Rightarrow> perr option \<times> 'd" where
  "with_position db msg i f d =
     (case tb_First (px_Rows db) d (\<lambda>r. po_ID r = i) of
        Inl e \<Rightarrow> (Some (WrapErr msg e), d)
      | Inr None \<Rightarrow> (Some (WrapErr msg not_found), d)
      | Inr (Some pos) \<Rightarrow> f pos d)"

definition entry_quantity :: "trader_position \<Rightarrow> f64" where
  "entry_quantity pos = (if feq (po_EntryQuantity pos) 0 then po_Quantity pos else po_EntryQuantity pos)"

definition averaged_price :: "trader_position \<Rightarrow> f64 \<Rightarrow> f64 \<Rightarrow> f64" where
  "averaged_price pos q p =
     adaptivePriceRound ((po_EntryPrice pos * po_Quantity pos + p * q) / round4 (po_Quantity pos + q)) [po_EntryPrice pos, p]"

definition UpdatePositionQuantityAndPrice ::
  "'d pos_db \<Rightarrow> int \<Rightarrow> int \<Rightarrow> f64 \<Rightarrow> f64 \<Rightarrow> f64 \<Rightarrow> 'd \<Rightarrow> perr option \<times> 'd" where
  "UpdatePositionQuantityAndPrice db now i q p fee =
     with_position db ''failed to get current position'' i (\<lambda>pos. update_position db i
       (\<lambda>r. r\<lparr>po_Quantity := round4 (po_Quantity pos + q), po_EntryQuantity := round4 (entry_quantity pos + q),
          po_EntryPrice := averaged_price pos q p, po_Fee := po_Fee pos + fee, po_UpdatedAt := now\<rparr>))"

text \<open>The exit price is the average of what has been closed so far.\<close>

definition reduced_exit :: "trader_position \<Rightarrow> f64 \<Rightarrow> f64 \<Rightarrow> f64" where
  "reduced_exit pos q p =
     (let closed = po_EntryQuantity pos - po_Quantity pos; total = closed + q in
      if total > 0 then adaptivePriceRound ((po_ExitPrice pos * closed + p * q) / total) [po_ExitPrice pos, p, po_EntryPrice pos]
      else 0)"

definition ReducePositionQuantity ::
  "'d pos_db \<Rightarrow> int \<Rightarrow> int \<Rightarrow> f64 \<Rightarrow> f64 \<Rightarrow> f64 \<Rightarrow> f64 \<Rightarrow> 'd \<Rightarrow> perr option \<times> 'd" where
  "ReducePositionQuantity db now i q p fee pnl =
     with_position db ''failed to get current position'' i (\<lambda>pos.
       let newQty = round4 (po_Quantity pos - q) in
       update_position db i (\<lambda>r.
         let r = r\<lparr>po_Fee := po_Fee pos + fee, po_ExitPrice := reduced_exit pos q p, po_RealizedPnL := po_RealizedPnL pos + pnl,
               po_UpdatedAt := now\<rparr>
         in if newQty \<le> QUANTITY_TOLERANCE
            then r\<lparr>po_Quantity := 0, po_Status := ''CLOSED'', po_ExitTime := now, po_CloseReason := ''sync''\<rparr>
            else r\<lparr>po_Quantity := newQty\<rparr>))"

definition UpdatePositionExchangeInfo :: "'d pos_db \<Rightarrow> int \<Rightarrow> int \<Rightarrow> gostring \<Rightarrow> gostring \<Rightarrow> 'd \<Rightarrow> perr option \<times> 'd" where
  "UpdatePositionExchangeInfo db now i exid ext =
     update_position db i (\<lambda>r. r\<lparr>po_ExchangeID := exid, po_ExchangeType := ext, po_UpdatedAt := now\<rparr>)"

definition ClosePositionFully ::
  "'d pos_db \<Rightarrow> int \<Rightarrow> int \<Rightarrow> f64 \<Rightarrow> gostring \<Rightarrow> int \<Rightarrow> f64 \<Rightarrow> f64 \<Rightarrow> gostring \<Rightarrow> 'd \<Rightarrow> perr option \<times> 'd" where
  "ClosePositionFully db now i price oid exitMs pnl fee reason =
     with_position db ''failed to get position'' i (\<lambda>pos. update_position db i
       (\<lambda>r. r\<lparr>po_Quantity := (if po_EntryQuantity pos > 0 then po_EntryQuantity pos else po_Quantity pos),
          po_ExitPrice := price, po_ExitOrderID := oid, po_ExitTime := exitMs, po_RealizedPnL := pnl, po_Fee := fee,
          po_Status := ''CLOSED'', po_CloseReason := reason, po_UpdatedAt := now\<rparr>))"

definition ClosePositionWithAccurateData ::
  "'d pos_db \<Rightarrow> int \<Rightarrow> int \<Rightarrow> f64 \<Rightarrow> gostring \<Rightarrow> int \<Rightarrow> f64 \<Rightarrow> f64 \<Rightarrow> gostring \<Rightarrow> 'd \<Rightarrow> perr option \<times> 'd" where
  "ClosePositionWithAccurateData db now i price oid exitMs pnl fee reason = update_position db i
     (\<lambda>r. r\<lparr>po_ExitPrice := price, po_ExitOrderID := oid, po_ExitTime := exitMs, po_RealizedPnL := pnl, po_Fee := fee,
        po_Status := ''CLOSED'', po_CloseReason := reason, po_UpdatedAt := now\<rparr>)"

definition DeleteAllOpenPositions :: "'d pos_db \<Rightarrow> gostring \<Rightarrow> 'd \<Rightarrow> perr option \<times> 'd" where
  "DeleteAllOpenPositions db tid d = tb_Delete (px_Rows db) d (\<lambda>r. po_TraderID r = tid \<and> po_Status r = ''OPEN'')"

section \<open>Queries\<close>

definition open_of :: "gostring \<Rightarrow> trader_position \<Rightarrow> bool" where
  "open_of tid r \<longleftrightarrow> po_TraderID r = tid \<and> po_Status r = ''OPEN''"

definition GetOpenPositions :: "'d pos_db \<Rightarrow> gostring \<Rightarrow> 'd \<Rightarrow> perr + trader_position list" where
  "GetOpenPositions db tid d =
     (case tb_List (px_Rows db) d (open_of tid) True 0 None of
        Inl e \<Rightarrow> Inl (WrapErr ''failed to query open positions'' e) | Inr rs \<Rightarrow> Inr (map fix_entry rs))"

text \<open>\<open>Where(...).Order("entry_time DESC").First\<close>: the newest of the matching rows.\<close>

definition newest :: "'d pos_db \<Rightarrow> (trader_position \<Rightarrow> bool) \<Rightarrow> 'd \<Rightarrow> perr + trader_position option" where
  "newest db p d =
     (case tb_List (px_Rows db) d p True 0 (Some 1) of Inl e \<Rightarrow> Inl e | Inr [] \<Rightarrow> Inr None | Inr (r # _) \<Rightarrow> Inr (Some r))"

definition open_key :: "gostring \<Rightarrow> gostring \<Rightarrow> gostring \<Rightarrow> trader_position \<Rightarrow> bool" where
  "open_key tid sy side r \<longleftrightarrow> po_TraderID r = tid \<and> po_Symbol r = sy \<and> po_Side r = side \<and> po_Status r = ''OPEN''"

text \<open>
  A row is looked for under the symbol and then, for rows of older versions, without its \<open>USDT\<close>.  An
  error of the second query is taken for no row.
\<close>

definition GetOpenPositionBySymbol ::
  "'d pos_db \<Rightarrow> gostring \<Rightarrow> gostring \<Rightarrow> gostring \<Rightarrow> 'd \<Rightarrow> perr + trader_position option" where
  "GetOpenPositionBySymbol db tid sy side d =
     (case newest db (open_key tid sy side) d of
        Inl e \<Rightarrow> Inl e
      | Inr (Some r) \<Rightarrow> Inr (Some (fix_entry r))
      | Inr None \<Rightarrow>
          if has_suffix sy ''USDT'' then
            (case newest db (open_key tid (trim_suffix sy ''USDT'') side) d of
               Inr (Some r) \<Rightarrow> Inr (Some (fix_entry r)) | _ \<Rightarrow> Inr None)
          else Inr None)"

definition closed_of :: "gostring \<Rightarrow> trader_position \<Rightarrow> bool" where
  "closed_of tid r \<longleftrightarrow> po_TraderID r = tid \<and> po_Status r = ''CLOSED''"

definition GetClosedPositions :: "'d pos_db \<Rightarrow> gostring \<Rightarrow> int \<Rightarrow> 'd \<Rightarrow> perr + trader_position list" where
  "GetClosedPositions db tid limit d =
     (case px_Closed db d (closed_of tid) True (Some limit) of
        Inl e \<Rightarrow> Inl (WrapErr ''failed to query closed positions'' e) | Inr rs \<Rightarrow> Inr (map fix_entry rs))"

definition exchange_key :: "gostring \<Rightarrow> gostring \<Rightarrow> trader_position \<Rightarrow> bool" where
  "exchange_key exid pid r \<longleftrightarrow> po_ExchangeID r = exid \<and> po_ExchangePositionID r = pid"

text \<open>The code counts the matching rows; the number found tells the same.\<close>

definition ExistsWithExchangePositionID :: "'d pos_db \<Rightarrow> gostring \<Rightarrow> gostring \<Rightarrow> 'd \<Rightarrow> perr + bool" where
  "ExistsWithExchangePositionID db exid pid d =
     (if pid = '''' then Inr False
      else case tb_Find (px_Rows db) d (exchange_key exid pid) of
        Inl e \<Rightarrow> Inl (WrapErr ''failed to check position existence'' e) | Inr rs \<Rightarrow> Inr (rs \<noteq> []))"

definition GetOpenPositionByExchangePositionID ::
  "'d pos_db \<Rightarrow> gostring \<Rightarrow> gostring \<Rightarrow> 'd \<Rightarrow> perr + trader_position option" where
  "GetOpenPositionByExchangePositionID db exid pid d =
     (if pid = '''' then Inr None
      else case tb_First (px_Rows db) d (\<lambda>r. exchange_key exid pid r \<and> po_Status r = ''OPEN'') of
        Inl e \<Rightarrow> Inl e | Inr r \<Rightarrow> Inr (map_option fix_entry r))"

section \<open>Creating an open position\<close>

fun unique_violation :: "perr \<Rightarrow> bool" where
  "unique_violation (OtherErr s) \<longleftrightarrow> contains s ''UNIQUE constraint failed''"
| "unique_violation _ \<longleftrightarrow> False"

definition opened_row :: "trader_position \<Rightarrow> trader_position" where
  "opened_row p =
     (let p = (if po_Status p = '''' then p\<lparr>po_Status := ''OPEN''\<rparr> else p);
          p = (if po_Source p = '''' then p\<lparr>po_Source := ''system''\<rparr> else p)
      in fix_entry p)"

text \<open>\<open>insert_open\<close> is what follows the checks: insert, or merge if the row turns out to be there.\<close>

definition insert_open :: "'d pos_db \<Rightarrow> int \<Rightarrow> trader_position \<Rightarrow> 'd \<Rightarrow> perr option \<times> 'd" where
  "insert_open db now p0 d =
     (let p = opened_row p0 in
      case tb_Create (px_Rows db) d p of
        (None, d) \<Rightarrow> (None, d)
      | (Some e, d) \<Rightarrow>
          if unique_violation e then
            (case GetOpenPositionByExchangePositionID db (po_ExchangeID p) (po_ExchangePositionID p) d of
               Inl fe \<Rightarrow> (Some fe, d)
             | Inr None \<Rightarrow> (None, d)
             | Inr (Some q) \<Rightarrow> UpdatePositionQuantityAndPrice db now (po_ID q) (po_Quantity p) (po_EntryPrice p) (po_Fee p) d)
          else (Some (WrapErr ''failed to create open position'' e), d))"

definition CreateOpenPosition :: "'d pos_db \<Rightarrow> int \<Rightarrow> trader_position \<Rightarrow> 'd \<Rightarrow> perr option \<times> 'd" where
  "CreateOpenPosition db now p d =
     (if po_ExchangePositionID p \<noteq> '''' \<and> po_ExchangeID p \<noteq> '''' then
        (case GetOpenPositionByExchangePositionID db (po_ExchangeID p) (po_ExchangePositionID p) d of
           Inl e \<Rightarrow> (Some e, d)
         | Inr (Some q) \<Rightarrow> UpdatePositionQuantityAndPrice db now (po_ID q) (po_Quantity p) (po_EntryPrice p) (po_Fee p) d
         | Inr None \<Rightarrow>
             (case ExistsWithExchangePositionID db (po_ExchangeID p) (po_ExchangePositionID p) d of
                Inl e \<Rightarrow> (Some e, d)
              | Inr True \<Rightarrow> (None, d)
              | Inr False \<Rightarrow> insert_open db now p d))
      else insert_open db now p d)"

section \<open>Trades\<close>

text \<open>One trade of an account: where it happened, what it traded and for which order.\<close>

record ptrade =
  pt_TraderID :: gostring
  pt_ExchangeID :: gostring
  pt_ExchangeType :: gostring
  pt_Symbol :: gostring
  pt_Side :: gostring
  pt_Action :: gostring
  pt_Quantity :: f64
  pt_Price :: f64
  pt_Fee :: f64
  pt_RealizedPnL :: f64
  pt_Time :: int
  pt_OrderID :: gostring

definition sync_position :: "int \<Rightarrow> ptrade \<Rightarrow> trader_position" where
  "sync_position now t = zero_position\<lparr>po_TraderID := pt_TraderID t, po_ExchangeID := pt_ExchangeID t,
     po_ExchangeType := pt_ExchangeType t,
     po_ExchangePositionID := ''sync_'' @ pt_Symbol t @ ''_'' @ pt_Side t @ ''_'' @ itoa (pt_Time t),
     po_Symbol := pt_Symbol t, po_Side := pt_Side t, po_Quantity := pt_Quantity t, po_EntryPrice := pt_Price t,
     po_EntryOrderID := pt_OrderID t, po_EntryTime := pt_Time t, po_Leverage := 1, po_Status := ''OPEN'',
     po_Source := ''sync'', po_Fee := pt_Fee t, po_CreatedAt := now, po_UpdatedAt := now\<rparr>"

definition handleOpen :: "'d pos_db \<Rightarrow> int \<Rightarrow> ptrade \<Rightarrow> 'd \<Rightarrow> perr option \<times> 'd" where
  "handleOpen db now t d =
     (case GetOpenPositionBySymbol db (pt_TraderID t) (pt_Symbol t) (pt_Side t) d of
        Inl e \<Rightarrow> (Some (WrapErr ''failed to get open position'' e), d)
      | Inr None \<Rightarrow> CreateOpenPosition db now (sync_position now t) d
      | Inr (Some q) \<Rightarrow>
          let d = (if po_ExchangeID q = '''' \<or> po_ExchangeType q = ''''
                   then snd (UpdatePositionExchangeInfo db now (po_ID q) (pt_ExchangeID t) (pt_ExchangeType t) d) else d)
          in UpdatePositionQuantityAndPrice db now (po_ID q) (pt_Quantity t) (pt_Price t) (pt_Fee t) d)"

text \<open>The profit of a closing trade that brings none, rounded to cents.\<close>

definition close_pnl :: "ptrade \<Rightarrow> trader_position \<Rightarrow> f64" where
  "close_pnl t q =
     (if feq (pt_RealizedPnL t) 0 \<and> po_EntryPrice q > 0 then
        (let pnl = (if pt_Side t = ''LONG'' then (pt_Price t - po_EntryPrice q) * pt_Quantity t
                    else (po_EntryPrice q - pt_Price t) * pt_Quantity t)
         in fround (pnl * Fin 100) / Fin 100)
      else pt_RealizedPnL t)"

definition final_exit_price :: "ptrade \<Rightarrow> trader_position \<Rightarrow> f64" where
  "final_exit_price t q =
     (let closeQty = (if pt_Quantity t > po_Quantity q then po_Quantity q else pt_Quantity t);
          before = po_EntryQuantity q - po_Quantity q; total = before + closeQty
      in if total > 0 then adaptivePriceRound ((po_ExitPrice q * before + pt_Price t * closeQty) / total)
           [po_ExitPrice q, pt_Price t, po_EntryPrice q]
         else pt_Price t)"

definition handleClose :: "'d pos_db \<Rightarrow> int \<Rightarrow> ptrade \<Rightarrow> 'd \<Rightarrow> perr option \<times> 'd" where
  "handleClose db now t d =
     (case GetOpenPositionBySymbol db (pt_TraderID t) (pt_Symbol t) (pt_Side t) d of
        Inl e \<Rightarrow> (Some (WrapErr ''failed to get open position'' e), d)
      | Inr None \<Rightarrow> (None, d)
      | Inr (Some q) \<Rightarrow>
          if pt_Quantity t < po_Quantity q - QUANTITY_TOLERANCE then
            ReducePositionQuantity db now (po_ID q) (pt_Quantity t) (pt_Price t) (pt_Fee t) (close_pnl t q) d
          else ClosePositionFully db now (po_ID q) (final_exit_price t q) (pt_OrderID t) (pt_Time t)
            (po_RealizedPnL q + close_pnl t q) (po_Fee q + pt_Fee t) ''sync'' d)"

definition ProcessTrade :: "'d pos_db \<Rightarrow> int \<Rightarrow> ptrade \<Rightarrow> 'd \<Rightarrow> perr option \<times> 'd" where
  "ProcessTrade db now t d =
     (if has_prefix (pt_Action t) ''open_'' then handleOpen db now t d
      else if has_prefix (pt_Action t) ''close_'' then handleClose db now t d
      else (None, d))"

section \<open>One open row per position\<close>

definition pos_key :: "trader_position \<Rightarrow> gostring \<times> gostring \<times> gostring" where
  "pos_key r = (po_TraderID r, po_Symbol r, po_Side r)"

definition open_keys :: "trader_position list \<Rightarrow> (gostring \<times> gostring \<times> gostring) list" where
  "open_keys rs = map pos_key (filter (\<lambda>r. po_Status r = ''OPEN'') rs)"

definition one_open :: "trader_position list \<Rightarrow> bool" where
  "one_open rs \<longleftrightarrow> distinct (open_keys rs)"

text \<open>
  What is relied on: queries and updates do what they say, and creating a row, whatever it fills in,
  keeps the trader, the symbol and the side.
\<close>

definition pos_db_ok :: "'d pos_db \<Rightarrow> ('d \<Rightarrow> trader_position list) \<Rightarrow> bool" where
  "pos_db_ok db rows \<longleftrightarrow> list_law (px_Rows db) rows po_EntryTime \<and> update_law (px_Rows db) rows \<and>
     (\<exists>fill. create_law (px_Rows db) rows fill \<and> (\<forall>d r. pos_key (fill d r) = pos_key r))"

lemma one_open_mset: "mset ys = mset xs \<Longrightarrow> one_open ys \<longleftrightarrow> one_open xs"
  unfolding one_open_def by (rule mset_eq_imp_distinct_iff) (simp add: open_keys_def)

lemma one_open_map:
  assumes "\<And>x. pos_key (g x) = pos_key x" "\<And>x. po_Status (g x) = ''OPEN'' \<Longrightarrow> po_Status x = ''OPEN''" "one_open xs"
  shows "one_open (map g xs)"
proof -
  have "set (open_keys (map g xs)) \<subseteq> set (open_keys xs) \<and> distinct (open_keys (map g xs))"
    using assms(3)
  proof (induction xs)
    case (Cons x xs)
    then show ?case using assms(1,2) [of x] by (auto simp: one_open_def open_keys_def split: if_splits)
  qed (simp add: open_keys_def)
  then show ?thesis by (simp add: one_open_def)
qed

lemma one_open_update:
  assumes law: "update_law T rows" and u: "\<And>x. pos_key (u x) = pos_key x" "\<And>x. po_Status (u x) = ''OPEN'' \<Longrightarrow> po_Status x = ''OPEN''"
    and one: "one_open (rows d)"
  shows "one_open (rows (snd (tb_Update T d p u)))"
proof (cases "tb_Update T d p u")
  case (Pair e d')
  then show ?thesis
  proof (cases e)
    case None
    then have "tb_Update T d p u = (None, d')" using Pair by simp
    from update_lawD [OF law this]
    have "mset (rows d') = mset (map (\<lambda>x. if p x then u x else x) (rows d))" .
    moreover have "one_open (map (\<lambda>x. if p x then u x else x) (rows d))"
    proof (rule one_open_map [OF _ _ one])
      show "pos_key (if p x then u x else x) = pos_key x" for x by (simp add: u(1))
      show "po_Status x = ''OPEN''" if "po_Status (if p x then u x else x) = ''OPEN''" for x
      proof (cases "p x")
        case True
        then have "po_Status (u x) = ''OPEN''" using that by (simp only: if_True)
        then show ?thesis by (rule u(2))
      next
        case False
        then show ?thesis using that by (simp only: if_False)
      qed
    qed
    ultimately have "one_open (rows d')" by (blast dest: one_open_mset)
    then show ?thesis using Pair by simp
  next
    case (Some e)
    then have "mset (rows d') = mset (rows d)" using law [unfolded update_law_def, rule_format, OF Pair] by simp
    then have "one_open (rows d')" using one by (blast dest: one_open_mset)
    then show ?thesis using Pair by simp
  qed
qed

lemma position_updates_one_open:
  assumes "update_law (px_Rows db) rows" "one_open (rows d)"
  shows "one_open (rows (snd (UpdatePositionQuantityAndPrice db now i q p fee d)))"
    "one_open (rows (snd (ReducePositionQuantity db now i q p fee pnl d)))"
    "one_open (rows (snd (UpdatePositionExchangeInfo db now i ex ty d)))"
    "one_open (rows (snd (ClosePositionFully db now i p oid ms pnl fee why d)))"
  using assms
  by (auto simp: UpdatePositionQuantityAndPrice_def ReducePositionQuantity_def UpdatePositionExchangeInfo_def
      ClosePositionFully_def with_position_def update_position_def pos_key_def Let_def
      intro!: one_open_update split: sum.split option.split if_splits)

lemma newest_None:
  assumes "list_law (px_Rows db) rows po_EntryTime" "newest db p d = Inr None"
  shows "filter p (rows d) = []"
proof -
  have l: "tb_List (px_Rows db) d p True 0 (Some 1) = Inr []"
    using assms(2) by (auto simp: newest_def split: sum.splits list.splits)
  then obtain ss where "mset ss = mset (filter p (rows d))" "[] = take (nat 1) (drop (nat 0) ss)"
    using assms(1) unfolding list_law_def by (metis (no_types, lifting) option.simps(5))
  then show ?thesis by (cases ss) auto
qed

lemma lookup_None:
  assumes "list_law (px_Rows db) rows po_EntryTime" "GetOpenPositionBySymbol db tid sy side d = Inr None"
  shows "(tid, sy, side) \<notin> set (open_keys (rows d))"
proof -
  have "newest db (open_key tid sy side) d = Inr None"
    using assms(2) by (auto simp: GetOpenPositionBySymbol_def split: sum.splits option.splits)
  from newest_None [OF assms(1) this] show ?thesis
    by (auto simp: open_keys_def pos_key_def open_key_def filter_empty_conv)
qed

lemma one_open_create:
  assumes law: "create_law T rows fill" and k: "\<And>d r. pos_key (fill d r) = pos_key r"
    and new: "pos_key r \<notin> set (open_keys (rows d))" and one: "one_open (rows d)"
  shows "one_open (rows (snd (tb_Create T d r)))"
proof -
  obtain e d' where c: "tb_Create T d r = (e, d')" by (cases "tb_Create T d r")
  have "one_open (fill d r # rows d)" using new one by (auto simp: one_open_def open_keys_def k)
  moreover have "mset (rows d') = (if e = None then add_mset (fill d r) (mset (rows d)) else mset (rows d))"
    using law c unfolding create_law_def by blast
  then have "mset (rows d') = mset (fill d r # rows d) \<or> mset (rows d') = mset (rows d)" by (cases e) simp_all
  ultimately have "one_open (rows d')" using one by (metis one_open_mset)
  then show ?thesis using c by simp
qed

lemma create_open_one_open:
  assumes ok: "pos_db_ok db rows" and new: "pos_key p \<notin> set (open_keys (rows d))" and one: "one_open (rows d)"
  shows "one_open (rows (snd (CreateOpenPosition db now p d)))"
proof -
  obtain fill where laws: "update_law (px_Rows db) rows" "create_law (px_Rows db) rows fill" "\<And>d r. pos_key (fill d r) = pos_key r"
    using ok by (auto simp: pos_db_ok_def)
  have "pos_key (opened_row p) = pos_key p" by (simp add: opened_row_def fix_entry_def pos_key_def Let_def)
  then have ins: "one_open (rows (snd (tb_Create (px_Rows db) d (opened_row p))))"
    using one_open_create [OF laws(2,3)] new one by simp
  have "one_open (rows (snd (insert_open db now p d)))"
    using ins position_updates_one_open(1) [OF laws(1)]
    by (auto simp: insert_open_def Let_def split: prod.split option.split sum.split)
  then show ?thesis using one position_updates_one_open(1) [OF laws(1) one]
    by (auto simp: CreateOpenPosition_def split: sum.split option.split bool.split)
qed

text \<open>
  C23: trades keep one open row per position.  If the table holds at most one open row for each trader,
  symbol and side, it still does after any sequence of trades, whatever they are and however the
  statements fail.
\<close>

theorem one_open_row:
  assumes ok: "pos_db_ok db rows" and one: "one_open (rows d)"
  shows "one_open (rows (foldl (\<lambda>d (now, t). snd (ProcessTrade db now t d)) d ts))"
  using one
proof (induction ts arbitrary: d)
  case (Cons nt ts)
  obtain now t where nt: "nt = (now, t)" by (cases nt)
  have laws: "list_law (px_Rows db) rows po_EntryTime" "update_law (px_Rows db) rows" using ok by (auto simp: pos_db_ok_def)
  note up = position_updates_one_open [OF laws(2)]
  have "one_open (rows (snd (handleOpen db now t d)))"
  proof (cases "GetOpenPositionBySymbol db (pt_TraderID t) (pt_Symbol t) (pt_Side t) d")
    case (Inr r)
    show ?thesis
    proof (cases r)
      case None
      have "pos_key (sync_position now t) = (pt_TraderID t, pt_Symbol t, pt_Side t)"
        by (simp add: sync_position_def pos_key_def)
      then show ?thesis
        using Inr None create_open_one_open [OF ok _ Cons.prems] lookup_None [OF laws(1)] by (simp add: handleOpen_def)
    qed (use Inr up Cons.prems in \<open>simp add: handleOpen_def Let_def\<close>)
  qed (use Cons.prems in \<open>simp add: handleOpen_def\<close>)
  moreover have "one_open (rows (snd (handleClose db now t d)))"
    using up Cons.prems by (auto simp: handleClose_def split: sum.split option.split)
  ultimately have "one_open (rows (snd (ProcessTrade db now t d)))" using Cons.prems by (simp add: ProcessTrade_def)
  then show ?case using Cons.IH nt by simp
qed simp

text \<open>The table as a list.\<close>

definition list_pos_db :: "trader_position list pos_db" where
  "list_pos_db = \<lparr>
     px_Rows = list_table id (\<lambda>xs _. xs) po_EntryTime po_ID
       (\<lambda>d r. r\<lparr>po_ID := 1 + sum_list (map (\<lambda>x. \<bar>po_ID x\<bar>) d), po_Leverage := (if po_Leverage r = 0 then 1 else po_Leverage r)\<rparr>),
     px_Closed = (\<lambda>d p desc lim.
       let ss = (if desc then rev else id) (sort_key po_ExitTime (filter p d))
       in Inr (case lim of None \<Rightarrow> ss | Some n \<Rightarrow> take (nat n) ss))\<rparr>"

lemma list_pos_db_ok: "pos_db_ok list_pos_db id"
  unfolding pos_db_ok_def list_pos_db_def
  by (simp add: list_table_laws [where get = id] pos_key_def exI
      [of _ "\<lambda>d r. r\<lparr>po_ID := 1 + sum_list (map (\<lambda>x. \<bar>po_ID x\<bar>) d), po_Leverage := (if po_Leverage r = 0 then 1 else po_Leverage r)\<rparr>"])

definition btc_trade :: "gostring \<Rightarrow> int \<Rightarrow> ptrade" where
  "btc_trade act ms = \<lparr>pt_TraderID = ''t'', pt_ExchangeID = ''x'', pt_ExchangeType = ''indodax'', pt_Symbol = ''BTCUSDT'',
     pt_Side = ''LONG'', pt_Action = act, pt_Quantity = fl (62 / 100000), pt_Price = Fin 100000, pt_Fee = 0,
     pt_RealizedPnL = 0, pt_Time = ms, pt_OrderID = ''o''\<rparr>"

theorem one_open_row_witness:
  "let db = list_pos_db; step = (\<lambda>d (now, t). snd (ProcessTrade db now t d));
       d = foldl step [] [(10, btc_trade ''open_long'' 5), (20, btc_trade ''open_long'' 15), (30, btc_trade ''close_long'' 25)]
   in one_open d"
proof -
  have "one_open (id [])" by (simp add: one_open_def open_keys_def)
  from one_open_row [OF list_pos_db_ok this] show ?thesis unfolding Let_def id_apply by blast
qed

section \<open>Averaging\<close>

text \<open>
  averaging moves the entry price away from the prices paid.  The cost of both trades is divided by
  their quantity rounded to four decimals: two purchases of 0.00062 at 100000 each are kept as one of
  0.0012 bought at more than 103333.
\<close>

theorem averaging_moves_entry_price:
  "let pos = zero_position\<lparr>po_Quantity := fl (62 / 100000), po_EntryPrice := Fin 100000\<rparr>
   in round4 (po_Quantity pos + fl (62 / 100000)) = fl (12 / 10000) \<and>
      averaged_price pos (fl (62 / 100000)) (Fin 100000) > Fin 103333"
  unfolding Let_def by (simp add: round4_def averaged_price_def adaptivePriceRound_def min_magnitude_def price_multiplier_def
      zero_position_def f64_eval)

end
