(* ===== verification/Fut_Stats.thy ===== *)
theory Fut_Stats
  imports Fut_Positions Go_Time Go_Strconv "HOL-Library.Sublist"
begin

text \<open>
  \<open>store/position_query.go\<close> and \<open>store/position_history.go\<close>: the statistics of closed positions that
  the language model is shown, and closed positions imported from an exchange.
\<close>

section \<open>Square roots\<close>

text \<open>
  \<open>math.Sqrt\<close> is correctly rounded.  A non-negative double times \<open>4^600\<close> is an integer; the root of
  that integer, with half a unit added when it is not exact, rounds the way the real root does.
\<close>

fun isqrt :: "nat \<Rightarrow> nat" where
  "isqrt n = (if n = 0 then 0 else let r = 2 * isqrt (n div 4) in if (r + 1) * (r + 1) \<le> n then r + 1 else r)"

declare isqrt.simps [simp del]

lemma isqrt_correct: "isqrt n * isqrt n \<le> n \<and> n < (isqrt n + 1) * (isqrt n + 1)"
proof (induction n rule: isqrt.induct)
  case (1 n)
  show ?case
  proof (cases "n = 0")
    case False
    define q where "q = isqrt (n div 4)"
    have ih: "q * q \<le> n div 4" "n div 4 < (q + 1) * (q + 1)" using 1 [OF False] by (auto simp: q_def)
    then have "2 * q * (2 * q) \<le> n" "n < (2 * q + 2) * (2 * q + 2)" by (auto simp: algebra_simps)
    then show ?thesis using False by (simp add: isqrt.simps [of n] q_def [symmetric] Let_def)
  qed (simp add: isqrt.simps)
qed

definition fsqrt :: "f64 \<Rightarrow> f64" where
  "fsqrt x = (case x of Fin r \<Rightarrow>
       if r < 0 then NaN
       else let N = nat \<lfloor>r * 4 ^ 600\<rfloor>; q = isqrt N
         in fl ((of_nat q + (if q * q = N then 0 else 1 / 2)) / 2 ^ 600)
     | PInf \<Rightarrow> PInf | _ \<Rightarrow> NaN)"

section \<open>Totals\<close>

definition fsum :: "f64 list \<Rightarrow> f64" where
  "fsum xs = foldl (+) 0 xs"

definition fint :: "int \<Rightarrow> f64" where
  "fint n = fl (of_int n)"

record trader_stats =
  ts_TotalTrades :: int
  ts_WinTrades :: int
  ts_LossTrades :: int
  ts_WinRate :: f64
  ts_ProfitFactor :: f64
  ts_SharpeRatio :: f64
  ts_TotalPnL :: f64
  ts_TotalFee :: f64
  ts_AvgWin :: f64
  ts_AvgLoss :: f64
  ts_MaxDrawdownPct :: f64

definition zero_stats :: trader_stats where
  "zero_stats = \<lparr>ts_TotalTrades = 0, ts_WinTrades = 0, ts_LossTrades = 0, ts_WinRate = 0, ts_ProfitFactor = 0,
     ts_SharpeRatio = 0, ts_TotalPnL = 0, ts_TotalFee = 0, ts_AvgWin = 0, ts_AvgLoss = 0, ts_MaxDrawdownPct = 0\<rparr>"

definition calculateSharpeRatioFromPnls :: "f64 list \<Rightarrow> f64" where
  "calculateSharpeRatioFromPnls pnls =
     (if length pnls < 2 then 0
      else
        let n = int (length pnls); mean = fsum pnls / fint n;
            variance = fsum (map (\<lambda>p. (p - mean) * (p - mean)) pnls);
            dev = fsqrt (variance / fint (n - 1))
        in if feq dev 0 then 0 else mean / dev)"

text \<open>Equity, its peak and the largest drawdown so far.\<close>

definition drawdown_step :: "f64 \<times> f64 \<times> f64 \<Rightarrow> f64 \<Rightarrow> f64 \<times> f64 \<times> f64" where
  "drawdown_step st pnl =
     (let (equity, peak, dd) = st; equity = equity + pnl; peak = (if equity > peak then equity else peak);
          cur = (peak - equity) / peak * Fin 100
      in (equity, peak, if peak > 0 \<and> cur > dd then cur else dd))"

definition calculateMaxDrawdownFromPnls :: "f64 list \<Rightarrow> f64" where
  "calculateMaxDrawdownFromPnls pnls =
     (if pnls = [] then 0 else snd (snd (foldl drawdown_step (Fin 10000, Fin 10000, 0) pnls)))"

definition wins :: "trader_position list \<Rightarrow> trader_position list" where
  "wins = filter (\<lambda>p. po_RealizedPnL p > 0)"

definition losses :: "trader_position list \<Rightarrow> trader_position list" where
  "losses = filter (\<lambda>p. \<not> po_RealizedPnL p > 0 \<and> po_RealizedPnL p < 0)"

definition stats_of :: "trader_position list \<Rightarrow> trader_stats" where
  "stats_of ps =
     (let pnls = map po_RealizedPnL ps; n = int (length ps); w = int (length (wins ps)); l = int (length (losses ps));
          totalWin = fsum (map po_RealizedPnL (wins ps)); totalLoss = fsum (map (\<lambda>p. - po_RealizedPnL p) (losses ps))
      in \<lparr>ts_TotalTrades = n, ts_WinTrades = w, ts_LossTrades = l,
          ts_WinRate = (if n > 0 then fint w / fint n * Fin 100 else 0),
          ts_ProfitFactor = (if totalLoss > 0 then totalWin / totalLoss else 0),
          ts_SharpeRatio = (if length pnls > 1 then calculateSharpeRatioFromPnls pnls else 0),
          ts_TotalPnL = fsum pnls, ts_TotalFee = fsum (map po_Fee ps),
          ts_AvgWin = (if w > 0 then totalWin / fint w else 0), ts_AvgLoss = (if l > 0 then totalLoss / fint l else 0),
          ts_MaxDrawdownPct = (if pnls \<noteq> [] then calculateMaxDrawdownFromPnls pnls else 0)\<rparr>)"

text \<open>The rows are counted first; without any the statistics are all zero.\<close>

definition GetFullStats :: "'d pos_db \<Rightarrow> gostring \<Rightarrow> 'd \<Rightarrow> perr + trader_stats" where
  "GetFullStats db tid d =
     (case tb_Find (px_Rows db) d (closed_of tid) of Inl e \<Rightarrow> Inl e
      | Inr [] \<Rightarrow> Inr zero_stats
      | Inr _ \<Rightarrow>
          (case px_Closed db d (closed_of tid) False None of
             Inl e \<Rightarrow> Inl (WrapErr ''failed to query position statistics'' e) | Inr ps \<Rightarrow> Inr (stats_of ps)))"

section \<open>Recent trades\<close>

definition formatDurationMs :: "int \<Rightarrow> gostring" where
  "formatDurationMs ms =
     (let seconds = go_quot ms 1000; minutes = go_quot seconds 60; hours = go_quot minutes 60; days = go_quot hours 24 in
      if seconds < 60 then itoa seconds @ ''s''
      else if minutes < 60 then itoa minutes @ ''m''
      else if hours < 24 then
        (let m = go_rem minutes 60 in if m = 0 then itoa hours @ ''h'' else itoa hours @ ''h'' @ itoa m @ ''m'')
      else (let h = go_rem hours 24 in if h = 0 then itoa days @ ''d'' else itoa days @ ''d'' @ itoa h @ ''h''))"

record recent_trade =
  rt_Symbol :: gostring
  rt_Side :: gostring
  rt_EntryPrice :: f64
  rt_ExitPrice :: f64
  rt_RealizedPnL :: f64
  rt_PnLPct :: f64
  rt_EntryTime :: int
  rt_ExitTime :: int
  rt_HoldDuration :: gostring

definition recent_of :: "trader_position \<Rightarrow> recent_trade" where
  "recent_of p =
     \<lparr>rt_Symbol = po_Symbol p, rt_Side = to_lower (po_Side p), rt_EntryPrice = po_EntryPrice p, rt_ExitPrice = po_ExitPrice p,
      rt_RealizedPnL = po_RealizedPnL p,
      rt_PnLPct = (if po_EntryPrice p > 0 then
          (if to_lower (po_Side p) = ''long'' then po_ExitPrice p - po_EntryPrice p else po_EntryPrice p - po_ExitPrice p)
            / po_EntryPrice p * Fin 100 * fint (po_Leverage p) else 0),
      rt_EntryTime = go_quot (po_EntryTime p) 1000,
      rt_ExitTime = (if po_ExitTime p > 0 then go_quot (po_ExitTime p) 1000 else 0),
      rt_HoldDuration = (if po_ExitTime p > 0 then formatDurationMs (po_ExitTime p - po_EntryTime p) else '''')\<rparr>"

definition GetRecentTrades :: "'d pos_db \<Rightarrow> gostring \<Rightarrow> int \<Rightarrow> 'd \<Rightarrow> perr + recent_trade list" where
  "GetRecentTrades db tid limit d =
     (case px_Closed db d (closed_of tid) True (Some limit) of
        Inl e \<Rightarrow> Inl (WrapErr ''failed to query recent trades'' e) | Inr ps \<Rightarrow> Inr (map recent_of ps))"

section \<open>Statistics by symbol, direction and holding time\<close>

record symbol_stats =
  ss_Symbol :: gostring
  ss_TotalTrades :: int
  ss_WinTrades :: int
  ss_WinRate :: f64
  ss_TotalPnL :: f64
  ss_AvgPnL :: f64
  ss_AvgHoldMins :: f64

definition hold_mins :: "trader_position \<Rightarrow> f64" where
  "hold_mins p = fint (po_ExitTime p - po_EntryTime p) / Fin 60000"

definition closed_at :: "trader_position \<Rightarrow> bool" where
  "closed_at p \<longleftrightarrow> po_ExitTime p > 0"

definition symbol_stats_of :: "gostring \<Rightarrow> trader_position list \<Rightarrow> symbol_stats" where
  "symbol_stats_of sy ps =
     (let n = int (length ps); w = int (length (wins ps)); total = fsum (map po_RealizedPnL ps);
          holds = map hold_mins (filter closed_at ps)
      in \<lparr>ss_Symbol = sy, ss_TotalTrades = n, ss_WinTrades = w, ss_WinRate = (if n > 0 then fint w / fint n * Fin 100 else 0),
          ss_TotalPnL = total, ss_AvgPnL = (if n > 0 then total / fint n else 0),
          ss_AvgHoldMins = (if holds \<noteq> [] then fsum holds / fint (int (length holds)) else 0)\<rparr>)"

text \<open>The inner and the outer loop of the sort by profit, largest first.\<close>

fun pnl_sweep :: "symbol_stats \<Rightarrow> symbol_stats list \<Rightarrow> symbol_stats \<times> symbol_stats list" where
  "pnl_sweep x [] = (x, [])"
| "pnl_sweep x (y # ys) =
     (if ss_TotalPnL y > ss_TotalPnL x then let (z, zs) = pnl_sweep y ys in (z, x # zs)
      else let (z, zs) = pnl_sweep x ys in (z, y # zs))"

lemma pnl_sweep_length: "length (snd (pnl_sweep x ys)) = length ys"
  by (induction x ys rule: pnl_sweep.induct) (auto split: prod.split)

function pnl_sort :: "symbol_stats list \<Rightarrow> symbol_stats list" where
  "pnl_sort [] = []"
| "pnl_sort (x # xs) = (let (y, ys) = pnl_sweep x xs in y # pnl_sort ys)"
  by pat_completeness auto
termination by (relation "measure length") (auto simp: pnl_sweep_length dest: arg_cong [where f = "\<lambda>p. length (snd p)"] intro: le_imp_less_Suc)

text \<open>Groups of rows by a key, as a Go map whose entries are visited in the order \<open>rng\<close> gives.\<close>

definition group_keys :: "(trader_position \<Rightarrow> gostring) \<Rightarrow> trader_position list \<Rightarrow> gostring list" where
  "group_keys f ps = remdups (map f ps)"

definition groups ::
  "((gostring \<times> trader_position list) list \<Rightarrow> (gostring \<times> trader_position list) list) \<Rightarrow> (trader_position \<Rightarrow> gostring) \<Rightarrow>
   trader_position list \<Rightarrow> (gostring \<times> trader_position list) list" where
  "groups rng f ps = rng (map (\<lambda>k. (k, filter (\<lambda>p. f p = k) ps)) (group_keys f ps))"

definition GetSymbolStats ::
  "'d pos_db \<Rightarrow> ((gostring \<times> trader_position list) list \<Rightarrow> (gostring \<times> trader_position list) list) \<Rightarrow>
   gostring \<Rightarrow> int \<Rightarrow> 'd \<Rightarrow> perr + symbol_stats list" where
  "GetSymbolStats db rng tid limit d =
     (case tb_Find (px_Rows db) d (closed_of tid) of
        Inl e \<Rightarrow> Inl (WrapErr ''failed to query symbol stats'' e)
      | Inr ps \<Rightarrow>
          (let stats = pnl_sort (map (\<lambda>(k, g). symbol_stats_of k g) (groups rng po_Symbol ps))
           in Inr (if limit > 0 \<and> int (length stats) > limit then take (nat limit) stats else stats)))"

record holding_stats =
  hs_Range :: gostring
  hs_TradeCount :: int
  hs_WinRate :: f64
  hs_AvgPnL :: f64

definition hold_range :: "trader_position \<Rightarrow> gostring" where
  "hold_range p =
     (let h = fint (po_ExitTime p - po_EntryTime p) / Fin 3600000 in
      if h < 1 then ''<1h'' else if h < Fin 4 then ''1-4h'' else if h < Fin 24 then ''4-24h'' else ''>24h'')"

definition holding_stats_of :: "gostring \<Rightarrow> trader_position list \<Rightarrow> holding_stats" where
  "holding_stats_of k ps =
     \<lparr>hs_Range = k, hs_TradeCount = int (length ps),
      hs_WinRate = fint (int (length (wins ps))) / fint (int (length ps)) * Fin 100,
      hs_AvgPnL = fsum (map po_RealizedPnL ps) / fint (int (length ps))\<rparr>"

definition GetHoldingTimeStats :: "'d pos_db \<Rightarrow> gostring \<Rightarrow> 'd \<Rightarrow> perr + holding_stats list" where
  "GetHoldingTimeStats db tid d =
     (case tb_Find (px_Rows db) d (\<lambda>r. closed_of tid r \<and> closed_at r) of
        Inl e \<Rightarrow> Inl (WrapErr ''failed to query holding time stats'' e)
      | Inr ps \<Rightarrow>
          (let ps = filter (\<lambda>p. po_ExitTime p \<noteq> 0) ps in
           Inr (map (\<lambda>k. holding_stats_of k (filter (\<lambda>p. hold_range p = k) ps))
             (filter (\<lambda>k. \<exists>p \<in> set ps. hold_range p = k) [''<1h'', ''1-4h'', ''4-24h'', ''>24h'']))))"

record direction_stats =
  ds_Side :: gostring
  ds_TradeCount :: int
  ds_WinRate :: f64
  ds_TotalPnL :: f64
  ds_AvgPnL :: f64

text \<open>The wins are counted in the field that becomes the rate, as doubles.\<close>

definition direction_stats_of :: "gostring \<Rightarrow> trader_position list \<Rightarrow> direction_stats" where
  "direction_stats_of k ps =
     (let n = int (length ps); total = fsum (map po_RealizedPnL ps); w = fsum (map (\<lambda>_. 1) (wins ps)) in
      \<lparr>ds_Side = k, ds_TradeCount = n, ds_WinRate = (if n > 0 then w / fint n * Fin 100 else w),
       ds_TotalPnL = total, ds_AvgPnL = (if n > 0 then total / fint n else 0)\<rparr>)"

definition GetDirectionStats ::
  "'d pos_db \<Rightarrow> ((gostring \<times> trader_position list) list \<Rightarrow> (gostring \<times> trader_position list) list) \<Rightarrow>
   gostring \<Rightarrow> 'd \<Rightarrow> perr + direction_stats list" where
  "GetDirectionStats db rng tid d =
     (case tb_Find (px_Rows db) d (closed_of tid) of
        Inl e \<Rightarrow> Inl (WrapErr ''failed to query direction stats'' e)
      | Inr ps \<Rightarrow> Inr (map (\<lambda>(k, g). direction_stats_of k g) (groups rng po_Side ps)))"

section \<open>Streaks\<close>

text \<open>
  The loop of \<open>calculateStreaks\<close> over the closed positions, newest first: the running streak, whether
  the previous trade was won (nothing before the first), and the two maxima.
\<close>

type_synonym streaks = "int \<times> bool option \<times> int \<times> int"

fun streak_step :: "streaks \<Rightarrow> bool \<Rightarrow> streaks" where
  "streak_step (cur, None, mw, ml) w = ((if w then 1 else -1), Some w, mw, ml)"
| "streak_step (cur, Some pw, mw, ml) w =
     (if pw = w then
        (if w then (cur + 1, Some pw, (if cur + 1 > mw then cur + 1 else mw), ml)
         else (cur - 1, Some pw, mw, (if - (cur - 1) > ml then - (cur - 1) else ml)))
      else ((if w then 1 else -1), Some w, mw, ml))"

definition streak_loop :: "bool list \<Rightarrow> streaks" where
  "streak_loop ws = foldl streak_step (0, None, 0, 0) ws"

definition calculateStreaks :: "'d pos_db \<Rightarrow> gostring \<Rightarrow> 'd \<Rightarrow> int \<times> int \<times> int" where
  "calculateStreaks db tid d =
     (case px_Closed db d (closed_of tid) True None of
        Inl _ \<Rightarrow> (0, 0, 0)
      | Inr ps \<Rightarrow> (let (cur, _, mw, ml) = streak_loop (map (\<lambda>p. po_RealizedPnL p > 0) ps) in (cur, mw, ml)))"

section \<open>The summary\<close>

record history_summary =
  hy_TotalTrades :: int
  hy_WinRate :: f64
  hy_TotalPnL :: f64
  hy_AvgTradeReturn :: f64
  hy_BestSymbols :: "symbol_stats list"
  hy_WorstSymbols :: "symbol_stats list"
  hy_LongWinRate :: f64
  hy_ShortWinRate :: f64
  hy_LongPnL :: f64
  hy_ShortPnL :: f64
  hy_AvgHoldingMins :: f64
  hy_BestHoldRange :: gostring
  hy_RecentWinRate :: f64
  hy_RecentPnL :: f64
  hy_CurrentStreak :: int
  hy_MaxWinStreak :: int
  hy_MaxLoseStreak :: int

text \<open>The holding time with the best rate among those with three trades or more.\<close>

definition best_hold :: "holding_stats list \<Rightarrow> f64 \<times> gostring" where
  "best_hold hs = foldl (\<lambda>(best, r) h. if hs_WinRate h > best \<and> hs_TradeCount h \<ge> 3 then (hs_WinRate h, hs_Range h) else (best, r))
     (0, '''') hs"

text \<open>Of each direction the last entry wins, as in the loop.\<close>

definition last_direction :: "gostring \<Rightarrow> direction_stats list \<Rightarrow> f64 \<times> f64" where
  "last_direction side ds =
     (case filter (\<lambda>s. ds_Side s = side) ds of [] \<Rightarrow> (0, 0) | xs \<Rightarrow> (ds_WinRate (last xs), ds_TotalPnL (last xs)))"

definition avg_holding :: "trader_position list \<Rightarrow> f64" where
  "avg_holding ps = (if ps = [] then 0 else fsum (map hold_mins (filter closed_at ps)) / fint (int (length ps)))"

definition recent_rate :: "trader_position list \<Rightarrow> f64" where
  "recent_rate ps =
     (if ps = [] then 0 else fsum (map (\<lambda>_. 1) (wins ps)) / fint (int (length ps)) * Fin 100)"

definition GetHistorySummary ::
  "'d pos_db \<Rightarrow> ((gostring \<times> trader_position list) list \<Rightarrow> (gostring \<times> trader_position list) list) \<Rightarrow>
   gostring \<Rightarrow> 'd \<Rightarrow> perr + history_summary" where
  "GetHistorySummary db rng tid d =
     (case GetFullStats db tid d of Inl e \<Rightarrow> Inl e
      | Inr fs \<Rightarrow>
          (let syms = ok_or [] (GetSymbolStats db rng tid 20 d); dirs = ok_or [] (GetDirectionStats db rng tid d);
               holds = ok_or [] (GetHoldingTimeStats db tid d);
               timed = ok_or [] (tb_Find (px_Rows db) d (\<lambda>r. closed_of tid r \<and> closed_at r));
               recent = ok_or [] (px_Closed db d (closed_of tid) True (Some 20));
               (cur, mw, ml) = calculateStreaks db tid d;
               (lw, lp) = last_direction ''LONG'' dirs; (sw, sp) = last_direction ''SHORT'' dirs
           in Inr \<lparr>hy_TotalTrades = ts_TotalTrades fs, hy_WinRate = ts_WinRate fs, hy_TotalPnL = ts_TotalPnL fs,
                hy_AvgTradeReturn = (if ts_TotalTrades fs > 0 then ts_TotalPnL fs / fint (ts_TotalTrades fs) else 0),
                hy_BestSymbols = filter (\<lambda>s. ss_TotalPnL s > 0) (take 3 syms),
                hy_WorstSymbols = take 3 (filter (\<lambda>s. ss_TotalPnL s < 0) (rev syms)),
                hy_LongWinRate = lw, hy_ShortWinRate = sw, hy_LongPnL = lp, hy_ShortPnL = sp,
                hy_AvgHoldingMins = avg_holding timed, hy_BestHoldRange = snd (best_hold holds),
                hy_RecentWinRate = recent_rate recent, hy_RecentPnL = fsum (map po_RealizedPnL recent),
                hy_CurrentStreak = cur, hy_MaxWinStreak = mw, hy_MaxLoseStreak = ml\<rparr>))"

section \<open>Closed positions from an exchange\<close>

record closed_pnl =
  cp_Symbol :: gostring
  cp_Side :: gostring
  cp_EntryPrice :: f64
  cp_ExitPrice :: f64
  cp_Quantity :: f64
  cp_RealizedPnL :: f64
  cp_Fee :: f64
  cp_Leverage :: int
  cp_EntryTime :: int
  cp_ExitTime :: int
  cp_OrderID :: gostring
  cp_CloseType :: gostring
  cp_ExchangeID :: gostring

definition closed_side :: "gostring \<Rightarrow> gostring option" where
  "closed_side s0 =
     (let s = to_upper s0 in
      if s = ''LONG'' \<or> s = ''BUY'' then Some ''LONG'' else if s = ''SHORT'' \<or> s = ''SELL'' then Some ''SHORT'' else None)"

definition min_valid_time :: int where
  "min_valid_time = 946684800000"

definition closed_row :: "int \<Rightarrow> gostring \<Rightarrow> gostring \<Rightarrow> gostring \<Rightarrow> gostring \<Rightarrow> gostring \<Rightarrow> closed_pnl \<Rightarrow> trader_position" where
  "closed_row now tid exid ext pid side r =
     (let entry = (if cp_EntryTime r < min_valid_time \<or> cp_EntryTime r > cp_ExitTime r then cp_ExitTime r else cp_EntryTime r) in
      zero_position\<lparr>po_TraderID := tid, po_ExchangeID := exid, po_ExchangeType := ext, po_ExchangePositionID := pid,
        po_Symbol := cp_Symbol r, po_Side := side, po_Quantity := cp_Quantity r, po_EntryQuantity := cp_Quantity r,
        po_EntryPrice := cp_EntryPrice r, po_EntryTime := entry, po_ExitPrice := cp_ExitPrice r,
        po_ExitOrderID := cp_OrderID r, po_ExitTime := cp_ExitTime r, po_RealizedPnL := cp_RealizedPnL r, po_Fee := cp_Fee r,
        po_Leverage := cp_Leverage r, po_Status := ''CLOSED'', po_CloseReason := cp_CloseType r, po_Source := ''sync'',
        po_CreatedAt := now, po_UpdatedAt := now\<rparr>)"

text \<open>A record without an identifier is keyed by what it says, its profit with eight decimals.\<close>

definition CreateFromClosedPnL ::
  "'d pos_db \<Rightarrow> int \<Rightarrow> gostring \<Rightarrow> gostring \<Rightarrow> gostring \<Rightarrow> closed_pnl \<Rightarrow> 'd \<Rightarrow> (perr + bool) \<times> 'd" where
  "CreateFromClosedPnL db now tid exid ext r d =
     (if cp_Symbol r = '''' then (Inr False, d)
      else case closed_side (cp_Side r) of None \<Rightarrow> (Inr False, d)
      | Some side \<Rightarrow>
          if cp_Quantity r \<le> 0 \<or> cp_ExitPrice r \<le> 0 \<or> cp_EntryPrice r \<le> 0 then (Inr False, d)
          else
            let pid = (if cp_ExchangeID r = '''' then cp_Symbol r @ ''_'' @ side @ ''_'' @ itoa (cp_ExitTime r) @ ''_'' @
                         fmt_fixed False 8 (cp_RealizedPnL r) else cp_ExchangeID r)
            in (case ExistsWithExchangePositionID db exid pid d of
                  Inl e \<Rightarrow> (Inl e, d)
                | Inr True \<Rightarrow> (Inr False, d)
                | Inr False \<Rightarrow>
                    if cp_ExitTime r < min_valid_time then (Inr False, d)
                    else (case tb_Create (px_Rows db) d (closed_row now tid exid ext pid side r) of
                            (None, d) \<Rightarrow> (Inr True, d)
                          | (Some e, d) \<Rightarrow>
                              if unique_violation e then (Inr False, d)
                              else (Inl (WrapErr ''failed to create position from closed PnL'' e), d))))"

fun SyncClosedPositions ::
  "'d pos_db \<Rightarrow> int \<Rightarrow> gostring \<Rightarrow> gostring \<Rightarrow> gostring \<Rightarrow> closed_pnl list \<Rightarrow> int \<Rightarrow> int \<Rightarrow> 'd \<Rightarrow> (int \<times> int \<times> perr option) \<times> 'd" where
  "SyncClosedPositions db now tid exid ext [] c s d = ((c, s, None), d)"
| "SyncClosedPositions db now tid exid ext (r # rs) c s d =
     (case CreateFromClosedPnL db now tid exid ext r d of
        (Inl e, d) \<Rightarrow> ((c, s, Some (WrapErr ''failed to sync position'' e)), d)
      | (Inr True, d) \<Rightarrow> SyncClosedPositions db now tid exid ext rs (c + 1) s d
      | (Inr False, d) \<Rightarrow> SyncClosedPositions db now tid exid ext rs c (s + 1) d)"

text \<open>Without a closed position the answer is thirty days ago; so it is when the query fails, before its error is looked at.\<close>

definition GetLastClosedPositionTime :: "'d pos_db \<Rightarrow> int \<Rightarrow> gostring \<Rightarrow> 'd \<Rightarrow> perr + int" where
  "GetLastClosedPositionTime db now tid d =
     (case px_Closed db d (\<lambda>r. closed_of tid r \<and> closed_at r) True (Some 1) of
        Inr (p # _) \<Rightarrow> Inr (if po_ExitTime p = 0 then now - 30 * 24 * 3600000 else po_ExitTime p)
      | _ \<Rightarrow> Inr (now - 30 * 24 * 3600000))"

section \<open>What the streaks are\<close>

definition signed :: "bool \<Rightarrow> nat \<Rightarrow> int" where
  "signed w n = (if w then int n else - int n)"

text \<open>The run of equal outcomes at the end of a list.\<close>

definition end_run :: "bool list \<Rightarrow> nat" where
  "end_run ws = length (takeWhile (\<lambda>w. w = last ws) (rev ws))"

lemma end_run_snoc:
  "end_run (ws @ [w]) = (if ws \<noteq> [] \<and> last ws = w then Suc (end_run ws) else 1)"
  by (cases ws rule: rev_cases) (auto simp: end_run_def)

lemma end_run_one: "end_run [w] = 1"
  by (simp add: end_run_def)

lemma end_run_suffix:
  assumes "ws \<noteq> []" shows "suffix (replicate n b) ws \<longleftrightarrow> n = 0 \<or> last ws = b \<and> n \<le> end_run ws"
  using assms
proof (induction ws arbitrary: n rule: rev_induct)
  case (snoc w ws)
  show ?case
  proof (cases n)
    case (Suc m)
    have r: "replicate (Suc m) b = replicate m b @ [b]" by (simp add: replicate_append_same)
    have s: "suffix (replicate (Suc m) b) (ws @ [w]) \<longleftrightarrow> w = b \<and> suffix (replicate m b) ws"
      unfolding r by auto
    show ?thesis
    proof (cases "ws = []")
      case True
      show ?thesis unfolding Suc s by (cases m) (use True in \<open>auto simp: end_run_one\<close>)
    next
      case False
      show ?thesis unfolding Suc s by (cases m) (use False snoc.IH [of m] in \<open>auto simp: end_run_snoc\<close>)
    qed
  qed simp
qed simp

lemma run_snoc: "sublist (replicate n b) (ws @ [w]) \<longleftrightarrow> sublist (replicate n b) ws \<or> suffix (replicate n b) (ws @ [w])"
  by (simp add: sublist_snoc) blast

text \<open>
  \<open>runs_of b ws m\<close>: \<open>m\<close> is the length of the longest run of \<open>b\<close> in \<open>ws\<close>, as long as it is two or more;
  otherwise it is zero.
\<close>

definition runs_of :: "bool \<Rightarrow> bool list \<Rightarrow> int \<Rightarrow> bool" where
  "runs_of b ws m \<longleftrightarrow> 0 \<le> m \<and> m \<noteq> 1 \<and> (\<forall>n \<ge> 2. sublist (replicate n b) ws \<longleftrightarrow> int n \<le> m)"

lemma runs_of_snoc_same:
  assumes "runs_of b ws m" "ws \<noteq> []" "last ws = b"
  shows "runs_of b (ws @ [b]) (if int (end_run ws) + 1 > m then int (end_run ws) + 1 else m)"
proof -
  have e: "1 \<le> end_run ws" using assms(2) by (cases ws rule: rev_cases) (auto simp: end_run_def)
  have s: "suffix (replicate n b) (ws @ [b]) \<longleftrightarrow> n = 0 \<or> n \<le> Suc (end_run ws)" for n
    using end_run_suffix [of "ws @ [b]" n b] assms(2,3) by (simp add: end_run_snoc)
  have "sublist (replicate n b) (ws @ [b]) \<longleftrightarrow> sublist (replicate n b) ws \<or> n \<le> Suc (end_run ws)" for n
    using run_snoc [of n b ws b] s [of n] by auto
  then show ?thesis using assms(1) e by (auto simp: runs_of_def)
qed

lemma runs_of_snoc_other:
  assumes "runs_of b ws m" "\<not> (ws \<noteq> [] \<and> last ws = b \<and> w = b)"
  shows "runs_of b (ws @ [w]) m"
proof -
  have "sublist (replicate n b) (ws @ [w]) \<longleftrightarrow> sublist (replicate n b) ws" if "2 \<le> n" for n
    using run_snoc [of n b ws w] end_run_suffix [of "ws @ [w]" n b] assms(2) that
    by (simp add: end_run_snoc split: if_splits) linarith?
  then show ?thesis using assms(1) by (simp add: runs_of_def)
qed

lemma streak_loop_inv:
  assumes "ws \<noteq> []"
  shows "\<exists>mw ml. streak_loop ws = (signed (last ws) (end_run ws), Some (last ws), mw, ml) \<and> runs_of True ws mw \<and> runs_of False ws ml"
  using assms
proof (induction ws rule: rev_induct)
  case (snoc w ws)
  show ?case
  proof (cases "ws = []")
    case True
    have "runs_of b [w] 0" for b
    proof -
      have "\<not> sublist (replicate n b) [w]" if "2 \<le> n" for n
        using that sublist_length_le [of "replicate n b" "[w]"] by auto
      then show ?thesis by (auto simp: runs_of_def)
    qed
    then show ?thesis using True by (simp add: streak_loop_def end_run_def signed_def)
  next
    case False
    then obtain mw ml where ih: "streak_loop ws = (signed (last ws) (end_run ws), Some (last ws), mw, ml)"
      "runs_of True ws mw" "runs_of False ws ml" using snoc.IH by blast
    have step: "streak_loop (ws @ [w]) = streak_step (signed (last ws) (end_run ws), Some (last ws), mw, ml) w"
      using ih(1) by (simp add: streak_loop_def)
    show ?thesis
    proof (cases "last ws = w")
      case same: True
      show ?thesis
      proof (cases w)
        case True
        then show ?thesis using step ih(2,3) same False runs_of_snoc_same [OF ih(2) False] runs_of_snoc_other [OF ih(3), of w]
          by (simp add: signed_def end_run_snoc)
      next
        case wf: False
        then show ?thesis using step ih(2,3) same False runs_of_snoc_same [OF ih(3) False] runs_of_snoc_other [OF ih(2), of w]
          by (auto simp: signed_def end_run_snoc algebra_simps split: if_splits)
      qed
    next
      case other: False
      then show ?thesis using step runs_of_snoc_other [OF ih(2), of w] runs_of_snoc_other [OF ih(3), of w]
        by (auto simp: signed_def end_run_snoc)
    qed
  qed
qed simp

text \<open>
  the streaks that are reported.  The positions come newest first and the loop runs to the oldest, so
  the current streak it ends with is the first one of the account's history; and the longest runs
  are right, except that a run of one is reported as none.
\<close>

theorem streaks_exact:
  assumes rows: "px_Closed db d (closed_of tid) True None = Inr ps" and ne: "ps \<noteq> []"
  shows "\<exists>mw ml. calculateStreaks db tid d = (signed (po_RealizedPnL (last ps) > 0)
      (length (takeWhile (\<lambda>p. (po_RealizedPnL p > 0) = (po_RealizedPnL (last ps) > 0)) (rev ps))), mw, ml) \<and>
    runs_of True (map (\<lambda>p. po_RealizedPnL p > 0) ps) mw \<and> runs_of False (map (\<lambda>p. po_RealizedPnL p > 0) ps) ml"
proof -
  let ?w = "\<lambda>p. po_RealizedPnL p > 0"
  have "end_run (map ?w ps) = length (takeWhile (\<lambda>p. ?w p = ?w (last ps)) (rev ps))"
    using ne by (simp add: end_run_def last_map rev_map takeWhile_map comp_def)
  then show ?thesis
    using streak_loop_inv [of "map ?w ps"] rows ne by (auto simp: calculateStreaks_def last_map)
qed

definition closed_with :: "f64 \<Rightarrow> int \<Rightarrow> trader_position" where
  "closed_with pnl ms = zero_position\<lparr>po_TraderID := ''t'', po_Status := ''CLOSED'', po_RealizedPnL := pnl, po_ExitTime := ms\<rparr>"

text \<open>Two losses at first, then a win, a loss and a win: the current streak is that of the two losses.\<close>

theorem streaks_exact_witness:
  "\<exists>mw ml. calculateStreaks list_pos_db ''t''
     [closed_with (Fin (- 1)) 1, closed_with (Fin (- 1)) 2, closed_with 1 3, closed_with (Fin (- 1)) 4, closed_with 1 5] = (- 2, mw, ml) \<and>
     runs_of True [True, False, True, False, False] mw"
proof -
  let ?d = "[closed_with (Fin (- 1)) 1, closed_with (Fin (- 1)) 2, closed_with 1 3, closed_with (Fin (- 1)) 4, closed_with 1 5]"
  have s: "px_Closed list_pos_db ?d (closed_of ''t'') True None = Inr (rev ?d)"
    by (simp add: list_pos_db_def closed_of_def closed_with_def zero_position_def)
  have w: "po_RealizedPnL (closed_with x ms) = x" for x ms by (simp add: closed_with_def)
  from streaks_exact [OF s] show ?thesis by (simp add: w signed_def zero_f64_def one_f64_def) blast
qed

end
