(* ===== verification/Fut_Rebuild.thy ===== *)
theory Fut_Rebuild
  imports Symbols Float64 Go_Time "HOL-Library.Sublist"
begin

text \<open>
  \<open>trader/position_rebuild.go\<close>: closed positions are rebuilt from the trades of an exchange by matching
  closing trades with opening ones, first in first out.  Times are nanoseconds; the zero \<open>time.Time\<close>
  is \<open>zero_time_ns\<close>.  \<open>srt\<close> is \<open>sort.Slice\<close> by time, which leaves the order of simultaneous trades open.
\<close>

section \<open>Trades, open trades and records\<close>

record trade_record =
  tr_TradeID :: gostring
  tr_Symbol :: gostring
  tr_Side :: gostring
  tr_PositionSide :: gostring
  tr_Price :: f64
  tr_Quantity :: f64
  tr_RealizedPnL :: f64
  tr_Fee :: f64
  tr_Time :: int

record open_trade =
  ot_Price :: f64
  ot_Quantity :: f64
  ot_Fee :: f64
  ot_Time :: int
  ot_TradeID :: gostring

record position_state =
  st_OpenTrades :: "open_trade list"
  st_TotalQty :: f64

record closed_record =
  cr_Symbol :: gostring
  cr_Side :: gostring
  cr_EntryPrice :: f64
  cr_ExitPrice :: f64
  cr_Quantity :: f64
  cr_RealizedPnL :: f64
  cr_Fee :: f64
  cr_EntryTime :: int
  cr_ExitTime :: int
  cr_OrderID :: gostring
  cr_ExchangeID :: gostring
  cr_CloseType :: gostring

definition dust :: f64 where
  "dust = fl (1 / 100000000)"

section \<open>The side of a trade\<close>

definition determinePositionSide :: "trade_record \<Rightarrow> gostring" where
  "determinePositionSide t =
     (if tr_PositionSide t \<in> {''LONG'', ''long''} then ''long''
      else if tr_PositionSide t \<in> {''SHORT'', ''short''} then ''short''
      else if feq (tr_RealizedPnL t) 0 then
        (if tr_Side t \<in> {''BUY'', ''Buy''} then ''long''
         else if tr_Side t \<in> {''SELL'', ''Sell''} then ''short'' else '''')
      else
        (if tr_Side t \<in> {''BUY'', ''Buy''} then ''short''
         else if tr_Side t \<in> {''SELL'', ''Sell''} then ''long'' else ''''))"

section \<open>Matching\<close>

text \<open>What the loop accumulates: the weighted sum of prices, the quantity matched, the fee, the entry time.\<close>

record match_acc =
  ma_Sum :: f64
  ma_Qty :: f64
  ma_Fee :: f64
  ma_Time :: int

fun fifo_match :: "open_trade list \<Rightarrow> f64 \<Rightarrow> match_acc \<Rightarrow> match_acc \<times> open_trade list" where
  "fifo_match [] rem a = (a, [])"
| "fifo_match (t # ts) rem a =
     (if rem > dust then
        (let m = (if ot_Quantity t > rem then rem else ot_Quantity t);
             fee = ot_Fee t * (m / ot_Quantity t);
             a' = \<lparr>ma_Sum = ma_Sum a + ot_Price t * m, ma_Qty = ma_Qty a + m, ma_Fee = ma_Fee a + fee,
                   ma_Time = (if ma_Time a = zero_time_ns then ot_Time t else ma_Time a)\<rparr>;
             t' = t\<lparr>ot_Quantity := ot_Quantity t - m, ot_Fee := ot_Fee t - fee\<rparr>;
             r = fifo_match ts (rem - m) a'
         in (fst r, if ot_Quantity t' \<le> dust then snd r else t' # snd r))
      else (a, t # ts))"

definition match_start :: match_acc where
  "match_start = \<lparr>ma_Sum = 0, ma_Qty = 0, ma_Fee = 0, ma_Time = zero_time_ns\<rparr>"

definition matched_price :: "match_acc \<Rightarrow> f64" where
  "matched_price a = (if ma_Qty a > dust then ma_Sum a / ma_Qty a else 0)"

definition match_state :: "trade_record \<Rightarrow> position_state \<Rightarrow> match_acc \<times> position_state" where
  "match_state t st =
     (if st_OpenTrades st = [] then (match_start, st)
      else let (a, ts) = fifo_match (st_OpenTrades st) (tr_Quantity t) match_start
           in (a, \<lparr>st_OpenTrades = ts, st_TotalQty = st_TotalQty st - tr_Quantity t\<rparr>))"

text \<open>Without an entry price, the profit of the trade gives one.\<close>

definition entry_of :: "trade_record \<Rightarrow> gostring \<Rightarrow> match_acc \<Rightarrow> f64 \<times> int" where
  "entry_of t side a =
     (if feq (matched_price a) 0 \<and> tr_Quantity t > 0 then
        (if side = ''long'' then tr_Price t - tr_RealizedPnL t / tr_Quantity t
         else tr_Price t + tr_RealizedPnL t / tr_Quantity t, tr_Time t)
      else (matched_price a, ma_Time a))"

definition buildClosedPosition ::
  "trade_record \<Rightarrow> gostring \<Rightarrow> position_state \<Rightarrow> closed_record option \<times> position_state" where
  "buildClosedPosition t side st =
     (let (a, st') = match_state t st; (price, time) = entry_of t side a in
      (if price \<le> 0 \<or> tr_Price t \<le> 0 \<or> tr_Quantity t \<le> 0 then None
       else Some \<lparr>cr_Symbol = tr_Symbol t, cr_Side = side, cr_EntryPrice = price, cr_ExitPrice = tr_Price t,
              cr_Quantity = tr_Quantity t, cr_RealizedPnL = tr_RealizedPnL t, cr_Fee = tr_Fee t + ma_Fee a,
              cr_EntryTime = time, cr_ExitTime = tr_Time t, cr_OrderID = tr_TradeID t, cr_ExchangeID = tr_TradeID t,
              cr_CloseType = ''unknown''\<rparr>,
       st'))"

section \<open>The whole history\<close>

definition empty_state :: position_state where
  "empty_state = \<lparr>st_OpenTrades = [], st_TotalQty = 0\<rparr>"

definition opened_trade :: "trade_record \<Rightarrow> open_trade" where
  "opened_trade t = \<lparr>ot_Price = tr_Price t, ot_Quantity = tr_Quantity t, ot_Fee = tr_Fee t, ot_Time = tr_Time t,
     ot_TradeID = tr_TradeID t\<rparr>"

type_synonym books = "(gostring, position_state) gomap"

definition rebuild_step :: "trade_record \<Rightarrow> books \<Rightarrow> closed_record option \<times> books" where
  "rebuild_step t m =
     (let side = determinePositionSide t in
      if side = '''' then (None, m)
      else
        let key = tr_Symbol t @ ''_'' @ side; st = mget empty_state m key in
        if feq (tr_RealizedPnL t) 0 then
          (None, mput key \<lparr>st_OpenTrades = st_OpenTrades st @ [opened_trade t], st_TotalQty = st_TotalQty st + tr_Quantity t\<rparr> m)
        else let (r, st') = buildClosedPosition t side st in (r, mput key st' m))"

fun rebuild_loop :: "trade_record list \<Rightarrow> books \<Rightarrow> closed_record list" where
  "rebuild_loop [] m = []"
| "rebuild_loop (t # ts) m =
     (let (r, m') = rebuild_step t m in (case r of None \<Rightarrow> [] | Some c \<Rightarrow> [c]) @ rebuild_loop ts m')"

definition RebuildPositionsFromTrades ::
  "(trade_record list \<Rightarrow> trade_record list) \<Rightarrow> trade_record list \<Rightarrow> closed_record list" where
  "RebuildPositionsFromTrades srt ts = (if ts = [] then [] else rebuild_loop (srt ts) [])"

text \<open>What \<open>sort.Slice\<close> promises.\<close>

definition time_sorter :: "(trade_record list \<Rightarrow> trade_record list) \<Rightarrow> bool" where
  "time_sorter srt \<longleftrightarrow> (\<forall>ts. mset (srt ts) = mset ts \<and> sorted (map tr_Time (srt ts)))"

lemma time_sorter_sort_key: "time_sorter (sort_key tr_Time)"
  by (simp add: time_sorter_def)

section \<open>The records are in order\<close>

lemma fifo_match_times:
  assumes "\<forall>t \<in> set ts. ot_Time t \<le> T" "ma_Time a = zero_time_ns \<or> ma_Time a \<le> T"
  shows "(\<forall>t \<in> set (snd (fifo_match ts rem a)). ot_Time t \<le> T) \<and>
    (fst (fifo_match ts rem a) = a \<or> ma_Time (fst (fifo_match ts rem a)) \<le> T)"
  using assms by (induction ts rem a rule: fifo_match.induct) (auto simp: Let_def split: if_splits)

lemma matched_price_start: "matched_price match_start = 0"
  by (simp add: matched_price_def match_start_def dust_def zero_f64_def f64_eval)

lemma match_state_times:
  assumes "\<forall>o' \<in> set (st_OpenTrades st). ot_Time o' \<le> T" "match_state t st = (a, st')"
  shows "(\<forall>o' \<in> set (st_OpenTrades st'). ot_Time o' \<le> T) \<and> (matched_price a = 0 \<or> ma_Time a \<le> T)"
  using assms fifo_match_times [of "st_OpenTrades st" T match_start "tr_Quantity t"]
  by (auto simp: match_state_def match_start_def matched_price_start [unfolded match_start_def] split: prod.splits if_splits)

lemma buildClosedPosition_ok:
  assumes "\<forall>o' \<in> set (st_OpenTrades st). ot_Time o' \<le> tr_Time t" "buildClosedPosition t side st = (r, st')"
  shows "(\<forall>o' \<in> set (st_OpenTrades st'). ot_Time o' \<le> tr_Time t) \<and>
    (\<forall>c. r = Some c \<longrightarrow> cr_EntryTime c \<le> cr_ExitTime c \<and> cr_ExitTime c = tr_Time t \<and> cr_OrderID c = tr_TradeID t \<and>
       \<not> cr_EntryPrice c \<le> 0 \<and> \<not> cr_ExitPrice c \<le> 0 \<and> \<not> cr_Quantity c \<le> 0)"
proof -
  obtain a where m: "match_state t st = (a, st')" using assms(2) by (auto simp: buildClosedPosition_def split: prod.splits)
  obtain p time where e: "entry_of t side a = (p, time)" by fastforce
  have "time \<le> tr_Time t \<or> p = 0"
    using match_state_times [OF assms(1) m] e by (auto simp: entry_of_def feq_def split: if_splits)
  then show ?thesis using match_state_times [OF assms(1) m] assms(2) m e
    by (auto simp: buildClosedPosition_def split: if_splits)
qed

definition books_before :: "int \<Rightarrow> books \<Rightarrow> bool" where
  "books_before T m \<longleftrightarrow> (\<forall>k. \<forall>o' \<in> set (st_OpenTrades (mget empty_state m k)). ot_Time o' \<le> T)"

lemma books_before_mono: "books_before T m \<Longrightarrow> T \<le> T' \<Longrightarrow> books_before T' m"
  by (force simp: books_before_def)

lemma rebuild_step_ok:
  assumes "books_before (tr_Time t) m" "rebuild_step t m = (r, m')"
  shows "books_before (tr_Time t) m' \<and>
    (\<forall>c. r = Some c \<longrightarrow> cr_EntryTime c \<le> cr_ExitTime c \<and> cr_ExitTime c = tr_Time t \<and> cr_OrderID c = tr_TradeID t \<and>
       \<not> cr_EntryPrice c \<le> 0 \<and> \<not> cr_ExitPrice c \<le> 0 \<and> \<not> cr_Quantity c \<le> 0 \<and> \<not> feq (tr_RealizedPnL t) 0)"
proof -
  let ?k = "tr_Symbol t @ ''_'' @ determinePositionSide t"
  have b: "\<forall>o' \<in> set (st_OpenTrades (mget empty_state m ?k)). ot_Time o' \<le> tr_Time t"
    using assms(1) by (simp add: books_before_def)
  obtain r1 st1 where c: "buildClosedPosition t (determinePositionSide t) (mget empty_state m ?k) = (r1, st1)" by fastforce
  show ?thesis
  proof (cases "determinePositionSide t = '''' \<or> feq (tr_RealizedPnL t) 0")
    case True
    then show ?thesis using assms b
      by (auto simp: rebuild_step_def books_before_def mget_mput opened_trade_def Let_def split: if_splits)
  next
    case False
    then have "r = r1" "m' = mput ?k st1 m" using assms(2) c by (simp_all add: rebuild_step_def Let_def)
    then show ?thesis using buildClosedPosition_ok [OF b c] assms(1) False by (auto simp: books_before_def mget_mput)
  qed
qed

definition good_record :: "closed_record \<Rightarrow> bool" where
  "good_record c \<longleftrightarrow> cr_EntryTime c \<le> cr_ExitTime c \<and> \<not> cr_EntryPrice c \<le> 0 \<and> \<not> cr_ExitPrice c \<le> 0 \<and> \<not> cr_Quantity c \<le> 0"

lemma rebuild_loop_ok:
  assumes "sorted (map tr_Time ts)" "ts = [] \<or> books_before (tr_Time (hd ts)) m"
  shows "sorted (map cr_ExitTime (rebuild_loop ts m)) \<and>
    (\<forall>c \<in> set (rebuild_loop ts m). good_record c \<and> cr_ExitTime c \<in> tr_Time ` set ts) \<and>
    subseq (map cr_OrderID (rebuild_loop ts m)) (map tr_TradeID (filter (\<lambda>t. \<not> feq (tr_RealizedPnL t) 0) ts))"
  using assms
proof (induction ts arbitrary: m)
  case (Cons t ts)
  obtain r m' where s: "rebuild_step t m = (r, m')" by fastforce
  have b0: "books_before (tr_Time t) m" using Cons.prems(2) by simp
  have bm: "books_before (tr_Time t) m'"
    and ok: "\<And>c. r = Some c \<Longrightarrow> good_record c \<and> cr_ExitTime c = tr_Time t \<and> cr_OrderID c = tr_TradeID t \<and> \<not> feq (tr_RealizedPnL t) 0"
    using rebuild_step_ok [OF b0 s] unfolding good_record_def by blast+
  have b: "ts = [] \<or> books_before (tr_Time (hd ts)) m'"
    using bm Cons.prems by (cases ts) (auto intro: books_before_mono)
  have so: "sorted (map tr_Time ts)" and le: "\<forall>x \<in> set ts. tr_Time t \<le> tr_Time x" using Cons.prems(1) by auto
  note ih = Cons.IH [OF so b]
  show ?case
  proof (cases r)
    case None
    have "rebuild_loop (t # ts) m = rebuild_loop ts m'" using s None by simp
    then show ?thesis using ih by (auto intro: subseq_Cons')
  next
    case (Some c)
    have "rebuild_loop (t # ts) m = c # rebuild_loop ts m'" using s Some by simp
    then show ?thesis using ih ok [OF Some] le by auto
  qed
qed simp

text \<open>
  C27: the rebuilt positions come in the order of their closing trades, at most one for each and named after
  it; each was entered before it was left; and its prices and its quantity are positive.
\<close>

theorem rebuilt_records_ordered:
  assumes "time_sorter srt"
  shows "sorted (map cr_ExitTime (RebuildPositionsFromTrades srt ts)) \<and>
    (\<forall>c \<in> set (RebuildPositionsFromTrades srt ts). good_record c) \<and>
    subseq (map cr_OrderID (RebuildPositionsFromTrades srt ts))
      (map tr_TradeID (filter (\<lambda>t. \<not> feq (tr_RealizedPnL t) 0) (srt ts)))"
proof -
  have "books_before T []" for T by (simp add: books_before_def empty_state_def mget_def)
  then show ?thesis using rebuild_loop_ok [of "srt ts" "[]"] assms
    by (auto simp: RebuildPositionsFromTrades_def time_sorter_def)
qed

definition btc_fill :: "gostring \<Rightarrow> gostring \<Rightarrow> f64 \<Rightarrow> f64 \<Rightarrow> int \<Rightarrow> trade_record" where
  "btc_fill i side price pnl time = \<lparr>tr_TradeID = i, tr_Symbol = ''BTCUSDT'', tr_Side = side, tr_PositionSide = ''BOTH'',
     tr_Price = price, tr_Quantity = 1, tr_RealizedPnL = pnl, tr_Fee = 0, tr_Time = time\<rparr>"

theorem rebuilt_records_ordered_witness:
  "list_all good_record (RebuildPositionsFromTrades (sort_key tr_Time)
     [btc_fill ''2'' ''SELL'' (Fin 110) (Fin 10) 2, btc_fill ''1'' ''BUY'' (Fin 100) 0 1])"
  using rebuilt_records_ordered [OF time_sorter_sort_key] by (simp add: list_all_iff)

text \<open>
  a closing trade without profit or loss is taken for an opening one.  Here a long position is
  bought at 100 and sold at 100, then another is bought at 200 and sold at 210: there is one record, with
  the second trade's profit of 10 and the entry price and time of the first.
\<close>

theorem break_even_close_opens:
  "map (\<lambda>c. (cr_EntryPrice c, cr_ExitPrice c, cr_EntryTime c, cr_RealizedPnL c))
     (RebuildPositionsFromTrades (sort_key tr_Time)
       [btc_fill ''1'' ''BUY'' (Fin 100) 0 1, btc_fill ''2'' ''SELL'' (Fin 100) 0 2,
        btc_fill ''3'' ''BUY'' (Fin 200) 0 3, btc_fill ''4'' ''SELL'' (Fin 210) (Fin 10) 4]) =
   [(Fin 100, Fin 210, 1, Fin 10)]"
proof -
  let ?ts = "[btc_fill ''1'' ''BUY'' (Fin 100) 0 1, btc_fill ''2'' ''SELL'' (Fin 100) 0 2,
        btc_fill ''3'' ''BUY'' (Fin 200) 0 3, btc_fill ''4'' ''SELL'' (Fin 210) (Fin 10) 4]"
  have "sort_key tr_Time ?ts = ?ts" by (simp add: btc_fill_def)
  moreover have "dust < Fin 1" "\<not> dust < Fin 0" "Fin 0 \<le> dust"
    by (simp_all add: dust_def f64_eval)
  moreover have "fl 1 = Fin 1" "fl 100 = Fin 100" "fl 0 = Fin 0" using fl_of_int [of 100] by (simp_all add: one_f64_def zero_f64_def)
  ultimately show ?thesis
    by (simp add: RebuildPositionsFromTrades_def rebuild_step_def btc_fill_def determinePositionSide_def feq_def
        buildClosedPosition_def match_state_def entry_of_def matched_price_def match_start_def opened_trade_def
        empty_state_def mget_def mput_def mdel_def Let_def zero_f64_def one_f64_def minus_f64_def zero_time_ns_def)
qed

end
