(* ===== verification/Fut_Kernel.thy ===== *)
theory Fut_Kernel
  imports Symbols Pred_Types
begin

text \<open>
  \<open>kernel/engine_position.go\<close> and the parsing half of \<open>kernel/engine_analysis.go\<close>: from the answer of the
  language model to the decisions the futures trader executes.  The regular expressions of the code
  are written out as the scans they perform; decoding JSON is a parameter.
\<close>

section \<open>Decisions\<close>

record kdecision =
  kd_Symbol :: gostring
  kd_Action :: gostring
  kd_Leverage :: int
  kd_PositionSizeUSD :: f64
  kd_StopLoss :: f64
  kd_TakeProfit :: f64
  kd_Price :: f64
  kd_Quantity :: f64
  kd_LevelIndex :: int
  kd_OrderID :: gostring
  kd_Confidence :: int
  kd_RiskUSD :: f64
  kd_Reasoning :: gostring

definition zero_decision :: kdecision where
  "zero_decision = \<lparr>kd_Symbol = '''', kd_Action = '''', kd_Leverage = 0, kd_PositionSizeUSD = 0, kd_StopLoss = 0,
     kd_TakeProfit = 0, kd_Price = 0, kd_Quantity = 0, kd_LevelIndex = 0, kd_OrderID = '''', kd_Confidence = 0,
     kd_RiskUSD = 0, kd_Reasoning = ''''\<rparr>"

datatype (plugins only: code size) kernel_err =
    InvalidAction gostring | LeverageNotPositive int | SizeNotPositive f64
  | MajorTooSmall gostring f64 f64 | OpeningTooSmall f64 f64
  | MajorTooLarge f64 f64 f64 | XyzTooLarge gostring f64 f64 f64 | AltcoinTooLarge f64 f64 f64
  | StopsNotPositive | LongStopAboveProfit | ShortStopBelowProfit
  | RiskRewardTooLow f64 f64 f64 f64 f64
  | DecisionInvalid nat kernel_err
  | NotDecisionArray gostring | NotArrayOfObjects gostring | RangeSymbol | ThousandSeparator gostring
  | JSONFormat kernel_err gostring gostring | JSONParse perr gostring
  | ExtractFailed kernel_err | ValidationFailed kernel_err
  | TokenLimit int int | FetchFailed perr | AIFailed perr | ParseFailed kernel_err

text \<open>The limits a decision is validated against.\<close>

record limits =
  li_Equity :: f64
  li_MajorLeverage :: int
  li_AltLeverage :: int
  li_MajorRatio :: f64
  li_AltRatio :: f64

section \<open>Validation\<close>

definition valid_actions :: "gostring list" where
  "valid_actions = [''open_long'', ''open_short'', ''close_long'', ''close_short'', ''hold'', ''wait'']"

definition is_open :: "gostring \<Rightarrow> bool" where
  "is_open a \<longleftrightarrow> a = ''open_long'' \<or> a = ''open_short''"

definition btc_eth :: "gostring \<Rightarrow> bool" where
  "btc_eth s \<longleftrightarrow> s = ''BTCUSDT'' \<or> s = ''ETHUSDT''"

definition major_symbol :: "gostring \<Rightarrow> bool" where
  "major_symbol s \<longleftrightarrow> btc_eth s \<or> IsXyzDexAsset s"

definition size_err :: "limits \<Rightarrow> kdecision \<Rightarrow> kernel_err option" where
  "size_err L d =
     (let size = kd_PositionSizeUSD d; sym = kd_Symbol d;
          ratio = (if major_symbol sym then li_MajorRatio L else li_AltRatio L);
          maxv = li_Equity L * ratio
      in if size \<le> 0 then Some (SizeNotPositive size)
         else if btc_eth sym \<and> size < Fin 60 then Some (MajorTooSmall sym size (Fin 60))
         else if \<not> btc_eth sym \<and> size < Fin 12 then Some (OpeningTooSmall size (Fin 12))
         else if size > maxv + maxv * fl (1 / 100) then
           Some (if btc_eth sym then MajorTooLarge maxv ratio size
                 else if IsXyzDexAsset sym then XyzTooLarge sym maxv ratio size
                 else AltcoinTooLarge maxv ratio size)
         else None)"

text \<open>The entry price of a decision is not known; the code takes a point a fifth of the way from the stop.\<close>

definition entry_guess :: "kdecision \<Rightarrow> f64" where
  "entry_guess d =
     (if kd_Action d = ''open_long'' then kd_StopLoss d + (kd_TakeProfit d - kd_StopLoss d) * fl (1 / 5)
      else kd_StopLoss d - (kd_StopLoss d - kd_TakeProfit d) * fl (1 / 5))"

definition risk_percent :: "kdecision \<Rightarrow> f64" where
  "risk_percent d =
     (let e = entry_guess d in
      if kd_Action d = ''open_long'' then (e - kd_StopLoss d) / e * Fin 100 else (kd_StopLoss d - e) / e * Fin 100)"

definition reward_percent :: "kdecision \<Rightarrow> f64" where
  "reward_percent d =
     (let e = entry_guess d in
      if kd_Action d = ''open_long'' then (kd_TakeProfit d - e) / e * Fin 100 else (e - kd_TakeProfit d) / e * Fin 100)"

definition risk_reward :: "kdecision \<Rightarrow> f64" where
  "risk_reward d = (if risk_percent d > 0 then reward_percent d / risk_percent d else 0)"

definition stops_err :: "kdecision \<Rightarrow> kernel_err option" where
  "stops_err d =
     (if kd_StopLoss d \<le> 0 \<or> kd_TakeProfit d \<le> 0 then Some StopsNotPositive
      else if kd_Action d = ''open_long'' \<and> kd_StopLoss d \<ge> kd_TakeProfit d then Some LongStopAboveProfit
      else if kd_Action d \<noteq> ''open_long'' \<and> kd_StopLoss d \<le> kd_TakeProfit d then Some ShortStopBelowProfit
      else if risk_reward d < Fin 3 then
        Some (RiskRewardTooLow (risk_reward d) (risk_percent d) (reward_percent d) (kd_StopLoss d) (kd_TakeProfit d))
      else None)"

definition clamp_leverage :: "limits \<Rightarrow> kdecision \<Rightarrow> kdecision" where
  "clamp_leverage L d =
     (let m = (if major_symbol (kd_Symbol d) then li_MajorLeverage L else li_AltLeverage L)
      in if kd_Leverage d > m then d\<lparr>kd_Leverage := m\<rparr> else d)"

text \<open>The leverage is adjusted in place: the decision comes back with whatever error there is.\<close>

definition validateDecision :: "limits \<Rightarrow> kdecision \<Rightarrow> kernel_err option \<times> kdecision" where
  "validateDecision L d =
     (if kd_Action d \<notin> set valid_actions then (Some (InvalidAction (kd_Action d)), d)
      else if is_open (kd_Action d) then
        (if kd_Leverage d \<le> 0 then (Some (LeverageNotPositive (kd_Leverage d)), d)
         else (first_err [size_err L d, stops_err d], clamp_leverage L d))
      else (None, d))"

text \<open>\<open>i\<close> counts from the first decision; the error names its position.\<close>

fun validate_from :: "limits \<Rightarrow> nat \<Rightarrow> kdecision list \<Rightarrow> kernel_err option \<times> kdecision list" where
  "validate_from L i [] = (None, [])"
| "validate_from L i (d # ds) =
     (case validateDecision L d of
        (Some e, d') \<Rightarrow> (Some (DecisionInvalid (Suc i) e), d' # ds)
      | (None, d') \<Rightarrow> (let (e, ds') = validate_from L (Suc i) ds in (e, d' # ds')))"

definition validateDecisions :: "limits \<Rightarrow> kdecision list \<Rightarrow> kernel_err option \<times> kdecision list" where
  "validateDecisions L ds = validate_from L 0 ds"

section \<open>The text of an answer\<close>

definition utf8 :: "nat list \<Rightarrow> gostring" where
  "utf8 = map char_of"

text \<open>Characters \<open>fixMissingQuotes\<close> replaces, in its order, as their bytes.\<close>

definition quote_table :: "(gostring \<times> gostring) list" where
  "quote_table =
    [(utf8 [0xE2, 0x80, 0x9C], [char_of (34 :: nat)]), (utf8 [0xE2, 0x80, 0x9D], [char_of (34 :: nat)]),
     (utf8 [0xE2, 0x80, 0x98], [char_of (39 :: nat)]), (utf8 [0xE2, 0x80, 0x99], [char_of (39 :: nat)]),
     (utf8 [0xEF, 0xBC, 0xBB], ''[''), (utf8 [0xEF, 0xBC, 0xBD], '']''),
     (utf8 [0xEF, 0xBD, 0x9B], ''{''), (utf8 [0xEF, 0xBD, 0x9D], ''}''),
     (utf8 [0xEF, 0xBC, 0x9A], '':''), (utf8 [0xEF, 0xBC, 0x8C], '',''),
     (utf8 [0xE3, 0x80, 0x90], ''[''), (utf8 [0xE3, 0x80, 0x91], '']''),
     (utf8 [0xE3, 0x80, 0x94], ''[''), (utf8 [0xE3, 0x80, 0x95], '']''),
     (utf8 [0xE3, 0x80, 0x81], '',''), (utf8 [0xE3, 0x80, 0x80], '' '')]"

definition fixMissingQuotes :: "gostring \<Rightarrow> gostring" where
  "fixMissingQuotes s = foldl (\<lambda>t (p, r). replace_all p r t) s quote_table"

text \<open>A class of runes of three bytes each, removed in one pass.\<close>

fun remove_runes :: "gostring list \<Rightarrow> gostring \<Rightarrow> gostring" where
  "remove_runes ps (a # b # c # s) =
     (if [a, b, c] \<in> set ps then remove_runes ps s else a # remove_runes ps (b # c # s))"
| "remove_runes ps s = s"

definition removeInvisibleRunes :: "gostring \<Rightarrow> gostring" where
  "removeInvisibleRunes =
     remove_runes [utf8 [0xE2, 0x80, 0x8B], utf8 [0xE2, 0x80, 0x8C], utf8 [0xE2, 0x80, 0x8D], utf8 [0xEF, 0xBB, 0xBF]]"

text \<open>The class \<open>\s\<close> of a Go regular expression.\<close>

definition re_space :: "char \<Rightarrow> bool" where
  "re_space c = (let n = of_char c :: nat in n = 9 \<or> n = 10 \<or> n = 12 \<or> n = 13 \<or> n = 32)"

definition skip_ws :: "gostring \<Rightarrow> gostring" where
  "skip_ws = dropWhile re_space"

text \<open>\<open>^\[\s*\{\<close>: what follows the brace.\<close>

definition array_head :: "gostring \<Rightarrow> gostring option" where
  "array_head s =
     (case s of c # t \<Rightarrow> if c = CHR ''['' then
          (case skip_ws t of b # u \<Rightarrow> if b = CHR ''{'' then Some u else None | [] \<Rightarrow> None) else None
      | [] \<Rightarrow> None)"

text \<open>\<open>\}\s*\]\<close> at the start of the text, followed by what \<open>ok\<close> accepts: how many characters it takes.\<close>

definition close_at :: "(gostring \<Rightarrow> bool) \<Rightarrow> gostring \<Rightarrow> nat option" where
  "close_at ok s =
     (case s of c # t \<Rightarrow> if c = CHR ''}'' then
          (case skip_ws t of b # u \<Rightarrow> if b = CHR '']'' \<and> ok u then Some (length s - length u) else None | [] \<Rightarrow> None)
          else None
      | [] \<Rightarrow> None)"

fun lazy_close :: "(gostring \<Rightarrow> bool) \<Rightarrow> gostring \<Rightarrow> nat option" where
  "lazy_close ok [] = None"
| "lazy_close ok (c # s) =
     (case close_at ok (c # s) of Some n \<Rightarrow> Some n | None \<Rightarrow> map_option Suc (lazy_close ok s))"

definition array_at :: "(gostring \<Rightarrow> bool) \<Rightarrow> gostring \<Rightarrow> gostring option" where
  "array_at ok s =
     (case array_head s of None \<Rightarrow> None
      | Some u \<Rightarrow> map_option (\<lambda>n. take (length s - length u + n) s) (lazy_close ok u))"

fun first_match :: "(gostring \<Rightarrow> 'a option) \<Rightarrow> gostring \<Rightarrow> 'a option" where
  "first_match m [] = m []"
| "first_match m (c # s) = (case m (c # s) of Some x \<Rightarrow> Some x | None \<Rightarrow> first_match m s)"

definition reJSONArray :: "gostring \<Rightarrow> gostring option" where
  "reJSONArray = first_match (array_at (\<lambda>_. True))"

definition fence_at :: "gostring \<Rightarrow> gostring option" where
  "fence_at s =
     (if to_lower (take 7 s) = ''```json'' then array_at (\<lambda>u. has_prefix (skip_ws u) ''```'') (skip_ws (drop 7 s)) else None)"

definition reJSONFence :: "gostring \<Rightarrow> gostring option" where
  "reJSONFence = first_match fence_at"

text \<open>\<open>p(.*?)q\<close>: what stands between the first \<open>p\<close> and the first \<open>q\<close> after it.\<close>

definition between :: "gostring \<Rightarrow> gostring \<Rightarrow> gostring \<Rightarrow> gostring option" where
  "between p q s =
     (case str_index s p of None \<Rightarrow> None
      | Some i \<Rightarrow> (let t = drop (i + length p) s in map_option (\<lambda>j. take j t) (str_index t q)))"

definition reReasoningTag :: "gostring \<Rightarrow> gostring option" where
  "reReasoningTag = between ''<reasoning>'' ''</reasoning>''"

definition reDecisionTag :: "gostring \<Rightarrow> gostring option" where
  "reDecisionTag = between ''<decision>'' ''</decision>''"

definition compactArrayOpen :: "gostring \<Rightarrow> gostring" where
  "compactArrayOpen s =
     (let t = trim_space s in
      case array_head t of Some u \<Rightarrow> if length t - length u > 2 then ''[{'' @ u else t | None \<Rightarrow> t)"

text \<open>A digit, a comma and three digits.\<close>

definition is_digit :: "char \<Rightarrow> bool" where
  "is_digit c = (let n = of_char c :: nat in 48 \<le> n \<and> n \<le> 57)"

definition thousands_at :: "gostring \<Rightarrow> bool" where
  "thousands_at s \<longleftrightarrow>
     (case s of a # b # c # d # e # _ \<Rightarrow> is_digit a \<and> b = CHR '','' \<and> is_digit c \<and> is_digit d \<and> is_digit e | _ \<Rightarrow> False)"

definition validateJSONFormat :: "gostring \<Rightarrow> kernel_err option" where
  "validateJSONFormat s =
     (let t = trim_space s in
      if array_head t = None then
        (if has_prefix t ''['' \<and> \<not> contains (take 20 t) ''{'' then Some (NotDecisionArray (take 50 t))
         else Some (NotArrayOfObjects (take 20 t)))
      else if contains s ''~'' then Some RangeSymbol
      else map_option ThousandSeparator
        (first_match (\<lambda>u. if thousands_at u then Some (take 10 u) else None) s))"

section \<open>From the answer to decisions\<close>

definition extractCoTTrace :: "gostring \<Rightarrow> gostring" where
  "extractCoTTrace resp =
     (case reReasoningTag resp of Some t \<Rightarrow> trim_space t
      | None \<Rightarrow>
          (let cut = (\<lambda>p. case str_index resp p of Some i \<Rightarrow> if i > 0 then Some (take i resp) else None | None \<Rightarrow> None)
           in trim_space (case cut ''<decision>'' of Some t \<Rightarrow> t
                | None \<Rightarrow> (case cut ''['' of Some t \<Rightarrow> t | None \<Rightarrow> resp))))"

text \<open>\<open>js\<close> is \<open>json.Unmarshal\<close> into a list of decisions.\<close>

definition decode_decisions ::
  "(gostring \<Rightarrow> perr + kdecision list) \<Rightarrow> gostring \<Rightarrow> gostring \<Rightarrow> kernel_err + kdecision list" where
  "decode_decisions js resp raw =
     (let content = fixMissingQuotes (compactArrayOpen raw) in
      case validateJSONFormat content of Some e \<Rightarrow> Inl (JSONFormat e content resp)
      | None \<Rightarrow> (case js content of Inl e \<Rightarrow> Inl (JSONParse e content) | Inr ds \<Rightarrow> Inr ds))"

text \<open>No JSON in the answer: one decision to wait.\<close>

definition wait_decision :: "gostring \<Rightarrow> kdecision" where
  "wait_decision part = zero_decision\<lparr>kd_Symbol := ''ALL'', kd_Action := ''wait'',
     kd_Reasoning := ''Model didn'' @ [char_of (39 :: nat)] @ ''t output structured JSON decision, entering safe wait; summary: '' @
       (if length part > 240 then take 240 part @ ''...'' else part)\<rparr>"

definition json_part :: "gostring \<Rightarrow> gostring" where
  "json_part resp =
     (let s = fixMissingQuotes (trim_space (removeInvisibleRunes resp))
      in fixMissingQuotes (case reDecisionTag s of Some t \<Rightarrow> trim_space t | None \<Rightarrow> s))"

definition extractDecisions ::
  "(gostring \<Rightarrow> perr + kdecision list) \<Rightarrow> gostring \<Rightarrow> kernel_err + kdecision list" where
  "extractDecisions js resp =
     (let part = json_part resp in
      case reJSONFence part of Some m \<Rightarrow> decode_decisions js resp (trim_space m)
      | None \<Rightarrow>
          (case reJSONArray part of None \<Rightarrow> Inr [wait_decision part]
           | Some m \<Rightarrow> decode_decisions js resp (trim_space m)))"

record full_decision =
  fd_CoTTrace :: gostring
  fd_Decisions :: "kdecision list"

definition parseFullDecisionResponse ::
  "(gostring \<Rightarrow> perr + kdecision list) \<Rightarrow> limits \<Rightarrow> gostring \<Rightarrow> kernel_err option \<times> full_decision" where
  "parseFullDecisionResponse js L resp =
     (let cot = extractCoTTrace resp in
      case extractDecisions js resp of
        Inl e \<Rightarrow> (Some (ExtractFailed e), \<lparr>fd_CoTTrace = cot, fd_Decisions = []\<rparr>)
      | Inr ds \<Rightarrow>
          (case validateDecisions L ds of
             (Some e, ds) \<Rightarrow> (Some (ValidationFailed e), \<lparr>fd_CoTTrace = cot, fd_Decisions = ds\<rparr>)
           | (None, ds) \<Rightarrow> (None, \<lparr>fd_CoTTrace = cot, fd_Decisions = ds\<rparr>)))"

section \<open>Market data and the whole request\<close>

record market_data =
  md_CurrentPrice :: f64
  md_OILatest :: "f64 option"

record position_info =
  ps_Symbol :: gostring
  ps_Side :: gostring
  ps_EntryPrice :: f64
  ps_MarkPrice :: f64
  ps_Quantity :: f64
  ps_Leverage :: int
  ps_UnrealizedPnL :: f64
  ps_UnrealizedPnLPct :: f64
  ps_PeakPnLPct :: f64
  ps_LiquidationPrice :: f64
  ps_MarginUsed :: f64
  ps_UpdateTime :: int

record account_info =
  ac_TotalEquity :: f64
  ac_AvailableBalance :: f64
  ac_UnrealizedPnL :: f64
  ac_TotalPnL :: f64
  ac_TotalPnLPct :: f64
  ac_MarginUsed :: f64
  ac_MarginUsedPct :: f64
  ac_PositionCount :: int

text \<open>What the loop reads of \<open>kernel.Context\<close>; candidates are their symbols.\<close>

record kcontext =
  kx_Account :: account_info
  kx_Positions :: "position_info list"
  kx_CandidateCoins :: "gostring list"
  kx_MarketData :: "(gostring, market_data) gomap"

text \<open>The liquidity filter: open interest worth less than fifteen million dollars.\<close>

definition illiquid :: "market_data \<Rightarrow> bool" where
  "illiquid m \<longleftrightarrow>
     (case md_OILatest m of None \<Rightarrow> False
      | Some oi \<Rightarrow> md_CurrentPrice m > 0 \<and> oi * md_CurrentPrice m / Fin 1000000 < Fin 15)"

text \<open>\<open>get\<close> is \<open>market.GetWithTimeframes\<close> for the configured timeframes.\<close>

fun fetch_positions ::
  "(gostring \<Rightarrow> perr + market_data) \<Rightarrow> position_info list \<Rightarrow> (gostring, market_data) gomap \<Rightarrow> (gostring, market_data) gomap" where
  "fetch_positions get [] m = m"
| "fetch_positions get (p # ps) m =
     fetch_positions get ps (case get (ps_Symbol p) of Inl _ \<Rightarrow> m | Inr d \<Rightarrow> mput (ps_Symbol p) d m)"

fun fetch_candidates ::
  "(gostring \<Rightarrow> perr + market_data) \<Rightarrow> gostring list \<Rightarrow> gostring list \<Rightarrow> (gostring, market_data) gomap \<Rightarrow> (gostring, market_data) gomap" where
  "fetch_candidates get held [] m = m"
| "fetch_candidates get held (c # cs) m = fetch_candidates get held cs
     (if mhas m c then m
      else case get c of Inl _ \<Rightarrow> m
        | Inr d \<Rightarrow> if c \<notin> set held \<and> \<not> IsXyzDexAsset c \<and> illiquid d then m else mput c d m)"

definition fetchMarketDataWithStrategy :: "(gostring \<Rightarrow> perr + market_data) \<Rightarrow> kcontext \<Rightarrow> kcontext" where
  "fetchMarketDataWithStrategy get cx = cx\<lparr>kx_MarketData :=
     fetch_candidates get (map ps_Symbol (kx_Positions cx)) (kx_CandidateCoins cx) (fetch_positions get (kx_Positions cx) [])\<rparr>"

definition pruneCandidateCoinsWithoutMarketData :: "kcontext \<Rightarrow> kcontext" where
  "pruneCandidateCoinsWithoutMarketData cx =
     (if kx_CandidateCoins cx = [] \<or> kx_MarketData cx = [] then cx
      else cx\<lparr>kx_CandidateCoins := filter (mhas (kx_MarketData cx)) (kx_CandidateCoins cx)\<rparr>)"

text \<open>
  What the request needs of the outside: the estimate of its tokens and the limit of the model's
  context, the market data, the two prompts, the model, and JSON.
\<close>

record ai_env =
  ai_Estimate :: int
  ai_ContextLimit :: int
  ai_GetData :: "gostring \<Rightarrow> perr + market_data"
  ai_Call :: "kcontext \<Rightarrow> perr + gostring"
  ai_JSON :: "gostring \<Rightarrow> perr + kdecision list"

text \<open>The context is changed in place: the caller sees it pruned.\<close>

definition GetFullDecisionWithStrategy ::
  "ai_env \<Rightarrow> limits \<Rightarrow> kcontext \<Rightarrow> (kernel_err option \<times> full_decision option) \<times> kcontext" where
  "GetFullDecisionWithStrategy ai L cx0 =
     (if ai_Estimate ai > ai_ContextLimit ai then ((Some (TokenLimit (ai_Estimate ai) (ai_ContextLimit ai)), None), cx0)
      else
        let cx = pruneCandidateCoinsWithoutMarketData
              (if kx_MarketData cx0 = [] then fetchMarketDataWithStrategy (ai_GetData ai) cx0 else cx0)
        in case ai_Call ai cx of
             Inl e \<Rightarrow> ((Some (AIFailed e), None), cx)
           | Inr resp \<Rightarrow>
               (case parseFullDecisionResponse (ai_JSON ai) (L\<lparr>li_Equity := ac_TotalEquity (kx_Account cx)\<rparr>) resp of
                  (Some e, fd) \<Rightarrow> ((Some (ParseFailed e), Some fd), cx)
                | (None, fd) \<Rightarrow> ((None, Some fd), cx)))"

section \<open>The ratio of reward to risk\<close>

text \<open>
  The entry price the check works with is a fifth of the way from the stop to the target, so what it
  computes is four, up to rounding, whatever the two prices are.
\<close>

lemma powi_tiny: "(2 :: rat) powi (- 1075) \<le> 1 / 2 ^ 200 / 2 ^ 53"
proof -
  have "(2 :: rat) powi (- 1075) \<le> 2 powi (- 253)" by (simp only: powi2_le_iff)
  also have "\<dots> = 1 / 2 ^ 253" by (simp only: power_int_minus power_int_numeral divide_inverse mult_1_left)
  also have "\<dots> = 1 / 2 ^ 200 / 2 ^ 53" by simp
  finally show ?thesis .
qed

lemma fl_near:
  fixes x :: rat
  assumes lo: "1 / 2 ^ 200 \<le> \<bar>x\<bar>" and hi: "\<bar>x\<bar> \<le> 2 ^ 200"
  shows "\<exists>y. fl x = Fin y \<and> \<bar>y - x\<bar> \<le> \<bar>x\<bar> / 2 ^ 52"
proof (intro exI conjI)
  have "(2 :: rat) ^ 200 \<le> 2 ^ 1023" by (rule power_increasing) auto
  then show "fl x = Fin (rnd x)" by (rule fl_small [OF order_trans [OF hi]])
  have "(2 :: rat) powi (- 1075) \<le> \<bar>x\<bar> / 2 ^ 53"
    by (rule order_trans [OF powi_tiny divide_right_mono [OF lo]]) simp
  from order_trans [OF rnd_err_rel [of x] add_left_mono [OF this]]
  show "\<bar>rnd x - x\<bar> \<le> \<bar>x\<bar> / 2 ^ 52" by simp
qed

lemma fl_pct:
  fixes x :: rat
  assumes lo: "1 / 2 ^ 200 \<le> x" and hi: "x \<le> 2 ^ 200"
  shows "\<exists>y. fl x = Fin y \<and> 99 / 100 * x \<le> y \<and> y \<le> 101 / 100 * x"
proof -
  have x: "0 < x" by (rule less_le_trans [OF _ lo]) simp
  then obtain y where y: "fl x = Fin y" "\<bar>y - x\<bar> \<le> x / 2 ^ 52" using fl_near [of x] assms by auto
  moreover have "x / 2 ^ 52 \<le> x / 100" using x by (intro divide_left_mono) auto
  ultimately have "\<bar>y - x\<bar> \<le> x / 100" by (metis order_trans)
  then have "99 / 100 * x \<le> y" "y \<le> 101 / 100 * x" by linarith+
  then show ?thesis using y(1) by blast
qed

text \<open>Reward \<open>d2\<close> and risk \<open>d1\<close> as exact distances from the entry price \<open>e\<close>.\<close>

lemma ratio_core:
  fixes e d1 d2 :: rat
  assumes e: "1 / 2 ^ 50 \<le> e" "e \<le> 2 ^ 50" and d1: "1 / 2 ^ 90 \<le> d1" and d2: "d2 \<le> 2 ^ 50" "37 / 10 * d1 \<le> d2"
  shows "\<exists>p1. 0 < p1 \<and> fl d1 / Fin e * Fin 100 = Fin p1 \<and> Fin 3 \<le> fl d2 / Fin e * Fin 100 / Fin p1"
proof -
  have ep: "0 < e" by (rule less_le_trans [OF _ e(1)]) simp
  have dp: "0 < d1" by (rule less_le_trans [OF _ d1]) simp
  have tiny: "(1 :: rat) / 2 ^ 200 \<le> 1 / 2 ^ 90" "(2 :: rat) ^ 50 \<le> 2 ^ 200" "(1 :: rat) / 2 ^ 200 \<le> 1 / 2 ^ 141"
      "(2 :: rat) ^ 101 \<le> 2 ^ 200" "(1 :: rat) / 2 ^ 200 \<le> 1 / 2 ^ 142" "(2 :: rat) ^ 109 \<le> 2 ^ 200"
    by simp_all
  have range: "\<exists>p. fl d / Fin e * Fin 100 = Fin p \<and> 97 * (d / e) \<le> p \<and> p \<le> 104 * (d / e) \<and> 0 < p"
    if lo: "1 / 2 ^ 90 \<le> d" and hi: "d \<le> 2 ^ 50" for d
  proof -
    have d: "0 < d" by (rule less_le_trans [OF _ lo]) simp
    obtain y where y: "fl d = Fin y" "99 / 100 * d \<le> y" "y \<le> 101 / 100 * d"
      using fl_pct [OF order_trans [OF tiny(1) lo] order_trans [OF hi tiny(2)]] by blast
    have y0: "1 / 2 ^ 91 \<le> y" "y \<le> 2 ^ 51" using y lo hi by auto
    have "1 / 2 ^ 91 / 2 ^ 50 \<le> y / e" by (rule frac_le) (use y0 e ep in auto)
    moreover have "y / e \<le> 2 ^ 51 / (1 / 2 ^ 50)" by (rule frac_le) (use y0 e ep in auto)
    ultimately have r: "1 / 2 ^ 141 \<le> y / e" "y / e \<le> 2 ^ 101" by simp_all
    obtain z where z: "fl (y / e) = Fin z" "99 / 100 * (y / e) \<le> z" "z \<le> 101 / 100 * (y / e)"
      using fl_pct [OF order_trans [OF tiny(3) r(1)] order_trans [OF r(2) tiny(4)]] by blast
    have z0: "1 / 2 ^ 142 \<le> z" "z \<le> 2 ^ 102" using z r by auto
    obtain p where p: "fl (z * 100) = Fin p" "99 / 100 * (z * 100) \<le> p" "p \<le> 101 / 100 * (z * 100)"
      using fl_pct [OF order_trans [OF tiny(5), of "z * 100"] order_trans [OF _ tiny(6)]] z0 by auto
    have de: "99 / 100 * (d / e) \<le> y / e" "y / e \<le> 101 / 100 * (d / e)" "0 < d / e"
      using y d ep by (auto simp: divide_simps)
    have "97 * (d / e) \<le> p" "p \<le> 104 * (d / e)" using p z de by linarith+
    moreover have "0 < p" using \<open>97 * (d / e) \<le> p\<close> de(3) by linarith
    moreover have "fl d / Fin e * Fin 100 = Fin p" using y(1) z(1) p(1) ep by simp
    ultimately show ?thesis by blast
  qed
  have d2l: "1 / 2 ^ 90 \<le> d2" using d2(2) d1 dp by linarith
  have d1h: "d1 \<le> 2 ^ 50" using d2 dp by linarith
  obtain p1 where p1: "fl d1 / Fin e * Fin 100 = Fin p1" "p1 \<le> 104 * (d1 / e)" "0 < p1" "97 * (d1 / e) \<le> p1"
    using range [OF d1 d1h] by auto
  obtain p2 where p2: "fl d2 / Fin e * Fin 100 = Fin p2" "97 * (d2 / e) \<le> p2"
    using range [OF d2l d2(1)] by auto
  have "37 / 10 * (d1 / e) \<le> d2 / e" using d2(2) ep by (auto simp: divide_simps)
  moreover have "0 < d1 / e" using dp ep by simp
  ultimately have "345 / 100 * p1 \<le> p2" using p1(2) p2(2) by linarith
  then have q: "345 / 100 \<le> p2 / p1" using p1(3) by (simp add: pos_le_divide_eq)
  have "fl 3 \<le> fl (p2 / p1)" by (rule fl_mono) (use q in linarith)
  then have "Fin 3 \<le> fl d2 / Fin e * Fin 100 / Fin p1" using p2(1) p1(3) fl_of_int [of 3] by simp
  then show ?thesis using p1(1,3) by blast
qed

lemma fl_fifth: "\<exists>c. fl (1 / 5) = Fin c \<and> \<bar>c - 1 / 5\<bar> \<le> 1 / 2 ^ 50"
proof -
  have "\<bar>rnd (1 / 5 :: rat) - 1 / 5\<bar> \<le> 1 / 2 ^ 50" using rnd_err_moderate [of "1 / 5"] by simp
  then show ?thesis using fl_moderate [of "1 / 5"] by auto
qed

text \<open>The entry price: \<open>sg\<close> is \<open>1\<close> for a long and \<open>-1\<close> for a short position.\<close>

lemma entry_core:
  fixes s g :: rat
  assumes s: "1 / 2 ^ 40 \<le> s" "s \<le> 2 ^ 40" and g: "s / 2 ^ 30 \<le> g" "g \<le> 2 ^ 40"
  shows "\<exists>z. fl g * fl (1 / 5) = Fin z \<and> \<bar>z - g / 5\<bar> \<le> g / 10000 \<and>
    (\<forall>e. \<bar>e - (s + z)\<bar> \<le> \<bar>s + z\<bar> / 2 ^ 52 \<longrightarrow> \<bar>(e - s) - g / 5\<bar> \<le> g / 1000) \<and>
    (\<forall>e. \<bar>e - (s - z)\<bar> \<le> \<bar>s - z\<bar> / 2 ^ 52 \<longrightarrow> \<bar>(s - e) - g / 5\<bar> \<le> g / 1000)"
proof -
  have gl: "1 / 2 ^ 70 \<le> g" using s(1) g(1) by auto
  have g0: "0 < g" by (rule less_le_trans [OF _ gl]) simp
  have tiny: "(1 :: rat) / 2 ^ 200 \<le> 1 / 2 ^ 70" "(2 :: rat) ^ 40 \<le> 2 ^ 200" "(1 :: rat) / 2 ^ 200 \<le> 1 / 2 ^ 80"
    by simp_all
  have "\<exists>y. fl g = Fin y \<and> \<bar>y - g\<bar> \<le> g / 2 ^ 52"
    using fl_near [of g] order_trans [OF tiny(1) gl] order_trans [OF g(2) tiny(2)] g0 by auto
  then obtain y where y: "fl g = Fin y" "\<bar>y - g\<bar> \<le> g / 2 ^ 52" by blast
  obtain c where c: "fl (1 / 5) = Fin c" "\<bar>c - 1 / 5\<bar> \<le> 1 / 2 ^ 50" using fl_fifth by blast
  have h52: "g / 2 ^ 52 \<le> g / 1000000" using g0 by (intro divide_left_mono) auto
  with y(2) have yb: "\<bar>y - g\<bar> \<le> g / 1000000" by (rule order_trans)
  have "\<bar>c - 1 / 5\<bar> \<le> 1 / 10" using c(2) by (rule order_trans) simp
  then have c01: "0 < c" "c \<le> 1" by linarith+
  have "\<bar>y * c - g / 5\<bar> = \<bar>(y - g) * c + g * (c - 1 / 5)\<bar>" by (simp add: algebra_simps)
  also have "\<dots> \<le> \<bar>y - g\<bar> * c + g * \<bar>c - 1 / 5\<bar>"
    using abs_triangle_ineq [of "(y - g) * c" "g * (c - 1 / 5)"] c01 g0 by (simp add: abs_mult)
  also have "\<dots> \<le> g / 1000000 * 1 + g * (1 / 2 ^ 50)"
    by (intro add_mono mult_mono) (use yb c01 c(2) g0 in auto)
  also have "\<dots> \<le> g / 100000" using g0 by simp
  finally have yc: "\<bar>y * c - g / 5\<bar> \<le> g / 100000" .
  have ycr: "1 / 2 ^ 80 \<le> \<bar>y * c\<bar>" "\<bar>y * c\<bar> \<le> 2 ^ 200"
  proof -
    have "g / 10 \<le> y * c" using yc by linarith
    then show "1 / 2 ^ 80 \<le> \<bar>y * c\<bar>" using gl by auto
    have "\<bar>y * c\<bar> \<le> g" using yc g0 by linarith
    then show "\<bar>y * c\<bar> \<le> 2 ^ 200" using order_trans [OF g(2) tiny(2)] by (rule order_trans)
  qed
  obtain z where z: "fl (y * c) = Fin z" "\<bar>z - y * c\<bar> \<le> \<bar>y * c\<bar> / 2 ^ 52"
    using fl_near [OF order_trans [OF tiny(3) ycr(1)] ycr(2)] by blast
  have "\<bar>y * c\<bar> / 2 ^ 52 \<le> g / 2 ^ 52" using yc g0 by (intro divide_right_mono) (linarith, simp)
  then have zg: "\<bar>z - g / 5\<bar> \<le> g / 10000" using z(2) yc g0 h52 by linarith
  have small: "\<bar>u\<bar> / 2 ^ 52 \<le> g / 100000" if "\<bar>u\<bar> \<le> s + g" for u
  proof -
    have "s \<le> 2 ^ 30 * g" using g(1) by (simp add: field_simps)
    then have "\<bar>u\<bar> \<le> (2 ^ 30 + 1) * g" using that by (simp add: algebra_simps)
    then show ?thesis using g0 by simp
  qed
  have zb: "0 \<le> z" "z \<le> g" using zg g0 by linarith+
  have s0: "0 < s" by (rule less_le_trans [OF _ s(1)]) simp
  show ?thesis
  proof (intro exI conjI allI impI)
    show "fl g * fl (1 / 5) = Fin z" using y(1) c(1) z(1) by simp
    show "\<bar>z - g / 5\<bar> \<le> g / 10000" by (rule zg)
    fix e
    show "\<bar>(e - s) - g / 5\<bar> \<le> g / 1000" if "\<bar>e - (s + z)\<bar> \<le> \<bar>s + z\<bar> / 2 ^ 52"
      using that small [of "s + z"] zg zb s0 by linarith
    show "\<bar>(s - e) - g / 5\<bar> \<le> g / 1000" if "\<bar>e - (s - z)\<bar> \<le> \<bar>s - z\<bar> / 2 ^ 52"
      using that small [of "s - z"] zg zb s0 by linarith
  qed
qed

text \<open>The distances from the entry price, once \<open>e\<close> is known to lie about a fifth of the way.\<close>

lemma ratio_at_fifth:
  fixes e g d1 d2 :: rat
  assumes "1 / 2 ^ 70 \<le> g" "g \<le> 2 ^ 40" "1 / 2 ^ 50 \<le> e" "e \<le> 2 ^ 50" "\<bar>d1 - g / 5\<bar> \<le> g / 1000" "d2 = g - d1"
  shows "\<exists>p1. 0 < p1 \<and> fl d1 / Fin e * Fin 100 = Fin p1 \<and> Fin 3 \<le> fl d2 / Fin e * Fin 100 / Fin p1"
proof (rule ratio_core)
  have g: "0 < g" by (rule less_le_trans [OF _ assms(1)]) simp
  have b: "g / 10 \<le> d1" "d1 \<le> 21 / 100 * g" using assms(5) g by linarith+
  show "1 / 2 ^ 90 \<le> d1" using b(1) assms(1) by auto
  show "d2 \<le> 2 ^ 50" using b(1) g assms(2,6) by auto
  show "37 / 10 * d1 \<le> d2" using b g assms(6) by linarith
qed (use assms in auto)

text \<open>
  C24: the limit on reward to risk rejects nothing.  For every stop and every target from a 2^40th to 2^40
  that stand on the right sides of each other, a 2^30th of the stop apart, the check of
  \<open>validateDecision\<close> that asks for three times as much reward as risk passes.
\<close>

theorem risk_reward_never_rejects:
  assumes sl: "kd_StopLoss d = Fin s" "1 / 2 ^ 40 \<le> s" "s \<le> 2 ^ 40"
    and tp: "kd_TakeProfit d = Fin t" "1 / 2 ^ 40 \<le> t" "t \<le> 2 ^ 40"
    and apart: "s / 2 ^ 30 \<le> \<bar>t - s\<bar>" and side: "if kd_Action d = ''open_long'' then s < t else t < s"
  shows "stops_err d = None"
proof -
  define g where "g = \<bar>t - s\<bar>"
  have s0: "0 < s" by (rule less_le_trans [OF _ sl(2)]) simp
  have t0: "0 < t" by (rule less_le_trans [OF _ tp(2)]) simp
  have g: "1 / 2 ^ 70 \<le> g" "g \<le> 2 ^ 40" "s / 2 ^ 30 \<le> g"
    using sl(2,3) tp(3) apart s0 t0 by (auto simp: g_def)
  have g0: "0 < g" by (rule less_le_trans [OF _ g(1)]) simp
  obtain z where z: "fl g * fl (1 / 5) = Fin z" "\<bar>z - g / 5\<bar> \<le> g / 10000"
    "\<And>e. \<bar>e - (s + z)\<bar> \<le> \<bar>s + z\<bar> / 2 ^ 52 \<Longrightarrow> \<bar>(e - s) - g / 5\<bar> \<le> g / 1000"
    "\<And>e. \<bar>e - (s - z)\<bar> \<le> \<bar>s - z\<bar> / 2 ^ 52 \<Longrightarrow> \<bar>(s - e) - g / 5\<bar> \<le> g / 1000"
    using entry_core [OF sl(2,3) g(3,2)] by blast
  have tiny: "(1 :: rat) / 2 ^ 200 \<le> 1 / 2 ^ 40" "(1 :: rat) / 2 ^ 200 \<le> 1 / 2 ^ 41" "(2 :: rat) ^ 42 \<le> 2 ^ 200" by simp_all
  have zb: "g / 10 \<le> z" "z \<le> g / 4" using z(2) g0 by linarith+
  have "Fin 3 \<le> risk_reward d"
  proof (cases "kd_Action d = ''open_long''")
    case True
    then have gt: "g = t - s" using side by (simp add: g_def)
    have sz: "1 / 2 ^ 40 \<le> \<bar>s + z\<bar>" "\<bar>s + z\<bar> \<le> 2 ^ 42" using sl(2,3) zb g0 g(2) by auto
    obtain e where e: "fl (s + z) = Fin e" "\<bar>e - (s + z)\<bar> \<le> \<bar>s + z\<bar> / 2 ^ 52"
      using fl_near [OF order_trans [OF tiny(1) sz(1)] order_trans [OF sz(2) tiny(3)]] by blast
    note c = z(3) [OF e(2)]
    have eb: "s \<le> e" "e \<le> s + g" using c g0 by linarith+
    have en: "entry_guess d = Fin e" using True sl(1) tp(1) z(1) e(1) gt by (simp add: entry_guess_def minus_f64_def)
    obtain p1 where p: "0 < p1" "fl (e - s) / Fin e * Fin 100 = Fin p1" "Fin 3 \<le> fl (t - e) / Fin e * Fin 100 / Fin p1"
      using ratio_at_fifth [OF g(1,2), of e "e - s" "t - e"] c eb sl(2,3) g(2) gt by auto
    have "risk_percent d = Fin p1" "reward_percent d = fl (t - e) / Fin e * Fin 100"
      using True p(2) sl(1) tp(1) by (simp_all add: risk_percent_def reward_percent_def en Let_def minus_f64_def)
    then show ?thesis using p(1,3) by (simp add: risk_reward_def zero_f64_def)
  next
    case False
    then have gt: "g = s - t" using side by (simp add: g_def)
    have sz: "1 / 2 ^ 41 \<le> \<bar>s - z\<bar>" "\<bar>s - z\<bar> \<le> 2 ^ 42"
    proof -
      have "t \<le> s - z" using zb gt g0 by linarith
      then show "1 / 2 ^ 41 \<le> \<bar>s - z\<bar>" using tp(2) by auto
      show "\<bar>s - z\<bar> \<le> 2 ^ 42" using \<open>t \<le> s - z\<close> t0 zb g0 sl(3) by auto
    qed
    obtain e where e: "fl (s - z) = Fin e" "\<bar>e - (s - z)\<bar> \<le> \<bar>s - z\<bar> / 2 ^ 52"
      using fl_near [OF order_trans [OF tiny(2) sz(1)] order_trans [OF sz(2) tiny(3)]] by blast
    note c = z(4) [OF e(2)]
    have eb: "t \<le> e" "e \<le> s" using c g0 gt by linarith+
    have en: "entry_guess d = Fin e" using False sl(1) tp(1) z(1) e(1) gt by (simp add: entry_guess_def minus_f64_def)
    obtain p1 where p: "0 < p1" "fl (s - e) / Fin e * Fin 100 = Fin p1" "Fin 3 \<le> fl (e - t) / Fin e * Fin 100 / Fin p1"
      using ratio_at_fifth [OF g(1,2), of e "s - e" "e - t"] c eb tp(2) sl(3) gt by auto
    have "risk_percent d = Fin p1" "reward_percent d = fl (e - t) / Fin e * Fin 100"
      using False p(2) sl(1) tp(1) by (simp_all add: risk_percent_def reward_percent_def en Let_def minus_f64_def)
    then show ?thesis using p(1,3) by (simp add: risk_reward_def zero_f64_def)
  qed
  then have "\<not> risk_reward d < Fin 3" by (simp add: f64_not_less)
  then show ?thesis using side sl(1) tp(1) s0 t0 by (auto simp: stops_err_def zero_f64_def split: if_splits)
qed

theorem risk_reward_never_rejects_witness:
  "stops_err (zero_decision\<lparr>kd_Action := ''open_long'', kd_StopLoss := Fin 90, kd_TakeProfit := Fin 110\<rparr>) = None \<and>
   stops_err (zero_decision\<lparr>kd_Action := ''open_short'', kd_StopLoss := Fin 110, kd_TakeProfit := Fin 109\<rparr>) = None"
  using risk_reward_never_rejects [of "zero_decision\<lparr>kd_Action := ''open_long'', kd_StopLoss := Fin 90, kd_TakeProfit := Fin 110\<rparr>" 90 110]
    risk_reward_never_rejects [of "zero_decision\<lparr>kd_Action := ''open_short'', kd_StopLoss := Fin 110, kd_TakeProfit := Fin 109\<rparr>" 110 109]
  by simp

definition ascii :: "gostring \<Rightarrow> bool" where
  "ascii s \<longleftrightarrow> list_all (\<lambda>c. \<not> digit7 c) s"

lemma replace_all_absent: "\<forall>c \<in> set s. c \<noteq> hd p \<Longrightarrow> replace_all p r s = s"
proof (induction s)
  case (Cons c s)
  then have "\<not> (p \<noteq> [] \<and> has_prefix (c # s) p)" by (cases p) (auto simp: has_prefix_def)
  then show ?case using Cons by auto
qed simp

lemma replace_all_ascii: "digit7 (hd p) \<Longrightarrow> ascii s \<Longrightarrow> replace_all p r s = s"
  by (rule replace_all_absent) (auto simp: ascii_def list_all_iff)

lemma quote_keys: "\<forall>(p, r) \<in> set quote_table. digit7 (hd p)"
  by code_simp

lemma fixMissingQuotes_ascii:
  assumes "ascii s" shows "fixMissingQuotes s = s"
proof -
  have "foldl (\<lambda>t (p, r). replace_all p r t) s qs = s" if "\<forall>(p, r) \<in> set qs. digit7 (hd p)" for qs
    using that by (induction qs) (auto simp: replace_all_ascii assms)
  then show ?thesis using quote_keys by (simp add: fixMissingQuotes_def)
qed

lemma removeInvisibleRunes_ascii:
  assumes "ascii s" shows "removeInvisibleRunes s = s"
proof -
  have "remove_runes ps s = s" if "\<forall>p \<in> set ps. digit7 (hd p)" for ps
    using assms that
  proof (induction ps s rule: remove_runes.induct)
    case (1 ps a b c s)
    then have "[a, b, c] \<notin> set ps" by (auto simp: ascii_def)
    then show ?case using 1 by (simp add: ascii_def)
  qed auto
  moreover have "list_all (\<lambda>p. digit7 (hd p))
      [utf8 [0xE2, 0x80, 0x8B], utf8 [0xE2, 0x80, 0x8C], utf8 [0xE2, 0x80, 0x8D], utf8 [0xEF, 0xBB, 0xBF]]"
    by code_simp
  ultimately show ?thesis by (simp add: removeInvisibleRunes_def list_all_iff)
qed

section \<open>What passes\<close>

text \<open>What every decision that reaches the trader satisfies.\<close>

definition max_leverage :: "limits \<Rightarrow> kdecision \<Rightarrow> int" where
  "max_leverage L d = (if major_symbol (kd_Symbol d) then li_MajorLeverage L else li_AltLeverage L)"

text \<open>
  What an opening must satisfy, in the product's own terms: a leverage within the tier of the symbol, at least 60
  dollars of BTC or ETH and 12 of anything else, at most the symbol's multiple of the equity and one percent
  more, and positive stops with the loss below the profit of a long and above that of a short.
\<close>

definition size_cap :: "limits \<Rightarrow> kdecision \<Rightarrow> f64" where
  "size_cap L d =
     (let v = li_Equity L * (if major_symbol (kd_Symbol d) then li_MajorRatio L else li_AltRatio L) in v + v * fl (1 / 100))"

definition opening_ok :: "limits \<Rightarrow> kdecision \<Rightarrow> bool" where
  "opening_ok L d \<longleftrightarrow>
     kd_Leverage d \<le> max_leverage L d \<and> (0 < max_leverage L d \<longrightarrow> 0 < kd_Leverage d) \<and>
     (kd_PositionSizeUSD d \<noteq> NaN \<longrightarrow>
        (if kd_Symbol d \<in> {''BTCUSDT'', ''ETHUSDT''} then Fin 60 else Fin 12) \<le> kd_PositionSizeUSD d \<and>
        (size_cap L d \<noteq> NaN \<longrightarrow> kd_PositionSizeUSD d \<le> size_cap L d)) \<and>
     (kd_StopLoss d \<noteq> NaN \<and> kd_TakeProfit d \<noteq> NaN \<longrightarrow>
        0 < kd_StopLoss d \<and> 0 < kd_TakeProfit d \<and>
        (if kd_Action d = ''open_long'' then kd_StopLoss d < kd_TakeProfit d else kd_TakeProfit d < kd_StopLoss d))"

definition kernel_ok :: "limits \<Rightarrow> kdecision \<Rightarrow> bool" where
  "kernel_ok L d \<longleftrightarrow>
     kd_Action d \<in> {''open_long'', ''open_short'', ''close_long'', ''close_short'', ''hold'', ''wait''} \<and>
     (kd_Action d \<in> {''open_long'', ''open_short''} \<longrightarrow> opening_ok L d)"

lemma size_err_None:
  assumes "size_err L d = None" "kd_PositionSizeUSD d \<noteq> NaN"
  shows "(if kd_Symbol d \<in> {''BTCUSDT'', ''ETHUSDT''} then Fin 60 else Fin 12) \<le> kd_PositionSizeUSD d"
    "size_cap L d \<noteq> NaN \<Longrightarrow> kd_PositionSizeUSD d \<le> size_cap L d"
  using assms by (auto simp: size_err_def size_cap_def btc_eth_def Let_def f64_not_less split: if_splits)

lemma stops_err_None:
  assumes "stops_err d = None" "kd_StopLoss d \<noteq> NaN" "kd_TakeProfit d \<noteq> NaN"
  shows "0 < kd_StopLoss d \<and> 0 < kd_TakeProfit d \<and>
    (if kd_Action d = ''open_long'' then kd_StopLoss d < kd_TakeProfit d else kd_TakeProfit d < kd_StopLoss d)"
  using assms by (auto simp: stops_err_def f64_not_le zero_f64_def split: if_splits)

lemma clamp_leverage_simps [simp]:
  "kd_Action (clamp_leverage L d) = kd_Action d" "kd_Symbol (clamp_leverage L d) = kd_Symbol d"
  "size_err L' (clamp_leverage L d) = size_err L' d" "stops_err (clamp_leverage L d) = stops_err d"
  by (auto simp: clamp_leverage_def Let_def size_err_def stops_err_def risk_reward_def risk_percent_def reward_percent_def
      entry_guess_def)

lemma clamp_leverage_le:
  "kd_Leverage (clamp_leverage L d) \<le> max_leverage L d"
  "0 < kd_Leverage d \<Longrightarrow> 0 < max_leverage L d \<Longrightarrow> 0 < kd_Leverage (clamp_leverage L d)"
  "max_leverage L (clamp_leverage L d) = max_leverage L d"
  by (simp_all add: clamp_leverage_def max_leverage_def Let_def)

lemma validateDecision_ok:
  assumes "validateDecision L d = (None, d')"
  shows "kernel_ok L d' \<and> kd_Symbol d' = kd_Symbol d \<and> kd_Action d' = kd_Action d"
proof -
  have v: "kd_Action d \<in> set valid_actions" using assms by (auto simp: validateDecision_def split: if_splits)
  show ?thesis
  proof (cases "is_open (kd_Action d)")
    case True
    then have d': "d' = clamp_leverage L d" and e: "size_err L d' = None" "stops_err d' = None" and l: "0 < kd_Leverage d"
      using assms v by (auto simp: validateDecision_def first_err_None split: if_splits)
    have "opening_ok L d'"
      using size_err_None [OF e(1) [unfolded d']] stops_err_None [OF e(2) [unfolded d']] clamp_leverage_le [where L = L and d = d] l by (simp add: opening_ok_def d')
    then show ?thesis using v by (auto simp: kernel_ok_def d' valid_actions_def)
  qed (use assms v in \<open>auto simp: validateDecision_def kernel_ok_def valid_actions_def is_open_def\<close>)
qed

lemma validate_from_ok: "validate_from L i ds = (None, ds') \<Longrightarrow> \<forall>d \<in> set ds'. kernel_ok L d"
  by (induction ds arbitrary: i ds') (auto simp: validateDecision_ok split: prod.splits option.splits)

text \<open>
  C8: decisions that reach the trader are valid.  When the answer of the model is accepted, every decision
  has a known action, and every opening has a leverage within its tier, at least 60 dollars of BTC or ETH
  and 12 of anything else, at most its multiple of the equity and one percent, and stops on the right
  sides; an answer without a JSON array is accepted as one decision to wait.
\<close>

theorem kernel_decisions_valid:
  "(\<forall>fd. parseFullDecisionResponse js L resp = (None, fd) \<longrightarrow> (\<forall>d \<in> set (fd_Decisions fd). kernel_ok L d)) \<and>
   (reJSONFence (json_part resp) = None \<and> reJSONArray (json_part resp) = None \<longrightarrow>
      (\<exists>fd. parseFullDecisionResponse js L resp = (None, fd) \<and> map kd_Action (fd_Decisions fd) = [''wait'']))"
proof (intro conjI allI impI)
  fix fd assume "parseFullDecisionResponse js L resp = (None, fd)"
  then show "\<forall>d \<in> set (fd_Decisions fd). kernel_ok L d"
    using validate_from_ok [of L 0]
    by (auto simp: parseFullDecisionResponse_def validateDecisions_def Let_def split: sum.splits prod.splits option.splits)
next
  assume "reJSONFence (json_part resp) = None \<and> reJSONArray (json_part resp) = None"
  then have "extractDecisions js resp = Inr [wait_decision (json_part resp)]" by (simp add: extractDecisions_def Let_def)
  moreover have "validateDecisions L [wait_decision p] = (None, [wait_decision p])" for p
    by (simp add: validateDecisions_def validateDecision_def wait_decision_def valid_actions_def is_open_def)
  ultimately show "\<exists>fd. parseFullDecisionResponse js L resp = (None, fd) \<and> map kd_Action (fd_Decisions fd) = [''wait'']"
    by (simp add: parseFullDecisionResponse_def Let_def wait_decision_def)
qed

definition opening_example :: kdecision where
  "opening_example = zero_decision\<lparr>kd_Symbol := ''BTCUSDT'', kd_Action := ''open_long'', kd_Leverage := 10,
     kd_PositionSizeUSD := Fin 100, kd_StopLoss := Fin 90, kd_TakeProfit := Fin 130\<rparr>"

theorem kernel_decisions_valid_witness:
  "let L = \<lparr>li_Equity = Fin 1000, li_MajorLeverage = 5, li_AltLeverage = 3, li_MajorRatio = Fin 5, li_AltRatio = Fin 1\<rparr>;
       js = (\<lambda>_. Inr [opening_example])
   in (\<forall>d \<in> set (fd_Decisions (snd (parseFullDecisionResponse js L ''[{}]''))). kernel_ok L d) \<and>
      map kd_Leverage (fd_Decisions (snd (parseFullDecisionResponse js L ''[{}]''))) = [5] \<and>
      map kd_Action (fd_Decisions (snd (parseFullDecisionResponse js L ''no trade''))) = [''wait'']"
proof -
  define L where "L = \<lparr>li_Equity = Fin 1000, li_MajorLeverage = 5, li_AltLeverage = 3, li_MajorRatio = Fin 5, li_AltRatio = Fin 1\<rparr>"
  define js where "js = (\<lambda>_ :: gostring. Inr [opening_example] :: perr + kdecision list)"
  have "ascii ''[{}]''" "ascii ''no trade''" by code_simp+
  note as = this [THEN fixMissingQuotes_ascii] this [THEN removeInvisibleRunes_ascii]
  have tr: "trim_space ''[{}]'' = ''[{}]''" "trim_space ''no trade'' = ''no trade''" "compactArrayOpen ''[{}]'' = ''[{}]''"
    "reDecisionTag ''[{}]'' = None" "reDecisionTag ''no trade'' = None" by code_simp+
  then have jp: "json_part ''[{}]'' = ''[{}]''" "json_part ''no trade'' = ''no trade''" using as by (simp_all add: json_part_def)
  have p: "reJSONFence ''[{}]'' = None" "reJSONArray ''[{}]'' = Some ''[{}]''" "validateJSONFormat ''[{}]'' = None"
    "reJSONFence ''no trade'' = None" "reJSONArray ''no trade'' = None"
    by code_simp+
  have ex: "extractDecisions js ''[{}]'' = Inr [opening_example]"
    using p(1-3) tr as by (simp add: jp extractDecisions_def decode_decisions_def js_def Let_def)
  have "size_err L opening_example = None"
    by (simp add: size_err_def opening_example_def L_def zero_decision_def btc_eth_def major_symbol_def f64_eval zero_f64_def)
  moreover have "stops_err opening_example = None"
    by (simp add: stops_err_def opening_example_def zero_decision_def risk_reward_def risk_percent_def reward_percent_def entry_guess_def
        Let_def minus_f64_def f64_eval zero_f64_def)
  ultimately have "validateDecision L opening_example = (None, opening_example\<lparr>kd_Leverage := 5\<rparr>)"
    by (simp add: validateDecision_def first_err_None clamp_leverage_def opening_example_def zero_decision_def valid_actions_def is_open_def
        major_symbol_def btc_eth_def L_def)
  then have r: "parseFullDecisionResponse js L ''[{}]'' =
      (None, \<lparr>fd_CoTTrace = extractCoTTrace ''[{}]'', fd_Decisions = [opening_example\<lparr>kd_Leverage := 5\<rparr>]\<rparr>)"
    by (simp add: parseFullDecisionResponse_def validateDecisions_def ex Let_def)
  then have "\<forall>d \<in> set (fd_Decisions (snd (parseFullDecisionResponse js L ''[{}]''))). kernel_ok L d"
    using conjunct1 [OF kernel_decisions_valid [of js L "''[{}]''"]] by (metis snd_conv)
  moreover have "map kd_Action (fd_Decisions (snd (parseFullDecisionResponse js L ''no trade''))) = [''wait'']"
    using conjunct2 [OF kernel_decisions_valid [of js L "''no trade''"]] p(4,5) by (metis jp(2) snd_conv)
  ultimately show ?thesis unfolding Let_def L_def [symmetric] js_def [symmetric] by (simp add: r)
qed

end
