(* ===== verification/Fut_Store.thy ===== *)
theory Fut_Store
  imports Fut_Positions Fut_Kernel
begin

text \<open>
  What the futures trader writes besides its positions: orders and fills (\<open>store/order.go\<close>), its log of
  decisions (\<open>store/decision.go\<close>), its equity (\<open>store/equity.go\<close>) and the charges of the model
  (\<open>store/ai_charge.go\<close>).  Times are milliseconds, but those of equity and decisions nanoseconds.
\<close>

section \<open>Orders and fills\<close>

record trader_order =
  to_ID :: int
  to_TraderID :: gostring
  to_ExchangeID :: gostring
  to_ExchangeType :: gostring
  to_ExchangeOrderID :: gostring
  to_Symbol :: gostring
  to_Side :: gostring
  to_PositionSide :: gostring
  to_Type :: gostring
  to_TimeInForce :: gostring
  to_Quantity :: f64
  to_Price :: f64
  to_Status :: gostring
  to_FilledQuantity :: f64
  to_AvgFillPrice :: f64
  to_Commission :: f64
  to_CommissionAsset :: gostring
  to_Leverage :: int
  to_ReduceOnly :: bool
  to_ClosePosition :: bool
  to_OrderAction :: gostring
  to_CreatedAt :: int
  to_UpdatedAt :: int
  to_FilledAt :: int

record trader_fill =
  fi_ID :: int
  fi_TraderID :: gostring
  fi_ExchangeID :: gostring
  fi_ExchangeType :: gostring
  fi_OrderID :: int
  fi_ExchangeOrderID :: gostring
  fi_ExchangeTradeID :: gostring
  fi_Symbol :: gostring
  fi_Side :: gostring
  fi_Price :: f64
  fi_Quantity :: f64
  fi_QuoteQuantity :: f64
  fi_Commission :: f64
  fi_CommissionAsset :: gostring
  fi_RealizedPnL :: f64
  fi_IsMaker :: bool
  fi_CreatedAt :: int

text \<open>
  The tables; \<open>or_NewID\<close> is the key gorm writes back into the struct it has just created, which the
  caller goes on to use.
\<close>

record 'd order_db =
  or_Orders :: "('d, trader_order) table"
  or_Fills :: "('d, trader_fill) table"
  or_NewID :: "'d \<Rightarrow> int"

definition order_key :: "gostring \<Rightarrow> gostring \<Rightarrow> trader_order \<Rightarrow> bool" where
  "order_key exid oid r \<longleftrightarrow> to_ExchangeID r = exid \<and> to_ExchangeOrderID r = oid"

definition fill_key :: "gostring \<Rightarrow> gostring \<Rightarrow> trader_fill \<Rightarrow> bool" where
  "fill_key exid xid r \<longleftrightarrow> fi_ExchangeID r = exid \<and> fi_ExchangeTradeID r = xid"

definition GetOrderByExchangeID :: "'d order_db \<Rightarrow> gostring \<Rightarrow> gostring \<Rightarrow> 'd \<Rightarrow> perr + trader_order option" where
  "GetOrderByExchangeID db exid oid d =
     (case tb_First (or_Orders db) d (order_key exid oid) of
        Inl e \<Rightarrow> Inl (WrapErr ''failed to get order'' e) | Inr r \<Rightarrow> Inr r)"

definition GetFillByExchangeTradeID :: "'d order_db \<Rightarrow> gostring \<Rightarrow> gostring \<Rightarrow> 'd \<Rightarrow> perr + trader_fill option" where
  "GetFillByExchangeTradeID db exid xid d =
     (case tb_First (or_Fills db) d (fill_key exid xid) of
        Inl e \<Rightarrow> Inl (WrapErr ''failed to get fill'' e) | Inr r \<Rightarrow> Inr r)"

text \<open>Both return the struct as the caller sees it afterwards.\<close>

definition CreateOrder :: "'d order_db \<Rightarrow> trader_order \<Rightarrow> 'd \<Rightarrow> perr option \<times> trader_order \<times> 'd" where
  "CreateOrder db r d =
     (case GetOrderByExchangeID db (to_ExchangeID r) (to_ExchangeOrderID r) d of
        Inl e \<Rightarrow> (Some (WrapErr ''failed to check existing order'' e), r, d)
      | Inr (Some x) \<Rightarrow> (None, r\<lparr>to_ID := to_ID x, to_CreatedAt := to_CreatedAt x, to_UpdatedAt := to_UpdatedAt x\<rparr>, d)
      | Inr None \<Rightarrow>
          (case tb_Create (or_Orders db) d r of
             (None, d) \<Rightarrow> (None, r\<lparr>to_ID := or_NewID db d\<rparr>, d) | (Some e, d) \<Rightarrow> (Some e, r, d)))"

definition UpdateOrderStatus ::
  "'d order_db \<Rightarrow> int \<Rightarrow> int \<Rightarrow> gostring \<Rightarrow> f64 \<Rightarrow> f64 \<Rightarrow> f64 \<Rightarrow> 'd \<Rightarrow> perr option \<times> 'd" where
  "UpdateOrderStatus db now i status qty price fee d =
     tb_Update (or_Orders db) d (\<lambda>r. to_ID r = i)
       (\<lambda>r. let r = r\<lparr>to_Status := status, to_FilledQuantity := qty, to_AvgFillPrice := price, to_Commission := fee,
              to_UpdatedAt := now\<rparr> in if status = ''FILLED'' then r\<lparr>to_FilledAt := now\<rparr> else r)"

definition CreateFill :: "'d order_db \<Rightarrow> trader_fill \<Rightarrow> 'd \<Rightarrow> perr option \<times> 'd" where
  "CreateFill db r d =
     (case GetFillByExchangeTradeID db (fi_ExchangeID r) (fi_ExchangeTradeID r) d of
        Inl e \<Rightarrow> (Some (WrapErr ''failed to check existing fill'' e), d)
      | Inr (Some x) \<Rightarrow> (None, d)
      | Inr None \<Rightarrow> tb_Create (or_Fills db) d r)"

definition GetTraderOrders :: "'d order_db \<Rightarrow> gostring \<Rightarrow> int \<Rightarrow> 'd \<Rightarrow> perr + trader_order list" where
  "GetTraderOrders db tid limit d =
     (case tb_List (or_Orders db) d (\<lambda>r. to_TraderID r = tid) True 0 (Some limit) of
        Inl e \<Rightarrow> Inl (WrapErr ''failed to query orders'' e) | Inr rs \<Rightarrow> Inr rs)"

definition GetTraderOrdersFiltered ::
  "'d order_db \<Rightarrow> gostring \<Rightarrow> gostring \<Rightarrow> gostring \<Rightarrow> int \<Rightarrow> 'd \<Rightarrow> perr + trader_order list" where
  "GetTraderOrdersFiltered db tid sy status limit d =
     (case tb_List (or_Orders db) d (\<lambda>r. to_TraderID r = tid \<and> (sy \<noteq> '''' \<longrightarrow> to_Symbol r = sy) \<and>
              (status \<noteq> '''' \<longrightarrow> to_Status r = status)) True 0 (Some limit) of
        Inl e \<Rightarrow> Inl (WrapErr ''failed to query orders'' e) | Inr rs \<Rightarrow> Inr rs)"

definition GetOrderFills :: "'d order_db \<Rightarrow> gostring \<Rightarrow> int \<Rightarrow> 'd \<Rightarrow> perr + trader_fill list" where
  "GetOrderFills db tid oid d =
     (case tb_List (or_Fills db) d (\<lambda>r. fi_OrderID r = oid \<and> (tid \<noteq> '''' \<longrightarrow> fi_TraderID r = tid)) False 0 None of
        Inl e \<Rightarrow> Inl (WrapErr ''failed to query fills'' e) | Inr rs \<Rightarrow> Inr rs)"

text \<open>\<open>strconv.ParseInt\<close> in base ten with 64 bits.\<close>

definition parse_int64 :: "gostring \<Rightarrow> int option" where
  "parse_int64 s =
     (let (neg, ds) = (case s of c # cs \<Rightarrow> if c = CHR ''-'' then (True, cs) else if c = CHR ''+'' then (False, cs) else (False, s)
                                | [] \<Rightarrow> (False, []))
      in if ds = [] then None
         else case dec_acc 0 ds of None \<Rightarrow> None
           | Some n \<Rightarrow> (let i = (if neg then - int n else int n)
               in if - (2 ^ 63) \<le> i \<and> i < 2 ^ 63 then Some i else None))"

text \<open>The largest numeric trade of each symbol; a symbol of negative trades only is left out.\<close>

definition max_trade :: "(gostring, int) gomap \<Rightarrow> trader_fill \<Rightarrow> (gostring, int) gomap" where
  "max_trade m r =
     (case parse_int64 (fi_ExchangeTradeID r) of None \<Rightarrow> m
      | Some i \<Rightarrow> if i > mget 0 m (fi_Symbol r) then mput (fi_Symbol r) i m else m)"

definition GetMaxTradeIDsByExchange :: "'d order_db \<Rightarrow> gostring \<Rightarrow> 'd \<Rightarrow> perr + (gostring, int) gomap" where
  "GetMaxTradeIDsByExchange db exid d =
     (case tb_Find (or_Fills db) d (\<lambda>r. fi_ExchangeID r = exid \<and> fi_ExchangeTradeID r \<noteq> '''') of
        Inl e \<Rightarrow> Inl (WrapErr ''failed to query trade IDs'' e) | Inr rs \<Rightarrow> Inr (foldl max_trade [] rs))"

definition GetLastFillTimeByExchange :: "'d order_db \<Rightarrow> gostring \<Rightarrow> 'd \<Rightarrow> perr + int" where
  "GetLastFillTimeByExchange db exid d =
     (case tb_List (or_Fills db) d (\<lambda>r. fi_ExchangeID r = exid) True 0 (Some 1) of
        Inl e \<Rightarrow> Inl e | Inr [] \<Rightarrow> Inl not_found | Inr (r # _) \<Rightarrow> Inr (fi_CreatedAt r))"

definition GetRecentFillSymbolsByExchange :: "'d order_db \<Rightarrow> gostring \<Rightarrow> int \<Rightarrow> 'd \<Rightarrow> perr + gostring list" where
  "GetRecentFillSymbolsByExchange db exid since d =
     (case tb_Find (or_Fills db) d (\<lambda>r. fi_ExchangeID r = exid \<and> fi_CreatedAt r \<ge> since) of
        Inl e \<Rightarrow> Inl e | Inr rs \<Rightarrow> Inr (remdups (map fi_Symbol rs)))"

section \<open>Equity\<close>

record equity_snapshot =
  eq_TraderID :: gostring
  eq_Timestamp :: int
  eq_TotalEquity :: f64
  eq_Balance :: f64
  eq_UnrealizedPnL :: f64
  eq_PositionCount :: int
  eq_MarginUsedPct :: f64

definition SaveEquity :: "('d, equity_snapshot) table \<Rightarrow> equity_snapshot \<Rightarrow> 'd \<Rightarrow> perr option \<times> 'd" where
  "SaveEquity T s d = wrap ''failed to save equity snapshot'' (tb_Create T d s)"

definition GetLatestEquity :: "('d, equity_snapshot) table \<Rightarrow> gostring \<Rightarrow> int \<Rightarrow> 'd \<Rightarrow> perr + equity_snapshot list" where
  "GetLatestEquity T tid limit d =
     (case tb_List T d (\<lambda>s. eq_TraderID s = tid) True 0 (Some limit) of
        Inl e \<Rightarrow> Inl (WrapErr ''failed to query equity records'' e) | Inr ss \<Rightarrow> Inr (rev ss))"

definition GetEquityByTimeRange :: "('d, equity_snapshot) table \<Rightarrow> gostring \<Rightarrow> int \<Rightarrow> int \<Rightarrow> 'd \<Rightarrow> perr + equity_snapshot list" where
  "GetEquityByTimeRange T tid from to d =
     (case tb_List T d (\<lambda>s. eq_TraderID s = tid \<and> from \<le> eq_Timestamp s \<and> eq_Timestamp s \<le> to) False 0 None of
        Inl e \<Rightarrow> Inl (WrapErr ''failed to query equity records'' e) | Inr ss \<Rightarrow> Inr ss)"

section \<open>Charges of the model\<close>

record ai_charge =
  ch_TraderID :: gostring
  ch_Model :: gostring
  ch_Provider :: gostring
  ch_CostUSD :: f64

definition modelPrices :: "(gostring, f64) gomap" where
  "modelPrices =
    [(''deepseek'', fl (3 / 1000)), (''deepseek-reasoner'', fl (5 / 1000)), (''deepseek-v4-flash'', fl (3 / 1000)),
     (''deepseek-v4-pro'', fl (1 / 100)), (''gpt-5.4'', fl (5 / 100)), (''gpt-5.4-pro'', fl (1 / 2)), (''gpt-5.3'', fl (1 / 100)),
     (''gpt-5-mini'', fl (5 / 1000)), (''claude-opus'', fl (12 / 100)), (''qwen-max'', fl (1 / 100)), (''qwen-plus'', fl (5 / 1000)),
     (''qwen-turbo'', fl (2 / 1000)), (''qwen-flash'', fl (2 / 1000)), (''grok-4.1'', fl (6 / 100)),
     (''gemini-3.1-pro'', fl (3 / 100)), (''kimi-k2.5'', fl (8 / 1000))]"

definition GetModelPrice :: "gostring \<Rightarrow> f64" where
  "GetModelPrice model = (case map_of modelPrices model of Some p \<Rightarrow> p | None \<Rightarrow> fl (1 / 100))"

definition RecordCharge :: "('d, ai_charge) table \<Rightarrow> gostring \<Rightarrow> gostring \<Rightarrow> gostring \<Rightarrow> 'd \<Rightarrow> perr option \<times> 'd" where
  "RecordCharge T tid model provider d =
     tb_Create T d \<lparr>ch_TraderID = tid, ch_Model = model, ch_Provider = provider, ch_CostUSD = GetModelPrice model\<rparr>"

section \<open>The log of decisions\<close>

record decision_action =
  da_Action :: gostring
  da_Symbol :: gostring
  da_Quantity :: f64
  da_Leverage :: int
  da_Price :: f64
  da_StopLoss :: f64
  da_TakeProfit :: f64
  da_Confidence :: int
  da_Reasoning :: gostring
  da_OrderID :: int
  da_Timestamp :: int
  da_Success :: bool
  da_Error :: "perr option"

text \<open>
  The record of a cycle, without the prompts and the text of the answer; its error is the pause, or what
  kept the context from being built or the model from deciding.
\<close>

datatype (plugins only: code size) cycle_err = PausedErr | ContextErr perr | AIErr kernel_err

record decision_log =
  dl_TraderID :: gostring
  dl_CycleNumber :: int
  dl_Timestamp :: int
  dl_CandidateCoins :: "gostring list"
  dl_Decisions :: "decision_action list"
  dl_Success :: bool
  dl_Error :: "cycle_err option"

definition LogDecision :: "('d, decision_log) table \<Rightarrow> decision_log \<Rightarrow> 'd \<Rightarrow> perr option \<times> 'd" where
  "LogDecision T r d = wrap ''failed to insert decision record'' (tb_Create T d r)"

record 'd fut_db =
  fu_Positions :: "'d pos_db"
  fu_Orders :: "'d order_db"
  fu_Equity :: "('d, equity_snapshot) table"
  fu_Charges :: "('d, ai_charge) table"
  fu_Decisions :: "('d, decision_log) table"

end
