(* ===== verification/Fut_Strategy.thy ===== *)
theory Fut_Strategy
  imports Sim_Persist Go_Time Go_Strconv
begin

text \<open>
  The configuration of a futures strategy (\<open>store/strategy.go\<close>): the limits it is clamped to, its JSON
  schema, the patches the chat agent applies, the estimate of the tokens a request takes, and the table
  of strategies.  As everywhere strings are ASCII, so the Chinese aliases and separators of the source
  do not occur; parsing a JSON list of strings is a parameter \<open>js\<close>.
\<close>

section \<open>Strings\<close>

text \<open>\<open>strings.Split\<close> at single characters; \<open>strings.FieldsFunc\<close> leaves out the empty parts.\<close>

fun split_by :: "(char \<Rightarrow> bool) \<Rightarrow> gostring \<Rightarrow> gostring list" where
  "split_by p [] = [[]]"
| "split_by p (c # s) = (if p c then [] # split_by p s
     else (case split_by p s of [] \<Rightarrow> [[c]] | w # ws \<Rightarrow> (c # w) # ws))"

definition fields_by :: "(char \<Rightarrow> bool) \<Rightarrow> gostring \<Rightarrow> gostring list" where
  "fields_by p s = filter (\<lambda>w. w \<noteq> []) (split_by p s)"

fun join_commas :: "gostring list \<Rightarrow> gostring" where
  "join_commas [] = []"
| "join_commas [w] = w"
| "join_commas (w # v # ws) = w @ '','' @ join_commas (v # ws)"

text \<open>What a loop with a set of the values seen keeps.\<close>

definition first_occurrences :: "'a list \<Rightarrow> 'a list" where
  "first_occurrences xs = rev (remdups (rev xs))"

lemma first_occurrences [simp]: "set (first_occurrences xs) = set xs" "distinct (first_occurrences xs)"
  by (simp_all add: first_occurrences_def)

section \<open>The configuration\<close>

record coin_source =
  cs_SourceType :: gostring
  cs_StaticCoins :: "gostring list"
  cs_ExcludedCoins :: "gostring list"
  cs_UseAI500 :: bool
  cs_AI500Limit :: int
  cs_UseOITop :: bool
  cs_OITopLimit :: int
  cs_UseOILow :: bool
  cs_OILowLimit :: int
  cs_UseHyperAll :: bool
  cs_UseHyperMain :: bool
  cs_HyperMainLimit :: int
  cs_HyperRankCategory :: gostring
  cs_HyperRankDirection :: gostring
  cs_HyperRankLimit :: int

record kline_config =
  kl_PrimaryTimeframe :: gostring
  kl_PrimaryCount :: int
  kl_LongerTimeframe :: gostring
  kl_LongerCount :: int
  kl_EnableMultiTimeframe :: bool
  kl_SelectedTimeframes :: "gostring list"

record external_source =
  xs_Name :: gostring
  xs_Type :: gostring
  xs_URL :: gostring
  xs_Method :: gostring
  xs_Headers :: "(gostring, gostring) gomap"
  xs_DataPath :: gostring
  xs_RefreshSecs :: int

record indicator_config =
  in_Klines :: kline_config
  in_EnableRawKlines :: bool
  in_EnableEMA :: bool
  in_EnableMACD :: bool
  in_EnableRSI :: bool
  in_EnableATR :: bool
  in_EnableBOLL :: bool
  in_EnableVolume :: bool
  in_EnableOI :: bool
  in_EnableFundingRate :: bool
  in_EMAPeriods :: "int list"
  in_RSIPeriods :: "int list"
  in_ATRPeriods :: "int list"
  in_BOLLPeriods :: "int list"
  in_ExternalDataSources :: "external_source list"
  in_NofxOSAPIKey :: gostring
  in_EnableQuantData :: bool
  in_EnableQuantOI :: bool
  in_EnableQuantNetflow :: bool
  in_EnableOIRanking :: bool
  in_OIRankingDuration :: gostring
  in_OIRankingLimit :: int
  in_EnableNetFlowRanking :: bool
  in_NetFlowRankingDuration :: gostring
  in_NetFlowRankingLimit :: int
  in_EnablePriceRanking :: bool
  in_PriceRankingDuration :: gostring
  in_PriceRankingLimit :: int

record risk_control =
  rk_MaxPositions :: int
  rk_BTCETHMaxLeverage :: int
  rk_AltcoinMaxLeverage :: int
  rk_BTCETHMaxPositionValueRatio :: f64
  rk_AltcoinMaxPositionValueRatio :: f64
  rk_MaxMarginUsage :: f64
  rk_MinPositionSize :: f64
  rk_MinRiskRewardRatio :: f64
  rk_MinConfidence :: int

record prompt_sections =
  se_RoleDefinition :: gostring
  se_TradingFrequency :: gostring
  se_EntryStandards :: gostring
  se_DecisionProcess :: gostring

record grid_config =
  gc_Symbol :: gostring
  gc_GridCount :: int
  gc_TotalInvestment :: f64
  gc_Leverage :: int
  gc_UpperPrice :: f64
  gc_LowerPrice :: f64
  gc_UseATRBounds :: bool
  gc_ATRMultiplier :: f64
  gc_Distribution :: gostring
  gc_MaxDrawdownPct :: f64
  gc_StopLossPct :: f64
  gc_DailyLossLimitPct :: f64
  gc_UseMakerOnly :: bool
  gc_EnableDirectionAdjust :: bool
  gc_DirectionBiasRatio :: f64

record publish_config =
  pb_IsPublic :: bool
  pb_ConfigVisible :: bool

text \<open>The part that only the strategies of the language model have.\<close>

record ai_config =
  ag_CoinSource :: coin_source
  ag_Indicators :: indicator_config
  ag_CustomPrompt :: gostring
  ag_RiskControl :: risk_control
  ag_PromptSections :: prompt_sections

record strategy_config =
  sc_StrategyType :: gostring
  sc_Language :: gostring
  sc_CoinSource :: coin_source
  sc_Indicators :: indicator_config
  sc_CustomPrompt :: gostring
  sc_RiskControl :: risk_control
  sc_PromptSections :: prompt_sections
  sc_GridConfig :: "grid_config option"
  sc_PublishConfig :: "publish_config option"

section \<open>Normalising the schema\<close>

definition normalizeStrategyType :: "gostring \<Rightarrow> gostring" where
  "normalizeStrategyType value =
     (let v = to_lower (trim_space value) in
      if v \<in> {''grid'', ''grid_strategy'', ''grid-trading'', ''grid trading'', ''grid_trading''} then ''grid_trading''
      else if v \<in> {'''', ''ai'', ''ai_strategy'', ''ai-trading'', ''ai trading'', ''ai_trading''} then ''ai_trading''
      else v)"

definition normalizeCoinSourceType :: "gostring \<Rightarrow> gostring" where
  "normalizeCoinSourceType value0 =
     (let value = to_lower (trim_space value0); compact = filter (\<lambda>c. c \<notin> set '' _-'') value in
      if compact = '''' then ''''
      else if contains compact ''ai500'' then ''ai500''
      else if contains compact ''oitop'' \<or> contains value ''oi top'' then ''oi_top''
      else if contains compact ''oilow'' \<or> contains value ''oi low'' then ''oi_low''
      else if contains compact ''hyperrank'' \<or> contains compact ''dynamicranking'' then ''hyper_rank''
      else if contains compact ''hyperall'' then ''hyper_all''
      else if contains compact ''hypermain'' then ''hyper_main''
      else if contains value ''static'' then ''static''
      else value)"

definition inferCoinSourceType :: "coin_source \<Rightarrow> gostring" where
  "inferCoinSourceType s =
     (if cs_StaticCoins s \<noteq> [] then ''static'' else if cs_UseAI500 s then ''ai500'' else if cs_UseOITop s then ''oi_top''
      else if cs_UseOILow s then ''oi_low'' else if cs_UseHyperAll s then ''hyper_all''
      else if cs_UseHyperMain s then ''hyper_main'' else ''hyper_rank'')"

text \<open>Lists that came as one string: a JSON list, or parts between commas, semicolons and line ends.\<close>

definition bracketed :: "gostring \<Rightarrow> bool" where
  "bracketed s \<longleftrightarrow> has_prefix s ''['' \<and> has_suffix s '']''"

definition split_value :: "(gostring \<Rightarrow> gostring list option) \<Rightarrow> gostring \<Rightarrow> gostring list" where
  "split_value js value =
     (let v = trim_space value in
      if v = '''' then []
      else case (if bracketed v then js v else None) of Some xs \<Rightarrow> xs
        | None \<Rightarrow> filter (\<lambda>p. p \<noteq> '''') (map (\<lambda>p. trim_by (\<lambda>c. c \<in> {CHR 34, CHR 39}) (trim_space p))
            (fields_by (\<lambda>c. c \<in> {CHR '','', CHR '';'', CHR 10}) (trim_by (\<lambda>c. c \<in> set ''[]'') v))))"

definition splitLooseStringList :: "(gostring \<Rightarrow> gostring list option) \<Rightarrow> gostring list \<Rightarrow> gostring list" where
  "splitLooseStringList js values =
     (if values = [] then []
      else
        let joined = trim_space (join_commas values) in
        case (if bracketed joined then js joined else None) of Some xs \<Rightarrow> xs
        | None \<Rightarrow> concat (map (split_value js) values))"

definition normalizeSymbols :: "(gostring \<Rightarrow> gostring list option) \<Rightarrow> gostring list \<Rightarrow> gostring list" where
  "normalizeSymbols js values = first_occurrences (filter (\<lambda>v. v \<noteq> '''')
     (map (\<lambda>v. trim_by (\<lambda>c. c \<in> set '',; '') (to_upper (trim_space v))) (splitLooseStringList js values)))"

definition timeframes :: "gostring list" where
  "timeframes = [''1m'', ''3m'', ''5m'', ''15m'', ''30m'', ''1h'', ''2h'', ''4h'', ''6h'', ''8h'', ''12h'', ''1d'', ''3d'', ''1w'']"

definition normalizeTimeframe :: "gostring \<Rightarrow> gostring" where
  "normalizeTimeframe value =
     (let v = trim_by (\<lambda>c. c \<in> {CHR 34, CHR 39, CHR '','', CHR '' ''}) (to_lower (trim_space value))
      in if v \<in> set timeframes then v else '''')"

definition normalizeTimeframes :: "(gostring \<Rightarrow> gostring list option) \<Rightarrow> gostring list \<Rightarrow> gostring list" where
  "normalizeTimeframes js values =
     first_occurrences (filter (\<lambda>v. v \<noteq> '''') (map normalizeTimeframe (splitLooseStringList js values)))"

definition use_only :: "bool \<Rightarrow> bool \<Rightarrow> bool \<Rightarrow> bool \<Rightarrow> bool \<Rightarrow> coin_source \<Rightarrow> coin_source" where
  "use_only ai oit oil hall main s =
     s\<lparr>cs_UseAI500 := ai, cs_UseOITop := oit, cs_UseOILow := oil, cs_UseHyperAll := hall, cs_UseHyperMain := main\<rparr>"

definition or_default :: "int \<Rightarrow> int \<Rightarrow> int" where
  "or_default z n = (if n \<le> 0 then z else n)"

definition rank_defaults :: "coin_source \<Rightarrow> coin_source" where
  "rank_defaults s = s\<lparr>
     cs_HyperRankCategory := (if cs_HyperRankCategory s = '''' then ''stock'' else cs_HyperRankCategory s),
     cs_HyperRankDirection := (if cs_HyperRankDirection s = '''' then ''gainers'' else cs_HyperRankDirection s),
     cs_HyperRankLimit := or_default 5 (cs_HyperRankLimit s)\<rparr>"

text \<open>The switch on the type; a type without a case of its own, \<open>mixed\<close> for one, becomes a ranking.\<close>

definition normalize_source :: "coin_source \<Rightarrow> coin_source" where
  "normalize_source s0 =
     (let t0 = normalizeCoinSourceType (cs_SourceType s0);
          t = (if t0 = '''' then inferCoinSourceType s0 else t0);
          s = s0\<lparr>cs_SourceType := t\<rparr>
      in if t = ''ai500'' then use_only True False False False False s\<lparr>cs_AI500Limit := or_default 3 (cs_AI500Limit s)\<rparr>
         else if t = ''oi_top'' then use_only False True False False False s\<lparr>cs_OITopLimit := or_default 3 (cs_OITopLimit s)\<rparr>
         else if t = ''oi_low'' then use_only False False True False False s\<lparr>cs_OILowLimit := or_default 3 (cs_OILowLimit s)\<rparr>
         else if t = ''static'' then use_only False False False False False s
         else if t = ''hyper_all'' then use_only False False False True False s
         else if t = ''hyper_main'' then use_only False False False False True s\<lparr>cs_HyperMainLimit := or_default 30 (cs_HyperMainLimit s)\<rparr>
         else rank_defaults (use_only False False False False False (s\<lparr>cs_SourceType := ''hyper_rank''\<rparr>)))"

definition normalize_klines :: "(gostring \<Rightarrow> gostring list option) \<Rightarrow> kline_config \<Rightarrow> kline_config" where
  "normalize_klines js k =
     (let sel = normalizeTimeframes js (kl_SelectedTimeframes k) in
      k\<lparr>kl_PrimaryTimeframe := normalizeTimeframe (kl_PrimaryTimeframe k),
        kl_LongerTimeframe := normalizeTimeframe (kl_LongerTimeframe k), kl_SelectedTimeframes := sel,
        kl_EnableMultiTimeframe := (sel \<noteq> [] \<or> kl_EnableMultiTimeframe k)\<rparr>)"

definition NormalizeProductSchema :: "(gostring \<Rightarrow> gostring list option) \<Rightarrow> strategy_config \<Rightarrow> strategy_config" where
  "NormalizeProductSchema js c =
     (let s = normalize_source (sc_CoinSource c) in
      c\<lparr>sc_StrategyType := normalizeStrategyType (sc_StrategyType c),
        sc_CoinSource := s\<lparr>cs_StaticCoins := normalizeSymbols js (cs_StaticCoins s), cs_ExcludedCoins := normalizeSymbols js (cs_ExcludedCoins s)\<rparr>,
        sc_Indicators := (sc_Indicators c)\<lparr>in_Klines := normalize_klines js (in_Klines (sc_Indicators c))\<rparr>\<rparr>)"

section \<open>Clamping\<close>

text \<open>The two comparisons of a bounded field.\<close>

definition clamp :: "int \<Rightarrow> int \<Rightarrow> int \<Rightarrow> int" where
  "clamp lo hi x = (let y = (if x < lo then lo else x) in if y > hi then hi else y)"

definition clampf :: "f64 \<Rightarrow> f64 \<Rightarrow> f64 \<Rightarrow> f64" where
  "clampf lo hi x = (let y = (if x < lo then lo else x) in if y > hi then hi else y)"

definition clamp_risk :: "risk_control \<Rightarrow> risk_control" where
  "clamp_risk r =
     \<lparr>rk_MaxPositions = clamp 1 3 (rk_MaxPositions r),
      rk_BTCETHMaxLeverage = clamp 1 20 (rk_BTCETHMaxLeverage r),
      rk_AltcoinMaxLeverage = clamp 1 20 (rk_AltcoinMaxLeverage r),
      rk_BTCETHMaxPositionValueRatio = clampf (fl (1 / 2)) (Fin 10) (rk_BTCETHMaxPositionValueRatio r),
      rk_AltcoinMaxPositionValueRatio = clampf (fl (1 / 2)) (Fin 10) (rk_AltcoinMaxPositionValueRatio r),
      rk_MaxMarginUsage = clampf (fl (1 / 10)) 1 (rk_MaxMarginUsage r),
      rk_MinPositionSize = clampf (Fin 10) (Fin 1000) (rk_MinPositionSize r),
      rk_MinRiskRewardRatio = clampf 1 (Fin 10) (rk_MinRiskRewardRatio r),
      rk_MinConfidence = clamp 50 100 (rk_MinConfidence r)\<rparr>"

definition clamp_source :: "coin_source \<Rightarrow> coin_source" where
  "clamp_source s = s\<lparr>cs_AI500Limit := min 10 (cs_AI500Limit s), cs_OITopLimit := min 10 (cs_OITopLimit s),
     cs_OILowLimit := min 10 (cs_OILowLimit s), cs_StaticCoins := take 10 (cs_StaticCoins s)\<rparr>"

definition clamp_klines :: "kline_config \<Rightarrow> kline_config" where
  "clamp_klines k = k\<lparr>kl_PrimaryCount := clamp 10 30 (kl_PrimaryCount k), kl_LongerCount := min 30 (kl_LongerCount k),
     kl_SelectedTimeframes := take 4 (kl_SelectedTimeframes k)\<rparr>"

definition ClampLimits :: "(gostring \<Rightarrow> gostring list option) \<Rightarrow> strategy_config \<Rightarrow> strategy_config" where
  "ClampLimits js c0 =
     (let c = NormalizeProductSchema js c0 in
      c\<lparr>sc_CoinSource := clamp_source (sc_CoinSource c),
        sc_Indicators := (sc_Indicators c)\<lparr>in_Klines := clamp_klines (in_Klines (sc_Indicators c))\<rparr>,
        sc_RiskControl := clamp_risk (sc_RiskControl c)\<rparr>)"

text \<open>What the user is told, in English.\<close>

definition int_note :: "gostring \<Rightarrow> int \<Rightarrow> int \<Rightarrow> gostring list" where
  "int_note label a b = (if a = b then [] else [label @ '' adjusted from '' @ itoa a @ '' to '' @ itoa b])"

definition float_note :: "gostring \<Rightarrow> f64 \<Rightarrow> f64 \<Rightarrow> gostring list" where
  "float_note label a b =
     (if feq a b then [] else [label @ '' adjusted from '' @ fmt_fixed False 2 a @ '' to '' @ fmt_fixed False 2 b])"

definition StrategyClampWarnings :: "strategy_config \<Rightarrow> strategy_config \<Rightarrow> gostring list" where
  "StrategyClampWarnings before after =
     (let a = sc_RiskControl before; b = sc_RiskControl after in
      int_note ''max_positions'' (rk_MaxPositions a) (rk_MaxPositions b) @
      int_note ''btc_eth_max_leverage'' (rk_BTCETHMaxLeverage a) (rk_BTCETHMaxLeverage b) @
      int_note ''altcoin_max_leverage'' (rk_AltcoinMaxLeverage a) (rk_AltcoinMaxLeverage b) @
      float_note ''btc_eth_max_position_value_ratio'' (rk_BTCETHMaxPositionValueRatio a) (rk_BTCETHMaxPositionValueRatio b) @
      float_note ''altcoin_max_position_value_ratio'' (rk_AltcoinMaxPositionValueRatio a) (rk_AltcoinMaxPositionValueRatio b) @
      float_note ''min_risk_reward_ratio'' (rk_MinRiskRewardRatio a) (rk_MinRiskRewardRatio b) @
      float_note ''max_margin_usage'' (rk_MaxMarginUsage a) (rk_MaxMarginUsage b) @
      float_note ''min_position_size'' (rk_MinPositionSize a) (rk_MinPositionSize b) @
      int_note ''min_confidence'' (rk_MinConfidence a) (rk_MinConfidence b))"

section \<open>The saved schema\<close>

text \<open>
  The object \<open>MarshalJSON\<close> hands to the encoder and the one \<open>UnmarshalJSON\<close> gets from it; the last five
  fields of the latter are those of the old flat configurations.
\<close>

record saved_config =
  sv_StrategyType :: gostring
  sv_Language :: gostring
  sv_AIConfig :: "ai_config option"
  sv_GridConfig :: "grid_config option"
  sv_PublishConfig :: "publish_config option"

record raw_config = saved_config +
  sv_CoinSource :: "coin_source option"
  sv_Indicators :: "indicator_config option"
  sv_CustomPrompt :: "gostring option"
  sv_RiskControl :: "risk_control option"
  sv_PromptSections :: "prompt_sections option"

definition MarshalJSON :: "strategy_config \<Rightarrow> saved_config" where
  "MarshalJSON c =
     (let t = (if trim_space (sc_StrategyType c) = '''' then ''ai_trading'' else trim_space (sc_StrategyType c)) in
      \<lparr>sv_StrategyType = t, sv_Language = sc_Language c,
       sv_AIConfig = (if t = ''grid_trading'' then None
         else Some \<lparr>ag_CoinSource = sc_CoinSource c, ag_Indicators = sc_Indicators c, ag_CustomPrompt = sc_CustomPrompt c,
                ag_RiskControl = sc_RiskControl c, ag_PromptSections = sc_PromptSections c\<rparr>),
       sv_GridConfig = (if t = ''grid_trading'' then sc_GridConfig c else None),
       sv_PublishConfig = sc_PublishConfig c\<rparr>)"

definition or_keep :: "'a \<Rightarrow> 'a option \<Rightarrow> 'a" where
  "or_keep z v = (case v of Some x \<Rightarrow> x | None \<Rightarrow> z)"

definition UnmarshalJSON :: "raw_config \<Rightarrow> strategy_config \<Rightarrow> strategy_config" where
  "UnmarshalJSON r c =
     (let c = c\<lparr>sc_StrategyType := sv_StrategyType r, sc_Language := sv_Language r, sc_GridConfig := sv_GridConfig r,
                sc_PublishConfig := sv_PublishConfig r\<rparr>;
          c = (case sv_AIConfig r of
             Some a \<Rightarrow> c\<lparr>sc_CoinSource := ag_CoinSource a, sc_Indicators := ag_Indicators a, sc_CustomPrompt := ag_CustomPrompt a,
                 sc_RiskControl := ag_RiskControl a, sc_PromptSections := ag_PromptSections a\<rparr>
           | None \<Rightarrow> c\<lparr>sc_CoinSource := or_keep (sc_CoinSource c) (sv_CoinSource r),
                 sc_Indicators := or_keep (sc_Indicators c) (sv_Indicators r),
                 sc_CustomPrompt := or_keep (sc_CustomPrompt c) (sv_CustomPrompt r),
                 sc_RiskControl := or_keep (sc_RiskControl c) (sv_RiskControl r),
                 sc_PromptSections := or_keep (sc_PromptSections c) (sv_PromptSections r)\<rparr>)
      in if trim_space (sc_StrategyType c) = '''' \<and> sc_GridConfig c \<noteq> None then c\<lparr>sc_StrategyType := ''grid_trading''\<rparr> else c)"

text \<open>What the encoder writes the decoder reads, without the fields of the flat form.\<close>

definition reread :: "saved_config \<Rightarrow> raw_config" where
  "reread s = saved_config.extend s \<lparr>sv_CoinSource = None, sv_Indicators = None, sv_CustomPrompt = None, sv_RiskControl = None,
     sv_PromptSections = None\<rparr>"

section \<open>Patches\<close>

datatype (plugins only: code size) jval =
    JNull | JBool bool | JNum f64 | JStr gostring | JArr "jval list" | JObj "(gostring \<times> jval) list"

type_synonym jmap = "(gostring, jval) gomap"

text \<open>An absent key reads as \<open>nil\<close>.\<close>

abbreviation jget :: "jmap \<Rightarrow> gostring \<Rightarrow> jval" where
  "jget \<equiv> mget JNull"

function mergeJSONMaps :: "jmap \<Rightarrow> jmap \<Rightarrow> jmap" where
  "mergeJSONMaps dst [] = dst"
| "mergeJSONMaps dst ((k, v) # src) =
     mergeJSONMaps (mput k (case v of
        JObj s \<Rightarrow> (case jget dst k of JObj t \<Rightarrow> JObj (mergeJSONMaps t s) | _ \<Rightarrow> v) | _ \<Rightarrow> v) dst) src"
  by pat_completeness auto
termination by (relation "measure (\<lambda>(d, s). size_list (size_prod (\<lambda>_. 0) size) s)") auto

definition DefaultGridStrategyConfig :: grid_config where
  "DefaultGridStrategyConfig =
     \<lparr>gc_Symbol = ''BTCUSDT'', gc_GridCount = 10, gc_TotalInvestment = Fin 1000, gc_Leverage = 5, gc_UpperPrice = 0,
      gc_LowerPrice = 0, gc_UseATRBounds = True, gc_ATRMultiplier = Fin 2, gc_Distribution = ''gaussian'',
      gc_MaxDrawdownPct = Fin 15, gc_StopLossPct = Fin 5, gc_DailyLossLimitPct = Fin 10, gc_UseMakerOnly = True,
      gc_EnableDirectionAdjust = False, gc_DirectionBiasRatio = fl (7 / 10)\<rparr>"

definition grid_json :: "grid_config \<Rightarrow> jmap" where
  "grid_json g =
     [(''symbol'', JStr (gc_Symbol g)), (''grid_count'', JNum (fl (of_int (gc_GridCount g)))),
      (''total_investment'', JNum (gc_TotalInvestment g)), (''leverage'', JNum (fl (of_int (gc_Leverage g)))),
      (''upper_price'', JNum (gc_UpperPrice g)), (''lower_price'', JNum (gc_LowerPrice g)),
      (''use_atr_bounds'', JBool (gc_UseATRBounds g)), (''atr_multiplier'', JNum (gc_ATRMultiplier g)),
      (''distribution'', JStr (gc_Distribution g)), (''max_drawdown_pct'', JNum (gc_MaxDrawdownPct g)),
      (''stop_loss_pct'', JNum (gc_StopLossPct g)), (''daily_loss_limit_pct'', JNum (gc_DailyLossLimitPct g)),
      (''use_maker_only'', JBool (gc_UseMakerOnly g)), (''enable_direction_adjust'', JBool (gc_EnableDirectionAdjust g)),
      (''direction_bias_ratio'', JNum (gc_DirectionBiasRatio g))]"

definition ensureDefaultGridConfigMap :: "jmap \<Rightarrow> jmap" where
  "ensureDefaultGridConfigMap m =
     (case jget m ''grid_config'' of JObj (e # g) \<Rightarrow> m | _ \<Rightarrow> mput ''grid_config'' (JObj (grid_json DefaultGridStrategyConfig)) m)"

definition aiKeys :: "gostring list" where
  "aiKeys = [''coin_source'', ''indicators'', ''risk_control'', ''prompt_sections'', ''custom_prompt'']"

text \<open>One of these keys at the top is moved under \<open>ai_config\<close>.\<close>

definition nest_ai_key :: "jmap \<Rightarrow> gostring \<Rightarrow> jmap" where
  "nest_ai_key patch k =
     (if mhas patch k then
        (let ai = (case jget patch ''ai_config'' of JObj a \<Rightarrow> a | _ \<Rightarrow> [])
         in mdel k (mput ''ai_config'' (JObj (mput k (jget patch k) ai)) patch))
      else patch)"

definition infer_grid_type :: "jmap \<Rightarrow> jmap" where
  "infer_grid_type patch =
     (if jget patch ''grid_config'' \<noteq> JNull \<and> \<not> mhas patch ''strategy_type''
      then mput ''strategy_type'' (JStr ''grid_trading'') patch else patch)"

definition is_grid_patch :: "jmap \<Rightarrow> bool" where
  "is_grid_patch patch \<longleftrightarrow> jget patch ''strategy_type'' = JStr ''grid_trading''"

definition normalizeStrategyConfigPatch :: "jmap \<Rightarrow> jmap" where
  "normalizeStrategyConfigPatch patch0 =
     (let patch = foldl nest_ai_key (infer_grid_type patch0) aiKeys;
          patch = (if is_grid_patch patch then mdel ''ai_config'' patch else patch)
      in infer_grid_type patch)"

text \<open>\<open>enc\<close> and \<open>dec\<close> are the encoder and the decoder of the saved form.\<close>

definition MergeStrategyConfig ::
  "(saved_config \<Rightarrow> jmap) \<Rightarrow> (jmap \<Rightarrow> perr + raw_config) \<Rightarrow> strategy_config \<Rightarrow> strategy_config \<Rightarrow> jmap \<Rightarrow> perr + strategy_config" where
  "MergeStrategyConfig enc dec zero base patch0 =
     (let patch = normalizeStrategyConfigPatch patch0; m = enc (MarshalJSON base);
          m = mergeJSONMaps (if is_grid_patch patch then ensureDefaultGridConfigMap m else m) patch
      in case dec m of Inl e \<Rightarrow> Inl e | Inr r \<Rightarrow> Inr (UnmarshalJSON r zero))"

section \<open>Tokens\<close>

definition getEffectiveCoinCount :: "strategy_config \<Rightarrow> int" where
  "getEffectiveCoinCount c =
     (let s = sc_CoinSource c; t = cs_SourceType s;
          n = (if t = ''static'' then int (length (cs_StaticCoins s)) else if t = ''ai500'' then cs_AI500Limit s
               else if t = ''oi_top'' then cs_OITopLimit s else if t = ''oi_low'' then cs_OILowLimit s
               else if t = ''hyper_rank'' then cs_HyperRankLimit s
               else if t = ''hyper_main'' \<or> t = ''hyper_all'' then cs_HyperMainLimit s else cs_HyperRankLimit s)
      in or_default 3 n)"

definition getEffectiveTimeframeCount :: "strategy_config \<Rightarrow> int" where
  "getEffectiveTimeframeCount c =
     (let k = in_Klines (sc_Indicators c) in
      if kl_SelectedTimeframes k \<noteq> [] then int (length (kl_SelectedTimeframes k))
      else if kl_LongerTimeframe k \<noteq> '''' then 2 else 1)"

record token_breakdown =
  tk_SystemPrompt :: int
  tk_MarketData :: int
  tk_RankingData :: int
  tk_QuantData :: int
  tk_FixedOverhead :: int

record model_limit =
  ml_Name :: gostring
  ml_ContextLimit :: int
  ml_UsagePct :: int
  ml_Level :: gostring

record token_estimate =
  te_Total :: int
  te_Breakdown :: token_breakdown
  te_ModelLimits :: "model_limit list"
  te_Suggestions :: "gostring list"

text \<open>The models in the order of their names, which is the second key of the sort.\<close>

definition ModelContextLimits :: "(gostring \<times> int) list" where
  "ModelContextLimits =
     [(''claude'', 200000), (''deepseek'', 131072), (''gemini'', 1000000), (''grok'', 131072), (''kimi'', 131072),
      (''minimax'', 1000000), (''openai'', 128000), (''qwen'', 131072)]"

definition GetContextLimit :: "gostring \<Rightarrow> int" where
  "GetContextLimit provider = (case map_of ModelContextLimits provider of Some n \<Rightarrow> n | None \<Rightarrow> 131072)"

definition claw402_prefixes :: "(gostring \<times> gostring) list" where
  "claw402_prefixes =
     [(''claude'', ''claude''), (''gpt'', ''openai''), (''o1'', ''openai''), (''o3'', ''openai''), (''gemini'', ''gemini''),
      (''grok'', ''grok''), (''kimi'', ''kimi''), (''qwen'', ''qwen''), (''minimax'', ''minimax''), (''deepseek'', ''deepseek'')]"

definition GetContextLimitForClient :: "gostring \<Rightarrow> gostring \<Rightarrow> int" where
  "GetContextLimitForClient provider model =
     (if provider = ''claw402'' then
        GetContextLimit (case find (\<lambda>e. has_prefix model (fst e)) claw402_prefixes of Some e \<Rightarrow> snd e | None \<Rightarrow> ''deepseek'')
      else GetContextLimit provider)"

definition kline_chars :: "strategy_config \<Rightarrow> int" where
  "kline_chars c =
     (let i = sc_Indicators c in
      80 + (if in_EnableEMA i then 20 else 0) + (if in_EnableMACD i then 30 else 0) + (if in_EnableRSI i then 15 else 0) +
      (if in_EnableATR i then 15 else 0) + (if in_EnableBOLL i then 25 else 0) + (if in_EnableVolume i then 10 else 0))"

definition kline_count :: "strategy_config \<Rightarrow> int" where
  "kline_count c = or_default 20 (kl_PrimaryCount (in_Klines (sc_Indicators c)))"

definition system_tokens :: "strategy_config \<Rightarrow> int" where
  "system_tokens c =
     (let s = sc_PromptSections c; zh = (sc_Language c = ''zh'');
          n = (if zh then 3000 else 4000) + int (length (se_RoleDefinition s) + length (se_TradingFrequency s) +
                length (se_EntryStandards s) + length (se_DecisionProcess s) + length (sc_CustomPrompt c))
      in go_quot n (if zh then 2 else 4))"

definition market_tokens :: "strategy_config \<Rightarrow> int" where
  "market_tokens c =
     (let n = getEffectiveCoinCount c; i = sc_Indicators c in
      go_quot (n * getEffectiveTimeframeCount c * (kline_count c * kline_chars c) +
        (if in_EnableOI i \<or> in_EnableFundingRate i then n * 100 else 0)) 4)"

definition quant_tokens :: "strategy_config \<Rightarrow> int" where
  "quant_tokens c =
     (let i = sc_Indicators c in
      if in_EnableQuantData i then
        go_quot (getEffectiveCoinCount c * ((if in_EnableQuantOI i then 300 else 0) + (if in_EnableQuantNetflow i then 300 else 0))) 4
      else 0)"

definition ranking_tokens :: "strategy_config \<Rightarrow> int" where
  "ranking_tokens c =
     (let i = sc_Indicators c;
          durations = (if in_PriceRankingDuration i \<noteq> '''' then int (length (split_by (\<lambda>x. x = CHR '','') (in_PriceRankingDuration i))) else 1)
      in go_quot
        ((if in_EnableOIRanking i then or_default 10 (in_OIRankingLimit i) * 60 else 0) +
         (if in_EnableNetFlowRanking i then or_default 10 (in_NetFlowRankingLimit i) * 80 else 0) +
         (if in_EnablePriceRanking i then or_default 10 (in_PriceRankingLimit i) * durations * 40 else 0)) 4)"

definition model_limits :: "int \<Rightarrow> model_limit list" where
  "model_limits tot = sort_key (\<lambda>m. - ml_UsagePct m) (map (\<lambda>(name, limit).
     let pct = go_quot (tot * 100) limit in
     \<lparr>ml_Name = name, ml_ContextLimit = limit, ml_UsagePct = pct,
      ml_Level = (if pct \<ge> 100 then ''danger'' else if pct \<ge> 80 then ''warning'' else ''ok'')\<rparr>) ModelContextLimits)"

definition saving :: "int \<Rightarrow> int" where
  "saving chars = go_quot (go_quot chars 4 * 115) 100"

definition suggestions :: "strategy_config \<Rightarrow> int \<Rightarrow> gostring list" where
  "suggestions c tot =
     (let coins = getEffectiveCoinCount c; tfs = getEffectiveTimeframeCount c; k = kline_count c in
      if tot > 128000 then
        (if tfs > 1 then [''Reduce 1 timeframe to save ~'' @ itoa (saving (coins * k * kline_chars c)) @ '' tokens''] else []) @
        (if coins > 1 then [''Reduce 1 coin to save ~'' @ itoa (saving (tfs * k * kline_chars c)) @ '' tokens''] else []) @
        (if k > 15 then [''Reduce K-line count to 15 to save tokens''] else [])
      else [])"

definition EstimateTokens :: "strategy_config \<Rightarrow> token_estimate" where
  "EstimateTokens c =
     (let b = \<lparr>tk_SystemPrompt = system_tokens c, tk_MarketData = market_tokens c, tk_RankingData = ranking_tokens c,
               tk_QuantData = quant_tokens c, tk_FixedOverhead = 200\<rparr>;
          tot = go_quot ((tk_SystemPrompt b + tk_MarketData b + tk_RankingData b + tk_QuantData b + tk_FixedOverhead b) * 115) 100
      in \<lparr>te_Total = tot, te_Breakdown = b, te_ModelLimits = model_limits tot, te_Suggestions = suggestions c tot\<rparr>)"

section \<open>The table of strategies\<close>

record strategy_row =
  st_ID :: gostring
  st_UserID :: gostring
  st_Name :: gostring
  st_Description :: gostring
  st_IsActive :: bool
  st_IsDefault :: bool
  st_IsPublic :: bool
  st_ConfigVisible :: bool
  st_Config :: gostring
  st_CreatedAt :: int
  st_UpdatedAt :: int

text \<open>Of the table of traders only the users and their strategies are asked for.\<close>

record strategy_user =
  su_UserID :: gostring
  su_StrategyID :: gostring

record 'd strategy_db =
  sg_Rows :: "('d, strategy_row) table"
  sg_Traders :: "('d, strategy_user) table"
  sg_Transaction :: "('d \<Rightarrow> perr option \<times> 'd) \<Rightarrow> 'd \<Rightarrow> perr option \<times> 'd"

definition owned_strategy :: "gostring \<Rightarrow> gostring \<Rightarrow> strategy_row \<Rightarrow> bool" where
  "owned_strategy uid i r \<longleftrightarrow> st_ID r = i \<and> st_UserID r = uid"

definition usable_strategy :: "gostring \<Rightarrow> gostring \<Rightarrow> strategy_row \<Rightarrow> bool" where
  "usable_strategy uid i r \<longleftrightarrow> st_ID r = i \<and> (st_UserID r = uid \<or> st_IsDefault r)"

text \<open>A zero value of a column with a default gets the default: a hidden configuration is created visible.\<close>

definition column_defaults :: "strategy_row \<Rightarrow> strategy_row" where
  "column_defaults r = r\<lparr>st_ConfigVisible := True, st_Config := (if st_Config r = '''' then ''{}'' else st_Config r)\<rparr>"

definition CreateStrategy :: "'d strategy_db \<Rightarrow> strategy_row \<Rightarrow> 'd \<Rightarrow> perr option \<times> 'd" where
  "CreateStrategy db r d = tb_Create (sg_Rows db) d (column_defaults r)"

definition UpdateStrategy :: "'d strategy_db \<Rightarrow> int \<Rightarrow> strategy_row \<Rightarrow> 'd \<Rightarrow> perr option \<times> 'd" where
  "UpdateStrategy db now s d = tb_Update (sg_Rows db) d (owned_strategy (st_UserID s) (st_ID s))
     (\<lambda>r. r\<lparr>st_Name := st_Name s, st_Description := st_Description s, st_Config := st_Config s, st_IsPublic := st_IsPublic s,
           st_ConfigVisible := st_ConfigVisible s, st_UpdatedAt := now\<rparr>)"

text \<open>A query that fails is passed over.\<close>

definition delete_refusal :: "'d strategy_db \<Rightarrow> gostring \<Rightarrow> 'd \<Rightarrow> perr option" where
  "delete_refusal db i d =
     (case tb_First (sg_Rows db) d (\<lambda>r. st_ID r = i) of
        Inr (Some r) \<Rightarrow>
          if st_IsDefault r then Some (OtherErr ''cannot delete system default strategy'')
          else if st_IsActive r then Some (OtherErr ''cannot delete active strategy'') else None
      | _ \<Rightarrow> None)"

definition DeleteStrategy :: "'d strategy_db \<Rightarrow> gostring \<Rightarrow> gostring \<Rightarrow> 'd \<Rightarrow> perr option \<times> 'd" where
  "DeleteStrategy db uid i d =
     (case delete_refusal db i d of Some e \<Rightarrow> (Some e, d)
      | None \<Rightarrow>
          (case tb_Find (sg_Traders db) d (\<lambda>t. su_UserID t = uid \<and> su_StrategyID t = i) of
             Inr (t # ts) \<Rightarrow> (Some (OtherErr (''cannot delete strategy in use by '' @ itoa (int (length (t # ts))) @ '' trader(s)'')), d)
           | _ \<Rightarrow> tb_Delete (sg_Rows db) d (owned_strategy uid i)))"

definition ListStrategies :: "'d strategy_db \<Rightarrow> gostring \<Rightarrow> 'd \<Rightarrow> perr + strategy_row list" where
  "ListStrategies db uid d =
     (case tb_List (sg_Rows db) d (\<lambda>r. st_UserID r = uid \<or> st_IsDefault r) True 0 None of
        Inl e \<Rightarrow> Inl e | Inr rs \<Rightarrow> Inr (filter st_IsDefault rs @ filter (\<lambda>r. \<not> st_IsDefault r) rs))"

definition ListPublicStrategies :: "'d strategy_db \<Rightarrow> 'd \<Rightarrow> perr + strategy_row list" where
  "ListPublicStrategies db d = tb_List (sg_Rows db) d st_IsPublic True 0 None"

definition GetStrategy :: "'d strategy_db \<Rightarrow> gostring \<Rightarrow> gostring \<Rightarrow> 'd \<Rightarrow> perr + strategy_row" where
  "GetStrategy db uid i d =
     (case tb_First (sg_Rows db) d (usable_strategy uid i) of Inl e \<Rightarrow> Inl e | Inr None \<Rightarrow> Inl not_found | Inr (Some r) \<Rightarrow> Inr r)"

definition GetDefaultStrategy :: "'d strategy_db \<Rightarrow> 'd \<Rightarrow> perr + strategy_row" where
  "GetDefaultStrategy db d =
     (case tb_First (sg_Rows db) d st_IsDefault of Inl e \<Rightarrow> Inl e | Inr None \<Rightarrow> Inl not_found | Inr (Some r) \<Rightarrow> Inr r)"

definition GetActiveStrategy :: "'d strategy_db \<Rightarrow> gostring \<Rightarrow> 'd \<Rightarrow> perr + strategy_row" where
  "GetActiveStrategy db uid d =
     (case tb_First (sg_Rows db) d (\<lambda>r. st_UserID r = uid \<and> st_IsActive r) of
        Inl e \<Rightarrow> Inl e | Inr None \<Rightarrow> GetDefaultStrategy db d | Inr (Some r) \<Rightarrow> Inr r)"

definition activate :: "'d strategy_db \<Rightarrow> int \<Rightarrow> gostring \<Rightarrow> gostring \<Rightarrow> 'd \<Rightarrow> perr option \<times> 'd" where
  "activate db now uid i d =
     (case tb_Update (sg_Rows db) d (\<lambda>r. st_UserID r = uid) (\<lambda>r. r\<lparr>st_IsActive := False, st_UpdatedAt := now\<rparr>) of
        (Some e, d) \<Rightarrow> (Some e, d)
      | (None, d) \<Rightarrow> tb_Update (sg_Rows db) d (usable_strategy uid i) (\<lambda>r. r\<lparr>st_IsActive := True, st_UpdatedAt := now\<rparr>))"

definition SetActive :: "'d strategy_db \<Rightarrow> int \<Rightarrow> gostring \<Rightarrow> gostring \<Rightarrow> 'd \<Rightarrow> perr option \<times> 'd" where
  "SetActive db now uid i d = sg_Transaction db (activate db now uid i) d"

definition DuplicateStrategy ::
  "'d strategy_db \<Rightarrow> int \<Rightarrow> gostring \<Rightarrow> gostring \<Rightarrow> gostring \<Rightarrow> gostring \<Rightarrow> 'd \<Rightarrow> perr option \<times> 'd" where
  "DuplicateStrategy db now uid src new name d =
     (case GetStrategy db uid src d of Inl e \<Rightarrow> (Some (WrapErr ''failed to get source strategy'' e), d)
      | Inr r \<Rightarrow> CreateStrategy db \<lparr>st_ID = new, st_UserID = uid, st_Name = name,
          st_Description = ''Created based on ['' @ st_Name r @ '']'', st_IsActive = False, st_IsDefault = False,
          st_IsPublic = False, st_ConfigVisible = False, st_Config = st_Config r, st_CreatedAt = now, st_UpdatedAt = now\<rparr> d)"

section \<open>Clamped configurations\<close>

text \<open>Neither comparison of the clamp holds any more; a \<open>NaN\<close> passes both.\<close>

definition between :: "f64 \<Rightarrow> f64 \<Rightarrow> f64 \<Rightarrow> bool" where
  "between lo hi x \<longleftrightarrow> \<not> x < lo \<and> \<not> x > hi"

lemma clamp_bounds [simp]: "lo \<le> hi \<Longrightarrow> lo \<le> clamp lo hi x \<and> clamp lo hi x \<le> hi"
  by (simp add: clamp_def)

lemma clampf_between: "\<not> hi < lo \<Longrightarrow> between lo hi (clampf lo hi x)"
  by (cases lo; cases hi; cases x) (auto simp: clampf_def between_def Let_def)

lemma clampf_fixed: "between lo hi x \<Longrightarrow> clampf lo hi x = x"
  by (simp add: clampf_def between_def)

definition clamped_risk :: "risk_control \<Rightarrow> bool" where
  "clamped_risk r \<longleftrightarrow>
     rk_MaxPositions r \<in> {1..3} \<and> rk_BTCETHMaxLeverage r \<in> {1..20} \<and> rk_AltcoinMaxLeverage r \<in> {1..20} \<and>
     between (fl (1 / 2)) (Fin 10) (rk_BTCETHMaxPositionValueRatio r) \<and> between (fl (1 / 2)) (Fin 10) (rk_AltcoinMaxPositionValueRatio r) \<and>
     between (fl (1 / 10)) 1 (rk_MaxMarginUsage r) \<and> between (Fin 10) (Fin 1000) (rk_MinPositionSize r) \<and>
     between 1 (Fin 10) (rk_MinRiskRewardRatio r) \<and> rk_MinConfidence r \<in> {50..100}"

lemma clamp_risk_clamped: "clamped_risk (clamp_risk r)"
proof -
  have "\<not> Fin 10 < fl (1 / 2)" "\<not> 1 < fl (1 / 10)" "\<not> Fin 1000 < Fin 10" "\<not> Fin 10 < 1" by (simp_all add: f64_eval)
  then show ?thesis by (simp add: clamped_risk_def clamp_risk_def clampf_between)
qed

lemma clamp_risk_fixed: "clamped_risk r \<Longrightarrow> clamp_risk r = r"
  by (cases r) (simp add: clamped_risk_def clamp_risk_def clampf_fixed, simp add: clamp_def)

lemma timeframes_normalised: "set (normalizeTimeframes js vs) \<subseteq> set timeframes"
  by (auto simp: normalizeTimeframes_def normalizeTimeframe_def Let_def split: if_splits)

lemma market_tokens_bound:
  assumes "getEffectiveCoinCount c \<in> {1..10}" "getEffectiveTimeframeCount c \<in> {1..4}" "kline_count c \<in> {1..30}"
  shows "market_tokens c \<le> 58750"
proof -
  let ?n = "getEffectiveCoinCount c" and ?t = "getEffectiveTimeframeCount c" and ?k = "kline_count c"
  have w: "80 \<le> kline_chars c" "kline_chars c \<le> 195" by (simp_all add: kline_chars_def Let_def)
  have k: "?k * kline_chars c \<le> 30 * 195" "0 \<le> ?k * kline_chars c" using assms w mult_mono [of ?k 30 "kline_chars c" 195] by auto
  have n: "?n * ?t \<le> 10 * 4" "0 \<le> ?n * ?t" using assms mult_mono [of ?n 10 ?t 4] by auto
  have "?n * ?t * (?k * kline_chars c) \<le> 10 * 4 * (30 * 195)" "0 \<le> ?n * ?t * (?k * kline_chars c)"
    using k n mult_mono [of "?n * ?t" "10 * 4" "?k * kline_chars c" "30 * 195"] by auto
  moreover have "?n * 100 \<le> 1000" "0 \<le> ?n" using assms by auto
  ultimately have "?n * ?t * (?k * kline_chars c) +
      (if in_EnableOI (sc_Indicators c) \<or> in_EnableFundingRate (sc_Indicators c) then ?n * 100 else 0) \<in> {0..235000}"
    by (simp del: mult.assoc)
  then show ?thesis
    using zdiv_mono1 [of _ 235000 4] by (simp add: market_tokens_def Let_def go_quot_def)
qed

lemma clamped_market_tokens:
  assumes "cs_SourceType (sc_CoinSource (ClampLimits js c)) \<in> {''static'', ''ai500'', ''oi_top'', ''oi_low''}"
  shows "market_tokens (ClampLimits js c) \<le> 58750"
proof (rule market_tokens_bound)
  let ?c = "ClampLimits js c"
  show "getEffectiveCoinCount ?c \<in> {1..10}"
    using assms by (auto simp: getEffectiveCoinCount_def Let_def ClampLimits_def clamp_source_def or_default_def)
  show "getEffectiveTimeframeCount ?c \<in> {1..4}"
    by (auto simp: getEffectiveTimeframeCount_def ClampLimits_def clamp_klines_def Let_def Suc_le_eq)
  show "kline_count ?c \<in> {1..30}"
    by (auto simp: kline_count_def or_default_def ClampLimits_def clamp_klines_def Let_def clamp_def)
qed

text \<open>A clamped number lies between the limits, unless it was not a number to begin with, and then it still is none.\<close>

definition in_limits :: "f64 \<Rightarrow> f64 \<Rightarrow> f64 \<Rightarrow> f64 \<Rightarrow> bool" where
  "in_limits lo hi x0 x \<longleftrightarrow> (if x0 = NaN then x = NaN else lo \<le> x \<and> x \<le> hi)"

lemma clampf_within: "lo \<le> hi \<Longrightarrow> in_limits lo hi x (clampf lo hi x)"
  by (cases lo; cases hi; cases x) (auto simp: clampf_def in_limits_def Let_def)

definition ratios_within :: "risk_control \<Rightarrow> risk_control \<Rightarrow> bool" where
  "ratios_within r r' \<longleftrightarrow>
     in_limits (fl (1 / 2)) (Fin 10) (rk_BTCETHMaxPositionValueRatio r) (rk_BTCETHMaxPositionValueRatio r') \<and>
     in_limits (fl (1 / 2)) (Fin 10) (rk_AltcoinMaxPositionValueRatio r) (rk_AltcoinMaxPositionValueRatio r') \<and>
     in_limits (fl (1 / 10)) 1 (rk_MaxMarginUsage r) (rk_MaxMarginUsage r') \<and>
     in_limits (Fin 10) (Fin 1000) (rk_MinPositionSize r) (rk_MinPositionSize r') \<and>
     in_limits 1 (Fin 10) (rk_MinRiskRewardRatio r) (rk_MinRiskRewardRatio r')"

lemma clamp_ratios: "ratios_within r (clamp_risk r)"
proof -
  have "fl (1 / 2) \<le> Fin 10" "fl (1 / 10) \<le> 1" "Fin 10 \<le> Fin 1000" "1 \<le> Fin 10" by (simp_all add: f64_eval)
  then show ?thesis by (simp add: ratios_within_def clamp_risk_def clampf_within)
qed

lemma clamped_limits:
  "cs_AI500Limit (clamp_source s) \<le> 10" "cs_OITopLimit (clamp_source s) \<le> 10" "cs_OILowLimit (clamp_source s) \<le> 10"
  "kl_LongerCount (clamp_klines k) \<le> 30"
  by (simp_all add: clamp_source_def clamp_klines_def)

text \<open>The coins of a Hyperliquid ranking by volume are not clamped, nor the tokens they take.\<close>

lemma hyper_main_unclamped:
  assumes "normalizeCoinSourceType (cs_SourceType (sc_CoinSource c)) = ''hyper_main''" "0 < cs_HyperMainLimit (sc_CoinSource c)"
  shows "getEffectiveCoinCount (ClampLimits js c) = cs_HyperMainLimit (sc_CoinSource c)"
  using assms by (simp add: getEffectiveCoinCount_def ClampLimits_def NormalizeProductSchema_def clamp_source_def Let_def
      normalize_source_def use_only_def or_default_def)

text \<open>
  C25: the limits of a clamped configuration.  Its risk control lies within the limits of the product, where a
  ratio that is not a number stays none; risk control within the limits already is left as it is.  The limits of
  AI500 and open interest, the counts of candles, the static coins and the timeframes are within theirs, and
  those two lists distinct and known.  If the coins come from a list, AI500 or open interest, the market data
  of a request is at most 58750 tokens; the coins of the ranking by volume are not clamped at all.
\<close>

theorem clamped_config_bounded:
  "let c' = ClampLimits js c; r = sc_RiskControl c; r' = sc_RiskControl c'; k = in_Klines (sc_Indicators c'); s = sc_CoinSource c' in
     rk_MaxPositions r' \<in> {1..3} \<and> rk_BTCETHMaxLeverage r' \<in> {1..20} \<and> rk_AltcoinMaxLeverage r' \<in> {1..20} \<and>
     rk_MinConfidence r' \<in> {50..100} \<and> ratios_within r r' \<and> (clamped_risk r \<longrightarrow> r' = r) \<and>
     cs_AI500Limit s \<le> 10 \<and> cs_OITopLimit s \<le> 10 \<and> cs_OILowLimit s \<le> 10 \<and>
     distinct (cs_StaticCoins s) \<and> length (cs_StaticCoins s) \<le> 10 \<and>
     kl_PrimaryCount k \<in> {10..30} \<and> kl_LongerCount k \<le> 30 \<and>
     distinct (kl_SelectedTimeframes k) \<and> set (kl_SelectedTimeframes k) \<subseteq> set timeframes \<and> length (kl_SelectedTimeframes k) \<le> 4 \<and>
     (cs_SourceType s \<in> {''static'', ''ai500'', ''oi_top'', ''oi_low''} \<longrightarrow> market_tokens c' \<le> 58750) \<and>
     (normalizeCoinSourceType (cs_SourceType (sc_CoinSource c)) = ''hyper_main'' \<and> 0 < cs_HyperMainLimit (sc_CoinSource c) \<longrightarrow>
        getEffectiveCoinCount c' = cs_HyperMainLimit (sc_CoinSource c))"
proof -
  let ?c = "ClampLimits js c"
  have r: "sc_RiskControl ?c = clamp_risk (sc_RiskControl c)"
    by (simp add: ClampLimits_def NormalizeProductSchema_def Let_def)
  have "distinct (cs_StaticCoins (sc_CoinSource ?c))" "length (cs_StaticCoins (sc_CoinSource ?c)) \<le> 10"
    by (simp_all add: ClampLimits_def NormalizeProductSchema_def Let_def clamp_source_def normalizeSymbols_def)
  moreover have sel: "kl_SelectedTimeframes (in_Klines (sc_Indicators ?c)) =
      take 4 (normalizeTimeframes js (kl_SelectedTimeframes (in_Klines (sc_Indicators c))))"
    by (simp add: ClampLimits_def NormalizeProductSchema_def Let_def clamp_klines_def normalize_klines_def)
  moreover have "set (take 4 (normalizeTimeframes js vs)) \<subseteq> set timeframes" for vs
    using timeframes_normalised set_take_subset by fastforce
  moreover have "distinct (normalizeTimeframes js vs)" for vs by (simp add: normalizeTimeframes_def)
  moreover have "kl_PrimaryCount (in_Klines (sc_Indicators ?c)) \<in> {10..30}"
    by (simp add: ClampLimits_def Let_def clamp_klines_def)
  moreover have "cs_AI500Limit (sc_CoinSource ?c) \<le> 10 \<and> cs_OITopLimit (sc_CoinSource ?c) \<le> 10 \<and> cs_OILowLimit (sc_CoinSource ?c) \<le> 10 \<and>
      kl_LongerCount (in_Klines (sc_Indicators ?c)) \<le> 30"
    by (simp add: ClampLimits_def Let_def clamped_limits)
  moreover have "rk_MaxPositions (clamp_risk rc) \<in> {1..3} \<and> rk_BTCETHMaxLeverage (clamp_risk rc) \<in> {1..20} \<and>
      rk_AltcoinMaxLeverage (clamp_risk rc) \<in> {1..20} \<and> rk_MinConfidence (clamp_risk rc) \<in> {50..100}" for rc
    using clamp_risk_clamped [of rc] by (simp add: clamped_risk_def)
  ultimately show ?thesis
    unfolding Let_def r using clamp_risk_fixed clamp_ratios clamped_market_tokens hyper_main_unclamped by auto
qed

section \<open>Saved configurations\<close>

text \<open>
  a configuration is saved by its kind.  Read back from what was written, a grid strategy has its grid
  and nothing of the part for the language model, any other strategy has that part and no grid.
\<close>

theorem saved_by_kind:
  "UnmarshalJSON (reread (MarshalJSON c)) z =
     (let t = trim_space (sc_StrategyType c) in
      if t = ''grid_trading'' then z\<lparr>sc_StrategyType := t, sc_Language := sc_Language c, sc_GridConfig := sc_GridConfig c,
        sc_PublishConfig := sc_PublishConfig c\<rparr>
      else c\<lparr>sc_StrategyType := if t = '''' then ''ai_trading'' else t, sc_GridConfig := None\<rparr>)"
proof -
  have g: "trim_space ''grid_trading'' = ''grid_trading''" "trim_space ''ai_trading'' = ''ai_trading''" by code_simp+
  have get: "sv_StrategyType (reread s) = sv_StrategyType s" "sv_Language (reread s) = sv_Language s" "sv_AIConfig (reread s) = sv_AIConfig s"
    "sv_GridConfig (reread s) = sv_GridConfig s" "sv_PublishConfig (reread s) = sv_PublishConfig s" "sv_CoinSource (reread s) = None"
    "sv_Indicators (reread s) = None" "sv_CustomPrompt (reread s) = None" "sv_RiskControl (reread s) = None"
    "sv_PromptSections (reread s) = None" for s
    by (simp_all add: reread_def saved_config.defs)

  consider "trim_space (sc_StrategyType c) = ''grid_trading''" | "trim_space (sc_StrategyType c) = ''''"
    | "trim_space (sc_StrategyType c) \<noteq> ''grid_trading''" "trim_space (sc_StrategyType c) \<noteq> ''''" by blast
  then show ?thesis by cases (simp_all add: UnmarshalJSON_def get MarshalJSON_def or_keep_def Let_def g)
qed

section \<open>Merged patches\<close>

definition merge_value :: "jval \<Rightarrow> jval \<Rightarrow> jval" where
  "merge_value old v = (case v of JObj s \<Rightarrow> (case old of JObj t \<Rightarrow> JObj (mergeJSONMaps t s) | _ \<Rightarrow> v) | _ \<Rightarrow> v)"

lemma merge_step: "mergeJSONMaps dst ((k, v) # src) = mergeJSONMaps (mput k (merge_value (jget dst k) v) dst) src"
  by (simp add: merge_value_def split: jval.split)

text \<open>
  a patch changes what it names.  A key the patch does not have keeps its value; an object is merged
  into an object, and anything else replaces what was there.
\<close>

theorem patch_changes_named:
  assumes "wf_map src"
  shows "map_of (mergeJSONMaps dst src) k =
    (case map_of src k of None \<Rightarrow> map_of dst k | Some v \<Rightarrow> Some (merge_value (jget dst k) v))"
  using assms
proof (induction src arbitrary: dst)
  case (Cons e src)
  obtain k' v where e: "e = (k', v)" by (cases e)
  have "wf_map src" "k' \<notin> fst ` set src" using Cons.prems by (auto simp: e wf_map_def)
  then have "map_of src k' = None" by (simp add: map_of_eq_None_iff)
  then show ?case
    unfolding e merge_step Cons.IH [OF \<open>wf_map src\<close>] by (auto simp: mget_mput split: option.split)
qed simp

theorem patch_changes_named_witness:
  "map_of (mergeJSONMaps [(''a'', JBool True), (''b'', JObj [(''x'', JNull)])] [(''b'', JObj [(''y'', JStr ''z'')])]) ''b'' =
     Some (JObj [(''x'', JNull), (''y'', JStr ''z'')])"
  by (subst patch_changes_named) (simp_all add: wf_map_def merge_value_def mget_def mput_def mdel_def)

lemma grid_patch_drops_ai:
  "is_grid_patch (foldl nest_ai_key (infer_grid_type p) aiKeys) \<Longrightarrow>
   map_of (normalizeStrategyConfigPatch p) ''ai_config'' = None"
  by (simp add: normalizeStrategyConfigPatch_def Let_def infer_grid_type_def)

section \<open>The active strategy\<close>

text \<open>A transaction that reports success has done what its body did.\<close>

definition commit_law :: "'d strategy_db \<Rightarrow> bool" where
  "commit_law db \<longleftrightarrow> (\<forall>f d d'. sg_Transaction db f d = (None, d') \<longrightarrow> f d = (None, d'))"

text \<open>
  C26: a user's activation.  When it succeeds every other strategy of the user is inactive, the one asked
  for is active if it is the user's own or a default one, also a default one that belongs to another
  user, and the other rows are as they were.
\<close>

theorem activation_exact:
  assumes laws: "update_law (sg_Rows db) rows" "commit_law db"
    and run: "SetActive db now uid i d = (None, d')"
  shows "image_mset (\<lambda>r. (st_ID r, st_UserID r, st_IsActive r)) (mset (rows d')) =
    image_mset (\<lambda>r. (st_ID r, st_UserID r, usable_strategy uid i r \<or> st_UserID r \<noteq> uid \<and> st_IsActive r)) (mset (rows d))"
proof -
  let ?off = "\<lambda>r. if st_UserID r = uid then r\<lparr>st_IsActive := False, st_UpdatedAt := now\<rparr> else r"
  let ?on = "\<lambda>r. if usable_strategy uid i r then r\<lparr>st_IsActive := True, st_UpdatedAt := now\<rparr> else r"
  have "activate db now uid i d = (None, d')" using run laws(2) by (simp add: SetActive_def commit_law_def)
  then obtain d1 where 1: "tb_Update (sg_Rows db) d (\<lambda>r. st_UserID r = uid) (\<lambda>r. r\<lparr>st_IsActive := False, st_UpdatedAt := now\<rparr>) = (None, d1)"
    and 2: "tb_Update (sg_Rows db) d1 (usable_strategy uid i) (\<lambda>r. r\<lparr>st_IsActive := True, st_UpdatedAt := now\<rparr>) = (None, d')"
    by (auto simp: activate_def split: prod.splits option.splits)
  have "mset (rows d1) = image_mset ?off (mset (rows d))" using laws(1) 1 by (simp add: update_law_def)
  moreover have "mset (rows d') = image_mset ?on (mset (rows d1))" using laws(1) 2 by (simp add: update_law_def)
  ultimately have "mset (rows d') = image_mset (\<lambda>r. ?on (?off r)) (mset (rows d))" by (simp add: multiset.map_comp comp_def)
  moreover have "(st_ID (?on (?off r)), st_UserID (?on (?off r)), st_IsActive (?on (?off r))) =
      (st_ID r, st_UserID r, usable_strategy uid i r \<or> st_UserID r \<noteq> uid \<and> st_IsActive r)" for r
    by (cases "st_UserID r = uid"; cases "st_ID r = i"; cases "st_IsDefault r") (simp_all add: usable_strategy_def)
  ultimately show ?thesis by (simp only: multiset.map_comp comp_def)
qed

text \<open>An instance: a database of lists; the user \<open>u\<close> activates the default strategy of \<open>admin\<close>.\<close>

record list_strategies =
  ls_rows :: "strategy_row list"
  ls_traders :: "strategy_user list"

definition list_strategy_db :: "list_strategies strategy_db" where
  "list_strategy_db = \<lparr>
     sg_Rows = list_table ls_rows (\<lambda>xs d. d\<lparr>ls_rows := xs\<rparr>) st_CreatedAt st_ID (\<lambda>_ r. r),
     sg_Traders = list_table ls_traders (\<lambda>xs d. d\<lparr>ls_traders := xs\<rparr>) (\<lambda>_. 0) su_StrategyID (\<lambda>_ r. r),
     sg_Transaction = (\<lambda>f d. case f d of (None, d') \<Rightarrow> (None, d') | (Some e, _) \<Rightarrow> (Some e, d))\<rparr>"

definition strategy_named :: "gostring \<Rightarrow> gostring \<Rightarrow> bool \<Rightarrow> bool \<Rightarrow> strategy_row" where
  "strategy_named i uid active dflt = \<lparr>st_ID = i, st_UserID = uid, st_Name = i, st_Description = '''', st_IsActive = active,
     st_IsDefault = dflt, st_IsPublic = False, st_ConfigVisible = True, st_Config = ''{}'', st_CreatedAt = 0, st_UpdatedAt = 0\<rparr>"

definition two_users :: list_strategies where
  "two_users = \<lparr>ls_rows = [strategy_named ''own'' ''u'' True False, strategy_named ''std'' ''admin'' False True,
     strategy_named ''adm'' ''admin'' True False], ls_traders = []\<rparr>"

theorem activation_exact_witness:
  "\<exists>d'. SetActive list_strategy_db 7 ''u'' ''std'' two_users = (None, d') \<and>
     image_mset (\<lambda>r. (st_ID r, st_UserID r, st_IsActive r)) (mset (ls_rows d')) =
     {#(''own'', ''u'', False), (''std'', ''admin'', True), (''adm'', ''admin'', True)#}"
proof -
  have u: "update_law (sg_Rows list_strategy_db) ls_rows"
    unfolding list_strategy_db_def strategy_db.simps by (rule list_table_laws) simp_all
  have t: "commit_law list_strategy_db"
    by (auto simp: commit_law_def list_strategy_db_def split: prod.splits option.splits)
  obtain d' where r: "SetActive list_strategy_db 7 ''u'' ''std'' two_users = (None, d')"
    by (simp add: SetActive_def activate_def list_strategy_db_def list_table_def)
  from activation_exact [OF u t r] r show ?thesis
    by (auto simp: two_users_def strategy_named_def usable_strategy_def)
qed

section \<open>The default configuration\<close>

definition default_source :: coin_source where
  "default_source =
     \<lparr>cs_SourceType = ''hyper_rank'', cs_StaticCoins = [], cs_ExcludedCoins = [], cs_UseAI500 = False, cs_AI500Limit = 3,
      cs_UseOITop = False, cs_OITopLimit = 3, cs_UseOILow = False, cs_OILowLimit = 3, cs_UseHyperAll = False,
      cs_UseHyperMain = False, cs_HyperMainLimit = 30, cs_HyperRankCategory = ''stock'', cs_HyperRankDirection = ''gainers'',
      cs_HyperRankLimit = 5\<rparr>"

definition default_klines :: kline_config where
  "default_klines = \<lparr>kl_PrimaryTimeframe = ''5m'', kl_PrimaryCount = 20, kl_LongerTimeframe = ''4h'', kl_LongerCount = 10,
     kl_EnableMultiTimeframe = True, kl_SelectedTimeframes = [''5m'', ''15m'', ''1h'']\<rparr>"

definition default_indicators :: indicator_config where
  "default_indicators =
     \<lparr>in_Klines = default_klines, in_EnableRawKlines = True, in_EnableEMA = False, in_EnableMACD = False, in_EnableRSI = False,
      in_EnableATR = False, in_EnableBOLL = False, in_EnableVolume = True, in_EnableOI = True, in_EnableFundingRate = True,
      in_EMAPeriods = [20, 50], in_RSIPeriods = [7, 14], in_ATRPeriods = [14], in_BOLLPeriods = [20],
      in_ExternalDataSources = [], in_NofxOSAPIKey = '''', in_EnableQuantData = False, in_EnableQuantOI = False,
      in_EnableQuantNetflow = False, in_EnableOIRanking = False, in_OIRankingDuration = ''1h'', in_OIRankingLimit = 10,
      in_EnableNetFlowRanking = False, in_NetFlowRankingDuration = ''1h'', in_NetFlowRankingLimit = 10,
      in_EnablePriceRanking = False, in_PriceRankingDuration = ''1h,4h,24h'', in_PriceRankingLimit = 10\<rparr>"

definition default_risk :: risk_control where
  "default_risk =
     \<lparr>rk_MaxPositions = 3, rk_BTCETHMaxLeverage = 5, rk_AltcoinMaxLeverage = 5, rk_BTCETHMaxPositionValueRatio = Fin 5,
      rk_AltcoinMaxPositionValueRatio = 1, rk_MaxMarginUsage = fl (9 / 10), rk_MinPositionSize = Fin 12,
      rk_MinRiskRewardRatio = Fin 3, rk_MinConfidence = 75\<rparr>"

text \<open>The four texts of the prompt in each language are parameters.\<close>

definition GetDefaultStrategyConfig :: "prompt_sections \<Rightarrow> prompt_sections \<Rightarrow> gostring \<Rightarrow> strategy_config" where
  "GetDefaultStrategyConfig zh en lang =
     \<lparr>sc_StrategyType = '''', sc_Language = (if lang = ''zh'' then ''zh'' else ''en''), sc_CoinSource = default_source,
      sc_Indicators = default_indicators, sc_CustomPrompt = '''', sc_RiskControl = default_risk,
      sc_PromptSections = (if lang = ''zh'' then zh else en), sc_GridConfig = None, sc_PublishConfig = None\<rparr>"

lemma default_klines_normal: "normalizeTimeframes js (kl_SelectedTimeframes default_klines) = kl_SelectedTimeframes default_klines"
proof -
  have s: "splitLooseStringList js [''5m'', ''15m'', ''1h''] = [''5m'', ''15m'', ''1h'']"
  proof -
    have b: "\<not> bracketed (trim_space (join_commas [''5m'', ''15m'', ''1h'']))" "\<not> bracketed (trim_space ''5m'')"
      "\<not> bracketed (trim_space ''15m'')" "\<not> bracketed (trim_space ''1h'')"
      by code_simp+
    have p: "\<forall>v \<in> set [''5m'', ''15m'', ''1h'']. trim_space v \<noteq> '''' \<and> filter (\<lambda>p. p \<noteq> '''')
        (map (\<lambda>p. trim_by (\<lambda>c. c \<in> {CHR 34, CHR 39}) (trim_space p))
          (fields_by (\<lambda>c. c \<in> {CHR '','', CHR '';'', CHR 10}) (trim_by (\<lambda>c. c \<in> set ''[]'') (trim_space v)))) = [v]"
      by code_simp
    show ?thesis
      using b p by (simp add: splitLooseStringList_def split_value_def Let_def)
  qed
  have "map normalizeTimeframe [''5m'', ''15m'', ''1h''] = [''5m'', ''15m'', ''1h'']" by code_simp
  then show ?thesis by (simp add: default_klines_def normalizeTimeframes_def s first_occurrences_def)
qed

text \<open>
  the default configuration is a clamped one.  Clamping it changes nothing but the name of its type,
  which becomes \<open>ai_trading\<close>.
\<close>

theorem default_config_clamped:
  "ClampLimits js (GetDefaultStrategyConfig zh en lang) = (GetDefaultStrategyConfig zh en lang)\<lparr>sc_StrategyType := ''ai_trading''\<rparr>"
proof -
  have t: "normalizeStrategyType '''' = ''ai_trading''" "normalizeCoinSourceType ''hyper_rank'' = ''hyper_rank''"
    "normalizeTimeframe ''5m'' = ''5m''" "normalizeTimeframe ''4h'' = ''4h''"
    by code_simp+
  have e: "normalizeSymbols js [] = []" by (simp add: normalizeSymbols_def splitLooseStringList_def first_occurrences_def)
  have s: "normalize_source default_source = default_source"
    by (simp add: normalize_source_def default_source_def t Let_def rank_defaults_def use_only_def or_default_def)
  have "kl_SelectedTimeframes default_klines \<noteq> []" by (simp add: default_klines_def)
  then have k: "normalize_klines js default_klines = default_klines"
    unfolding normalize_klines_def default_klines_normal by (simp add: default_klines_def t Let_def)
  have "fl (1 / 2) < Fin 5" "fl (1 / 2) < 1" "fl (1 / 10) < fl (9 / 10)" "fl (9 / 10) < 1" "\<not> Fin 3 < 1" "\<not> Fin 10 < 1" by (simp_all add: f64_eval)
  then have "clamped_risk default_risk"
    by (auto simp: clamped_risk_def default_risk_def between_def f64_not_less intro: f64_less_imp_le)
  then have r: "clamp_risk default_risk = default_risk" by (rule clamp_risk_fixed)
  have c: "clamp_source default_source = default_source" "clamp_klines default_klines = default_klines"
    by (simp_all add: clamp_source_def default_source_def clamp_klines_def default_klines_def clamp_def)
  have d: "cs_StaticCoins default_source = []" "cs_ExcludedCoins default_source = []" "in_Klines default_indicators = default_klines"
    "default_source\<lparr>cs_StaticCoins := [], cs_ExcludedCoins := []\<rparr> = default_source"
    "default_indicators\<lparr>in_Klines := default_klines\<rparr> = default_indicators"
    by (simp_all add: default_source_def default_indicators_def)
  show ?thesis
    by (simp add: GetDefaultStrategyConfig_def ClampLimits_def NormalizeProductSchema_def Let_def t s e k r c d)
qed

theorem clamped_config_bounded_witness:
  "\<forall>p. market_tokens (ClampLimits (\<lambda>_. None) ((GetDefaultStrategyConfig p p ''en'')\<lparr>sc_CoinSource := default_source\<lparr>cs_SourceType := ''ai500''\<rparr>\<rparr>)) \<le> 58750"
proof
  fix p
  let ?c = "(GetDefaultStrategyConfig p p ''en'')\<lparr>sc_CoinSource := default_source\<lparr>cs_SourceType := ''ai500''\<rparr>\<rparr>"
  have t: "normalizeCoinSourceType ''ai500'' = ''ai500''" by code_simp
  have "cs_SourceType (sc_CoinSource (ClampLimits (\<lambda>_. None) ?c)) = ''ai500''"
    by (simp add: ClampLimits_def NormalizeProductSchema_def clamp_source_def normalize_source_def use_only_def t Let_def)
  then show "market_tokens (ClampLimits (\<lambda>_. None) ?c) \<le> 58750"
    using clamped_config_bounded [of "\<lambda>_. None" ?c] by (simp add: Let_def)
qed

end
