(* ===== verification/Fut_Trader.thy ===== *)
theory Fut_Trader
  imports Fut_Store Fut_Strategy
begin

text \<open>
  The futures trader: the checks of \<open>trader/auto_trader_risk.go\<close>, the execution of decisions of
  \<open>trader/auto_trader_orders.go\<close> and what \<open>trader/auto_trader_decision.go\<close> writes of it.  An exchange answers
  with Go maps of dynamically typed values; a type assertion without a check panics.
\<close>

section \<open>Dynamically typed values\<close>

datatype goval = GNil | GStr gostring | GF64 f64 | GI64 int | GInt int | GBool bool

type_synonym govals = "(gostring, goval) gomap"

abbreviation gget :: "govals \<Rightarrow> gostring \<Rightarrow> goval" where
  "gget \<equiv> mget GNil"

text \<open>Checked assertions: \<open>v, ok := m[k].(T)\<close>.\<close>

definition get_f64 :: "govals \<Rightarrow> gostring \<Rightarrow> f64 option" where
  "get_f64 m k = (case gget m k of GF64 x \<Rightarrow> Some x | _ \<Rightarrow> None)"

definition get_i64 :: "govals \<Rightarrow> gostring \<Rightarrow> int option" where
  "get_i64 m k = (case gget m k of GI64 i \<Rightarrow> Some i | _ \<Rightarrow> None)"

definition get_str :: "govals \<Rightarrow> gostring \<Rightarrow> gostring option" where
  "get_str m k = (case gget m k of GStr s \<Rightarrow> Some s | _ \<Rightarrow> None)"

text \<open>\<open>fmt.Sprintf("%v", v)\<close> for the types \<open>recordAndConfirmOrder\<close> has no case for.\<close>

definition show_order_id :: "goval \<Rightarrow> gostring" where
  "show_order_id v = (case v of GI64 i \<Rightarrow> itoa i | GF64 x \<Rightarrow> fmt_fixed False 0 x | GStr s \<Rightarrow> s
     | GNil \<Rightarrow> ''<nil>'' | GInt i \<Rightarrow> itoa i | GBool b \<Rightarrow> (if b then ''true'' else ''false''))"

section \<open>Configuration and state\<close>

text \<open>
  \<open>AutoTrader\<close>, without its names for display; of its strategy only the risk control.  \<open>NewAutoTrader\<close>
  refuses to build one without a strategy, yet the checks ask whether there is one.
\<close>

record auto_trader =
  at_id :: gostring
  at_exchange :: gostring
  at_exchangeID :: gostring
  at_aiModel :: gostring
  at_provider :: gostring
  at_IsCrossMargin :: bool
  at_Strategy :: "risk_control option"
  at_store :: bool
  at_initialBalance :: f64
  at_cycleNumber :: int
  at_dailyPnL :: f64
  at_lastResetTime :: int
  at_stopUntil :: int
  at_callCount :: int
  at_positionFirstSeenTime :: "(gostring, int) gomap"
  at_peakPnLCache :: "(gostring, f64) gomap"
  at_consecutiveAIFailures :: int
  at_safeMode :: bool

text \<open>
  The outside: the exchange (\<open>types.Trader\<close>), market data, the candidates of the strategy, the clock in
  nanoseconds and the flag that \<open>Stop\<close> clears from another goroutine.
\<close>

record 'x outside =
  ex_GetBalance :: "'x \<Rightarrow> (perr + govals) \<times> 'x"
  ex_GetPositions :: "'x \<Rightarrow> (perr + govals list) \<times> 'x"
  ex_Open :: "bool \<Rightarrow> gostring \<Rightarrow> f64 \<Rightarrow> int \<Rightarrow> 'x \<Rightarrow> (perr + govals) \<times> 'x"
  ex_Close :: "bool \<Rightarrow> gostring \<Rightarrow> f64 \<Rightarrow> 'x \<Rightarrow> (perr + govals) \<times> 'x"
  ex_SetMarginMode :: "gostring \<Rightarrow> bool \<Rightarrow> 'x \<Rightarrow> perr option \<times> 'x"
  ex_SetStopLoss :: "gostring \<Rightarrow> gostring \<Rightarrow> f64 \<Rightarrow> f64 \<Rightarrow> 'x \<Rightarrow> perr option \<times> 'x"
  ex_SetTakeProfit :: "gostring \<Rightarrow> gostring \<Rightarrow> f64 \<Rightarrow> f64 \<Rightarrow> 'x \<Rightarrow> perr option \<times> 'x"
  ex_GetOrderStatus :: "gostring \<Rightarrow> gostring \<Rightarrow> 'x \<Rightarrow> (perr + govals) \<times> 'x"
  ex_MarketPrice :: "gostring \<Rightarrow> gostring \<Rightarrow> 'x \<Rightarrow> (perr + f64) \<times> 'x"
  ex_Candidates :: "'x \<Rightarrow> (perr + gostring list) \<times> 'x"
  ex_Sleep :: "int \<Rightarrow> 'x \<Rightarrow> 'x"
  ex_Now :: "'x \<Rightarrow> int"
  ex_Running :: "'x \<Rightarrow> bool"

text \<open>\<open>ex_Open\<close> and \<open>ex_Close\<close> are \<open>OpenLong\<close>, \<open>CloseLong\<close> for \<open>True\<close>, and \<open>OpenShort\<close>, \<open>CloseShort\<close> for \<open>False\<close>.\<close>

record ('x, 'd) fworld =
  fw_x :: 'x
  fw_d :: 'd
  fw_at :: auto_trader

definition outcall :: "('x \<Rightarrow> 'a \<times> 'x) \<Rightarrow> ('x, 'd) fworld \<Rightarrow> 'a \<times> ('x, 'd) fworld" where
  "outcall f w = (case f (fw_x w) of (r, x) \<Rightarrow> (r, w\<lparr>fw_x := x\<rparr>))"

definition dbcall :: "('d \<Rightarrow> 'a \<times> 'd) \<Rightarrow> ('x, 'd) fworld \<Rightarrow> 'a \<times> ('x, 'd) fworld" where
  "dbcall f w = (case f (fw_d w) of (r, d) \<Rightarrow> (r, w\<lparr>fw_d := d\<rparr>))"

definition sleep_ms :: "'x outside \<Rightarrow> int \<Rightarrow> ('x, 'd) fworld \<Rightarrow> ('x, 'd) fworld" where
  "sleep_ms X ms w = w\<lparr>fw_x := ex_Sleep X ms (fw_x w)\<rparr>"

definition now_ns :: "'x outside \<Rightarrow> ('x, 'd) fworld \<Rightarrow> int" where
  "now_ns X w = ex_Now X (fw_x w)"

definition now_ms :: "'x outside \<Rightarrow> ('x, 'd) fworld \<Rightarrow> int" where
  "now_ms X w = ex_Now X (fw_x w) div 1000000"

definition upd_at :: "(auto_trader \<Rightarrow> auto_trader) \<Rightarrow> ('x, 'd) fworld \<Rightarrow> ('x, 'd) fworld" where
  "upd_at f w = w\<lparr>fw_at := f (fw_at w)\<rparr>"

lemma fworld_simps [simp]:
  "fw_at (snd (outcall f w)) = fw_at w" "fw_d (snd (outcall f w)) = fw_d w" "fw_x (snd (outcall f w)) = snd (f (fw_x w))"
  "fst (outcall f w) = fst (f (fw_x w))"
  "fw_at (snd (dbcall g w)) = fw_at w" "fw_x (snd (dbcall g w)) = fw_x w" "fw_d (snd (dbcall g w)) = snd (g (fw_d w))"
  "fst (dbcall g w) = fst (g (fw_d w))"
  "fw_at (sleep_ms X ms w) = fw_at w" "fw_d (sleep_ms X ms w) = fw_d w" "fw_x (sleep_ms X ms w) = ex_Sleep X ms (fw_x w)"
  "fw_x (upd_at h w) = fw_x w" "fw_d (upd_at h w) = fw_d w" "fw_at (upd_at h w) = h (fw_at w)"
  by (simp_all add: outcall_def dbcall_def sleep_ms_def upd_at_def split: prod.split)

section \<open>Enforced limits\<close>

definition isBTCETH :: "gostring \<Rightarrow> bool" where
  "isBTCETH sy \<longleftrightarrow> has_prefix (to_upper sy) ''BTC'' \<or> has_prefix (to_upper sy) ''ETH''"

definition isMajorAsset :: "gostring \<Rightarrow> bool" where
  "isMajorAsset sy \<longleftrightarrow> isBTCETH sy \<or> IsXyzDexAsset sy"

definition value_ratio :: "risk_control \<Rightarrow> gostring \<Rightarrow> f64" where
  "value_ratio rk sy =
     (if isMajorAsset sy
      then (if rk_BTCETHMaxPositionValueRatio rk \<le> 0 then Fin 5 else rk_BTCETHMaxPositionValueRatio rk)
      else (if rk_AltcoinMaxPositionValueRatio rk \<le> 0 then 1 else rk_AltcoinMaxPositionValueRatio rk))"

definition enforcePositionValueRatio :: "auto_trader \<Rightarrow> f64 \<Rightarrow> f64 \<Rightarrow> gostring \<Rightarrow> f64 \<times> bool" where
  "enforcePositionValueRatio a sz equity sy =
     (case at_Strategy a of None \<Rightarrow> (sz, False)
      | Some rk \<Rightarrow> if sz > equity * value_ratio rk sy then (equity * value_ratio rk sy, True) else (sz, False))"

definition min_size :: "risk_control \<Rightarrow> f64" where
  "min_size rk = (if rk_MinPositionSize rk \<le> 0 then Fin 12 else rk_MinPositionSize rk)"

definition max_positions :: "risk_control \<Rightarrow> int" where
  "max_positions rk = (if rk_MaxPositions rk \<le> 0 then 3 else rk_MaxPositions rk)"

definition enforceMinPositionSize :: "auto_trader \<Rightarrow> f64 \<Rightarrow> perr option" where
  "enforceMinPositionSize a sz =
     (case at_Strategy a of None \<Rightarrow> None
      | Some rk \<Rightarrow> if sz < min_size rk then Some (OtherErr ''position below minimum'') else None)"

definition enforceMaxPositions :: "auto_trader \<Rightarrow> int \<Rightarrow> perr option" where
  "enforceMaxPositions a n =
     (case at_Strategy a of None \<Rightarrow> None
      | Some rk \<Rightarrow> if n \<ge> max_positions rk then Some (OtherErr ''already at max positions'') else None)"

definition getSideFromAction :: "gostring \<Rightarrow> gostring" where
  "getSideFromAction act = (if act \<in> {''open_short'', ''close_long''} then ''SELL'' else ''BUY'')"

section \<open>Recording an order\<close>

text \<open>Exchanges whose trades are synchronised by a loop of their own: nothing is recorded here.\<close>

definition order_sync :: "gostring list" where
  "order_sync = [''binance'', ''lighter'', ''hyperliquid'', ''bybit'', ''okx'', ''bitget'', ''aster'', ''kucoin'', ''gate'']"

definition position_side :: "gostring \<Rightarrow> gostring" where
  "position_side act = (if act \<in> {''open_long'', ''close_long''} then ''LONG''
     else if act \<in> {''open_short'', ''close_short''} then ''SHORT'' else '''')"

definition order_side :: "gostring \<Rightarrow> gostring" where
  "order_side act = (if act \<in> {''open_long'', ''close_short''} then ''BUY''
     else if act \<in> {''open_short'', ''close_long''} then ''SELL'' else '''')"

definition is_close :: "gostring \<Rightarrow> bool" where
  "is_close act \<longleftrightarrow> act = ''close_long'' \<or> act = ''close_short''"

definition createOrderRecord ::
  "auto_trader \<Rightarrow> int \<Rightarrow> gostring \<Rightarrow> gostring \<Rightarrow> gostring \<Rightarrow> f64 \<Rightarrow> f64 \<Rightarrow> int \<Rightarrow> trader_order" where
  "createOrderRecord a now oid sy act qty price lev =
     \<lparr>to_ID = 0, to_TraderID = at_id a, to_ExchangeID = at_exchangeID a, to_ExchangeType = at_exchange a,
      to_ExchangeOrderID = oid, to_Symbol = Normalize sy, to_Side = order_side act, to_PositionSide = position_side act,
      to_Type = ''MARKET'', to_TimeInForce = ''GTC'', to_Quantity = qty, to_Price = price, to_Status = ''NEW'',
      to_FilledQuantity = 0, to_AvgFillPrice = 0, to_Commission = 0, to_CommissionAsset = ''USDT'', to_Leverage = lev,
      to_ReduceOnly = is_close act, to_ClosePosition = is_close act, to_OrderAction = act,
      to_CreatedAt = now, to_UpdatedAt = now, to_FilledAt = 0\<rparr>"

text \<open>The profit of a closing fill is looked up under the symbol as it was given, not the normalised one.\<close>

definition fill_pnl :: "'d fut_db \<Rightarrow> auto_trader \<Rightarrow> gostring \<Rightarrow> gostring \<Rightarrow> f64 \<Rightarrow> f64 \<Rightarrow> 'd \<Rightarrow> f64" where
  "fill_pnl db a sy act price qty d =
     (if is_close act then
        (case GetOpenPositionBySymbol (fu_Positions db) (at_id a) sy (position_side act) d of
           Inr (Some p) \<Rightarrow> if act = ''close_long'' then (price - po_EntryPrice p) * qty else (po_EntryPrice p - price) * qty
         | _ \<Rightarrow> 0)
      else 0)"

definition recordOrderFill ::
  "'x outside \<Rightarrow> 'd fut_db \<Rightarrow> int \<Rightarrow> gostring \<Rightarrow> gostring \<Rightarrow> gostring \<Rightarrow> f64 \<Rightarrow> f64 \<Rightarrow> f64 \<Rightarrow> ('x, 'd) fworld \<Rightarrow> ('x, 'd) fworld" where
  "recordOrderFill X db rid oid sy act price qty fee w =
     (let a = fw_at w in
      if \<not> at_store a then w
      else snd (dbcall (CreateFill (fu_Orders db)
        \<lparr>fi_ID = 0, fi_TraderID = at_id a, fi_ExchangeID = at_exchangeID a, fi_ExchangeType = at_exchange a, fi_OrderID = rid,
         fi_ExchangeOrderID = oid, fi_ExchangeTradeID = oid @ ''-'' @ itoa (now_ns X w), fi_Symbol = Normalize sy,
         fi_Side = order_side act, fi_Price = price, fi_Quantity = qty, fi_QuoteQuantity = price * qty, fi_Commission = fee,
         fi_CommissionAsset = ''USDT'', fi_RealizedPnL = fill_pnl db a sy act price qty (fw_d w), fi_IsMaker = False,
         fi_CreatedAt = now_ms X w\<rparr>) w))"

text \<open>
  An opening order creates a row of its own, without asking whether one is open; a closing one goes
  through the position builder.  What is logged afterwards takes the first eight characters of the
  trader's name, and panics on a shorter one.
\<close>

definition log_id :: "auto_trader \<Rightarrow> perr option" where
  "log_id a = (if length (at_id a) < 8 then Some (Panic ''slice bounds out of range'') else None)"

definition recordPositionChange ::
  "'x outside \<Rightarrow> 'd fut_db \<Rightarrow> gostring \<Rightarrow> gostring \<Rightarrow> gostring \<Rightarrow> gostring \<Rightarrow> f64 \<Rightarrow> f64 \<Rightarrow> int \<Rightarrow> f64 \<Rightarrow>
     ('x, 'd) fworld \<Rightarrow> perr option \<times> ('x, 'd) fworld" where
  "recordPositionChange X db oid sy side act qty price lev fee w =
     (let a = fw_at w; now = now_ms X w in
      if \<not> at_store a then (None, w)
      else if is_open act then
        (case dbcall (CreatePosition (fu_Positions db) (zero_position\<lparr>po_TraderID := at_id a, po_ExchangeID := at_exchangeID a,
                po_ExchangeType := at_exchange a, po_Symbol := sy, po_Side := side, po_Quantity := qty, po_EntryPrice := price,
                po_EntryOrderID := oid, po_EntryTime := now, po_Leverage := lev, po_Status := ''OPEN'', po_CreatedAt := now,
                po_UpdatedAt := now\<rparr>)) w of
           (Some _, w) \<Rightarrow> (None, w) | (None, w) \<Rightarrow> (log_id a, w))
      else if is_close act then
        (case dbcall (ProcessTrade (fu_Positions db) now \<lparr>pt_TraderID = at_id a, pt_ExchangeID = at_exchangeID a,
                pt_ExchangeType = at_exchange a, pt_Symbol = sy, pt_Side = side, pt_Action = act, pt_Quantity = qty,
                pt_Price = price, pt_Fee = fee, pt_RealizedPnL = 0, pt_Time = now, pt_OrderID = oid\<rparr>) w of
           (Some _, w) \<Rightarrow> (None, w) | (None, w) \<Rightarrow> (log_id a, w))
      else (None, w))"

text \<open>What the polling of an order ends with: the order was cancelled, or its price, quantity and fee.\<close>

datatype poll_result = PollDead | PollDone f64 f64 f64

definition positive_or :: "f64 \<Rightarrow> f64 option \<Rightarrow> f64" where
  "positive_or z r = (case r of Some x \<Rightarrow> if x > 0 then x else z | None \<Rightarrow> z)"

fun poll_order ::
  "'x outside \<Rightarrow> 'd fut_db \<Rightarrow> int \<Rightarrow> gostring \<Rightarrow> gostring \<Rightarrow> gostring \<Rightarrow> f64 \<Rightarrow> f64 \<Rightarrow> nat \<Rightarrow> ('x, 'd) fworld \<Rightarrow>
     poll_result \<times> ('x, 'd) fworld" where
  "poll_order X db rid oid sy act price qty 0 w = (PollDone price qty 0, w)"
| "poll_order X db rid oid sy act price qty (Suc n) w =
     (case outcall (ex_GetOrderStatus X sy oid) w of
        (Inl _, w) \<Rightarrow> poll_order X db rid oid sy act price qty n (sleep_ms X 500 w)
      | (Inr st, w) \<Rightarrow>
          (let status = (case get_str st ''status'' of Some s \<Rightarrow> s | None \<Rightarrow> '''') in
           if status = ''FILLED'' then
             (let p = positive_or price (get_f64 st ''avgPrice''); q = positive_or qty (get_f64 st ''executedQty'');
                  fee = (case get_f64 st ''commission'' of Some c \<Rightarrow> c | None \<Rightarrow> 0);
                  w = snd (dbcall (UpdateOrderStatus (fu_Orders db) (now_ms X w) rid ''FILLED'' q p fee) w)
              in (PollDone p q fee, recordOrderFill X db rid oid sy act p q fee w))
           else if status \<in> {''CANCELED'', ''EXPIRED'', ''REJECTED''} then
             (PollDead, snd (dbcall (UpdateOrderStatus (fu_Orders db) (now_ms X w) rid status 0 0 0) w))
           else poll_order X db rid oid sy act price qty n (sleep_ms X 500 w)))"

definition recordAndConfirmOrder ::
  "'x outside \<Rightarrow> 'd fut_db \<Rightarrow> govals \<Rightarrow> gostring \<Rightarrow> gostring \<Rightarrow> f64 \<Rightarrow> f64 \<Rightarrow> int \<Rightarrow> ('x, 'd) fworld \<Rightarrow>
     perr option \<times> ('x, 'd) fworld" where
  "recordAndConfirmOrder X db order sy act qty price lev w =
     (let a = fw_at w; oid = show_order_id (gget order ''orderId'') in
      if \<not> at_store a \<or> oid = '''' \<or> oid = ''0'' \<or> at_exchange a \<in> set order_sync then (None, w)
      else
        let r = createOrderRecord a (now_ms X w) oid sy act qty price lev;
            (res, w) = dbcall (\<lambda>d. case CreateOrder (fu_Orders db) r d of (e, r, d) \<Rightarrow> ((e, r), d)) w
        in case poll_order X db (to_ID (snd res)) oid sy act price qty 5 (sleep_ms X 500 w) of
             (PollDead, w) \<Rightarrow> (None, w)
           | (PollDone p q fee, w) \<Rightarrow> recordPositionChange X db oid (Normalize sy) (position_side act) act q p lev fee w)"

section \<open>Opening\<close>

definition same_position :: "gostring \<Rightarrow> gostring \<Rightarrow> govals \<Rightarrow> bool" where
  "same_position sy side p \<longleftrightarrow> gget p ''symbol'' = GStr sy \<and> gget p ''side'' = GStr side"

definition available_of :: "govals \<Rightarrow> f64" where
  "available_of b = (case get_f64 b ''availableBalance'' of Some x \<Rightarrow> x | None \<Rightarrow> 0)"

definition equity_of :: "govals \<Rightarrow> f64" where
  "equity_of b = positive_or (positive_or (available_of b) (get_f64 b ''totalWalletBalance'')) (get_f64 b ''totalEquity'')"

definition affordable :: "govals \<Rightarrow> int \<Rightarrow> f64" where
  "affordable b lev = available_of b / (fl (101 / 100) / of_go_int lev + fl (1 / 1000))"

text \<open>The size that is ordered: capped by the ratio, then by the margin with a reserve of two per cent.\<close>

definition sized :: "auto_trader \<Rightarrow> govals \<Rightarrow> kdecision \<Rightarrow> f64" where
  "sized a b dc =
     (let s = fst (enforcePositionValueRatio a (kd_PositionSizeUSD dc) (equity_of b) (kd_Symbol dc));
          m = affordable b (kd_Leverage dc)
      in if s > m then m * fl (98 / 100) else s)"

definition side_name :: "bool \<Rightarrow> gostring" where
  "side_name long = (if long then ''long'' else ''short'')"

definition open_order ::
  "'x outside \<Rightarrow> 'd fut_db \<Rightarrow> bool \<Rightarrow> kdecision \<Rightarrow> f64 \<Rightarrow> decision_action \<Rightarrow> ('x, 'd) fworld \<Rightarrow>
     perr option \<times> decision_action \<times> ('x, 'd) fworld" where
  "open_order X db long dc price ar w =
     (let qty = kd_PositionSizeUSD dc / price; sy = kd_Symbol dc; up = (if long then ''LONG'' else ''SHORT'');
          ar = ar\<lparr>da_Quantity := qty, da_Price := price\<rparr>;
          w = snd (outcall (ex_SetMarginMode X sy (at_IsCrossMargin (fw_at w))) w)
      in case outcall (ex_Open X long sy qty (kd_Leverage dc)) w of
           (Inl e, w) \<Rightarrow> (Some (WrapErr (''failed to open position'') e), ar, w)
         | (Inr order, w) \<Rightarrow>
             (let ar = (case get_i64 order ''orderId'' of Some i \<Rightarrow> ar\<lparr>da_OrderID := i\<rparr> | None \<Rightarrow> ar) in
              case recordAndConfirmOrder X db order sy (''open_'' @ side_name long) qty price (kd_Leverage dc) w of
                (Some e, w) \<Rightarrow> (Some e, ar, w)
              | (None, w) \<Rightarrow>
                  (let now = now_ms X w;
                       w = upd_at (\<lambda>a. a\<lparr>at_positionFirstSeenTime :=
                         mput (sy @ ''_'' @ side_name long) now (at_positionFirstSeenTime a)\<rparr>) w;
                       w = snd (outcall (ex_SetStopLoss X sy up qty (kd_StopLoss dc)) w);
                       w = snd (outcall (ex_SetTakeProfit X sy up qty (kd_TakeProfit dc)) w)
                   in (None, ar, w))))"

definition execute_open ::
  "'x outside \<Rightarrow> 'd fut_db \<Rightarrow> bool \<Rightarrow> kdecision \<Rightarrow> decision_action \<Rightarrow> ('x, 'd) fworld \<Rightarrow>
     perr option \<times> decision_action \<times> ('x, 'd) fworld" where
  "execute_open X db long dc ar w =
     (case outcall (ex_GetPositions X) w of
        (Inl e, w) \<Rightarrow> (Some (WrapErr ''failed to get positions'' e), ar, w)
      | (Inr ps, w) \<Rightarrow>
          (case enforceMaxPositions (fw_at w) (int (length ps)) of Some e \<Rightarrow> (Some e, ar, w)
           | None \<Rightarrow>
               if \<exists>p \<in> set ps. same_position (kd_Symbol dc) (side_name long) p
               then (Some (OtherErr ''already has position, close it first''), ar, w)
               else case outcall (ex_MarketPrice X (kd_Symbol dc) (at_exchange (fw_at w))) w of
                 (Inl e, w) \<Rightarrow> (Some (WrapErr ''failed to get market data'' e), ar, w)
               | (Inr price, w) \<Rightarrow>
                   (case outcall (ex_GetBalance X) w of
                      (Inl e, w) \<Rightarrow> (Some (WrapErr ''failed to get account balance'' e), ar, w)
                    | (Inr b, w) \<Rightarrow>
                        (let dc = dc\<lparr>kd_PositionSizeUSD := sized (fw_at w) b dc\<rparr> in
                         case enforceMinPositionSize (fw_at w) (kd_PositionSizeUSD dc) of Some e \<Rightarrow> (Some e, ar, w)
                         | None \<Rightarrow> open_order X db long dc price ar w))))"

definition executeOpenLongWithRecord where
  "executeOpenLongWithRecord X db = execute_open X db True"

definition executeOpenShortWithRecord where
  "executeOpenShortWithRecord X db = execute_open X db False"

section \<open>Closing\<close>

text \<open>
  The quantity and the entry price for the record: those of the open row, else those of the exchange,
  whose quantities of short positions are negative.
\<close>

definition exchange_lot :: "bool \<Rightarrow> gostring \<Rightarrow> govals list \<Rightarrow> f64 \<times> f64 \<Rightarrow> f64 \<times> f64" where
  "exchange_lot long sy ps qe =
     (case find (same_position sy (side_name long)) ps of None \<Rightarrow> qe
      | Some p \<Rightarrow>
          ((case get_f64 p ''positionAmt'' of None \<Rightarrow> fst qe
            | Some x \<Rightarrow> if long then (if x > 0 then x else fst qe) else - x),
           (case get_f64 p ''entryPrice'' of None \<Rightarrow> snd qe | Some x \<Rightarrow> x)))"

definition close_lot ::
  "'x outside \<Rightarrow> 'd fut_db \<Rightarrow> bool \<Rightarrow> gostring \<Rightarrow> ('x, 'd) fworld \<Rightarrow> (f64 \<times> f64) \<times> ('x, 'd) fworld" where
  "close_lot X db long sy w =
     (let qe = (if at_store (fw_at w) then
            (case GetOpenPositionBySymbol (fu_Positions db) (at_id (fw_at w)) (Normalize sy) (if long then ''LONG'' else ''SHORT'') (fw_d w) of
               Inr (Some p) \<Rightarrow> (po_Quantity p, po_EntryPrice p) | _ \<Rightarrow> (0, 0))
          else (0, 0))
      in if feq (fst qe) 0 then
           (case outcall (ex_GetPositions X) w of (Inl _, w) \<Rightarrow> (qe, w) | (Inr ps, w) \<Rightarrow> (exchange_lot long sy ps qe, w))
         else (qe, w))"

definition execute_close ::
  "'x outside \<Rightarrow> 'd fut_db \<Rightarrow> bool \<Rightarrow> kdecision \<Rightarrow> decision_action \<Rightarrow> ('x, 'd) fworld \<Rightarrow>
     perr option \<times> decision_action \<times> ('x, 'd) fworld" where
  "execute_close X db long dc ar w =
     (case outcall (ex_MarketPrice X (kd_Symbol dc) (at_exchange (fw_at w))) w of
        (Inl e, w) \<Rightarrow> (Some (WrapErr ''failed to get market data'' e), ar, w)
      | (Inr price, w) \<Rightarrow>
          (let ar = ar\<lparr>da_Price := price\<rparr>; (lot, w) = close_lot X db long (kd_Symbol dc) w in
           case outcall (ex_Close X long (kd_Symbol dc) 0) w of
             (Inl e, w) \<Rightarrow> (Some (WrapErr ''failed to close position'' e), ar, w)
           | (Inr order, w) \<Rightarrow>
               (let ar = (case get_i64 order ''orderId'' of Some i \<Rightarrow> ar\<lparr>da_OrderID := i\<rparr> | None \<Rightarrow> ar);
                    (e, w) = recordAndConfirmOrder X db order (kd_Symbol dc) (''close_'' @ side_name long) (fst lot) price 0 w
                in (e, ar, w))))"

definition executeCloseLongWithRecord where
  "executeCloseLongWithRecord X db = execute_close X db True"

definition executeCloseShortWithRecord where
  "executeCloseShortWithRecord X db = execute_close X db False"

definition executeDecisionWithRecord ::
  "'x outside \<Rightarrow> 'd fut_db \<Rightarrow> kdecision \<Rightarrow> decision_action \<Rightarrow> ('x, 'd) fworld \<Rightarrow>
     perr option \<times> decision_action \<times> ('x, 'd) fworld" where
  "executeDecisionWithRecord X db dc ar w =
     (if kd_Action dc = ''open_long'' then executeOpenLongWithRecord X db dc ar w
      else if kd_Action dc = ''open_short'' then executeOpenShortWithRecord X db dc ar w
      else if kd_Action dc = ''close_long'' then executeCloseLongWithRecord X db dc ar w
      else if kd_Action dc = ''close_short'' then executeCloseShortWithRecord X db dc ar w
      else if kd_Action dc \<in> {''hold'', ''wait''} then (None, ar, w)
      else (Some (OtherErr (''unknown action: '' @ kd_Action dc)), ar, w))"

section \<open>Watching drawdowns\<close>

definition UpdatePeakPnL :: "gostring \<Rightarrow> gostring \<Rightarrow> f64 \<Rightarrow> auto_trader \<Rightarrow> auto_trader" where
  "UpdatePeakPnL sy side cur a =
     (let k = sy @ ''_'' @ side in
      case map_of (at_peakPnLCache a) k of
        Some peak \<Rightarrow> if cur > peak then a\<lparr>at_peakPnLCache := mput k cur (at_peakPnLCache a)\<rparr> else a
      | None \<Rightarrow> a\<lparr>at_peakPnLCache := mput k cur (at_peakPnLCache a)\<rparr>)"

definition ClearPeakPnLCache :: "gostring \<Rightarrow> gostring \<Rightarrow> auto_trader \<Rightarrow> auto_trader" where
  "ClearPeakPnLCache sy side a = a\<lparr>at_peakPnLCache := mdel (sy @ ''_'' @ side) (at_peakPnLCache a)\<rparr>"

definition emergencyClosePosition :: "'x outside \<Rightarrow> gostring \<Rightarrow> gostring \<Rightarrow> ('x, 'd) fworld \<Rightarrow> perr option \<times> ('x, 'd) fworld" where
  "emergencyClosePosition X sy side w =
     (if side = ''long'' \<or> side = ''short'' then
        (case outcall (ex_Close X (side = ''long'') sy 0) w of (Inl e, w) \<Rightarrow> (Some e, w) | (Inr _, w) \<Rightarrow> (None, w))
      else (Some (OtherErr (''unknown position direction: '' @ side)), w))"

text \<open>The five fields a position must have, or the goroutine panics.\<close>

record live_position =
  lp_symbol :: gostring
  lp_side :: gostring
  lp_entry :: f64
  lp_mark :: f64
  lp_amount :: f64

definition live_of :: "govals \<Rightarrow> live_position option" where
  "live_of p =
     (case (get_str p ''symbol'', get_str p ''side'', get_f64 p ''entryPrice'', get_f64 p ''markPrice'', get_f64 p ''positionAmt'') of
        (Some sy, Some side, Some e, Some m, Some q) \<Rightarrow>
          Some \<lparr>lp_symbol = sy, lp_side = side, lp_entry = e, lp_mark = m, lp_amount = (if q < 0 then - q else q)\<rparr>
      | _ \<Rightarrow> None)"

definition leverage_of :: "govals \<Rightarrow> int" where
  "leverage_of p = (case get_f64 p ''leverage'' of Some l \<Rightarrow> trunc_int l | None \<Rightarrow> 10)"

definition profit_pct :: "live_position \<Rightarrow> int \<Rightarrow> f64" where
  "profit_pct lp lev =
     (if lp_side lp = ''long'' then (lp_mark lp - lp_entry lp) / lp_entry lp * of_go_int lev * Fin 100
      else (lp_entry lp - lp_mark lp) / lp_entry lp * of_go_int lev * Fin 100)"

definition drawdown_pct :: "f64 \<Rightarrow> f64 \<Rightarrow> f64" where
  "drawdown_pct peak cur = (if peak > 0 \<and> cur < peak then (peak - cur) / peak * Fin 100 else 0)"

definition check_position :: "'x outside \<Rightarrow> live_position \<Rightarrow> f64 \<Rightarrow> ('x, 'd) fworld \<Rightarrow> ('x, 'd) fworld" where
  "check_position X lp cur w =
     (let k = lp_symbol lp @ ''_'' @ lp_side lp;
          peak = (case map_of (at_peakPnLCache (fw_at w)) k of Some p \<Rightarrow> p | None \<Rightarrow> cur);
          w = upd_at (UpdatePeakPnL (lp_symbol lp) (lp_side lp) cur) w
      in if cur > Fin 5 \<and> drawdown_pct peak cur \<ge> Fin 40 then
           (case emergencyClosePosition X (lp_symbol lp) (lp_side lp) w of
              (Some _, w) \<Rightarrow> w
            | (None, w) \<Rightarrow> upd_at (ClearPeakPnLCache (lp_symbol lp) (lp_side lp)) w)
         else w)"

fun check_positions :: "'x outside \<Rightarrow> govals list \<Rightarrow> ('x, 'd) fworld \<Rightarrow> perr option \<times> ('x, 'd) fworld" where
  "check_positions X [] w = (None, w)"
| "check_positions X (p # ps) w =
     (case live_of p of None \<Rightarrow> (Some (Panic ''interface conversion''), w)
      | Some lp \<Rightarrow>
          check_positions X ps
            (if lp_entry lp \<le> 0 then w else check_position X lp (profit_pct lp (leverage_of p)) w))"

definition checkPositionDrawdown :: "'x outside \<Rightarrow> ('x, 'd) fworld \<Rightarrow> perr option \<times> ('x, 'd) fworld" where
  "checkPositionDrawdown X w =
     (case outcall (ex_GetPositions X) w of (Inl _, w) \<Rightarrow> (None, w) | (Inr ps, w) \<Rightarrow> check_positions X ps w)"

section \<open>What opening a position obeys\<close>

lemma sized_below:
  assumes rk: "at_Strategy a = Some rk" and nn: "rk_MinPositionSize rk \<noteq> NaN"
    and ok: "enforceMinPositionSize a (sized a b dc) = None"
  shows "\<not> sized a b dc > equity_of b * value_ratio rk (kd_Symbol dc) \<and> \<not> sized a b dc > affordable b (kd_Leverage dc) \<and>
    \<not> sized a b dc < min_size rk"
proof -
  let ?cap = "equity_of b * value_ratio rk (kd_Symbol dc)" and ?m = "affordable b (kd_Leverage dc)"
  define s where "s = fst (enforcePositionValueRatio a (kd_PositionSizeUSD dc) (equity_of b) (kd_Symbol dc))"
  have z: "sized a b dc = (if s > ?m then ?m * fl (98 / 100) else s)" by (simp add: sized_def s_def Let_def)
  have scap: "\<not> s > ?cap" using rk by (auto simp: s_def enforcePositionValueRatio_def)
  have min: "\<not> sized a b dc < min_size rk" using ok rk by (auto simp: enforceMinPositionSize_def split: if_splits)
  have pos: "0 < min_size rk"
    using nn f64_not_le [of "rk_MinPositionSize rk" 0] by (auto simp: min_size_def zero_f64_def)
  show ?thesis
  proof (cases "s > ?m")
    case True
    obtain c where c: "fl (98 / 100) = Fin c" "0 < c" "c < 1"
      by (rule that [of "2206763817411543 / 2251799813685248"]) (simp_all add: f64_eval)
    have below: "?m * fl (98 / 100) \<le> ?m"
    proof (cases "?m")
      case (Fin r)
      have "0 \<le> r"
      proof (rule ccontr)
        assume "\<not> 0 \<le> r"
        then have "fl (r * c) \<le> fl 0" using c by (intro fl_mono) (simp add: mult_nonpos_nonneg)
        then have "sized a b dc < min_size rk" using True z Fin c pos by (simp add: f64_le_less_trans)
        then show False using min by simp
      qed
      then have "fl (r * c) \<le> fl r" using c by (intro fl_mono) (simp add: mult_left_le)
      moreover have "is64 ?m" by (simp add: affordable_def)
      ultimately show ?thesis using Fin c fl_exact [of r] by simp
    next
      case NInf
      have "sized a b dc < min_size rk" using True z NInf c pos by (cases "min_size rk") (simp_all add: zero_f64_def)
      then show ?thesis using min by simp
    next
      case PInf
      then have False using True by (cases s) simp_all
      then show ?thesis ..
    qed (use True in simp_all)
    have "\<not> ?cap < ?m * fl (98 / 100)"
    proof
      assume "?cap < ?m * fl (98 / 100)"
      then have "?cap < ?m" using below by (rule f64_less_le_trans)
      then have "?cap < s" using True by (meson f64_less_imp_le f64_less_le_trans)
      then show False using scap by simp
    qed
    then show ?thesis using True z min below f64_less_not_le by auto
  qed (use z scap min in auto)
qed

lemma poll_order_Open [simp]:
  "poll_order (X\<lparr>ex_Open := f\<rparr>) db rid oid sy act price qty n w = poll_order X db rid oid sy act price qty n w"
  by (induction X db rid oid sy act price qty n w rule: poll_order.induct)
    (simp_all add: recordOrderFill_def now_ms_def now_ns_def sleep_ms_def Let_def split: prod.split sum.split)

lemma recordAndConfirmOrder_Open [simp]:
  "recordAndConfirmOrder (X\<lparr>ex_Open := f\<rparr>) db order sy act qty price lev w = recordAndConfirmOrder X db order sy act qty price lev w"
  by (simp add: recordAndConfirmOrder_def recordPositionChange_def now_ms_def sleep_ms_def Let_def split: prod.split poll_result.split)

text \<open>
  C7: the trader asks an exchange to open a position only within its limits.  If opening depends at all on
  what the exchange would answer (on \<open>ex_Open\<close>), then it had fewer positions than allowed, none of this symbol
  and side, and the quantity it asked for is that of a size which is not above the cap on the value
  of a position, not above what the margin affords, and not below the minimum.
\<close>

theorem opening_within_limits:
  assumes rk: "at_Strategy (fw_at w) = Some rk" "rk_MinPositionSize rk \<noteq> NaN"
    and calls: "execute_open X db long dc ar w \<noteq> execute_open (X\<lparr>ex_Open := f\<rparr>) db long dc ar w"
  shows "\<exists>ps x1 price x2 b x3. ex_GetPositions X (fw_x w) = (Inr ps, x1) \<and>
    ex_MarketPrice X (kd_Symbol dc) (at_exchange (fw_at w)) x1 = (Inr price, x2) \<and> ex_GetBalance X x2 = (Inr b, x3) \<and>
    int (length ps) < max_positions rk \<and> \<not> (\<exists>p \<in> set ps. same_position (kd_Symbol dc) (side_name long) p) \<and>
    (let z = sized (fw_at w) b dc in
       \<not> z > equity_of b * value_ratio rk (kd_Symbol dc) \<and> \<not> z > affordable b (kd_Leverage dc) \<and> \<not> z < min_size rk \<and>
       ex_Open X long (kd_Symbol dc) (z / price) (kd_Leverage dc) \<noteq> f long (kd_Symbol dc) (z / price) (kd_Leverage dc))"
proof -
  let ?Y = "X\<lparr>ex_Open := f\<rparr>"
  obtain r1 x1 where p: "ex_GetPositions X (fw_x w) = (r1, x1)" by fastforce
  obtain ps where ps: "r1 = Inr ps" using calls p by (cases r1) (auto simp: execute_open_def outcall_def)
  have max: "enforceMaxPositions (fw_at w) (int (length ps)) = None"
    using calls p ps by (cases "enforceMaxPositions (fw_at w) (int (length ps))") (auto simp: execute_open_def outcall_def)
  have no: "\<not> (\<exists>p \<in> set ps. same_position (kd_Symbol dc) (side_name long) p)"
  proof
    assume "\<exists>p \<in> set ps. same_position (kd_Symbol dc) (side_name long) p"
    then show False using calls p ps max by (simp add: execute_open_def outcall_def)
  qed
  obtain r2 x2 where m: "ex_MarketPrice X (kd_Symbol dc) (at_exchange (fw_at w)) x1 = (r2, x2)" by fastforce
  obtain price where price: "r2 = Inr price" using calls p ps max no m by (cases r2) (simp_all add: execute_open_def outcall_def)
  obtain r3 x3 where b: "ex_GetBalance X x2 = (r3, x3)" by fastforce
  obtain bal where bal: "r3 = Inr bal" using calls p ps max no m price b by (cases r3) (simp_all add: execute_open_def outcall_def)
  define z where "z = sized (fw_at w) bal dc"
  have run: "execute_open Z db long dc ar w = (case enforceMinPositionSize (fw_at w) z of Some e \<Rightarrow> (Some e, ar, w\<lparr>fw_x := x3\<rparr>)
      | None \<Rightarrow> open_order Z db long (dc\<lparr>kd_PositionSizeUSD := z\<rparr>) price ar (w\<lparr>fw_x := x3\<rparr>))" if "Z = X \<or> Z = ?Y" for Z
    using that p ps max no m price b bal by (elim disjE; cases "enforceMinPositionSize (fw_at w) z"; simp add: execute_open_def outcall_def z_def Let_def)
  have mn: "enforceMinPositionSize (fw_at w) z = None"
    using calls run by (cases "enforceMinPositionSize (fw_at w) z") auto
  have "ex_Open X long (kd_Symbol dc) (z / price) (kd_Leverage dc) \<noteq> f long (kd_Symbol dc) (z / price) (kd_Leverage dc)"
  proof
    assume "ex_Open X long (kd_Symbol dc) (z / price) (kd_Leverage dc) = f long (kd_Symbol dc) (z / price) (kd_Leverage dc)"
    then have "open_order X db long (dc\<lparr>kd_PositionSizeUSD := z\<rparr>) price ar (w\<lparr>fw_x := x3\<rparr>) =
        open_order ?Y db long (dc\<lparr>kd_PositionSizeUSD := z\<rparr>) price ar (w\<lparr>fw_x := x3\<rparr>)"
      by (simp add: open_order_def Let_def now_ms_def split: prod.split sum.split option.split)
    then show False using calls run mn by simp
  qed
  moreover have "int (length ps) < max_positions rk"
    using max rk by (auto simp: enforceMaxPositions_def split: if_splits)
  ultimately show ?thesis
    using p ps m price b bal no sized_below [OF rk, of bal dc] mn by (auto simp: z_def Let_def)
qed

section \<open>Small instances\<close>

text \<open>A database of lists, and an exchange that opens whatever it is asked for and never reports a fill.\<close>

record list_fut =
  lf_positions :: "trader_position list"
  lf_orders :: "trader_order list"
  lf_fills :: "trader_fill list"
  lf_equity :: "equity_snapshot list"
  lf_charges :: "ai_charge list"
  lf_decisions :: "decision_log list"

definition empty_fut :: list_fut where
  "empty_fut = \<lparr>lf_positions = [], lf_orders = [], lf_fills = [], lf_equity = [], lf_charges = [], lf_decisions = []\<rparr>"

definition list_fut_db :: "list_fut fut_db" where
  "list_fut_db = \<lparr>
     fu_Positions = \<lparr>
       px_Rows = list_table lf_positions (\<lambda>xs d. d\<lparr>lf_positions := xs\<rparr>) po_EntryTime po_ID
         (\<lambda>d r. r\<lparr>po_ID := 1 + sum_list (map (\<lambda>x. \<bar>po_ID x\<bar>) (lf_positions d))\<rparr>),
       px_Closed = (\<lambda>d p desc lim.
         let ss = (if desc then rev else id) (sort_key po_ExitTime (filter p (lf_positions d)))
         in Inr (case lim of None \<Rightarrow> ss | Some n \<Rightarrow> take (nat n) ss))\<rparr>,
     fu_Orders = \<lparr>
       or_Orders = list_table lf_orders (\<lambda>xs d. d\<lparr>lf_orders := xs\<rparr>) to_CreatedAt to_ID
         (\<lambda>d r. r\<lparr>to_ID := 1 + sum_list (map (\<lambda>x. \<bar>to_ID x\<bar>) (lf_orders d))\<rparr>),
       or_Fills = list_table lf_fills (\<lambda>xs d. d\<lparr>lf_fills := xs\<rparr>) fi_CreatedAt fi_ID (\<lambda>_ r. r),
       or_NewID = (\<lambda>d. if lf_orders d = [] then 0 else to_ID (last (lf_orders d)))\<rparr>,
     fu_Equity = list_table lf_equity (\<lambda>xs d. d\<lparr>lf_equity := xs\<rparr>) eq_Timestamp eq_TraderID (\<lambda>_ r. r),
     fu_Charges = list_table lf_charges (\<lambda>xs d. d\<lparr>lf_charges := xs\<rparr>) (\<lambda>_. 0) ch_TraderID (\<lambda>_ r. r),
     fu_Decisions = list_table lf_decisions (\<lambda>xs d. d\<lparr>lf_decisions := xs\<rparr>) dl_Timestamp dl_CycleNumber (\<lambda>_ r. r)\<rparr>"

definition idle_outside :: "unit outside" where
  "idle_outside = \<lparr>
     ex_GetBalance = (\<lambda>x. (Inr [(''availableBalance'', GF64 (Fin 1024)), (''totalEquity'', GF64 (Fin 1024))], x)),
     ex_GetPositions = (\<lambda>x. (Inr [], x)),
     ex_Open = (\<lambda>_ _ _ _ x. (Inr [(''orderId'', GStr ''17'')], x)),
     ex_Close = (\<lambda>_ _ _ x. (Inr [(''orderId'', GStr ''18'')], x)),
     ex_SetMarginMode = (\<lambda>_ _ x. (None, x)),
     ex_SetStopLoss = (\<lambda>_ _ _ _ x. (None, x)),
     ex_SetTakeProfit = (\<lambda>_ _ _ _ x. (None, x)),
     ex_GetOrderStatus = (\<lambda>_ _ x. (Inr [(''status'', GStr ''NEW'')], x)),
     ex_MarketPrice = (\<lambda>_ _ x. (Inr (Fin 64), x)),
     ex_Candidates = (\<lambda>x. (Inr [''SOLUSDT''], x)),
     ex_Sleep = (\<lambda>_ x. x), ex_Now = (\<lambda>_. 5000000), ex_Running = (\<lambda>_. True)\<rparr>"

definition plain_risk :: risk_control where
  "plain_risk = \<lparr>rk_MaxPositions = 2, rk_BTCETHMaxLeverage = 5, rk_AltcoinMaxLeverage = 5,
     rk_BTCETHMaxPositionValueRatio = 0, rk_AltcoinMaxPositionValueRatio = 0, rk_MaxMarginUsage = 1, rk_MinPositionSize = 0,
     rk_MinRiskRewardRatio = 1, rk_MinConfidence = 50\<rparr>"

definition plain_trader :: auto_trader where
  "plain_trader = \<lparr>at_id = ''trader-1'', at_exchange = ''indodax'', at_exchangeID = ''x'', at_aiModel = ''deepseek'',
     at_provider = ''deepseek'', at_IsCrossMargin = True, at_Strategy = Some plain_risk, at_store = True,
     at_initialBalance = Fin 1024, at_cycleNumber = 0, at_dailyPnL = 0, at_lastResetTime = 0, at_stopUntil = zero_time_ns,
     at_callCount = 0, at_positionFirstSeenTime = [], at_peakPnLCache = [], at_consecutiveAIFailures = 0, at_safeMode = False\<rparr>"

definition plain_world :: "(unit, list_fut) fworld" where
  "plain_world = \<lparr>fw_x = (), fw_d = empty_fut, fw_at = plain_trader\<rparr>"

definition sol_long :: kdecision where
  "sol_long = zero_decision\<lparr>kd_Symbol := ''SOLUSDT'', kd_Action := ''open_long'', kd_Leverage := 4, kd_PositionSizeUSD := Fin 128,
     kd_StopLoss := Fin 60, kd_TakeProfit := Fin 80\<rparr>"

definition blank_action :: decision_action where
  "blank_action = \<lparr>da_Action = '''', da_Symbol = '''', da_Quantity = 0, da_Leverage = 0, da_Price = 0, da_StopLoss = 0,
     da_TakeProfit = 0, da_Confidence = 0, da_Reasoning = '''', da_OrderID = 0, da_Timestamp = 0, da_Success = False, da_Error = None\<rparr>"

abbreviation plain_balance :: govals where
  "plain_balance \<equiv> [(''availableBalance'', GF64 (Fin 1024)), (''totalEquity'', GF64 (Fin 1024))]"

lemma sol_sized:
  assumes "at_Strategy a = Some plain_risk"
  shows "sized a plain_balance sol_long = Fin 128"
proof -
  have alt: "\<not> isMajorAsset ''SOLUSDT''" by code_simp
  have cap: "Fin 1024 * 1 = Fin 1024" using fl_of_int [of 1024] by (simp add: one_f64_def)
  have m: "\<not> Fin 128 > affordable plain_balance 4"
    by (simp add: affordable_def available_of_def get_f64_def mget_def f64_eval)
  show ?thesis
    using m assms by (simp add: sized_def enforcePositionValueRatio_def plain_risk_def sol_long_def value_ratio_def
        alt cap equity_of_def positive_or_def get_f64_def mget_def zero_f64_def)
qed

definition unrecorded_world :: "(unit, list_fut) fworld" where
  "unrecorded_world = plain_world\<lparr>fw_at := plain_trader\<lparr>at_store := False\<rparr>\<rparr>"

lemma sol_opens:
  assumes X: "ex_GetPositions X = ex_GetPositions idle_outside" "ex_MarketPrice X = ex_MarketPrice idle_outside"
      "ex_GetBalance X = ex_GetBalance idle_outside" "ex_SetMarginMode X = ex_SetMarginMode idle_outside"
    and o': "ex_Open X = (\<lambda>_ _ _ _ x. (r, x))"
  shows "fst (execute_open X db True sol_long blank_action unrecorded_world) = (case r of Inl e \<Rightarrow> Some (WrapErr ''failed to open position'' e) | Inr _ \<Rightarrow> None)"
proof -
  have st: "at_Strategy (fw_at unrecorded_world) = Some plain_risk" "\<not> at_store (fw_at unrecorded_world)"
    by (simp_all add: unrecorded_world_def plain_world_def plain_trader_def)
  have mx: "enforceMaxPositions (fw_at unrecorded_world) 0 = None" using st(1)
    by (simp add: enforceMaxPositions_def max_positions_def plain_risk_def)
  have mn: "enforceMinPositionSize (fw_at unrecorded_world) (Fin 128) = None" using st(1)
    by (simp add: enforceMinPositionSize_def min_size_def plain_risk_def)
  have rec: "recordAndConfirmOrder X db order sy act qty price lev w = (None, w)" if "\<not> at_store (fw_at w)" for order sy act qty price lev w
    using that by (simp add: recordAndConfirmOrder_def)
  show ?thesis
    by (cases r) (simp_all add: execute_open_def outcall_def X o' idle_outside_def mx mn sol_sized st(1) open_order_def rec st(2) Let_def)
qed

theorem opening_within_limits_witness:
  "\<exists>ps b x3. ex_GetPositions idle_outside () = (Inr ps, ()) \<and> ex_GetBalance idle_outside () = (Inr b, x3) \<and>
     int (length ps) < 2 \<and> \<not> sized (fw_at unrecorded_world) b sol_long < Fin 12"
proof -
  let ?Y = "idle_outside\<lparr>ex_Open := \<lambda>_ _ _ _ x. (Inl (OtherErr ''refused''), x)\<rparr>"
  have "fst (execute_open idle_outside list_fut_db True sol_long blank_action unrecorded_world) = None"
    by (subst sol_opens [where r = "Inr [(''orderId'', GStr ''17'')]"]) (simp_all add: idle_outside_def)
  moreover have "fst (execute_open ?Y list_fut_db True sol_long blank_action unrecorded_world) \<noteq> None"
    by (subst sol_opens [where r = "Inl (OtherErr ''refused'')"]) simp_all
  ultimately have d: "execute_open idle_outside list_fut_db True sol_long blank_action unrecorded_world \<noteq>
      execute_open ?Y list_fut_db True sol_long blank_action unrecorded_world" by metis
  have s: "at_Strategy (fw_at unrecorded_world) = Some plain_risk" "rk_MinPositionSize plain_risk \<noteq> NaN"
    by (simp_all add: unrecorded_world_def plain_world_def plain_trader_def plain_risk_def zero_f64_def)
  have "max_positions plain_risk = 2" "min_size plain_risk = Fin 12" "fw_x unrecorded_world = ()"
    by (simp_all add: max_positions_def min_size_def plain_risk_def unrecorded_world_def plain_world_def)
  with opening_within_limits [OF s d] show ?thesis by (auto simp: Let_def)
qed

end
