(* ===== verification/Fut_Loop.thy ===== *)
theory Fut_Loop
  imports Fut_Trader Fut_Stats Symbols
begin

text \<open>
  The cycle of the futures trader (\<open>trader/auto_trader_loop.go\<close>): the context it builds from its
  exchange, the order and the universe of the decisions, their execution, and the records it leaves
  (\<open>saveEquitySnapshot\<close> and \<open>saveDecision\<close> of \<open>trader/auto_trader_decision.go\<close>).
\<close>

section \<open>The order of execution\<close>

definition getActionPriority :: "gostring \<Rightarrow> int" where
  "getActionPriority act =
     (if act \<in> {''close_long'', ''close_short''} then 1 else if act \<in> {''open_long'', ''open_short''} then 2
      else if act \<in> {''hold'', ''wait''} then 3 else 999)"

abbreviation kd_priority :: "kdecision \<Rightarrow> int" where
  "kd_priority d \<equiv> getActionPriority (kd_Action d)"

text \<open>The inner loop for one place: what ends up in it, and the rest as the swaps leave it.\<close>

fun exchange_sweep :: "('a \<Rightarrow> int) \<Rightarrow> 'a \<Rightarrow> 'a list \<Rightarrow> 'a \<times> 'a list" where
  "exchange_sweep f x [] = (x, [])"
| "exchange_sweep f x (y # ys) =
     (if f x > f y then let (z, zs) = exchange_sweep f y ys in (z, x # zs)
      else let (z, zs) = exchange_sweep f x ys in (z, y # zs))"

lemma exchange_sweep_mset: "exchange_sweep f x ys = (z, zs) \<Longrightarrow> add_mset z (mset zs) = add_mset x (mset ys)"
  by (induction f x ys arbitrary: z zs rule: exchange_sweep.induct) (auto split: prod.splits if_split_asm)

lemma exchange_sweep_length: "exchange_sweep f x ys = (z, zs) \<Longrightarrow> length zs = length ys"
  by (drule exchange_sweep_mset) (metis add_mset_eq_singleton_iff size_add_mset size_mset nat.inject)

lemma exchange_sweep_least: "exchange_sweep f x ys = (z, zs) \<Longrightarrow> f z \<le> f x \<and> (\<forall>y \<in> set zs. f z \<le> f y)"
proof (induction f x ys arbitrary: z zs rule: exchange_sweep.induct)
  case (2 f x y ys)
  show ?case
  proof (cases "f x > f y")
    case True
    then obtain zs' where "exchange_sweep f y ys = (z, zs')" "zs = x # zs'" using "2.prems" by (auto split: prod.splits)
    then show ?thesis using "2.IH"(1) True by fastforce
  next
    case False
    then obtain zs' where "exchange_sweep f x ys = (z, zs')" "zs = y # zs'" using "2.prems" by (auto split: prod.splits)
    then show ?thesis using "2.IH"(2) False by fastforce
  qed
qed simp

function exchange_sort :: "('a \<Rightarrow> int) \<Rightarrow> 'a list \<Rightarrow> 'a list" where
  "exchange_sort f [] = []"
| "exchange_sort f (x # xs) = (let (z, zs) = exchange_sweep f x xs in z # exchange_sort f zs)"
  by pat_completeness auto
termination
  by (relation "measure (\<lambda>(f, xs). length xs)") (auto dest: exchange_sweep_length [OF sym])

lemma exchange_sort_correct: "mset (exchange_sort f xs) = mset xs \<and> sorted (map f (exchange_sort f xs))"
proof (induction f xs rule: exchange_sort.induct)
  case (2 f x xs)
  obtain z zs where sw: "exchange_sweep f x xs = (z, zs)" by (rule prod.exhaust)
  note IH = "2.IH" [OF sw [symmetric] refl]
  have "\<forall>d \<in> set (exchange_sort f zs). f z \<le> f d"
    using exchange_sweep_least [OF sw] mset_eq_setD [OF IH [THEN conjunct1]] by simp
  then show ?case using IH exchange_sweep_mset [OF sw] sw by simp
qed simp

definition sortDecisionsByPriority :: "kdecision list \<Rightarrow> kdecision list" where
  "sortDecisionsByPriority ds = exchange_sort kd_priority ds"

section \<open>The universe of the strategy\<close>

definition isOpenDecision :: "gostring \<Rightarrow> bool" where
  "isOpenDecision act \<longleftrightarrow> (let a = to_lower (trim_space act) in a = ''open_long'' \<or> a = ''open_short'')"

text \<open>Candidates first, then positions, as both loops visit them.\<close>

definition universe :: "kcontext \<Rightarrow> gostring list" where
  "universe cx = kx_CandidateCoins cx @ map ps_Symbol (kx_Positions cx)"

definition canonicalUniverseSymbolForBase :: "kcontext \<Rightarrow> gostring \<Rightarrow> gostring" where
  "canonicalUniverseSymbolForBase cx base =
     (case find (\<lambda>s. universeBaseKey s = base) (universe cx) of Some s \<Rightarrow> s | None \<Rightarrow> '''')"

definition in_universe :: "kcontext \<Rightarrow> kdecision \<Rightarrow> kdecision option" where
  "in_universe cx d =
     (let sy = normalizeUniverseSymbol (kd_Symbol d); base = universeBaseKey (kd_Symbol d) in
      if sy = '''' \<or> sy = ''ALL'' then Some d
      else if \<exists>c \<in> set (universe cx). normalizeUniverseSymbol c = sy then Some d
      else if base \<noteq> '''' \<and> (\<exists>c \<in> set (universe cx). universeBaseKey c = base) then
        (let c = canonicalUniverseSymbolForBase cx base in Some (if c \<noteq> '''' then d\<lparr>kd_Symbol := c\<rparr> else d))
      else None)"

definition filterDecisionsToStrategyUniverse :: "kdecision list \<Rightarrow> kcontext \<Rightarrow> kdecision list" where
  "filterDecisionsToStrategyUniverse ds cx = List.map_filter (in_universe cx) ds"

section \<open>The context\<close>

text \<open>
  What the model is shown: \<open>kernel.Context\<close> with the recent trades and the statistics.  What the
  strategy's data services add to it belongs to the outside.
\<close>

record trade_context =
  tc_Context :: kcontext
  tc_RecentOrders :: "recent_trade list"
  tc_TradingStats :: "trader_stats option"

record balance_fields =
  bf_wallet :: f64
  bf_unrealized :: f64
  bf_available :: f64
  bf_equity :: f64

definition f64_or0 :: "govals \<Rightarrow> gostring \<Rightarrow> f64" where
  "f64_or0 b k = (case get_f64 b k of Some x \<Rightarrow> x | None \<Rightarrow> 0)"

definition account_fields :: "govals \<Rightarrow> balance_fields" where
  "account_fields b =
     (let w = f64_or0 b ''totalWalletBalance''; u = f64_or0 b ''totalUnrealizedProfit'' in
      \<lparr>bf_wallet = w, bf_unrealized = u, bf_available = f64_or0 b ''availableBalance'',
       bf_equity = (case get_f64 b ''totalEquity'' of Some e \<Rightarrow> if e > 0 then e else w + u | None \<Rightarrow> w + u)\<rparr>)"

definition calculatePnLPercentage :: "f64 \<Rightarrow> f64 \<Rightarrow> f64" where
  "calculatePnLPercentage pnl margin = (if margin > 0 then pnl / margin * Fin 100 else 0)"

definition margin_of :: "live_position \<Rightarrow> govals \<Rightarrow> f64" where
  "margin_of lp p = lp_amount lp * lp_mark lp / of_go_int (leverage_of p)"

text \<open>
  When a position was entered: by the database, by the exchange, or since it was first seen, which is
  remembered.  The database is asked with the symbol and the side as the exchange writes them.
\<close>

definition db_entry_time :: "'d fut_db \<Rightarrow> auto_trader \<Rightarrow> live_position \<Rightarrow> 'd \<Rightarrow> int" where
  "db_entry_time db a lp d =
     (if at_store a then
        (case GetOpenPositionBySymbol (fu_Positions db) (at_id a) (lp_symbol lp) (lp_side lp) d of
           Inr (Some r) \<Rightarrow> if po_EntryTime r > 0 then po_EntryTime r else 0 | _ \<Rightarrow> 0)
      else 0)"

definition api_entry_time :: "govals \<Rightarrow> int" where
  "api_entry_time p = (case get_i64 p ''createdTime'' of Some t \<Rightarrow> if t > 0 then t else 0 | None \<Rightarrow> 0)"

definition live_key :: "live_position \<Rightarrow> gostring" where
  "live_key lp = lp_symbol lp @ ''_'' @ lp_side lp"

definition entry_time ::
  "'x outside \<Rightarrow> 'd fut_db \<Rightarrow> live_position \<Rightarrow> govals \<Rightarrow> ('x, 'd) fworld \<Rightarrow> int \<times> ('x, 'd) fworld" where
  "entry_time X db lp p w =
     (let t = db_entry_time db (fw_at w) lp (fw_d w); t = (if t = 0 then api_entry_time p else t); k = live_key lp in
      if t \<noteq> 0 then (t, w)
      else
        let w = (if mhas (at_positionFirstSeenTime (fw_at w)) k then w
               else upd_at (\<lambda>a. a\<lparr>at_positionFirstSeenTime := mput k (now_ms X w) (at_positionFirstSeenTime a)\<rparr>) w)
        in (mget 0 (at_positionFirstSeenTime (fw_at w)) k, w))"

text \<open>
  The loop over the positions of the exchange.  An absent field is a panic; a position of size zero
  is passed over before its profit is looked at.
\<close>

fun position_infos ::
  "'x outside \<Rightarrow> 'd fut_db \<Rightarrow> govals list \<Rightarrow> ('x, 'd) fworld \<Rightarrow> (perr + position_info list) \<times> ('x, 'd) fworld" where
  "position_infos X db [] w = (Inr [], w)"
| "position_infos X db (p # ps) w =
     (case live_of p of None \<Rightarrow> (Inl (Panic ''interface conversion''), w)
      | Some lp \<Rightarrow>
          if feq (lp_amount lp) 0 then position_infos X db ps w
          else
            (case (get_f64 p ''unRealizedProfit'', get_f64 p ''liquidationPrice'') of
               (Some pnl, Some liq) \<Rightarrow>
                 (let m = margin_of lp p; (t, w) = entry_time X db lp p w;
                      i = \<lparr>ps_Symbol = lp_symbol lp, ps_Side = lp_side lp, ps_EntryPrice = lp_entry lp, ps_MarkPrice = lp_mark lp,
                           ps_Quantity = lp_amount lp, ps_Leverage = leverage_of p, ps_UnrealizedPnL = pnl,
                           ps_UnrealizedPnLPct = calculatePnLPercentage pnl m,
                           ps_PeakPnLPct = mget 0 (at_peakPnLCache (fw_at w)) (live_key lp), ps_LiquidationPrice = liq,
                           ps_MarginUsed = m, ps_UpdateTime = t\<rparr>
                  in case position_infos X db ps w of (Inl e, w) \<Rightarrow> (Inl e, w) | (Inr is, w) \<Rightarrow> (Inr (i # is), w))
             | _ \<Rightarrow> (Inl (Panic ''interface conversion''), w)))"

definition forget_closed :: "position_info list \<Rightarrow> auto_trader \<Rightarrow> auto_trader" where
  "forget_closed is a = a\<lparr>at_positionFirstSeenTime :=
     filter (\<lambda>(k, _). k \<in> set (map (\<lambda>i. ps_Symbol i @ ''_'' @ ps_Side i) is)) (at_positionFirstSeenTime a)\<rparr>"

definition account_info_of :: "auto_trader \<Rightarrow> balance_fields \<Rightarrow> position_info list \<Rightarrow> account_info" where
  "account_info_of a b is =
     (let margin = fsum (map ps_MarginUsed is); pnl = bf_equity b - at_initialBalance a in
      \<lparr>ac_TotalEquity = bf_equity b, ac_AvailableBalance = bf_available b, ac_UnrealizedPnL = bf_unrealized b,
       ac_TotalPnL = pnl, ac_TotalPnLPct = (if at_initialBalance a > 0 then pnl / at_initialBalance a * Fin 100 else 0),
       ac_MarginUsed = margin, ac_MarginUsedPct = (if bf_equity b > 0 then margin / bf_equity b * Fin 100 else 0),
       ac_PositionCount = int (length is)\<rparr>)"

definition buildTradingContext ::
  "'x outside \<Rightarrow> 'd fut_db \<Rightarrow> ('x, 'd) fworld \<Rightarrow> (perr + trade_context) \<times> ('x, 'd) fworld" where
  "buildTradingContext X db w =
     (case outcall (ex_GetBalance X) w of
        (Inl e, w) \<Rightarrow> (Inl (WrapErr ''failed to get account balance'' e), w)
      | (Inr b, w) \<Rightarrow>
          (case outcall (ex_GetPositions X) w of
             (Inl e, w) \<Rightarrow> (Inl (WrapErr ''failed to get positions'' e), w)
           | (Inr ps, w) \<Rightarrow>
               (case position_infos X db ps w of
                  (Inl e, w) \<Rightarrow> (Inl e, w)
                | (Inr is, w) \<Rightarrow>
                    (let w = upd_at (forget_closed is) w in
                     case at_Strategy (fw_at w) of None \<Rightarrow> (Inl (Panic ''nil pointer dereference''), w)
                     | Some _ \<Rightarrow>
                         (let (cs, w) = (case outcall (ex_Candidates X) w of (Inl _, w) \<Rightarrow> ([], w) | (Inr cs, w) \<Rightarrow> (cs, w));
                              a = fw_at w;
                              cx = \<lparr>kx_Account = account_info_of a (account_fields b) is, kx_Positions = is,
                                    kx_CandidateCoins = cs, kx_MarketData = []\<rparr>;
                              recent = (if at_store a then GetRecentTrades (fu_Positions db) (at_id a) 10 (fw_d w) else Inr []);
                              stats = (if at_store a then GetFullStats (fu_Positions db) (at_id a) (fw_d w) else Inl not_found)
                          in (Inr \<lparr>tc_Context = cx, tc_RecentOrders = ok_or [] recent,
                                   tc_TradingStats = (case stats of Inl _ \<Rightarrow> None
                                     | Inr s \<Rightarrow> if ts_TotalTrades s = 0 then None else Some s)\<rparr>, w))))))"

section \<open>Records\<close>

definition saveEquitySnapshot :: "'x outside \<Rightarrow> 'd fut_db \<Rightarrow> account_info \<Rightarrow> ('x, 'd) fworld \<Rightarrow> ('x, 'd) fworld" where
  "saveEquitySnapshot X db ac w =
     (if \<not> at_store (fw_at w) then w
      else snd (dbcall (SaveEquity (fu_Equity db)
        \<lparr>eq_TraderID = at_id (fw_at w), eq_Timestamp = now_ns X w, eq_TotalEquity = ac_TotalEquity ac,
         eq_Balance = ac_TotalEquity ac - ac_UnrealizedPnL ac, eq_UnrealizedPnL = ac_UnrealizedPnL ac,
         eq_PositionCount = ac_PositionCount ac, eq_MarginUsedPct = ac_MarginUsedPct ac\<rparr>) w))"

definition saveDecision :: "'x outside \<Rightarrow> 'd fut_db \<Rightarrow> decision_log \<Rightarrow> ('x, 'd) fworld \<Rightarrow> ('x, 'd) fworld" where
  "saveDecision X db l w =
     (if \<not> at_store (fw_at w) then w
      else
        let w = upd_at (\<lambda>a. a\<lparr>at_cycleNumber := at_cycleNumber a + 1\<rparr>) w; a = fw_at w
        in snd (dbcall (LogDecision (fu_Decisions db)
             (l\<lparr>dl_CycleNumber := at_cycleNumber a, dl_TraderID := at_id a, dl_Timestamp := now_ns X w\<rparr>)) w))"

definition new_log :: decision_log where
  "new_log = \<lparr>dl_TraderID = '''', dl_CycleNumber = 0, dl_Timestamp = 0, dl_CandidateCoins = [], dl_Decisions = [],
     dl_Success = True, dl_Error = None\<rparr>"

definition failed_log :: "cycle_err \<Rightarrow> decision_log \<Rightarrow> decision_log" where
  "failed_log e l = l\<lparr>dl_Success := False, dl_Error := Some e\<rparr>"

section \<open>Executing the decisions\<close>

definition is_panic :: "perr \<Rightarrow> bool" where
  "is_panic e \<longleftrightarrow> (case e of Panic _ \<Rightarrow> True | _ \<Rightarrow> False)"

definition action_of :: "kdecision \<Rightarrow> int \<Rightarrow> decision_action" where
  "action_of d now = \<lparr>da_Action = kd_Action d, da_Symbol = kd_Symbol d, da_Quantity = 0, da_Leverage = kd_Leverage d, da_Price = 0,
     da_StopLoss = kd_StopLoss d, da_TakeProfit = kd_TakeProfit d, da_Confidence = kd_Confidence d,
     da_Reasoning = kd_Reasoning d, da_OrderID = 0, da_Timestamp = now, da_Success = False, da_Error = None\<rparr>"

text \<open>The loop ends early when the trader is stopped; a panic leaves the cycle.\<close>

fun execute_decisions ::
  "'x outside \<Rightarrow> 'd fut_db \<Rightarrow> kdecision list \<Rightarrow> decision_action list \<Rightarrow> ('x, 'd) fworld \<Rightarrow>
     perr option \<times> decision_action list \<times> ('x, 'd) fworld" where
  "execute_decisions X db [] acts w = (None, acts, w)"
| "execute_decisions X db (d # ds) acts w =
     (if \<not> ex_Running X (fw_x w) then (None, acts, w)
      else
        (case executeDecisionWithRecord X db d (action_of d (now_ns X w)) w of
           (Some e, ar, w) \<Rightarrow>
             if is_panic e then (Some e, acts, w)
             else execute_decisions X db ds (acts @ [ar\<lparr>da_Error := Some e\<rparr>]) w
         | (None, ar, w) \<Rightarrow> execute_decisions X db ds (acts @ [ar\<lparr>da_Success := True\<rparr>]) (sleep_ms X 1000 w)))"

section \<open>The cycle\<close>

datatype (plugins only: code size) cycle_end = CycleDone | CycleFailed cycle_err | CyclePanic perr

definition limits_of :: "risk_control option \<Rightarrow> limits" where
  "limits_of s = (case s of None \<Rightarrow> \<lparr>li_Equity = 0, li_MajorLeverage = 0, li_AltLeverage = 0, li_MajorRatio = 0, li_AltRatio = 0\<rparr>
     | Some r \<Rightarrow> \<lparr>li_Equity = 0, li_MajorLeverage = rk_BTCETHMaxLeverage r, li_AltLeverage = rk_AltcoinMaxLeverage r,
         li_MajorRatio = rk_BTCETHMaxPositionValueRatio r, li_AltRatio = rk_AltcoinMaxPositionValueRatio r\<rparr>)"

text \<open>
  The request to the model.  It clamps the configuration of the strategy in place, so the trader's own
  checks use the clamped one from then on.
\<close>

definition ask_ai ::
  "(trade_context \<Rightarrow> 'x \<Rightarrow> ai_env \<times> 'x) \<Rightarrow> trade_context \<Rightarrow> ('x, 'd) fworld \<Rightarrow>
     ((kernel_err option \<times> full_decision option) \<times> kcontext) \<times> ('x, 'd) fworld" where
  "ask_ai ai tc w =
     (let w = upd_at (\<lambda>a. a\<lparr>at_Strategy := map_option clamp_risk (at_Strategy a)\<rparr>) w; (env, w) = outcall (ai tc) w
      in (GetFullDecisionWithStrategy env (limits_of (at_Strategy (fw_at w))) (tc_Context tc), w))"

definition record_charge :: "'d fut_db \<Rightarrow> ('x, 'd) fworld \<Rightarrow> ('x, 'd) fworld" where
  "record_charge db w =
     (if at_store (fw_at w) then
        snd (dbcall (RecordCharge (fu_Charges db) (at_id (fw_at w)) (at_aiModel (fw_at w)) (at_provider (fw_at w))) w)
      else w)"

definition ai_failed :: "auto_trader \<Rightarrow> auto_trader" where
  "ai_failed a = (let n = at_consecutiveAIFailures a + 1 in
     a\<lparr>at_consecutiveAIFailures := n, at_safeMode := (n \<ge> 3 \<or> at_safeMode a)\<rparr>)"

definition ai_recovered :: "auto_trader \<Rightarrow> auto_trader" where
  "ai_recovered a = a\<lparr>at_consecutiveAIFailures := 0, at_safeMode := False\<rparr>"

definition safe_filter :: "auto_trader \<Rightarrow> kdecision list \<Rightarrow> kdecision list" where
  "safe_filter a ds = (if at_safeMode a then filter (\<lambda>d. \<not> is_open (kd_Action d)) ds else ds)"

definition execute_cycle ::
  "'x outside \<Rightarrow> 'd fut_db \<Rightarrow> decision_log \<Rightarrow> kcontext \<Rightarrow> kdecision list \<Rightarrow> ('x, 'd) fworld \<Rightarrow> cycle_end \<times> ('x, 'd) fworld" where
  "execute_cycle X db l cx ds0 w =
     (let ds = filterDecisionsToStrategyUniverse (sortDecisionsByPriority ds0) cx in
      if \<not> ex_Running X (fw_x w) then (CycleDone, w)
      else
        (case execute_decisions X db (safe_filter (fw_at w) ds) [] w of
           (Some e, acts, w) \<Rightarrow> (CyclePanic e, w)
         | (None, acts, w) \<Rightarrow> (CycleDone, saveDecision X db (l\<lparr>dl_Decisions := acts\<rparr>) w)))"

definition decide_cycle ::
  "'x outside \<Rightarrow> 'd fut_db \<Rightarrow> (trade_context \<Rightarrow> 'x \<Rightarrow> ai_env \<times> 'x) \<Rightarrow> trade_context \<Rightarrow> ('x, 'd) fworld \<Rightarrow>
     cycle_end \<times> ('x, 'd) fworld" where
  "decide_cycle X db ai tc w =
     (case ask_ai ai tc w of (((err, fd), cx), w) \<Rightarrow>
        (let w = (if fd = None then w else record_charge db w);
             l = new_log\<lparr>dl_CandidateCoins := kx_CandidateCoins (tc_Context tc)\<rparr>
         in case err of
              Some e \<Rightarrow>
                (let w = saveDecision X db (failed_log (AIErr e) l) (upd_at ai_failed w)
                 in (if at_safeMode (fw_at w) then CycleDone else CycleFailed (AIErr e), w))
            | None \<Rightarrow>
                (case fd of None \<Rightarrow> (CyclePanic (Panic ''nil pointer dereference''), upd_at ai_recovered w)
                 | Some f \<Rightarrow> execute_cycle X db l cx (fd_Decisions f) (upd_at ai_recovered w))))"

definition reset_daily :: "'x outside \<Rightarrow> ('x, 'd) fworld \<Rightarrow> ('x, 'd) fworld" where
  "reset_daily X w =
     (if now_ns X w - at_lastResetTime (fw_at w) > 86400000000000
      then upd_at (\<lambda>a. a\<lparr>at_dailyPnL := 0, at_lastResetTime := now_ns X w\<rparr>) w else w)"

definition runCycle ::
  "'x outside \<Rightarrow> 'd fut_db \<Rightarrow> (trade_context \<Rightarrow> 'x \<Rightarrow> ai_env \<times> 'x) \<Rightarrow> ('x, 'd) fworld \<Rightarrow> cycle_end \<times> ('x, 'd) fworld" where
  "runCycle X db ai w0 =
     (let w = upd_at (\<lambda>a. a\<lparr>at_callCount := at_callCount a + 1\<rparr>) w0 in
      if \<not> ex_Running X (fw_x w) then (CycleDone, w)
      else if now_ns X w < at_stopUntil (fw_at w) then (CycleDone, saveDecision X db (failed_log PausedErr new_log) w)
      else
        (case buildTradingContext X db (reset_daily X w) of
           (Inl e, w) \<Rightarrow>
             if is_panic e then (CyclePanic e, w)
             else (CycleFailed (ContextErr e), saveDecision X db (failed_log (ContextErr e) new_log) w)
         | (Inr tc, w) \<Rightarrow>
             (let w = saveEquitySnapshot X db (kx_Account (tc_Context tc)) w in
              if kx_CandidateCoins (tc_Context tc) = [] then (CycleDone, saveDecision X db new_log w)
              else decide_cycle X db ai tc w)))"

section \<open>For the API\<close>

record account_report =
  ar_total_equity :: f64
  ar_wallet_balance :: f64
  ar_unrealized_profit :: f64
  ar_available_balance :: f64
  ar_total_pnl :: f64
  ar_total_pnl_pct :: f64
  ar_initial_balance :: f64
  ar_daily_pnl :: f64
  ar_position_count :: int
  ar_margin_used :: f64
  ar_margin_used_pct :: f64

text \<open>Margins as they are added up here, where only the three fields that are used must be there.\<close>

fun used_margins :: "govals list \<Rightarrow> f64 list option" where
  "used_margins [] = Some []"
| "used_margins (p # ps) =
     (case (get_f64 p ''markPrice'', get_f64 p ''positionAmt'', get_f64 p ''unRealizedProfit'') of
        (Some m, Some q, Some _) \<Rightarrow>
          map_option ((#) ((if q < 0 then - q else q) * m / of_go_int (leverage_of p))) (used_margins ps)
      | _ \<Rightarrow> None)"

definition GetAccountInfo :: "'x outside \<Rightarrow> ('x, 'd) fworld \<Rightarrow> (perr + account_report) \<times> ('x, 'd) fworld" where
  "GetAccountInfo X w =
     (case outcall (ex_GetBalance X) w of
        (Inl e, w) \<Rightarrow> (Inl (WrapErr ''failed to get balance'' e), w)
      | (Inr b, w) \<Rightarrow>
          (case outcall (ex_GetPositions X) w of
             (Inl e, w) \<Rightarrow> (Inl (WrapErr ''failed to get positions'' e), w)
           | (Inr ps, w) \<Rightarrow>
               (case used_margins ps of None \<Rightarrow> (Inl (Panic ''interface conversion''), w)
                | Some ms \<Rightarrow>
                    (let f = account_fields b; a = fw_at w; margin = fsum ms; pnl = bf_equity f - at_initialBalance a in
                     (Inr \<lparr>ar_total_equity = bf_equity f, ar_wallet_balance = bf_wallet f, ar_unrealized_profit = bf_unrealized f,
                        ar_available_balance = bf_available f, ar_total_pnl = pnl,
                        ar_total_pnl_pct = (if at_initialBalance a > 0 then pnl / at_initialBalance a * Fin 100 else 0),
                        ar_initial_balance = at_initialBalance a, ar_daily_pnl = at_dailyPnL a,
                        ar_position_count = int (length ps), ar_margin_used = margin,
                        ar_margin_used_pct = (if bf_equity f > 0 then margin / bf_equity f * Fin 100 else 0)\<rparr>, w)))))"

record position_report =
  pq_symbol :: gostring
  pq_side :: gostring
  pq_entry_price :: f64
  pq_mark_price :: f64
  pq_quantity :: f64
  pq_leverage :: int
  pq_unrealized_pnl :: f64
  pq_unrealized_pnl_pct :: f64
  pq_liquidation_price :: f64
  pq_margin_used :: f64

definition report_position :: "govals \<Rightarrow> position_report option" where
  "report_position p =
     (case (live_of p, get_f64 p ''unRealizedProfit'', get_f64 p ''liquidationPrice'') of
        (Some lp, Some pnl, Some liq) \<Rightarrow>
          (let m = margin_of lp p in
           Some \<lparr>pq_symbol = lp_symbol lp, pq_side = lp_side lp, pq_entry_price = lp_entry lp, pq_mark_price = lp_mark lp,
             pq_quantity = lp_amount lp, pq_leverage = leverage_of p, pq_unrealized_pnl = pnl,
             pq_unrealized_pnl_pct = calculatePnLPercentage pnl m, pq_liquidation_price = liq, pq_margin_used = m\<rparr>)
      | _ \<Rightarrow> None)"

definition GetPositions :: "'x outside \<Rightarrow> ('x, 'd) fworld \<Rightarrow> (perr + position_report list) \<times> ('x, 'd) fworld" where
  "GetPositions X w =
     (case outcall (ex_GetPositions X) w of
        (Inl e, w) \<Rightarrow> (Inl (WrapErr ''failed to get positions'' e), w)
      | (Inr ps, w) \<Rightarrow>
          (case those (map report_position ps) of None \<Rightarrow> (Inl (Panic ''interface conversion''), w) | Some rs \<Rightarrow> (Inr rs, w)))"

section \<open>What a cycle leaves alone\<close>

text \<open>Trading touches nothing of the trader's own state but the times at which positions were first seen.\<close>

definition settled :: "auto_trader \<Rightarrow> auto_trader" where
  "settled a = a\<lparr>at_positionFirstSeenTime := []\<rparr>"

lemma settled_seen [simp]: "settled (a\<lparr>at_positionFirstSeenTime := m\<rparr>) = settled a"
  by (simp add: settled_def)

lemma recordOrderFill_at [simp]: "fw_at (recordOrderFill X db rid oid sy act price qty fee w) = fw_at w"
  by (simp add: recordOrderFill_def Let_def)

lemma poll_order_at [simp]: "fw_at (snd (poll_order X db rid oid sy act price qty n w)) = fw_at w"
proof (induction n arbitrary: w)
  case (Suc n)
  obtain r w1 where c: "outcall (ex_GetOrderStatus X sy oid) w = (r, w1)" by fastforce
  have "fw_at w1 = fw_at w" using fworld_simps(1) [of "ex_GetOrderStatus X sy oid" w] c by simp
  then show ?case using Suc.IH by (cases r) (simp_all add: c Let_def)
qed simp

lemma dbcall_at: "dbcall f w = (r, w') \<Longrightarrow> fw_at w' = fw_at w \<and> fw_x w' = fw_x w"
  using fworld_simps(5,6) [of f w] by simp

lemma outcall_at: "outcall f w = (r, w') \<Longrightarrow> fw_at w' = fw_at w \<and> fw_d w' = fw_d w"
  using fworld_simps(1,2) [of f w] by simp

lemma recordPositionChange_at [simp]: "fw_at (snd (recordPositionChange X db oid sy side act qty price lev fee w)) = fw_at w"
  by (auto simp: recordPositionChange_def Let_def dest: dbcall_at split: prod.split option.split)

lemma recordAndConfirmOrder_at [simp]: "fw_at (snd (recordAndConfirmOrder X db order sy act qty price lev w)) = fw_at w"
proof -
  have "fw_at w2 = fw_at w1" if "poll_order X db rid oid sy act price qty n w1 = (r, w2)" for rid oid n w1 r w2
    using poll_order_at [of X db rid oid sy act price qty n w1] that by simp
  then show ?thesis
    by (auto simp: recordAndConfirmOrder_def Let_def dest!: dbcall_at split: prod.split poll_result.split)
qed

lemma recordAndConfirmOrder_keeps: "recordAndConfirmOrder X db order sy act qty price lev w = (e, w') \<Longrightarrow> fw_at w' = fw_at w"
  using recordAndConfirmOrder_at [of X db order sy act qty price lev w] by simp

lemma close_lot_at: "close_lot X db long sy w = (r, w') \<Longrightarrow> fw_at w' = fw_at w"
  by (auto simp: close_lot_def Let_def dest: outcall_at split: prod.splits sum.splits if_splits)

lemma open_order_settled: "settled (fw_at (snd (snd (open_order X db long dc price ar w)))) = settled (fw_at w)"
  by (auto simp: open_order_def Let_def dest!: outcall_at recordAndConfirmOrder_keeps split: prod.split sum.split option.split)

lemma execute_open_settled: "settled (fw_at (snd (snd (execute_open X db long dc ar w)))) = settled (fw_at w)"
  by (auto simp: execute_open_def Let_def open_order_settled dest!: outcall_at split: prod.split sum.split option.split)

lemma execute_close_at: "fw_at (snd (snd (execute_close X db long dc ar w))) = fw_at w"
  by (auto simp: execute_close_def Let_def dest!: outcall_at close_lot_at recordAndConfirmOrder_keeps split: prod.split sum.split option.split)

lemma executeDecision_settled: "settled (fw_at (snd (snd (executeDecisionWithRecord X db dc ar w)))) = settled (fw_at w)"
  by (simp add: executeDecisionWithRecord_def executeOpenLongWithRecord_def executeOpenShortWithRecord_def
      executeCloseLongWithRecord_def executeCloseShortWithRecord_def execute_open_settled execute_close_at)

lemma execute_decisions_settled: "settled (fw_at (snd (snd (execute_decisions X db ds acts w)))) = settled (fw_at w)"
proof (induction ds arbitrary: acts w)
  case (Cons d ds)
  obtain e ar w1 where c: "executeDecisionWithRecord X db d (action_of d (now_ns X w)) w = (e, ar, w1)" by (rule prod_cases3)
  have "settled (fw_at w1) = settled (fw_at w)" using executeDecision_settled [of X db d "action_of d (now_ns X w)" w] c by simp
  then show ?case using Cons.IH by (cases e) (simp_all add: c)
qed simp

lemma entry_time_settled: "settled (fw_at (snd (entry_time X db lp p w))) = settled (fw_at w)"
  by (simp add: entry_time_def Let_def)

lemma position_infos_settled: "settled (fw_at (snd (position_infos X db ps w))) = settled (fw_at w)"
proof (induction ps arbitrary: w)
  case (Cons p ps)
  show ?case
  proof (cases "live_of p")
    case (Some lp)
    obtain t w1 where e: "entry_time X db lp p w = (t, w1)" by fastforce
    then have "settled (fw_at w1) = settled (fw_at w)" using entry_time_settled [of X db lp p w] by simp
    moreover obtain r w2 where "position_infos X db ps w1 = (r, w2)" by fastforce
    ultimately show ?thesis
      using Cons.IH [of w] Cons.IH [of w1] by (cases r) (simp_all add: Some e Let_def split: option.split)
  qed simp
qed simp

lemma buildTradingContext_settled: "settled (fw_at (snd (buildTradingContext X db w))) = settled (fw_at w)"
proof -
  have "settled (fw_at w2) = settled (fw_at w1)" if "position_infos X db ps w1 = (r, w2)" for ps w1 r w2
    using position_infos_settled [of X db ps w1] that by simp
  then show ?thesis
    by (auto simp: buildTradingContext_def Let_def forget_closed_def dest!: outcall_at split: prod.split sum.split option.split)
qed

text \<open>The part of the state that pauses the trader and guards its profits.\<close>

definition guards :: "auto_trader \<Rightarrow> int \<times> (gostring, f64) gomap" where
  "guards a = (at_stopUntil a, at_peakPnLCache a)"

lemma settled_guards: "settled a = settled b \<Longrightarrow> guards a = guards b \<and> at_dailyPnL a = at_dailyPnL b"
  by (cases a; cases b) (simp add: settled_def guards_def)

lemma saveDecision_guards [simp]:
  "guards (fw_at (saveDecision X db l w)) = guards (fw_at w)" "at_dailyPnL (fw_at (saveDecision X db l w)) = at_dailyPnL (fw_at w)"
  by (simp_all add: saveDecision_def guards_def Let_def)

lemma saveEquitySnapshot_at [simp]: "fw_at (saveEquitySnapshot X db ac w) = fw_at w"
  by (simp add: saveEquitySnapshot_def)

lemma record_charge_at [simp]: "fw_at (record_charge db w) = fw_at w"
  by (simp add: record_charge_def)

lemma execute_cycle_guards:
  "guards (fw_at (snd (execute_cycle X db l cx ds w))) = guards (fw_at w) \<and>
   at_dailyPnL (fw_at (snd (execute_cycle X db l cx ds w))) = at_dailyPnL (fw_at w)"
proof -
  define ds' where "ds' = safe_filter (fw_at w) (filterDecisionsToStrategyUniverse (sortDecisionsByPriority ds) cx)"
  obtain e acts w1 where r: "execute_decisions X db ds' [] w = (e, acts, w1)" by (rule prod_cases3)
  have "settled (fw_at w1) = settled (fw_at w)" using execute_decisions_settled [of X db ds' "[]" w] r by simp
  then show ?thesis using settled_guards [of "fw_at w1" "fw_at w"]
    by (simp add: execute_cycle_def r ds'_def [symmetric] Let_def split: option.split)
qed

lemma decide_cycle_guards:
  "guards (fw_at (snd (decide_cycle X db ai tc w))) = guards (fw_at w) \<and>
   at_dailyPnL (fw_at (snd (decide_cycle X db ai tc w))) = at_dailyPnL (fw_at w)"
proof -
  obtain err fd cx w1 where q: "ask_ai ai tc w = (((err, fd), cx), w1)" by (metis surj_pair)
  have 1: "guards (fw_at w1) = guards (fw_at w) \<and> at_dailyPnL (fw_at w1) = at_dailyPnL (fw_at w)"
    using q by (auto simp: ask_ai_def Let_def guards_def dest!: outcall_at split: prod.splits)
  have rec: "guards (ai_recovered a) = guards a" "at_dailyPnL (ai_recovered a) = at_dailyPnL a"
    "guards (ai_failed a) = guards a" "at_dailyPnL (ai_failed a) = at_dailyPnL a" for a
    by (simp_all add: ai_recovered_def ai_failed_def guards_def Let_def)
  show ?thesis
    using 1 by (cases err; cases fd) (simp_all add: decide_cycle_def q Let_def rec execute_cycle_guards)
qed

text \<open>
  C21: nothing pauses the trader.  Whatever the exchange and the model answer, a cycle leaves the end of a
  pause as it is, and the peaks of the positions, also of those it closes; and it changes the profit
  of the day at most to zero.
\<close>

theorem cycle_keeps_guards:
  "guards (fw_at (snd (runCycle X db ai w))) = guards (fw_at w) \<and>
   at_dailyPnL (fw_at (snd (runCycle X db ai w))) \<in> {0, at_dailyPnL (fw_at w)}"
proof -
  define w1 where "w1 = upd_at (\<lambda>a. a\<lparr>at_callCount := at_callCount a + 1\<rparr>) w"
  have 1: "guards (fw_at w1) = guards (fw_at w)" "at_dailyPnL (fw_at w1) = at_dailyPnL (fw_at w)" by (simp_all add: w1_def guards_def)
  have 2: "guards (fw_at (reset_daily X w1)) = guards (fw_at w)" "at_dailyPnL (fw_at (reset_daily X w1)) \<in> {0, at_dailyPnL (fw_at w)}"
    using 1 by (simp_all add: reset_daily_def guards_def)
  obtain r w2 where b: "buildTradingContext X db (reset_daily X w1) = (r, w2)" by fastforce
  have "settled (fw_at w2) = settled (fw_at (reset_daily X w1))"
    using buildTradingContext_settled [of X db "reset_daily X w1"] b by simp
  then have 3: "guards (fw_at w2) = guards (fw_at w)" "at_dailyPnL (fw_at w2) \<in> {0, at_dailyPnL (fw_at w)}"
    using settled_guards 2 by metis+
  show ?thesis
  proof (cases "\<not> ex_Running X (fw_x w1) \<or> now_ns X w1 < at_stopUntil (fw_at w1)")
    case True
    then show ?thesis using 1 by (auto simp: runCycle_def Let_def w1_def [symmetric])
  next
    case False
    then show ?thesis
      using 3 by (cases r) (auto simp: runCycle_def Let_def w1_def [symmetric] b decide_cycle_guards)
  qed
qed

section \<open>Safe mode\<close>

text \<open>Two worlds that differ at most in whether the trader is in safe mode.\<close>

definition set_safe :: "bool \<Rightarrow> ('x, 'd) fworld \<Rightarrow> ('x, 'd) fworld" where
  "set_safe b w = upd_at (\<lambda>a. a\<lparr>at_safeMode := b\<rparr>) w"

lemma set_safe_simps [simp]:
  "fw_x (set_safe b w) = fw_x w" "fw_d (set_safe b w) = fw_d w" "fw_at (set_safe b w) = (fw_at w)\<lparr>at_safeMode := b\<rparr>"
  "now_ns X (set_safe b w) = now_ns X w" "now_ms X (set_safe b w) = now_ms X w"
  by (simp_all add: set_safe_def upd_at_def now_ns_def now_ms_def)

lemma outcall_safe: "outcall f (set_safe b w) = apsnd (set_safe b) (outcall f w)"
  by (simp add: outcall_def set_safe_def upd_at_def split: prod.split)

lemma dbcall_safe: "dbcall f (set_safe b w) = apsnd (set_safe b) (dbcall f w)"
  by (simp add: dbcall_def set_safe_def upd_at_def split: prod.split)

lemma upd_at_safe: "(\<And>a. h (a\<lparr>at_safeMode := b\<rparr>) = (h a)\<lparr>at_safeMode := b\<rparr>) \<Longrightarrow> upd_at h (set_safe b w) = set_safe b (upd_at h w)"
  by (simp add: set_safe_def upd_at_def)

lemma entry_time_safe: "entry_time X db lp p (set_safe b w) = apsnd (set_safe b) (entry_time X db lp p w)"
  by (simp add: entry_time_def db_entry_time_def Let_def upd_at_safe)

lemma position_infos_safe: "position_infos X db ps (set_safe b w) = apsnd (set_safe b) (position_infos X db ps w)"
proof (induction ps arbitrary: w)
  case (Cons p ps)
  show ?case
  proof (cases "live_of p")
    case (Some lp)
    obtain t w1 where "entry_time X db lp p w = (t, w1)" by fastforce
    moreover obtain r w2 where "position_infos X db ps w1 = (r, w2)" by fastforce
    ultimately show ?thesis
      using Cons.IH by (cases r) (simp_all add: Some entry_time_safe Let_def split: option.split)
  qed simp
qed simp

lemma buildTradingContext_safe: "buildTradingContext X db (set_safe b w) = apsnd (set_safe b) (buildTradingContext X db w)"
proof -
  obtain r1 w1 where 1: "outcall (ex_GetBalance X) w = (r1, w1)" by fastforce
  obtain r2 w2 where 2: "outcall (ex_GetPositions X) w1 = (r2, w2)" by fastforce
  show ?thesis
  proof (cases r1; cases r2)
    fix e ps assume r: "r1 = Inr e" "r2 = Inr ps"
    obtain r3 w3 where 3: "position_infos X db ps w2 = (r3, w3)" by fastforce
    have f: "upd_at (forget_closed is) (set_safe b w3) = set_safe b (upd_at (forget_closed is) w3)" for "is"
      by (rule upd_at_safe) (simp add: forget_closed_def)
    show ?thesis
    proof (cases r3)
      case (Inr "is")
      obtain r4 w4 where 4: "outcall (ex_Candidates X) (upd_at (forget_closed is) w3) = (r4, w4)" by fastforce
      show ?thesis
        by (cases r4) (simp_all add: buildTradingContext_def outcall_safe position_infos_safe 1 2 3 4 f r Inr Let_def account_info_of_def
            forget_closed_def split: option.split)
    qed (simp add: buildTradingContext_def outcall_safe position_infos_safe 1 2 3 r)
  qed (simp_all add: buildTradingContext_def outcall_safe 1 2)
qed

lemma saveDecision_safe: "saveDecision X db l (set_safe b w) = set_safe b (saveDecision X db l w)"
  by (simp add: saveDecision_def Let_def upd_at_safe dbcall_safe)

lemma saveEquitySnapshot_safe: "saveEquitySnapshot X db ac (set_safe b w) = set_safe b (saveEquitySnapshot X db ac w)"
  by (simp add: saveEquitySnapshot_def dbcall_safe)

lemma record_charge_safe: "record_charge db (set_safe b w) = set_safe b (record_charge db w)"
  by (simp add: record_charge_def dbcall_safe)

lemma ask_ai_safe: "ask_ai ai tc (set_safe b w) = apsnd (set_safe b) (ask_ai ai tc w)"
  by (simp add: ask_ai_def Let_def upd_at_safe outcall_safe split: prod.split)

lemma decide_cycle_safe:
  fixes w :: "('x, 'd) fworld"
  shows "fw_x (snd (decide_cycle X db ai tc (set_safe b w))) = fw_x (snd (decide_cycle X db ai tc w)) \<and>
   fw_d (snd (decide_cycle X db ai tc (set_safe b w))) = fw_d (snd (decide_cycle X db ai tc w))"
proof -
  obtain err fd cx w1 where q: "ask_ai ai tc w = (((err, fd), cx), w1)" by (metis surj_pair)
  have ok: "upd_at ai_recovered (set_safe b v) = upd_at ai_recovered v" for v :: "('x, 'd) fworld"
    by (simp add: upd_at_def set_safe_def ai_recovered_def)
  have bad: "upd_at ai_failed (set_safe b v) = set_safe (at_consecutiveAIFailures (fw_at v) + 1 \<ge> 3 \<or> b) (upd_at ai_failed v)"
    for v :: "('x, 'd) fworld"
    by (simp add: upd_at_def set_safe_def ai_failed_def Let_def)
  show ?thesis
    by (cases err; cases fd) (simp_all add: decide_cycle_def ask_ai_safe q Let_def ok bad record_charge_safe saveDecision_safe)
qed

text \<open>
  C10: safe mode protects nothing.  What a cycle does outside of the trader, at the exchange and in the
  database, does not depend on whether the trader is in safe mode: it is left before any decision
  could be held back.
\<close>

theorem safe_mode_idle:
  "(fw_x (snd (runCycle X db ai (set_safe b w))), fw_d (snd (runCycle X db ai (set_safe b w)))) =
   (fw_x (snd (runCycle X db ai w)), fw_d (snd (runCycle X db ai w)))"
proof -
  define w1 where "w1 = upd_at (\<lambda>a. a\<lparr>at_callCount := at_callCount a + 1\<rparr>) w"
  have w1': "upd_at (\<lambda>a. a\<lparr>at_callCount := at_callCount a + 1\<rparr>) (set_safe b w) = set_safe b w1"
    unfolding w1_def by (rule upd_at_safe) simp
  have rd: "reset_daily X (set_safe b w1) = set_safe b (reset_daily X w1)"
    by (simp add: reset_daily_def upd_at_safe)
  obtain r w2 where c: "buildTradingContext X db (reset_daily X w1) = (r, w2)" by fastforce
  show ?thesis
    by (cases r) (simp_all add: runCycle_def Let_def w1' w1_def [symmetric] rd buildTradingContext_safe c saveDecision_safe
        saveEquitySnapshot_safe decide_cycle_safe)
qed

section \<open>Closing before opening\<close>

lemma in_universe_action: "in_universe cx d = Some d' \<Longrightarrow> d' = d\<lparr>kd_Symbol := kd_Symbol d'\<rparr>"
  by (auto simp: in_universe_def Let_def split: if_splits)

lemma filter_actions:
  "subseq (map kd_Action (filterDecisionsToStrategyUniverse ds cx)) (map kd_Action ds)"
proof (induction ds)
  case (Cons d ds)
  show ?case
  proof (cases "in_universe cx d")
    case None
    then show ?thesis using Cons by (simp add: filterDecisionsToStrategyUniverse_def map_filter_simps list_emb_Cons)
  next
    case (Some d')
    then have "kd_Action d' = kd_Action d" using in_universe_action [OF Some] by (metis kdecision.select_convs(2) kdecision.surjective kdecision.update_convs(1))
    then show ?thesis using Cons Some by (simp add: filterDecisionsToStrategyUniverse_def map_filter_simps)
  qed
qed (simp add: filterDecisionsToStrategyUniverse_def map_filter_simps)

lemma subseq_mset: "subseq xs ys \<Longrightarrow> mset xs \<subseteq># mset ys"
  by (induction rule: list_emb.induct) (auto intro: subset_mset.order_trans)

lemma open_order_action: "da_Action (fst (snd (open_order X db long dc price ar w))) = da_Action ar"
  by (simp add: open_order_def Let_def split: prod.split sum.split option.split)

lemma execute_open_action: "da_Action (fst (snd (execute_open X db long dc ar w))) = da_Action ar"
  by (simp add: execute_open_def Let_def open_order_action split: prod.split sum.split option.split)

lemma execute_close_action: "da_Action (fst (snd (execute_close X db long dc ar w))) = da_Action ar"
  by (simp add: execute_close_def Let_def split: prod.split sum.split option.split)

lemma executed_action: "da_Action (fst (snd (executeDecisionWithRecord X db d ar w))) = da_Action ar"
  by (simp add: executeDecisionWithRecord_def executeOpenLongWithRecord_def executeOpenShortWithRecord_def
      executeCloseLongWithRecord_def executeCloseShortWithRecord_def execute_open_action execute_close_action)

lemma executed_prefix:
  "\<exists>n. map da_Action (fst (snd (execute_decisions X db ds acts w))) = map da_Action acts @ take n (map kd_Action ds)"
proof (induction ds arbitrary: acts w)
  case (Cons d ds)
  obtain e ar w1 where c: "executeDecisionWithRecord X db d (action_of d (now_ns X w)) w = (e, ar, w1)" by (rule prod_cases3)
  then have a: "da_Action ar = kd_Action d" using executed_action [of X db d "action_of d (now_ns X w)" w] by (simp add: action_of_def)
  show ?case
  proof (cases "\<not> ex_Running X (fw_x w) \<or> (\<exists>x. e = Some x \<and> is_panic x)")
    case True
    then have "fst (snd (execute_decisions X db (d # ds) acts w)) = acts"
      by (elim disjE exE conjE) (simp_all add: c)
    then show ?thesis by (intro exI [of _ 0]) (simp del: execute_decisions.simps)
  next
    case False
    then have "\<exists>ar' w2. execute_decisions X db (d # ds) acts w = execute_decisions X db ds (acts @ [ar']) w2 \<and> da_Action ar' = kd_Action d"
    proof (cases e)
      case None
      then show ?thesis using False a
        by (intro exI [of _ "ar\<lparr>da_Success := True\<rparr>"] exI [of _ "sleep_ms X 1000 w1"]) (simp add: c)
    next
      case (Some x)
      then show ?thesis using False a
        by (intro exI [of _ "ar\<lparr>da_Error := Some x\<rparr>"] exI [of _ w1]) (simp add: c)
    qed
    then obtain ar' w2 where n: "execute_decisions X db (d # ds) acts w = execute_decisions X db ds (acts @ [ar']) w2" "da_Action ar' = kd_Action d"
      by blast
    obtain n' where "map da_Action (fst (snd (execute_decisions X db ds (acts @ [ar']) w2))) =
        map da_Action (acts @ [ar']) @ take n' (map kd_Action ds)"
      using Cons.IH by blast
    then show ?thesis unfolding n(1) by (intro exI [of _ "Suc n'"]) (simp add: n(2) del: execute_decisions.simps)
  qed
qed (intro exI [of _ 0], simp)

section \<open>The universe is kept\<close>

lemma char_upper_twice [simp]: "is_space (char_upper c) = is_space c" "char_upper (char_upper c) = char_upper c"
  by (auto simp: is_space_def char_upper_def Let_def)

lemma to_upper_twice [simp]: "to_upper (to_upper s) = to_upper s"
  by (simp add: to_upper_def)

lemma trim_to_upper: "trim_space s = s \<Longrightarrow> trim_space (to_upper s) = to_upper s"
  using trim_space_ends [of s] by (intro trim_space_id) (auto simp: to_upper_def hd_map last_map)

lemma xyz_prefix_lower: "has_prefix s ''XYZ:'' \<Longrightarrow> has_prefix (to_lower s) ''xyz:''"
proof -
  assume "has_prefix s ''XYZ:''"
  then obtain t where t: "s = ''XYZ:'' @ t" by (auto simp: has_prefix_iff)
  have "to_lower ''XYZ:'' = ''xyz:''" by code_simp
  then have "to_lower s = ''xyz:'' @ to_lower t" unfolding t to_lower_def map_append by simp
  then show ?thesis by (simp only: has_prefix_append)
qed

definition unnamed :: "gostring \<Rightarrow> bool" where
  "unnamed s \<longleftrightarrow> s = '''' \<or> s = ''ALL''"

lemma xyz_tables: "\<forall>t \<in> set xyzDexAssets. \<not> unnamed t \<and> \<not> unnamed (NormalizeCoinBase t)"
  "\<forall>c \<in> set (StockPerpsSymbols @ XYZOtherSymbols @ map snd XYZDisplayNameToCoin). \<not> unnamed c"
proof -
  show "\<forall>t \<in> set xyzDexAssets. \<not> unnamed t \<and> \<not> unnamed (NormalizeCoinBase t)" by code_simp
qed (simp add: unnamed_def StockPerpsSymbols_def XYZOtherSymbols_def XYZDisplayNameToCoin_def)

lemma dex_base:
  assumes up: "to_upper s = s" and tr: "trim_space s = s" and dex: "IsXyzDexAsset s"
    and no: "\<not> has_prefix (to_lower s) ''xyz:''" "\<not> has_suffix s ''-USDC''"
  shows "IsXYZAsset (NormalizeCoinBase s) \<or> \<not> unnamed (NormalizeCoinBase s)"
proof -
  have np: "\<not> has_prefix s ''XYZ:''" using no xyz_prefix_lower by blast
  define t where "t = strip_quote [''USDT'', ''USD'', ''-USDC''] s"
  have t: "t \<in> set xyzDexAssets \<or> IsXYZAsset t"
    using dex no np by (simp add: IsXyzDexAsset_def up Let_def trim_prefix_def t_def)
  show ?thesis
  proof (cases "has_suffix s ''USDT'' \<or> has_suffix s ''USD''")
    case True
    then have "NormalizeCoinBase s = t"
      using no np by (auto simp: NormalizeCoinBase_def t_def strip_quote_def up tr Let_def)
    then show ?thesis using t xyz_tables(1) by auto
  next
    case False
    then have s: "t = s" using no by (simp add: t_def strip_quote_def)
    show ?thesis
    proof (cases "s \<in> set xyzDexAssets")
      case True
      then show ?thesis using xyz_tables(1) by blast
    next
      case False
      then have "IsXYZAsset s" using t s by simp
      then have "NormalizeCoinBase s \<in> set (StockPerpsSymbols @ XYZOtherSymbols @ map snd XYZDisplayNameToCoin)"
        using no by (simp add: IsXYZAsset_def up tr Let_def)
      then show ?thesis using xyz_tables(2) by blast
    qed
  qed
qed

lemma Normalize_named:
  assumes "trim_space s = s"
  shows "\<not> unnamed (Normalize s)"
proof -
  let ?s = "to_upper s"
  note tr = trim_to_upper [OF assms]
  show ?thesis
  proof (cases "has_suffix ?s ''-USDC'' \<or> IsXyzDexAsset ?s")
    case True
    then have "(\<exists>b. Normalize s = ''xyz:'' @ b) \<or> \<not> unnamed (Normalize s)"
      using dex_base [of ?s] tr by (auto simp: Normalize_def FormatCoinForAPI_def Let_def)
    then show ?thesis by (auto simp: unnamed_def)
  next
    case False
    then have "has_suffix (Normalize s) ''USDT''" by (simp add: Normalize_def Let_def) (simp add: has_suffix_def)
    then have "4 \<le> length (Normalize s)" by (simp add: has_suffix_def)
    then show ?thesis by (auto simp: unnamed_def)
  qed
qed

text \<open>
  C9: only instruments of the strategy or of open positions are traded.  Whatever decision is kept is one of
  the model's, its symbol at most rewritten, and names the same instrument as a candidate or a position
  does; the exemption for no symbol and for \<open>ALL\<close> is never taken, since normalising adds a quote to both.
\<close>

theorem universe_respected:
  assumes "d \<in> set (filterDecisionsToStrategyUniverse ds cx)"
  shows "(\<exists>d0 \<in> set ds. d = d0\<lparr>kd_Symbol := kd_Symbol d\<rparr>) \<and>
    (\<exists>c \<in> set (universe cx). normalizeUniverseSymbol (kd_Symbol d) = normalizeUniverseSymbol c)"
proof -
  obtain d0 where d0: "d0 \<in> set ds" "in_universe cx d0 = Some d"
    using assms by (auto simp: filterDecisionsToStrategyUniverse_def List.map_filter_def)
  have named: "normalizeUniverseSymbol s \<noteq> '''' \<and> normalizeUniverseSymbol s \<noteq> ''ALL''" for s
    using Normalize_named [of "trim_space s"] by (simp add: normalizeUniverseSymbol_def unnamed_def)
  have empty: "universeBaseKey '''' = ''''" by code_simp
  have "\<exists>c \<in> set (universe cx). normalizeUniverseSymbol (kd_Symbol d) = normalizeUniverseSymbol c"
  proof (cases "\<exists>c \<in> set (universe cx). normalizeUniverseSymbol c = normalizeUniverseSymbol (kd_Symbol d0)")
    case True
    then have "d = d0" using d0(2) named by (simp add: in_universe_def Let_def)
    then show ?thesis using True by metis
  next
    case False
    then have k: "universeBaseKey (kd_Symbol d0) \<noteq> ''''" "\<exists>c \<in> set (universe cx). universeBaseKey c = universeBaseKey (kd_Symbol d0)"
      and d: "d = (let c = canonicalUniverseSymbolForBase cx (universeBaseKey (kd_Symbol d0)) in if c \<noteq> '''' then d0\<lparr>kd_Symbol := c\<rparr> else d0)"
      using d0(2) named by (auto simp: in_universe_def Let_def split: if_splits)
    obtain c where f: "find (\<lambda>s. universeBaseKey s = universeBaseKey (kd_Symbol d0)) (universe cx) = Some c"
      using k(2) by (cases "find (\<lambda>s. universeBaseKey s = universeBaseKey (kd_Symbol d0)) (universe cx)") (auto simp: find_None_iff)
    then have "c \<in> set (universe cx)" "universeBaseKey c = universeBaseKey (kd_Symbol d0)"
      by (auto simp: find_Some_iff dest: nth_mem)
    moreover have "c \<noteq> ''''" using calculation(2) k(1) empty by auto
    ultimately show ?thesis using d f by (auto simp: canonicalUniverseSymbolForBase_def)
  qed
  then show ?thesis using d0 in_universe_action by blast
qed

definition qnt_context :: kcontext where
  "qnt_context = \<lparr>kx_Account = \<lparr>ac_TotalEquity = 0, ac_AvailableBalance = 0, ac_UnrealizedPnL = 0, ac_TotalPnL = 0, ac_TotalPnLPct = 0,
     ac_MarginUsed = 0, ac_MarginUsedPct = 0, ac_PositionCount = 0\<rparr>, kx_Positions = [], kx_CandidateCoins = [''xyz:QNT''], kx_MarketData = []\<rparr>"

theorem universe_respected_witness:
  "\<exists>d. filterDecisionsToStrategyUniverse [zero_decision\<lparr>kd_Symbol := ''QNTUSDC''\<rparr>, zero_decision\<lparr>kd_Symbol := ''ALL''\<rparr>] qnt_context = [d] \<and>
     normalizeUniverseSymbol (kd_Symbol d) = normalizeUniverseSymbol ''xyz:QNT''"
proof -
  let ?q = "zero_decision\<lparr>kd_Symbol := ''QNTUSDC''\<rparr>" and ?a = "zero_decision\<lparr>kd_Symbol := ''ALL''\<rparr>"
  have s: "normalizeUniverseSymbol ''QNTUSDC'' = ''QNTUSDCUSDT''" "normalizeUniverseSymbol ''xyz:QNT'' = ''xyz:QNT''"
    "universeBaseKey ''QNTUSDC'' = ''QNT''" "universeBaseKey ''xyz:QNT'' = ''QNT''"
    "normalizeUniverseSymbol ''ALL'' = ''ALLUSDT''" "universeBaseKey ''ALL'' = ''ALL''"
    by code_simp+
  have "in_universe qnt_context ?q = Some (?q\<lparr>kd_Symbol := ''xyz:QNT''\<rparr>)" "in_universe qnt_context ?a = None"
    by (simp_all add: in_universe_def Let_def s universe_def qnt_context_def canonicalUniverseSymbolForBase_def)
  then have f: "filterDecisionsToStrategyUniverse [?q, ?a] qnt_context = [?q\<lparr>kd_Symbol := ''xyz:QNT''\<rparr>]"
    by (simp add: filterDecisionsToStrategyUniverse_def map_filter_simps)
  from universe_respected [of "?q\<lparr>kd_Symbol := ''xyz:QNT''\<rparr>" "[?q, ?a]" qnt_context] f
  show ?thesis by (simp add: universe_def qnt_context_def)
qed

section \<open>Orders that are not filled\<close>

lemma poll_unfilled:
  assumes "\<And>x. \<exists>st x'. ex_GetOrderStatus X sy oid x = (Inr st, x') \<and> get_str st ''status'' = Some ''NEW''"
  shows "\<exists>x. poll_order X db rid oid sy act price qty n w = (PollDone price qty 0, w\<lparr>fw_x := x\<rparr>)"
proof (induction n arbitrary: w)
  case 0
  show ?case by (rule exI [of _ "fw_x w"]) simp
next
  case (Suc n)
  obtain st x' where s: "ex_GetOrderStatus X sy oid (fw_x w) = (Inr st, x')" "get_str st ''status'' = Some ''NEW''" using assms by blast
  obtain x where "poll_order X db rid oid sy act price qty n (sleep_ms X 500 (w\<lparr>fw_x := x'\<rparr>)) =
      (PollDone price qty 0, (sleep_ms X 500 (w\<lparr>fw_x := x'\<rparr>))\<lparr>fw_x := x\<rparr>)" using Suc.IH by blast
  then show ?case by (intro exI [of _ x]) (simp add: outcall_def s sleep_ms_def)
qed

section \<open>Two rows for one position\<close>

definition open_twice :: "(unit, list_fut) fworld" where
  "open_twice = snd (recordPositionChange idle_outside list_fut_db ''18'' ''SOLUSDT'' ''LONG'' ''open_long'' (Fin 2) (Fin 64) 4 0
     (snd (recordPositionChange idle_outside list_fut_db ''17'' ''SOLUSDT'' ''LONG'' ''open_long'' (Fin 2) (Fin 64) 4 0 plain_world)))"

text \<open>
  recording an opening order does not look for an open row.  Trades keep one open row per position, but two
  recorded openings of the same position leave two.
\<close>

theorem opening_doubles_row:
  "one_open (lf_positions (fw_d plain_world)) \<and> \<not> one_open (lf_positions (fw_d open_twice))"
proof -
  have "map (\<lambda>p. (po_TraderID p, po_Symbol p, po_Side p, po_Status p)) (lf_positions (fw_d open_twice)) =
      [(''trader-1'', ''SOLUSDT'', ''LONG'', ''OPEN''), (''trader-1'', ''SOLUSDT'', ''LONG'', ''OPEN'')]"
    by (simp add: open_twice_def recordPositionChange_def plain_world_def plain_trader_def Let_def is_open_def dbcall_def CreatePosition_def
        list_fut_db_def list_table_def log_id_def zero_position_def fix_entry_def empty_fut_def)
  then obtain a b where "lf_positions (fw_d open_twice) = [a, b]"
      "(po_TraderID a, po_Symbol a, po_Side a, po_Status a) = (''trader-1'', ''SOLUSDT'', ''LONG'', ''OPEN'')"
      "(po_TraderID b, po_Symbol b, po_Side b, po_Status b) = (''trader-1'', ''SOLUSDT'', ''LONG'', ''OPEN'')"
    by (auto simp: map_eq_Cons_conv)
  then show ?thesis by (simp add: one_open_def plain_world_def empty_fut_def open_keys_def pos_key_def)
qed

end
