(* ===== verification/Cycle_Correct.thy ===== *)
theory Cycle_Correct
  imports Fut_Loop
begin

text \<open>
  What a cycle of the futures trader leaves in its database: the record of the actions it executed, in the
  order of their execution, and a row for an order that was never filled.
\<close>

section \<open>What is relied on of the database\<close>

text \<open>
  Writing to a table leaves the rows of another alone; creating a row adds it, and the database fills in at
  most its key.
\<close>

definition table_keeps :: "('d \<Rightarrow> 'a) \<Rightarrow> ('d, 'r) table \<Rightarrow> bool" where
  "table_keeps rows T \<longleftrightarrow> (\<forall>d r. rows (snd (tb_Create T d r)) = rows d) \<and> (\<forall>d r. rows (snd (tb_Save T d r)) = rows d) \<and>
     (\<forall>d p u. rows (snd (tb_Update T d p u)) = rows d) \<and> (\<forall>d p. rows (snd (tb_Delete T d p)) = rows d)"

definition log_laws :: "'d fut_db \<Rightarrow> ('d \<Rightarrow> decision_log list) \<Rightarrow> bool" where
  "log_laws db logs \<longleftrightarrow> create_law (fu_Decisions db) logs (\<lambda>_ r. r) \<and> table_keeps logs (px_Rows (fu_Positions db)) \<and>
     table_keeps logs (or_Orders (fu_Orders db)) \<and> table_keeps logs (or_Fills (fu_Orders db)) \<and>
     table_keeps logs (fu_Equity db) \<and> table_keeps logs (fu_Charges db)"

lemma table_keepsD [simp]:
  "table_keeps rows T \<Longrightarrow> rows (snd (tb_Create T d r)) = rows d"
  "table_keeps rows T \<Longrightarrow> rows (snd (tb_Update T d p u)) = rows d"
  by (simp_all add: table_keeps_def)

lemma table_keeps_create: "table_keeps rows T \<Longrightarrow> tb_Create T d r = (e, d') \<Longrightarrow> rows d' = rows d"
  by (metis snd_conv table_keepsD(1))

lemma list_table_keeps: "(\<And>xs d. rows (put xs d) = rows d) \<Longrightarrow> table_keeps rows (list_table get put time key fill)"
  by (simp add: table_keeps_def list_table_def)

lemma list_log_laws: "log_laws list_fut_db lf_decisions"
  by (simp add: log_laws_def list_fut_db_def list_table_keeps list_table_laws)

section \<open>Writing positions and orders\<close>

lemma position_ops_keep:
  assumes "table_keeps rows (px_Rows db)"
  shows "rows (snd (CreatePosition db p d)) = rows d" "rows (snd (update_position db i u d)) = rows d"
    "rows (snd (UpdatePositionQuantityAndPrice db now i q pr fee d)) = rows d"
    "rows (snd (ReducePositionQuantity db now i q pr fee pnl d)) = rows d"
    "rows (snd (UpdatePositionExchangeInfo db now i ex ty d)) = rows d"
    "rows (snd (ClosePositionFully db now i pr oid ms pnl fee why d)) = rows d"
  using assms
  by (auto simp: CreatePosition_def update_position_def UpdatePositionQuantityAndPrice_def ReducePositionQuantity_def
      UpdatePositionExchangeInfo_def ClosePositionFully_def with_position_def Let_def split: sum.split option.split)

lemma insert_open_keeps: "table_keeps rows (px_Rows db) \<Longrightarrow> rows (snd (insert_open db now p d)) = rows d"
  by (auto simp: insert_open_def Let_def position_ops_keep dest: table_keeps_create split: prod.split option.split sum.split)

lemma ProcessTrade_keeps:
  assumes "table_keeps rows (px_Rows db)"
  shows "rows (snd (ProcessTrade db now t d)) = rows d"
proof -
  have "rows (snd (CreateOpenPosition db now p d)) = rows d" for p
    using assms by (simp add: CreateOpenPosition_def insert_open_keeps position_ops_keep split: sum.split option.split bool.split)
  then have "rows (snd (handleOpen db now t d)) = rows d"
    using assms by (simp add: handleOpen_def Let_def position_ops_keep split: sum.split option.split)
  moreover have "rows (snd (handleClose db now t d)) = rows d"
    using assms by (simp add: handleClose_def Let_def position_ops_keep split: sum.split option.split)
  ultimately show ?thesis by (simp add: ProcessTrade_def)
qed

lemma order_ops_keep:
  assumes "table_keeps rows (or_Orders db)"
  shows "rows (snd (snd (CreateOrder db r d))) = rows d" "rows (snd (UpdateOrderStatus db now i st q p fee d)) = rows d"
  using assms by (auto simp: CreateOrder_def UpdateOrderStatus_def dest: table_keeps_create split: sum.split option.split prod.split)

lemma CreateFill_keeps: "table_keeps rows (or_Fills db) \<Longrightarrow> rows (snd (CreateFill db r d)) = rows d"
  by (simp add: CreateFill_def split: sum.split option.split)

section \<open>What executing decisions keeps\<close>

text \<open>A part of the database that neither positions nor orders nor fills touch.\<close>

definition trades_keep :: "'d fut_db \<Rightarrow> ('d \<Rightarrow> 'a) \<Rightarrow> bool" where
  "trades_keep db rows \<longleftrightarrow> table_keeps rows (px_Rows (fu_Positions db)) \<and> table_keeps rows (or_Orders (fu_Orders db)) \<and>
     table_keeps rows (or_Fills (fu_Orders db))"

lemma poll_order_keeps:
  assumes "trades_keep db rows"
  shows "rows (fw_d (snd (poll_order X db rid oid sy act price qty n w))) = rows (fw_d w)"
proof (induction n arbitrary: w)
  case (Suc n)
  obtain r w1 where c: "outcall (ex_GetOrderStatus X sy oid) w = (r, w1)" by fastforce
  have "fw_d w1 = fw_d w" using fworld_simps(2) [of "ex_GetOrderStatus X sy oid" w] c by simp
  then show ?case using Suc.IH assms
    by (cases r) (simp_all add: c Let_def recordOrderFill_def trades_keep_def order_ops_keep CreateFill_keeps)
qed simp

lemma dbcall_rows: "dbcall f w = (r, w') \<Longrightarrow> (\<And>d. rows (snd (f d)) = rows d) \<Longrightarrow> rows (fw_d w') = rows (fw_d w)"
  using fworld_simps(7) [of f w] by simp

lemma recordPositionChange_keeps:
  assumes "trades_keep db rows"
  shows "rows (fw_d (snd (recordPositionChange X db oid sy side act qty price lev fee w))) = rows (fw_d w)"
proof -
  have p: "table_keeps rows (px_Rows (fu_Positions db))" using assms by (simp add: trades_keep_def)
  note keep = dbcall_rows [where rows = rows, OF _ position_ops_keep(1) [OF p]] dbcall_rows [where rows = rows, OF _ ProcessTrade_keeps [OF p]]
  show ?thesis by (auto simp: recordPositionChange_def Let_def dest: keep split: prod.split option.split)
qed

lemma recordAndConfirmOrder_keeps_rows:
  assumes "trades_keep db rows"
  shows "rows (fw_d (snd (recordAndConfirmOrder X db order sy act qty price lev w))) = rows (fw_d w)"
proof -
  let ?oid = "show_order_id (gget order ''orderId'')"
  let ?r = "createOrderRecord (fw_at w) (now_ms X w) ?oid sy act qty price lev"
  obtain e r d where c: "CreateOrder (fu_Orders db) ?r (fw_d w) = (e, r, d)" by (rule prod_cases3)
  then have d: "rows d = rows (fw_d w)" using order_ops_keep(1) [of rows "fu_Orders db" ?r "fw_d w"] assms by (simp add: trades_keep_def)
  obtain q w1 where p: "poll_order X db (to_ID r) ?oid sy act price qty 5 (sleep_ms X 500 (w\<lparr>fw_d := d\<rparr>)) = (q, w1)" by (rule prod.exhaust)
  then have "rows (fw_d w1) = rows (fw_d w)"
    using poll_order_keeps [OF assms, of X "to_ID r" ?oid sy act price qty 5 "sleep_ms X 500 (w\<lparr>fw_d := d\<rparr>)"] d by simp
  then show ?thesis
    by (cases q) (simp_all add: recordPositionChange_keeps [OF assms] recordAndConfirmOrder_def dbcall_def c p Let_def)
qed

lemma record_result_keeps:
  "trades_keep db rows \<Longrightarrow> recordAndConfirmOrder X db order sy act qty price lev w = (e, w') \<Longrightarrow> rows (fw_d w') = rows (fw_d w)"
  by (metis recordAndConfirmOrder_keeps_rows snd_conv)

lemma close_lot_d: "close_lot X db long sy w = (r, w') \<Longrightarrow> fw_d w' = fw_d w"
  by (auto simp: close_lot_def Let_def dest: outcall_at split: prod.splits sum.splits if_splits)

lemma open_order_keeps:
  assumes "trades_keep db rows"
  shows "rows (fw_d (snd (snd (open_order X db long dc price ar w)))) = rows (fw_d w)"
  by (auto simp: open_order_def Let_def dest!: outcall_at record_result_keeps [OF assms] split: prod.split sum.split option.split)

lemma executeDecision_keeps:
  assumes "trades_keep db rows"
  shows "rows (fw_d (snd (snd (executeDecisionWithRecord X db dc ar w)))) = rows (fw_d w)"
proof -
  have "rows (fw_d (snd (snd (execute_open X db long dc ar w)))) = rows (fw_d w)" for long
    by (auto simp: execute_open_def Let_def open_order_keeps [OF assms] dest!: outcall_at split: prod.split sum.split option.split)
  moreover have "rows (fw_d (snd (snd (execute_close X db long dc ar w)))) = rows (fw_d w)" for long
    by (auto simp: execute_close_def Let_def dest!: outcall_at close_lot_d record_result_keeps [OF assms] split: prod.split sum.split option.split)
  ultimately show ?thesis
    by (simp add: executeDecisionWithRecord_def executeOpenLongWithRecord_def executeOpenShortWithRecord_def
        executeCloseLongWithRecord_def executeCloseShortWithRecord_def)
qed

lemma execute_decisions_keep:
  assumes "trades_keep db rows"
  shows "rows (fw_d (snd (snd (execute_decisions X db ds acts w)))) = rows (fw_d w)"
proof (induction ds arbitrary: acts w)
  case (Cons d ds)
  obtain e ar w1 where c: "executeDecisionWithRecord X db d (action_of d (now_ns X w)) w = (e, ar, w1)" by (rule prod_cases3)
  have "rows (fw_d w1) = rows (fw_d w)" using executeDecision_keeps [OF assms, of X d "action_of d (now_ns X w)" w] c by simp
  then show ?case using Cons.IH by (cases e) (simp_all add: c)
qed simp

section \<open>What building the context keeps\<close>

lemma entry_time_d: "entry_time X db lp p w = (t, w') \<Longrightarrow> fw_d w' = fw_d w"
  by (auto simp: entry_time_def Let_def split: if_split_asm)

lemma position_infos_d: "position_infos X db ps w = (r, w') \<Longrightarrow> fw_d w' = fw_d w"
proof (induction ps arbitrary: w r w')
  case (Cons p ps)
  then show ?case
    by (auto simp: Let_def dest!: entry_time_d split: option.split_asm if_split_asm prod.split_asm sum.split_asm)
qed simp

lemma buildTradingContext_d: "buildTradingContext X db w = (r, w') \<Longrightarrow> fw_d w' = fw_d w"
  by (auto simp: buildTradingContext_def Let_def dest!: outcall_at position_infos_d split: prod.split_asm sum.split_asm option.split_asm)

lemma other_writes_keep:
  assumes "log_laws db logs"
  shows "logs (fw_d (saveEquitySnapshot X db ac w)) = logs (fw_d w)" "logs (fw_d (record_charge db w)) = logs (fw_d w)"
  using assms by (simp_all add: log_laws_def saveEquitySnapshot_def record_charge_def SaveEquity_def RecordCharge_def wrap_def)

section \<open>What a cycle records\<close>

text \<open>One record is written at most; a write that fails adds none.\<close>

lemma saveDecision_logs:
  assumes "log_laws db logs"
  shows "mset (logs (fw_d (saveDecision X db l w))) = mset (logs (fw_d w)) \<or>
    (\<exists>l'. mset (logs (fw_d (saveDecision X db l w))) = add_mset l' (mset (logs (fw_d w))) \<and> dl_Decisions l' = dl_Decisions l)"
proof -
  have "mset (logs (snd (LogDecision (fu_Decisions db) r d))) \<in> {mset (logs d), add_mset r (mset (logs d))}" for r d
    using assms by (cases "tb_Create (fu_Decisions db) d r") (auto simp: log_laws_def create_law_def LogDecision_def wrap_def)
  then show ?thesis
    by (cases "at_store (fw_at w)") (fastforce simp: saveDecision_def Let_def)+
qed

text \<open>Closing actions come first, then opening ones, then the others.\<close>

definition in_order :: "gostring list \<Rightarrow> bool" where
  "in_order acts \<longleftrightarrow> sorted_wrt (\<lambda>a b. (b \<in> {''close_long'', ''close_short''} \<longrightarrow> a \<in> {''close_long'', ''close_short''}) \<and>
     (b \<in> {''open_long'', ''open_short''} \<longrightarrow> a \<in> {''close_long'', ''close_short'', ''open_long'', ''open_short''})) acts"

lemma priority_in_order: "sorted (map getActionPriority acts) \<Longrightarrow> in_order acts"
  unfolding in_order_def sorted_map by (erule sorted_wrt_mono_rel [rotated]) (auto simp: getActionPriority_def split: if_splits)

lemma safe_filter_actions: "subseq (map kd_Action (safe_filter a ds)) (map kd_Action ds)"
  by (simp add: safe_filter_def subseq_map)

lemma executed_in_order:
  assumes "execute_decisions X db (safe_filter a (filterDecisionsToStrategyUniverse (sortDecisionsByPriority ds) cx)) [] w = (e, acts, w')"
  shows "in_order (map da_Action acts) \<and> mset (map da_Action acts) \<subseteq># mset (map kd_Action ds)"
proof -
  let ?s = "sortDecisionsByPriority ds"
  let ?f = "safe_filter a (filterDecisionsToStrategyUniverse ?s cx)"
  obtain n where n: "map da_Action acts = take n (map kd_Action ?f)"
    using executed_prefix [of X db ?f "[]" w] assms by auto
  have "subseq (take n (map kd_Action ?f)) (map kd_Action ?f)" using take_is_prefix by (rule prefix_imp_subseq)
  then have sub: "subseq (take n (map kd_Action ?f)) (map kd_Action ?s)"
    using safe_filter_actions filter_actions by (meson subseq_order.trans)
  have srt: "sorted (map getActionPriority (map kd_Action ?s))" "mset ?s = mset ds"
    using exchange_sort_correct [of kd_priority ds] by (simp_all add: sortDecisionsByPriority_def comp_def)
  have "sorted (map getActionPriority (take n (map kd_Action ?f)))"
    using subseq_map [OF sub, of getActionPriority] srt(1) unfolding subseq_conv_nths by (metis sorted_nths map_map)
  moreover have "mset (take n (map kd_Action ?f)) \<subseteq># mset (map kd_Action ds)"
    using subseq_mset [OF sub] srt(2) by (metis mset_map)
  ultimately show ?thesis unfolding n by (blast intro: priority_in_order)
qed

text \<open>The actions of a record are some of those an answer of the model decided on, in order.\<close>

definition model_actions :: "(trade_context \<Rightarrow> 'x \<Rightarrow> ai_env \<times> 'x) \<Rightarrow> decision_log \<Rightarrow> bool" where
  "model_actions ai l \<longleftrightarrow> in_order (map da_Action (dl_Decisions l)) \<and>
     (dl_Decisions l = [] \<or>
      (\<exists>tc x li f cx. GetFullDecisionWithStrategy (fst (ai tc x)) li (tc_Context tc) = ((None, Some f), cx) \<and>
         mset (map da_Action (dl_Decisions l)) \<subseteq># mset (map kd_Action (fd_Decisions f))))"

definition recorded :: "('d \<Rightarrow> decision_log list) \<Rightarrow> (decision_log \<Rightarrow> bool) \<Rightarrow> 'd \<Rightarrow> 'd \<Rightarrow> bool" where
  "recorded logs p d d' \<longleftrightarrow> mset (logs d') = mset (logs d) \<or> (\<exists>l. mset (logs d') = add_mset l (mset (logs d)) \<and> p l)"

lemma saveDecision_recorded:
  assumes "log_laws db logs" "\<And>l'. dl_Decisions l' = dl_Decisions l \<Longrightarrow> p l'" "logs (fw_d w) = logs d"
  shows "recorded logs p d (fw_d (saveDecision X db l w))"
  using saveDecision_logs [OF assms(1), of X l w] assms(2,3) unfolding recorded_def by metis

lemma empty_actions: "dl_Decisions l = [] \<Longrightarrow> model_actions ai l"
  by (simp add: model_actions_def in_order_def)

lemma log_fields [simp]: "dl_Decisions new_log = []" "dl_Decisions (failed_log e l) = dl_Decisions l"
  by (simp_all add: new_log_def failed_log_def)

lemma execute_cycle_recorded:
  assumes laws: "log_laws db logs"
    and ai: "GetFullDecisionWithStrategy (fst (ai tc x)) li (tc_Context tc) = ((None, Some f), cx)"
  shows "recorded logs (model_actions ai) (fw_d w) (fw_d (snd (execute_cycle X db l cx (fd_Decisions f) w)))"
proof -
  let ?ds = "safe_filter (fw_at w) (filterDecisionsToStrategyUniverse (sortDecisionsByPriority (fd_Decisions f)) cx)"
  obtain e acts w1 where x: "execute_decisions X db ?ds [] w = (e, acts, w1)" by (rule prod_cases3)
  have "trades_keep db logs" using laws by (simp add: log_laws_def trades_keep_def)
  from execute_decisions_keep [OF this, of X ?ds "[]" w] have kept: "logs (fw_d w1) = logs (fw_d w)" by (simp add: x)
  have p: "model_actions ai l'" if "dl_Decisions l' = acts" for l'
    using executed_in_order [OF x] ai that unfolding model_actions_def by blast
  have "recorded logs (model_actions ai) (fw_d w) (fw_d (saveDecision X db (l\<lparr>dl_Decisions := acts\<rparr>) w1))"
    by (rule saveDecision_recorded [OF laws _ kept]) (simp add: p)
  then show ?thesis using kept by (cases e) (simp_all add: execute_cycle_def x Let_def recorded_def)
qed

lemma decide_cycle_recorded:
  assumes laws: "log_laws db logs"
  shows "recorded logs (model_actions ai) (fw_d w) (fw_d (snd (decide_cycle X db ai tc w)))"
proof -
  let ?w1 = "upd_at (\<lambda>a. a\<lparr>at_Strategy := map_option clamp_risk (at_Strategy a)\<rparr>) w"
  obtain env x' where a: "ai tc (fw_x w) = (env, x')" by (rule prod.exhaust)
  define w2 where "w2 = ?w1\<lparr>fw_x := x'\<rparr>"
  obtain err fd cx where g: "GetFullDecisionWithStrategy env (limits_of (at_Strategy (fw_at w2))) (tc_Context tc) = ((err, fd), cx)"
    by (metis surj_pair)
  have q: "ask_ai ai tc w = (((err, fd), cx), w2)" using a g by (simp add: ask_ai_def outcall_def w2_def Let_def)
  have d: "fw_d w2 = fw_d w" by (simp add: w2_def)
  define w3 where "w3 = (if fd = None then w2 else record_charge db w2)"
  have k: "logs (fw_d w3) = logs (fw_d w)" by (simp add: w3_def other_writes_keep(2) [OF laws] d)
  show ?thesis
  proof (cases err)
    case (Some e)
    let ?l = "failed_log (AIErr e) (new_log\<lparr>dl_CandidateCoins := kx_CandidateCoins (tc_Context tc)\<rparr>)"
    have "recorded logs (model_actions ai) (fw_d w) (fw_d (saveDecision X db ?l (upd_at ai_failed w3)))"
      by (rule saveDecision_recorded [OF laws]) (simp_all add: empty_actions k)
    then show ?thesis by (simp add: decide_cycle_def q Some w3_def [symmetric] Let_def)
  next
    case None
    show ?thesis
    proof (cases fd)
      case None
      then show ?thesis using \<open>err = None\<close> d by (simp add: decide_cycle_def q recorded_def Let_def)
    next
      case (Some f)
      have "GetFullDecisionWithStrategy (fst (ai tc (fw_x w))) (limits_of (at_Strategy (fw_at w2))) (tc_Context tc) = ((None, Some f), cx)"
        using g a Some \<open>err = None\<close> by simp
      from execute_cycle_recorded [where ai = ai and tc = tc and x = "fw_x w", OF laws this, of "upd_at ai_recovered w3" X
          "new_log\<lparr>dl_CandidateCoins := kx_CandidateCoins (tc_Context tc)\<rparr>"]
      show ?thesis using \<open>err = None\<close> Some k
        by (simp add: decide_cycle_def q w3_def Let_def recorded_def)
    qed
  qed
qed

text \<open>
  C20: a cycle closes before it opens.  A cycle of the trader, whatever the exchange and the model answer, adds at most
  one record to the log of decisions.  The actions in it are, in the order they were executed in, some of
  those the model decided on, first the closing ones, then the opening ones, then the others.
\<close>

theorem closes_before_opens:
  assumes laws: "log_laws db logs"
  shows "mset (logs (fw_d (snd (runCycle X db ai w)))) = mset (logs (fw_d w)) \<or>
    (\<exists>l. mset (logs (fw_d (snd (runCycle X db ai w)))) = add_mset l (mset (logs (fw_d w))) \<and>
       in_order (map da_Action (dl_Decisions l)) \<and>
       (dl_Decisions l = [] \<or>
        (\<exists>tc x li f cx. GetFullDecisionWithStrategy (fst (ai tc x)) li (tc_Context tc) = ((None, Some f), cx) \<and>
           mset (map da_Action (dl_Decisions l)) \<subseteq># mset (map kd_Action (fd_Decisions f)))))"
proof -
  define w1 where "w1 = upd_at (\<lambda>a. a\<lparr>at_callCount := at_callCount a + 1\<rparr>) w"
  have d: "fw_d w1 = fw_d w" "fw_d (reset_daily X w1) = fw_d w" by (simp_all add: w1_def reset_daily_def)
  have none: "recorded logs (model_actions ai) (fw_d w) (fw_d (saveDecision X db l w2))"
    if "dl_Decisions l = []" "logs (fw_d w2) = logs (fw_d w)" for l w2
    by (rule saveDecision_recorded [OF laws _ that(2)]) (simp add: that(1) empty_actions)
  obtain r w2 where b: "buildTradingContext X db (reset_daily X w1) = (r, w2)" by (rule prod.exhaust)
  have d2: "fw_d w2 = fw_d w" using buildTradingContext_d [OF b] d by simp
  have "recorded logs (model_actions ai) (fw_d w) (fw_d (snd (runCycle X db ai w)))"
  proof (cases "\<not> ex_Running X (fw_x w1) \<or> now_ns X w1 < at_stopUntil (fw_at w1)")
    case True
    then show ?thesis using d none by (auto simp: runCycle_def Let_def w1_def [symmetric] recorded_def)
  next
    case False
    show ?thesis
    proof (cases r)
      case (Inl e)
      then show ?thesis using False d2 none by (auto simp: runCycle_def Let_def w1_def [symmetric] b recorded_def)
    next
      case (Inr tc)
      let ?w3 = "saveEquitySnapshot X db (kx_Account (tc_Context tc)) w2"
      have k: "logs (fw_d ?w3) = logs (fw_d w)" by (simp add: other_writes_keep(1) [OF laws] d2)
      have "recorded logs (model_actions ai) (fw_d w) (fw_d (snd (decide_cycle X db ai tc ?w3)))"
        using decide_cycle_recorded [OF laws, of ai ?w3 X tc] k by (simp add: recorded_def)
      then show ?thesis using False Inr none [OF _ k] by (simp add: runCycle_def Let_def w1_def [symmetric] b)
    qed
  qed
  then show ?thesis unfolding recorded_def model_actions_def .
qed


text \<open>A model that waits and closes, in this order, for an exchange that closes what it is asked to.\<close>

definition wait_then_close :: "kdecision list" where
  "wait_then_close = [zero_decision\<lparr>kd_Symbol := ''SOLUSDT'', kd_Action := ''wait''\<rparr>,
     zero_decision\<lparr>kd_Symbol := ''SOLUSDT'', kd_Action := ''close_long''\<rparr>]"

definition closing_ai :: "trade_context \<Rightarrow> unit \<Rightarrow> ai_env \<times> unit" where
  "closing_ai tc x = (\<lparr>ai_Estimate = 0, ai_ContextLimit = 1, ai_GetData = (\<lambda>_. Inl not_found), ai_Call = (\<lambda>_. Inr ''[{}]''),
     ai_JSON = (\<lambda>_. Inr wait_then_close)\<rparr>, x)"

lemma closing_answer:
  assumes "kx_MarketData cx = []"
  shows "GetFullDecisionWithStrategy (fst (closing_ai tc x)) L cx = ((None, Some \<lparr>fd_CoTTrace = extractCoTTrace ''[{}]'', fd_Decisions = wait_then_close\<rparr>), cx)"
proof -
  have "ascii ''[{}]''" by code_simp
  note as = this [THEN fixMissingQuotes_ascii] this [THEN removeInvisibleRunes_ascii]
  have tr: "trim_space ''[{}]'' = ''[{}]''" "compactArrayOpen ''[{}]'' = ''[{}]''" "reDecisionTag ''[{}]'' = None" by code_simp+
  then have jp: "json_part ''[{}]'' = ''[{}]''" using as by (simp add: json_part_def)
  have p: "reJSONFence ''[{}]'' = None" "reJSONArray ''[{}]'' = Some ''[{}]''" "validateJSONFormat ''[{}]'' = None" by code_simp+
  have ex: "extractDecisions (\<lambda>_. Inr wait_then_close) ''[{}]'' = Inr wait_then_close"
    using p tr as by (simp add: jp extractDecisions_def decode_decisions_def Let_def)
  have v: "validateDecisions L' wait_then_close = (None, wait_then_close)" for L'
    by (simp add: wait_then_close_def validateDecisions_def validateDecision_def valid_actions_def is_open_def zero_decision_def
        first_err_None Let_def)
  have f: "fetch_positions (\<lambda>_. Inl not_found) ps m = m" "fetch_candidates (\<lambda>_. Inl not_found) held cs m = m" for ps held cs m
    by (induction ps arbitrary: m, simp_all) (induction cs arbitrary: m, simp_all)
  have "fetchMarketDataWithStrategy (\<lambda>_. Inl not_found) cx = cx" using assms by (simp add: fetchMarketDataWithStrategy_def f)
  then show ?thesis
    by (simp add: GetFullDecisionWithStrategy_def closing_ai_def assms pruneCandidateCoinsWithoutMarketData_def
        parseFullDecisionResponse_def ex v Let_def)
qed

lemma closing_filtered:
  assumes "kx_CandidateCoins cx = [''SOLUSDT'']"
  shows "filterDecisionsToStrategyUniverse (sortDecisionsByPriority wait_then_close) cx = rev wait_then_close"
proof -
  have s: "normalizeUniverseSymbol ''SOLUSDT'' = ''SOLUSDT''" by code_simp
  have "sortDecisionsByPriority wait_then_close = rev wait_then_close"
    by (simp add: sortDecisionsByPriority_def wait_then_close_def getActionPriority_def zero_decision_def)
  moreover have "in_universe cx d = Some d" if "kd_Symbol d = ''SOLUSDT''" for d
    using assms by (simp add: in_universe_def that s Let_def universe_def)
  ultimately show ?thesis
    by (simp add: filterDecisionsToStrategyUniverse_def map_filter_simps wait_then_close_def)
qed

lemma recording_succeeds:
  assumes "log_id (fw_at w) = None"
  shows "fst (recordPositionChange X db oid sy side act qty price lev fee w) = None"
    "fst (recordAndConfirmOrder X db order sy act qty price lev w) = None"
proof -
  have r: "fst (recordPositionChange X db oid sy side act qty price lev fee w) = None" if "log_id (fw_at w) = None" for oid sy side act qty price lev fee w
    using that by (auto simp: recordPositionChange_def Let_def split: prod.split option.split)
  have "fw_at w2 = fw_at w1" if "poll_order X db rid oid sy act price qty n w1 = (r, w2)" for rid oid n w1 r w2
    using poll_order_at [of X db rid oid sy act price qty n w1] that by simp
  then show "fst (recordPositionChange X db oid sy side act qty price lev fee w) = None"
    "fst (recordAndConfirmOrder X db order sy act qty price lev w) = None"
    using assms by (auto simp: r recordAndConfirmOrder_def Let_def r dest!: dbcall_at split: prod.split poll_result.split)
qed

lemma executes_both:
  assumes "log_id (fw_at w) = None"
  shows "\<exists>acts w'. execute_decisions idle_outside list_fut_db (rev wait_then_close) [] w = (None, acts, w') \<and>
     map da_Action acts = [''close_long'', ''wait'']"
proof -
  let ?c = "zero_decision\<lparr>kd_Symbol := ''SOLUSDT'', kd_Action := ''close_long''\<rparr>"
  let ?ar = "action_of ?c (now_ns idle_outside w)"
  obtain lot w2 where c: "close_lot idle_outside list_fut_db True ''SOLUSDT'' w = (lot, w2)" by (rule prod.exhaust)
  have m: "outcall (ex_MarketPrice idle_outside sy ex) v = (Inr (Fin 64), v)" "outcall (ex_Close idle_outside long sy q) v = (Inr [(''orderId'', GStr ''18'')], v)"
    for sy ex long q and v :: "(unit, list_fut) fworld"
    by (simp_all add: outcall_def idle_outside_def)
  have at: "fw_at w2 = fw_at w" by (rule close_lot_at [OF c])
  obtain e w3 where r: "recordAndConfirmOrder idle_outside list_fut_db [(''orderId'', GStr ''18'')] ''SOLUSDT'' (''close_long'') (fst lot) (Fin 64) 0 w2 = (e, w3)"
    by (rule prod.exhaust)
  then have e: "e = None" using recording_succeeds(2) [of w2 idle_outside list_fut_db "[(''orderId'', GStr ''18'')]" "''SOLUSDT''" "''close_long''" "fst lot" "Fin 64" 0] at assms
    by simp
  obtain ar where ar: "executeDecisionWithRecord idle_outside list_fut_db ?c ?ar w = (None, ar, w3)"
    using r e by (simp add: executeDecisionWithRecord_def executeCloseLongWithRecord_def execute_close_def m c side_name_def zero_decision_def Let_def)
  then have "da_Action ar = ''close_long''"
    using executed_action [of idle_outside list_fut_db ?c ?ar w] by (simp add: action_of_def zero_decision_def)
  moreover have "ex_Running idle_outside x" for x by (simp add: idle_outside_def)
  ultimately show ?thesis
    using ar by (simp add: wait_then_close_def) (simp add: executeDecisionWithRecord_def zero_decision_def action_of_def)
qed

lemma settled_store: "settled a = settled b \<Longrightarrow> at_store a = at_store b \<and> at_id a = at_id b"
  by (cases a; cases b) (simp add: settled_def)

theorem closes_before_opens_witness:
  "\<exists>l. lf_decisions (fw_d (snd (runCycle idle_outside list_fut_db closing_ai plain_world))) = [l] \<and>
     map da_Action (dl_Decisions l) = [''close_long'', ''wait''] \<and> in_order (map da_Action (dl_Decisions l))"
proof -
  define w1 where "w1 = upd_at (\<lambda>a. a\<lparr>at_callCount := at_callCount a + 1\<rparr>) plain_world"
  obtain tc w2 where b: "buildTradingContext idle_outside list_fut_db (reset_daily idle_outside w1) = (Inr tc, w2)"
    and tc: "kx_CandidateCoins (tc_Context tc) = [''SOLUSDT'']" "kx_MarketData (tc_Context tc) = []"
    by (simp add: buildTradingContext_def outcall_def idle_outside_def w1_def reset_daily_def plain_world_def plain_trader_def upd_at_def
        forget_closed_def now_ns_def Let_def)
  let ?w3 = "saveEquitySnapshot idle_outside list_fut_db (kx_Account (tc_Context tc)) w2"
  let ?f = "\<lparr>fd_CoTTrace = extractCoTTrace ''[{}]'', fd_Decisions = wait_then_close\<rparr>"
  have laws: "log_laws list_fut_db lf_decisions" by (rule list_log_laws)
  then have keep: "trades_keep list_fut_db lf_decisions" by (simp add: log_laws_def trades_keep_def)
  have "settled (fw_at w2) = settled (fw_at (reset_daily idle_outside w1))"
    using buildTradingContext_settled [of idle_outside list_fut_db "reset_daily idle_outside w1"] b by simp
  from settled_store [OF this] have a2: "at_store (fw_at w2) \<and> at_id (fw_at w2) = ''trader-1''"
    by (simp add: w1_def reset_daily_def plain_world_def plain_trader_def)
  have d2: "lf_decisions (fw_d w2) = []"
    using buildTradingContext_d [OF b] by (simp add: w1_def reset_daily_def plain_world_def empty_fut_def)
  define w4 where "w4 = upd_at (\<lambda>a. a\<lparr>at_Strategy := map_option clamp_risk (at_Strategy a)\<rparr>) ?w3"
  define w5 where "w5 = upd_at ai_recovered (record_charge list_fut_db w4)"
  have "fw_x w4 = fw_x w5" by simp
  have q: "ask_ai closing_ai tc ?w3 = (((None, Some ?f), tc_Context tc), w4)"
    using closing_answer [OF tc(2), of tc "fw_x w4"] by (simp add: ask_ai_def outcall_def w4_def [symmetric] Let_def closing_ai_def)
  have a5: "at_store (fw_at w5)" "at_id (fw_at w5) = ''trader-1''" "\<not> at_safeMode (fw_at w5)" "lf_decisions (fw_d w5) = []"
    using a2 d2 by (simp_all add: w5_def w4_def ai_recovered_def other_writes_keep [OF laws])
  have "log_id (fw_at w5) = None" by (simp add: log_id_def a5(2))
  from executes_both [OF this] obtain acts w6 where x: "execute_decisions idle_outside list_fut_db (rev wait_then_close) [] w5 = (None, acts, w6)"
    "map da_Action acts = [''close_long'', ''wait'']" by (elim exE conjE)
  have d6: "lf_decisions (fw_d w6) = []"
    using execute_decisions_keep [OF keep, of idle_outside "rev wait_then_close" "[]" w5] x(1) a5(4) by simp
  have "settled (fw_at w6) = settled (fw_at w5)"
    using execute_decisions_settled [of idle_outside list_fut_db "rev wait_then_close" "[]" w5] x(1) by simp
  from settled_store [OF this] have a6: "at_store (fw_at w6)" using a5(1) by simp
  have sf: "safe_filter (fw_at w5) ds = ds" for ds using a5(3) by (simp add: safe_filter_def)
  have cl: "tb_Create (fu_Decisions list_fut_db) d r = (None, d\<lparr>lf_decisions := lf_decisions d @ [r]\<rparr>)" for d r
    by (simp add: list_fut_db_def list_table_def)
  have run: "ex_Running idle_outside x" for x by (simp add: idle_outside_def)
  have "lf_decisions (fw_d (snd (execute_cycle idle_outside list_fut_db l (tc_Context tc) wait_then_close w5))) \<noteq> [] \<and>
      map da_Action (dl_Decisions (hd (lf_decisions (fw_d (snd (execute_cycle idle_outside list_fut_db l (tc_Context tc) wait_then_close w5)))))) = [''close_long'', ''wait'']" for l
    using x(2) by (simp add: execute_cycle_def closing_filtered [OF tc(1)] run sf x(1) saveDecision_def a6 d6 LogDecision_def cl
        wrap_def Let_def)
  moreover have "snd (runCycle idle_outside list_fut_db closing_ai plain_world) =
      snd (execute_cycle idle_outside list_fut_db (new_log\<lparr>dl_CandidateCoins := kx_CandidateCoins (tc_Context tc)\<rparr>) (tc_Context tc) wait_then_close w5)"
  proof -
    have "\<not> now_ns idle_outside w1 < at_stopUntil (fw_at w1)"
      by (simp add: w1_def now_ns_def idle_outside_def plain_world_def plain_trader_def zero_time_ns_def)
    then show ?thesis using tc(1) by (simp add: runCycle_def w1_def [symmetric] run b decide_cycle_def q w5_def Let_def)
  qed
  ultimately have r: "lf_decisions (fw_d (snd (runCycle idle_outside list_fut_db closing_ai plain_world))) \<noteq> []"
    "map da_Action (dl_Decisions (hd (lf_decisions (fw_d (snd (runCycle idle_outside list_fut_db closing_ai plain_world)))))) = [''close_long'', ''wait'']"
    by simp_all
  have "lf_decisions (fw_d plain_world) = []" by (simp add: plain_world_def empty_fut_def)
  then show ?thesis using closes_before_opens [OF laws, of idle_outside closing_ai plain_world] r by auto
qed

section \<open>Orders that are not filled\<close>

text \<open>A table of positions that takes what it is given, filling in the key.\<close>

definition takes_rows :: "'d fut_db \<Rightarrow> ('d \<Rightarrow> trader_position list) \<Rightarrow> bool" where
  "takes_rows db rows \<longleftrightarrow> table_keeps rows (or_Orders (fu_Orders db)) \<and>
     (\<forall>d r. fst (tb_Create (px_Rows (fu_Positions db)) d r) = None) \<and>
     (\<exists>fill. create_law (px_Rows (fu_Positions db)) rows fill \<and> (\<forall>d r. \<exists>i. fill d r = r\<lparr>po_ID := i\<rparr>))"

lemma created_position:
  assumes "takes_rows db rows"
  shows "\<exists>i. mset (rows (snd (tb_Create (px_Rows (fu_Positions db)) d r))) = add_mset (r\<lparr>po_ID := i\<rparr>) (mset (rows d))"
proof -
  obtain fill where f: "create_law (px_Rows (fu_Positions db)) rows fill" "\<And>d r. \<exists>i. fill d r = r\<lparr>po_ID := i\<rparr>"
    "fst (tb_Create (px_Rows (fu_Positions db)) d r) = None"
    using assms by (auto simp: takes_rows_def)
  obtain d' where c: "tb_Create (px_Rows (fu_Positions db)) d r = (None, d')" using f(3) by (metis prod.collapse)
  have "mset (rows d') = add_mset (fill d r) (mset (rows d))"
    using f(1) [unfolded create_law_def, rule_format, OF c] by simp
  then show ?thesis using f(2) [of d r] c by auto
qed

lemma opening_booked:
  assumes "takes_rows db rows" "at_store (fw_at w)" "act = ''open_long'' \<or> act = ''open_short''"
  shows "\<exists>p. mset (rows (fw_d (snd (recordPositionChange X db oid sy side act qty price lev fee w)))) = add_mset p (mset (rows (fw_d w))) \<and>
    po_TraderID p = at_id (fw_at w) \<and> po_Symbol p = sy \<and> po_Side p = side \<and> po_Quantity p = qty \<and> po_EntryPrice p = price \<and>
    po_EntryOrderID p = oid \<and> po_Leverage p = lev \<and> po_Fee p = 0 \<and> po_Status p = ''OPEN''"
proof -
  let ?p = "zero_position\<lparr>po_TraderID := at_id (fw_at w), po_ExchangeID := at_exchangeID (fw_at w),
      po_ExchangeType := at_exchange (fw_at w), po_Symbol := sy, po_Side := side, po_Quantity := qty, po_EntryPrice := price,
      po_EntryOrderID := oid, po_EntryTime := now_ms X w, po_Leverage := lev, po_Status := ''OPEN'', po_CreatedAt := now_ms X w,
      po_UpdatedAt := now_ms X w\<rparr>"
  have st: "?p\<lparr>po_Status := ''OPEN''\<rparr> = ?p" by simp
  have o': "is_open act" using assms(3) by (auto simp: is_open_def)
  obtain i where i: "mset (rows (snd (CreatePosition (fu_Positions db) ?p (fw_d w)))) = add_mset (fix_entry ?p\<lparr>po_ID := i\<rparr>) (mset (rows (fw_d w)))"
    using created_position [OF assms(1), of "fw_d w" "fix_entry ?p"] unfolding CreatePosition_def st by blast
  have "fw_d (snd (recordPositionChange X db oid sy side act qty price lev fee w)) = snd (CreatePosition (fu_Positions db) ?p (fw_d w))"
    using assms(2) o' by (simp add: recordPositionChange_def dbcall_def Let_def split: prod.split option.split)
  then show ?thesis
    by (intro exI [of _ "fix_entry ?p\<lparr>po_ID := i\<rparr>"]) (simp add: i, simp add: fix_entry_def zero_position_def)
qed

text \<open>
  C22: an order that is never filled is booked as a position.  On an exchange whose trades are not synchronised,
  when an opening order is still new at each of the five polls, the database gets one more row of positions:
  an open position of the trader, on the side of the order, with the quantity and the price that were asked
  for and without a fee.
\<close>

theorem unfilled_order_booked:
  assumes w: "at_store (fw_at w)" "at_exchange (fw_at w) \<notin> set order_sync"
    and oid: "show_order_id (gget order ''orderId'') = oid" "oid \<noteq> ''''" "oid \<noteq> ''0''"
    and act: "act = ''open_long'' \<or> act = ''open_short''"
    and new: "\<And>x. \<exists>st x'. ex_GetOrderStatus X sy oid x = (Inr st, x') \<and> get_str st ''status'' = Some ''NEW''"
    and db: "takes_rows db rows"
  shows "\<exists>p. mset (rows (fw_d (snd (recordAndConfirmOrder X db order sy act qty price lev w)))) = add_mset p (mset (rows (fw_d w))) \<and>
    po_TraderID p = at_id (fw_at w) \<and> po_Symbol p = Normalize sy \<and> po_Side p = (if act = ''open_long'' then ''LONG'' else ''SHORT'') \<and>
    po_Quantity p = qty \<and> po_EntryPrice p = price \<and> po_EntryOrderID p = oid \<and> po_Leverage p = lev \<and> po_Fee p = 0 \<and>
    po_Status p = ''OPEN''"
proof -
  let ?r = "createOrderRecord (fw_at w) (now_ms X w) oid sy act qty price lev"
  obtain e r d where c: "CreateOrder (fu_Orders db) ?r (fw_d w) = (e, r, d)" by (rule prod_cases3)
  have d: "rows d = rows (fw_d w)"
    using order_ops_keep(1) [of rows "fu_Orders db" ?r "fw_d w"] c db by (simp add: takes_rows_def)
  obtain x where "poll_order X db (to_ID r) oid sy act price qty 5 (sleep_ms X 500 (w\<lparr>fw_d := d\<rparr>)) =
      (PollDone price qty 0, (sleep_ms X 500 (w\<lparr>fw_d := d\<rparr>))\<lparr>fw_x := x\<rparr>)"
    using poll_unfilled [OF new] by blast
  then have "recordAndConfirmOrder X db order sy act qty price lev w =
      recordPositionChange X db oid (Normalize sy) (position_side act) act qty price lev 0 ((sleep_ms X 500 (w\<lparr>fw_d := d\<rparr>))\<lparr>fw_x := x\<rparr>)"
    using w oid by (simp add: recordAndConfirmOrder_def Let_def dbcall_def c)
  moreover have "position_side act = (if act = ''open_long'' then ''LONG'' else ''SHORT'')" using act by (auto simp: position_side_def)
  ultimately show ?thesis
    using opening_booked [OF db _ act, of "(sleep_ms X 500 (w\<lparr>fw_d := d\<rparr>))\<lparr>fw_x := x\<rparr>" X oid "Normalize sy" "position_side act" qty price lev 0] w(1) d
    by simp
qed

theorem unfilled_order_booked_witness:
  "\<exists>p. lf_positions (fw_d (snd (recordAndConfirmOrder idle_outside list_fut_db [(''orderId'', GStr ''17'')] ''SOLUSDT'' ''open_long''
        (Fin 2) (Fin 64) 4 plain_world))) = [p] \<and>
     (po_Symbol p, po_Side p, po_Quantity p, po_EntryPrice p, po_Status p) = (''SOLUSDT'', ''LONG'', Fin 2, Fin 64, ''OPEN'')"
proof -
  have s: "at_store (fw_at plain_world)" "at_exchange (fw_at plain_world) \<notin> set order_sync"
    by (simp_all add: plain_world_def plain_trader_def order_sync_def)
  have i: "show_order_id (gget [(''orderId'', GStr ''17'')] ''orderId'') = ''17''" by (simp add: show_order_id_def mget_def)
  have n: "\<exists>st x'. ex_GetOrderStatus idle_outside ''SOLUSDT'' ''17'' x = (Inr st, x') \<and> get_str st ''status'' = Some ''NEW''" for x
    by (simp add: idle_outside_def get_str_def mget_def)
  have sol: "Normalize ''SOLUSDT'' = ''SOLUSDT''" by code_simp
  have t: "takes_rows list_fut_db lf_positions"
    unfolding takes_rows_def
    by (intro conjI exI [of _ "\<lambda>d r. r\<lparr>po_ID := 1 + sum_list (map (\<lambda>x. \<bar>po_ID x\<bar>) (lf_positions d))\<rparr>"])
      (auto simp: list_fut_db_def list_table_keeps list_table_laws, simp add: list_table_def)
  have "lf_positions (fw_d plain_world) = []" by (simp add: plain_world_def empty_fut_def)
  then show ?thesis using unfilled_order_booked [OF s i _ _ _ n t, of "''open_long''" "Fin 2" "Fin 64" 4] by (auto simp: sol)
qed

end
