(* ===== verification/Fut_Market.thy ===== *)
theory Fut_Market
  imports Symbols Pred_Types Go_Strconv Go_Time
begin

text \<open>
  Market data: candles and where they come from (\<open>market/data_klines.go\<close>), the indicators and boxes computed
  from them (\<open>market/data_indicators.go\<close>), and the snapshot the traders are given (\<open>market/data.go\<close>).
\<close>

section \<open>Candles and their sources\<close>

record kline =
  kl_OpenTime :: int
  kl_Open :: f64
  kl_High :: f64
  kl_Low :: f64
  kl_Close :: f64
  kl_Volume :: f64
  kl_CloseTime :: int

text \<open>Hyperliquid sends its numbers as text.\<close>

record hl_candle =
  hc_OpenTime :: int
  hc_Open :: gostring
  hc_High :: gostring
  hc_Low :: gostring
  hc_Close :: gostring
  hc_Volume :: gostring
  hc_CloseTime :: int

text \<open>
  The services: the candles of CoinAnk for a symbol, exchange, interval and limit, those of Hyperliquid, the
  open interest and the funding rate of Binance as the decoded text of the number, the cache of
  funding rates, the clock in nanoseconds and \<open>math.Sqrt\<close>.
\<close>

record 'x market_sources =
  ms_CoinAnk :: "gostring \<Rightarrow> gostring \<Rightarrow> gostring \<Rightarrow> int \<Rightarrow> 'x \<Rightarrow> (perr + kline list) \<times> 'x"
  ms_Candles :: "gostring \<Rightarrow> gostring \<Rightarrow> int \<Rightarrow> 'x \<Rightarrow> (perr + hl_candle list) \<times> 'x"
  ms_OpenInterest :: "gostring \<Rightarrow> 'x \<Rightarrow> (perr + gostring) \<times> 'x"
  ms_Funding :: "gostring \<Rightarrow> 'x \<Rightarrow> (perr + gostring) \<times> 'x"
  ms_FundingCache :: "gostring \<Rightarrow> 'x \<Rightarrow> (f64 \<times> int) option"
  ms_StoreFunding :: "gostring \<Rightarrow> f64 \<times> int \<Rightarrow> 'x \<Rightarrow> 'x"
  ms_Now :: "'x \<Rightarrow> int"
  ms_Sqrt :: "f64 \<Rightarrow> f64"

definition coinank_intervals :: "gostring list" where
  "coinank_intervals = [''1m'', ''3m'', ''5m'', ''15m'', ''30m'', ''1h'', ''2h'', ''4h'', ''6h'', ''8h'', ''12h'', ''1d'', ''3d'', ''1w'']"

definition coinank_exchange :: "gostring \<Rightarrow> gostring" where
  "coinank_exchange ex =
     (let e = to_lower ex in
      if e \<in> {''bybit'', ''okx'', ''bitget'', ''gate'', ''hyperliquid'', ''aster''} then e else ''binance'')"

text \<open>An exchange that fails or has nothing is replaced by Binance.\<close>

definition getKlinesFromCoinAnk ::
  "'x market_sources \<Rightarrow> gostring \<Rightarrow> gostring \<Rightarrow> gostring \<Rightarrow> int \<Rightarrow> 'x \<Rightarrow> (perr + kline list) \<times> 'x" where
  "getKlinesFromCoinAnk S sy iv ex n x =
     (if iv \<notin> set coinank_intervals then (Inl (OtherErr ''unsupported interval''), x)
      else
        let e = coinank_exchange ex; (r, x) = ms_CoinAnk S sy e iv n x in
        case r of
          Inr (k # ks) \<Rightarrow> (Inr (k # ks), x)
        | _ \<Rightarrow>
            if e \<noteq> ''binance'' then
              (case ms_CoinAnk S sy ''binance'' iv n x of
                 (Inl err, x) \<Rightarrow> (Inl (WrapErr ''CoinAnk API error (fallback)'' err), x)
               | (Inr ks, x) \<Rightarrow> (Inr ks, x))
            else (case r of Inl err \<Rightarrow> (Inl (WrapErr ''CoinAnk API error'' err), x) | Inr ks \<Rightarrow> (Inr ks, x)))"

definition MapTimeframe :: "gostring \<Rightarrow> gostring" where
  "MapTimeframe iv =
     (if iv \<in> {''1m'', ''5m'', ''15m'', ''30m'', ''1h'', ''4h'', ''8h'', ''12h'', ''1d'', ''1w'', ''1M''} then iv
      else if iv = ''2h'' then ''1h'' else if iv = ''6h'' then ''4h'' else if iv = ''3d'' then ''1d'' else ''5m'')"

text \<open>A number that does not parse is what \<open>ParseFloat\<close> returns beside its error.\<close>

definition kline_of :: "hl_candle \<Rightarrow> kline" where
  "kline_of c = \<lparr>kl_OpenTime = hc_OpenTime c, kl_Open = fst (parse_float (hc_Open c)), kl_High = fst (parse_float (hc_High c)),
     kl_Low = fst (parse_float (hc_Low c)), kl_Close = fst (parse_float (hc_Close c)),
     kl_Volume = fst (parse_float (hc_Volume c)), kl_CloseTime = hc_CloseTime c\<rparr>"

definition getKlinesFromHyperliquid ::
  "'x market_sources \<Rightarrow> gostring \<Rightarrow> gostring \<Rightarrow> int \<Rightarrow> 'x \<Rightarrow> (perr + kline list) \<times> 'x" where
  "getKlinesFromHyperliquid S sy iv n x =
     (case ms_Candles S sy (MapTimeframe iv) n x of
        (Inl e, x) \<Rightarrow> (Inl (WrapErr ''Hyperliquid API error'' e), x)
      | (Inr cs, x) \<Rightarrow> (Inr (map kline_of cs), x))"

section \<open>Indicators\<close>

abbreviation closes :: "kline list \<Rightarrow> f64 list" where
  "closes \<equiv> map kl_Close"

definition fsum :: "f64 list \<Rightarrow> f64" where
  "fsum = foldl (+) 0"

definition calculateEMA :: "kline list \<Rightarrow> nat \<Rightarrow> f64" where
  "calculateEMA ks p =
     (if length ks < p then 0
      else
        let m = Fin 2 / fl (of_nat (p + 1))
        in foldl (\<lambda>ema c. (c - ema) * m + ema) (fsum (take p (closes ks)) / fl (of_nat p)) (drop p (closes ks)))"

definition calculateMACD :: "kline list \<Rightarrow> f64" where
  "calculateMACD ks = (if length ks < 26 then 0 else calculateEMA ks 12 - calculateEMA ks 26)"

fun differences :: "f64 list \<Rightarrow> f64 list" where
  "differences (a # b # cs) = (b - a) # differences (b # cs)"
| "differences _ = []"

definition gain_loss :: "f64 list \<Rightarrow> f64 \<times> f64" where
  "gain_loss ds = foldl (\<lambda>(g, l) d. if d > 0 then (g + d, l) else (g, l + - d)) (0, 0) ds"

definition smooth_gain_loss :: "nat \<Rightarrow> f64 \<times> f64 \<Rightarrow> f64 \<Rightarrow> f64 \<times> f64" where
  "smooth_gain_loss p gl d =
     (let (g, l) = gl; n = fl (of_nat p); m = fl (of_int (int p - 1)) in
      if d > 0 then ((g * m + d) / n, l * m / n) else (g * m / n, (l * m + - d) / n))"

definition rsi_of :: "f64 \<times> f64 \<Rightarrow> f64" where
  "rsi_of gl = (let (g, l) = gl in if feq l 0 then Fin 100 else Fin 100 - Fin 100 / (1 + g / l))"

definition calculateRSI :: "kline list \<Rightarrow> nat \<Rightarrow> f64" where
  "calculateRSI ks p =
     (if length ks \<le> p then 0
      else
        let ds = differences (closes ks); (g, l) = gain_loss (take p ds); n = fl (of_nat p)
        in rsi_of (foldl (smooth_gain_loss p) (g / n, l / n) (drop p ds)))"

text \<open>\<open>math.Max\<close>, where zeros have no sign.\<close>

definition math_max :: "f64 \<Rightarrow> f64 \<Rightarrow> f64" where
  "math_max a b = (if a = PInf \<or> b = PInf then PInf else if a = NaN \<or> b = NaN then NaN else if a > b then a else b)"

fun true_ranges :: "kline list \<Rightarrow> f64 list" where
  "true_ranges (a # b # ks) =
     math_max (kl_High b - kl_Low b) (math_max \<bar>kl_High b - kl_Close a\<bar> \<bar>kl_Low b - kl_Close a\<bar>) # true_ranges (b # ks)"
| "true_ranges _ = []"

definition calculateATR :: "kline list \<Rightarrow> nat \<Rightarrow> f64" where
  "calculateATR ks p =
     (if length ks \<le> p then 0
      else
        let trs = true_ranges ks; n = fl (of_nat p); m = fl (of_int (int p - 1))
        in foldl (\<lambda>atr t. (atr * m + t) / n) (fsum (take p trs) / n) (drop p trs))"

text \<open>The upper, middle and lower band.\<close>

definition calculateBOLL :: "(f64 \<Rightarrow> f64) \<Rightarrow> kline list \<Rightarrow> nat \<Rightarrow> f64 \<Rightarrow> f64 \<times> f64 \<times> f64" where
  "calculateBOLL sqrt_fn ks p m =
     (if length ks < p then (0, 0, 0)
      else
        let cs = drop (length ks - p) (closes ks); n = fl (of_nat p); sma = fsum cs / n;
            sd = sqrt_fn (fsum (map (\<lambda>c. (c - sma) * (c - sma)) cs) / n)
        in (sma + m * sd, sma, sma - m * sd))"

section \<open>Boxes\<close>

fun widen :: "kline list \<Rightarrow> f64 \<Rightarrow> f64 \<Rightarrow> f64 \<times> f64" where
  "widen [] u l = (u, l)"
| "widen (k # ks) u l = widen ks (if kl_High k > u then kl_High k else u) (if kl_Low k < l then kl_Low k else l)"

definition calculateDonchian :: "kline list \<Rightarrow> int \<Rightarrow> f64 \<times> f64" where
  "calculateDonchian ks period =
     (if ks = [] \<or> period \<le> 0 then (0, 0)
      else case drop (length ks - nat period) ks of [] \<Rightarrow> (0, 0) | k # rest \<Rightarrow> widen rest (kl_High k) (kl_Low k))"

record box_data =
  bx_ShortUpper :: f64
  bx_ShortLower :: f64
  bx_MidUpper :: f64
  bx_MidLower :: f64
  bx_LongUpper :: f64
  bx_LongLower :: f64
  bx_CurrentPrice :: f64

definition ShortBoxPeriod :: int where
  "ShortBoxPeriod = 72"

definition MidBoxPeriod :: int where
  "MidBoxPeriod = 240"

definition LongBoxPeriod :: int where
  "LongBoxPeriod = 500"

definition calculateBoxData :: "kline list \<Rightarrow> f64 \<Rightarrow> box_data" where
  "calculateBoxData ks price =
     (let (su, sl) = calculateDonchian ks ShortBoxPeriod; (mu, ml) = calculateDonchian ks MidBoxPeriod;
          (lu, ll) = calculateDonchian ks LongBoxPeriod
      in \<lparr>bx_ShortUpper = su, bx_ShortLower = sl, bx_MidUpper = mu, bx_MidLower = ml, bx_LongUpper = lu, bx_LongLower = ll,
          bx_CurrentPrice = price\<rparr>)"

definition GetBoxData :: "'x market_sources \<Rightarrow> gostring \<Rightarrow> 'x \<Rightarrow> (perr + box_data) \<times> 'x" where
  "GetBoxData S symbol0 x =
     (let s = Normalize symbol0 in
      case (if IsXyzDexAsset s then getKlinesFromHyperliquid S s ''1h'' LongBoxPeriod x
            else getKlinesFromCoinAnk S s ''1h'' ''binance'' LongBoxPeriod x) of
        (Inl e, x) \<Rightarrow> (Inl (WrapErr ''failed to get 1h klines'' e), x)
      | (Inr ks, x) \<Rightarrow>
          (if ks = [] then Inl (OtherErr ''no kline data available'')
           else Inr (calculateBoxData ks (kl_Close (last ks))), x))"

section \<open>Series\<close>

text \<open>An indicator at each of the last candles that has enough of them before it.\<close>

definition series_from :: "nat \<Rightarrow> nat \<Rightarrow> (kline list \<Rightarrow> 'a) \<Rightarrow> kline list \<Rightarrow> 'a list" where
  "series_from start least f ks = map (\<lambda>i. f (take (i + 1) ks)) (filter (\<lambda>i. least \<le> i) [start..<length ks])"

record kline_bar =
  kb_Time :: int
  kb_Open :: f64
  kb_High :: f64
  kb_Low :: f64
  kb_Close :: f64
  kb_Volume :: f64

definition bar_of :: "kline \<Rightarrow> kline_bar" where
  "bar_of k = \<lparr>kb_Time = kl_OpenTime k, kb_Open = kl_Open k, kb_High = kl_High k, kb_Low = kl_Low k, kb_Close = kl_Close k,
     kb_Volume = kl_Volume k\<rparr>"

record timeframe_series =
  tf_Timeframe :: gostring
  tf_Klines :: "kline_bar list"
  tf_MidPrices :: "f64 list"
  tf_EMA20Values :: "f64 list"
  tf_EMA50Values :: "f64 list"
  tf_MACDValues :: "f64 list"
  tf_RSI7Values :: "f64 list"
  tf_RSI14Values :: "f64 list"
  tf_Volume :: "f64 list"
  tf_ATR14 :: f64
  tf_BOLLUpper :: "f64 list"
  tf_BOLLMiddle :: "f64 list"
  tf_BOLLLower :: "f64 list"

definition calculateTimeframeSeries :: "(f64 \<Rightarrow> f64) \<Rightarrow> kline list \<Rightarrow> gostring \<Rightarrow> int \<Rightarrow> timeframe_series" where
  "calculateTimeframeSeries sqrt_fn ks tf cnt0 =
     (let cnt = (if cnt0 \<le> 0 then 10 else cnt0); start = length ks - nat cnt; recent = drop start ks;
          bands = series_from start 19 (\<lambda>k. calculateBOLL sqrt_fn k 20 (Fin 2)) ks
      in \<lparr>tf_Timeframe = tf, tf_Klines = map bar_of recent, tf_MidPrices = closes recent,
          tf_EMA20Values = series_from start 19 (\<lambda>k. calculateEMA k 20) ks,
          tf_EMA50Values = series_from start 49 (\<lambda>k. calculateEMA k 50) ks,
          tf_MACDValues = series_from start 25 calculateMACD ks,
          tf_RSI7Values = series_from start 7 (\<lambda>k. calculateRSI k 7) ks,
          tf_RSI14Values = series_from start 14 (\<lambda>k. calculateRSI k 14) ks,
          tf_Volume = map kl_Volume recent, tf_ATR14 = calculateATR ks 14,
          tf_BOLLUpper = map fst bands, tf_BOLLMiddle = map (fst \<circ> snd) bands, tf_BOLLLower = map (snd \<circ> snd) bands\<rparr>)"

record intraday_data =
  id_MidPrices :: "f64 list"
  id_EMA20Values :: "f64 list"
  id_MACDValues :: "f64 list"
  id_RSI7Values :: "f64 list"
  id_RSI14Values :: "f64 list"
  id_Volume :: "f64 list"
  id_ATR14 :: f64

definition calculateIntradaySeries :: "kline list \<Rightarrow> intraday_data" where
  "calculateIntradaySeries ks =
     (let start = length ks - 10; recent = drop start ks in
      \<lparr>id_MidPrices = closes recent, id_EMA20Values = series_from start 19 (\<lambda>k. calculateEMA k 20) ks,
       id_MACDValues = series_from start 25 calculateMACD ks, id_RSI7Values = series_from start 7 (\<lambda>k. calculateRSI k 7) ks,
       id_RSI14Values = series_from start 14 (\<lambda>k. calculateRSI k 14) ks, id_Volume = map kl_Volume recent,
       id_ATR14 = calculateATR ks 14\<rparr>)"

record longer_term =
  lt_EMA20 :: f64
  lt_EMA50 :: f64
  lt_ATR3 :: f64
  lt_ATR14 :: f64
  lt_CurrentVolume :: f64
  lt_AverageVolume :: f64
  lt_MACDValues :: "f64 list"
  lt_RSI14Values :: "f64 list"

definition calculateLongerTermData :: "kline list \<Rightarrow> longer_term" where
  "calculateLongerTermData ks =
     (let start = length ks - 10 in
      \<lparr>lt_EMA20 = calculateEMA ks 20, lt_EMA50 = calculateEMA ks 50, lt_ATR3 = calculateATR ks 3, lt_ATR14 = calculateATR ks 14,
       lt_CurrentVolume = (if ks = [] then 0 else kl_Volume (last ks)),
       lt_AverageVolume = (if ks = [] then 0 else fsum (map kl_Volume ks) / fl (of_nat (length ks))),
       lt_MACDValues = series_from start 25 calculateMACD ks, lt_RSI14Values = series_from start 14 (\<lambda>k. calculateRSI k 14) ks\<rparr>)"

definition parseTimeframeToMinutes :: "gostring \<Rightarrow> int" where
  "parseTimeframeToMinutes tf =
     (case map_of (zip coinank_intervals [1, 3, 5, 15, 30, 60, 120, 240, 360, 480, 720, 1440, 4320, 10080]) tf of
        None \<Rightarrow> 0 | Some n \<Rightarrow> n)"

definition change_pct :: "f64 \<Rightarrow> f64 \<Rightarrow> f64" where
  "change_pct now_price before = (now_price - before) / before * Fin 100"

definition calculatePriceChangeByBars :: "kline list \<Rightarrow> gostring \<Rightarrow> int \<Rightarrow> f64" where
  "calculatePriceChangeByBars ks tf target =
     (let tfm = parseTimeframeToMinutes tf in
      if length ks < 2 \<or> tfm \<le> 0 then 0
      else
        let back = max 1 (target div tfm); before = kl_Close (ks ! (length ks - 1 - nat back))
        in if before > 0 then change_pct (kl_Close (last ks)) before else 0)"

text \<open>The last candle that closed at least the duration, in milliseconds, before the last one.\<close>

definition priceChangeFromSeries :: "kline list \<Rightarrow> int \<Rightarrow> f64" where
  "priceChangeFromSeries ks ms =
     (if ks = [] \<or> ms \<le> 0 then 0
      else case find (\<lambda>k. kl_CloseTime k \<le> kl_CloseTime (last ks) - ms) (rev ks) of
        None \<Rightarrow> 0 | Some k \<Rightarrow> if kl_Close k > 0 then change_pct (kl_Close (last ks)) (kl_Close k) else 0)"

definition frozen_price :: "f64 \<Rightarrow> f64 \<Rightarrow> bool" where
  "frozen_price first_price p \<longleftrightarrow> \<not> \<bar>p - first_price\<bar> / first_price > fl (1 / 10000)"

definition isStaleData :: "kline list \<Rightarrow> bool" where
  "isStaleData ks =
     (if length ks < 5 then False
      else case drop (length ks - 5) ks of [] \<Rightarrow> False
        | k # rest \<Rightarrow> list_all (\<lambda>r. frozen_price (kl_Close k) (kl_Close r)) rest \<and> list_all (\<lambda>r. \<not> kl_Volume r > 0) (k # rest))"

section \<open>Snapshots\<close>

record snapshot =
  mk_Symbol :: gostring
  mk_CurrentPrice :: f64
  mk_PriceChange1h :: f64
  mk_PriceChange4h :: f64
  mk_CurrentEMA20 :: f64
  mk_CurrentMACD :: f64
  mk_CurrentRSI7 :: f64
  mk_OpenInterest :: "f64 \<times> f64"
  mk_FundingRate :: f64
  mk_IntradaySeries :: "intraday_data option"
  mk_LongerTermContext :: "longer_term option"
  mk_TimeframeData :: "(gostring, timeframe_series) gomap"

text \<open>The latest open interest and an approximate average, zero where the request fails.\<close>

definition open_interest :: "'x market_sources \<Rightarrow> gostring \<Rightarrow> 'x \<Rightarrow> (f64 \<times> f64) \<times> 'x" where
  "open_interest S sy x =
     (case ms_OpenInterest S sy x of
        (Inl e, x) \<Rightarrow> ((0, 0), x)
      | (Inr s, x) \<Rightarrow> (let oi = fst (parse_float s) in ((oi, oi * fl (999 / 1000)), x)))"

text \<open>\<open>getFundingRate\<close>, whose error the callers ignore; its cache lasts an hour.\<close>

definition getFundingRate :: "'x market_sources \<Rightarrow> gostring \<Rightarrow> 'x \<Rightarrow> f64 \<times> 'x" where
  "getFundingRate S sy x =
     (case (case ms_FundingCache S sy x of None \<Rightarrow> None | Some (r, t) \<Rightarrow> if ms_Now S x - t < 3600000000000 then Some r else None) of
        Some r \<Rightarrow> (r, x)
      | None \<Rightarrow>
          (case ms_Funding S sy x of
             (Inl e, x) \<Rightarrow> (0, x)
           | (Inr s, x) \<Rightarrow> (let r = fst (parse_float s) in (r, ms_StoreFunding S sy (r, ms_Now S x) x))))"

text \<open>What both snapshots compute of the candles of the current price.\<close>

definition base_snapshot :: "gostring \<Rightarrow> kline list \<Rightarrow> snapshot" where
  "base_snapshot sy ks =
     \<lparr>mk_Symbol = sy, mk_CurrentPrice = kl_Close (last ks), mk_PriceChange1h = 0, mk_PriceChange4h = 0,
      mk_CurrentEMA20 = calculateEMA ks 20, mk_CurrentMACD = calculateMACD ks, mk_CurrentRSI7 = calculateRSI ks 7,
      mk_OpenInterest = (0, 0), mk_FundingRate = 0, mk_IntradaySeries = None, mk_LongerTermContext = None, mk_TimeframeData = []\<rparr>"

definition change_back :: "kline list \<Rightarrow> nat \<Rightarrow> f64" where
  "change_back ks n =
     (if length ks < n then 0
      else let before = kl_Close (ks ! (length ks - n)) in if before > 0 then change_pct (kl_Close (last ks)) before else 0)"

definition GetWithExchange :: "'x market_sources \<Rightarrow> gostring \<Rightarrow> gostring \<Rightarrow> 'x \<Rightarrow> (perr + snapshot) \<times> 'x" where
  "GetWithExchange S symbol0 ex x =
     (let s = Normalize symbol0; hl = (IsXyzDexAsset s \<or> to_lower ex = ''hyperliquid'');
          get = (\<lambda>hiv iv x. if hl then getKlinesFromHyperliquid S s hiv 100 x else getKlinesFromCoinAnk S s iv ex 100 x)
      in case get ''5m'' ''3m'' x of
           (Inl e, x) \<Rightarrow> (Inl (WrapErr ''Failed to get 3-minute K-line'' e), x)
         | (Inr k3, x) \<Rightarrow>
             if isStaleData k3 then (Inl (OtherErr ''data is stale, possible cache failure''), x)
             else
               (case get ''4h'' ''4h'' x of
                  (Inl e, x) \<Rightarrow> (Inl (WrapErr ''Failed to get 4-hour K-line'' e), x)
                | (Inr k4, x) \<Rightarrow>
                    if k3 = [] then (Inl (OtherErr ''3-minute K-line data is empty''), x)
                    else if k4 = [] then (Inl (OtherErr ''4-hour K-line data is empty''), x)
                    else
                      let (oi, x) = open_interest S s x; (fr, x) = getFundingRate S s x; d = base_snapshot s k3;
                          before4 = (if length k4 \<ge> 2 then kl_Close (k4 ! (length k4 - 2)) else 0)
                      in (Inr (d\<lparr>mk_PriceChange1h := change_back k3 21,
                           mk_PriceChange4h := (if before4 > 0 then change_pct (mk_CurrentPrice d) before4 else 0),
                           mk_OpenInterest := oi, mk_FundingRate := fr, mk_IntradaySeries := Some (calculateIntradaySeries k3),
                           mk_LongerTermContext := Some (calculateLongerTermData k4)\<rparr>), x)))"

definition Get :: "'x market_sources \<Rightarrow> gostring \<Rightarrow> 'x \<Rightarrow> (perr + snapshot) \<times> 'x" where
  "Get S sy = GetWithExchange S sy ''binance''"

text \<open>A timeframe whose candles cannot be had, or are none, is skipped.\<close>

fun fetch_frames ::
  "'x market_sources \<Rightarrow> gostring \<Rightarrow> gostring \<Rightarrow> int \<Rightarrow> gostring list \<Rightarrow> kline list \<times> (gostring, timeframe_series) gomap \<Rightarrow> 'x \<Rightarrow>
     (kline list \<times> (gostring, timeframe_series) gomap) \<times> 'x" where
  "fetch_frames S sy primary cnt [] acc x = (acc, x)"
| "fetch_frames S sy primary cnt (tf # tfs) acc x =
     (case (if IsXyzDexAsset sy then getKlinesFromHyperliquid S sy tf 200 x else getKlinesFromCoinAnk S sy tf ''binance'' 200 x) of
        (Inr (k # ks), x) \<Rightarrow>
          fetch_frames S sy primary cnt tfs
            (if tf = primary then k # ks else fst acc, mput tf (calculateTimeframeSeries (ms_Sqrt S) (k # ks) tf cnt) (snd acc)) x
      | (_, x) \<Rightarrow> fetch_frames S sy primary cnt tfs acc x)"

definition GetWithTimeframes ::
  "'x market_sources \<Rightarrow> gostring \<Rightarrow> gostring list \<Rightarrow> gostring \<Rightarrow> int \<Rightarrow> 'x \<Rightarrow> (perr + snapshot) \<times> 'x" where
  "GetWithTimeframes S symbol0 tfs primary0 cnt x =
     (let s = Normalize symbol0 in
      case tfs of [] \<Rightarrow> (Inl (OtherErr ''at least one timeframe is required''), x)
      | tf # _ \<Rightarrow>
          let primary = (if primary0 = '''' then tf else primary0);
              ((pk, frames), x) = fetch_frames S s primary cnt (if primary \<in> set tfs then tfs else primary # tfs) ([], []) x
          in if pk = [] then (Inl (OtherErr ''primary timeframe K-line data is empty''), x)
             else if isStaleData pk then (Inl (OtherErr ''data is stale, possible cache failure''), x)
             else
               let (oi, x) = open_interest S s x; (fr, x) = getFundingRate S s x
               in (Inr ((base_snapshot s pk)\<lparr>mk_PriceChange1h := calculatePriceChangeByBars pk primary 60,
                      mk_PriceChange4h := calculatePriceChangeByBars pk primary 240, mk_OpenInterest := oi, mk_FundingRate := fr,
                      mk_TimeframeData := frames\<rparr>), x))"

definition BuildDataFromKlines :: "gostring \<Rightarrow> kline list \<Rightarrow> kline list \<Rightarrow> perr + snapshot" where
  "BuildDataFromKlines symbol0 ks longer =
     (if ks = [] then Inl (OtherErr ''primary series is empty'')
      else Inr ((base_snapshot (Normalize symbol0) ks)\<lparr>mk_PriceChange1h := priceChangeFromSeries ks 3600000,
             mk_PriceChange4h := priceChangeFromSeries ks 14400000, mk_IntradaySeries := Some (calculateIntradaySeries ks),
             mk_LongerTermContext := (if longer = [] then None else Some (calculateLongerTermData longer))\<rparr>))"

definition formatPriceWithDynamicPrecision :: "f64 \<Rightarrow> gostring" where
  "formatPriceWithDynamicPrecision p =
     fmt_fixed False (if p < fl (1 / 10000) then 8 else if p < fl (1 / 1000) then 6 else if p < fl (1 / 100) then 6
       else if p < 1 then 4 else if p < Fin 100 then 4 else 2) p"

fun join_values :: "gostring list \<Rightarrow> gostring" where
  "join_values [] = ''''"
| "join_values [s] = s"
| "join_values (s # ss) = s @ '', '' @ join_values ss"

definition formatFloatSlice :: "f64 list \<Rightarrow> gostring" where
  "formatFloatSlice vs = ''['' @ join_values (map formatPriceWithDynamicPrecision vs) @ '']''"

definition supportedTimeframes :: "(gostring \<times> int) list" where
  "supportedTimeframes =
     (let m = 60000000000 in [(''1m'', m), (''3m'', 3 * m), (''5m'', 5 * m), (''15m'', 15 * m), (''30m'', 30 * m), (''1h'', 60 * m),
       (''2h'', 120 * m), (''4h'', 240 * m), (''6h'', 360 * m), (''12h'', 720 * m), (''1d'', 1440 * m)])"

definition NormalizeTimeframe :: "gostring \<Rightarrow> perr + gostring" where
  "NormalizeTimeframe tf =
     (let t = trim_space (to_lower tf) in
      if t = '''' then Inl (OtherErr ''timeframe cannot be empty'')
      else if map_of supportedTimeframes t = None then Inl (OtherErr ''unsupported timeframe'') else Inr t)"

definition TFDuration :: "gostring \<Rightarrow> perr + int" where
  "TFDuration tf = (case NormalizeTimeframe tf of Inl e \<Rightarrow> Inl e
     | Inr t \<Rightarrow> Inr (case map_of supportedTimeframes t of None \<Rightarrow> 0 | Some n \<Rightarrow> n))"

definition SupportedTimeframes :: "gostring list" where
  "SupportedTimeframes = [''12h'', ''15m'', ''1d'', ''1h'', ''1m'', ''2h'', ''30m'', ''3m'', ''4h'', ''5m'', ''6h'']"

section \<open>A range of candles\<close>

text \<open>A cell of a row that Binance sends, decoded: text, a number, or something else.\<close>

datatype (plugins only: code size) jcell = CText gostring | CNumber f64 | COther

text \<open>\<open>parseFloat\<close> without its error, which the caller ignores.\<close>

fun cell_float :: "jcell \<Rightarrow> f64" where
  "cell_float (CText s) = fst (parse_float s)"
| "cell_float (CNumber v) = v"
| "cell_float COther = 0"

text \<open>\<open>None\<close> is a panic: a row that is too short, or a time that is not a number.\<close>

fun range_row :: "jcell list \<Rightarrow> kline option" where
  "range_row (CNumber t # c1 # c2 # c3 # c4 # c5 # CNumber e # _) =
     Some \<lparr>kl_OpenTime = trunc_int t, kl_Open = cell_float c1, kl_High = cell_float c2, kl_Low = cell_float c3,
       kl_Close = cell_float c4, kl_Volume = cell_float c5, kl_CloseTime = trunc_int e\<rparr>"
| "range_row _ = None"

definition binanceMaxKlineLimit :: nat where
  "binanceMaxKlineLimit = 1500"

text \<open>
  The pages of a range, from the cursor on; \<open>page\<close> is the request, answered by the decoded rows.  Nothing
  bounds the number of pages but what the server answers.
\<close>

partial_function (option) fetch_pages ::
  "(int \<Rightarrow> 'x \<Rightarrow> (perr + jcell list list) \<times> 'x) \<Rightarrow> int \<Rightarrow> int \<Rightarrow> kline list \<Rightarrow> 'x \<Rightarrow> ((perr + kline list) \<times> 'x) option" where
  "fetch_pages page last_ms cursor all_ks x =
     (if cursor < last_ms then
        (case page cursor x of
           (Inl e, x) \<Rightarrow> Some (Inl e, x)
         | (Inr [], x) \<Rightarrow> Some (Inr all_ks, x)
         | (Inr rows, x) \<Rightarrow>
             (case those (map range_row rows) of
                None \<Rightarrow> Some (Inl (Panic ''index out of range or interface conversion''), x)
              | Some batch \<Rightarrow>
                  if length batch < binanceMaxKlineLimit then Some (Inr (all_ks @ batch), x)
                  else fetch_pages page last_ms (kl_CloseTime (last batch) + 1) (all_ks @ batch) x))
      else Some (Inr all_ks, x))"

text \<open>Times in nanoseconds; \<open>page\<close> is given the symbol, the timeframe, the cursor and the end in milliseconds.\<close>

definition GetKlinesRange ::
  "(gostring \<Rightarrow> gostring \<Rightarrow> int \<Rightarrow> int \<Rightarrow> 'x \<Rightarrow> (perr + jcell list list) \<times> 'x) \<Rightarrow> gostring \<Rightarrow> gostring \<Rightarrow> int \<Rightarrow> int \<Rightarrow> 'x \<Rightarrow>
     ((perr + kline list) \<times> 'x) option" where
  "GetKlinesRange page symbol0 tf start stop x =
     (case NormalizeTimeframe tf of Inl e \<Rightarrow> Some (Inl e, x)
      | Inr t \<Rightarrow>
          if \<not> start < stop then Some (Inl (OtherErr ''end time must be after start time''), x)
          else
            let last_ms = stop div 1000000
            in fetch_pages (\<lambda>c. page (Normalize symbol0) t c last_ms) last_ms (start div 1000000) [] x)"

end
