(* ===== verification/Fut_Regime.thy ===== *)
theory Fut_Regime
  imports Fut_Strategy Fut_Market
begin

text \<open>
  What the grid strategy makes of the market: the regimes, breakouts and directions of
  \<open>trader/grid_regime.go\<close>, and the ratios of \<open>market/types.go\<close>.
\<close>

section \<open>Regimes\<close>

text \<open>\<open>RegimeUnset\<close> and \<open>BreakoutUnset\<close> are the empty strings of the zero values.\<close>

datatype (plugins only: code size) regime_level =
  RegimeUnset | RegimeNarrow | RegimeStandard | RegimeWide | RegimeVolatile | RegimeTrending

definition classifyRegimeLevel :: "f64 \<Rightarrow> f64 \<Rightarrow> regime_level" where
  "classifyRegimeLevel width atr =
     (if width < Fin 2 \<and> atr < 1 then RegimeNarrow
      else if width \<le> Fin 3 \<and> atr \<le> Fin 2 then RegimeStandard
      else if width \<le> Fin 4 \<and> atr \<le> Fin 3 then RegimeWide
      else RegimeVolatile)"

text \<open>Of the row of \<open>grid_configs\<close>: its limits for each regime.\<close>

record grid_limits =
  gl_NarrowLeverage :: int
  gl_StandardLeverage :: int
  gl_WideLeverage :: int
  gl_VolatileLeverage :: int
  gl_NarrowPositionPct :: f64
  gl_StandardPositionPct :: f64
  gl_WidePositionPct :: f64
  gl_VolatilePositionPct :: f64

definition getRegimeLeverageLimit :: "regime_level \<Rightarrow> grid_limits \<Rightarrow> int" where
  "getRegimeLeverageLimit lv g =
     (case lv of
        RegimeNarrow \<Rightarrow> if gl_NarrowLeverage g > 0 then gl_NarrowLeverage g else 2
      | RegimeStandard \<Rightarrow> if gl_StandardLeverage g > 0 then gl_StandardLeverage g else 4
      | RegimeWide \<Rightarrow> if gl_WideLeverage g > 0 then gl_WideLeverage g else 3
      | RegimeVolatile \<Rightarrow> if gl_VolatileLeverage g > 0 then gl_VolatileLeverage g else 2
      | _ \<Rightarrow> 2)"

definition getRegimePositionLimit :: "regime_level \<Rightarrow> grid_limits \<Rightarrow> f64" where
  "getRegimePositionLimit lv g =
     (case lv of
        RegimeNarrow \<Rightarrow> if gl_NarrowPositionPct g > 0 then gl_NarrowPositionPct g else Fin 40
      | RegimeStandard \<Rightarrow> if gl_StandardPositionPct g > 0 then gl_StandardPositionPct g else Fin 70
      | RegimeWide \<Rightarrow> if gl_WidePositionPct g > 0 then gl_WidePositionPct g else Fin 60
      | RegimeVolatile \<Rightarrow> if gl_VolatilePositionPct g > 0 then gl_VolatilePositionPct g else Fin 40
      | _ \<Rightarrow> Fin 40)"

section \<open>Breakouts\<close>

datatype (plugins only: code size) breakout_level = BreakoutUnset | BreakoutNone | BreakoutShort | BreakoutMid | BreakoutLong

definition detectBoxBreakout :: "box_data option \<Rightarrow> breakout_level \<times> gostring" where
  "detectBoxBreakout b =
     (case b of None \<Rightarrow> (BreakoutNone, '''')
      | Some b \<Rightarrow>
          (let price = bx_CurrentPrice b in
           if price > bx_LongUpper b then (BreakoutLong, ''up'')
           else if price < bx_LongLower b then (BreakoutLong, ''down'')
           else if price > bx_MidUpper b then (BreakoutMid, ''up'')
           else if price < bx_MidLower b then (BreakoutMid, ''down'')
           else if price > bx_ShortUpper b then (BreakoutShort, ''up'')
           else if price < bx_ShortLower b then (BreakoutShort, ''down'')
           else (BreakoutNone, '''')))"

text \<open>\<open>BreakoutState\<close>; its start time is written and never read.\<close>

record breakout_state =
  bs_Level :: breakout_level
  bs_Direction :: gostring
  bs_ConfirmCount :: int

definition BreakoutConfirmRequired :: int where
  "BreakoutConfirmRequired = 3"

definition confirmBreakout :: "breakout_state \<Rightarrow> breakout_level \<Rightarrow> gostring \<Rightarrow> bool \<times> breakout_state" where
  "confirmBreakout s lv dir =
     (if lv = BreakoutNone then (False, \<lparr>bs_Level = BreakoutNone, bs_Direction = '''', bs_ConfirmCount = 0\<rparr>)
      else
        let s = (if bs_Level s = lv \<and> bs_Direction s = dir then s\<lparr>bs_ConfirmCount := bs_ConfirmCount s + 1\<rparr>
                 else s\<lparr>bs_Level := lv, bs_Direction := dir, bs_ConfirmCount := 1\<rparr>)
        in (bs_ConfirmCount s \<ge> BreakoutConfirmRequired, s))"

datatype (plugins only: code size) breakout_action = ActionNone | ReducePosition | PauseGrid | CloseAll | AdjustDirection

definition getBreakoutAction :: "breakout_level \<Rightarrow> breakout_action" where
  "getBreakoutAction lv = (case lv of BreakoutShort \<Rightarrow> ReducePosition | BreakoutMid \<Rightarrow> PauseGrid | BreakoutLong \<Rightarrow> CloseAll | _ \<Rightarrow> ActionNone)"

definition getBreakoutActionWithDirection :: "breakout_level \<Rightarrow> bool \<Rightarrow> breakout_action" where
  "getBreakoutActionWithDirection lv adjust =
     (if \<not> adjust then getBreakoutAction lv
      else case lv of BreakoutShort \<Rightarrow> AdjustDirection | BreakoutMid \<Rightarrow> AdjustDirection | BreakoutLong \<Rightarrow> CloseAll | _ \<Rightarrow> ActionNone)"

section \<open>Directions\<close>

datatype (plugins only: code size) grid_direction = DirNeutral | DirLong | DirShort | DirLongBias | DirShortBias

definition GetBuySellRatio :: "grid_direction \<Rightarrow> f64 \<Rightarrow> f64 \<times> f64" where
  "GetBuySellRatio d ratio0 =
     (let ratio = (if ratio0 \<le> 0 \<or> ratio0 > 1 then fl (7 / 10) else ratio0) in
      case d of DirNeutral \<Rightarrow> (Fin (1 / 2), Fin (1 / 2)) | DirLong \<Rightarrow> (1, 0) | DirShort \<Rightarrow> (0, 1)
        | DirLongBias \<Rightarrow> (ratio, 1 - ratio) | DirShortBias \<Rightarrow> (1 - ratio, ratio))"

definition inside_short :: "f64 \<Rightarrow> box_data \<Rightarrow> bool" where
  "inside_short price b \<longleftrightarrow> price \<ge> bx_ShortLower b \<and> price \<le> bx_ShortUpper b"

definition determineRecoveryDirection :: "f64 \<Rightarrow> box_data \<Rightarrow> grid_direction \<Rightarrow> grid_direction" where
  "determineRecoveryDirection price b d =
     (if \<not> inside_short price b then d
      else case d of DirLong \<Rightarrow> DirLongBias | DirLongBias \<Rightarrow> DirNeutral | DirShort \<Rightarrow> DirShortBias | DirShortBias \<Rightarrow> DirNeutral
        | DirNeutral \<Rightarrow> DirNeutral)"

definition determineGridDirection :: "box_data option \<Rightarrow> grid_direction \<Rightarrow> breakout_level \<Rightarrow> gostring \<Rightarrow> grid_direction" where
  "determineGridDirection b d lv dir =
     (case b of None \<Rightarrow> d
      | Some b \<Rightarrow>
          (case lv of
             BreakoutShort \<Rightarrow> if dir = ''up'' then DirLongBias else DirShortBias
           | BreakoutMid \<Rightarrow> if dir = ''up'' then DirLong else DirShort
           | BreakoutNone \<Rightarrow> determineRecoveryDirection (bx_CurrentPrice b) b d
           | _ \<Rightarrow> d))"

definition shouldRecoverDirection :: "box_data option \<Rightarrow> grid_direction \<Rightarrow> bool" where
  "shouldRecoverDirection b d =
     (case b of None \<Rightarrow> False | Some b \<Rightarrow> d \<noteq> DirNeutral \<and> inside_short (bx_CurrentPrice b) b)"

end
