(* ===== verification/Fut_Grid.thy ===== *)
theory Fut_Grid
  imports Fut_Regime Fut_Loop
begin

text \<open>
  The grid strategy (\<open>trader/auto_trader_grid.go\<close>, \<open>_levels.go\<close>, \<open>_orders.go\<close>, \<open>_regime.go\<close> and the parsing half
  of \<open>kernel/grid_engine.go\<close>): a ladder of limit orders, the breakouts and losses that stop it, and the
  cycle that asks the language model and carries out what it says.
\<close>

section \<open>State\<close>

record grid_level =
  lv_Index :: int
  lv_Price :: f64
  lv_State :: gostring
  lv_Side :: gostring
  lv_OrderID :: gostring
  lv_OrderQuantity :: f64
  lv_PositionSize :: f64
  lv_PositionEntry :: f64
  lv_AllocatedUSD :: f64
  lv_UnrealizedPnL :: f64

record grid_state =
  gs_Config :: grid_config
  gs_Levels :: "grid_level list"
  gs_UpperPrice :: f64
  gs_LowerPrice :: f64
  gs_GridSpacing :: f64
  gs_IsPaused :: bool
  gs_IsInitialized :: bool
  gs_TotalProfit :: f64
  gs_TotalTrades :: int
  gs_WinningTrades :: int
  gs_MaxDrawdown :: f64
  gs_PeakEquity :: f64
  gs_DailyPnL :: f64
  gs_LastDailyReset :: int
  gs_OrderBook :: "(gostring, int) gomap"
  gs_Box :: box_data
  gs_BreakoutLevel :: breakout_level
  gs_BreakoutDirection :: gostring
  gs_BreakoutConfirmCount :: int
  gs_PositionReductionPct :: f64
  gs_CurrentRegimeLevel :: regime_level
  gs_CurrentDirection :: grid_direction
  gs_DirectionChangedAt :: int
  gs_DirectionChangeCount :: int

text \<open>The six bounds the state keeps of the boxes are a \<open>box_data\<close>; its price is not kept and stays 0.\<close>

definition zero_box :: box_data where
  "zero_box = \<lparr>bx_ShortUpper = 0, bx_ShortLower = 0, bx_MidUpper = 0, bx_MidLower = 0, bx_LongUpper = 0, bx_LongLower = 0,
     bx_CurrentPrice = 0\<rparr>"

definition NewGridState :: "grid_config \<Rightarrow> grid_state" where
  "NewGridState c =
     \<lparr>gs_Config = c, gs_Levels = [], gs_UpperPrice = 0, gs_LowerPrice = 0, gs_GridSpacing = 0, gs_IsPaused = False,
      gs_IsInitialized = False, gs_TotalProfit = 0, gs_TotalTrades = 0, gs_WinningTrades = 0, gs_MaxDrawdown = 0,
      gs_PeakEquity = 0, gs_DailyPnL = 0, gs_LastDailyReset = zero_time_ns, gs_OrderBook = [], gs_Box = zero_box,
      gs_BreakoutLevel = BreakoutUnset, gs_BreakoutDirection = '''', gs_BreakoutConfirmCount = 0, gs_PositionReductionPct = 0,
      gs_CurrentRegimeLevel = RegimeUnset, gs_CurrentDirection = DirNeutral, gs_DirectionChangedAt = zero_time_ns,
      gs_DirectionChangeCount = 0\<rparr>"

section \<open>The outside\<close>

record limit_order =
  lo_Symbol :: gostring
  lo_Side :: gostring
  lo_Price :: f64
  lo_Quantity :: f64
  lo_Leverage :: int
  lo_PostOnly :: bool
  lo_ClientID :: gostring

text \<open>The context the prompt is made of; \<open>BoxData\<close> and \<open>CurrentDirection\<close> are never filled in.\<close>

record grid_context =
  gt_Symbol :: gostring
  gt_CurrentPrice :: f64
  gt_GridCount :: int
  gt_TotalInvestment :: f64
  gt_Leverage :: int
  gt_UpperPrice :: f64
  gt_LowerPrice :: f64
  gt_GridSpacing :: f64
  gt_Distribution :: gostring
  gt_Levels :: "grid_level list"
  gt_ActiveOrderCount :: nat
  gt_FilledLevelCount :: nat
  gt_IsPaused :: bool
  gt_ATR14 :: f64
  gt_Bollinger :: "f64 \<times> f64 \<times> f64"
  gt_BollingerWidth :: f64
  gt_EMA20 :: f64
  gt_EMA50 :: f64
  gt_EMADistance :: f64
  gt_RSI14 :: f64
  gt_MACD :: f64
  gt_FundingRate :: f64
  gt_PriceChange :: "f64 \<times> f64"
  gt_TotalEquity :: f64
  gt_AvailableBalance :: f64
  gt_CurrentPosition :: f64
  gt_UnrealizedPnL :: f64
  gt_Performance :: "f64 \<times> int \<times> int \<times> f64 \<times> f64"

text \<open>
  The exchange, the sources of candles and market data, the model, the clock in nanoseconds with the
  calendar day of an instant in the local zone, \<open>math.Exp\<close>, the order in which a map of levels is
  ranged over, and the flag that \<open>Stop\<close> clears.  \<open>gx_Place\<close> is there when the exchange implements
  \<open>GridTrader\<close>, and answers with the id of the order; \<open>gx_Cancel\<close> when it can cancel a single order.
\<close>

record 'x grid_outside =
  gx_MarketPrice :: "gostring \<Rightarrow> 'x \<Rightarrow> (perr + f64) \<times> 'x"
  gx_GetBalance :: "'x \<Rightarrow> (perr + govals) \<times> 'x"
  gx_GetPositions :: "'x \<Rightarrow> (perr + govals list) \<times> 'x"
  gx_Close :: "bool \<Rightarrow> gostring \<Rightarrow> f64 \<Rightarrow> 'x \<Rightarrow> perr option \<times> 'x"
  gx_CancelAll :: "gostring \<Rightarrow> 'x \<Rightarrow> perr option \<times> 'x"
  gx_SetMarginMode :: "gostring \<Rightarrow> bool \<Rightarrow> 'x \<Rightarrow> perr option \<times> 'x"
  gx_SetLeverage :: "gostring \<Rightarrow> int \<Rightarrow> 'x \<Rightarrow> perr option \<times> 'x"
  gx_SetStopLoss :: "gostring \<Rightarrow> gostring \<Rightarrow> f64 \<Rightarrow> f64 \<Rightarrow> 'x \<Rightarrow> perr option \<times> 'x"
  gx_SetTakeProfit :: "gostring \<Rightarrow> gostring \<Rightarrow> f64 \<Rightarrow> f64 \<Rightarrow> 'x \<Rightarrow> perr option \<times> 'x"
  gx_Place :: "(limit_order \<Rightarrow> 'x \<Rightarrow> (perr + gostring) \<times> 'x) option"
  gx_Cancel :: "(gostring \<Rightarrow> gostring \<Rightarrow> 'x \<Rightarrow> perr option \<times> 'x) option"
  gx_OpenOrders :: "gostring \<Rightarrow> 'x \<Rightarrow> (perr + gostring list) \<times> 'x"
  gx_Sources :: "'x market_sources"
  gx_Ask :: "grid_context \<Rightarrow> grid_config \<Rightarrow> gostring \<Rightarrow> 'x \<Rightarrow> (perr + gostring) \<times> 'x"
  gx_JSON :: "gostring \<Rightarrow> perr + kdecision list"
  gx_Now :: "'x \<Rightarrow> int"
  gx_Day :: "int \<Rightarrow> int"
  gx_Exp :: "f64 \<Rightarrow> f64"
  gx_Range :: "grid_level list \<Rightarrow> grid_level list"
  gx_Running :: "'x \<Rightarrow> bool"

text \<open>The grid and its outside; the rest of the trader comes with the cycle.\<close>

record 'x gworld =
  gw_x :: 'x
  gw_g :: grid_state

definition gcall :: "('x \<Rightarrow> 'a \<times> 'x) \<Rightarrow> 'x gworld \<Rightarrow> 'a \<times> 'x gworld" where
  "gcall f w = (case f (gw_x w) of (r, x) \<Rightarrow> (r, w\<lparr>gw_x := x\<rparr>))"

definition upd_g :: "(grid_state \<Rightarrow> grid_state) \<Rightarrow> 'x gworld \<Rightarrow> 'x gworld" where
  "upd_g f w = w\<lparr>gw_g := f (gw_g w)\<rparr>"

lemma gworld_simps [simp]:
  "gw_g (snd (gcall f w)) = gw_g w" "gw_x (snd (gcall f w)) = snd (f (gw_x w))" "fst (gcall f w) = fst (f (gw_x w))"
  "gw_x (upd_g h w) = gw_x w" "gw_g (upd_g h w) = h (gw_g w)"
  by (simp_all add: gcall_def upd_g_def split: prod.split)

lemma gcall_split: "gcall f w = (r, w') \<Longrightarrow> gw_g w' = gw_g w"
  by (auto simp: gcall_def split: prod.splits)

abbreviation GridBox :: "'x grid_outside \<Rightarrow> gostring \<Rightarrow> 'x \<Rightarrow> (perr + box_data) \<times> 'x" where
  "GridBox X \<equiv> GetBoxData (gx_Sources X)"

text \<open>The size of the position in a symbol: the last one listed counts.\<close>

definition position_size :: "gostring \<Rightarrow> govals list \<Rightarrow> f64" where
  "position_size sy ps = foldl (\<lambda>acc p. if get_str p ''symbol'' = Some sy
     then (case get_f64 p ''positionAmt'' of Some q \<Rightarrow> q | None \<Rightarrow> acc) else acc) 0 ps"

section \<open>Levels\<close>

definition calculateDefaultBounds :: "f64 \<Rightarrow> grid_config \<Rightarrow> grid_state \<Rightarrow> grid_state" where
  "calculateDefaultBounds price c g =
     (let m = fl (3 / 100) * fl (of_int (gc_GridCount c)) / Fin 10
      in g\<lparr>gs_UpperPrice := price * (1 + m), gs_LowerPrice := price * (1 - m)\<rparr>)"

definition calculateATRBounds :: "f64 \<Rightarrow> snapshot \<Rightarrow> grid_config \<Rightarrow> grid_state \<Rightarrow> grid_state" where
  "calculateATRBounds price m c g =
     (let atr = (case mk_LongerTermContext m of None \<Rightarrow> 0 | Some l \<Rightarrow> lt_ATR14 l) in
      if atr \<le> 0 then calculateDefaultBounds price c g
      else
        let half = atr * (if gc_ATRMultiplier c \<le> 0 then Fin 2 else gc_ATRMultiplier c)
        in g\<lparr>gs_UpperPrice := price + half, gs_LowerPrice := price - half\<rparr>)"

text \<open>\<open>math.Pow(x, 2)\<close> is the product.\<close>

definition level_weight :: "(f64 \<Rightarrow> f64) \<Rightarrow> grid_config \<Rightarrow> nat \<Rightarrow> f64" where
  "level_weight exp_fn c i =
     (if gc_Distribution c = ''gaussian'' then
        (let center = fl (of_int (gc_GridCount c - 1)) / Fin 2; sigma = fl (of_int (gc_GridCount c)) / Fin 4;
             x = fl (of_nat i) - center
         in exp_fn (- (x * x) / (Fin 2 * sigma * sigma)))
      else if gc_Distribution c = ''pyramid'' then fl (of_int (gc_GridCount c - int i))
      else 1)"

definition level_price :: "grid_state \<Rightarrow> nat \<Rightarrow> f64" where
  "level_price g i = gs_LowerPrice g + fl (of_nat i) * gs_GridSpacing g"

definition make_level :: "grid_config \<Rightarrow> f64 \<Rightarrow> grid_state \<Rightarrow> f64 \<Rightarrow> f64 \<Rightarrow> nat \<Rightarrow> grid_level" where
  "make_level c price g total_w w i =
     \<lparr>lv_Index = int i, lv_Price = level_price g i, lv_State = ''empty'',
      lv_Side = (if level_price g i > price then ''sell'' else ''buy''), lv_OrderID = '''', lv_OrderQuantity = 0,
      lv_PositionSize = 0, lv_PositionEntry = 0, lv_AllocatedUSD = gc_TotalInvestment c * w / total_w, lv_UnrealizedPnL = 0\<rparr>"

definition make_levels :: "(f64 \<Rightarrow> f64) \<Rightarrow> grid_config \<Rightarrow> f64 \<Rightarrow> grid_state \<Rightarrow> grid_level list" where
  "make_levels exp_fn c price g =
     (let is = [0..<nat (gc_GridCount c)]; ws = map (level_weight exp_fn c) is
      in map (\<lambda>i. make_level c price g (foldl (+) 0 ws) (level_weight exp_fn c i) i) is)"

definition side_at :: "f64 \<Rightarrow> grid_level \<Rightarrow> grid_level" where
  "side_at price l = l\<lparr>lv_Side := (if lv_Price l \<le> price then ''buy'' else ''sell'')\<rparr>"

text \<open>The loop of the two biases; \<open>tb\<close> and \<open>ts\<close> are the buys and sells it aims at, \<open>nb\<close> and \<open>ns\<close> those assigned.\<close>

definition bias_buys :: "grid_direction \<Rightarrow> int \<Rightarrow> int \<Rightarrow> f64 \<Rightarrow> int \<Rightarrow> int \<Rightarrow> grid_level \<Rightarrow> bool" where
  "bias_buys d tb ts price nb ns l =
     (if lv_Price l \<le> price then nb < tb
      else if ns < ts \<and> d = DirShortBias then False
      else if nb < tb \<and> d = DirLongBias then True
      else \<not> ns < ts)"

fun bias_sides :: "grid_direction \<Rightarrow> int \<Rightarrow> int \<Rightarrow> f64 \<Rightarrow> int \<Rightarrow> int \<Rightarrow> grid_level list \<Rightarrow> grid_level list" where
  "bias_sides d tb ts price nb ns [] = []"
| "bias_sides d tb ts price nb ns (l # ls) =
     (if bias_buys d tb ts price nb ns l then l\<lparr>lv_Side := ''buy''\<rparr> # bias_sides d tb ts price (nb + 1) ns ls
      else l\<lparr>lv_Side := ''sell''\<rparr> # bias_sides d tb ts price nb (ns + 1) ls)"

definition target_buys :: "grid_state \<Rightarrow> int" where
  "target_buys g =
     (let r = gc_DirectionBiasRatio (gs_Config g); bias = (if r \<le> 0 \<or> r > 1 then fl (7 / 10) else r)
      in trunc_int (fl (of_nat (length (gs_Levels g))) * fst (GetBuySellRatio (gs_CurrentDirection g) bias)))"

definition applyGridDirection :: "f64 \<Rightarrow> grid_state \<Rightarrow> grid_state" where
  "applyGridDirection price g =
     (let d = gs_CurrentDirection g; ls = gs_Levels g in
      g\<lparr>gs_Levels :=
         (case d of DirNeutral \<Rightarrow> map (side_at price) ls
          | DirLong \<Rightarrow> map (\<lambda>l. l\<lparr>lv_Side := ''buy''\<rparr>) ls
          | DirShort \<Rightarrow> map (\<lambda>l. l\<lparr>lv_Side := ''sell''\<rparr>) ls
          | _ \<Rightarrow> bias_sides d (target_buys g) (int (length ls) - target_buys g) price 0 0 ls)\<rparr>)"

definition initializeGridLevels :: "(f64 \<Rightarrow> f64) \<Rightarrow> f64 \<Rightarrow> grid_config \<Rightarrow> grid_state \<Rightarrow> perr option \<times> grid_state" where
  "initializeGridLevels exp_fn price c g =
     (if gc_GridCount c < 0 then (Some (Panic ''makeslice: len out of range''), g)
      else
        let g = g\<lparr>gs_Levels := make_levels exp_fn c price g\<rparr>
        in (None, if gc_EnableDirectionAdjust c then applyGridDirection price g else g))"

text \<open>The variants for a caller that holds the lock have the same bodies.\<close>

definition calculateDefaultBoundsLocked where
  "calculateDefaultBoundsLocked = calculateDefaultBounds"

definition calculateATRBoundsLocked where
  "calculateATRBoundsLocked = calculateATRBounds"

definition initializeGridLevelsLocked where
  "initializeGridLevelsLocked = initializeGridLevels"

definition applyGridDirectionLocked where
  "applyGridDirectionLocked = applyGridDirection"

definition count_levels :: "bool \<Rightarrow> gostring \<Rightarrow> grid_level list \<Rightarrow> nat" where
  "count_levels buy st ls = length (filter (\<lambda>l. (lv_Side l = ''buy'') = buy \<and> lv_State l = st) ls)"

definition checkGridSkew :: "grid_level list \<Rightarrow> bool \<times> nat \<times> nat" where
  "checkGridSkew ls =
     (let bf = count_levels True ''filled'' ls; sf = count_levels False ''filled'' ls;
          be = count_levels True ''empty'' ls; se = count_levels False ''empty'' ls
      in (if bf > 0 \<and> sf = 0 \<and> se > 5 then True
          else if sf > 0 \<and> bf = 0 \<and> be > 5 then True
          else if bf \<ge> 3 * sf \<and> bf > 5 then True
          else sf \<ge> 3 * bf \<and> sf > 5, bf, sf))"

section \<open>Cancelling\<close>

definition emptied :: "grid_level \<Rightarrow> grid_level" where
  "emptied l = l\<lparr>lv_State := ''empty'', lv_OrderID := '''', lv_OrderQuantity := 0\<rparr>"

definition reset_pending :: "grid_state \<Rightarrow> grid_state" where
  "reset_pending g =
     g\<lparr>gs_Levels := map (\<lambda>l. if lv_State l = ''pending'' then emptied l else l) (gs_Levels g), gs_OrderBook := []\<rparr>"

definition cancelAllGridOrders :: "'x grid_outside \<Rightarrow> grid_config \<Rightarrow> 'x gworld \<Rightarrow> perr option \<times> 'x gworld" where
  "cancelAllGridOrders X c w =
     (case gcall (gx_CancelAll X (gc_Symbol c)) w of
        (Some e, w) \<Rightarrow> (Some (WrapErr ''failed to cancel all orders'' e), w)
      | (None, w) \<Rightarrow> (None, upd_g reset_pending w))"

section \<open>Adjusting a skewed grid\<close>

definition max_float :: f64 where
  "max_float = Fin ((2 ^ 53 - 1) * 2 ^ 971)"

text \<open>The level closest to a price, \<open>None\<close> where no distance is below the largest double.\<close>

fun closest_level :: "f64 \<Rightarrow> nat \<Rightarrow> nat option \<Rightarrow> f64 \<Rightarrow> grid_level list \<Rightarrow> nat option" where
  "closest_level price i best nearest [] = best"
| "closest_level price i best nearest (l # ls) =
     (let d = \<bar>lv_Price l - price\<bar> in
      if d < nearest then closest_level price (i + 1) (Some i) d ls else closest_level price (i + 1) best nearest ls)"

definition restore_level :: "grid_level list \<Rightarrow> grid_level \<Rightarrow> grid_level list" where
  "restore_level ls f =
     (case closest_level (lv_PositionEntry f) 0 None max_float ls of None \<Rightarrow> ls
      | Some i \<Rightarrow> ls[i := (ls ! i)\<lparr>lv_State := ''filled'', lv_PositionEntry := lv_PositionEntry f,
          lv_PositionSize := lv_PositionSize f, lv_UnrealizedPnL := lv_UnrealizedPnL f, lv_OrderID := lv_OrderID f,
          lv_OrderQuantity := lv_OrderQuantity f\<rparr>])"

definition near_center :: "f64 \<Rightarrow> grid_state \<Rightarrow> bool" where
  "near_center price g \<longleftrightarrow>
     \<bar>price - (gs_UpperPrice g + gs_LowerPrice g) / Fin 2\<bar> < (gs_UpperPrice g - gs_LowerPrice g) * fl (3 / 10)"

definition spaced :: "grid_config \<Rightarrow> grid_state \<Rightarrow> grid_state" where
  "spaced c g = g\<lparr>gs_GridSpacing := (gs_UpperPrice g - gs_LowerPrice g) / fl (of_int (gc_GridCount c - 1))\<rparr>"

text \<open>The bounds around a price, with the average true range where it can be had.\<close>

definition atr_bounds :: "'x grid_outside \<Rightarrow> grid_config \<Rightarrow> f64 \<Rightarrow> 'x gworld \<Rightarrow> 'x gworld" where
  "atr_bounds X c price w =
     (case gcall (GetWithTimeframes (gx_Sources X) (gc_Symbol c) [''4h''] ''4h'' 20) w of
        (Inl e, w) \<Rightarrow> upd_g (calculateDefaultBounds price c) w
      | (Inr m, w) \<Rightarrow> upd_g (calculateATRBounds price m c) w)"

definition rebuild_around :: "'x grid_outside \<Rightarrow> grid_config \<Rightarrow> f64 \<Rightarrow> 'x gworld \<Rightarrow> perr option \<times> 'x gworld" where
  "rebuild_around X c price w =
     (let filled = filter (\<lambda>l. lv_State l = ''filled'') (gs_Levels (gw_g w));
          w = (if gc_UseATRBounds c then atr_bounds X c price w else upd_g (calculateDefaultBoundsLocked price c) w)
      in case initializeGridLevelsLocked (gx_Exp X) price c (spaced c (gw_g w)) of
           (Some e, g) \<Rightarrow> (Some e, w\<lparr>gw_g := g\<rparr>)
         | (None, g) \<Rightarrow> (None, w\<lparr>gw_g := g\<lparr>gs_Levels := foldl restore_level (gs_Levels g) (gx_Range X filled)\<rparr>\<rparr>))"

definition autoAdjustGrid :: "'x grid_outside \<Rightarrow> grid_config \<Rightarrow> 'x gworld \<Rightarrow> perr option \<times> 'x gworld" where
  "autoAdjustGrid X c w =
     (if \<not> fst (checkGridSkew (gs_Levels (gw_g w))) then (None, w)
      else
        (case gcall (gx_MarketPrice X (gc_Symbol c)) w of
           (Inl e, w) \<Rightarrow> (None, w)
         | (Inr price, w) \<Rightarrow>
             if near_center price (gw_g w) then (None, w)
             else rebuild_around X c price (snd (cancelAllGridOrders X c w))))"

section \<open>Breakouts of the grid and losses\<close>

datatype (plugins only: code size) breakout_type = InsideGrid | BreakoutUpper | BreakoutLower

definition breakout_of :: "f64 \<Rightarrow> grid_state \<Rightarrow> breakout_type \<times> f64" where
  "breakout_of price g =
     (let u = gs_UpperPrice g; l = gs_LowerPrice g in
      if u \<le> 0 \<or> l \<le> 0 then (InsideGrid, 0)
      else if price > u then (BreakoutUpper, (price - u) / u * Fin 100)
      else if price < l then (BreakoutLower, (l - price) / l * Fin 100)
      else (InsideGrid, 0))"

definition checkBreakout :: "'x grid_outside \<Rightarrow> grid_config \<Rightarrow> 'x gworld \<Rightarrow> (breakout_type \<times> f64) \<times> 'x gworld" where
  "checkBreakout X c w =
     (case gcall (gx_MarketPrice X (gc_Symbol c)) w of
        (Inl e, w) \<Rightarrow> ((InsideGrid, 0), w)
      | (Inr price, w) \<Rightarrow> (breakout_of price (gw_g w), w))"

definition paused :: "bool \<Rightarrow> grid_state \<Rightarrow> grid_state" where
  "paused b g = g\<lparr>gs_IsPaused := b\<rparr>"

definition handleBreakout :: "'x grid_outside \<Rightarrow> grid_config \<Rightarrow> f64 \<Rightarrow> 'x gworld \<Rightarrow> perr option \<times> 'x gworld" where
  "handleBreakout X c pct w =
     (if pct \<ge> Fin 2 then (Some (OtherErr ''grid paused due to breakout''), upd_g (paused True) (snd (cancelAllGridOrders X c w)))
      else (None, w))"

text \<open>\<open>totalWalletBalance\<close> and \<open>totalUnrealizedProfit\<close> serve where there is no \<open>total_equity\<close>.\<close>

definition grid_equity :: "govals \<Rightarrow> f64" where
  "grid_equity b =
     (case get_f64 b ''total_equity'' of Some e \<Rightarrow> e
      | None \<Rightarrow> (case (get_f64 b ''totalWalletBalance'', get_f64 b ''totalUnrealizedProfit'') of
           (Some t, Some u) \<Rightarrow> t + u | _ \<Rightarrow> 0))"

definition raise_peak :: "f64 \<Rightarrow> grid_state \<Rightarrow> grid_state" where
  "raise_peak e g = g\<lparr>gs_PeakEquity := (if e > gs_PeakEquity g then e else gs_PeakEquity g)\<rparr>"

definition raise_drawdown :: "f64 \<Rightarrow> grid_state \<Rightarrow> grid_state" where
  "raise_drawdown d g = g\<lparr>gs_MaxDrawdown := (if d > gs_MaxDrawdown g then d else gs_MaxDrawdown g)\<rparr>"

definition checkMaxDrawdown :: "'x grid_outside \<Rightarrow> grid_config \<Rightarrow> 'x gworld \<Rightarrow> (bool \<times> f64) \<times> 'x gworld" where
  "checkMaxDrawdown X c w =
     (if gc_MaxDrawdownPct c \<le> 0 then ((False, 0), w)
      else
        (case gcall (gx_GetBalance X) w of
           (Inl e, w) \<Rightarrow> ((False, 0), w)
         | (Inr b, w) \<Rightarrow>
             (let e = grid_equity b in
              if e \<le> 0 then ((False, 0), w)
              else
                let w = upd_g (raise_peak e) w; peak = gs_PeakEquity (gw_g w) in
                if peak \<le> 0 then ((False, 0), w)
                else
                  let d = (peak - e) / peak * Fin 100 in ((d \<ge> gc_MaxDrawdownPct c, d), upd_g (raise_drawdown d) w))))"

definition reset_day :: "'x grid_outside \<Rightarrow> int \<Rightarrow> grid_state \<Rightarrow> grid_state" where
  "reset_day X now g = (if gx_Day X now \<noteq> gx_Day X (gs_LastDailyReset g) then g\<lparr>gs_DailyPnL := 0, gs_LastDailyReset := now\<rparr> else g)"

definition checkDailyLossLimit :: "'x grid_outside \<Rightarrow> grid_config \<Rightarrow> 'x gworld \<Rightarrow> (bool \<times> f64) \<times> 'x gworld" where
  "checkDailyLossLimit X c w =
     (if gc_DailyLossLimitPct c \<le> 0 then ((False, 0), w)
      else
        let w = upd_g (reset_day X (gx_Now X (gw_x w))) w; pnl = gs_DailyPnL (gw_g w);
            pct = (if gc_TotalInvestment c > 0 \<and> pnl < 0 then - pnl / gc_TotalInvestment c * Fin 100 else 0)
        in ((pct \<ge> gc_DailyLossLimitPct c, pct), w))"

definition updateDailyPnL :: "f64 \<Rightarrow> grid_state \<Rightarrow> grid_state" where
  "updateDailyPnL pnl g = g\<lparr>gs_DailyPnL := gs_DailyPnL g + pnl, gs_TotalProfit := gs_TotalProfit g + pnl\<rparr>"

text \<open>Both loops that close what is open in the symbol ignore the errors of the exchange.\<close>

fun close_positions :: "'x grid_outside \<Rightarrow> (govals \<Rightarrow> bool) \<Rightarrow> gostring \<Rightarrow> govals list \<Rightarrow> 'x gworld \<Rightarrow> 'x gworld" where
  "close_positions X ours sy [] w = w"
| "close_positions X ours sy (p # ps) w = close_positions X ours sy ps
     (if \<not> ours p then w
      else case get_f64 p ''positionAmt'' of None \<Rightarrow> w
        | Some q \<Rightarrow> if feq q 0 then w
            else if q > 0 then snd (gcall (gx_Close X True sy q) w) else snd (gcall (gx_Close X False sy (- q)) w))"

definition emergencyExit :: "'x grid_outside \<Rightarrow> grid_config \<Rightarrow> 'x gworld \<Rightarrow> 'x gworld" where
  "emergencyExit X c w0 =
     (let w = snd (cancelAllGridOrders X c w0) in
      upd_g (paused True)
        (case gcall (gx_GetPositions X) w of (Inl e, w) \<Rightarrow> w
         | (Inr ps, w) \<Rightarrow> close_positions X (\<lambda>p. get_str p ''symbol'' = Some (gc_Symbol c)) (gc_Symbol c) ps w))"

text \<open>Here a missing symbol reads as the empty one.\<close>

definition str_or_empty :: "govals \<Rightarrow> gostring \<Rightarrow> gostring" where
  "str_or_empty p k = (case get_str p k of Some s \<Rightarrow> s | None \<Rightarrow> '''')"

definition closeAllPositions :: "'x grid_outside \<Rightarrow> grid_config \<Rightarrow> 'x gworld \<Rightarrow> perr option \<times> 'x gworld" where
  "closeAllPositions X c w =
     (case gcall (gx_GetPositions X) w of
        (Inl e, w) \<Rightarrow> (Some (WrapErr ''failed to get positions'' e), w)
      | (Inr ps, w) \<Rightarrow> (None, close_positions X (\<lambda>p. str_or_empty p ''symbol'' = gc_Symbol c) (gc_Symbol c) ps w))"

section \<open>Orders\<close>

definition mark_value :: "gostring \<Rightarrow> govals list \<Rightarrow> f64" where
  "mark_value sy ps = foldl (\<lambda>acc p. if get_str p ''symbol'' = Some sy
     then (case get_f64 p ''positionAmt'' of None \<Rightarrow> acc
           | Some q \<Rightarrow> (case get_f64 p ''markPrice'' of Some m \<Rightarrow> \<bar>q\<bar> * m
               | None \<Rightarrow> (case get_f64 p ''entryPrice'' of Some m \<Rightarrow> \<bar>q\<bar> * m | None \<Rightarrow> acc)))
     else acc) 0 ps"

definition pending_value :: "grid_level list \<Rightarrow> f64" where
  "pending_value ls = foldl (\<lambda>acc l. if lv_State l = ''pending'' then acc + lv_OrderQuantity l * lv_Price l else acc) 0 ls"

definition max_total :: "grid_config \<Rightarrow> f64" where
  "max_total c = gc_TotalInvestment c * fl (of_int (gc_Leverage c))"

definition checkTotalPositionLimit ::
  "'x grid_outside \<Rightarrow> grid_config \<Rightarrow> gostring \<Rightarrow> f64 \<Rightarrow> 'x gworld \<Rightarrow> (bool \<times> f64 \<times> f64) \<times> 'x gworld" where
  "checkTotalPositionLimit X c sy additional w =
     (case gcall (gx_GetPositions X) w of (r, w) \<Rightarrow>
        (let cur = (case r of Inl e \<Rightarrow> 0 | Inr ps \<Rightarrow> mark_value sy ps); pend = pending_value (gs_Levels (gw_g w))
         in ((cur + pend + additional \<le> max_total c, cur + pend, max_total c), w)))"

text \<open>The share of a level: an equal one, or what the level was allocated if that is less.\<close>

definition level_at :: "grid_level list \<Rightarrow> int \<Rightarrow> grid_level option" where
  "level_at ls i = (if 0 \<le> i \<and> i < int (length ls) then Some (ls ! nat i) else None)"

definition max_quantity :: "grid_config \<Rightarrow> grid_level list \<Rightarrow> kdecision \<Rightarrow> f64" where
  "max_quantity c ls d =
     (let lev = fl (of_int (gc_Leverage c));
          q = gc_TotalInvestment c / fl (of_int (gc_GridCount c)) * lev / kd_Price d;
          alloc = (case level_at ls (kd_LevelIndex d) of None \<Rightarrow> 0 | Some l \<Rightarrow> lv_AllocatedUSD l)
      in if alloc > 0 \<and> alloc * lev / kd_Price d < q then alloc * lev / kd_Price d else q)"

definition capped_quantity :: "grid_config \<Rightarrow> grid_level list \<Rightarrow> kdecision \<Rightarrow> f64" where
  "capped_quantity c ls d =
     (if kd_Price d > 0 \<and> gc_TotalInvestment c > 0 \<and> kd_Quantity d > max_quantity c ls d then max_quantity c ls d
      else kd_Quantity d)"

definition above_safety :: "grid_config \<Rightarrow> kdecision \<Rightarrow> f64 \<Rightarrow> bool" where
  "above_safety c d q \<longleftrightarrow>
     kd_Price d > 0 \<and> gc_TotalInvestment c > 0 \<and> q * kd_Price d > gc_TotalInvestment c * fl (of_int (gc_Leverage c)) * Fin 2"

text \<open>
  \<open>GridTraderAdapter.PlaceLimitOrder\<close>: an exchange without limit orders gets a conditional one, whose id
  is the one the client made up.
\<close>

definition adapter_place :: "'x grid_outside \<Rightarrow> limit_order \<Rightarrow> 'x \<Rightarrow> (perr + gostring) \<times> 'x" where
  "adapter_place X r x0 =
     (let x = (if lo_Leverage r > 0 then snd (gx_SetLeverage X (lo_Symbol r) (lo_Leverage r) x0) else x0) in
      case (if lo_Side r = ''BUY'' then gx_SetStopLoss X (lo_Symbol r) ''SHORT'' (lo_Quantity r) (lo_Price r) x
            else gx_SetTakeProfit X (lo_Symbol r) ''LONG'' (lo_Quantity r) (lo_Price r) x) of
        (Some e, x) \<Rightarrow> (Inl e, x)
      | (None, x) \<Rightarrow> (Inr (lo_ClientID r), x))"

definition place_limit :: "'x grid_outside \<Rightarrow> limit_order \<Rightarrow> 'x \<Rightarrow> (perr + gostring) \<times> 'x" where
  "place_limit X = (case gx_Place X of Some f \<Rightarrow> f | None \<Rightarrow> adapter_place X)"

definition limit_request :: "grid_config \<Rightarrow> gostring \<Rightarrow> kdecision \<Rightarrow> f64 \<Rightarrow> int \<Rightarrow> limit_order" where
  "limit_request c side d q now =
     \<lparr>lo_Symbol = kd_Symbol d, lo_Side = side, lo_Price = kd_Price d, lo_Quantity = q, lo_Leverage = gc_Leverage c,
      lo_PostOnly = gc_UseMakerOnly c,
      lo_ClientID = ''grid-'' @ itoa (kd_LevelIndex d) @ ''-'' @ itoa (now mod 1000000)\<rparr>"

text \<open>The level keeps the quantity that was asked for, not the one that was sent.\<close>

definition book_order :: "kdecision \<Rightarrow> gostring \<Rightarrow> grid_state \<Rightarrow> grid_state" where
  "book_order d oid g =
     (case level_at (gs_Levels g) (kd_LevelIndex d) of None \<Rightarrow> g
      | Some l \<Rightarrow> g\<lparr>gs_Levels := (gs_Levels g)[nat (kd_LevelIndex d) :=
            l\<lparr>lv_State := ''pending'', lv_OrderID := oid, lv_OrderQuantity := kd_Quantity d\<rparr>],
          gs_OrderBook := mput oid (kd_LevelIndex d) (gs_OrderBook g)\<rparr>)"

definition placeGridLimitOrder ::
  "'x grid_outside \<Rightarrow> grid_config \<Rightarrow> gostring \<Rightarrow> kdecision \<Rightarrow> 'x gworld \<Rightarrow> perr option \<times> 'x gworld" where
  "placeGridLimitOrder X c side d w =
     (let q = capped_quantity c (gs_Levels (gw_g w)) d in
      if above_safety c d q then (Some (OtherErr ''position value exceeds safety limit''), w)
      else
        (case checkTotalPositionLimit X c (kd_Symbol d) (q * kd_Price d) w of ((allowed, cur, mx), w) \<Rightarrow>
           if \<not> allowed then (Some (OtherErr ''total position value would exceed limit''), w)
           else
             (case gcall (place_limit X (limit_request c side d q (gx_Now X (gw_x w)))) w of
                (Inl e, w) \<Rightarrow> (Some (WrapErr ''failed to place limit order'' e), w)
              | (Inr oid, w) \<Rightarrow> (None, upd_g (book_order d oid) w))))"

definition cancel_one :: "'x grid_outside \<Rightarrow> gostring \<Rightarrow> gostring \<Rightarrow> 'x \<Rightarrow> perr option \<times> 'x" where
  "cancel_one X sy oid =
     (case gx_Cancel X of Some f \<Rightarrow> f sy oid
      | None \<Rightarrow> (\<lambda>x. (Some (OtherErr ''individual order cancellation not supported for this exchange''), x)))"

definition forget_order :: "gostring \<Rightarrow> grid_state \<Rightarrow> grid_state" where
  "forget_order oid g =
     (case map_of (gs_OrderBook g) oid of None \<Rightarrow> g
      | Some i \<Rightarrow> g\<lparr>gs_Levels := (case level_at (gs_Levels g) i of None \<Rightarrow> gs_Levels g
            | Some l \<Rightarrow> (gs_Levels g)[nat i := emptied l]),
          gs_OrderBook := mdel oid (gs_OrderBook g)\<rparr>)"

definition cancelGridOrder :: "'x grid_outside \<Rightarrow> kdecision \<Rightarrow> 'x gworld \<Rightarrow> perr option \<times> 'x gworld" where
  "cancelGridOrder X d w =
     (case gcall (cancel_one X (kd_Symbol d) (kd_OrderID d)) w of
        (Some e, w) \<Rightarrow> (Some (WrapErr ''failed to cancel order'' e), w)
      | (None, w) \<Rightarrow> (None, upd_g (forget_order (kd_OrderID d)) w))"

definition pauseGrid :: "'x grid_outside \<Rightarrow> grid_config \<Rightarrow> 'x gworld \<Rightarrow> 'x gworld" where
  "pauseGrid X c w = upd_g (paused True) (snd (cancelAllGridOrders X c w))"

definition resumeGrid :: "'x gworld \<Rightarrow> 'x gworld" where
  "resumeGrid = upd_g (paused False)"

definition adjustGrid :: "'x grid_outside \<Rightarrow> grid_config \<Rightarrow> 'x gworld \<Rightarrow> perr option \<times> 'x gworld" where
  "adjustGrid X c w0 =
     (let w = snd (cancelAllGridOrders X c w0) in
      case gcall (gx_MarketPrice X (gc_Symbol c)) w of
        (Inl e, w) \<Rightarrow> (Some (WrapErr ''failed to get market price'' e), w)
      | (Inr price, w) \<Rightarrow>
          (case initializeGridLevels (gx_Exp X) price c (gw_g w) of (e, g) \<Rightarrow> (e, w\<lparr>gw_g := g\<rparr>)))"

section \<open>Reconciling with the exchange\<close>

definition vanished :: "gostring list \<Rightarrow> grid_level \<Rightarrow> bool" where
  "vanished active l \<longleftrightarrow> lv_State l = ''pending'' \<and> lv_OrderID l \<noteq> '''' \<and> lv_OrderID l \<notin> set active"

text \<open>An order that is gone was filled if the position is larger than the filled levels explain.\<close>

definition resolved :: "bool \<Rightarrow> grid_level \<Rightarrow> grid_level" where
  "resolved larger l =
     (if larger then l\<lparr>lv_State := ''filled'', lv_PositionEntry := lv_Price l, lv_PositionSize := lv_OrderQuantity l\<rparr> else emptied l)"

definition expected_size :: "grid_level list \<Rightarrow> f64" where
  "expected_size ls = foldl (\<lambda>acc l. if lv_State l = ''filled'' then acc + lv_PositionSize l else acc) 0 ls"

text \<open>The key that is deleted is read after the level was emptied.\<close>

definition reconcile :: "gostring list \<Rightarrow> f64 \<Rightarrow> grid_state \<Rightarrow> grid_state" where
  "reconcile active cur g =
     (let ls = gs_Levels g; larger = (\<bar>cur\<bar> > \<bar>expected_size ls\<bar>); gone = filter (vanished active) ls in
      g\<lparr>gs_Levels := map (\<lambda>l. if vanished active l then resolved larger l else l) ls,
        gs_TotalTrades := gs_TotalTrades g + (if larger then int (length gone) else 0),
        gs_OrderBook := foldl (\<lambda>m l. mdel (lv_OrderID (resolved larger l)) m) (gs_OrderBook g) gone\<rparr>)"

definition loss_pct :: "f64 \<Rightarrow> grid_level \<Rightarrow> f64" where
  "loss_pct price l =
     (if lv_Side l = ''buy'' then (lv_PositionEntry l - price) / lv_PositionEntry l * Fin 100
      else (price - lv_PositionEntry l) / lv_PositionEntry l * Fin 100)"

definition stop_hit :: "grid_config \<Rightarrow> f64 \<Rightarrow> grid_level \<Rightarrow> bool" where
  "stop_hit c price l \<longleftrightarrow> lv_State l = ''filled'' \<and> \<not> lv_PositionEntry l \<le> 0 \<and> loss_pct price l \<ge> gc_StopLossPct c"

definition realized_loss :: "f64 \<Rightarrow> grid_level \<Rightarrow> f64" where
  "realized_loss price l = - loss_pct price l * lv_AllocatedUSD l / Fin 100"

definition count_loss :: "f64 \<Rightarrow> grid_state \<Rightarrow> grid_state" where
  "count_loss x g = g\<lparr>gs_TotalTrades := gs_TotalTrades g + 1, gs_DailyPnL := gs_DailyPnL g + x, gs_TotalProfit := gs_TotalProfit g + x\<rparr>"

fun stop_levels :: "'x grid_outside \<Rightarrow> grid_config \<Rightarrow> f64 \<Rightarrow> grid_level list \<Rightarrow> 'x gworld \<Rightarrow> grid_level list \<times> 'x gworld" where
  "stop_levels X c price [] w = ([], w)"
| "stop_levels X c price (l # ls) w =
     (if \<not> stop_hit c price l then (let (ls, w) = stop_levels X c price ls w in (l # ls, w))
      else
        (case gcall (gx_Close X (lv_Side l = ''buy'') (gc_Symbol c) (lv_PositionSize l)) w of
           (Some e, w) \<Rightarrow> (let (ls, w) = stop_levels X c price ls w in (l # ls, w))
         | (None, w) \<Rightarrow>
             (let (ls, w) = stop_levels X c price ls (upd_g (count_loss (realized_loss price l)) w)
              in (l\<lparr>lv_State := ''stopped'', lv_UnrealizedPnL := realized_loss price l\<rparr> # ls, w))))"

definition checkAndExecuteStopLoss :: "'x grid_outside \<Rightarrow> grid_config \<Rightarrow> 'x gworld \<Rightarrow> 'x gworld" where
  "checkAndExecuteStopLoss X c w =
     (if gc_StopLossPct c \<le> 0 then w
      else
        (case gcall (gx_MarketPrice X (gc_Symbol c)) w of
           (Inl e, w) \<Rightarrow> w
         | (Inr price, w) \<Rightarrow>
             (let (ls, w) = stop_levels X c price (gs_Levels (gw_g w)) w in upd_g (\<lambda>g. g\<lparr>gs_Levels := ls\<rparr>) w)))"

definition syncGridState :: "'x grid_outside \<Rightarrow> grid_config \<Rightarrow> 'x gworld \<Rightarrow> perr option \<times> 'x gworld" where
  "syncGridState X c w =
     (case gcall (gx_OpenOrders X (gc_Symbol c)) w of
        (Inl e, w) \<Rightarrow> (None, w)
      | (Inr active, w) \<Rightarrow>
          (case gcall (gx_GetPositions X) w of (r, w) \<Rightarrow>
             (let cur = (case r of Inl e \<Rightarrow> 0 | Inr ps \<Rightarrow> position_size (gc_Symbol c) ps)
              in autoAdjustGrid X c (checkAndExecuteStopLoss X c (upd_g (reconcile active cur) w)))))"

section \<open>Boxes and directions\<close>

definition adjustGridDirection :: "'x grid_outside \<Rightarrow> grid_direction \<Rightarrow> 'x gworld \<Rightarrow> perr option \<times> 'x gworld" where
  "adjustGridDirection X d w =
     (if gs_CurrentDirection (gw_g w) = d then (None, w)
      else
        let w = upd_g (\<lambda>g. g\<lparr>gs_CurrentDirection := d, gs_DirectionChangedAt := gx_Now X (gw_x w),
              gs_DirectionChangeCount := gs_DirectionChangeCount g + 1\<rparr>) w in
        case gcall (gx_MarketPrice X (gc_Symbol (gs_Config (gw_g w)))) w of
          (Inl e, w) \<Rightarrow> (Some (WrapErr ''failed to get market price'' e), w)
        | (Inr price, w) \<Rightarrow> (None, upd_g (applyGridDirection price) w))"

definition executeDirectionAdjustment :: "'x grid_outside \<Rightarrow> grid_config \<Rightarrow> grid_direction \<Rightarrow> 'x gworld \<Rightarrow> perr option \<times> 'x gworld" where
  "executeDirectionAdjustment X c d w =
     (if gs_CurrentDirection (gw_g w) = d then (None, w)
      else adjustGridDirection X d (snd (cancelAllGridOrders X c w)))"

definition executeBreakoutAction :: "'x grid_outside \<Rightarrow> grid_config \<Rightarrow> breakout_action \<Rightarrow> 'x gworld \<Rightarrow> perr option \<times> 'x gworld" where
  "executeBreakoutAction X c act w =
     (case act of
        ReducePosition \<Rightarrow> (None, upd_g (\<lambda>g. g\<lparr>gs_PositionReductionPct := Fin 50\<rparr>) w)
      | PauseGrid \<Rightarrow> cancelAllGridOrders X c (upd_g (paused True) w)
      | CloseAll \<Rightarrow> closeAllPositions X c (snd (cancelAllGridOrders X c (upd_g (paused True) w)))
      | _ \<Rightarrow> (None, w))"

definition keep_box :: "box_data \<Rightarrow> grid_state \<Rightarrow> grid_state" where
  "keep_box b g = g\<lparr>gs_Box := b\<lparr>bx_CurrentPrice := 0\<rparr>\<rparr>"

definition breakout_state_of :: "grid_state \<Rightarrow> breakout_state" where
  "breakout_state_of g = \<lparr>bs_Level = gs_BreakoutLevel g, bs_Direction = gs_BreakoutDirection g, bs_ConfirmCount = gs_BreakoutConfirmCount g\<rparr>"

definition set_breakout :: "breakout_state \<Rightarrow> grid_state \<Rightarrow> grid_state" where
  "set_breakout s g = g\<lparr>gs_BreakoutLevel := bs_Level s, gs_BreakoutDirection := bs_Direction s, gs_BreakoutConfirmCount := bs_ConfirmCount s\<rparr>"

definition checkBoxBreakout :: "'x grid_outside \<Rightarrow> grid_config \<Rightarrow> 'x gworld \<Rightarrow> perr option \<times> 'x gworld" where
  "checkBoxBreakout X c w =
     (case gcall (GridBox X (gc_Symbol c)) w of
        (Inl e, w) \<Rightarrow> (None, w)
      | (Inr b, w) \<Rightarrow>
          (let (lv, dir) = detectBoxBreakout (Some b);
               (confirmed, s) = confirmBreakout (breakout_state_of (gw_g w)) lv dir;
               w = upd_g (\<lambda>g. set_breakout s (keep_box b g)) w;
               act = getBreakoutActionWithDirection lv (gc_EnableDirectionAdjust c)
           in if \<not> confirmed then (None, w)
              else if act = AdjustDirection then
                (case gcall (GridBox X (gc_Symbol c)) w of (r, w) \<Rightarrow>
                   executeDirectionAdjustment X c
                     (determineGridDirection (case r of Inl e \<Rightarrow> None | Inr b \<Rightarrow> Some b) (gs_CurrentDirection (gw_g w)) lv dir) w)
              else executeBreakoutAction X c act w))"

definition recovered :: "grid_state \<Rightarrow> grid_state" where
  "recovered g = g\<lparr>gs_BreakoutLevel := BreakoutNone, gs_BreakoutDirection := '''', gs_BreakoutConfirmCount := 0,
     gs_PositionReductionPct := Fin 50, gs_IsPaused := False\<rparr>"

definition needs_recovery :: "grid_config \<Rightarrow> grid_state \<Rightarrow> bool" where
  "needs_recovery c g \<longleftrightarrow>
     gs_BreakoutLevel g \<noteq> BreakoutNone \<or> \<not> feq (gs_PositionReductionPct g) 0 \<or> gs_IsPaused g \<or>
     gc_EnableDirectionAdjust c \<and> gs_CurrentDirection g \<noteq> DirNeutral"

definition in_long_box :: "box_data \<Rightarrow> bool" where
  "in_long_box b \<longleftrightarrow> bx_CurrentPrice b \<ge> bx_LongLower b \<and> bx_CurrentPrice b \<le> bx_LongUpper b"

text \<open>The only error of this check, that of the adjustment, is ignored.\<close>

definition checkFalseBreakoutRecovery :: "'x grid_outside \<Rightarrow> grid_config \<Rightarrow> 'x gworld \<Rightarrow> 'x gworld" where
  "checkFalseBreakoutRecovery X c w =
     (let d = gs_CurrentDirection (gw_g w) in
      if \<not> needs_recovery c (gw_g w) then w
      else
        (case gcall (GridBox X (gc_Symbol c)) w of
           (Inl e, w) \<Rightarrow> w
         | (Inr b, w) \<Rightarrow>
             (let w = (if in_long_box b then upd_g recovered w else w);
                  d' = determineRecoveryDirection (bx_CurrentPrice b) b d
              in if gc_EnableDirectionAdjust c \<and> d \<noteq> DirNeutral \<and> shouldRecoverDirection (Some b) d \<and> d' \<noteq> d
                 then snd (adjustGridDirection X d' w) else w)))"

section \<open>Asking the model\<close>

definition last_or :: "f64 \<Rightarrow> f64 list \<Rightarrow> f64" where
  "last_or z xs = (if xs = [] then z else last xs)"

text \<open>The two other bands are indexed without a check of their own: \<open>None\<close> is the panic.\<close>

definition bollinger :: "timeframe_series \<Rightarrow> (f64 \<times> f64 \<times> f64) option" where
  "bollinger f =
     (if tf_BOLLUpper f = [] then Some (0, 0, 0)
      else if tf_BOLLMiddle f = [] \<or> tf_BOLLLower f = [] then None
      else Some (last (tf_BOLLUpper f), last (tf_BOLLMiddle f), last (tf_BOLLLower f)))"

definition BuildGridContextFromMarketData :: "snapshot \<Rightarrow> grid_config \<Rightarrow> grid_context option" where
  "BuildGridContextFromMarketData m c =
     (case (case map_of (mk_TimeframeData m) ''5m'' of None \<Rightarrow> Some (0, 0, 0) | Some f \<Rightarrow> bollinger f) of None \<Rightarrow> None
      | Some (u, mid, l) \<Rightarrow>
          (let atr5 = (case map_of (mk_TimeframeData m) ''5m'' of None \<Rightarrow> 0 | Some f \<Rightarrow> tf_ATR14 f);
               ema50 = (case mk_LongerTermContext m of None \<Rightarrow> 0 | Some t \<Rightarrow> lt_EMA50 t)
           in Some
             \<lparr>gt_Symbol = gc_Symbol c, gt_CurrentPrice = mk_CurrentPrice m, gt_GridCount = gc_GridCount c,
              gt_TotalInvestment = gc_TotalInvestment c, gt_Leverage = gc_Leverage c, gt_UpperPrice = 0, gt_LowerPrice = 0,
              gt_GridSpacing = 0, gt_Distribution = gc_Distribution c, gt_Levels = [], gt_ActiveOrderCount = 0,
              gt_FilledLevelCount = 0, gt_IsPaused = False,
              gt_ATR14 = (case mk_LongerTermContext m of Some t \<Rightarrow> if feq atr5 0 then lt_ATR14 t else atr5 | None \<Rightarrow> atr5),
              gt_Bollinger = (u, mid, l), gt_BollingerWidth = (if mid > 0 then (u - l) / mid * Fin 100 else 0),
              gt_EMA20 = mk_CurrentEMA20 m, gt_EMA50 = ema50,
              gt_EMADistance = (if ema50 > 0 then (mk_CurrentEMA20 m - ema50) / ema50 * Fin 100 else 0),
              gt_RSI14 = (case map_of (mk_TimeframeData m) ''5m'' of None \<Rightarrow> 0 | Some f \<Rightarrow> last_or 0 (tf_RSI14Values f)), gt_MACD = mk_CurrentMACD m,
              gt_FundingRate = mk_FundingRate m, gt_PriceChange = (mk_PriceChange1h m, mk_PriceChange4h m), gt_TotalEquity = 0,
              gt_AvailableBalance = 0, gt_CurrentPosition = 0, gt_UnrealizedPnL = 0, gt_Performance = (0, 0, 0, 0, 0)\<rparr>))"

definition with_grid :: "grid_state \<Rightarrow> grid_context \<Rightarrow> grid_context" where
  "with_grid g t = t\<lparr>gt_Levels := gs_Levels g, gt_UpperPrice := gs_UpperPrice g, gt_LowerPrice := gs_LowerPrice g,
     gt_GridSpacing := gs_GridSpacing g, gt_IsPaused := gs_IsPaused g,
     gt_Performance := (gs_TotalProfit g, gs_TotalTrades g, gs_WinningTrades g, gs_MaxDrawdown g, gs_DailyPnL g),
     gt_ActiveOrderCount := length (filter (\<lambda>l. lv_State l = ''pending'') (gs_Levels g)),
     gt_FilledLevelCount := length (filter (\<lambda>l. lv_State l = ''filled'') (gs_Levels g))\<rparr>"

definition with_balance :: "govals \<Rightarrow> grid_context \<Rightarrow> grid_context" where
  "with_balance b t = t\<lparr>gt_TotalEquity := f64_or0 b ''total_equity'', gt_AvailableBalance := f64_or0 b ''availableBalance'',
     gt_UnrealizedPnL := f64_or0 b ''totalUnrealizedProfit''\<rparr>"

definition buildGridContext :: "'x grid_outside \<Rightarrow> grid_config \<Rightarrow> 'x gworld \<Rightarrow> (perr + grid_context) \<times> 'x gworld" where
  "buildGridContext X c w =
     (case gcall (GetWithTimeframes (gx_Sources X) (gc_Symbol c) [''5m'', ''4h''] ''5m'' 50) w of
        (Inl e, w) \<Rightarrow> (Inl (WrapErr ''failed to get market data'' e), w)
      | (Inr m, w) \<Rightarrow>
          (case BuildGridContextFromMarketData m c of None \<Rightarrow> (Inl (Panic ''index out of range''), w)
           | Some t \<Rightarrow>
               (let (b, w) = gcall (gx_GetBalance X) w; (ps, w) = gcall (gx_GetPositions X) w;
                    t = with_grid (gw_g w) t; t = (case b of Inl e \<Rightarrow> t | Inr b \<Rightarrow> with_balance b t)
                in (Inr (case ps of Inl e \<Rightarrow> t | Inr ps \<Rightarrow> t\<lparr>gt_CurrentPosition := position_size (gc_Symbol c) ps\<rparr>), w))))"

definition extractJSONArray :: "gostring \<Rightarrow> gostring" where
  "extractJSONArray resp = (case reJSONFence resp of Some s \<Rightarrow> s | None \<Rightarrow> (case reJSONArray resp of Some s \<Rightarrow> s | None \<Rightarrow> ''''))"

text \<open>An action that is not valid is only logged.\<close>

definition isValidGridAction :: "gostring \<Rightarrow> bool" where
  "isValidGridAction act \<longleftrightarrow>
     act \<in> set [''place_buy_limit'', ''place_sell_limit'', ''cancel_order'', ''cancel_all_orders'', ''pause_grid'',
       ''resume_grid'', ''adjust_grid'', ''hold'', ''open_long'', ''open_short'', ''close_long'', ''close_short'']"

definition parseGridDecisions :: "(gostring \<Rightarrow> perr + kdecision list) \<Rightarrow> gostring \<Rightarrow> gostring \<Rightarrow> perr + kdecision list" where
  "parseGridDecisions js resp sy =
     (let s = extractJSONArray resp in
      if s = '''' then Inl (OtherErr ''no JSON array found in response'')
      else case js s of Inl e \<Rightarrow> Inl (WrapErr ''failed to parse JSON'' e)
        | Inr ds \<Rightarrow> Inr (map (\<lambda>d. if kd_Symbol d = '''' then d\<lparr>kd_Symbol := sy\<rparr> else d) ds))"

definition hold_decision :: "gostring \<Rightarrow> kdecision" where
  "hold_decision sy = zero_decision\<lparr>kd_Symbol := sy, kd_Action := ''hold'', kd_Confidence := 50,
     kd_Reasoning := ''Failed to parse AI response, holding current state''\<rparr>"

definition GetGridDecisions ::
  "'x grid_outside \<Rightarrow> grid_context \<Rightarrow> grid_config \<Rightarrow> gostring \<Rightarrow> 'x gworld \<Rightarrow> (perr + kdecision list) \<times> 'x gworld" where
  "GetGridDecisions X t c lang w =
     (case gcall (gx_Ask X t c lang) w of
        (Inl e, w) \<Rightarrow> (Inl (WrapErr ''AI call failed'' e), w)
      | (Inr resp, w) \<Rightarrow>
          (Inr (case parseGridDecisions (gx_JSON X) resp (gt_Symbol t) of Inl e \<Rightarrow> [hold_decision (gt_Symbol t)] | Inr ds \<Rightarrow> ds), w))"

section \<open>Carrying out decisions\<close>

definition executeGridDecision :: "'x grid_outside \<Rightarrow> grid_config \<Rightarrow> kdecision \<Rightarrow> 'x gworld \<Rightarrow> perr option \<times> 'x gworld" where
  "executeGridDecision X c d w =
     (let act = kd_Action d in
      if act = ''place_buy_limit'' then placeGridLimitOrder X c ''BUY'' d w
      else if act = ''place_sell_limit'' then placeGridLimitOrder X c ''SELL'' d w
      else if act = ''cancel_order'' then cancelGridOrder X d w
      else if act = ''cancel_all_orders'' then cancelAllGridOrders X c w
      else if act = ''pause_grid'' then (None, pauseGrid X c w)
      else if act = ''resume_grid'' then (None, resumeGrid w)
      else if act = ''adjust_grid'' then adjustGrid X c w
      else if act = ''hold'' then (None, w)
      else if act = ''close_long'' then gcall (gx_Close X True (kd_Symbol d) (kd_Quantity d)) w
      else if act = ''close_short'' then gcall (gx_Close X False (kd_Symbol d) (kd_Quantity d)) w
      else (None, w))"

text \<open>Two valid actions have no case.\<close>

lemma openings_ignored:
  "kd_Action d \<in> {''open_long'', ''open_short''} \<Longrightarrow> isValidGridAction (kd_Action d) \<and> executeGridDecision X c d w = (None, w)"
  by (auto simp: isValidGridAction_def executeGridDecision_def)

text \<open>An error is logged and the loop goes on; only a panic leaves it.\<close>

fun execute_grid :: "'x grid_outside \<Rightarrow> grid_config \<Rightarrow> kdecision list \<Rightarrow> 'x gworld \<Rightarrow> perr option \<times> 'x gworld" where
  "execute_grid X c [] w = (None, w)"
| "execute_grid X c (d # ds) w =
     (if \<not> gx_Running X (gw_x w) then (None, w)
      else
        (case executeGridDecision X c d w of
           (Some e, w) \<Rightarrow> if is_panic e then (Some e, w) else execute_grid X c ds w
         | (None, w) \<Rightarrow> execute_grid X c ds w))"

section \<open>The life of the grid\<close>

definition initialize_grid :: "'x grid_outside \<Rightarrow> bool \<Rightarrow> grid_config \<Rightarrow> 'x gworld \<Rightarrow> perr option \<times> 'x gworld" where
  "initialize_grid X cross c w =
     (case gcall (gx_MarketPrice X (gc_Symbol c)) w of
        (Inl e, w) \<Rightarrow> (Some (WrapErr ''failed to get market price'' e), w)
      | (Inr price, w) \<Rightarrow>
          (let w = (if gc_UseATRBounds c then atr_bounds X c price w
                    else upd_g (\<lambda>g. g\<lparr>gs_UpperPrice := gc_UpperPrice c, gs_LowerPrice := gc_LowerPrice c\<rparr>) w)
           in case initializeGridLevels (gx_Exp X) price c (spaced c (gw_g w)) of
                (Some e, g) \<Rightarrow> (Some e, w\<lparr>gw_g := g\<rparr>)
              | (None, g) \<Rightarrow>
                  (let w = w\<lparr>gw_g := g\<lparr>gs_IsInitialized := True\<rparr>\<rparr>; w = snd (gcall (gx_SetMarginMode X (gc_Symbol c) cross) w)
                   in (None, snd (gcall (gx_SetLeverage X (gc_Symbol c) (gc_Leverage c)) w)))))"

text \<open>The checks before the model is asked: \<open>Some r\<close> when the cycle ends there and returns \<open>r\<close>.\<close>

definition late_guards :: "'x grid_outside \<Rightarrow> grid_config \<Rightarrow> 'x gworld \<Rightarrow> perr option option \<times> 'x gworld" where
  "late_guards X c w =
     (let w = checkFalseBreakoutRecovery X c (snd (checkBoxBreakout X c w))
      in (if gs_IsPaused (gw_g w) then Some None else None, w))"

definition loss_guards :: "'x grid_outside \<Rightarrow> grid_config \<Rightarrow> 'x gworld \<Rightarrow> perr option option \<times> 'x gworld" where
  "loss_guards X c w =
     (case checkMaxDrawdown X c w of ((exceeded, _), w) \<Rightarrow>
        if exceeded then (Some None, emergencyExit X c w)
        else
          (case checkDailyLossLimit X c w of ((exceeded, _), w) \<Rightarrow>
             if exceeded then (Some (Some (OtherErr ''daily loss limit exceeded'')), upd_g (paused True) w)
             else late_guards X c w))"

definition grid_guards :: "'x grid_outside \<Rightarrow> grid_config \<Rightarrow> 'x gworld \<Rightarrow> perr option option \<times> 'x gworld" where
  "grid_guards X c w =
     (case checkBreakout X c w of ((kind, pct), w) \<Rightarrow>
        if kind = InsideGrid then loss_guards X c w
        else (case handleBreakout X c pct w of (Some e, w) \<Rightarrow> (Some (Some e), w) | (None, w) \<Rightarrow> loss_guards X c w))"

text \<open>The rest of the cycle: its error, or the decisions that are to be recorded.\<close>

definition grid_decide :: "'x grid_outside \<Rightarrow> grid_config \<Rightarrow> gostring \<Rightarrow> 'x gworld \<Rightarrow> (perr option + kdecision list) \<times> 'x gworld" where
  "grid_decide X c lang w =
     (case buildGridContext X c w of
        (Inl e, w) \<Rightarrow> (Inl (Some (if is_panic e then e else WrapErr ''failed to build grid context'' e)), w)
      | (Inr t, w) \<Rightarrow>
          (case GetGridDecisions X t c lang w of
             (Inl e, w) \<Rightarrow> (Inl (Some (WrapErr ''failed to get grid decisions'' e)), w)
           | (Inr ds, w) \<Rightarrow>
               if \<not> gx_Running X (gw_x w) then (Inl None, w)
               else
                 (case execute_grid X c ds w of
                    (Some e, w) \<Rightarrow> (Inl (Some e), w)
                  | (None, w) \<Rightarrow>
                      (case syncGridState X c w of (Some e, w) \<Rightarrow> (Inl (Some e), w) | (None, w) \<Rightarrow> (Inr ds, w)))))"

section \<open>The trader\<close>

record grid_strategy =
  gy_StrategyType :: gostring
  gy_Language :: gostring
  gy_GridConfig :: "grid_config option"

record ('x, 'd) grid_trader =
  gr_x :: 'x
  gr_d :: 'd
  gr_id :: gostring
  gr_Strategy :: "grid_strategy option"
  gr_IsCrossMargin :: bool
  gr_store :: bool
  gr_cycleNumber :: int
  gr_grid :: "grid_state option"

definition IsGridStrategy :: "('x, 'd) grid_trader \<Rightarrow> bool" where
  "IsGridStrategy t \<longleftrightarrow>
     (case gr_Strategy t of None \<Rightarrow> False | Some s \<Rightarrow> gy_StrategyType s = ''grid_trading'' \<and> gy_GridConfig s \<noteq> None)"

definition grid_config_of :: "('x, 'd) grid_trader \<Rightarrow> grid_config option" where
  "grid_config_of t = (case gr_Strategy t of None \<Rightarrow> None | Some s \<Rightarrow> gy_GridConfig s)"

text \<open>A part of the cycle on the trader whose grid is \<open>g\<close>.\<close>

definition on_grid :: "('x gworld \<Rightarrow> 'a \<times> 'x gworld) \<Rightarrow> grid_state \<Rightarrow> ('x, 'd) grid_trader \<Rightarrow> 'a \<times> ('x, 'd) grid_trader" where
  "on_grid f g t = (case f \<lparr>gw_x = gr_x t, gw_g = g\<rparr> of (r, w) \<Rightarrow> (r, t\<lparr>gr_x := gw_x w, gr_grid := Some (gw_g w)\<rparr>))"

definition InitializeGrid :: "'x grid_outside \<Rightarrow> ('x, 'd) grid_trader \<Rightarrow> perr option \<times> ('x, 'd) grid_trader" where
  "InitializeGrid X t =
     (case grid_config_of t of None \<Rightarrow> (Some (OtherErr ''grid configuration not found''), t)
      | Some c \<Rightarrow> on_grid (initialize_grid X (gr_IsCrossMargin t) c) (NewGridState c) t)"

definition grid_action :: "kdecision \<Rightarrow> int \<Rightarrow> decision_action" where
  "grid_action d now = (action_of d now)\<lparr>da_Quantity := kd_Quantity d, da_Price := kd_Price d, da_Success := True\<rparr>"

definition saveGridDecisionRecord ::
  "'x grid_outside \<Rightarrow> 'd fut_db \<Rightarrow> kdecision list \<Rightarrow> ('x, 'd) grid_trader \<Rightarrow> ('x, 'd) grid_trader" where
  "saveGridDecisionRecord X db ds t =
     (if \<not> gr_store t then t
      else
        let n = gr_cycleNumber t + 1; now = gx_Now X (gr_x t);
            l = new_log\<lparr>dl_TraderID := gr_id t, dl_CycleNumber := n, dl_Timestamp := now, dl_Decisions := map (\<lambda>d. grid_action d now) ds\<rparr>
        in t\<lparr>gr_cycleNumber := n, gr_d := snd (LogDecision (fu_Decisions db) l (gr_d t))\<rparr>)"

definition grid_language :: "('x, 'd) grid_trader \<Rightarrow> gostring" where
  "grid_language t = (case gr_Strategy t of None \<Rightarrow> '''' | Some s \<Rightarrow> if gy_Language s = '''' then ''en'' else gy_Language s)"

definition grid_cycle ::
  "'x grid_outside \<Rightarrow> 'd fut_db \<Rightarrow> grid_config \<Rightarrow> grid_state \<Rightarrow> ('x, 'd) grid_trader \<Rightarrow> perr option \<times> ('x, 'd) grid_trader" where
  "grid_cycle X db c g t =
     (case on_grid (grid_guards X c) g t of
        (Some r, t) \<Rightarrow> (r, t)
      | (None, t) \<Rightarrow>
          (case on_grid (grid_decide X c (grid_language t)) (the (gr_grid t)) t of
             (Inl r, t) \<Rightarrow> (r, t)
           | (Inr ds, t) \<Rightarrow> (None, saveGridDecisionRecord X db ds t)))"

definition RunGridCycle :: "'x grid_outside \<Rightarrow> 'd fut_db \<Rightarrow> ('x, 'd) grid_trader \<Rightarrow> perr option \<times> ('x, 'd) grid_trader" where
  "RunGridCycle X db t =
     (if \<not> gx_Running X (gr_x t) then (None, t)
      else
        (case (if (case gr_grid t of None \<Rightarrow> True | Some g \<Rightarrow> \<not> gs_IsInitialized g) then InitializeGrid X t else (None, t)) of
           (Some e, t) \<Rightarrow> (Some (if is_panic e then e else WrapErr ''failed to initialize grid'' e), t)
         | (None, t) \<Rightarrow>
             (case (grid_config_of t, gr_grid t) of
                (Some c, Some g) \<Rightarrow> grid_cycle X db c g t
              | _ \<Rightarrow> (Some (Panic ''nil pointer dereference''), t))))"

section \<open>What the user is shown\<close>

record grid_risk =
  rg_CurrentLeverage :: int
  rg_EffectiveLeverage :: f64
  rg_RecommendedLeverage :: int
  rg_CurrentPosition :: f64
  rg_MaxPosition :: f64
  rg_PositionPercent :: f64
  rg_LiquidationPrice :: f64
  rg_LiquidationDistance :: f64
  rg_RegimeLevel :: regime_level
  rg_Box :: box_data
  rg_Breakout :: "breakout_level \<times> gostring"
  rg_Direction :: "grid_direction \<times> int \<times> bool"

definition shown_regime :: "regime_level \<Rightarrow> regime_level" where
  "shown_regime lv = (if lv = RegimeUnset then RegimeStandard else lv)"

definition shown_position_pct :: "regime_level \<Rightarrow> f64" where
  "shown_position_pct lv = (case lv of RegimeNarrow \<Rightarrow> Fin 40 | RegimeWide \<Rightarrow> Fin 60 | RegimeVolatile \<Rightarrow> Fin 40 | _ \<Rightarrow> Fin 70)"

definition shown_leverage :: "regime_level \<Rightarrow> int \<Rightarrow> int" where
  "shown_leverage lv l = (case lv of RegimeNarrow \<Rightarrow> min l 2 | RegimeStandard \<Rightarrow> min l 4 | RegimeWide \<Rightarrow> min l 3 | RegimeVolatile \<Rightarrow> min l 2 | _ \<Rightarrow> l)"

text \<open>The first position in the symbol: its value at entry and its size.\<close>

definition shown_position :: "gostring \<Rightarrow> govals list \<Rightarrow> f64 \<times> f64" where
  "shown_position sy ps =
     (case find (\<lambda>p. str_or_empty p ''symbol'' = sy) ps of None \<Rightarrow> (0, 0)
      | Some p \<Rightarrow> (\<bar>f64_or0 p ''positionAmt'' * f64_or0 p ''entryPrice''\<bar>, f64_or0 p ''positionAmt''))"

text \<open>The price that comes with an error is read as 0, and no positions come with one.\<close>

definition risk_info :: "'x grid_outside \<Rightarrow> grid_config \<Rightarrow> 'x gworld \<Rightarrow> grid_risk \<times> 'x gworld" where
  "risk_info X c w =
     (let g = gw_g w; (pr, w) = gcall (gx_MarketPrice X (gc_Symbol c)) w; (ps, w) = gcall (gx_GetPositions X) w;
          price = (case pr of Inl e \<Rightarrow> 0 | Inr p \<Rightarrow> p); lev = gc_Leverage c; inv = gc_TotalInvestment c;
          (val, sz) = shown_position (gc_Symbol c) (case ps of Inl e \<Rightarrow> [] | Inr ps \<Rightarrow> ps);
          lv = shown_regime (gs_CurrentRegimeLevel g);
          mx = inv * shown_position_pct lv / Fin 100 * fl (of_int lev);
          open_pos = (\<not> feq sz 0 \<and> price > 0);
          away = (if open_pos then Fin 100 / fl (of_int lev) * fl (9 / 10) else 0)
      in (\<lparr>rg_CurrentLeverage = lev, rg_EffectiveLeverage = (if inv > 0 then val / inv else 0),
           rg_RecommendedLeverage = shown_leverage lv lev, rg_CurrentPosition = val, rg_MaxPosition = mx,
           rg_PositionPercent = (if mx > 0 then val / mx * Fin 100 else 0),
           rg_LiquidationPrice = (if \<not> open_pos then 0
             else if sz > 0 then price * (1 - away / Fin 100) else price * (1 + away / Fin 100)),
           rg_LiquidationDistance = away, rg_RegimeLevel = lv, rg_Box = (gs_Box g)\<lparr>bx_CurrentPrice := price\<rparr>,
           rg_Breakout = (gs_BreakoutLevel g, gs_BreakoutDirection g),
           rg_Direction = (gs_CurrentDirection g, gs_DirectionChangeCount g, gc_EnableDirectionAdjust c)\<rparr>, w))"

text \<open>\<open>None\<close> is the empty answer for a strategy without a grid.\<close>

definition GetGridRiskInfo ::
  "'x grid_outside \<Rightarrow> ('x, 'd) grid_trader \<Rightarrow> (perr + grid_risk option) \<times> ('x, 'd) grid_trader" where
  "GetGridRiskInfo X t =
     (case (gr_Strategy t, grid_config_of t, gr_grid t) of
        (None, _, _) \<Rightarrow> (Inl (Panic ''nil pointer dereference''), t)
      | (Some _, None, _) \<Rightarrow> (Inr None, t)
      | (Some _, Some _, None) \<Rightarrow> (Inl (Panic ''nil pointer dereference''), t)
      | (Some _, Some c, Some g) \<Rightarrow> (case on_grid (risk_info X c) g t of (r, t) \<Rightarrow> (Inr (Some r), t)))"

text \<open>Asking before the trader has run is a nil dereference: there is no grid yet.\<close>

lemma risk_info_before_run:
  "IsGridStrategy t \<Longrightarrow> gr_grid t = None \<Longrightarrow> GetGridRiskInfo X t = (Inl (Panic ''nil pointer dereference''), t)"
  by (auto simp: GetGridRiskInfo_def IsGridStrategy_def grid_config_of_def split: option.splits)

end
