(* ===== verification/Market_Correct.thy ===== *)
theory Market_Correct
  imports Fut_Market
begin

text \<open>
  What holds of the market data: the range of the relative strength, the channels against their definition
  as extremes, the lengths of the series, and what a snapshot never holds.
\<close>

section \<open>Relative strength\<close>

text \<open>Not negative, infinities and no number included.\<close>

abbreviation nneg :: "f64 \<Rightarrow> bool" where
  "nneg a \<equiv> \<not> a < 0"

lemma nneg_simps [simp]: "\<not> PInf < 0" "NInf < 0" "Fin r < 0 \<longleftrightarrow> r < 0"
  by (simp_all add: zero_f64_def)

lemma nneg_fl [simp]: "0 \<le> r \<Longrightarrow> nneg (fl r)"
  using fl_nonneg [of r] by (auto dest: f64_less_not_le)

lemma nneg_plus: "nneg a \<Longrightarrow> nneg b \<Longrightarrow> nneg (a + b)"
  by (cases a; cases b) simp_all

lemma nneg_times: "nneg a \<Longrightarrow> nneg b \<Longrightarrow> nneg (a * b)"
  by (cases a; cases b) simp_all

lemma nneg_divide: "nneg a \<Longrightarrow> nneg b \<Longrightarrow> nneg (a / b)"
  by (cases a; cases b) simp_all

lemma nneg_minus: "\<not> 0 < a \<Longrightarrow> nneg (- a)"
  by (cases a) (auto simp: zero_f64_def)

lemma nneg_pos: "0 < a \<Longrightarrow> nneg (a :: f64)"
  by (cases a) (auto simp: zero_f64_def)

lemmas nneg_arith = nneg_plus nneg_times nneg_divide nneg_minus nneg_pos nneg_fl

lemma gain_loss_nneg:
  assumes "nneg g" "nneg l"
  shows "case foldl (\<lambda>(g, l) d. if d > 0 then (g + d, l) else (g, l + - d)) (g, l) ds of (g', l') \<Rightarrow> nneg g' \<and> nneg l'"
  using assms by (induction ds arbitrary: g l) (auto simp: nneg_arith)

lemma smooth_nneg:
  assumes "nneg g" "nneg l" "0 < p"
  shows "case foldl (smooth_gain_loss p) (g, l) ds of (g', l') \<Rightarrow> nneg g' \<and> nneg l'"
  using assms by (induction ds arbitrary: g l) (auto simp: smooth_gain_loss_def Let_def nneg_arith)

lemma percent_of:
  assumes "1 \<le> b \<or> b = NaN"
  shows "\<not> Fin 100 - Fin 100 / b < 0 \<and> \<not> Fin 100 - Fin 100 / b > Fin 100"
proof (cases b)
  case (Fin r)
  then have r: "1 \<le> r" using assms by (simp add: one_f64_def)
  have "0 \<le> 100 / r" "100 / r \<le> 100" using r by (simp_all add: field_simps)
  then have q: "0 \<le> rnd (100 / r)" "rnd (100 / r) \<le> 100"
    using rnd_nonneg rnd_mono [of "100 / r" 100] rnd_of_int [of 100] by simp_all
  have "\<bar>100 / r\<bar> \<le> 2 ^ 60" using r by (simp add: field_simps)
  then have "fl (100 / r) = Fin (rnd (100 / r))" by (rule fl_moderate)
  then have d: "Fin 100 - Fin 100 / b = fl (100 - rnd (100 / r))" using Fin r by (simp add: minus_f64_def)
  have "fl (100 - rnd (100 / r)) \<le> fl 100" using q by (intro fl_mono) simp
  moreover have "fl 100 = Fin 100" using fl_of_int [of 100] by simp
  ultimately show ?thesis using d q by (auto dest: f64_less_not_le)
next
  case NInf then show ?thesis using assms by (simp add: one_f64_def)
qed (use fl_of_int [of 100] in \<open>auto simp: minus_f64_def\<close>)

lemma one_plus: "nneg a \<Longrightarrow> 1 \<le> 1 + a \<or> 1 + a = NaN"
  using fl_mono [of 1] by (cases a) (auto simp: one_f64_def)

text \<open>
  C30: the relative strength index is between 0 and 100, whatever the candles are, or not a number.
\<close>

theorem rsi_in_range:
  assumes "0 < p"
  shows "calculateRSI ks p = NaN \<or> 0 \<le> calculateRSI ks p \<and> calculateRSI ks p \<le> Fin 100"
proof -
  obtain g l where 1: "gain_loss (take p (differences (closes ks))) = (g, l)" by (rule prod.exhaust)
  let ?n = "fl (of_nat p)" and ?ds = "drop p (differences (closes ks))"
  obtain g' l' where 2: "foldl (smooth_gain_loss p) (g / ?n, l / ?n) ?ds = (g', l')" by (rule prod.exhaust)
  have "nneg g \<and> nneg l" using gain_loss_nneg [of 0 0 "take p (differences (closes ks))"] 1 by (simp add: gain_loss_def)
  then have "nneg g' \<and> nneg l'" using smooth_nneg [of "g / ?n" "l / ?n" p ?ds] assms 2 by (simp add: nneg_arith)
  then have "1 \<le> 1 + g' / l' \<or> 1 + g' / l' = NaN" by (simp add: one_plus nneg_divide)
  from percent_of [OF this] have "\<not> rsi_of (g', l') < 0 \<and> \<not> rsi_of (g', l') > Fin 100"
    by (simp add: rsi_of_def)
  moreover have "calculateRSI ks p = (if length ks \<le> p then 0 else rsi_of (g', l'))"
    using 1 2 by (simp add: calculateRSI_def Let_def)
  ultimately show ?thesis by (auto simp: f64_not_less zero_f64_def)
qed

definition rising :: "kline list" where
  "rising = map (\<lambda>c. \<lparr>kl_OpenTime = 0, kl_Open = c, kl_High = c, kl_Low = c, kl_Close = c, kl_Volume = 1, kl_CloseTime = 0\<rparr>)
     [Fin 1, Fin 3, Fin 2, Fin 5]"

theorem rsi_in_range_witness:
  "calculateRSI rising 2 \<le> Fin 100 \<and> Fin 50 < calculateRSI rising 2"
proof -
  have c: "calculateRSI rising 2 \<noteq> NaN \<and> Fin 50 < calculateRSI rising 2"
    by (simp add: calculateRSI_def rising_def Let_def gain_loss_def smooth_gain_loss_def rsi_of_def feq_def
        zero_f64_def one_f64_def minus_f64_def f64_eval)
  then show ?thesis using rsi_in_range [of 2 rising] by simp
qed

section \<open>Channels\<close>

text \<open>The channel against its definition: the extremes of the last candles.\<close>

lemma widen_extremes:
  assumes "widen ks u l = (u', l')" "\<forall>k \<in> set ks. kl_High k \<noteq> NaN \<and> kl_Low k \<noteq> NaN" "u \<noteq> NaN" "l \<noteq> NaN"
  shows "u' \<in> insert u (kl_High ` set ks) \<and> l' \<in> insert l (kl_Low ` set ks) \<and>
    (\<forall>h \<in> insert u (kl_High ` set ks). h \<le> u') \<and> (\<forall>h \<in> insert l (kl_Low ` set ks). l' \<le> h)"
  using assms
proof (induction ks u l rule: widen.induct)
  case (2 k ks u l)
  let ?u = "if kl_High k > u then kl_High k else u" and ?l = "if kl_Low k < l then kl_Low k else l"
  have ih: "u' \<in> insert ?u (kl_High ` set ks) \<and> l' \<in> insert ?l (kl_Low ` set ks) \<and>
    (\<forall>h \<in> insert ?u (kl_High ` set ks). h \<le> u') \<and> (\<forall>h \<in> insert ?l (kl_Low ` set ks). l' \<le> h)"
    using 2 by simp
  have u: "u \<le> ?u" "kl_High k \<le> ?u" and l: "?l \<le> l" "?l \<le> kl_Low k"
    using 2(3-5) by (auto simp: f64_not_less f64_refl intro: f64_less_imp_le)
  from ih have "?u \<le> u'" "l' \<le> ?l" by simp_all
  then have a: "u \<le> u'" "kl_High k \<le> u'" "l' \<le> l" "l' \<le> kl_Low k" using u l by (blast intro: f64_le_trans)+
  from ih have "u' \<in> insert u (insert (kl_High k) (kl_High ` set ks))" "l' \<in> insert l (insert (kl_Low k) (kl_Low ` set ks))"
    by (cases "kl_High k > u"; cases "kl_Low k < l"; simp; blast)+
  then show ?case using ih a by simp
qed (simp add: f64_refl)

lemma last_candles: "drop (length ks - n) ks = rev (take n (rev ks))"
  by (simp add: take_rev)

lemma donchian_extremes:
  assumes "calculateDonchian ks p = (u, l)" "ks \<noteq> []" "0 < p" "\<forall>k \<in> set ks. kl_High k \<noteq> NaN \<and> kl_Low k \<noteq> NaN"
  shows "u \<in> kl_High ` set (take (nat p) (rev ks)) \<and> l \<in> kl_Low ` set (take (nat p) (rev ks)) \<and>
    (\<forall>k \<in> set (take (nat p) (rev ks)). kl_High k \<le> u \<and> l \<le> kl_Low k)"
proof -
  let ?ds = "drop (length ks - nat p) ks"
  have "?ds \<noteq> []" using assms(2,3) by (cases ks) auto
  then obtain k rest where d: "?ds = k # rest" by (cases ?ds) auto
  have sub: "set (k # rest) \<subseteq> set ks" using set_drop_subset [of "length ks - nat p" ks] d by simp
  have "widen rest (kl_High k) (kl_Low k) = (u, l)" using assms(1-3) d by (simp add: calculateDonchian_def)
  from widen_extremes [OF this] assms(4) sub
  have "u \<in> kl_High ` set (k # rest) \<and> l \<in> kl_Low ` set (k # rest) \<and> (\<forall>k' \<in> set (k # rest). kl_High k' \<le> u \<and> l \<le> kl_Low k')"
    by (simp add: subset_iff)
  moreover have "set (take (nat p) (rev ks)) = set (k # rest)" by (metis d last_candles set_rev)
  ultimately show ?thesis by simp
qed

section \<open>Series and frames\<close>

lemma series_length: "length (series_from start least f ks) \<le> length ks - start"
  unfolding series_from_def using length_filter_le [of "\<lambda>i. least \<le> i" "[start..<length ks]"] by simp

lemma bands_length:
  "length (tf_BOLLMiddle (calculateTimeframeSeries q ks tf n)) = length (tf_BOLLUpper (calculateTimeframeSeries q ks tf n))"
  "length (tf_BOLLLower (calculateTimeframeSeries q ks tf n)) = length (tf_BOLLUpper (calculateTimeframeSeries q ks tf n))"
  by (simp_all add: calculateTimeframeSeries_def Let_def)

text \<open>However many candles there are, a frame shows as many as were asked for, ten where none were.\<close>

lemma frame_bounded:
  assumes "0 < n"
  shows "let f = calculateTimeframeSeries q ks tf n in
    length (tf_Klines f) = min (length ks) (nat n) \<and> length (tf_EMA20Values f) \<le> nat n \<and> length (tf_EMA50Values f) \<le> nat n \<and>
    length (tf_MACDValues f) \<le> nat n \<and> length (tf_RSI7Values f) \<le> nat n \<and> length (tf_RSI14Values f) \<le> nat n \<and>
    length (tf_BOLLUpper f) \<le> nat n"
proof -
  have "length (series_from (length ks - nat n) least f ks) \<le> nat n" for least and f :: "kline list \<Rightarrow> f64"
    using series_length [of "length ks - nat n" least f ks] by simp
  moreover have "length (series_from (length ks - nat n) least f ks) \<le> nat n" for least and f :: "kline list \<Rightarrow> f64 \<times> f64 \<times> f64"
    using series_length [of "length ks - nat n" least f ks] by simp
  ultimately show ?thesis using assms by (simp add: calculateTimeframeSeries_def Let_def)
qed

lemma set_mput_subset: "set (mput k v m) \<subseteq> insert (k, v) (set m)"
  unfolding mput_def by (induction m) auto

text \<open>The frames of a snapshot are computed of candles, under their own names.\<close>

lemma fetch_frames_of:
  assumes "fetch_frames S sy primary n tfs acc x = (acc', x')"
    "list_all (\<lambda>(tf, f). \<exists>ks. ks \<noteq> [] \<and> f = calculateTimeframeSeries (ms_Sqrt S) ks tf n) (snd acc)"
  shows "list_all (\<lambda>(tf, f). \<exists>ks. ks \<noteq> [] \<and> f = calculateTimeframeSeries (ms_Sqrt S) ks tf n) (snd acc')"
  using assms
proof (induction S sy primary n tfs acc x rule: fetch_frames.induct)
  case (2 S sy primary cnt tf tfs acc x)
  then show ?case
    by (fastforce split: prod.splits sum.splits list.splits simp: list_all_iff dest!: set_mp [OF set_mput_subset])
qed simp

text \<open>
  What \<open>GetWithTimeframes\<close> returns never holds a longer term context, and each frame is computed of candles.
\<close>

lemma snapshot_of_frames:
  assumes "GetWithTimeframes S sy tfs p n x = (Inr m, x')"
  shows "mk_LongerTermContext m = None" "mk_IntradaySeries m = None"
    "map_of (mk_TimeframeData m) tf = Some f \<Longrightarrow> \<exists>ks. ks \<noteq> [] \<and> f = calculateTimeframeSeries (ms_Sqrt S) ks tf n"
proof -
  have "mk_LongerTermContext m = None \<and> mk_IntradaySeries m = None \<and>
    list_all (\<lambda>(tf, f). \<exists>ks. ks \<noteq> [] \<and> f = calculateTimeframeSeries (ms_Sqrt S) ks tf n) (mk_TimeframeData m)"
    using assms unfolding GetWithTimeframes_def Let_def
    by (auto split: list.splits prod.splits if_splits simp: base_snapshot_def simp del: fetch_frames.simps
        dest!: fetch_frames_of)
  then show "mk_LongerTermContext m = None" "mk_IntradaySeries m = None"
    "map_of (mk_TimeframeData m) tf = Some f \<Longrightarrow> \<exists>ks. ks \<noteq> [] \<and> f = calculateTimeframeSeries (ms_Sqrt S) ks tf n"
    by (auto simp: list_all_iff dest!: map_of_SomeD)
qed

text \<open>Intervals that Hyperliquid is not asked for: their candles are those of another interval.\<close>

lemma other_interval:
  "getKlinesFromHyperliquid S sy ''2h'' = getKlinesFromHyperliquid S sy ''1h''"
  "getKlinesFromHyperliquid S sy ''6h'' = getKlinesFromHyperliquid S sy ''4h''"
  "getKlinesFromHyperliquid S sy ''3d'' = getKlinesFromHyperliquid S sy ''1d''"
  "getKlinesFromHyperliquid S sy ''3m'' = getKlinesFromHyperliquid S sy ''5m''"
  by (simp_all add: fun_eq_iff getKlinesFromHyperliquid_def MapTimeframe_def)

lemma other_minutes: "parseTimeframeToMinutes ''2h'' = 2 * parseTimeframeToMinutes ''1h''"
  by code_simp

text \<open>A timeframe that was normalized is normal, and it has a duration.\<close>

lemma normalized_timeframe:
  assumes "NormalizeTimeframe tf = Inr t"
  shows "t \<in> set (map fst supportedTimeframes)" "\<exists>d > 0. TFDuration tf = Inr d"
proof -
  obtain d where d: "map_of supportedTimeframes t = Some d"
    using assms by (auto simp: NormalizeTimeframe_def Let_def split: if_splits)
  then have m: "(t, d) \<in> set supportedTimeframes" by (rule map_of_SomeD)
  then show "t \<in> set (map fst supportedTimeframes)" by force
  have "0 < d" using m by (auto simp: supportedTimeframes_def Let_def)
  then show "\<exists>d > 0. TFDuration tf = Inr d" using assms d by (simp add: TFDuration_def)
qed

section \<open>A range of candles\<close>

text \<open>
  The server's part: the candles of a page close at or after the time the page was asked from, one that is
  well formed at least.
\<close>

definition advancing :: "(int \<Rightarrow> 'x \<Rightarrow> (perr + jcell list list) \<times> 'x) \<Rightarrow> bool" where
  "advancing page \<longleftrightarrow>
     (\<forall>c x rows x' ks. page c x = (Inr rows, x') \<longrightarrow> those (map range_row rows) = Some ks \<longrightarrow> list_all (\<lambda>k. c \<le> kl_CloseTime k) ks)"

lemma pages_end:
  assumes "advancing page"
  shows "\<exists>r. fetch_pages page last_ms cursor ks x = Some r"
proof (induction "nat (last_ms - cursor)" arbitrary: cursor ks x rule: less_induct)
  case less
  obtain r x' where 1: "page cursor x = (r, x')" by (rule prod.exhaust)
  show ?case
  proof (cases "\<exists>rows batch. cursor < last_ms \<and> r = Inr rows \<and> rows \<noteq> [] \<and> those (map range_row rows) = Some batch \<and>
      \<not> length batch < binanceMaxKlineLimit")
    case True
    then obtain row rows batch where c: "cursor < last_ms" and r: "r = Inr (row # rows)"
      and b: "those (map range_row (row # rows)) = Some batch" and l: "\<not> length batch < binanceMaxKlineLimit"
      by (metis neq_Nil_conv)
    have "batch \<noteq> []" using l by (auto simp: binanceMaxKlineLimit_def)
    moreover have "list_all (\<lambda>k. cursor \<le> kl_CloseTime k) batch" using assms 1 r b unfolding advancing_def by blast
    ultimately have "cursor \<le> kl_CloseTime (last batch)" by (simp add: list_all_iff)
    then have "nat (last_ms - (kl_CloseTime (last batch) + 1)) < nat (last_ms - cursor)" using c by linarith
    from less [OF this] show ?thesis using c 1 r b l by (subst fetch_pages.simps) simp
  next
    case False
    then show ?thesis using 1
      by (subst fetch_pages.simps) (auto split: sum.splits list.splits option.splits)
  qed
qed

text \<open>
  asking for a range of candles returns, provided that no page goes back behind the time it was asked from.
\<close>

theorem range_returns:
  assumes "\<forall>s t e. advancing (\<lambda>c. page s t c e)"
  shows "\<exists>r. GetKlinesRange page sy tf start stop x = Some r"
proof -
  have "\<exists>r. fetch_pages (\<lambda>c. page (Normalize sy) t c e) e c [] x = Some r" for t e c
    using assms by (intro pages_end) blast
  then show ?thesis by (simp add: GetKlinesRange_def Let_def split: sum.split)
qed

lemma those_replicate: "those (replicate n (Some k)) = Some (replicate n k)"
  by (induction n) simp_all

definition daily_page :: "gostring \<Rightarrow> gostring \<Rightarrow> int \<Rightarrow> int \<Rightarrow> unit \<Rightarrow> (perr + jcell list list) \<times> unit" where
  "daily_page s t c e x =
     (Inr (replicate 1500 [CNumber (Fin (of_int c)), COther, COther, COther, COther, COther, CNumber (Fin (of_int (c + 1)))]), x)"

theorem range_returns_witness:
  "\<exists>r. GetKlinesRange daily_page ''BTCUSDT'' ''1d'' 0 9000000000 () = Some r"
proof -
  have n: "list_all P (replicate n k) \<longleftrightarrow> n = 0 \<or> P k" for P n and k :: kline by (induction n) auto
  have "\<forall>s t e. advancing (\<lambda>c. daily_page s t c e)"
    by (simp add: advancing_def daily_page_def trunc_int_def those_replicate n)
  then show ?thesis by (rule range_returns)
qed

text \<open>A server that repeats itself keeps the loop going: a range of such a one is never returned.\<close>

definition stuck_page :: "int \<Rightarrow> unit \<Rightarrow> (perr + jcell list list) \<times> unit" where
  "stuck_page c x = (Inr (replicate 1500 [CNumber 0, COther, COther, COther, COther, COther, CNumber 0]), x)"

lemma stuck_pages: "stuck_page c x = (Inr (replicate 1500 [CNumber 0, COther, COther, COther, COther, COther, CNumber 0]), x)"
  by (simp add: stuck_page_def)

lemma stuck_no_result:
  assumes "fetch_pages page e c ks x = Some r"
  shows "\<not> (page = stuck_page \<and> e = 5 \<and> c \<le> 1)"
proof (rule fetch_pages.raw_induct
    [of "\<lambda>page e c ks x r. \<not> (page = stuck_page \<and> e = 5 \<and> c \<le> 1)" "((((page, e), c), ks), x)" r, unfolded prod.case, OF _ assms],
    goal_cases)
  case (1 f page e c ks x r)
  show ?case
  proof
    assume *: "page = stuck_page \<and> e = 5 \<and> c \<le> 1"
    have c: "replicate 1500 a = a # replicate 1499 a" for a :: "jcell list" using replicate_Suc [of 1499 a] by simp
    have "\<exists>ks'. f stuck_page 5 1 ks' () = Some r"
      using 1(2) * by (auto simp: c stuck_pages binanceMaxKlineLimit_def trunc_int_def zero_f64_def those_replicate)
    then show False using 1(1) by fastforce
  qed
qed

lemma stuck_page_loops: "fetch_pages stuck_page 5 0 [] () = None"
  using stuck_no_result [of stuck_page 5 0 "[]" "()"] by (cases "fetch_pages stuck_page 5 0 [] ()") auto

end
