(* ===== verification/Grid_Correct.thy ===== *)
theory Grid_Correct
  imports Fut_Grid Market_Correct
begin

text \<open>
  What holds of the grid strategy: its boxes never break, so that nothing it does about breakouts of
  boxes ever happens and no pause outlasts them; the ladder stays well formed through every cycle; what a
  biased direction assigns, what an order may cost, and what adjusting the grid forgets.
\<close>

section \<open>Boxes\<close>

text \<open>A candle closes between its low and its high.\<close>

definition sane_kline :: "kline \<Rightarrow> bool" where
  "sane_kline k \<longleftrightarrow> kl_Low k \<le> kl_Close k \<and> kl_Close k \<le> kl_High k"

definition candle_law :: "'x market_sources \<Rightarrow> bool" where
  "candle_law S \<longleftrightarrow>
     (\<forall>s e i n x ks x'. ms_CoinAnk S s e i n x = (Inr ks, x') \<longrightarrow> list_all sane_kline ks) \<and>
     (\<forall>s i n x cs x'. ms_Candles S s i n x = (Inr cs, x') \<longrightarrow> list_all sane_kline (map kline_of cs))"

lemma candle_lawD:
  "candle_law S \<Longrightarrow> ms_CoinAnk S s e i n x = (Inr ks, x') \<Longrightarrow> list_all sane_kline ks"
  "candle_law S \<Longrightarrow> ms_Candles S s i n x = (Inr cs, x') \<Longrightarrow> list_all sane_kline (map kline_of cs)"
  unfolding candle_law_def by blast+

lemma coinank_sane:
  "candle_law S \<Longrightarrow> getKlinesFromCoinAnk S sy iv ex n x = (Inr ks, x') \<Longrightarrow> list_all sane_kline ks"
  by (auto simp: getKlinesFromCoinAnk_def Let_def split: prod.splits sum.splits list.splits if_splits dest: candle_lawD(1))

lemma hyperliquid_sane:
  "candle_law S \<Longrightarrow> getKlinesFromHyperliquid S sy iv n x = (Inr ks, x') \<Longrightarrow> list_all sane_kline ks"
  by (auto simp: getKlinesFromHyperliquid_def split: prod.splits sum.splits dest: candle_lawD(2))

lemma sane_not_NaN: "sane_kline k \<Longrightarrow> kl_High k \<noteq> NaN \<and> kl_Low k \<noteq> NaN"
  by (auto simp: sane_kline_def dest: f64_not_NaN)

lemma widen_bounds:
  assumes "widen ks u l = (u', l')" "list_all sane_kline ks" "u \<noteq> NaN" "l \<noteq> NaN"
  shows "u \<le> u' \<and> l' \<le> l \<and> (\<forall>k \<in> set ks. kl_High k \<le> u' \<and> l' \<le> kl_Low k)"
  using assms
proof (induction ks u l rule: widen.induct)
  case (2 k ks u l)
  let ?u = "if kl_High k > u then kl_High k else u" and ?l = "if kl_Low k < l then kl_Low k else l"
  have n: "kl_High k \<noteq> NaN" "kl_Low k \<noteq> NaN" using 2 sane_not_NaN by auto
  have ih: "?u \<le> u' \<and> l' \<le> ?l \<and> (\<forall>k \<in> set ks. kl_High k \<le> u' \<and> l' \<le> kl_Low k)"
    using 2 n by simp
  have "u \<le> ?u" "kl_High k \<le> ?u" "?l \<le> l" "?l \<le> kl_Low k"
    using 2(4,5) n by (auto simp: f64_not_less f64_refl intro: f64_less_imp_le)
  then show ?case using ih by (auto intro: f64_le_trans)
qed (simp add: f64_refl)

lemma donchian_bounds:
  assumes "calculateDonchian ks p = (u, l)" "ks \<noteq> []" "0 < p" "list_all sane_kline ks"
  shows "kl_High (last ks) \<le> u \<and> l \<le> kl_Low (last ks)"
proof -
  let ?ds = "drop (length ks - nat p) ks"
  have "length ks - nat p < length ks" using assms(2,3) by (cases ks) auto
  then have l: "?ds \<noteq> []" "last ?ds = last ks" by simp_all
  then obtain k rest where d: "?ds = k # rest" by (cases ?ds) auto
  have "set ?ds \<subseteq> set ks" by (rule set_drop_subset)
  then have sane: "list_all sane_kline (k # rest)" using assms(4) d by (auto simp: list_all_iff)
  then have n: "kl_High k \<noteq> NaN" "kl_Low k \<noteq> NaN" using sane_not_NaN by auto
  have "widen rest (kl_High k) (kl_Low k) = (u, l)" using assms(1-3) d by (simp add: calculateDonchian_def)
  from widen_bounds [OF this _ n] sane
  have "\<forall>k' \<in> set (k # rest). kl_High k' \<le> u \<and> l \<le> kl_Low k'" by simp
  then show ?thesis using l d last_in_set by metis
qed

definition in_boxes :: "box_data \<Rightarrow> bool" where
  "in_boxes b \<longleftrightarrow> (let p = bx_CurrentPrice b in
     bx_LongLower b \<le> p \<and> p \<le> bx_LongUpper b \<and> bx_MidLower b \<le> p \<and> p \<le> bx_MidUpper b \<and>
     bx_ShortLower b \<le> p \<and> p \<le> bx_ShortUpper b)"

lemma box_holds_price:
  assumes "list_all sane_kline ks" "ks \<noteq> []"
  shows "in_boxes (calculateBoxData ks (kl_Close (last ks)))"
proof -
  have s: "sane_kline (last ks)" using assms by (simp add: list_all_iff)
  have "l \<le> kl_Close (last ks) \<and> kl_Close (last ks) \<le> u" if "calculateDonchian ks p = (u, l)" "0 < p" for p u l
    using donchian_bounds [OF that(1) assms(2) that(2) assms(1)] s by (auto simp: sane_kline_def intro: f64_le_trans)
  then show ?thesis
    by (simp add: in_boxes_def calculateBoxData_def ShortBoxPeriod_def MidBoxPeriod_def LongBoxPeriod_def Let_def split: prod.split)
qed

lemma box_in_boxes:
  assumes "candle_law (gx_Sources X)" "GridBox X sy x = (Inr b, x')"
  shows "in_boxes b"
  using assms
  by (auto simp: GetBoxData_def Let_def split: prod.splits sum.splits if_splits
      intro!: box_holds_price dest: coinank_sane hyperliquid_sane)

lemma in_boxes_no_breakout: "in_boxes b \<Longrightarrow> detectBoxBreakout (Some b) = (BreakoutNone, '''')"
  by (auto simp: in_boxes_def detectBoxBreakout_def Let_def dest: f64_less_not_le)

lemma in_boxes_inside: "in_boxes b \<Longrightarrow> in_long_box b \<and> inside_short (bx_CurrentPrice b) b"
  by (simp add: in_boxes_def in_long_box_def inside_short_def Let_def)

lemma initialize_grid_inited:
  "fst (initialize_grid X cross c w) = None \<longrightarrow> gs_IsInitialized (gw_g (snd (initialize_grid X cross c w)))"
  by (simp add: initialize_grid_def gcall_def Let_def split: prod.split sum.split option.split)

lemma atr_bounds_form:
  "gw_g (atr_bounds X c price w) = (gw_g w)\<lparr>gs_UpperPrice := gs_UpperPrice (gw_g (atr_bounds X c price w)),
     gs_LowerPrice := gs_LowerPrice (gw_g (atr_bounds X c price w))\<rparr>"
  by (simp add: atr_bounds_def gcall_def calculateATRBounds_def calculateDefaultBounds_def Let_def split: prod.split sum.split)

section \<open>Invariants of the grid\<close>

text \<open>
  The elementary changes an operation makes to the grid.  What they keep, with the checks of the boxes,
  a whole cycle keeps.
\<close>

definition stopped_or_same :: "grid_level \<Rightarrow> grid_level \<Rightarrow> bool" where
  "stopped_or_same l l' \<longleftrightarrow> l' = l \<or> lv_State l = ''filled'' \<and> (\<exists>x. l' = l\<lparr>lv_State := ''stopped'', lv_UnrealizedPnL := x\<rparr>)"

locale grid_invariant =
  fixes X :: "'x grid_outside" and P :: "grid_config \<Rightarrow> grid_state \<Rightarrow> bool"
  assumes bounds: "P c g \<Longrightarrow> P c (g\<lparr>gs_UpperPrice := u, gs_LowerPrice := l\<rparr>)"
    and spacing: "P c g \<Longrightarrow> P c (g\<lparr>gs_GridSpacing := f\<rparr>)"
    and flag: "P c g \<Longrightarrow> P c (paused b g)"
    and peak: "P c g \<Longrightarrow> P c (raise_peak f g)"
    and drawdown: "P c g \<Longrightarrow> P c (raise_drawdown f g)"
    and day: "P c g \<Longrightarrow> P c (reset_day X now g)"
    and loss: "P c g \<Longrightarrow> P c (count_loss f g)"
    and reset: "P c g \<Longrightarrow> P c (reset_pending g)"
    and book: "P c g \<Longrightarrow> P c (book_order d oid g)"
    and forget: "P c g \<Longrightarrow> P c (forget_order oid g)"
    and sync: "P c g \<Longrightarrow> P c (reconcile active f g)"
    and levels: "P c g \<Longrightarrow> P c (snd (initializeGridLevels e price c g))"
    and restore: "P c g \<Longrightarrow> P c (g\<lparr>gs_Levels := restore_level (gs_Levels g) l'\<rparr>)"
    and stop: "P c g \<Longrightarrow> list_all2 stopped_or_same (gs_Levels g) ls \<Longrightarrow> P c (g\<lparr>gs_Levels := ls\<rparr>)"
    and late: "P c (gw_g w) \<Longrightarrow> P c (gw_g (snd (late_guards X c w)))"
    and fresh: "initializeGridLevels e price c (spaced c ((NewGridState c)\<lparr>gs_UpperPrice := u, gs_LowerPrice := l\<rparr>)) = (None, g) \<Longrightarrow>
        P c (g\<lparr>gs_IsInitialized := True\<rparr>)"
begin

lemma upd_g_keeps: "(\<And>g. P c g \<Longrightarrow> P c (f g)) \<Longrightarrow> P c (gw_g w) \<Longrightarrow> P c (gw_g (upd_g f w))"
  by simp

lemma cancel_all: "P c (gw_g w) \<Longrightarrow> P c (gw_g (snd (cancelAllGridOrders X c' w)))"
  by (simp add: cancelAllGridOrders_def gcall_def reset split: prod.split option.split)

lemma breakout: "P c (gw_g w) \<Longrightarrow> P c (gw_g (snd (checkBreakout X c' w)))"
  by (simp add: checkBreakout_def gcall_def split: prod.split sum.split)

lemma handle: "P c (gw_g w) \<Longrightarrow> P c (gw_g (snd (handleBreakout X c' f w)))"
  by (simp add: handleBreakout_def cancel_all flag)

lemma max_drawdown: "P c (gw_g w) \<Longrightarrow> P c (gw_g (snd (checkMaxDrawdown X c' w)))"
  by (simp add: checkMaxDrawdown_def gcall_def Let_def peak drawdown split: prod.split sum.split)

lemma daily_loss: "P c (gw_g w) \<Longrightarrow> P c (gw_g (snd (checkDailyLossLimit X c' w)))"
  by (simp add: checkDailyLossLimit_def Let_def day)

lemma close_all: "gw_g (close_positions X ours sy ps w) = gw_g w"
  by (induction X ours sy ps w rule: close_positions.induct) (simp_all split: option.split)

lemma emergency: "P c (gw_g w) \<Longrightarrow> P c (gw_g (emergencyExit X c' w))"
  by (simp add: emergencyExit_def gcall_def close_all flag cancel_all Let_def split: prod.split sum.split)

lemma guards_keep:
  assumes "P c (gw_g w)"
  shows "P c (gw_g (snd (grid_guards X c w)))"
proof -
  have ls: "P c (gw_g (snd (loss_guards X c w)))" if h: "P c (gw_g w)" for w
  proof -
    obtain e1 f1 w1 where 1: "checkMaxDrawdown X c w = ((e1, f1), w1)" by (metis prod.exhaust)
    obtain e2 f2 w2 where 2: "checkDailyLossLimit X c w1 = ((e2, f2), w2)" by (metis prod.exhaust)
    have "P c (gw_g w1)" using max_drawdown [OF h, of c] 1 by simp
    moreover from this have "P c (gw_g w2)" using daily_loss [of c w1 c] 2 by simp
    ultimately show ?thesis by (simp add: loss_guards_def 1 2 emergency flag late)
  qed
  obtain kd f1 w1 where 1: "checkBreakout X c w = ((kd, f1), w1)" by (metis prod.exhaust)
  obtain e2 w2 where 2: "handleBreakout X c f1 w1 = (e2, w2)" by (metis prod.exhaust)
  have "P c (gw_g w1)" using breakout [OF assms, of c] 1 by simp
  moreover from this have "P c (gw_g w2)" using handle [of c w1 c f1] 2 by simp
  ultimately show ?thesis by (simp add: grid_guards_def 1 2 ls split: option.split)
qed

lemma place: "P c (gw_g w) \<Longrightarrow> P c (gw_g (snd (placeGridLimitOrder X c' side d w)))"
proof -
  let ?q = "capped_quantity c' (gs_Levels (gw_g w)) d"
  assume p: "P c (gw_g w)"
  obtain a1 a2 a3 w1 where 1: "checkTotalPositionLimit X c' (kd_Symbol d) (?q * kd_Price d) w = ((a1, a2, a3), w1)"
    by (metis prod.exhaust)
  have "gw_g w1 = gw_g w" using 1 by (auto simp: checkTotalPositionLimit_def gcall_def Let_def split: prod.splits)
  then show ?thesis using p by (simp add: placeGridLimitOrder_def 1 gcall_def Let_def book split: prod.split sum.split)
qed

lemma cancel: "P c (gw_g w) \<Longrightarrow> P c (gw_g (snd (cancelGridOrder X d w)))"
  by (simp add: cancelGridOrder_def gcall_def forget split: prod.split option.split)

lemma adjust: "P c (gw_g w) \<Longrightarrow> P c (gw_g (snd (adjustGrid X c w)))"
  using cancel_all [of c w c] levels [of c]
  by (auto simp: adjustGrid_def gcall_def Let_def split: prod.split sum.split) (metis snd_conv)

lemma decision: "P c (gw_g w) \<Longrightarrow> P c (gw_g (snd (executeGridDecision X c d w)))"
  unfolding executeGridDecision_def Let_def
  by (simp add: place cancel cancel_all adjust pauseGrid_def resumeGrid_def flag)

lemma decisions: "P c (gw_g w) \<Longrightarrow> P c (gw_g (snd (execute_grid X c ds w)))"
proof (induction ds arbitrary: w)
  case (Cons d ds)
  obtain e w1 where 1: "executeGridDecision X c d w = (e, w1)" by (rule prod.exhaust)
  have "P c (gw_g w1)" using decision [OF Cons.prems, of d] 1 by simp
  then show ?case using Cons by (simp add: 1 split: option.split)
qed simp

lemma stop_levels_keep:
  assumes "stop_levels X c price ls w = (ls', w')" "P c' (gw_g w)"
  shows "P c' (gw_g w') \<and> gs_Levels (gw_g w') = gs_Levels (gw_g w) \<and> list_all2 stopped_or_same ls ls'"
  using assms
proof (induction ls arbitrary: w ls')
  case (Cons l ls)
  show ?case
  proof (cases "stop_hit c price l")
    case False
    then show ?thesis using Cons.IH [of w] Cons.prems by (auto simp: stopped_or_same_def split: prod.splits)
  next
    case True
    obtain e w1 where 1: "gcall (gx_Close X (lv_Side l = ''buy'') (gc_Symbol c) (lv_PositionSize l)) w = (e, w1)" by (rule prod.exhaust)
    have g: "gw_g w1 = gw_g w" using gcall_split [OF 1] .
    show ?thesis
    proof (cases e)
      case None
      let ?w = "upd_g (count_loss (realized_loss price l)) w1"
      obtain ls2 where 2: "stop_levels X c price ls ?w = (ls2, w')"
        "ls' = l\<lparr>lv_State := ''stopped'', lv_UnrealizedPnL := realized_loss price l\<rparr> # ls2"
        using Cons.prems(1) True 1 None by (auto split: prod.splits)
      have "P c' (gw_g ?w)" using loss Cons.prems(2) g by simp
      from Cons.IH [OF 2(1) this] have "P c' (gw_g w') \<and> gs_Levels (gw_g w') = gs_Levels (gw_g w) \<and> list_all2 stopped_or_same ls ls2"
        by (simp add: g count_loss_def)
      moreover have "lv_State l = ''filled''" using True by (simp add: stop_hit_def)
      then have "stopped_or_same l (l\<lparr>lv_State := ''stopped'', lv_UnrealizedPnL := realized_loss price l\<rparr>)"
        by (auto simp: stopped_or_same_def)
      ultimately show ?thesis using 2(2) by simp
    next
      case (Some x)
      then obtain ls2 where 2: "stop_levels X c price ls w1 = (ls2, w')" "ls' = l # ls2"
        using Cons.prems(1) True 1 by (auto split: prod.splits)
      from Cons.IH [OF 2(1)] show ?thesis using Cons.prems(2) g 2(2) by (simp add: stopped_or_same_def)
    qed
  qed
qed simp

lemma stop_loss: "P c' (gw_g w) \<Longrightarrow> P c' (gw_g (checkAndExecuteStopLoss X c w))"
proof -
  assume p: "P c' (gw_g w)"
  obtain r w1 where 1: "gcall (gx_MarketPrice X (gc_Symbol c)) w = (r, w1)" by (rule prod.exhaust)
  have g: "gw_g w1 = gw_g w" using gcall_split [OF 1] .
  show ?thesis
  proof (cases r)
    case (Inr price)
    obtain ls w2 where 2: "stop_levels X c price (gs_Levels (gw_g w1)) w1 = (ls, w2)" by (rule prod.exhaust)
    from stop_levels_keep [OF 2] p g show ?thesis by (simp add: checkAndExecuteStopLoss_def 1 Inr 2 [unfolded g] stop)
  qed (simp add: checkAndExecuteStopLoss_def 1 p g)
qed

lemma atr: "P c' (gw_g w) \<Longrightarrow> P c' (gw_g (atr_bounds X c price w))"
  by (simp add: atr_bounds_def gcall_def calculateATRBounds_def calculateDefaultBounds_def Let_def bounds split: prod.split sum.split)

lemma restore_all: "P c g \<Longrightarrow> P c (g\<lparr>gs_Levels := foldl restore_level (gs_Levels g) fs\<rparr>)"
proof (induction fs rule: rev_induct)
  case (snoc f fs)
  from restore [OF snoc.IH [OF snoc.prems], of f] show ?case by simp
qed simp

lemma rebuild: "P c (gw_g w) \<Longrightarrow> P c (gw_g (snd (rebuild_around X c price w)))"
proof -
  assume p: "P c (gw_g w)"
  let ?w = "if gc_UseATRBounds c then atr_bounds X c price w else upd_g (calculateDefaultBoundsLocked price c) w"
  have "P c (gw_g ?w)" using p by (simp add: atr calculateDefaultBoundsLocked_def calculateDefaultBounds_def Let_def bounds)
  then have "P c (spaced c (gw_g ?w))" by (simp add: spaced_def spacing)
  then have "P c (snd (initializeGridLevels (gx_Exp X) price c (spaced c (gw_g ?w))))" by (rule levels)
  then show ?thesis
    by (auto simp: rebuild_around_def initializeGridLevelsLocked_def Let_def restore_all split: prod.split option.split)
qed

lemma auto_adjust: "P c (gw_g w) \<Longrightarrow> P c (gw_g (snd (autoAdjustGrid X c w)))"
  by (auto simp: autoAdjustGrid_def gcall_def rebuild cancel_all split: prod.split sum.split)

lemma sync_keeps: "P c (gw_g w) \<Longrightarrow> P c (gw_g (snd (syncGridState X c w)))"
proof -
  assume p: "P c (gw_g w)"
  obtain r w1 where 1: "gcall (gx_OpenOrders X (gc_Symbol c)) w = (r, w1)" by (rule prod.exhaust)
  obtain ps w2 where 2: "gcall (gx_GetPositions X) w1 = (ps, w2)" by (rule prod.exhaust)
  have g: "gw_g w1 = gw_g w" "gw_g w2 = gw_g w" using gcall_split [OF 1] gcall_split [OF 2] by simp_all
  show ?thesis
    using p g by (cases r) (simp_all add: syncGridState_def 1 2 auto_adjust stop_loss sync)
qed

lemma context_keeps: "gw_g (snd (buildGridContext X c w)) = gw_g w"
  by (simp add: buildGridContext_def gcall_def Let_def split: prod.split sum.split option.split)

lemma ask_keeps: "gw_g (snd (GetGridDecisions X t c lang w)) = gw_g w"
  by (simp add: GetGridDecisions_def gcall_def split: prod.split sum.split)

lemma decide_keeps:
  assumes "P c (gw_g w)"
  shows "P c (gw_g (snd (grid_decide X c lang w)))"
proof -
  obtain r w1 where 1: "buildGridContext X c w = (r, w1)" by (rule prod.exhaust)
  have p1: "P c (gw_g w1)" using context_keeps [of c w] 1 assms by simp
  show ?thesis
  proof (cases r)
    case (Inr t)
    obtain s w2 where 2: "GetGridDecisions X t c lang w1 = (s, w2)" by (rule prod.exhaust)
    have p2: "P c (gw_g w2)" using ask_keeps [of t c lang w1] 2 p1 by simp
    show ?thesis
    proof (cases s)
      case (Inr ds)
      obtain e w3 where 3: "execute_grid X c ds w2 = (e, w3)" by (rule prod.exhaust)
      obtain e' w4 where 4: "syncGridState X c w3 = (e', w4)" by (rule prod.exhaust)
      have p3: "P c (gw_g w3)" using decisions [OF p2, of ds] 3 by simp
      have p4: "P c (gw_g w4)" using sync_keeps [OF p3] 4 by simp
      show ?thesis using p2 p3 p4 \<open>r = Inr t\<close> by (auto simp: grid_decide_def 1 2 Inr 3 4 split: option.split)
    qed (use p2 \<open>r = Inr t\<close> in \<open>simp add: grid_decide_def 1 2\<close>)
  qed (use p1 in \<open>simp add: grid_decide_def 1\<close>)
qed

text \<open>A trader whose grid, once it is set up, has the property.\<close>

definition holds :: "('x, 'd) grid_trader \<Rightarrow> bool" where
  "holds t \<longleftrightarrow> (\<forall>c g. grid_config_of t = Some c \<longrightarrow> gr_grid t = Some g \<longrightarrow> gs_IsInitialized g \<longrightarrow> P c g)"

lemma on_grid_holds:
  assumes "grid_config_of t = Some c" "\<And>w. P c (gw_g w) \<Longrightarrow> P c (gw_g (snd (f w)))" "P c g" "on_grid f g t = (r, t')"
  shows "grid_config_of t' = Some c \<and> (\<exists>g'. gr_grid t' = Some g' \<and> P c g')"
  using assms(1,4) assms(2) [of "\<lparr>gw_x = gr_x t, gw_g = g\<rparr>"] assms(3)
  by (auto simp: on_grid_def grid_config_of_def split: prod.splits)

lemma cycle_holds:
  assumes c: "grid_config_of t = Some c" and g: "P c g"
  shows "\<exists>g'. gr_grid (snd (grid_cycle X db c g t)) = Some g' \<and> P c g' \<and> grid_config_of (snd (grid_cycle X db c g t)) = Some c"
proof -
  obtain r t1 where 1: "on_grid (grid_guards X c) g t = (r, t1)" by (rule prod.exhaust)
  then obtain g1 where t1: "grid_config_of t1 = Some c" "gr_grid t1 = Some g1" "P c g1"
    using on_grid_holds [OF c guards_keep g 1] by auto
  obtain s t2 where 2: "on_grid (grid_decide X c (grid_language t1)) g1 t1 = (s, t2)" by (rule prod.exhaust)
  then obtain g2 where t2: "grid_config_of t2 = Some c" "gr_grid t2 = Some g2" "P c g2"
    using on_grid_holds [OF t1(1) decide_keeps t1(3) 2] by auto
  have "grid_config_of (saveGridDecisionRecord X db ds t2) = Some c" "gr_grid (saveGridDecisionRecord X db ds t2) = Some g2" for ds
    using t2 by (simp_all add: saveGridDecisionRecord_def grid_config_of_def Let_def)
  then show ?thesis
    using t1 t2 by (auto simp: grid_cycle_def 1 2 split: option.split sum.split)
qed

lemma initialize_holds:
  assumes "grid_config_of t = Some c"
  shows "holds (snd (InitializeGrid X t))"
proof -
  let ?w = "\<lparr>gw_x = gr_x t, gw_g = NewGridState c\<rparr>"
  obtain e w' where e: "initialize_grid X (gr_IsCrossMargin t) c ?w = (e, w')" by (rule prod.exhaust)
  have "gs_IsInitialized (gw_g w') \<longrightarrow> P c (gw_g w')"
  proof -
    obtain r w1 where 1: "gcall (gx_MarketPrice X (gc_Symbol c)) ?w = (r, w1)" by (rule prod.exhaust)
    have g1: "gw_g w1 = NewGridState c" using gcall_split [OF 1] by simp
    show ?thesis
    proof (cases r)
      case (Inl x)
      have "\<not> gs_IsInitialized (NewGridState c)" by (simp add: NewGridState_def)
      then show ?thesis using e g1 Inl by (auto simp: initialize_grid_def 1)
    next
      case (Inr price)
      let ?w2 = "if gc_UseATRBounds c then atr_bounds X c price w1
                 else upd_g (\<lambda>g. g\<lparr>gs_UpperPrice := gc_UpperPrice c, gs_LowerPrice := gc_LowerPrice c\<rparr>) w1"
      obtain u l where b: "gw_g ?w2 = (NewGridState c)\<lparr>gs_UpperPrice := u, gs_LowerPrice := l\<rparr>"
      proof (cases "gc_UseATRBounds c")
        case True
        from atr_bounds_form [of X c price w1] show ?thesis using that True by (simp add: g1)
      qed (use that in \<open>simp add: g1\<close>)
      obtain e3 g3 where 3: "initializeGridLevels (gx_Exp X) price c (spaced c (gw_g ?w2)) = (e3, g3)" by (rule prod.exhaust)
      show ?thesis
      proof (cases e3)
        case None
        from fresh [OF 3 [unfolded None b]] show ?thesis
          using e by (auto simp: initialize_grid_def 1 Inr 3 None Let_def)
      next
        case (Some x)
        then have "g3 = spaced c (gw_g ?w2)" using 3 by (auto simp: initializeGridLevels_def Let_def split: if_splits)
        then have "\<not> gs_IsInitialized g3" by (simp only: b) (simp add: spaced_def NewGridState_def)
        then show ?thesis using e by (auto simp: initialize_grid_def 1 Inr 3 Some Let_def)
      qed
    qed
  qed
  then show ?thesis using assms e by (auto simp: InitializeGrid_def on_grid_def holds_def grid_config_of_def)
qed

theorem cycle_keeps:
  assumes "holds t"
  shows "holds (snd (RunGridCycle X db t))"
proof -
  let ?i = "if (case gr_grid t of None \<Rightarrow> True | Some g \<Rightarrow> \<not> gs_IsInitialized g) then InitializeGrid X t else (None, t)"
  obtain e t1 where 1: "?i = (e, t1)" by (rule prod.exhaust)
  have h: "holds t1"
    using 1 assms initialize_holds [of t] by (cases "grid_config_of t") (auto simp: InitializeGrid_def split: if_splits)
  have init: "\<exists>g. gr_grid t1 = Some g \<and> gs_IsInitialized g" if "e = None"
  proof (cases "case gr_grid t of None \<Rightarrow> True | Some g \<Rightarrow> \<not> gs_IsInitialized g")
    case True
    then have i: "InitializeGrid X t = (None, t1)" using 1 that by simp
    then obtain c where c: "grid_config_of t = Some c" by (auto simp: InitializeGrid_def split: option.splits)
    let ?r = "initialize_grid X (gr_IsCrossMargin t) c \<lparr>gw_x = gr_x t, gw_g = NewGridState c\<rparr>"
    have "fst ?r = None" "gr_grid t1 = Some (gw_g (snd ?r))"
      using i c by (auto simp: InitializeGrid_def on_grid_def split: prod.splits)
    then show ?thesis using initialize_grid_inited by blast
  qed (use 1 in \<open>auto split: option.splits\<close>)
  show ?thesis
  proof (cases e)
    case None
    then obtain g where g: "gr_grid t1 = Some g" "gs_IsInitialized g" using init by blast
    show ?thesis
    proof (cases "grid_config_of t1")
      case (Some c)
      then have "P c g" using h g by (simp add: holds_def)
      from cycle_holds [OF Some this, of db] show ?thesis using assms by (auto simp: RunGridCycle_def 1 None Some g holds_def)
    qed (use h assms in \<open>simp add: RunGridCycle_def 1 None\<close>)
  qed (use h assms in \<open>simp add: RunGridCycle_def 1\<close>)
qed

end

section \<open>The ladder\<close>

definition level_ok :: "nat \<Rightarrow> grid_level \<Rightarrow> bool" where
  "level_ok i l \<longleftrightarrow>
     lv_Index l = int i \<and> lv_State l \<in> {''empty'', ''pending'', ''filled'', ''stopped''} \<and> lv_Side l \<in> {''buy'', ''sell''} \<and>
     (lv_State l = ''empty'' \<longrightarrow> lv_OrderID l = '''' \<and> lv_OrderQuantity l = 0)"

definition grid_ok :: "grid_config \<Rightarrow> grid_state \<Rightarrow> bool" where
  "grid_ok c g \<longleftrightarrow>
     length (gs_Levels g) = nat (gc_GridCount c) \<and> (\<forall>i < length (gs_Levels g). level_ok i (gs_Levels g ! i)) \<and>
     (\<forall>k i. map_of (gs_OrderBook g) k = Some i \<longrightarrow> 0 \<le> i \<and> i < gc_GridCount c)"

lemma grid_ok_frame [simp]:
  "grid_ok c (g\<lparr>gs_UpperPrice := f\<rparr>) = grid_ok c g" "grid_ok c (g\<lparr>gs_LowerPrice := f\<rparr>) = grid_ok c g"
  "grid_ok c (g\<lparr>gs_GridSpacing := f\<rparr>) = grid_ok c g" "grid_ok c (g\<lparr>gs_IsPaused := b\<rparr>) = grid_ok c g"
  "grid_ok c (g\<lparr>gs_IsInitialized := b\<rparr>) = grid_ok c g" "grid_ok c (g\<lparr>gs_PeakEquity := f\<rparr>) = grid_ok c g"
  "grid_ok c (g\<lparr>gs_MaxDrawdown := f\<rparr>) = grid_ok c g" "grid_ok c (g\<lparr>gs_DailyPnL := f\<rparr>) = grid_ok c g"
  "grid_ok c (g\<lparr>gs_TotalProfit := f\<rparr>) = grid_ok c g" "grid_ok c (g\<lparr>gs_TotalTrades := n\<rparr>) = grid_ok c g"
  "grid_ok c (g\<lparr>gs_LastDailyReset := n\<rparr>) = grid_ok c g" "grid_ok c (g\<lparr>gs_Box := x\<rparr>) = grid_ok c g"
  "grid_ok c (g\<lparr>gs_BreakoutLevel := lv\<rparr>) = grid_ok c g" "grid_ok c (g\<lparr>gs_BreakoutDirection := s\<rparr>) = grid_ok c g"
  "grid_ok c (g\<lparr>gs_BreakoutConfirmCount := n\<rparr>) = grid_ok c g" "grid_ok c (g\<lparr>gs_PositionReductionPct := f\<rparr>) = grid_ok c g"
  "grid_ok c (g\<lparr>gs_CurrentDirection := d\<rparr>) = grid_ok c g" "grid_ok c (g\<lparr>gs_DirectionChangedAt := n\<rparr>) = grid_ok c g"
  "grid_ok c (g\<lparr>gs_DirectionChangeCount := n\<rparr>) = grid_ok c g"
  by (simp_all add: grid_ok_def)

text \<open>Changing each level in a way that keeps it well formed, and dropping orders from the book.\<close>

lemma grid_ok_levels:
  assumes "grid_ok c g" "list_all2 (\<lambda>l l'. \<forall>i. level_ok i l \<longrightarrow> level_ok i l') (gs_Levels g) (gs_Levels g')"
    "\<And>k i. map_of (gs_OrderBook g') k = Some i \<Longrightarrow> map_of (gs_OrderBook g) k = Some i"
  shows "grid_ok c g'"
proof -
  have "\<forall>k i. map_of (gs_OrderBook g') k = Some i \<longrightarrow> 0 \<le> i \<and> i < gc_GridCount c"
    using assms(1,3) unfolding grid_ok_def by blast
  then show ?thesis using assms(1,2) by (simp add: grid_ok_def list_all2_conv_all_nth)
qed

lemma grid_ok_map:
  "grid_ok c g \<Longrightarrow> (\<And>i l. level_ok i l \<Longrightarrow> level_ok i (f l)) \<Longrightarrow>
     (\<And>k i. map_of b k = Some i \<Longrightarrow> map_of (gs_OrderBook g) k = Some i) \<Longrightarrow>
     grid_ok c (g\<lparr>gs_Levels := map f (gs_Levels g), gs_OrderBook := b\<rparr>)"
  by (erule grid_ok_levels) (auto simp: list_all2_conv_all_nth)

lemma emptied_ok [intro]: "level_ok i l \<Longrightarrow> level_ok i (emptied l)"
  by (simp add: level_ok_def emptied_def)

lemma side_ok: "level_ok i l \<Longrightarrow> s \<in> {''buy'', ''sell''} \<Longrightarrow> level_ok i (l\<lparr>lv_Side := s\<rparr>)"
  by (auto simp: level_ok_def)

definition resided :: "grid_level \<Rightarrow> grid_level \<Rightarrow> bool" where
  "resided l l' \<longleftrightarrow> (\<exists>s \<in> {''buy'', ''sell''}. l' = l\<lparr>lv_Side := s\<rparr>)"

lemma residedI [simp]: "resided l (l\<lparr>lv_Side := ''buy''\<rparr>)" "resided l (l\<lparr>lv_Side := ''sell''\<rparr>)" "resided l (side_at price l)"
  by (auto simp: resided_def side_at_def)

lemma bias_sides_form: "list_all2 resided ls (bias_sides d tb ts price nb ns ls)"
  by (induction d tb ts price nb ns ls rule: bias_sides.induct) auto

lemma apply_direction_form: "list_all2 resided (gs_Levels g) (gs_Levels (applyGridDirection price g))"
  by (simp add: applyGridDirection_def Let_def list.rel_map bias_sides_form split: grid_direction.split) (simp add: list.rel_refl)

lemma apply_direction_ok: "grid_ok c g \<Longrightarrow> grid_ok c (applyGridDirection price g)"
proof (erule grid_ok_levels)
  show "list_all2 (\<lambda>l l'. \<forall>i. level_ok i l \<longrightarrow> level_ok i l') (gs_Levels g) (gs_Levels (applyGridDirection price g))"
    by (rule list_all2_mono [OF apply_direction_form]) (auto simp: resided_def intro: side_ok)
qed (simp add: applyGridDirection_def Let_def split: grid_direction.splits)

lemma make_levels_ok: "length (make_levels e c price g) = nat (gc_GridCount c)"
  "i < nat (gc_GridCount c) \<Longrightarrow> level_ok i (make_levels e c price g ! i)"
  by (simp_all add: make_levels_def Let_def level_ok_def make_level_def)

lemma init_levels_ok:
  assumes "\<And>k i. map_of (gs_OrderBook g) k = Some i \<Longrightarrow> 0 \<le> i \<and> i < gc_GridCount c" "initializeGridLevels e price c g = (None, g')"
  shows "grid_ok c g'"
proof -
  have "grid_ok c (g\<lparr>gs_Levels := make_levels e c price g\<rparr>)" using assms(1) by (simp add: grid_ok_def make_levels_ok)
  then show ?thesis using assms(2) by (auto simp: initializeGridLevels_def Let_def apply_direction_ok split: if_splits)
qed

lemma level_at_Some: "level_at ls i = Some l \<longleftrightarrow> 0 \<le> i \<and> nat i < length ls \<and> l = ls ! nat i"
  by (auto simp: level_at_def)

lemma grid_ok_update:
  assumes "grid_ok c g" "i < length (gs_Levels g)" "level_ok i l"
    "\<And>k j. map_of b k = Some j \<Longrightarrow> 0 \<le> j \<and> j < gc_GridCount c"
  shows "grid_ok c (g\<lparr>gs_Levels := (gs_Levels g)[i := l], gs_OrderBook := b\<rparr>)"
  using assms by (auto simp: grid_ok_def nth_list_update)

lemma book_order_ok:
  assumes "grid_ok c g"
  shows "grid_ok c (book_order d oid g)"
proof (cases "level_at (gs_Levels g) (kd_LevelIndex d)")
  case (Some l)
  then have l: "0 \<le> kd_LevelIndex d" "nat (kd_LevelIndex d) < length (gs_Levels g)" "l = gs_Levels g ! nat (kd_LevelIndex d)"
    by (simp_all add: level_at_Some)
  then have "level_ok (nat (kd_LevelIndex d)) l" "kd_LevelIndex d < gc_GridCount c" using assms by (auto simp: grid_ok_def)
  then show ?thesis
    unfolding book_order_def Some option.case
    using assms l by (intro grid_ok_update) (auto simp: level_ok_def grid_ok_def split: if_splits)
qed (use assms in \<open>simp add: book_order_def\<close>)

lemma forget_order_ok:
  assumes "grid_ok c g"
  shows "grid_ok c (forget_order oid g)"
proof (cases "map_of (gs_OrderBook g) oid")
  case (Some i)
  show ?thesis
  proof (cases "level_at (gs_Levels g) i")
    case None
    then show ?thesis using assms by (auto simp: forget_order_def Some grid_ok_def split: if_splits)
  next
    case (Some l)
    then have l: "nat i < length (gs_Levels g)" "level_ok (nat i) l" using assms by (auto simp: level_at_Some grid_ok_def)
    show ?thesis
      unfolding forget_order_def \<open>map_of (gs_OrderBook g) oid = Some i\<close> Some option.case
      using assms l by (intro grid_ok_update) (auto simp: grid_ok_def split: if_splits)
  qed
qed (use assms in \<open>simp add: forget_order_def\<close>)

lemma foldl_mdel_Some: "map_of (foldl (\<lambda>m l. mdel (f l) m) b ls) k = Some i \<Longrightarrow> map_of b k = Some i"
proof (induction ls arbitrary: b)
  case (Cons l ls)
  have "map_of (mdel (f l) b) k = Some i" using Cons.IH [of "mdel (f l) b"] Cons.prems by simp
  then show ?case by (simp split: if_split_asm)
qed simp

lemma reconcile_ok:
  assumes "grid_ok c g"
  shows "grid_ok c (reconcile active f g)"
  unfolding reconcile_def Let_def
  by (rule grid_ok_levels [OF assms])
     (auto simp: list.rel_map resolved_def level_ok_def vanished_def emptied_def dest: foldl_mdel_Some intro!: list.rel_refl)

lemma restore_ok:
  assumes "grid_ok c g"
  shows "grid_ok c (g\<lparr>gs_Levels := restore_level (gs_Levels g) f\<rparr>)"
proof (cases "closest_level (lv_PositionEntry f) 0 None max_float (gs_Levels g)")
  case (Some i)
  show ?thesis
    using assms by (cases "i < length (gs_Levels g)")
      (auto simp: restore_level_def Some grid_ok_def nth_list_update level_ok_def)
qed (use assms in \<open>simp add: restore_level_def\<close>)

lemma stop_ok:
  assumes "grid_ok c g" "list_all2 stopped_or_same (gs_Levels g) ls"
  shows "grid_ok c (g\<lparr>gs_Levels := ls\<rparr>)"
proof (rule grid_ok_levels [OF assms(1)])
  show "list_all2 (\<lambda>l l'. \<forall>i. level_ok i l \<longrightarrow> level_ok i l') (gs_Levels g) (gs_Levels (g\<lparr>gs_Levels := ls\<rparr>))"
    using assms(2) by (auto simp: stopped_or_same_def level_ok_def elim!: list_all2_mono)
qed simp

lemma reset_pending_ok: "grid_ok c g \<Longrightarrow> grid_ok c (reset_pending g)"
  unfolding reset_pending_def by (rule grid_ok_map) (auto split: if_splits)

text \<open>What the checks of the boxes keep: they mark breakouts, turn the grid, pause it and cancel its orders.\<close>

lemma late_guards_keep:
  fixes X :: "'x grid_outside" and P :: "grid_state \<Rightarrow> bool"
  assumes mark: "\<And>s b g. P g \<Longrightarrow> P (set_breakout s (keep_box b g))" "\<And>x g. P g \<Longrightarrow> P (g\<lparr>gs_PositionReductionPct := x\<rparr>)"
      "\<And>g. P g \<Longrightarrow> P (recovered g)" "\<And>g. P g \<Longrightarrow> P (paused True g)" "\<And>g. P g \<Longrightarrow> P (reset_pending g)"
    and turn: "\<And>d n m g. P g \<Longrightarrow> P (g\<lparr>gs_CurrentDirection := d, gs_DirectionChangedAt := n, gs_DirectionChangeCount := m\<rparr>)"
      "\<And>price g. P g \<Longrightarrow> P (applyGridDirection price g)"
    and p: "P (gw_g w)"
  shows "P (gw_g (snd (late_guards X c w)))"
proof -
  have ca: "P (gw_g (snd (cancelAllGridOrders X c w)))" if "P (gw_g w)" for w
    using that by (simp add: cancelAllGridOrders_def gcall_def mark split: prod.split option.split)
  have cp: "gw_g (close_positions X ours sy ps w) = gw_g w" for ours sy ps w
    by (induction ps arbitrary: w) (simp_all split: option.split)
  have ad: "P (gw_g (snd (adjustGridDirection X d w)))" if "P (gw_g w)" for d w
    using that by (simp add: adjustGridDirection_def gcall_def Let_def turn split: prod.split sum.split)
  have ed: "P (gw_g (snd (executeDirectionAdjustment X c d w)))" if "P (gw_g w)" for d w
    using that by (simp add: executeDirectionAdjustment_def ad ca)
  have ba: "P (gw_g (snd (executeBreakoutAction X c act w)))" if "P (gw_g w)" for act w
    using that by (cases act) (simp_all add: executeBreakoutAction_def closeAllPositions_def gcall_def mark ca cp split: prod.split sum.split)
  have bb: "P (gw_g (snd (checkBoxBreakout X c w)))"
  proof -
    obtain r w1 where 1: "gcall (GridBox X (gc_Symbol c)) w = (r, w1)" by (rule prod.exhaust)
    have g: "gw_g w1 = gw_g w" using gcall_split [OF 1] .
    show ?thesis
    proof (cases r)
      case (Inr b)
      obtain lv dir where 2: "detectBoxBreakout (Some b) = (lv, dir)" by (rule prod.exhaust)
      obtain cf s where 3: "confirmBreakout (breakout_state_of (gw_g w)) lv dir = (cf, s)" by (rule prod.exhaust)
      let ?w = "upd_g (\<lambda>g. set_breakout s (keep_box b g)) w1"
      obtain r2 w2 where 4: "gcall (GridBox X (gc_Symbol c)) ?w = (r2, w2)" by (rule prod.exhaust)
      have "gw_g w2 = set_breakout s (keep_box b (gw_g w))" using gcall_split [OF 4] g by simp
      then show ?thesis
        using p g by (simp add: checkBoxBreakout_def 1 Inr 2 3 4 Let_def ed ba mark)
    qed (use p g in \<open>simp add: checkBoxBreakout_def 1\<close>)
  qed
  have "P (gw_g (checkFalseBreakoutRecovery X c w))" if h: "P (gw_g w)" for w
  proof -
    obtain r w1 where 1: "gcall (GridBox X (gc_Symbol c)) w = (r, w1)" by (rule prod.exhaust)
    have "gw_g w1 = gw_g w" using gcall_split [OF 1] .
    then show ?thesis using h by (simp add: checkFalseBreakoutRecovery_def 1 Let_def ad mark split: sum.split)
  qed
  then show ?thesis by (simp add: late_guards_def Let_def bb)
qed

lemma fresh_ok:
  "initializeGridLevels e price c (spaced c ((NewGridState c)\<lparr>gs_UpperPrice := u, gs_LowerPrice := l\<rparr>)) = (None, g) \<Longrightarrow> grid_ok c g"
  by (rule init_levels_ok) (auto simp: spaced_def NewGridState_def)

lemma levels_ok: "grid_ok c g \<Longrightarrow> grid_ok c (snd (initializeGridLevels e price c g))"
  using init_levels_ok [of g c e price] by (cases "initializeGridLevels e price c g") (auto simp: initializeGridLevels_def Let_def grid_ok_def split: if_splits)

interpretation ladder: grid_invariant X grid_ok for X
proof
  show "grid_ok c (gw_g (snd (late_guards X c w)))" if "grid_ok c (gw_g w)" for c w
    by (rule late_guards_keep [where P = "grid_ok c"])
      (simp_all add: that set_breakout_def keep_box_def recovered_def paused_def apply_direction_ok reset_pending_ok)
qed (simp_all add: paused_def raise_peak_def raise_drawdown_def reset_day_def count_loss_def reset_pending_ok book_order_ok
    forget_order_ok reconcile_ok levels_ok restore_ok stop_ok fresh_ok)

section \<open>A quiet grid\<close>

definition quiet :: "grid_state \<Rightarrow> bool" where
  "quiet g \<longleftrightarrow> gs_CurrentDirection g = DirNeutral \<and> gs_DirectionChangeCount g = 0 \<and>
     gs_BreakoutLevel g \<in> {BreakoutUnset, BreakoutNone} \<and> gs_BreakoutConfirmCount g = 0"

lemma box_check_quiet:
  assumes "candle_law (gx_Sources X)"
  shows "gw_g (snd (checkBoxBreakout X c w)) = gw_g w \<or>
    (\<exists>b. gw_g (snd (checkBoxBreakout X c w)) =
       set_breakout \<lparr>bs_Level = BreakoutNone, bs_Direction = '''', bs_ConfirmCount = 0\<rparr> (keep_box b (gw_g w)))"
proof -
  obtain r w1 where 1: "gcall (GridBox X (gc_Symbol c)) w = (r, w1)" by (rule prod.exhaust)
  have g: "gw_g w1 = gw_g w" using gcall_split [OF 1] .
  show ?thesis
  proof (cases r)
    case (Inl e)
    then show ?thesis using g by (simp add: checkBoxBreakout_def 1)
  next
    case (Inr b)
    then have "in_boxes b" using box_in_boxes [OF assms] 1 by (auto simp: gcall_def split: prod.splits)
    from in_boxes_no_breakout [OF this] have "checkBoxBreakout X c w =
        (None, upd_g (\<lambda>g. set_breakout \<lparr>bs_Level = BreakoutNone, bs_Direction = '''', bs_ConfirmCount = 0\<rparr> (keep_box b g)) w1)"
      by (simp add: checkBoxBreakout_def 1 Inr confirmBreakout_def Let_def)
    then show ?thesis using g by auto
  qed
qed

lemma quiet_frame [simp]: "quiet (set_breakout \<lparr>bs_Level = BreakoutNone, bs_Direction = d, bs_ConfirmCount = 0\<rparr> (keep_box b g)) = (gs_CurrentDirection g = DirNeutral \<and> gs_DirectionChangeCount g = 0)"
  "quiet (recovered g) = (gs_CurrentDirection g = DirNeutral \<and> gs_DirectionChangeCount g = 0)"
  by (simp_all add: quiet_def set_breakout_def keep_box_def recovered_def)

lemma recovery_quiet: "quiet (gw_g w) \<Longrightarrow> quiet (gw_g (checkFalseBreakoutRecovery X c w))"
  by (auto simp: checkFalseBreakoutRecovery_def gcall_def Let_def quiet_def recovered_def split: prod.split sum.split)

lemma quiet_invariant:
  assumes "candle_law (gx_Sources X)"
  shows "grid_invariant X (\<lambda>_. quiet)"
proof
  show "quiet (gw_g (snd (late_guards X c w)))" if q: "quiet (gw_g w)" for c w
  proof -
    have "quiet (gw_g (snd (checkBoxBreakout X c w)))" using box_check_quiet [OF assms, of c w] q by (auto simp: quiet_def set_breakout_def keep_box_def)
    then show ?thesis by (simp add: late_guards_def Let_def recovery_quiet)
  qed
qed (auto simp: quiet_def paused_def raise_peak_def raise_drawdown_def reset_day_def count_loss_def reset_pending_def book_order_def
    forget_order_def reconcile_def initializeGridLevels_def applyGridDirection_def restore_level_def NewGridState_def spaced_def Let_def
    split: option.split if_splits)


lemma on_grid_strategy: "gr_Strategy (snd (on_grid f g t)) = gr_Strategy t"
  by (simp add: on_grid_def split: prod.split)

lemma config_cycle: "grid_config_of (snd (RunGridCycle X db t)) = grid_config_of t"
proof -
  have c: "gr_Strategy (snd (grid_cycle X db c g t)) = gr_Strategy t" for c g t
  proof -
    obtain r t1 where 1: "on_grid (grid_guards X c) g t = (r, t1)" by (rule prod.exhaust)
    obtain s t2 where 2: "on_grid (grid_decide X c (grid_language t1)) (the (gr_grid t1)) t1 = (s, t2)" by (rule prod.exhaust)
    have "gr_Strategy t1 = gr_Strategy t" "gr_Strategy t2 = gr_Strategy t1"
      using on_grid_strategy [of "grid_guards X c" g t] on_grid_strategy [of "grid_decide X c (grid_language t1)" "the (gr_grid t1)" t1] 1 2 by simp_all
    then show ?thesis by (simp add: grid_cycle_def 1 2 saveGridDecisionRecord_def Let_def split: option.split sum.split)
  qed
  have i: "gr_Strategy (snd (InitializeGrid X t)) = gr_Strategy t"
    by (simp add: InitializeGrid_def on_grid_strategy split: option.split)
  let ?i = "if (case gr_grid t of None \<Rightarrow> True | Some g \<Rightarrow> \<not> gs_IsInitialized g) then InitializeGrid X t else (None, t)"
  obtain e t1 where 1: "?i = (e, t1)" by (rule prod.exhaust)
  then have "gr_Strategy t1 = gr_Strategy t" using i by (auto split: if_splits)
  then have "gr_Strategy (snd (RunGridCycle X db t)) = gr_Strategy t"
    by (simp add: RunGridCycle_def 1 c split: option.split)
  then show ?thesis by (simp add: grid_config_of_def)
qed

text \<open>A grid that is set up stays so.\<close>

interpretation started: grid_invariant X "\<lambda>_. gs_IsInitialized" for X
proof
  show "gs_IsInitialized (gw_g (snd (late_guards X c w)))" if "gs_IsInitialized (gw_g w)" for c w
    by (rule late_guards_keep [where P = gs_IsInitialized])
      (simp_all add: that set_breakout_def keep_box_def recovered_def paused_def reset_pending_def applyGridDirection_def Let_def)
qed (auto simp: paused_def raise_peak_def raise_drawdown_def reset_day_def count_loss_def reset_pending_def book_order_def
    forget_order_def reconcile_def initializeGridLevels_def applyGridDirection_def Let_def split: option.split)

text \<open>
  \<open>Run\<close> of a grid strategy: the grid is set up, then each tick of its clock runs a cycle whose error is only
  logged.
\<close>

definition run_grid :: "'x grid_outside \<Rightarrow> 'd fut_db \<Rightarrow> nat \<Rightarrow> ('x, 'd) grid_trader \<Rightarrow> perr option \<times> ('x, 'd) grid_trader" where
  "run_grid X db n t =
     (case InitializeGrid X t of (Some e, t) \<Rightarrow> (Some (WrapErr ''grid initialization failed'' e), t)
      | (None, t) \<Rightarrow> (None, ((\<lambda>t. snd (RunGridCycle X db t)) ^^ n) t))"

lemma initialized_trader:
  assumes "InitializeGrid X t = (None, t')"
  obtains c g where "grid_config_of t' = Some c" "grid_config_of t = Some c" "gr_grid t' = Some g" "gs_IsInitialized g"
proof -
  obtain c where c: "grid_config_of t = Some c" using assms by (auto simp: InitializeGrid_def split: option.splits)
  let ?r = "initialize_grid X (gr_IsCrossMargin t) c \<lparr>gw_x = gr_x t, gw_g = NewGridState c\<rparr>"
  have "fst ?r = None" "gr_grid t' = Some (gw_g (snd ?r))" "grid_config_of t' = Some c"
    using assms c by (auto simp: InitializeGrid_def on_grid_def grid_config_of_def split: prod.splits)
  then show thesis using that c initialize_grid_inited by blast
qed

text \<open>What a cycle keeps holds of the grid after any number of cycles.\<close>

lemma after_cycles:
  assumes inv: "grid_invariant X P" and run: "run_grid X db n t = (None, t')" and c: "grid_config_of t = Some c"
  obtains g where "gr_grid t' = Some g" "gs_IsInitialized g" "P c g" "grid_config_of t' = Some c"
proof -
  obtain t1 where i: "InitializeGrid X t = (None, t1)" "t' = ((\<lambda>t. snd (RunGridCycle X db t)) ^^ n) t1"
    using run by (auto simp: run_grid_def split: prod.splits option.splits)
  obtain g1 where t1: "grid_config_of t1 = Some c" "gr_grid t1 = Some g1" "gs_IsInitialized g1"
    using initialized_trader [OF i(1)] c by (metis option.inject)
  have h: "grid_invariant.holds P t1"
    using grid_invariant.initialize_holds [OF inv c] i(1) by simp
  have "grid_invariant.holds P (((\<lambda>t. snd (RunGridCycle X db t)) ^^ n) t1) \<and>
      grid_config_of (((\<lambda>t. snd (RunGridCycle X db t)) ^^ n) t1) = Some c \<and>
      (\<exists>g. gr_grid (((\<lambda>t. snd (RunGridCycle X db t)) ^^ n) t1) = Some g \<and> gs_IsInitialized g)"
  proof (induction n)
    case (Suc n)
    let ?t = "((\<lambda>t. snd (RunGridCycle X db t)) ^^ n) t1"
    obtain g where g: "gr_grid ?t = Some g" "gs_IsInitialized g" "grid_config_of ?t = Some c" using Suc by blast
    have "\<exists>g'. gr_grid (snd (RunGridCycle X db ?t)) = Some g' \<and> gs_IsInitialized g'"
      using started.cycle_holds [OF g(3,2), of X db] g by (auto simp: RunGridCycle_def)
    then show ?case using Suc grid_invariant.cycle_keeps [OF inv, of ?t db] by (simp add: config_cycle)
  qed (use h t1 in simp)
  then show thesis using that i(2) by (auto simp: grid_invariant.holds_def [OF inv])
qed

section \<open>What the market data lacks\<close>

text \<open>
  C15: bounds from the average true range are never computed.  The snapshot they are taken from holds no
  longer term context, so a grid with \<open>UseATRBounds\<close> gets the default bounds around the price.
\<close>

theorem atr_bounds_unused:
  "\<exists>x'. atr_bounds X c price w = upd_g (calculateDefaultBounds price c) (w\<lparr>gw_x := x'\<rparr>)"
proof -
  obtain r x' where 1: "GetWithTimeframes (gx_Sources X) (gc_Symbol c) [''4h''] ''4h'' 20 (gw_x w) = (r, x')" by (rule prod.exhaust)
  show ?thesis
  proof (cases r)
    case (Inl e)
    then show ?thesis using 1 by (auto simp: atr_bounds_def gcall_def)
  next
    case (Inr m)
    then have "mk_LongerTermContext m = None" using 1 by (auto dest: snapshot_of_frames)
    then have "calculateATRBounds price m c = calculateDefaultBounds price c"
      by (simp add: fun_eq_iff calculateATRBounds_def zero_f64_def)
    then show ?thesis using 1 Inr by (auto simp: atr_bounds_def gcall_def)
  qed
qed

text \<open>The bands of a frame are there together: the unchecked index of the context is never out of range.\<close>

lemma context_never_panics: "fst (buildGridContext X c w) \<noteq> Inl (Panic s)"
proof -
  obtain r x' where 1: "GetWithTimeframes (gx_Sources X) (gc_Symbol c) [''5m'', ''4h''] ''5m'' 50 (gw_x w) = (r, x')" by (rule prod.exhaust)
  show ?thesis
  proof (cases r)
    case (Inl e)
    then show ?thesis using 1 by (simp add: buildGridContext_def gcall_def)
  next
    case (Inr m)
    have b: "bollinger f \<noteq> None" if five: "map_of (mk_TimeframeData m) ''5m'' = Some f" for f
    proof -
      obtain ks where "f = calculateTimeframeSeries (ms_Sqrt (gx_Sources X)) ks ''5m'' 50"
        using snapshot_of_frames(3) [OF 1 [unfolded Inr] five] by blast
      then show ?thesis using bands_length [of "ms_Sqrt (gx_Sources X)" ks "''5m''" 50]
        by (auto simp: bollinger_def)
    qed
    then have "BuildGridContextFromMarketData m c \<noteq> None"
      by (auto simp: BuildGridContextFromMarketData_def Let_def split: option.splits)
    then show ?thesis using 1 Inr by (auto simp: buildGridContext_def gcall_def Let_def split: prod.splits sum.splits)
  qed
qed

text \<open>The average of fifty candles that the prompt shows is always zero.\<close>

lemma context_without_ema50:
  assumes "buildGridContext X c w = (Inr t, w')"
  shows "gt_EMA50 t = 0 \<and> gt_EMADistance t = 0"
proof -
  obtain r x' where 1: "GetWithTimeframes (gx_Sources X) (gc_Symbol c) [''5m'', ''4h''] ''5m'' 50 (gw_x w) = (r, x')" by (rule prod.exhaust)
  then obtain m where r: "r = Inr m" using assms by (cases r) (auto simp: buildGridContext_def gcall_def)
  then have "mk_LongerTermContext m = None" using 1 by (auto dest: snapshot_of_frames)
  then show ?thesis using assms 1 r
    by (auto simp: buildGridContext_def gcall_def Let_def BuildGridContextFromMarketData_def with_grid_def with_balance_def
        split: prod.splits sum.splits option.splits)
qed

section \<open>Small instances\<close>

definition btc_grid :: grid_config where
  "btc_grid = \<lparr>gc_Symbol = ''BTCUSDT'', gc_GridCount = 3, gc_TotalInvestment = Fin 300, gc_Leverage = 2, gc_UpperPrice = Fin 110,
     gc_LowerPrice = Fin 90, gc_UseATRBounds = False, gc_ATRMultiplier = Fin 2, gc_Distribution = ''uniform'',
     gc_MaxDrawdownPct = 0, gc_StopLossPct = 0, gc_DailyLossLimitPct = 0, gc_UseMakerOnly = True,
     gc_EnableDirectionAdjust = True, gc_DirectionBiasRatio = fl (7 / 10)\<rparr>"

definition flat_kline :: kline where
  "flat_kline = \<lparr>kl_OpenTime = 0, kl_Open = Fin 100, kl_High = Fin 101, kl_Low = Fin 99, kl_Close = Fin 100, kl_Volume = 1,
     kl_CloseTime = 3600000\<rparr>"

definition flat_candle :: hl_candle where
  "flat_candle = \<lparr>hc_OpenTime = 0, hc_Open = ''100'', hc_High = ''101'', hc_Low = ''99'', hc_Close = ''100'', hc_Volume = ''1'',
     hc_CloseTime = 3600000\<rparr>"

lemma kline_of_flat [simp]: "kline_of flat_candle = flat_kline"
  by code_simp

definition flat_sources :: "unit market_sources" where
  "flat_sources = \<lparr>ms_CoinAnk = (\<lambda>_ _ _ _ x. (Inr [flat_kline], x)), ms_Candles = (\<lambda>_ _ _ x. (Inr [flat_candle], x)),
     ms_OpenInterest = (\<lambda>_ x. (Inl (OtherErr ''no open interest''), x)), ms_Funding = (\<lambda>_ x. (Inl (OtherErr ''no rate''), x)),
     ms_FundingCache = (\<lambda>_ _. None), ms_StoreFunding = (\<lambda>_ _ x. x), ms_Now = (\<lambda>_. 5000000), ms_Sqrt = (\<lambda>a. a)\<rparr>"

text \<open>An exchange that takes every order, at a price that stays at 100, and a model with one answer.\<close>

definition flat_outside :: "kdecision list \<Rightarrow> unit grid_outside" where
  "flat_outside ds = \<lparr>
     gx_MarketPrice = (\<lambda>_ x. (Inr (Fin 100), x)), gx_GetBalance = (\<lambda>x. (Inr [], x)), gx_GetPositions = (\<lambda>x. (Inr [], x)),
     gx_Close = (\<lambda>_ _ _ x. (None, x)), gx_CancelAll = (\<lambda>_ x. (None, x)), gx_SetMarginMode = (\<lambda>_ _ x. (None, x)),
     gx_SetLeverage = (\<lambda>_ _ x. (None, x)), gx_SetStopLoss = (\<lambda>_ _ _ _ x. (None, x)), gx_SetTakeProfit = (\<lambda>_ _ _ _ x. (None, x)),
     gx_Place = Some (\<lambda>r x. (Inr ''7'', x)), gx_Cancel = Some (\<lambda>_ _ x. (None, x)), gx_OpenOrders = (\<lambda>_ x. (Inr [''7''], x)),
     gx_Sources = flat_sources,
     gx_Ask = (\<lambda>_ _ _ x. (Inr ''[{}]'', x)), gx_JSON = (\<lambda>_. Inr ds), gx_Now = (\<lambda>_. 5000000), gx_Day = (\<lambda>t. t div 86400000000000),
     gx_Exp = (\<lambda>_. 1), gx_Range = (\<lambda>ls. ls), gx_Running = (\<lambda>_. True)\<rparr>"

lemma flat_candles: "candle_law (gx_Sources (flat_outside ds))"
  by (auto simp: candle_law_def flat_outside_def flat_sources_def sane_kline_def)
    (simp_all add: flat_kline_def)

definition grid_started :: "(unit, list_fut) grid_trader" where
  "grid_started = \<lparr>gr_x = (), gr_d = empty_fut, gr_id = ''trader-1'',
     gr_Strategy = Some \<lparr>gy_StrategyType = ''grid_trading'', gy_Language = '''', gy_GridConfig = Some btc_grid\<rparr>,
     gr_IsCrossMargin = True, gr_store = True, gr_cycleNumber = 0, gr_grid = None\<rparr>"

section \<open>The cycle\<close>

text \<open>
  C13: the ladder stays well formed.  After any number of cycles, whatever the exchange and the model
  answered, there are as many levels as configured, each with its index, a known state and side, no order
  on an empty level, and the book of orders points into the ladder.
\<close>

theorem ladder_well_formed:
  assumes "run_grid X db n t = (None, t')" "grid_config_of t = Some c"
  shows "\<exists>g. gr_grid t' = Some g \<and> gs_IsInitialized g \<and> grid_ok c g"
  using after_cycles [OF ladder.grid_invariant_axioms assms] by blast

text \<open>
  C12: no box is ever broken.  The boxes contain the candle whose close is taken for the current price, so
  after any number of cycles no breakout of a box was counted and the grid never left its neutral
  direction.
\<close>

theorem grid_stays_neutral:
  assumes "candle_law (gx_Sources X)" "run_grid X db n t = (None, t')" "grid_config_of t = Some c"
  shows "\<exists>g. gr_grid t' = Some g \<and> gs_CurrentDirection g = DirNeutral \<and> gs_DirectionChangeCount g = 0 \<and>
    gs_BreakoutConfirmCount g = 0 \<and> gs_BreakoutLevel g \<in> {BreakoutUnset, BreakoutNone}"
  using after_cycles [OF quiet_invariant [OF assms(1)] assms(2,3)] by (auto simp: quiet_def)

lemma sane_breakout_keeps_pause:
  assumes "candle_law (gx_Sources X)"
  shows "gs_IsPaused (gw_g (snd (checkBoxBreakout X c w))) = gs_IsPaused (gw_g w)"
proof -
  obtain r x' where 1: "GridBox X (gc_Symbol c) (gw_x w) = (r, x')" by (rule prod.exhaust)
  show ?thesis
  proof (cases r)
    case (Inr b)
    then have "detectBoxBreakout (Some b) = (BreakoutNone, '''')" using box_in_boxes [OF assms] 1 in_boxes_no_breakout by blast
    then show ?thesis
      using 1 Inr by (simp add: checkBoxBreakout_def gcall_def confirmBreakout_def set_breakout_def keep_box_def Let_def)
  qed (use 1 in \<open>simp add: checkBoxBreakout_def gcall_def\<close>)
qed

text \<open>The recovery leaves a pause exactly when it cannot read the box.\<close>

lemma recovery_pause:
  assumes "candle_law (gx_Sources X)"
  shows "gs_IsPaused (gw_g (checkFalseBreakoutRecovery X c w)) \<longleftrightarrow>
    gs_IsPaused (gw_g w) \<and> (\<exists>e. fst (GridBox X (gc_Symbol c) (gw_x w)) = Inl e)"
proof (cases "needs_recovery c (gw_g w)")
  case True
  obtain r x' where b: "GridBox X (gc_Symbol c) (gw_x w) = (r, x')" by (rule prod.exhaust)
  show ?thesis
  proof (cases r)
    case (Inl e)
    then show ?thesis using True b by (simp add: checkFalseBreakoutRecovery_def gcall_def Let_def)
  next
    case (Inr bx)
    have i: "in_long_box bx" using in_boxes_inside [OF box_in_boxes [OF assms]] b Inr by blast
    have "\<not> gs_IsPaused (gw_g (snd (adjustGridDirection X d w)))" if "\<not> gs_IsPaused (gw_g w)" for d w
      using that by (simp add: adjustGridDirection_def gcall_def applyGridDirection_def Let_def split: prod.split sum.split)
    then show ?thesis using True b i Inr by (simp add: checkFalseBreakoutRecovery_def gcall_def Let_def recovered_def)
  qed
qed (simp add: checkFalseBreakoutRecovery_def needs_recovery_def)

text \<open>Pausing the grid commutes with the checks that can end a cycle early.\<close>

abbreviation pausing :: "bool \<Rightarrow> 'x gworld \<Rightarrow> 'x gworld" where
  "pausing b \<equiv> upd_g (paused b)"

lemma pausing_gcall: "gcall f (pausing b w) = (case gcall f w of (r, w) \<Rightarrow> (r, pausing b w))"
  by (simp add: gcall_def upd_g_def split: prod.split)

lemma pausing_breakout: "fst (checkBreakout X c (pausing b w)) = fst (checkBreakout X c w)"
  "snd (checkBreakout X c (pausing b w)) = pausing b (snd (checkBreakout X c w))"
  by (simp_all add: checkBreakout_def pausing_gcall breakout_of_def paused_def Let_def split: prod.split sum.split)

lemma pausing_drawdown: "fst (checkMaxDrawdown X c (pausing b w)) = fst (checkMaxDrawdown X c w)"
  "snd (checkMaxDrawdown X c (pausing b w)) = pausing b (snd (checkMaxDrawdown X c w))"
proof -
  obtain r w1 where 1: "gcall (gx_GetBalance X) w = (r, w1)" by (rule prod.exhaust)
  have "upd_g (raise_drawdown d) (upd_g (raise_peak e) (pausing b w1)) = pausing b (upd_g (raise_drawdown d) (upd_g (raise_peak e) w1))"
    "upd_g (raise_peak e) (pausing b w1) = pausing b (upd_g (raise_peak e) w1)"
    "gs_PeakEquity (paused b g) = gs_PeakEquity g" for d e g
    by (simp_all add: upd_g_def raise_peak_def raise_drawdown_def paused_def)
  then show "fst (checkMaxDrawdown X c (pausing b w)) = fst (checkMaxDrawdown X c w)"
    "snd (checkMaxDrawdown X c (pausing b w)) = pausing b (snd (checkMaxDrawdown X c w))"
    by (cases r; simp add: checkMaxDrawdown_def pausing_gcall 1 Let_def)+
qed

lemma pausing_daily: "fst (checkDailyLossLimit X c (pausing b w)) = fst (checkDailyLossLimit X c w)"
  by (auto simp: checkDailyLossLimit_def upd_g_def paused_def reset_day_def Let_def)

lemma pausing_loss_guards:
  assumes "\<And>w. fst (late_guards X c w) = None"
  shows "fst (loss_guards X c (pausing b w)) = fst (loss_guards X c w)"
proof -
  obtain e f w1 where 1: "checkMaxDrawdown X c w = ((e, f), w1)" by (metis prod.exhaust)
  have 2: "checkMaxDrawdown X c (pausing b w) = ((e, f), pausing b w1)"
    using pausing_drawdown [of X c b w] 1 by (simp add: prod_eq_iff)
  obtain e2 f2 w2 where 3: "checkDailyLossLimit X c w1 = ((e2, f2), w2)" by (metis prod.exhaust)
  obtain w3 where 4: "checkDailyLossLimit X c (pausing b w1) = ((e2, f2), w3)"
    using pausing_daily [of X c b w1] 3 by (metis fst_conv prod.exhaust)
  show ?thesis by (simp add: loss_guards_def 1 2 3 4 assms)
qed

text \<open>
  C11: a pause does not hold the next cycle back.  The check of the pause ends a cycle exactly when the grid is
  paused and the candles of its box cannot be read for the recovery that runs just before; whenever they can, the
  pause is gone by then, the one the model asked for with \<open>pause_grid\<close> included.  While they can be read,
  whether the checks let a cycle go on does not depend on the grid being paused.
\<close>

theorem pause_without_effect:
  assumes law: "candle_law (gx_Sources X)"
  shows "fst (late_guards X c w) =
      (if gs_IsPaused (gw_g w) \<and> (\<exists>e. fst (GridBox X (gc_Symbol c) (gw_x (snd (checkBoxBreakout X c w)))) = Inl e)
       then Some None else None) \<and>
    (fst (grid_guards X c w) = None \<longrightarrow> \<not> gs_IsPaused (gw_g (snd (grid_guards X c w)))) \<and>
    ((\<forall>x. \<exists>b x'. GridBox X (gc_Symbol c) x = (Inr b, x')) \<longrightarrow>
       fst (grid_guards X c (pausing b w)) = fst (grid_guards X c w))"
proof -
  have late: "fst (late_guards X c w) =
      (if gs_IsPaused (gw_g w) \<and> (\<exists>e. fst (GridBox X (gc_Symbol c) (gw_x (snd (checkBoxBreakout X c w)))) = Inl e)
       then Some None else None)" for w
    using recovery_pause [OF law] sane_breakout_keeps_pause [OF law] by (simp add: late_guards_def Let_def)
  have up: "fst (late_guards X c w) = None \<longrightarrow> \<not> gs_IsPaused (gw_g (snd (late_guards X c w)))" for w
    by (simp add: late_guards_def Let_def)
  then have loss: "fst (loss_guards X c w) = None \<longrightarrow> \<not> gs_IsPaused (gw_g (snd (loss_guards X c w)))" for w
    by (simp add: loss_guards_def split: prod.split)
  obtain kd p w1 where 1: "checkBreakout X c w = ((kd, p), w1)" by (metis prod.exhaust)
  have 2: "checkBreakout X c (pausing b w) = ((kd, p), pausing b w1)"
    using pausing_breakout [of X c b w] 1 by (simp add: prod_eq_iff)
  have "fst (grid_guards X c (pausing b w)) = fst (grid_guards X c w)" if ok: "\<forall>x. \<exists>b x'. GridBox X (gc_Symbol c) x = (Inr b, x')"
  proof -
    have "fst (GridBox X (gc_Symbol c) x) \<noteq> Inl e" for x e using ok by (metis fst_conv sum.distinct(1))
    then have "fst (late_guards X c w) = None" for w by (simp add: late)
    from pausing_loss_guards [OF this] show ?thesis by (simp add: grid_guards_def 1 2 handleBreakout_def)
  qed
  moreover have "fst (grid_guards X c w) = None \<longrightarrow> \<not> gs_IsPaused (gw_g (snd (grid_guards X c w)))"
    by (simp add: grid_guards_def 1 loss split: prod.split option.split)
  ultimately show ?thesis using late by blast
qed

lemma binance_exchange [simp]: "coinank_exchange ''binance'' = ''binance''"
  by code_simp

lemma flat_klines [simp]:
  "getKlinesFromHyperliquid flat_sources sy iv n x = (Inr [flat_kline], x)"
  "iv \<in> set coinank_intervals \<Longrightarrow> getKlinesFromCoinAnk flat_sources sy iv ex n x = (Inr [flat_kline], x)"
  by (simp_all add: getKlinesFromHyperliquid_def getKlinesFromCoinAnk_def flat_sources_def)

lemma flat_boxes: "\<forall>x. \<exists>b x'. GridBox (flat_outside ds) sy x = (Inr b, x')"
  by (simp add: GetBoxData_def flat_outside_def Let_def coinank_intervals_def)

lemma flat_initialized: "fst (InitializeGrid (flat_outside ds) grid_started) = None"
  by (simp add: InitializeGrid_def grid_config_of_def grid_started_def on_grid_def initialize_grid_def gcall_def upd_g_def
      flat_outside_def btc_grid_def initializeGridLevels_def Let_def split: prod.split)

lemma flat_runs:
  obtains t' where "run_grid (flat_outside ds) list_fut_db n grid_started = (None, t')" "grid_config_of grid_started = Some btc_grid"
  using flat_initialized [of ds]
  by (cases "InitializeGrid (flat_outside ds) grid_started") (auto simp: run_grid_def grid_config_of_def grid_started_def)

definition short_once :: kdecision where
  "short_once = zero_decision\<lparr>kd_Symbol := ''BTCUSDT'', kd_Action := ''place_sell_limit'', kd_Price := Fin 110, kd_Quantity := 1, kd_LevelIndex := 2\<rparr>"

theorem ladder_well_formed_witness:
  "\<exists>t' g. run_grid (flat_outside [short_once]) list_fut_db 2 grid_started = (None, t') \<and> gr_grid t' = Some g \<and> length (gs_Levels g) = 3"
proof -
  obtain t' where t: "run_grid (flat_outside [short_once]) list_fut_db 2 grid_started = (None, t')" "grid_config_of grid_started = Some btc_grid"
    using flat_runs .
  from ladder_well_formed [OF this] show ?thesis using t(1) by (auto simp: grid_ok_def btc_grid_def)
qed

theorem grid_stays_neutral_witness:
  "\<exists>t' g. run_grid (flat_outside [short_once]) list_fut_db 5 grid_started = (None, t') \<and> gr_grid t' = Some g \<and>
     gs_CurrentDirection g = DirNeutral \<and> gs_BreakoutConfirmCount g = 0"
proof -
  obtain t' where t: "run_grid (flat_outside [short_once]) list_fut_db 5 grid_started = (None, t')" "grid_config_of grid_started = Some btc_grid"
    using flat_runs .
  from grid_stays_neutral [OF flat_candles this] show ?thesis using t(1) by auto
qed

theorem pause_without_effect_witness:
  "let X = flat_outside []; w = \<lparr>gw_x = (), gw_g = paused True (NewGridState btc_grid)\<rparr>
   in fst (late_guards X btc_grid w) = None \<and> fst (grid_guards X btc_grid w) = fst (grid_guards X btc_grid (pausing False w))"
proof -
  let ?X = "flat_outside []" and ?w = "\<lparr>gw_x = (), gw_g = paused True (NewGridState btc_grid)\<rparr>"
  have "fst (GridBox ?X (gc_Symbol btc_grid) x) \<noteq> Inl e" for x e
    using flat_boxes [of "[]" "gc_Symbol btc_grid"] by (metis fst_conv sum.distinct(1))
  then show ?thesis
    using pause_without_effect [OF flat_candles [of "[]"], of btc_grid ?w False] flat_boxes [of "[]" "gc_Symbol btc_grid"]
    by (simp add: Let_def)
qed

section \<open>Directions and orders\<close>

definition buys :: "grid_level list \<Rightarrow> nat" where
  "buys ls = length (filter (\<lambda>l. lv_Side l = ''buy'') ls)"

lemma bias_buys_count:
  assumes "d \<in> {DirLongBias, DirShortBias}" "nb \<le> tb" "ns \<le> ts" "int (length ls) = (tb - nb) + (ts - ns)"
  shows "int (buys (bias_sides d tb ts price nb ns ls)) = tb - nb"
  using assms
proof (induction d tb ts price nb ns ls rule: bias_sides.induct)
  case (2 d tb ts price nb ns l ls)
  show ?case
  proof (cases "bias_buys d tb ts price nb ns l")
    case True
    then have "nb < tb" using 2(3-6) by (auto simp: bias_buys_def split: if_splits)
    then show ?thesis using 2(1) [OF True] 2(3-6) True by (simp add: buys_def)
  next
    case False
    then have "ns < ts" using 2(3-6) by (auto simp: bias_buys_def split: if_splits)
    then show ?thesis using 2(2) [OF False] 2(3-6) False by (simp add: buys_def)
  qed
qed (simp add: buys_def)

lemma long_bias_sides:
  assumes "nb \<le> tb" "ns \<le> ts" "int (length ls) = (tb - nb) + (ts - ns)"
  shows "map lv_Side (bias_sides DirLongBias tb ts price nb ns ls) = replicate (nat (tb - nb)) ''buy'' @ replicate (nat (ts - ns)) ''sell''"
  using assms
proof (induction ls arbitrary: nb ns)
  case (Cons l ls)
  show ?case
  proof (cases "nb < tb")
    case True
    then have "nat (tb - nb) = Suc (nat (tb - (nb + 1)))" by simp
    then show ?thesis using Cons.IH [of "nb + 1" ns] Cons.prems True by (simp add: bias_buys_def)
  next
    case False
    then have n: "nb = tb" "ns < ts" using Cons.prems by auto
    then have "nat (ts - ns) = Suc (nat (ts - (ns + 1)))" by simp
    then show ?thesis using Cons.IH [of nb "ns + 1"] Cons.prems n by (simp add: bias_buys_def)
  qed
qed simp

lemma fl_unit: "0 \<le> r \<Longrightarrow> r \<le> 1 \<Longrightarrow> \<exists>s. fl r = Fin s \<and> 0 \<le> s \<and> s \<le> 1"
proof -
  assume r: "0 \<le> r" "r \<le> 1"
  have "0 \<le> fl r" using r by (intro fl_nonneg)
  moreover have "fl r \<le> 1" using fl_mono [OF r(2)] by simp
  ultimately show ?thesis by (cases "fl r") (simp_all add: zero_f64_def one_f64_def)
qed

lemma ratio_or_default:
  assumes "x \<noteq> NaN"
  shows "\<exists>q. (if x \<le> 0 \<or> x > 1 then fl (7 / 10) else x) = Fin q \<and> 0 \<le> q \<and> q \<le> 1"
  using fl_unit [of "7 / 10"] assms by (cases x) (auto simp: zero_f64_def one_f64_def)

lemma buy_ratio_unit:
  assumes "d \<in> {DirLongBias, DirShortBias}" "x \<noteq> NaN"
  shows "\<exists>q. fst (GetBuySellRatio d x) = Fin q \<and> 0 \<le> q \<and> q \<le> 1"
proof -
  obtain q where q: "(if x \<le> 0 \<or> x > 1 then fl (7 / 10) else x) = Fin q" "0 \<le> q" "q \<le> 1"
    using ratio_or_default [OF assms(2)] by blast
  have "\<exists>q'. 1 - Fin q = Fin q' \<and> 0 \<le> q' \<and> q' \<le> 1"
    using fl_unit [of "1 - q"] q(2,3) by (simp add: one_f64_def minus_f64_def)
  then show ?thesis using assms(1) q unfolding GetBuySellRatio_def Let_def q(1) by auto
qed

lemma target_in_range:
  assumes d: "gs_CurrentDirection g \<in> {DirLongBias, DirShortBias}" and n: "int (length (gs_Levels g)) \<le> 2 ^ 53"
    and r: "gc_DirectionBiasRatio (gs_Config g) \<noteq> NaN"
  shows "0 \<le> target_buys g \<and> target_buys g \<le> int (length (gs_Levels g))"
proof -
  let ?n = "length (gs_Levels g)" and ?r = "gc_DirectionBiasRatio (gs_Config g)"
  let ?b = "if ?r \<le> 0 \<or> ?r > 1 then fl (7 / 10) else ?r"
  have "?b \<noteq> NaN" using ratio_or_default [OF r] by (metis f64.distinct(5))
  from buy_ratio_unit [OF d this]
  obtain q where q: "fst (GetBuySellRatio (gs_CurrentDirection g) ?b) = Fin q" "0 \<le> q" "q \<le> 1" by blast
  have fn: "fl (of_nat ?n) = Fin (of_nat ?n)" using fl_of_int [of "int ?n"] n by simp
  have "of_nat ?n * q \<le> of_nat ?n" using q by (simp add: mult_left_le)
  then have "fl (of_nat ?n * q) \<le> fl (of_nat ?n)" "0 \<le> fl (of_nat ?n * q)" using q by (auto intro: fl_mono fl_nonneg)
  then obtain y where y: "fl (of_nat ?n * q) = Fin y" "0 \<le> y" "y \<le> of_nat ?n"
    using fn by (cases "fl (of_nat ?n * q)") (auto simp: zero_f64_def)
  have "target_buys g = \<lfloor>y\<rfloor>"
    using y q fn by (simp add: target_buys_def Let_def trunc_int_def)
  then show ?thesis using y by (simp add: floor_le_iff)
qed

text \<open>
  C29: what a bias assigns.  A biased direction makes exactly its share of the levels buys; and with a bias
  for long these are the lowest ones, wherever the price is.
\<close>

theorem bias_share_exact:
  assumes "gs_CurrentDirection g \<in> {DirLongBias, DirShortBias}" "int (length (gs_Levels g)) \<le> 2 ^ 53"
    "gc_DirectionBiasRatio (gs_Config g) \<noteq> NaN"
  shows "let ls = gs_Levels (applyGridDirection price g) in
    length ls = length (gs_Levels g) \<and> int (buys ls) = target_buys g \<and>
    (gs_CurrentDirection g = DirLongBias \<longrightarrow> take (nat (target_buys g)) (map lv_Side ls) = replicate (nat (target_buys g)) ''buy'')"
proof -
  let ?t = "target_buys g" and ?ls = "gs_Levels (applyGridDirection price g)"
  have t: "0 \<le> ?t" "?t \<le> int (length (gs_Levels g))" using target_in_range [OF assms] by auto
  have ls: "?ls = bias_sides (gs_CurrentDirection g) ?t (int (length (gs_Levels g)) - ?t) price 0 0 (gs_Levels g)"
    using assms(1) by (auto simp: applyGridDirection_def Let_def)
  have "int (buys ?ls) = ?t" using bias_buys_count [OF assms(1), of 0 ?t 0 "int (length (gs_Levels g)) - ?t" "gs_Levels g" price] t ls by simp
  moreover have "length ?ls = length (gs_Levels g)" using apply_direction_form list_all2_lengthD by metis
  moreover have "take (nat ?t) (map lv_Side ?ls) = replicate (nat ?t) ''buy''" if "gs_CurrentDirection g = DirLongBias"
    using long_bias_sides [of 0 ?t 0 "int (length (gs_Levels g)) - ?t" "gs_Levels g" price] t ls that by simp
  ultimately show ?thesis by (simp add: Let_def)
qed

definition empty_level :: grid_level where
  "empty_level = \<lparr>lv_Index = 0, lv_Price = Fin 100, lv_State = ''empty'', lv_Side = ''buy'', lv_OrderID = '''', lv_OrderQuantity = 0,
     lv_PositionSize = 0, lv_PositionEntry = 0, lv_AllocatedUSD = 0, lv_UnrealizedPnL = 0\<rparr>"

definition biased_grid :: grid_state where
  "biased_grid = (NewGridState btc_grid)\<lparr>gs_CurrentDirection := DirLongBias, gs_Levels := replicate 10 empty_level\<rparr>"

theorem bias_share_exact_witness:
  "int (buys (gs_Levels (applyGridDirection (Fin 100) biased_grid))) = target_buys biased_grid"
proof -
  have "gs_CurrentDirection biased_grid \<in> {DirLongBias, DirShortBias}" "int (length (gs_Levels biased_grid)) \<le> 2 ^ 53"
    "gc_DirectionBiasRatio (gs_Config biased_grid) \<noteq> NaN"
    by (simp_all add: biased_grid_def NewGridState_def btc_grid_def)
  from bias_share_exact [OF this] show ?thesis by (simp add: Let_def)
qed

text \<open>
  C14: what an order may cost.  An order that was placed at a positive price, by a grid with a positive
  investment, asked for no more than the share of its level; without one of the two it asked for the
  quantity of the decision.  In either case it stays, with the open position and the pending orders,
  within the investment times the leverage, and its level keeps the quantity of the decision, not the one
  that was sent.
\<close>

theorem order_within_share:
  assumes placed: "placeGridLimitOrder X c side d w = (None, w')"
  shows "let ls = gs_Levels (gw_g w); (r, x1) = gx_GetPositions X (gw_x w);
             held = (case r of Inl e \<Rightarrow> 0 | Inr ps \<Rightarrow> mark_value (kd_Symbol d) ps); q = capped_quantity c ls d
         in (if 0 < kd_Price d \<and> 0 < gc_TotalInvestment c then \<not> q > max_quantity c ls d else q = kd_Quantity d) \<and>
            held + pending_value ls + q * kd_Price d \<le> max_total c \<and>
            (\<exists>oid. place_limit X (limit_request c side d q (gx_Now X x1)) x1 = (Inr oid, gw_x w') \<and>
               (\<forall>l. level_at ls (kd_LevelIndex d) = Some l \<longrightarrow>
                  gs_Levels (gw_g w') ! nat (kd_LevelIndex d) =
                  l\<lparr>lv_State := ''pending'', lv_OrderID := oid, lv_OrderQuantity := kd_Quantity d\<rparr>))"
proof -
  let ?ls = "gs_Levels (gw_g w)" and ?q = "capped_quantity c (gs_Levels (gw_g w)) d"
  obtain r x1 where 1: "gx_GetPositions X (gw_x w) = (r, x1)" by (rule prod.exhaust)
  let ?held = "case r of Inl e \<Rightarrow> 0 | Inr ps \<Rightarrow> mark_value (kd_Symbol d) ps"
  obtain r2 x2 where 2: "place_limit X (limit_request c side d ?q (gx_Now X x1)) x1 = (r2, x2)" by (rule prod.exhaust)
  have cap: "if 0 < kd_Price d \<and> 0 < gc_TotalInvestment c then \<not> ?q > max_quantity c ?ls d else ?q = kd_Quantity d"
    by (auto simp: capped_quantity_def)
  have ok: "?held + pending_value ?ls + ?q * kd_Price d \<le> max_total c"
    and w': "\<exists>oid. r2 = Inr oid \<and> w' = upd_g (book_order d oid) (w\<lparr>gw_x := x2\<rparr>)"
    using placed 2 by (auto simp: placeGridLimitOrder_def checkTotalPositionLimit_def gcall_def 1 Let_def split: if_splits sum.splits)
  from w' obtain oid where o': "r2 = Inr oid" "w' = upd_g (book_order d oid) (w\<lparr>gw_x := x2\<rparr>)" by blast
  have "gs_Levels (gw_g w') ! nat (kd_LevelIndex d) = l\<lparr>lv_State := ''pending'', lv_OrderID := oid, lv_OrderQuantity := kd_Quantity d\<rparr>"
    if "level_at ?ls (kd_LevelIndex d) = Some l" for l
    using that o'(2) level_at_Some [THEN iffD1, OF that] by (simp add: book_order_def)
  then show ?thesis using cap ok 2 o' by (simp add: 1 Let_def)
qed

definition greedy :: kdecision where
  "greedy = zero_decision\<lparr>kd_Symbol := ''BTCUSDT'', kd_Action := ''place_buy_limit'', kd_Price := Fin 100, kd_Quantity := Fin 64\<rparr>"

theorem order_within_share_witness:
  "\<exists>w'. placeGridLimitOrder (flat_outside []) btc_grid ''BUY'' greedy \<lparr>gw_x = (), gw_g = (NewGridState btc_grid)\<lparr>gs_Levels := [empty_level]\<rparr>\<rparr> =
     (None, w') \<and> lv_OrderQuantity (gs_Levels (gw_g w') ! 0) = Fin 64 \<and> capped_quantity btc_grid [empty_level] greedy = Fin 2"
proof -
  let ?w = "\<lparr>gw_x = (), gw_g = (NewGridState btc_grid)\<lparr>gs_Levels := [empty_level]\<rparr>\<rparr>"
  have m: "max_quantity btc_grid [empty_level] greedy = Fin 2"
    by (simp add: max_quantity_def btc_grid_def greedy_def zero_decision_def level_at_def empty_level_def f64_eval zero_f64_def)
  then have q: "capped_quantity btc_grid [empty_level] greedy = Fin 2"
    by (simp add: capped_quantity_def greedy_def btc_grid_def zero_f64_def)
  have s: "\<not> above_safety btc_grid greedy (Fin 2)"
    by (simp add: above_safety_def btc_grid_def greedy_def f64_eval zero_f64_def)
  have t: "0 + pending_value [empty_level] + Fin 2 * kd_Price greedy \<le> max_total btc_grid"
    by (simp add: pending_value_def empty_level_def greedy_def max_total_def btc_grid_def f64_eval zero_f64_def)
  have "\<exists>w'. placeGridLimitOrder (flat_outside []) btc_grid ''BUY'' greedy ?w = (None, w')"
    using s t by (simp add: placeGridLimitOrder_def checkTotalPositionLimit_def gcall_def flat_outside_def place_limit_def q
        Let_def mark_value_def)
  then obtain w' where w': "placeGridLimitOrder (flat_outside []) btc_grid ''BUY'' greedy ?w = (None, w')" by blast
  have "0 < kd_Price greedy" "0 < gc_TotalInvestment btc_grid" "kd_Quantity greedy = Fin 64" "kd_LevelIndex greedy = 0"
    by (simp_all add: greedy_def btc_grid_def zero_f64_def zero_decision_def)
  with order_within_share [OF w'] have "lv_OrderQuantity (gs_Levels (gw_g w') ! 0) = Fin 64"
    by (auto simp: Let_def level_at_def split: prod.splits)
  then show ?thesis using w' q by blast
qed

text \<open>
  what adjusting the grid forgets.  After \<open>adjust_grid\<close> every level is empty, the filled ones
  included, and the bounds and the spacing are what they were: only the sides and the shares are
  computed again.
\<close>

theorem adjust_forgets_positions:
  assumes "adjustGrid X c w = (None, w')"
  shows "list_all (\<lambda>l. lv_State l = ''empty'' \<and> lv_PositionSize l = 0) (gs_Levels (gw_g w')) \<and>
    gs_UpperPrice (gw_g w') = gs_UpperPrice (gw_g w) \<and> gs_LowerPrice (gw_g w') = gs_LowerPrice (gw_g w) \<and>
    gs_GridSpacing (gw_g w') = gs_GridSpacing (gw_g w) \<and> map lv_Price (gs_Levels (gw_g w')) =
      map (level_price (gw_g w)) [0..<nat (gc_GridCount c)]"
proof -
  let ?f = "\<lambda>g. (gs_UpperPrice g, gs_LowerPrice g, gs_GridSpacing g)"
  obtain e1 w1 where 1: "cancelAllGridOrders X c w = (e1, w1)" by (rule prod.exhaust)
  have f1: "?f (gw_g w1) = ?f (gw_g w)"
    using 1 by (auto simp: cancelAllGridOrders_def gcall_def upd_g_def reset_pending_def split: prod.splits option.splits)
  obtain r w2 where 2: "gcall (gx_MarketPrice X (gc_Symbol c)) w1 = (r, w2)" by (rule prod.exhaust)
  have g2: "gw_g w2 = gw_g w1" using gcall_split [OF 2] .
  obtain price where r: "r = Inr price" using assms by (cases r) (simp_all add: adjustGrid_def 1 2)
  let ?g = "(gw_g w1)\<lparr>gs_Levels := make_levels (gx_Exp X) c price (gw_g w1)\<rparr>"
  have "gw_g w' = (if gc_EnableDirectionAdjust c then applyGridDirection price ?g else ?g)"
    using assms by (auto simp: adjustGrid_def 1 2 r initializeGridLevels_def g2 Let_def split: if_splits)
  moreover have "?f (applyGridDirection price ?g) = ?f (gw_g w1)" by (simp add: applyGridDirection_def Let_def)
  moreover have "list_all (\<lambda>l. lv_State l = ''empty'' \<and> lv_PositionSize l = 0) (gs_Levels ?g)"
    by (simp add: make_levels_def Let_def list_all_iff make_level_def)
  moreover have "map lv_Price (gs_Levels ?g) = map (level_price (gw_g w)) [0..<nat (gc_GridCount c)]"
    using f1 by (simp add: make_levels_def Let_def make_level_def level_price_def comp_def)
  moreover have "list_all (\<lambda>l. lv_State l = ''empty'' \<and> lv_PositionSize l = 0) (gs_Levels ?g) \<longrightarrow>
      list_all (\<lambda>l. lv_State l = ''empty'' \<and> lv_PositionSize l = 0) (gs_Levels (applyGridDirection price ?g))"
    "map lv_Price (gs_Levels (applyGridDirection price ?g)) = map lv_Price (gs_Levels ?g)"
    using apply_direction_form [of ?g price]
    by (auto simp: list_all2_conv_all_nth list_all_length resided_def intro!: nth_equalityI)
  ultimately show ?thesis using f1 by auto
qed

definition filled_grid :: grid_state where
  "filled_grid = (NewGridState btc_grid)\<lparr>gs_Levels := [empty_level\<lparr>lv_State := ''filled'', lv_PositionSize := 1, lv_PositionEntry := Fin 100\<rparr>]\<rparr>"

theorem adjust_forgets_positions_witness:
  "\<exists>w'. adjustGrid (flat_outside []) btc_grid \<lparr>gw_x = (), gw_g = filled_grid\<rparr> = (None, w') \<and>
     list_all (\<lambda>l. lv_State l = ''empty'' \<and> lv_PositionSize l = 0) (gs_Levels (gw_g w'))"
proof -
  have "fst (adjustGrid (flat_outside []) btc_grid \<lparr>gw_x = (), gw_g = filled_grid\<rparr>) = None"
    by (simp add: adjustGrid_def cancelAllGridOrders_def gcall_def flat_outside_def initializeGridLevels_def btc_grid_def Let_def split: prod.split)
  then obtain w' where w': "adjustGrid (flat_outside []) btc_grid \<lparr>gw_x = (), gw_g = filled_grid\<rparr> = (None, w')"
    by (metis prod.collapse)
  from adjust_forgets_positions [OF this] w' show ?thesis by blast
qed

text \<open>Orders that are gone share one verdict: one position larger than expected fills them all.\<close>

lemma reconcile_verdict:
  "\<exists>larger. gs_Levels (reconcile active cur g) = map (\<lambda>l. if vanished active l then resolved larger l else l) (gs_Levels g) \<and>
     gs_TotalTrades (reconcile active cur g) =
       gs_TotalTrades g + (if larger then int (length (filter (vanished active) (gs_Levels g))) else 0)"
  by (rule exI [of _ "\<bar>cur\<bar> > \<bar>expected_size (gs_Levels g)\<bar>"]) (simp add: reconcile_def Let_def)

text \<open>A cancelled order stays in the book: the key that is deleted is the emptied one.\<close>

lemma cancelled_stays_booked:
  assumes "\<not> \<bar>cur\<bar> > \<bar>expected_size (gs_Levels g)\<bar>" "k \<noteq> ''''"
  shows "map_of (gs_OrderBook (reconcile active cur g)) k = map_of (gs_OrderBook g) k"
proof -
  have "map_of (foldl (\<lambda>m l. mdel (lv_OrderID (resolved False l)) m) b ls) k = map_of b k" for b and ls :: "grid_level list"
    using assms(2) by (induction ls arbitrary: b) (simp_all add: resolved_def emptied_def)
  then show ?thesis using assms(1) by (simp add: reconcile_def Let_def)
qed

text \<open>Without the positions, the limit on them only sees the pending orders.\<close>

lemma limit_without_positions:
  assumes "gx_GetPositions X (gw_x w) = (Inl e, x)"
  shows "fst (fst (checkTotalPositionLimit X c sy v w)) \<longleftrightarrow> 0 + pending_value (gs_Levels (gw_g w)) + v \<le> max_total c"
  by (simp add: checkTotalPositionLimit_def gcall_def assms Let_def)

text \<open>The stop loss closes the filled levels whose loss reached the limit, and no others.\<close>

lemma stop_loss_levels:
  "list_all2 stopped_or_same (gs_Levels (gw_g w)) (gs_Levels (gw_g (checkAndExecuteStopLoss X c w)))"
proof -
  have same: "list_all2 stopped_or_same ls ls" for ls by (simp add: list.rel_refl stopped_or_same_def)
  obtain r w1 where 1: "gcall (gx_MarketPrice X (gc_Symbol c)) w = (r, w1)" by (rule prod.exhaust)
  have g: "gw_g w1 = gw_g w" using gcall_split [OF 1] .
  show ?thesis
  proof (cases r)
    case (Inr price)
    obtain ls w2 where 2: "stop_levels X c price (gs_Levels (gw_g w1)) w1 = (ls, w2)" by (rule prod.exhaust)
    have "grid_invariant X (\<lambda>_ _. True)" by unfold_locales auto
    from grid_invariant.stop_levels_keep [OF this 2] g have "list_all2 stopped_or_same (gs_Levels (gw_g w)) ls" by simp
    then show ?thesis by (simp add: checkAndExecuteStopLoss_def 1 Inr 2 [unfolded g] same g)
  qed (simp add: checkAndExecuteStopLoss_def 1 g same)
qed

end
