(* ===== verification/Spec2Isabelle.thy ===== *)
theory Spec2Isabelle
  imports Trader_Books Trader_Sell Trader_Correct Telemetry Sim_Persist Server_Claims
    Fut_Stats Fut_Rebuild Cycle_Correct Grid_Correct
begin

text \<open>
  A verification development of the two traders of this repository: the one for prediction markets,
  and the core of the one for futures.

  \<^bold>\<open>The prediction trader.\<close>  A user's prediction trader is a row of \<open>prediction_traders\<close>.  The manager
  (\<open>src/manager/prediction_manager.go\<close>) turns the row into an object that holds a venue, a risk gate
  and, unless it only follows rules, a client of a language model, and runs it in a goroutine.
  Every few minutes the object runs a cycle (\<open>src/prediction/trader\<close>): it reads its collateral, its
  positions and the candidate markets from the venue, asks the rule engine, the model or both
  (\<open>src/prediction/engine\<close>) for decisions, sorts them, and executes each one that the gate
  (\<open>src/prediction/risk\<close>) approves.  The venue is simulated (\<open>src/prediction/sim\<close>) or the client of
  Polymarket (\<open>src/prediction/polymarket\<close>), which in preview mode signs orders and does not post them.
  Cycles, orders, audit records, the day's volume and the simulated ledger are rows of the store
  (\<open>src/store/prediction*.go\<close>).  The HTTP handlers (\<open>src/api/handler_prediction.go\<close>) create, change,
  start, stop and delete traders and redeem or cancel on their behalf.

  \<^bold>\<open>The futures trader.\<close>  An \<open>AutoTrader\<close> (\<open>src/trader/auto_trader*.go\<close>) runs a cycle of its own: it builds a
  context of balance, positions and candidates from its exchange, asks a language model
  (\<open>src/kernel\<close>), sorts the decisions, keeps those within the universe of its strategy
  (\<open>src/store/strategy.go\<close>), and opens and closes positions under the limits of the strategy.  What it does it
  records as orders, fills, positions and decisions (\<open>src/store/order.go\<close>, \<open>src/store/position*.go\<close>); a monitor
  closes positions whose profit has fallen back.  A trader whose strategy is a grid runs another cycle
  (\<open>trader/auto_trader_grid*.go\<close>): a ladder of price levels with limit orders, adjusted by a model, stop
  losses per level, and boxes of past prices whose breakouts should reduce, pause or turn the grid.

  \<^bold>\<open>Foundations.\<close>  \<open>Float64\<close> is binary64 with its rounding, \<open>Go_Strconv\<close>, \<open>Go_Time\<close> and \<open>Go_Net\<close>
  are what the code uses of the standard library, and \<open>Prelude\<close> holds Go strings, Go maps with an
  explicit range order, and the locales \<open>keyed_ops\<close> and \<open>guarded_ops\<close> that carry an invariant over a
  run of operations.

  \<^bold>\<open>Components.\<close>
  \<^item> \<open>Pred_Types\<close>, \<open>Pred_Config\<close>, \<open>Pred_Venue\<close>: the data of \<open>prediction/types\<close> and \<open>prediction/config\<close>;
    the Go interface \<open>PredictionVenue\<close> is a record of operations, its contract the locales
    \<open>fill_venue\<close> and \<open>trading_venue\<close>.
  \<^item> \<open>Risk_Gate\<close>: \<open>risk/gate.go\<close>.  The gate is a record, each check returns the error of the code, and
    the two budgets (daily volume, exposure of a market) are interpretations of one locale.
  \<^item> \<open>Sim_Fill\<close>, \<open>Sim_Ledger\<close>, \<open>Sim_Venue\<close>, \<open>Sim_Ops\<close>, \<open>Sim_Persist\<close>: \<open>prediction/sim\<close>: at what price an
    order fills, the ledger it changes, the venue built on both, and how the ledger is stored.
  \<^item> \<open>PM_Config\<close>, \<open>PM_Sign\<close>, \<open>PM_Market\<close>, \<open>PM_Orders\<close>, \<open>PM_Redeem\<close>, \<open>PM_Ops\<close>, \<open>PM_Correct\<close>:
    \<open>prediction/polymarket\<close>.  A web is a state of the servers with one answer function; every request
    the client sends is a step of it.
  \<^item> \<open>Spot\<close>, \<open>Engine_Rules\<close>, \<open>Engine_Analysis\<close>: \<open>prediction/spot\<close> and \<open>prediction/engine\<close>.
  \<^item> \<open>Telemetry\<close>: the bounded feed of \<open>prediction/telemetry\<close>.
  \<^item> \<open>Pred_Trader\<close>, \<open>Pred_Cycle\<close>: \<open>prediction/trader\<close>: one decision, and one cycle.  \<open>Trader_Correct\<close>,
    \<open>Trader_Sell\<close>, \<open>Trader_Books\<close> hold what is proved of them on every venue or on the simulated one,
    \<open>Live_Correct\<close> what is proved of them on the live client.
  \<^item> \<open>Pred_Store\<close>: \<open>store/prediction*.go\<close> over a record of table operations, one per SQL statement.
  \<^item> \<open>Pred_Manager\<close>, \<open>Pred_Api\<close>: \<open>manager/prediction_*.go\<close>, \<open>api/prediction_guard.go\<close>,
    \<open>api/prediction_redact.go\<close> and the handlers.  The objects live in a heap with addresses, the
    goroutines are a list of tasks, so that an object that was unregistered while its goroutine had
    not begun can be spoken of.  \<open>Api_Correct\<close> and \<open>Server_Claims\<close> take requests and goroutine steps as
    events and prove what no sequence of them can do.
  \<^item> \<open>Symbols\<close>: the names of instruments (\<open>provider/hyperliquid/kline.go\<close>, \<open>Normalize\<close> of \<open>market/data.go\<close>).
  \<^item> \<open>Fut_Strategy\<close>: \<open>store/strategy.go\<close>: the configuration, its clamping, schema, patches and token
    estimate, and the table of strategies.
  \<^item> \<open>Fut_Kernel\<close>: \<open>kernel/engine_position.go\<close> and \<open>kernel/engine_analysis.go\<close>: parsing and validating the
    answer of the model.
  \<^item> \<open>Fut_Positions\<close>, \<open>Fut_Stats\<close>, \<open>Fut_Rebuild\<close>, \<open>Fut_Store\<close>: the rows of positions and the builder that
    merges and closes trades, the statistics of what was closed, positions rebuilt from a list of
    trades (\<open>trader/position_rebuild.go\<close>), and the tables of orders, equity, charges and decisions.
  \<^item> \<open>Fut_Trader\<close>: opening and closing a position, recording and polling orders, and the drawdown
    monitor (\<open>trader/auto_trader_orders.go\<close>, \<open>auto_trader_decision.go\<close>, \<open>auto_trader_risk.go\<close>).  The exchange is a
    record of functions on a state of the outside; a panic of the code is an error value.
  \<^item> \<open>Fut_Loop\<close>: the cycle (\<open>trader/auto_trader_loop.go\<close>); \<open>Cycle_Correct\<close>: what it leaves in the database.
  \<^item> \<open>Fut_Market\<close>: candles, indicators, boxes and snapshots (\<open>market/data*.go\<close>, \<open>market/timeframe.go\<close>,
    \<open>market/historical.go\<close>); \<open>Market_Correct\<close> what is proved of them.  A range of candles is fetched by a
    \<open>partial_function\<close>, so that not returning is a value.
  \<^item> \<open>Fut_Regime\<close>, \<open>Fut_Grid\<close>: regimes and breakouts (\<open>trader/grid_regime.go\<close>), the state of the grid and every operation of its cycle.  In \<open>Grid_Correct\<close> the
    locale \<open>grid_invariant\<close> asks of an assertion that each elementary change of the grid keeps it, and
    concludes that any number of cycles do.

  \<^bold>\<open>What the theorems show.\<close>  Nothing is traded that the gate did not approve in the form in which it
  is sent; volume and exposure stay within their limits over any run; the gate, the trader and the
  store agree on the day's volume through cycles and restarts; the simulated ledger is not
  overdrawn beyond its tolerance and survives a restart; a client in preview mode, and any trader whose row is not live,
  sends no order; redemptions end after boundedly many requests; a server with live trading off
  stays without it, and users cannot touch each other's traders.  Where the code does not do what
  it means to, the theorem says what it does: stopping does not abort a cycle, an orphaned object
  cannot be stopped, a start-up revives live traders, the ban on uploaded keys can be bypassed,
  rounding to the tick spends more than was approved.

  Of the futures trader: what reaches the exchange is valid, within the universe and the limits of the
  strategy, and closings come first; the builder keeps one open row per position; configurations are
  clamped, patched and activated as described.  And again: safe mode holds nothing back, the
  pause after losses cannot happen, unfilled orders are booked, the check of reward against risk
  rejects nothing in the range of real prices, the current streak is the oldest one.  Of the grid: its ladder stays well formed and its orders
  within the share of their level where price and investment are positive; but the boxes contain the current candle, so no breakout is ever
  seen, a pause is gone with the next cycle that can read the candles of its box, and bounds from the average true range are never computed.

  \<^bold>\<open>Bounds.\<close>  No definition needs fuel that could run out: the loops of the code that poll
  (\<open>confirmedFillUsd\<close>, \<open>waitConfirmed\<close>, the relayer) carry the code's own number of attempts or its
  deadline, and the termination theorems bound the requests they send.

  \<^bold>\<open>Conventions.\<close>  Go's \<open>int\<close> is \<open>int\<close> (no modelled counter comes near \<open>2^63\<close>), \<open>float64\<close> is \<open>f64\<close>,
  a time is its Unix nanoseconds (\<open>None\<close> is the zero time), an error is a value of a datatype with
  one constructor per message of the code.  Services, the chain, JSON, keccak, secp256k1, gorm and
  the range order of maps are parameters; what the code relies on of them is a named hypothesis.

  \<^bold>\<open>Not modelled.\<close>  The text of prompts and of Telegram messages, handlers that only read and render,
  locks (each method is one step), and the rest of the repository: the agent, the exchange adapters,
  the manager and the API of the futures trader, and the clients of external services.  Of the futures trader the constructor and the ticker of \<open>Run\<close> are left out, of its strategies
  and prompts the Chinese texts.
\<close>

end
